(* ===== verification/Prelude.thy ===== *)
theory Prelude
  imports Main "HOL-Library.Sublist" "HOL-Library.Word"
begin

text \<open>
  Shared vocabulary of the development: Go's run-time panics as values, Go strings and byte
  slices (both are lists of 8-bit characters), slicing, the parts of the packages
  \<^verbatim>\<open>strings\<close> and \<^verbatim>\<open>encoding/binary\<close> that the framework uses, and generic lemmas on lists
  and maps. A Go function that may panic has a result of type \<open>gopanic + 'a\<close>; one that
  returns an error has its own error datatype.
\<close>

named_theorems go_simps \<open>unfolding rules for the definitions of the model\<close>
named_theorems text_simps \<open>rewriting rules for the string functions of the standard library\<close>

subsection \<open>Panics\<close>

datatype gopanic =
    SliceBounds            \<comment> \<open>slice bounds out of range\<close>
  | IndexOutOfRange        \<comment> \<open>index out of range\<close>
  | NilDereference         \<comment> \<open>nil pointer dereference or call through a nil type\<close>
  | TypeAssertion          \<comment> \<open>failed single-value type assertion\<close>
  | ExplicitPanic string   \<comment> \<open>\<^verbatim>\<open>panic(msg)\<close>\<close>

type_synonym 'a outcome = "gopanic + 'a"

definition returns :: "'a outcome \<Rightarrow> bool" where
  "returns r = (case r of Inl _ \<Rightarrow> False | Inr _ \<Rightarrow> True)"

lemma returns_simps [simp]: "returns (Inr x)" "\<not> returns (Inl e)"
  by (simp_all add: returns_def)

text \<open>Bytes of Go strings: \<^verbatim>\<open>s[i:j]\<close> and \<^verbatim>\<open>s[i]\<close> with their bounds checks.\<close>

definition slice :: "'a list \<Rightarrow> nat \<Rightarrow> nat \<Rightarrow> 'a list outcome" where
  "slice xs i j = (if i \<le> j \<and> j \<le> length xs then Inr (take (j - i) (drop i xs)) else Inl SliceBounds)"

definition at_index :: "'a list \<Rightarrow> nat \<Rightarrow> 'a outcome" where
  "at_index xs i = (if i < length xs then Inr (xs ! i) else Inl IndexOutOfRange)"

lemma slice_append [simp]: "slice (xs @ ys) 0 (length xs) = Inr xs"
  by (simp add: slice_def)

subsection \<open>ASCII letters, \<^verbatim>\<open>strings.ToUpper\<close> and \<^verbatim>\<open>strings.ToLower\<close>\<close>

text \<open>
  The code applies the case mappings to identifiers, HTTP methods, host names and level names.
  The model is exact on ASCII text, where the standard library maps byte by byte.
\<close>

definition is_upper :: "char \<Rightarrow> bool" where
  "is_upper c = (65 \<le> (of_char c :: nat) \<and> (of_char c :: nat) \<le> 90)"

definition is_lower :: "char \<Rightarrow> bool" where
  "is_lower c = (97 \<le> (of_char c :: nat) \<and> (of_char c :: nat) \<le> 122)"

definition up_char :: "char \<Rightarrow> char" where
  "up_char c = (if is_lower c then char_of ((of_char c :: nat) - 32) else c)"

definition low_char :: "char \<Rightarrow> char" where
  "low_char c = (if is_upper c then char_of ((of_char c :: nat) + 32) else c)"

definition ToUpper :: "string \<Rightarrow> string" where
  "ToUpper s = map up_char s"

definition ToLower :: "string \<Rightarrow> string" where
  "ToLower s = map low_char s"

lemma of_char_char_of_nat: "(of_char (char_of (n :: nat)) :: nat) = n mod 256"
  by simp

lemma not_lower_and_upper: "is_lower c \<Longrightarrow> \<not> is_upper c"
  by (simp add: is_lower_def is_upper_def)

lemma low_char_not_upper [simp]: "\<not> is_upper (low_char c)"
  by (auto simp: low_char_def is_upper_def)

lemma up_char_not_lower [simp]: "\<not> is_lower (up_char c)"
  by (auto simp: up_char_def is_lower_def)

lemma low_char_id: "\<not> is_upper c \<Longrightarrow> low_char c = c"
  by (simp add: low_char_def)

lemma up_char_id: "\<not> is_lower c \<Longrightarrow> up_char c = c"
  by (simp add: up_char_def)

lemma up_char_upper: "is_lower c \<Longrightarrow> is_upper (up_char c)"
  by (auto simp: up_char_def is_lower_def is_upper_def)

lemma low_up_char: "is_lower c \<Longrightarrow> low_char (up_char c) = c"
  by (auto simp: low_char_def up_char_def is_lower_def is_upper_def)

lemma low_char_idem [simp]: "low_char (low_char c) = low_char c"
  by (simp add: low_char_id)

lemma up_char_idem [simp]: "up_char (up_char c) = up_char c"
  by (simp add: up_char_id)

lemma ToUpper_idem [simp]: "ToUpper (ToUpper s) = ToUpper s"
  by (simp add: ToUpper_def)

lemma ToLower_idem [simp]: "ToLower (ToLower s) = ToLower s"
  by (simp add: ToLower_def)

lemma up_low_char [simp]: "up_char (low_char c) = up_char c"
  by (auto simp: low_char_def up_char_def is_lower_def is_upper_def)

lemma ToUpper_ToLower [simp]: "ToUpper (ToLower s) = ToUpper s"
  by (simp add: ToUpper_def ToLower_def)

lemma ToUpper_length [simp]: "length (ToUpper s) = length s"
  by (simp add: ToUpper_def)

lemma ToLower_length [simp]: "length (ToLower s) = length s"
  by (simp add: ToLower_def)

lemma ToLower_append [simp]: "ToLower (s @ t) = ToLower s @ ToLower t"
  by (simp add: ToLower_def)

lemma ToLower_Nil [simp]: "ToLower [] = []"
  by (simp add: ToLower_def)

lemma ToLower_Cons [simp]: "ToLower (c # s) = low_char c # ToLower s"
  by (simp add: ToLower_def)

lemma ToUpper_Nil [simp]: "ToUpper [] = []"
  by (simp add: ToUpper_def)

lemma ToUpper_Cons [simp]: "ToUpper (c # s) = up_char c # ToUpper s"
  by (simp add: ToUpper_def)

lemma ToLower_id: "\<forall>c \<in> set s. \<not> is_upper c \<Longrightarrow> ToLower s = s"
  by (induction s) (simp_all add: low_char_id)

subsection \<open>\<^verbatim>\<open>strings.Split\<close> and friends, for a one-byte separator\<close>

text \<open>
  \<^verbatim>\<open>strings.Split(s, sep)\<close> has one more part than \<open>s\<close> has separators;
  \<^verbatim>\<open>strings.SplitN(s, sep, n)\<close> stops after \<open>n\<close> parts, the last one unsplit.
\<close>

fun split_on :: "char \<Rightarrow> string \<Rightarrow> string list" where
  "split_on c [] = [[]]"
| "split_on c (x # xs) =
     (if x = c then [] # split_on c xs
      else (case split_on c xs of [] \<Rightarrow> [[x]] | p # ps \<Rightarrow> (x # p) # ps))"

fun split_n :: "nat \<Rightarrow> char \<Rightarrow> string \<Rightarrow> string list" where
  "split_n 0 c s = []"
| "split_n (Suc 0) c s = [s]"
| "split_n (Suc (Suc n)) c [] = [[]]"
| "split_n (Suc (Suc n)) c (x # xs) =
     (if x = c then [] # split_n (Suc n) c xs
      else (case split_n (Suc (Suc n)) c xs of [] \<Rightarrow> [[x]] | p # ps \<Rightarrow> (x # p) # ps))"

fun join_with :: "string \<Rightarrow> string list \<Rightarrow> string" where
  "join_with sep [] = []"
| "join_with sep [p] = p"
| "join_with sep (p # q # ps) = p @ sep @ join_with sep (q # ps)"

lemma split_on_not_Nil [simp]: "split_on c s \<noteq> []"
  by (cases s) (simp_all split: list.splits)

lemma split_on_no_sep: "c \<notin> set s \<Longrightarrow> split_on c s = [s]"
  by (induction s) auto

lemma split_on_sep: "c \<notin> set s \<Longrightarrow> split_on c (s @ c # t) = s # split_on c t"
  by (induction s) auto

lemma split_on_join:
  "ps \<noteq> [] \<Longrightarrow> \<forall>p \<in> set ps. c \<notin> set p \<Longrightarrow> split_on c (join_with [c] ps) = ps"
proof (induction ps)
  case Nil
  then show ?case by simp
next
  case (Cons p ps)
  then show ?case by (cases ps) (simp_all add: split_on_no_sep split_on_sep)
qed

lemma join_split_on: "join_with [c] (split_on c s) = s"
proof (induction s)
  case Nil
  then show ?case by simp
next
  case (Cons x xs)
  obtain p ps where ps: "split_on c xs = p # ps"
    by (cases "split_on c xs") auto
  with Cons show ?case by (cases ps) auto
qed

lemma split_n_Suc_not_Nil [simp]: "split_n (Suc n) c s \<noteq> []"
  by (induction "Suc n" c s arbitrary: n rule: split_n.induct) (auto split: list.splits)

lemma split_n_no_sep: "c \<notin> set s \<Longrightarrow> split_n (Suc n) c s = [s]"
  by (cases n) (simp, induction s, auto)

lemma split_n_sep:
  "c \<notin> set s \<Longrightarrow> split_n (Suc (Suc n)) c (s @ c # t) = s # split_n (Suc n) c t"
  by (induction s) auto

lemma join_split_n: "join_with [c] (split_n (Suc n) c s) = s"
proof (induction "Suc n" c s arbitrary: n rule: split_n.induct)
  case (4 n c x xs)
  obtain p ps where ps: "split_n (Suc (Suc n)) c xs = p # ps"
    by (cases "split_n (Suc (Suc n)) c xs") auto
  obtain q qs where qs: "split_n (Suc n) c xs = q # qs"
    by (cases "split_n (Suc n) c xs") auto
  show ?case
  proof (cases "x = c")
    case True
    with 4(1) qs show ?thesis by simp
  next
    case False
    with 4(2) ps show ?thesis by (cases ps) simp_all
  qed
qed simp_all

lemma split_n_count: "length (split_n (Suc n) c s) = min (Suc n) (Suc (count_list s c))"
proof (induction "Suc n" c s arbitrary: n rule: split_n.induct)
  case (4 n c x xs)
  then show ?case by (auto split: list.splits)
qed simp_all

lemma split_n_length: "length (split_n n c s) \<le> n"
proof (induction n c s rule: split_n.induct)
  case (4 n c x xs)
  then show ?case
    using split_n_Suc_not_Nil [of "Suc n" c xs] by (auto split: list.splits)
qed simp_all

subsection \<open>Trimming\<close>

definition is_space :: "char \<Rightarrow> bool" where
  "is_space c = ((of_char c :: nat) \<in> {9, 10, 11, 12, 13, 32})"

definition trim_left :: "(char \<Rightarrow> bool) \<Rightarrow> string \<Rightarrow> string" where
  "trim_left p s = dropWhile p s"

definition trim_right :: "(char \<Rightarrow> bool) \<Rightarrow> string \<Rightarrow> string" where
  "trim_right p s = rev (dropWhile p (rev s))"

definition TrimSpace :: "string \<Rightarrow> string" where
  "TrimSpace s = trim_right is_space (trim_left is_space s)"

lemma trim_right_id: "s = [] \<or> \<not> p (last s) \<Longrightarrow> trim_right p s = s"
  by (cases s rule: rev_cases) (simp_all add: trim_right_def)

lemma trim_left_id: "s = [] \<or> \<not> p (hd s) \<Longrightarrow> trim_left p s = s"
  by (cases s) (simp_all add: trim_left_def)

definition HasPrefix :: "string \<Rightarrow> string \<Rightarrow> bool" where
  "HasPrefix s p = prefix p s"

definition HasSuffix :: "string \<Rightarrow> string \<Rightarrow> bool" where
  "HasSuffix s p = suffix p s"

definition TrimPrefix :: "string \<Rightarrow> string \<Rightarrow> string" where
  "TrimPrefix s p = (if prefix p s then drop (length p) s else s)"

lemma TrimPrefix_append [simp]: "TrimPrefix (p @ s) p = s"
  by (simp add: TrimPrefix_def)

subsection \<open>Byte positions: \<^verbatim>\<open>strings.IndexByte\<close>, \<^verbatim>\<open>LastIndex\<close>, \<^verbatim>\<open>Contains\<close>\<close>

fun index_byte :: "char \<Rightarrow> string \<Rightarrow> nat option" where
  "index_byte c [] = None"
| "index_byte c (x # xs) = (if x = c then Some 0 else map_option Suc (index_byte c xs))"

definition last_index_byte :: "char \<Rightarrow> string \<Rightarrow> nat option" where
  "last_index_byte c s = map_option (\<lambda>i. length s - Suc i) (index_byte c (rev s))"

fun contains_str :: "string \<Rightarrow> string \<Rightarrow> bool" where
  "contains_str [] sub = (sub = [])"
| "contains_str (x # xs) sub = (prefix sub (x # xs) \<or> contains_str xs sub)"

lemma index_byte_None: "index_byte c s = None \<longleftrightarrow> c \<notin> set s"
  by (induction s) auto

lemma index_byte_SomeD: "index_byte c s = Some i \<Longrightarrow> i < length s \<and> s ! i = c \<and> c \<notin> set (take i s)"
  by (induction s arbitrary: i) (auto split: if_splits)

lemma contains_str_iff: "contains_str s sub \<longleftrightarrow> sublist sub s"
proof (induction s)
  case Nil
  then show ?case by simp
next
  case (Cons x xs)
  then show ?case by (simp add: sublist_Cons_right)
qed

subsection \<open>Big-endian integers: \<^verbatim>\<open>encoding/binary.BigEndian\<close>\<close>

fun be_enc :: "nat \<Rightarrow> nat \<Rightarrow> string" where
  "be_enc 0 n = []"
| "be_enc (Suc k) n = be_enc k (n div 256) @ [char_of n]"

definition be_dec :: "string \<Rightarrow> nat" where
  "be_dec bs = foldl (\<lambda>a b. a * 256 + of_char b) 0 bs"

lemma be_enc_length [simp]: "length (be_enc k n) = k"
  by (induction k arbitrary: n) simp_all

lemma be_dec_snoc [simp]: "be_dec (bs @ [b]) = be_dec bs * 256 + of_char b"
  by (simp add: be_dec_def)

lemma be_dec_Nil [simp]: "be_dec [] = 0"
  by (simp add: be_dec_def)

lemma be_dec_enc: "be_dec (be_enc k n) = n mod 256 ^ k"
proof (induction k arbitrary: n)
  case 0
  then show ?case by simp
next
  case (Suc k)
  have "n mod (256 * 256 ^ k) = 256 * (n div 256 mod 256 ^ k) + n mod 256"
    by (rule mod_mult2_eq)
  with Suc show ?case by (simp add: mult.commute)
qed

lemma be_dec_bound: "be_dec bs < 256 ^ length bs"
proof (induction bs rule: rev_induct)
  case Nil
  then show ?case by simp
next
  case (snoc b bs)
  have "Suc (be_dec bs) * 256 \<le> 256 ^ length bs * 256"
    using snoc by (intro mult_le_mono1) simp
  then have "be_dec bs * 256 + of_char b < 256 ^ length bs * 256"
    using nat_of_char_less_256 [of b] unfolding mult_Suc by linarith
  then show ?case by (simp add: mult.commute)
qed

lemma be_enc_dec: "be_enc (length bs) (be_dec bs) = bs"
proof (induction bs rule: rev_induct)
  case Nil
  then show ?case by simp
next
  case (snoc b bs)
  have "(of_char b :: nat) < 256" by simp
  moreover have "char_of (be_dec bs * 256 + of_char b) = b"
    using char_of_mod_256 [of "be_dec bs * 256 + of_char b"] by simp
  ultimately show ?case using snoc by simp
qed

definition be16 :: "16 word \<Rightarrow> string" where "be16 w = be_enc 2 (unat w)"
definition be32 :: "32 word \<Rightarrow> string" where "be32 w = be_enc 4 (unat w)"
definition be64 :: "64 word \<Rightarrow> string" where "be64 w = be_enc 8 (unat w)"
definition Uint16 :: "string \<Rightarrow> 16 word" where "Uint16 bs = of_nat (be_dec bs)"
definition Uint32 :: "string \<Rightarrow> 32 word" where "Uint32 bs = of_nat (be_dec bs)"
definition Uint64 :: "string \<Rightarrow> 64 word" where "Uint64 bs = of_nat (be_dec bs)"

lemma be_lengths [simp]: "length (be16 a) = 2" "length (be32 b) = 4" "length (be64 c) = 8"
  by (simp_all add: be16_def be32_def be64_def)

lemma Uint16_be16 [simp]: "Uint16 (be16 w) = w"
  using unsigned_less [of w, where ?'a = nat] by (simp add: Uint16_def be16_def be_dec_enc)

lemma Uint32_be32 [simp]: "Uint32 (be32 w) = w"
  using unsigned_less [of w, where ?'a = nat] by (simp add: Uint32_def be32_def be_dec_enc)

lemma Uint64_be64 [simp]: "Uint64 (be64 w) = w"
  using unsigned_less [of w, where ?'a = nat] by (simp add: Uint64_def be64_def be_dec_enc)

text \<open>Code equations over \<open>int\<close>, so that the encodings evaluate in binary.\<close>

fun be_enc_int :: "nat \<Rightarrow> int \<Rightarrow> string" where
  "be_enc_int 0 n = []"
| "be_enc_int (Suc k) n = be_enc_int k (n div 256) @ [char_of n]"

definition be_dec_int :: "string \<Rightarrow> int" where
  "be_dec_int bs = foldl (\<lambda>a b. a * 256 + of_char b) 0 bs"

lemma be_enc_int: "be_enc_int k (int n) = be_enc k n"
proof (induction k arbitrary: n)
  case (Suc k)
  have "int n div 256 = int (n div 256)" by (simp add: zdiv_int)
  moreover have "char_of (int n) = (char_of n :: char)"
    by (simp add: char_of_def bit_of_nat_iff)
  ultimately show ?case using Suc by simp
qed simp

lemma be_dec_int: "be_dec_int bs = int (be_dec bs)"
  by (induction bs rule: rev_induct) (simp_all add: be_dec_int_def of_nat_of_char)

lemma be16_code [code]: "be16 w = be_enc_int 2 (uint w)"
  by (simp add: be16_def flip: be_enc_int)

lemma be32_code [code]: "be32 w = be_enc_int 4 (uint w)"
  by (simp add: be32_def flip: be_enc_int)

lemma be64_code [code]: "be64 w = be_enc_int 8 (uint w)"
  by (simp add: be64_def flip: be_enc_int)

lemma Uint16_code [code]: "Uint16 bs = word_of_int (be_dec_int bs)"
  by (simp add: Uint16_def be_dec_int)

lemma Uint32_code [code]: "Uint32 bs = word_of_int (be_dec_int bs)"
  by (simp add: Uint32_def be_dec_int)

lemma Uint64_code [code]: "Uint64 bs = word_of_int (be_dec_int bs)"
  by (simp add: Uint64_def be_dec_int)

subsection \<open>Lists and maps\<close>

lemma map_of_append_later: "distinct (map fst (xs @ ys)) \<Longrightarrow> map_of (xs @ ys) = map_of (ys @ xs)"
  by (simp add: map_add_comm dom_map_of_conv_image_fst image_Un inf_commute)

lemma remove1_filter: "distinct xs \<Longrightarrow> remove1 x xs = filter (\<lambda>y. y \<noteq> x) xs"
  by (simp add: distinct_remove1_removeAll removeAll_filter_not_eq) (rule filter_cong, auto)

lemma take_drop_remove1:
  "distinct xs \<Longrightarrow> i < length xs \<Longrightarrow> take i xs @ drop (Suc i) xs = remove1 (xs ! i) xs"
proof (induction xs arbitrary: i)
  case Nil
  then show ?case by simp
next
  case (Cons x xs)
  then show ?case by (cases i) auto
qed

subsection \<open>\<^verbatim>\<open>strings.TrimLeft\<close> and \<^verbatim>\<open>strings.Replace\<close>\<close>

definition TrimLeft :: "string \<Rightarrow> string \<Rightarrow> string" where
  "TrimLeft s cutset = dropWhile (\<lambda>c. c \<in> set cutset) s"

text \<open>\<^verbatim>\<open>strings.Replace(s, old, new, -1)\<close> for a non-empty \<open>old\<close>.\<close>

function replace_all :: "string \<Rightarrow> string \<Rightarrow> string \<Rightarrow> string" where
  "replace_all old new s =
     (if old = [] \<or> s = [] then s
      else if prefix old s then new @ replace_all old new (drop (length old) s)
      else hd s # replace_all old new (tl s))"
  by pat_completeness auto
termination
  by (relation "measure (\<lambda>(old, new, s). length s)") (auto simp: length_greater_0_conv [symmetric] simp del: length_greater_0_conv)

declare replace_all.simps [simp del]

fun replace_first :: "string \<Rightarrow> string \<Rightarrow> string \<Rightarrow> string" where
  "replace_first old new [] = (if old = [] then new else [])"
| "replace_first old new (c # cs) =
     (if prefix old (c # cs) then new @ drop (length old) (c # cs) else c # replace_first old new cs)"

end
