(* ===== verification/Kv_Record.thy ===== *)
theory Kv_Record
  imports Prelude
begin

text \<open>
  \<^verbatim>\<open>src/utility/kvstore.go\<close>: the record format of the block store. A record is a 10-byte header
  (magic number, key length, value length, big endian) followed by key and value. Lengths are
  \<^verbatim>\<open>uint32\<close> and every sum of them wraps around, as in the code. The file behind a reader is
  the list of its bytes; a read of a regular file delivers the bytes that are left, up to the
  size of the buffer, and \<^verbatim>\<open>io.EOF\<close> when nothing is left.
\<close>

datatype kv_error = errIllegalMagicNumber | errInvalidLength | kv_EOF | kv_Seek

definition KVSTORE_MAGIC_NUM :: "16 word" where
  "KVSTORE_MAGIC_NUM = 0xF96E"

record KvstoreData =
  magicNumber :: "16 word"
  keyLength :: "32 word"
  valueLength :: "32 word"
  keyContent :: string
  valueContent :: string

definition NewKvstoreData :: "string \<Rightarrow> string \<Rightarrow> KvstoreData" where
  "NewKvstoreData key value =
     \<lparr>magicNumber = KVSTORE_MAGIC_NUM, keyLength = of_nat (length key),
      valueLength = of_nat (length value), keyContent = key, valueContent = value\<rparr>"

definition kv_KeyLength :: "KvstoreData \<Rightarrow> 32 word" where "kv_KeyLength d = keyLength d"
definition kv_Key :: "KvstoreData \<Rightarrow> string" where "kv_Key d = keyContent d"
definition kv_ValueOffset :: "KvstoreData \<Rightarrow> 32 word" where "kv_ValueOffset d = 10 + keyLength d"
definition kv_ValueLength :: "KvstoreData \<Rightarrow> 32 word" where "kv_ValueLength d = valueLength d"
definition kv_Value :: "KvstoreData \<Rightarrow> string" where "kv_Value d = valueContent d"

definition kv_Size :: "KvstoreData \<Rightarrow> 32 word" where
  "kv_Size d = 10 + keyLength d + valueLength d"

definition kv_MarshalBinary :: "KvstoreData \<Rightarrow> kv_error + string" where
  "kv_MarshalBinary d =
     (if magicNumber d \<noteq> KVSTORE_MAGIC_NUM then Inl errIllegalMagicNumber
      else Inr (be16 (magicNumber d) @ be32 (keyLength d) @ be32 (valueLength d)
                @ keyContent d @ valueContent d))"

text \<open>
  The slices \<^verbatim>\<open>data[10:10+keyLength]\<close> and \<^verbatim>\<open>data[10+keyLength:10+keyLength+valueLength]\<close> take
  their bounds from wrapped sums, so they may panic although the length test passed.
\<close>

definition kv_UnmarshalBinary :: "string \<Rightarrow> (kv_error + KvstoreData) outcome" where
  "kv_UnmarshalBinary bs =
     (if length bs < 10 then Inr (Inl errInvalidLength)
      else if Uint16 (take 2 bs) \<noteq> KVSTORE_MAGIC_NUM then Inr (Inl errIllegalMagicNumber)
      else
        let kl = Uint32 (take 4 (drop 2 bs)); vl = Uint32 (take 4 (drop 6 bs)) in
        if (of_nat (length bs) :: 32 word) < 10 + kl + vl then Inr (Inl errInvalidLength)
        else (case slice bs 10 (unat (10 + kl)) of
                Inl p \<Rightarrow> Inl p
              | Inr k \<Rightarrow>
                  (case slice bs (unat (10 + kl)) (unat (10 + kl + vl)) of
                     Inl p \<Rightarrow> Inl p
                   | Inr v \<Rightarrow> Inr (Inr \<lparr>magicNumber = Uint16 (take 2 bs), keyLength = kl,
                                       valueLength = vl, keyContent = k, valueContent = v\<rparr>))))"

subsection \<open>The reader and the writer\<close>

text \<open>The loop that fills the rest of the record; \<open>rest\<close> is what the file still has.\<close>

fun read_loop :: "string \<Rightarrow> nat \<Rightarrow> kv_error + string" where
  "read_loop rest need =
     (if need = 0 then Inr []
      else if rest = [] then Inl kv_EOF
      else (let n = min need (length rest) in
            case read_loop (drop n rest) (need - n) of
              Inl e \<Rightarrow> Inl e
            | Inr bs \<Rightarrow> Inr (take n rest @ bs)))"

declare read_loop.simps [simp del]

text \<open>
  \<^verbatim>\<open>Kvstore.get\<close>: the byte count of the first read is dropped, so a header cut short by the
  end of the file is completed with zero bytes. An offset from \<open>2 ^ 63\<close> on is a negative
  \<^verbatim>\<open>int64\<close>, which \<^verbatim>\<open>Seek\<close> refuses. \<^verbatim>\<open>data[overheadLength:]\<close> panics when the
  wrapped total is below 10.
\<close>

definition kv_get :: "string \<Rightarrow> 64 word \<Rightarrow> (kv_error + string) outcome" where
  "kv_get file offset =
     (if (0x8000000000000000 :: 64 word) \<le> offset then Inr (Inl kv_Seek)
      else
        let rest = drop (unat offset) file in
        if rest = [] then Inr (Inl kv_EOF)
        else
          let buf = take 10 rest @ replicate (10 - length rest) (char_of (0 :: nat));
              kl = Uint32 (take 4 (drop 2 buf)); vl = Uint32 (take 4 (drop 6 buf));
              total = unat (10 + kl + vl)
          in if total < 10 then Inl SliceBounds
             else Inr (case read_loop (drop 10 rest) (total - 10) of
                         Inl e \<Rightarrow> Inl e
                       | Inr body \<Rightarrow> Inr (buf @ body)))"

definition kv_Get :: "string \<Rightarrow> 64 word \<Rightarrow> (kv_error + KvstoreData) outcome" where
  "kv_Get file offset =
     (case kv_get file offset of
        Inl p \<Rightarrow> Inl p
      | Inr (Inl e) \<Rightarrow> Inr (Inl e)
      | Inr (Inr bs) \<Rightarrow> kv_UnmarshalBinary bs)"

text \<open>\<^verbatim>\<open>Kvstore.Set\<close> seeks to the end of the writer and writes the encoded record there.\<close>

definition kv_Set :: "KvstoreData \<Rightarrow> string \<Rightarrow> kv_error + string" where
  "kv_Set d file = (case kv_MarshalBinary d of Inl e \<Rightarrow> Inl e | Inr bs \<Rightarrow> Inr (file @ bs))"

subsection \<open>Correctness\<close>

text \<open>A record fits when its encoding is shorter than \<open>2 ^ 32\<close> bytes.\<close>

definition fits :: "string \<Rightarrow> string \<Rightarrow> bool" where
  "fits k v = (10 + length k + length v < 2 ^ 32)"

definition kv_bytes :: "string \<Rightarrow> string \<Rightarrow> string" where
  "kv_bytes k v = be16 KVSTORE_MAGIC_NUM @ be32 (of_nat (length k)) @ be32 (of_nat (length v)) @ k @ v"

lemma kv_bytes_length [simp]: "length (kv_bytes k v) = 10 + length k + length v"
  by (simp add: kv_bytes_def)

lemma kv_bytes_not_Nil [simp]: "kv_bytes k v \<noteq> []"
  by (metis kv_bytes_length length_0_conv add_is_0 zero_neq_numeral)

lemma kv_Marshal_New [simp]: "kv_MarshalBinary (NewKvstoreData k v) = Inr (kv_bytes k v)"
  by (simp add: kv_MarshalBinary_def NewKvstoreData_def kv_bytes_def)

lemma kv_Key_New [simp]: "kv_Key (NewKvstoreData k v) = k"
  by (simp add: kv_Key_def NewKvstoreData_def)

lemma kv_Value_New [simp]: "kv_Value (NewKvstoreData k v) = v"
  by (simp add: kv_Value_def NewKvstoreData_def)

lemma kv_Set_New: "kv_Set (NewKvstoreData k v) file = Inr (file @ kv_bytes k v)"
  by (simp add: kv_Set_def)

lemma unat_of_nat_small: "n < 2 ^ 32 \<Longrightarrow> unat (of_nat n :: 32 word) = n"
  by (simp add: unat_of_nat)

lemma kv_sum_words:
  assumes "fits k v"
  shows "unat (10 + of_nat (length k) :: 32 word) = 10 + length k"
    and "unat (10 + of_nat (length k) + of_nat (length v) :: 32 word) = 10 + length k + length v"
proof -
  have "(10 + of_nat (length k) :: 32 word) = of_nat (10 + length k)" by simp
  with assms show "unat (10 + of_nat (length k) :: 32 word) = 10 + length k"
    unfolding fits_def by (metis add_lessD1 unat_of_nat_small)
  have "(10 + of_nat (length k) + of_nat (length v) :: 32 word) = of_nat (10 + length k + length v)"
    by simp
  with assms show "unat (10 + of_nat (length k) + of_nat (length v) :: 32 word) = 10 + length k + length v"
    unfolding fits_def by (metis unat_of_nat_small)
qed

lemma kv_Size_New:
  assumes "fits k v"
  shows "unat (kv_Size (NewKvstoreData k v)) = length (kv_bytes k v)"
  using kv_sum_words(2) [OF assms] by (simp add: kv_Size_def NewKvstoreData_def)

lemma kv_header_fields:
  "take 2 (kv_bytes k v @ ys) = be16 KVSTORE_MAGIC_NUM"
  "take 4 (drop 2 (kv_bytes k v @ ys)) = be32 (of_nat (length k))"
  "take 4 (drop 6 (kv_bytes k v @ ys)) = be32 (of_nat (length v))"
  by (simp_all add: kv_bytes_def)

lemma kv_body_slices:
  "slice (kv_bytes k v) 10 (10 + length k) = Inr k"
  "slice (kv_bytes k v) (10 + length k) (10 + length k + length v) = Inr v"
  by (simp_all add: slice_def) (simp_all add: kv_bytes_def)

lemma kv_Unmarshal_bytes:
  assumes "fits k v"
  shows "kv_UnmarshalBinary (kv_bytes k v) = Inr (Inr (NewKvstoreData k v))"
proof -
  let ?bs = "kv_bytes k v"
  have len: "(of_nat (length ?bs) :: 32 word) = 10 + of_nat (length k) + of_nat (length v)"
    by simp
  have hdr: "take 2 ?bs = be16 KVSTORE_MAGIC_NUM" "take 4 (drop 2 ?bs) = be32 (of_nat (length k))"
    "take 4 (drop 6 ?bs) = be32 (of_nat (length v))"
    using kv_header_fields [of k v "[]"] by simp_all
  show ?thesis
    unfolding kv_UnmarshalBinary_def len hdr
    by (simp add: kv_sum_words [OF assms] kv_body_slices NewKvstoreData_def Let_def)
qed

lemma negative_int64: "(0x8000000000000000 :: 64 word) \<le> offset \<longleftrightarrow> 2 ^ 63 \<le> unat offset"
  by (simp add: word_le_nat_alt)

lemma read_loop_eq:
  "read_loop rest need = (if need \<le> length rest then Inr (take need rest) else Inl kv_EOF)"
proof (induction rest need rule: read_loop.induct)
  case (1 rest need)
  show ?case
  proof (cases "need = 0 \<or> rest = []")
    case True
    then show ?thesis by (subst read_loop.simps) auto
  next
    case False
    define n where "n = min need (length rest)"
    from False 1 have IH: "read_loop (drop n rest) (need - n) =
        (if need - n \<le> length (drop n rest) then Inr (take (need - n) (drop n rest)) else Inl kv_EOF)"
      unfolding n_def by blast
    from False have "read_loop rest need =
        (case read_loop (drop n rest) (need - n) of Inl e \<Rightarrow> Inl e | Inr bs \<Rightarrow> Inr (take n rest @ bs))"
      by (subst read_loop.simps) (simp add: Let_def flip: n_def)
    also have "\<dots> = (if need \<le> length rest then Inr (take need rest) else Inl kv_EOF)"
      unfolding IH by (auto simp: n_def min_def)
    finally show ?thesis .
  qed
qed

text \<open>Reading at the position of a record gives the record back, whatever follows it.\<close>

lemma kv_Get_at:
  assumes "fits k v" and "length pre < 2 ^ 63"
  shows "kv_Get (pre @ kv_bytes k v @ post) (of_nat (length pre)) = Inr (Inr (NewKvstoreData k v))"
proof -
  let ?off = "of_nat (length pre) :: 64 word"
  have off: "unat ?off = length pre" using assms(2) by (simp add: unat_of_nat)
  then have nonneg: "\<not> 2 ^ 63 \<le> unat ?off" using assms(2) by simp
  let ?rest = "kv_bytes k v @ post"
  have buf: "take 10 ?rest @ replicate (10 - length ?rest) (char_of (0 :: nat)) = take 10 (kv_bytes k v)"
    by simp
  have whole: "take 10 (kv_bytes k v) @ k @ v = kv_bytes k v"
    by (simp add: kv_bytes_def)
  have hdr: "take 4 (drop 2 (take 10 (kv_bytes k v))) = be32 (of_nat (length k))"
    "take 4 (drop 6 (take 10 (kv_bytes k v))) = be32 (of_nat (length v))"
    by (simp_all add: kv_bytes_def)
  have rest: "drop (unat ?off) (pre @ ?rest) = ?rest" by (simp add: off)
  have body: "read_loop (drop 10 ?rest) (10 + length k + length v - 10) = Inr (k @ v)"
    by (simp add: read_loop_eq) (simp add: kv_bytes_def)
  have "kv_get (pre @ ?rest) ?off = Inr (Inr (kv_bytes k v))"
    unfolding kv_get_def negative_int64 Let_def rest buf hdr Uint32_be32 kv_sum_words(2) [OF assms(1)] body
    using nonneg whole by simp
  then show ?thesis by (simp add: kv_Get_def kv_Unmarshal_bytes [OF assms(1)])
qed

lemma kv_Get_at_end: "kv_Get file off = Inr (Inl kv_EOF)"
  if "length file \<le> unat off" and "unat off < 2 ^ 63"
  using that by (simp add: kv_Get_def kv_get_def negative_int64)

end
