(* ===== verification/Block_Index.thy ===== *)
theory Block_Index
  imports Kv_Record
begin

text \<open>
  \<^verbatim>\<open>src/filesystem/block/index.go\<close>: the index entry of the block store (in which file, at which
  offset and with which length a record lies) and its binary form. Decoding is modelled with the
  receiver it mutates: on an error the fields written so far keep their new values.
\<close>

datatype index_error = errIndexInvalidLength

record Index =
  filenameLength :: "32 word"
  filenameContent :: string
  idx_offset :: "64 word"
  idx_length :: "32 word"

definition zero_Index :: Index where
  "zero_Index = \<lparr>filenameLength = 0, filenameContent = [], idx_offset = 0, idx_length = 0\<rparr>"

definition Index_Same :: "Index \<Rightarrow> Index \<Rightarrow> bool" where
  "Index_Same idx other =
     (if filenameLength idx = filenameLength other \<and> idx_offset idx = idx_offset other \<and>
         idx_length idx = idx_length other \<and> filenameContent idx = filenameContent other
      then True else False)"

definition NewIndex :: "string \<Rightarrow> 64 word \<Rightarrow> 32 word \<Rightarrow> Index" where
  "NewIndex filename offset len =
     \<lparr>filenameLength = of_nat (length filename), filenameContent = filename,
      idx_offset = offset, idx_length = len\<rparr>"

definition NewDelIndex :: Index where
  "NewDelIndex = NewIndex '''' 0 0"

definition IsDel :: "Index \<Rightarrow> bool" where
  "IsDel idx = (filenameLength idx = 0)"

definition Index_Filename :: "Index \<Rightarrow> string" where
  "Index_Filename idx = filenameContent idx"

definition Index_MarshalBinary :: "Index \<Rightarrow> string" where
  "Index_MarshalBinary idx =
     be32 (filenameLength idx) @ filenameContent idx @ be64 (idx_offset idx) @ be32 (idx_length idx)"

definition Index_UnmarshalBinary :: "Index \<Rightarrow> string \<Rightarrow> (index_error option \<times> Index) outcome" where
  "Index_UnmarshalBinary idx bs =
     (if length bs < 4 then Inr (Some errIndexInvalidLength, idx)
      else
        let fl = Uint32 (take 4 bs); idx1 = idx\<lparr>filenameLength := fl\<rparr> in
        if (of_nat (length bs) :: 32 word) < 4 + fl + 8 + 4 then Inr (Some errIndexInvalidLength, idx1)
        else (case slice bs 4 (unat (4 + fl)) of
                Inl p \<Rightarrow> Inl p
              | Inr content \<Rightarrow>
                  (case slice bs (unat (4 + fl)) (unat (12 + fl)) of
                     Inl p \<Rightarrow> Inl p
                   | Inr off \<Rightarrow>
                       (case slice bs (unat (12 + fl)) (unat (16 + fl)) of
                          Inl p \<Rightarrow> Inl p
                        | Inr len \<Rightarrow>
                            Inr (None, \<lparr>filenameLength = fl, filenameContent = content,
                                        idx_offset = Uint64 off, idx_length = Uint32 len\<rparr>)))))"

subsection \<open>Correctness\<close>

lemma Index_Same_iff: "Index_Same a b \<longleftrightarrow> a = b"
  by (cases a, cases b) (auto simp: Index_Same_def)

text \<open>An index is well formed when its length field is the length of its file name.\<close>

definition wf_Index :: "Index \<Rightarrow> bool" where
  "wf_Index idx = (length (filenameContent idx) < 2 ^ 31 \<and>
                   filenameLength idx = of_nat (length (filenameContent idx)))"

lemma wf_NewIndex: "length f < 2 ^ 31 \<Longrightarrow> wf_Index (NewIndex f off len)"
  by (simp add: wf_Index_def NewIndex_def)

lemma wf_NewDelIndex [simp]: "wf_Index NewDelIndex"
  by (simp add: NewDelIndex_def wf_NewIndex)

lemma IsDel_NewDelIndex [simp]: "IsDel NewDelIndex"
  by (simp add: IsDel_def NewDelIndex_def NewIndex_def)

lemma IsDel_wf: "wf_Index idx \<Longrightarrow> IsDel idx \<longleftrightarrow> filenameContent idx = []"
proof -
  assume wf: "wf_Index idx"
  then have "length (filenameContent idx) < 2 ^ 32" by (simp add: wf_Index_def)
  then have "unat (filenameLength idx) = length (filenameContent idx)"
    using wf by (simp add: wf_Index_def unat_of_nat_small)
  then show ?thesis by (metis IsDel_def length_0_conv unat_0 unat_eq_zero)
qed

lemma Index_Marshal_length [simp]:
  "length (Index_MarshalBinary idx) = 16 + length (filenameContent idx)"
  by (simp add: Index_MarshalBinary_def)

lemma small_word_sum:
  assumes "n < 2 ^ 31" and "c < 2 ^ 31"
  shows "unat (of_nat c + of_nat n :: 32 word) = c + n"
proof -
  have "c + n < 2 ^ 32" using assms by simp
  then have "unat (of_nat (c + n) :: 32 word) = c + n" by (rule unat_of_nat_small)
  then show ?thesis by simp
qed

lemma Index_Unmarshal_Marshal:
  assumes wf: "wf_Index idx"
  shows "Index_UnmarshalBinary z (Index_MarshalBinary idx) = Inr (None, idx)"
proof -
  let ?bs = "Index_MarshalBinary idx"
  define n where "n = length (filenameContent idx)"
  have n: "n < 2 ^ 31" and fl: "filenameLength idx = of_nat n"
    using wf by (simp_all add: wf_Index_def n_def)
  have sums: "unat (4 + of_nat n :: 32 word) = 4 + n" "unat (12 + of_nat n :: 32 word) = 12 + n"
    "unat (16 + of_nat n :: 32 word) = 16 + n"
    using n small_word_sum [of n 4] small_word_sum [of n 12] small_word_sum [of n 16] by simp_all
  have hdr: "Uint32 (take 4 ?bs) = of_nat n" by (simp add: Index_MarshalBinary_def fl)
  have len: "(of_nat (length ?bs) :: 32 word) = 4 + of_nat n + 8 + 4" by (simp add: n_def)
  have slices: "slice ?bs 4 (4 + n) = Inr (filenameContent idx)"
    "slice ?bs (4 + n) (12 + n) = Inr (be64 (idx_offset idx))"
    "slice ?bs (12 + n) (16 + n) = Inr (be32 (idx_length idx))"
    by (simp_all add: slice_def n_def) (simp_all add: Index_MarshalBinary_def)
  show ?thesis
    unfolding Index_UnmarshalBinary_def hdr len sums Let_def slices
    by (simp add: n_def [symmetric] fl [symmetric])
qed

end
