(* ===== verification/Path_Util.thy ===== *)
theory Path_Util
  imports Prelude
begin

text \<open>
  \<^verbatim>\<open>path/filepath.Clean\<close> and \<^verbatim>\<open>path/filepath.Join\<close> on slash-separated paths, as the block store
  uses them to build file names, and the facts about clean absolute directories it relies on.
\<close>

fun clean_comps :: "bool \<Rightarrow> string list \<Rightarrow> string list \<Rightarrow> string list" where
  "clean_comps rooted acc [] = rev acc"
| "clean_comps rooted acc (c # cs) =
     (if c = '''' \<or> c = ''.'' then clean_comps rooted acc cs
      else if c = ''..'' then
        (case acc of
           [] \<Rightarrow> clean_comps rooted (if rooted then [] else [c]) cs
         | a # as \<Rightarrow> clean_comps rooted (if a = ''..'' then c # acc else as) cs)
      else clean_comps rooted (c # acc) cs)"

definition path_Clean :: "string \<Rightarrow> string" where
  "path_Clean p =
     (if p = '''' then ''.''
      else let rooted = (hd p = CHR ''/''); cs = clean_comps rooted [] (split_on CHR ''/'' p) in
        if rooted then CHR ''/'' # join_with ''/'' cs
        else if cs = [] then ''.'' else join_with ''/'' cs)"

definition path_Dir :: "string \<Rightarrow> string" where
  "path_Dir p = path_Clean (rev (dropWhile (\<lambda>c. c \<noteq> CHR ''/'') (rev p)))"

definition path_Join :: "string \<Rightarrow> string \<Rightarrow> string" where
  "path_Join a b =
     (if a \<noteq> '''' then path_Clean (a @ ''/'' @ b)
      else if b \<noteq> '''' then path_Clean b else '''')"

definition proper_name :: "string \<Rightarrow> bool" where
  "proper_name n = (n \<noteq> '''' \<and> n \<noteq> ''.'' \<and> n \<noteq> ''..'' \<and> CHR ''/'' \<notin> set n)"

definition abs_dir :: "string \<Rightarrow> bool" where
  "abs_dir d = (\<exists>ds. ds \<noteq> [] \<and> (\<forall>c \<in> set ds. proper_name c) \<and> d = CHR ''/'' # join_with ''/'' ds)"

lemma clean_comps_proper:
  "\<forall>c \<in> set cs. proper_name c \<Longrightarrow> clean_comps r acc (cs @ ds) = clean_comps r (rev cs @ acc) ds"
  by (induction cs arbitrary: acc) (auto simp: proper_name_def)

lemma clean_comps_skip [simp]: "clean_comps r acc ([] # cs) = clean_comps r acc cs"
  by simp

lemma join_with_snoc: "ds \<noteq> [] \<Longrightarrow> join_with s (ds @ [n]) = join_with s ds @ s @ n"
proof (induction ds)
  case Nil
  then show ?case by simp
next
  case (Cons d ds)
  then show ?case by (cases ds) simp_all
qed

lemma path_Clean_proper:
  assumes "\<forall>c \<in> set cs. proper_name c"
  shows "path_Clean (CHR ''/'' # join_with ''/'' cs) = CHR ''/'' # join_with ''/'' cs"
proof (cases "cs = []")
  case True
  then show ?thesis by (simp add: path_Clean_def)
next
  case False
  with assms have "split_on CHR ''/'' (join_with ''/'' cs) = cs"
    by (intro split_on_join) (auto simp: proper_name_def)
  then show ?thesis
    using clean_comps_proper [OF assms, of True "[]" "[]"] by (simp add: path_Clean_def)
qed

lemma path_Join_abs:
  assumes d: "abs_dir d" and n: "proper_name n"
  shows "path_Join d n = d @ ''/'' @ n"
proof -
  obtain ds where ds: "ds \<noteq> []" "\<forall>c \<in> set ds. proper_name c" "d = CHR ''/'' # join_with ''/'' ds"
    using d by (auto simp: abs_dir_def)
  then have "d @ ''/'' @ n = CHR ''/'' # join_with ''/'' (ds @ [n])"
    by (simp add: join_with_snoc)
  moreover have "\<forall>c \<in> set (ds @ [n]). proper_name c" using ds n by simp
  ultimately show ?thesis
    using path_Clean_proper [of "ds @ [n]"] ds by (simp add: path_Join_def)
qed

lemma path_Join_slash:
  assumes d: "abs_dir d" and n: "proper_name n"
  shows "path_Join d (CHR ''/'' # n) = d @ ''/'' @ n"
proof -
  obtain ds where ds: "ds \<noteq> []" "\<forall>c \<in> set ds. proper_name c" "d = CHR ''/'' # join_with ''/'' ds"
    using d by (auto simp: abs_dir_def)
  have sp: "split_on CHR ''/'' (join_with ''/'' ds @ CHR ''/'' # CHR ''/'' # n) = ds @ [[], n]"
  proof -
    have "join_with ''/'' ds @ CHR ''/'' # CHR ''/'' # n = join_with ''/'' (ds @ [[], n])"
      using ds(1) join_with_snoc [of "ds @ [[]]" "''/''" n] by (simp add: join_with_snoc)
    moreover have "split_on CHR ''/'' (join_with ''/'' (ds @ [[], n])) = ds @ [[], n]"
      using ds n by (intro split_on_join) (auto simp: proper_name_def)
    ultimately show ?thesis by simp
  qed
  have n': "n \<noteq> ''''" "n \<noteq> ''.''" "n \<noteq> ''..''" using n by (auto simp: proper_name_def)
  have cc: "clean_comps True [] (ds @ [[], n]) = ds @ [n]"
    using clean_comps_proper [OF ds(2), of True "[]" "[[], n]"] n' by simp
  show ?thesis
    using ds(1,3) sp cc by (simp add: path_Join_def path_Clean_def join_with_snoc)
qed

text \<open>The name stored in an index (path minus directory) leads back to the same path.\<close>

lemma path_Join_TrimPrefix:
  assumes "abs_dir d" and "proper_name n"
  shows "path_Join d (TrimPrefix (path_Join d n) d) = path_Join d n"
  using assms by (simp add: path_Join_abs path_Join_slash)

lemma path_Join_inj:
  assumes "abs_dir d" "proper_name m" "proper_name n" "path_Join d m = path_Join d n"
  shows "m = n"
  using assms by (simp add: path_Join_abs)

end
