(* ===== verification/Block_Store.thy ===== *)
theory Block_Store
  imports Block_Index Path_Util
begin

text \<open>
  \<^verbatim>\<open>src/filesystem/block/file.go\<close> and \<^verbatim>\<open>src/filesystem/block/block.go\<close>: the append-only block
  store. The file system is explicit: names lead to inodes, inodes to bytes, so that an open
  writer survives a rename or a removal of its name, as on Unix. Opening a name may be refused
  (\<open>denied\<close>); a write to an open file succeeds and is atomic. The generated content file name
  (time stamp and random number) and the iteration order of Go maps are arguments.
\<close>

subsection \<open>The file system\<close>

datatype io_error = IoNotExist | IoDenied

datatype block_error = errNotExist | errReadSize | KvErr kv_error | IoErr io_error

record fsys =
  dirent :: "string \<Rightarrow> nat option"
  inode :: "nat \<Rightarrow> string"
  next_ino :: nat
  denied :: "string \<Rightarrow> bool"

definition OpenAppend :: "string \<Rightarrow> bool \<Rightarrow> fsys \<Rightarrow> io_error + (nat \<times> fsys)" where
  "OpenAppend path trunc fs =
     (if denied fs path then Inl IoDenied
      else (case dirent fs path of
              Some i \<Rightarrow> Inr (i, if trunc then fs\<lparr>inode := (inode fs)(i := [])\<rparr> else fs)
            | None \<Rightarrow> Inr (next_ino fs,
                fs\<lparr>dirent := (dirent fs)(path \<mapsto> next_ino fs),
                   inode := (inode fs)(next_ino fs := []), next_ino := Suc (next_ino fs)\<rparr>)))"

definition OpenRead :: "string \<Rightarrow> fsys \<Rightarrow> io_error + nat" where
  "OpenRead path fs =
     (if denied fs path then Inl IoDenied
      else (case dirent fs path of None \<Rightarrow> Inl IoNotExist | Some i \<Rightarrow> Inr i))"

definition fs_append :: "nat \<Rightarrow> string \<Rightarrow> fsys \<Rightarrow> fsys" where
  "fs_append i bs fs = fs\<lparr>inode := (inode fs)(i := inode fs i @ bs)\<rparr>"

definition fs_rename :: "string \<Rightarrow> string \<Rightarrow> fsys \<Rightarrow> fsys" where
  "fs_rename a b fs =
     (case dirent fs a of
        None \<Rightarrow> fs
      | Some i \<Rightarrow> fs\<lparr>dirent := (dirent fs)(a := None, b \<mapsto> i)\<rparr>)"

definition fs_remove :: "string \<Rightarrow> fsys \<Rightarrow> fsys" where
  "fs_remove a fs = fs\<lparr>dirent := (dirent fs)(a := None)\<rparr>"

subsection \<open>Content files\<close>

record contentWriter =
  cw_name :: string
  cw_ino :: nat
  cw_base :: string
  cw_size :: "64 word"

definition NewContentWriter :: "string \<Rightarrow> string \<Rightarrow> fsys \<Rightarrow> io_error + (contentWriter \<times> fsys)" where
  "NewContentWriter filename basepath fs =
     (case OpenAppend filename False fs of
        Inl e \<Rightarrow> Inl e
      | Inr (i, fs') \<Rightarrow>
          Inr (\<lparr>cw_name = filename, cw_ino = i, cw_base = basepath,
                cw_size = of_nat (length (inode fs' i))\<rparr>, fs'))"

definition ContentWriter_Write ::
    "contentWriter \<Rightarrow> string \<Rightarrow> string \<Rightarrow> fsys \<Rightarrow> kv_error + (Index \<times> contentWriter \<times> fsys)" where
  "ContentWriter_Write w key value fs =
     (let data = NewKvstoreData key value in
      case kv_Set data (inode fs (cw_ino w)) of
        Inl e \<Rightarrow> Inl e
      | Inr file' \<Rightarrow>
          Inr (NewIndex (TrimPrefix (cw_name w) (cw_base w)) (cw_size w) (kv_Size data),
               w\<lparr>cw_size := cw_size w + ucast (kv_Size data)\<rparr>,
               fs\<lparr>inode := (inode fs)(cw_ino w := file')\<rparr>))"

definition ContentWriter_Size :: "contentWriter \<Rightarrow> 64 word" where
  "ContentWriter_Size w = cw_size w"

definition ContentReader_Read :: "string \<Rightarrow> 64 word \<Rightarrow> 32 word \<Rightarrow> (block_error + string) outcome" where
  "ContentReader_Read file offset len =
     (case kv_Get file offset of
        Inl p \<Rightarrow> Inl p
      | Inr (Inl e) \<Rightarrow> Inr (Inl (KvErr e))
      | Inr (Inr data) \<Rightarrow>
          if kv_Size data \<noteq> len then Inr (Inl errReadSize) else Inr (Inr (kv_Value data)))"

text \<open>The sequential reader of a content file: key, index and the next offset.\<close>

definition ContentReader_SequentialRead ::
    "string \<Rightarrow> string \<Rightarrow> string \<Rightarrow> 64 word \<Rightarrow> (kv_error + (string \<times> Index \<times> 64 word)) outcome" where
  "ContentReader_SequentialRead name base file offset =
     (case kv_Get file offset of
        Inl p \<Rightarrow> Inl p
      | Inr (Inl e) \<Rightarrow> Inr (Inl e)
      | Inr (Inr data) \<Rightarrow>
          Inr (Inr (kv_Key data, NewIndex (TrimPrefix name base) offset (kv_Size data),
                    offset + ucast (kv_Size data))))"

subsection \<open>Index files\<close>

record indexWriter =
  iw_ino :: nat
  iw_buffering :: bool
  iw_buffer :: string

definition NewIndexWriter :: "string \<Rightarrow> bool \<Rightarrow> fsys \<Rightarrow> io_error + (indexWriter \<times> fsys)" where
  "NewIndexWriter filename trunc fs =
     (case OpenAppend filename trunc fs of
        Inl e \<Rightarrow> Inl e
      | Inr (i, fs') \<Rightarrow> Inr (\<lparr>iw_ino = i, iw_buffering = False, iw_buffer = []\<rparr>, fs'))"

text \<open>\<^verbatim>\<open>fileBufferWriteSeeker.Write\<close>: to the file, and to the buffer too once buffering is on.\<close>

definition iw_Write_bytes :: "indexWriter \<Rightarrow> string \<Rightarrow> fsys \<Rightarrow> indexWriter \<times> fsys" where
  "iw_Write_bytes w bs fs =
     (if iw_buffering w then w\<lparr>iw_buffer := iw_buffer w @ bs\<rparr> else w, fs_append (iw_ino w) bs fs)"

definition IndexWriter_Write ::
    "indexWriter \<Rightarrow> string \<Rightarrow> Index \<Rightarrow> fsys \<Rightarrow> kv_error + (indexWriter \<times> fsys)" where
  "IndexWriter_Write w key index fs =
     (let value = Index_MarshalBinary index; data = NewKvstoreData key value in
      case kv_MarshalBinary data of
        Inl e \<Rightarrow> Inl e
      | Inr bs \<Rightarrow> Inr (iw_Write_bytes w bs fs))"

definition WriteAndBuffered :: "indexWriter \<Rightarrow> indexWriter" where
  "WriteAndBuffered w = w\<lparr>iw_buffering := True\<rparr>"

definition BufferWriteTo :: "indexWriter \<Rightarrow> indexWriter \<Rightarrow> fsys \<Rightarrow> indexWriter \<times> indexWriter \<times> fsys" where
  "BufferWriteTo b w fs =
     (let (w', fs') = iw_Write_bytes w (iw_buffer b) fs in (b\<lparr>iw_buffer := []\<rparr>, w', fs'))"

text \<open>
  \<^verbatim>\<open>indexReader.SequentialRead\<close>: the statement \<^verbatim>\<open>if index.UnmarshalBinary(..); err != nil\<close> tests
  the error of the preceding read, so the error of the decoder is dropped.
\<close>

definition IndexReader_SequentialRead ::
    "string \<Rightarrow> 64 word \<Rightarrow> (kv_error + (string \<times> Index \<times> 64 word)) outcome" where
  "IndexReader_SequentialRead file offset =
     (case kv_Get file offset of
        Inl p \<Rightarrow> Inl p
      | Inr (Inl e) \<Rightarrow> Inr (Inl e)
      | Inr (Inr data) \<Rightarrow>
          (case Index_UnmarshalBinary zero_Index (kv_Value data) of
             Inl p \<Rightarrow> Inl p
           | Inr (_, index) \<Rightarrow> Inr (Inr (kv_Key data, index, offset + ucast (kv_Size data)))))"

text \<open>Every successful read moves the offset forward, inside the file: the loops below end.\<close>

lemma kv_get_progress:
  assumes "kv_get file off = Inr (Inr bs)"
  shows "unat off < length file \<and> unat off < 2 ^ 63 \<and> 10 \<le> length bs \<and>
         10 \<le> unat (10 + Uint32 (take 4 (drop 2 bs)) + Uint32 (take 4 (drop 6 bs)))"
proof -
  define rest where "rest = drop (unat off) file"
  define buf where "buf = take 10 rest @ replicate (10 - length rest) (char_of (0 :: nat))"
  define total where "total = unat (10 + Uint32 (take 4 (drop 2 buf)) + Uint32 (take 4 (drop 6 buf)))"
  have blen: "length buf = 10" by (simp add: buf_def)
  have eq: "kv_get file off =
      (if 2 ^ 63 \<le> unat off then Inr (Inl kv_Seek) else if rest = [] then Inr (Inl kv_EOF)
       else if total < 10 then Inl SliceBounds
       else Inr (case read_loop (drop 10 rest) (total - 10) of Inl e \<Rightarrow> Inl e | Inr body \<Rightarrow> Inr (buf @ body)))"
    unfolding kv_get_def negative_int64 Let_def rest_def [symmetric] buf_def [symmetric] total_def [symmetric] by (rule refl)
  have ne: "rest \<noteq> []" and nn: "unat off < 2 ^ 63" and tot: "10 \<le> total"
    using assms unfolding eq by (auto split: if_splits)
  from assms ne nn tot obtain body where bs: "bs = buf @ body"
    unfolding eq by (auto split: sum.splits)
  have "take 4 (drop 2 bs) = take 4 (drop 2 buf)" "take 4 (drop 6 bs) = take 4 (drop 6 buf)"
    unfolding bs using blen by simp_all
  moreover have "unat off < length file" using ne by (simp add: rest_def)
  ultimately show ?thesis using nn tot blen by (simp add: bs total_def)
qed

lemma kv_Get_progress:
  assumes "kv_Get file off = Inr (Inr d)"
  shows "unat off < length file \<and> unat off < 2 ^ 63 \<and> 10 \<le> unat (kv_Size d)"
proof -
  from assms obtain bs where get: "kv_get file off = Inr (Inr bs)" and un: "kv_UnmarshalBinary bs = Inr (Inr d)"
    by (auto simp: kv_Get_def split: sum.splits)
  from un have "keyLength d = Uint32 (take 4 (drop 2 bs))" "valueLength d = Uint32 (take 4 (drop 6 bs))"
    by (auto simp: kv_UnmarshalBinary_def Let_def split: if_splits sum.splits)
  with kv_get_progress [OF get] show ?thesis by (simp add: kv_Size_def)
qed

lemma unat_ucast_32_64 [simp]: "unat (ucast (n :: 32 word) :: 64 word) = unat n"
  by transfer simp

lemma offset_advance:
  assumes "unat (off :: 64 word) < 2 ^ 63"
  shows "unat (off + ucast (n :: 32 word)) = unat off + unat n"
proof -
  have "unat n < 2 ^ 32" using unsigned_less [of n, where ?'a = nat] by simp
  with assms show ?thesis by (simp add: unat_plus_if')
qed

lemma IndexReader_progress:
  assumes "IndexReader_SequentialRead file off = Inr (Inr (k, idx, off'))"
  shows "unat off < length file \<and> unat off + 10 \<le> unat off'"
proof -
  from assms obtain d where get: "kv_Get file off = Inr (Inr d)" and off': "off' = off + ucast (kv_Size d)"
    by (auto simp: IndexReader_SequentialRead_def split: sum.splits)
  show ?thesis using kv_Get_progress [OF get] off' by (simp add: offset_advance)
qed

text \<open>
  The loop shared by \<^verbatim>\<open>LoadIndexFromFile\<close> and \<^verbatim>\<open>RangeIndexFromFile\<close>: the entries up to the end of
  the file, and the error that ended the loop when it was not \<^verbatim>\<open>io.EOF\<close>.
\<close>

function scan_index :: "string \<Rightarrow> 64 word \<Rightarrow> ((string \<times> Index) list \<times> kv_error option) outcome" where
  "scan_index file off =
     (case IndexReader_SequentialRead file off of
        Inl p \<Rightarrow> Inl p
      | Inr (Inl e) \<Rightarrow> Inr ([], if e = kv_EOF then None else Some e)
      | Inr (Inr (k, idx, off')) \<Rightarrow>
          (case scan_index file off' of
             Inl p \<Rightarrow> Inl p
           | Inr (es, e) \<Rightarrow> Inr ((k, idx) # es, e)))"
  by pat_completeness auto
termination
  by (relation "measure (\<lambda>(file, off). length file - unat off)")
     (auto dest!: IndexReader_progress)

declare scan_index.simps [simp del]

definition apply_entry :: "(string \<Rightarrow> Index option) \<Rightarrow> string \<times> Index \<Rightarrow> (string \<Rightarrow> Index option)" where
  "apply_entry t e = (case e of (k, idx) \<Rightarrow> if IsDel idx then t(k := None) else t(k \<mapsto> idx))"

definition LoadIndexFromFile :: "string \<Rightarrow> fsys \<Rightarrow> ((string \<Rightarrow> Index option) \<times> block_error option) outcome" where
  "LoadIndexFromFile filename fs =
     (case OpenRead filename fs of
        Inl e \<Rightarrow> Inr (Map.empty, if e = IoNotExist then None else Some (IoErr e))
      | Inr i \<Rightarrow>
          (case scan_index (inode fs i) 0 of
             Inl p \<Rightarrow> Inl p
           | Inr (es, e) \<Rightarrow> Inr (foldl apply_entry Map.empty es, map_option KvErr e)))"

text \<open>\<^verbatim>\<open>RangeIndexFromFile\<close> with the sequence of calls of its callback as result.\<close>

definition RangeIndexFromFile :: "string \<Rightarrow> fsys \<Rightarrow> ((string \<times> Index) list \<times> block_error option) outcome" where
  "RangeIndexFromFile filename fs =
     (case OpenRead filename fs of
        Inl e \<Rightarrow> Inr ([], if e = IoNotExist then None else Some (IoErr e))
      | Inr i \<Rightarrow>
          (case scan_index (inode fs i) 0 of
             Inl p \<Rightarrow> Inl p
           | Inr (es, e) \<Rightarrow> Inr (es, map_option KvErr e)))"

subsection \<open>The block handler\<close>

definition FilenameBlockIndex :: string where "FilenameBlockIndex = ''blockIndex''"
definition FilenameBlockIndexTemp :: string where "FilenameBlockIndexTemp = ''blockIndexTemp''"

record Block =
  tempDir :: string
  maxSize :: "64 word"
  contentW :: "contentWriter option"
  indexTable :: "string \<Rightarrow> Index option"
  indexW :: indexWriter

definition size_reached :: "64 word \<Rightarrow> 64 word \<Rightarrow> bool" where
  "size_reached mx sz = (0 < sint mx \<and> sint mx \<le> sint sz)"

text \<open>
  The walk of \<^verbatim>\<open>Initiate\<close> over the names of the directory in lexical order: every content file
  is opened, the last one with room left becomes the content writer.
\<close>

primrec walk_content ::
    "string \<Rightarrow> 64 word \<Rightarrow> string list \<Rightarrow> contentWriter option \<times> fsys \<Rightarrow> io_error + (contentWriter option \<times> fsys)" where
  "walk_content dir mx [] st = Inr st"
| "walk_content dir mx (n # ns) st =
     (if n = FilenameBlockIndex \<or> n = FilenameBlockIndexTemp then walk_content dir mx ns st
      else (case NewContentWriter (path_Join dir n) dir (snd st) of
              Inl e \<Rightarrow> Inl e
            | Inr (w, fs') \<Rightarrow>
                walk_content dir mx ns
                  (if size_reached mx (ContentWriter_Size w) then fst st else Some w, fs')))"

text \<open>
  \<^verbatim>\<open>loadIndex\<close> copies the entries of the file over the table; \<^verbatim>\<open>Initiate\<close> drops its error. An
  error of the scan leaves the table as it was.
\<close>

definition loadIndex :: "Block \<Rightarrow> fsys \<Rightarrow> (block_error option \<times> Block) outcome" where
  "loadIndex b fs =
     (case LoadIndexFromFile (path_Join (tempDir b) FilenameBlockIndex) fs of
        Inl p \<Rightarrow> Inl p
      | Inr (t, Some e) \<Rightarrow> Inr (Some e, b)
      | Inr (t, None) \<Rightarrow> Inr (None, b\<lparr>indexTable := indexTable b ++ t\<rparr>))"

definition Block_Initiate ::
    "string \<Rightarrow> 64 word \<Rightarrow> string list \<Rightarrow> fsys \<Rightarrow> (block_error + (Block \<times> fsys)) outcome" where
  "Block_Initiate dir mx names fs =
     (case walk_content dir mx names (None, fs) of
        Inl e \<Rightarrow> Inr (Inl (IoErr e))
      | Inr (cw, fs1) \<Rightarrow>
          (case NewIndexWriter (path_Join dir FilenameBlockIndex) False fs1 of
             Inl e \<Rightarrow> Inr (Inl (IoErr e))
           | Inr (iw, fs2) \<Rightarrow>
               (case loadIndex \<lparr>tempDir = dir, maxSize = mx, contentW = cw,
                                indexTable = Map.empty, indexW = iw\<rparr> fs2 of
                  Inl p \<Rightarrow> Inl p
                | Inr (_, b) \<Rightarrow> Inr (Inr (b, fs2)))))"

text \<open>
  \<^verbatim>\<open>dumpIndex\<close> holds the index lock in its first and in its last part only, so that writers
  run in between: it is modelled as three steps. The middle step is given the order in which
  the map of the merged entries is ranged over.
\<close>

definition dump_begin :: "Block \<Rightarrow> Block" where
  "dump_begin b = b\<lparr>indexW := WriteAndBuffered (indexW b)\<rparr>"

primrec write_entries :: "(string \<times> Index) list \<Rightarrow> indexWriter \<Rightarrow> fsys \<Rightarrow> indexWriter \<times> fsys" where
  "write_entries [] w fs = (w, fs)"
| "write_entries (e # es) w fs =
     (case IndexWriter_Write w (fst e) (snd e) fs of
        Inl _ \<Rightarrow> write_entries es w fs
      | Inr (w', fs') \<Rightarrow> write_entries es w' fs')"

definition dump_merge ::
    "((string \<Rightarrow> Index option) \<Rightarrow> (string \<times> Index) list) \<Rightarrow> Block \<Rightarrow> fsys
     \<Rightarrow> (block_error + (indexWriter \<times> fsys)) outcome" where
  "dump_merge order b fs =
     (case LoadIndexFromFile (path_Join (tempDir b) FilenameBlockIndex) fs of
        Inl p \<Rightarrow> Inl p
      | Inr (t, Some e) \<Rightarrow> Inr (Inl e)
      | Inr (t, None) \<Rightarrow>
          (case NewIndexWriter (path_Join (tempDir b) FilenameBlockIndexTemp) True fs of
             Inl e \<Rightarrow> Inr (Inl (IoErr e))
           | Inr (w, fs') \<Rightarrow> Inr (Inr (write_entries (order t) w fs'))))"

definition dump_swap :: "indexWriter \<Rightarrow> Block \<Rightarrow> fsys \<Rightarrow> Block \<times> fsys" where
  "dump_swap w b fs =
     (let (_, w', fs') = BufferWriteTo (indexW b) w fs in
      (b\<lparr>indexW := w'\<rparr>,
       fs_rename (path_Join (tempDir b) FilenameBlockIndexTemp)
                 (path_Join (tempDir b) FilenameBlockIndex) fs'))"

definition updateContentWriter :: "string \<Rightarrow> Block \<Rightarrow> fsys \<Rightarrow> block_error option \<times> Block \<times> fsys" where
  "updateContentWriter fresh b fs =
     (let update = (case NewContentWriter (path_Join (tempDir b) fresh) (tempDir b) fs of
                      Inl e \<Rightarrow> (Some (IoErr e), b\<lparr>contentW := None\<rparr>, fs)
                    | Inr (w, fs') \<Rightarrow> (None, b\<lparr>contentW := Some w\<rparr>, fs'))
      in case contentW b of
           None \<Rightarrow> update
         | Some w \<Rightarrow> if size_reached (maxSize b) (ContentWriter_Size w) then update else (None, b, fs))"

text \<open>Without an error \<^verbatim>\<open>updateContentWriter\<close> leaves a writer: the inner \<open>None\<close> is never reached.\<close>

definition writeContent ::
    "string \<Rightarrow> string \<Rightarrow> string \<Rightarrow> Block \<Rightarrow> fsys \<Rightarrow> (block_error + Index) \<times> Block \<times> fsys" where
  "writeContent fresh key value b fs =
     (case updateContentWriter fresh b fs of
        (Some e, b', fs') \<Rightarrow> (Inl e, b', fs')
      | (None, b', fs') \<Rightarrow>
          (case contentW b' of
             None \<Rightarrow> (Inl errNotExist, b', fs')
           | Some w \<Rightarrow>
               (case ContentWriter_Write w key value fs' of
                  Inl e \<Rightarrow> (Inl (KvErr e), b', fs')
                | Inr (index, w', fs'') \<Rightarrow> (Inr index, b'\<lparr>contentW := Some w'\<rparr>, fs''))))"

definition writeIndex :: "string \<Rightarrow> Index \<Rightarrow> Block \<Rightarrow> fsys \<Rightarrow> block_error option \<times> Block \<times> fsys" where
  "writeIndex key index b fs =
     (case IndexWriter_Write (indexW b) key index fs of
        Inl e \<Rightarrow> (Some (KvErr e), b, fs)
      | Inr (w, fs') \<Rightarrow> (None, b\<lparr>indexW := w, indexTable := (indexTable b)(key \<mapsto> index)\<rparr>, fs'))"

definition Block_Set :: "string \<Rightarrow> string \<Rightarrow> string \<Rightarrow> Block \<Rightarrow> fsys \<Rightarrow> block_error option \<times> Block \<times> fsys" where
  "Block_Set fresh key value b fs =
     (case writeContent fresh key value b fs of
        (Inl e, b', fs') \<Rightarrow> (Some e, b', fs')
      | (Inr index, b', fs') \<Rightarrow> writeIndex key index b' fs')"

definition readIndex :: "string \<Rightarrow> Block \<Rightarrow> block_error + Index" where
  "readIndex key b = (case indexTable b key of None \<Rightarrow> Inl errNotExist | Some idx \<Rightarrow> Inr idx)"

definition readContent :: "Index \<Rightarrow> Block \<Rightarrow> fsys \<Rightarrow> (block_error + string) outcome" where
  "readContent index b fs =
     (case OpenRead (path_Join (tempDir b) (Index_Filename index)) fs of
        Inl e \<Rightarrow> Inr (Inl (IoErr e))
      | Inr i \<Rightarrow> ContentReader_Read (inode fs i) (idx_offset index) (idx_length index))"

definition Block_Get :: "string \<Rightarrow> Block \<Rightarrow> fsys \<Rightarrow> (block_error + string) outcome" where
  "Block_Get key b fs =
     (case readIndex key b of Inl e \<Rightarrow> Inr (Inl e) | Inr index \<Rightarrow> readContent index b fs)"

definition Block_Del :: "string \<Rightarrow> Block \<Rightarrow> fsys \<Rightarrow> block_error option \<times> Block \<times> fsys" where
  "Block_Del key b fs =
     (case IndexWriter_Write (indexW b) key NewDelIndex fs of
        Inl e \<Rightarrow> (Some (KvErr e), b, fs)
      | Inr (w, fs') \<Rightarrow> (None, b\<lparr>indexW := w, indexTable := (indexTable b)(key := None)\<rparr>, fs'))"

definition rebuildIndex :: "string \<Rightarrow> string \<Rightarrow> Index \<Rightarrow> Block \<Rightarrow> fsys \<Rightarrow> (Block \<times> fsys) outcome" where
  "rebuildIndex fresh key index b fs =
     (case readIndex key b of
        Inl _ \<Rightarrow> Inr (b, fs)
      | Inr latest \<Rightarrow>
          if \<not> Index_Same latest index then Inr (b, fs)
          else (case readContent index b fs of
                  Inl p \<Rightarrow> Inl p
                | Inr (Inl _) \<Rightarrow> Inr (b, fs)
                | Inr (Inr value) \<Rightarrow> Inr (snd (Block_Set fresh key value b fs))))"

text \<open>
  The loop of \<^verbatim>\<open>DefragContent\<close> over one content file, read through inode \<open>i\<close>. An error other than
  the end of the file makes the loop read at the same offset again: \<open>None\<close> is the loop that does
  not end. \<open>fresh\<close> gives the name of the content file a \<^verbatim>\<open>Set\<close> of this iteration may create.
\<close>

partial_function (option) defrag_loop ::
    "(64 word \<Rightarrow> string) \<Rightarrow> string \<Rightarrow> nat \<Rightarrow> 64 word \<Rightarrow> Block \<Rightarrow> fsys \<Rightarrow> (Block \<times> fsys) outcome option" where
  "defrag_loop fresh name i off b fs =
     (case ContentReader_SequentialRead name (tempDir b) (inode fs i) off of
        Inl p \<Rightarrow> Some (Inl p)
      | Inr (Inl e) \<Rightarrow> if e = kv_EOF then Some (Inr (b, fs)) else defrag_loop fresh name i off b fs
      | Inr (Inr (key, index, off')) \<Rightarrow>
          (case rebuildIndex (fresh off) key index b fs of
             Inl p \<Rightarrow> Some (Inl p)
           | Inr (b', fs') \<Rightarrow> defrag_loop fresh name i off' b' fs'))"

declare defrag_loop.simps [code]

text \<open>
  One visit of the walk: the name, whether the file's modification time is recent, and the size
  the directory walk saw (taken here, as the walk takes it just before the call).
\<close>

definition defrag_file ::
    "(64 word \<Rightarrow> string) \<Rightarrow> string \<Rightarrow> bool \<Rightarrow> Block \<Rightarrow> fsys \<Rightarrow> (Block \<times> fsys) outcome option" where
  "defrag_file fresh n recent b fs =
     (let filename = path_Join (tempDir b) n in
      case dirent fs filename of
        None \<Rightarrow> Some (Inr (b, fs))
      | Some i0 \<Rightarrow>
          if n = FilenameBlockIndex \<or> n = FilenameBlockIndexTemp then Some (Inr (b, fs))
          else if int (length (inode fs i0)) < sint (maxSize b) then Some (Inr (b, fs))
          else if recent then Some (Inr (b, fs))
          else (case OpenRead filename fs of
                  Inl _ \<Rightarrow> Some (Inr (b, fs))
                | Inr i \<Rightarrow>
                    (case defrag_loop fresh filename i 0 b fs of
                       None \<Rightarrow> None
                     | Some (Inl p) \<Rightarrow> Some (Inl p)
                     | Some (Inr (b', fs')) \<Rightarrow> Some (Inr (b', fs_remove filename fs')))))"

primrec DefragContent ::
    "(string \<Rightarrow> 64 word \<Rightarrow> string) \<Rightarrow> (string \<times> bool) list \<Rightarrow> Block \<Rightarrow> fsys \<Rightarrow> (Block \<times> fsys) outcome option" where
  "DefragContent fresh [] b fs = Some (Inr (b, fs))"
| "DefragContent fresh (f # files) b fs =
     (case defrag_file (fresh (fst f)) (fst f) (snd f) b fs of
        None \<Rightarrow> None
      | Some (Inl p) \<Rightarrow> Some (Inl p)
      | Some (Inr (b', fs')) \<Rightarrow> DefragContent fresh files b' fs')"

definition Block_Range :: "Block \<Rightarrow> fsys \<Rightarrow> ((string \<times> bool) list \<times> block_error option) outcome" where
  "Block_Range b fs =
     (case RangeIndexFromFile (path_Join (tempDir b) FilenameBlockIndex) fs of
        Inl p \<Rightarrow> Inl p
      | Inr (es, e) \<Rightarrow> Inr (map (\<lambda>(k, idx). (k, \<not> IsDel idx)) es, e))"

end
