(* ===== verification/Block_Correct.thy ===== *)
theory Block_Correct
  imports Block_Store
begin

text \<open>
  Correctness of the block store: the index file is a log whose replay is the in-memory table;
  the content files are sequences of records; together they refine a map from keys to values.
  Writers, deletions and the three parts of a running index dump interleave freely.
\<close>

subsection \<open>Files as sequences of records\<close>

definition records :: "(string \<times> string) list \<Rightarrow> string" where
  "records rs = concat (map (\<lambda>(k, v). kv_bytes k v) rs)"

definition all_fit :: "(string \<times> string) list \<Rightarrow> bool" where
  "all_fit rs = (\<forall>(k, v) \<in> set rs. fits k v)"

lemma records_simps [simp]:
  "records [] = []" "records ((k, v) # rs) = kv_bytes k v @ records rs"
  "records (rs @ rs') = records rs @ records rs'"
  by (simp_all add: records_def)

lemma all_fit_simps [simp]:
  "all_fit []" "all_fit ((k, v) # rs) \<longleftrightarrow> fits k v \<and> all_fit rs"
  "all_fit (rs @ rs') \<longleftrightarrow> all_fit rs \<and> all_fit rs'"
  by (auto simp: all_fit_def)

definition enc_log :: "(string \<times> Index) list \<Rightarrow> string" where
  "enc_log es = records (map (\<lambda>(k, idx). (k, Index_MarshalBinary idx)) es)"

definition wf_entry :: "string \<times> Index \<Rightarrow> bool" where
  "wf_entry e = (length (fst e) < 2 ^ 30 \<and> wf_Index (snd e) \<and> length (filenameContent (snd e)) \<le> 2 ^ 30)"

definition replay :: "(string \<times> Index) list \<Rightarrow> string \<Rightarrow> Index option" where
  "replay = foldl apply_entry Map.empty"

lemma enc_log_simps [simp]:
  "enc_log [] = []" "enc_log ((k, idx) # es) = kv_bytes k (Index_MarshalBinary idx) @ enc_log es"
  "enc_log (es @ es') = enc_log es @ enc_log es'"
  by (simp_all add: enc_log_def)

lemma enc_log_single: "enc_log [(k, idx)] = kv_bytes k (Index_MarshalBinary idx)"
  by simp

lemma wf_entry_fits: "wf_entry (k, idx) \<Longrightarrow> fits k (Index_MarshalBinary idx)"
  by (simp add: wf_entry_def fits_def)

lemma all_fit_log: "\<forall>e \<in> set es. wf_entry e \<Longrightarrow> all_fit (map (\<lambda>(k, idx). (k, Index_MarshalBinary idx)) es)"
  by (induction es) (auto simp: wf_entry_fits)

lemma kv_Get_eof: "length file < 2 ^ 63 \<Longrightarrow> kv_Get file (of_nat (length file)) = Inr (Inl kv_EOF)"
  by (rule kv_Get_at_end) (simp_all add: unat_of_nat)

lemma word64_eqI: "unat (x :: 64 word) = n \<Longrightarrow> n < 2 ^ 64 \<Longrightarrow> x = of_nat n"
  by (simp add: word_unat_eq_iff unat_of_nat)

lemma of_nat_kv_Size:
  assumes "fits k v"
  shows "ucast (kv_Size (NewKvstoreData k v)) = (of_nat (length (kv_bytes k v)) :: 64 word)"
proof -
  have "unat (ucast (kv_Size (NewKvstoreData k v)) :: 64 word) = length (kv_bytes k v)"
    using kv_Size_New [OF assms] by simp
  moreover have "length (kv_bytes k v) < 2 ^ 64" using assms by (simp add: fits_def)
  ultimately show ?thesis by (rule word64_eqI)
qed

lemma index_read_at:
  assumes wf: "wf_entry (k, idx)" and small: "length pre < 2 ^ 63"
  shows "IndexReader_SequentialRead (pre @ enc_log ((k, idx) # es)) (of_nat (length pre)) =
           Inr (Inr (k, idx, of_nat (length (pre @ enc_log [(k, idx)]))))"
proof -
  let ?v = "Index_MarshalBinary idx"
  have fit: "fits k ?v" using wf by (rule wf_entry_fits)
  have "wf_Index idx" using wf by (simp add: wf_entry_def)
  then show ?thesis
    by (simp add: IndexReader_SequentialRead_def kv_Get_at [OF fit small] Index_Unmarshal_Marshal
        of_nat_kv_Size [OF fit] del: kv_bytes_length)
qed

lemma scan_enc_log:
  assumes "\<forall>e \<in> set es. wf_entry e" and "length (pre @ enc_log es) < 2 ^ 63"
  shows "scan_index (pre @ enc_log es) (of_nat (length pre)) = Inr (es, None)"
  using assms
proof (induction es arbitrary: pre)
  case Nil
  then show ?case
    by (subst scan_index.simps) (simp add: IndexReader_SequentialRead_def kv_Get_eof)
next
  case (Cons e es)
  obtain k idx where e: "e = (k, idx)" by (cases e)
  have small: "length pre < 2 ^ 63" using Cons.prems(2) by simp
  have wf: "wf_entry (k, idx)" using Cons.prems(1) e by simp
  have "scan_index ((pre @ enc_log [(k, idx)]) @ enc_log es) (of_nat (length (pre @ enc_log [(k, idx)])))
          = Inr (es, None)"
    using Cons.prems e by (intro Cons.IH) simp_all
  then show ?case
    by (subst scan_index.simps) (simp add: e index_read_at [OF wf small, simplified])
qed

subsection \<open>Replaying the log\<close>

lemma replay_append: "replay (es @ es') = foldl apply_entry (replay es) es'"
  by (simp add: replay_def)

lemma replay_snoc: "replay (es @ [e]) = apply_entry (replay es) e"
  by (simp add: replay_append)

lemma foldl_apply_entry:
  "foldl apply_entry t es k =
     (case map_of (rev es) k of None \<Rightarrow> t k | Some idx \<Rightarrow> if IsDel idx then None else Some idx)"
  by (induction es rule: rev_induct) (auto simp: apply_entry_def)

lemma replay_lookup:
  "replay es k = (case map_of (rev es) k of None \<Rightarrow> None | Some idx \<Rightarrow> if IsDel idx then None else Some idx)"
  by (simp add: replay_def foldl_apply_entry)

text \<open>Replaying a suffix twice changes nothing: the last entry of a key decides.\<close>

lemma replay_suffix_twice:
  "foldl apply_entry (replay (pre @ b1)) (b1 @ b2) = replay (pre @ b1 @ b2)"
  by (rule ext) (simp add: replay_def foldl_apply_entry map_add_def split: option.splits)

lemma replay_Some:
  assumes "replay log k = Some idx"
  shows "(k, idx) \<in> set log \<and> \<not> IsDel idx"
  using assms unfolding replay_def foldl_apply_entry
  by (auto split: option.splits if_splits dest: map_of_SomeD)

lemma finite_dom_replay: "finite (dom (replay log))"
proof (rule finite_subset)
  show "dom (replay log) \<subseteq> fst ` set log" using replay_Some by (force simp: dom_def)
qed simp

text \<open>What is assumed of the order in which Go ranges over a map: every entry once.\<close>

definition range_order :: "((string \<Rightarrow> Index option) \<Rightarrow> (string \<times> Index) list) \<Rightarrow> bool" where
  "range_order order = (\<forall>t. finite (dom t) \<longrightarrow> distinct (map fst (order t)) \<and> map_of (order t) = t)"

lemma map_of_rev_distinct: "distinct (map fst xs) \<Longrightarrow> map_of (rev xs) = map_of xs"
  by (rule map_of_eqI) (auto simp: rev_map [symmetric] image_image [symmetric]
      dest: map_of_SomeD intro!: map_of_is_SomeI)

lemma replay_order:
  assumes "range_order order"
  shows "replay (order (replay log)) = replay log"
proof -
  have ord: "distinct (map fst (order (replay log)))" "map_of (order (replay log)) = replay log"
    using assms finite_dom_replay [of log] unfolding range_order_def by blast+
  show ?thesis
  proof
    fix k
    show "replay (order (replay log)) k = replay log k"
      using map_of_rev_distinct [OF ord(1)] ord(2) replay_Some [of log k]
      by (auto simp: replay_lookup [of "order _"] split: option.split)
  qed
qed

lemma order_wf:
  assumes "range_order order" and "\<forall>e \<in> set log. wf_entry e"
  shows "\<forall>e \<in> set (order (replay log)). wf_entry e"
proof
  fix e assume e: "e \<in> set (order (replay log))"
  have ord: "distinct (map fst (order (replay log)))" "map_of (order (replay log)) = replay log"
    using assms(1) finite_dom_replay [of log] unfolding range_order_def by blast+
  from e ord have "replay log (fst e) = Some (snd e)"
    by (metis map_of_is_SomeI prod.collapse)
  then show "wf_entry e" using replay_Some assms(2) by (metis prod.collapse)
qed

subsection \<open>The refinement relation\<close>

definition content_name :: "string \<Rightarrow> bool" where
  "content_name n = (proper_name n \<and> length n < 2 ^ 30 \<and> n \<noteq> FilenameBlockIndex \<and> n \<noteq> FilenameBlockIndexTemp)"

definition files_small :: "fsys \<Rightarrow> bool" where
  "files_small fs = (\<forall>i. length (inode fs i) < 2 ^ 63)"

definition fs_ok :: "fsys \<Rightarrow> bool" where
  "fs_ok fs = (inj_on (dirent fs) (dom (dirent fs)) \<and> (\<forall>p i. dirent fs p = Some i \<longrightarrow> i < next_ino fs))"

text \<open>The record of \<open>k\<close> and \<open>v\<close> lies where the index says, in a file that is a sequence of records.\<close>

definition content_at :: "fsys \<Rightarrow> string \<Rightarrow> Index \<Rightarrow> string \<Rightarrow> string \<Rightarrow> bool" where
  "content_at fs dir idx k v =
     (\<exists>n i rs rs'. content_name n \<and> length k < 2 ^ 30 \<and> dirent fs (path_Join dir n) = Some i \<and>
        inode fs i = records (rs @ (k, v) # rs') \<and> all_fit (rs @ (k, v) # rs') \<and>
        idx = NewIndex (CHR ''/'' # n) (of_nat (length (records rs))) (kv_Size (NewKvstoreData k v)))"

definition content_ok :: "string \<Rightarrow> fsys \<Rightarrow> bool" where
  "content_ok dir fs = (\<forall>n i. content_name n \<longrightarrow> dirent fs (path_Join dir n) = Some i \<longrightarrow>
     (\<exists>rs. all_fit rs \<and> inode fs i = records rs))"

text \<open>What a content writer for the file \<open>n\<close> of the directory knows about it.\<close>

definition is_writer :: "string \<Rightarrow> fsys \<Rightarrow> string \<Rightarrow> contentWriter \<Rightarrow> bool" where
  "is_writer dir fs n w = (content_name n \<and> cw_name w = path_Join dir n \<and> cw_base w = dir \<and>
     dirent fs (cw_name w) = Some (cw_ino w) \<and> cw_size w = of_nat (length (inode fs (cw_ino w))))"

text \<open>A writer whose file is full is replaced before it is used, so nothing is asked of it.\<close>

definition writer_ok :: "Block \<Rightarrow> fsys \<Rightarrow> bool" where
  "writer_ok b fs = (\<forall>w. contentW b = Some w \<longrightarrow> \<not> size_reached (maxSize b) (cw_size w) \<longrightarrow>
     (\<exists>n. is_writer (tempDir b) fs n w))"

definition table_ok :: "Block \<Rightarrow> fsys \<Rightarrow> (string \<Rightarrow> string option) \<Rightarrow> bool" where
  "table_ok b fs m = (\<forall>k. case indexTable b k of
       None \<Rightarrow> m k = None
     | Some idx \<Rightarrow> (\<exists>v. m k = Some v \<and> content_at fs (tempDir b) idx k v))"

definition log_ok :: "Block \<Rightarrow> fsys \<Rightarrow> (string \<times> Index) list \<Rightarrow> bool" where
  "log_ok b fs log =
     (dirent fs (path_Join (tempDir b) FilenameBlockIndex) = Some (iw_ino (indexW b)) \<and>
      inode fs (iw_ino (indexW b)) = enc_log log \<and> (\<forall>e \<in> set log. wf_entry e) \<and> replay log = indexTable b)"

text \<open>
  The buffer of the index writer is a suffix of the log. While a dump is pending its file holds
  the merged table of a point of time after buffering began.
\<close>

definition buffer_ok :: "Block \<Rightarrow> fsys \<Rightarrow> indexWriter option \<Rightarrow> (string \<times> Index) list \<Rightarrow> bool" where
  "buffer_ok b fs pend log =
     (\<exists>pre b1 b2. log = pre @ b1 @ b2 \<and>
        iw_buffer (indexW b) = (if iw_buffering (indexW b) then enc_log (b1 @ b2) else []) \<and>
        (\<forall>w. pend = Some w \<longrightarrow> iw_buffering (indexW b) \<and> \<not> iw_buffering w \<and> iw_buffer w = [] \<and>
           dirent fs (path_Join (tempDir b) FilenameBlockIndexTemp) = Some (iw_ino w) \<and>
           (\<exists>dump. inode fs (iw_ino w) = enc_log dump \<and> (\<forall>e \<in> set dump. wf_entry e) \<and>
                   replay dump = replay (pre @ b1))))"

record system =
  blk :: Block
  sfs :: fsys
  pending :: "indexWriter option"
  inflight :: "(string \<times> string \<times> Index) list"

definition store_rel :: "system \<Rightarrow> (string \<Rightarrow> string option) \<Rightarrow> bool" where
  "store_rel s m =
     (abs_dir (tempDir (blk s)) \<and> fs_ok (sfs s) \<and> files_small (sfs s) \<and>
      content_ok (tempDir (blk s)) (sfs s) \<and> writer_ok (blk s) (sfs s) \<and> table_ok (blk s) (sfs s) m \<and>
      (\<forall>(k, v, idx) \<in> set (inflight s). content_at (sfs s) (tempDir (blk s)) idx k v) \<and>
      (\<exists>log. log_ok (blk s) (sfs s) log \<and> buffer_ok (blk s) (sfs s) (pending s) log))"

text \<open>What the operations may do to the content files: create them and append records.\<close>

definition content_ext :: "string \<Rightarrow> fsys \<Rightarrow> fsys \<Rightarrow> bool" where
  "content_ext dir fs fs' = (\<forall>n i. content_name n \<longrightarrow> dirent fs (path_Join dir n) = Some i \<longrightarrow>
     dirent fs' (path_Join dir n) = Some i \<and> (\<exists>rs. all_fit rs \<and> inode fs' i = inode fs i @ records rs))"

lemma content_at_ext:
  assumes "content_at fs dir idx k v" and "content_ext dir fs fs'"
  shows "content_at fs' dir idx k v"
proof -
  from assms(1) obtain n i rs rs' where *: "content_name n" "length k < 2 ^ 30"
      "dirent fs (path_Join dir n) = Some i" "inode fs i = records (rs @ (k, v) # rs')"
      "all_fit (rs @ (k, v) # rs')"
      "idx = NewIndex (CHR ''/'' # n) (of_nat (length (records rs))) (kv_Size (NewKvstoreData k v))"
    unfolding content_at_def by blast
  from assms(2) * obtain rs'' where "dirent fs' (path_Join dir n) = Some i" "all_fit rs''"
      "inode fs' i = inode fs i @ records rs''"
    unfolding content_ext_def by blast
  with * show ?thesis
    unfolding content_at_def by (intro exI [of _ n] exI [of _ i] exI [of _ rs] exI [of _ "rs' @ rs''"]) simp
qed

lemma table_ok_ext:
  assumes "table_ok b fs m" and "content_ext (tempDir b) fs fs'"
    and "tempDir b' = tempDir b" "indexTable b' = indexTable b"
  shows "table_ok b' fs' m"
  using assms content_at_ext unfolding table_ok_def by (fastforce split: option.splits)

lemma table_ok_Some:
  "table_ok b fs m \<Longrightarrow> indexTable b k = Some idx \<Longrightarrow> \<exists>v. m k = Some v \<and> content_at fs (tempDir b) idx k v"
  unfolding table_ok_def by (drule spec [of _ k]) simp

lemma content_at_read:
  assumes at: "content_at fs dir idx k v" and dir: "abs_dir dir" and small: "files_small fs"
    and nd: "\<forall>p. \<not> denied fs p" and b: "tempDir b = dir"
  shows "readContent idx b fs = Inr (Inr v)"
proof -
  from at obtain n i rs rs' where *: "content_name n" "dirent fs (path_Join dir n) = Some i"
      "inode fs i = records (rs @ (k, v) # rs')" "all_fit (rs @ (k, v) # rs')"
      "idx = NewIndex (CHR ''/'' # n) (of_nat (length (records rs))) (kv_Size (NewKvstoreData k v))"
    unfolding content_at_def by blast
  have n: "proper_name n" using *(1) by (simp add: content_name_def)
  have "length (inode fs i) < 2 ^ 63" using small by (simp add: files_small_def)
  with *(3) have pre: "length (records rs) < 2 ^ 63" by simp
  have fit: "fits k v" using *(4) by simp
  have "path_Join dir (CHR ''/'' # n) = path_Join dir n"
    by (simp add: path_Join_abs path_Join_slash dir n)
  then have "OpenRead (path_Join (tempDir b) (Index_Filename idx)) fs = Inr i"
    using *(2,5) nd b by (simp add: OpenRead_def Index_Filename_def NewIndex_def)
  then show ?thesis
    using *(3,5) kv_Get_at [OF fit pre]
    by (simp add: readContent_def ContentReader_Read_def NewIndex_def)
qed

lemma content_at_wf: "content_at fs dir idx k v \<Longrightarrow> wf_entry (k, idx) \<and> \<not> IsDel idx"
  by (auto simp: content_at_def wf_entry_def content_name_def wf_NewIndex IsDel_wf)
     (auto simp: NewIndex_def)

subsection \<open>Frames: what the operations leave alone\<close>

definition same_file :: "fsys \<Rightarrow> fsys \<Rightarrow> string \<Rightarrow> bool" where
  "same_file fs fs' p = (dirent fs' p = dirent fs p \<and> (\<forall>i. dirent fs p = Some i \<longrightarrow> inode fs' i = inode fs i))"

lemma same_file_refl [simp]: "same_file fs fs p"
  by (simp add: same_file_def)

lemma same_file_trans: "same_file fs fs' p \<Longrightarrow> same_file fs' fs'' p \<Longrightarrow> same_file fs fs'' p"
  by (simp add: same_file_def)

lemma fs_append_frame:
  assumes "fs_ok fs" and "dirent fs p = Some i" and "q \<noteq> p"
  shows "same_file fs (fs_append i bs fs) q"
  using assms by (auto simp: fs_ok_def inj_on_def same_file_def fs_append_def dom_def)

lemma fs_append_simps [simp]:
  "dirent (fs_append i bs fs) = dirent fs" "inode (fs_append i bs fs) i = inode fs i @ bs"
  "denied (fs_append i bs fs) = denied fs" "next_ino (fs_append i bs fs) = next_ino fs"
  by (simp_all add: fs_append_def)

lemma fs_append_ok [simp]: "fs_ok (fs_append i bs fs) = fs_ok fs"
  by (simp add: fs_ok_def)

lemma content_ext_refl: "content_ext dir fs fs"
  unfolding content_ext_def by (auto intro: exI [of _ "[]"])

lemma content_ext_same:
  "(\<And>n. content_name n \<Longrightarrow> same_file fs fs' (path_Join dir n)) \<Longrightarrow> content_ext dir fs fs'"
  unfolding content_ext_def same_file_def by (metis all_fit_simps(1) append_Nil2 records_simps(1))

lemma content_ok_same:
  "content_ok dir fs \<Longrightarrow> (\<And>n. content_name n \<Longrightarrow> same_file fs fs' (path_Join dir n)) \<Longrightarrow> content_ok dir fs'"
  unfolding content_ok_def same_file_def by metis

lemma content_ext_trans:
  assumes "content_ext dir fs fs'" and "content_ext dir fs' fs''"
  shows "content_ext dir fs fs''"
  unfolding content_ext_def
proof (intro allI impI)
  fix n i assume n: "content_name n" and i: "dirent fs (path_Join dir n) = Some i"
  from assms(1) n i obtain rs where 1: "dirent fs' (path_Join dir n) = Some i" "all_fit rs"
      "inode fs' i = inode fs i @ records rs" unfolding content_ext_def by blast
  from assms(2) n 1(1) obtain rs' where 2: "dirent fs'' (path_Join dir n) = Some i" "all_fit rs'"
      "inode fs'' i = inode fs' i @ records rs'" unfolding content_ext_def by blast
  from 1 2 show "dirent fs'' (path_Join dir n) = Some i \<and>
      (\<exists>rs. all_fit rs \<and> inode fs'' i = inode fs i @ records rs)"
    by (intro conjI exI [of _ "rs @ rs'"]) simp_all
qed

lemma index_names_proper [simp]: "proper_name FilenameBlockIndex" "proper_name FilenameBlockIndexTemp"
  by (simp_all add: proper_name_def FilenameBlockIndex_def FilenameBlockIndexTemp_def)

lemma index_names_distinct [simp]: "FilenameBlockIndex \<noteq> FilenameBlockIndexTemp"
  by (simp add: FilenameBlockIndex_def FilenameBlockIndexTemp_def)

lemma names_apart:
  assumes "abs_dir dir"
  shows "content_name n \<Longrightarrow> path_Join dir n \<noteq> path_Join dir FilenameBlockIndex"
    and "content_name n \<Longrightarrow> path_Join dir n \<noteq> path_Join dir FilenameBlockIndexTemp"
    and "path_Join dir FilenameBlockIndexTemp \<noteq> path_Join dir FilenameBlockIndex"
  using path_Join_inj [OF assms] by (auto simp: content_name_def) (metis index_names_proper index_names_distinct)

lemma log_ok_frame:
  assumes "log_ok b fs log" and "same_file fs fs' (path_Join (tempDir b) FilenameBlockIndex)"
    and "tempDir b' = tempDir b" "indexTable b' = indexTable b" "indexW b' = indexW b"
  shows "log_ok b' fs' log"
  using assms by (auto simp: log_ok_def same_file_def)

lemma buffer_ok_frame:
  assumes "buffer_ok b fs pend log" and "same_file fs fs' (path_Join (tempDir b) FilenameBlockIndexTemp)"
    and "tempDir b' = tempDir b" "indexW b' = indexW b"
  shows "buffer_ok b' fs' pend log"
proof -
  from assms(1) obtain pre b1 b2 where *: "log = pre @ b1 @ b2"
      "iw_buffer (indexW b) = (if iw_buffering (indexW b) then enc_log (b1 @ b2) else [])"
      "\<forall>w. pend = Some w \<longrightarrow> iw_buffering (indexW b) \<and> \<not> iw_buffering w \<and> iw_buffer w = [] \<and>
           dirent fs (path_Join (tempDir b) FilenameBlockIndexTemp) = Some (iw_ino w) \<and>
           (\<exists>dump. inode fs (iw_ino w) = enc_log dump \<and> (\<forall>e \<in> set dump. wf_entry e) \<and>
                   replay dump = replay (pre @ b1))"
    unfolding buffer_ok_def by blast
  with assms(2-) show ?thesis
    unfolding buffer_ok_def same_file_def
    by (intro exI [of _ pre] exI [of _ b1] exI [of _ b2]) simp
qed

lemma writer_ok_frame:
  assumes "writer_ok b fs" and "\<And>n. content_name n \<Longrightarrow> same_file fs fs' (path_Join (tempDir b) n)"
    and "tempDir b' = tempDir b" "contentW b' = contentW b" "maxSize b' = maxSize b"
  shows "writer_ok b' fs'"
  using assms unfolding writer_ok_def is_writer_def same_file_def by metis

subsection \<open>Writing content\<close>

text \<open>The facts every content operation keeps.\<close>

definition disk_ok :: "string \<Rightarrow> fsys \<Rightarrow> bool" where
  "disk_ok dir fs = (abs_dir dir \<and> fs_ok fs \<and> content_ok dir fs)"

lemma NewContentWriter_ok:
  assumes ok: "disk_ok dir fs" and n: "content_name n"
    and new: "NewContentWriter (path_Join dir n) dir fs = Inr (w, fs')"
  shows "disk_ok dir fs' \<and> content_ext dir fs fs' \<and> is_writer dir fs' n w \<and>
         (\<forall>p. p \<noteq> path_Join dir n \<longrightarrow> same_file fs fs' p) \<and>
         (files_small fs \<longrightarrow> files_small fs')"
proof (cases "dirent fs (path_Join dir n)")
  case (Some i)
  then show ?thesis
    using ok n new
    by (auto simp: NewContentWriter_def OpenAppend_def is_writer_def content_ext_refl split: if_splits)
next
  case None
  define p where "p = path_Join dir n"
  have p: "dirent fs p = None" using None by (simp add: p_def)
  have fs': "fs' = fs\<lparr>dirent := (dirent fs)(p \<mapsto> next_ino fs), inode := (inode fs)(next_ino fs := []),
                     next_ino := Suc (next_ino fs)\<rparr>"
    and w: "w = \<lparr>cw_name = p, cw_ino = next_ino fs, cw_base = dir, cw_size = 0\<rparr>"
    using new p by (auto simp: NewContentWriter_def OpenAppend_def p_def [symmetric] split: if_splits)
  have lt: "\<And>q i. dirent fs q = Some i \<Longrightarrow> i < next_ino fs"
    and inj: "inj_on (dirent fs) (dom (dirent fs))"
    using ok by (auto simp: disk_ok_def fs_ok_def)
  have frame: "\<forall>q. q \<noteq> p \<longrightarrow> same_file fs fs' q"
    by (auto simp: same_file_def fs' dest: lt)
  have "fs_ok fs'"
    unfolding fs_ok_def fs' using lt inj p
    by (auto simp: inj_on_def dom_def less_Suc_eq) (metis less_irrefl lt)+
  moreover have "content_ok dir fs'"
    unfolding content_ok_def
  proof (intro allI impI)
    fix m i assume m: "content_name m" and i: "dirent fs' (path_Join dir m) = Some i"
    show "\<exists>rs. all_fit rs \<and> inode fs' i = records rs"
    proof (cases "path_Join dir m = p")
      case True
      with i show ?thesis by (auto simp: fs' intro: exI [of _ "[]"])
    next
      case False
      with frame have "same_file fs fs' (path_Join dir m)" by blast
      with i m ok show ?thesis by (auto simp: same_file_def disk_ok_def content_ok_def)
    qed
  qed
  moreover have "content_ext dir fs fs'"
    unfolding content_ext_def
  proof (intro allI impI)
    fix m i assume m: "content_name m" and i: "dirent fs (path_Join dir m) = Some i"
    then have "path_Join dir m \<noteq> p" using p by auto
    with frame i show "dirent fs' (path_Join dir m) = Some i \<and>
        (\<exists>rs. all_fit rs \<and> inode fs' i = inode fs i @ records rs)"
      by (auto simp: same_file_def intro: exI [of _ "[]"])
  qed
  ultimately show ?thesis
    using ok n frame by (auto simp: disk_ok_def is_writer_def w fs' p_def files_small_def)
qed

lemma ContentWriter_Write_ok:
  assumes ok: "disk_ok dir fs" and w: "is_writer dir fs n w" and fit: "fits k v" and k: "length k < 2 ^ 30"
  obtains w' idx where
    "ContentWriter_Write w k v fs = Inr (idx, w', fs_append (cw_ino w) (kv_bytes k v) fs)"
    "disk_ok dir (fs_append (cw_ino w) (kv_bytes k v) fs)"
    "content_ext dir fs (fs_append (cw_ino w) (kv_bytes k v) fs)"
    "is_writer dir (fs_append (cw_ino w) (kv_bytes k v) fs) n w'"
    "content_at (fs_append (cw_ino w) (kv_bytes k v) fs) dir idx k v"
    "\<forall>p. p \<noteq> path_Join dir n \<longrightarrow> same_file fs (fs_append (cw_ino w) (kv_bytes k v) fs) p"
proof -
  let ?fs = "fs_append (cw_ino w) (kv_bytes k v) fs"
  let ?w = "w\<lparr>cw_size := cw_size w + ucast (kv_Size (NewKvstoreData k v))\<rparr>"
  let ?idx = "NewIndex (TrimPrefix (cw_name w) (cw_base w)) (cw_size w) (kv_Size (NewKvstoreData k v))"
  have dirn: "dirent fs (path_Join dir n) = Some (cw_ino w)" and n: "content_name n" and dir: "abs_dir dir"
    and name: "cw_name w = path_Join dir n" and base: "cw_base w = dir"
    and size: "cw_size w = of_nat (length (inode fs (cw_ino w)))"
    using w ok by (auto simp: is_writer_def disk_ok_def)
  obtain rs where rs: "all_fit rs" "inode fs (cw_ino w) = records rs"
    using ok n dirn unfolding disk_ok_def content_ok_def by blast
  have frame: "\<forall>p. p \<noteq> path_Join dir n \<longrightarrow> same_file fs ?fs p"
    using ok dirn by (auto simp: disk_ok_def intro: fs_append_frame)
  have trim: "TrimPrefix (cw_name w) (cw_base w) = CHR ''/'' # n"
    using n dir by (simp add: name base path_Join_abs content_name_def)
  have ext: "content_ext dir fs ?fs"
    unfolding content_ext_def
  proof (intro allI impI)
    fix m i assume m: "content_name m" and i: "dirent fs (path_Join dir m) = Some i"
    show "dirent ?fs (path_Join dir m) = Some i \<and> (\<exists>rs. all_fit rs \<and> inode ?fs i = inode fs i @ records rs)"
      using i fit by (cases "i = cw_ino w") (auto simp: fs_append_def intro: exI [of _ "[]"] exI [of _ "[(k, v)]"])
  qed
  have "content_ok dir ?fs"
    unfolding content_ok_def
  proof (intro allI impI)
    fix m i assume m: "content_name m" and i: "dirent ?fs (path_Join dir m) = Some i"
    then obtain rs0 where "all_fit rs0" "inode fs i = records rs0"
      using ok unfolding disk_ok_def content_ok_def by auto
    moreover obtain rs1 where "all_fit rs1" "inode ?fs i = inode fs i @ records rs1"
      using ext m i unfolding content_ext_def by auto
    ultimately show "\<exists>rs. all_fit rs \<and> inode ?fs i = records rs"
      by (intro exI [of _ "rs0 @ rs1"]) simp
  qed
  then have disk: "disk_ok dir ?fs" using ok by (simp add: disk_ok_def)
  show thesis
  proof (rule that [of ?idx ?w])
    show "ContentWriter_Write w k v fs = Inr (?idx, ?w, ?fs)"
      by (simp add: ContentWriter_Write_def kv_Set_New fs_append_def Let_def)
    show "is_writer dir ?fs n ?w"
      using w by (auto simp: is_writer_def size of_nat_kv_Size [OF fit])
    show "content_at ?fs dir ?idx k v"
      unfolding content_at_def trim using n k dirn rs fit size
      by (intro exI [of _ n] exI [of _ "cw_ino w"] exI [of _ rs] exI [of _ "[]"]) simp
  qed (use disk ext frame in blast)+
qed

text \<open>
  \<^verbatim>\<open>writeContent\<close>: on success the record is on disk where the index says; on failure nothing that
  the store relies on has changed.
\<close>

lemma updateContentWriter_ok:
  assumes ok: "disk_ok (tempDir b) fs" and w: "writer_ok b fs" and n: "content_name fresh"
    and up: "updateContentWriter fresh b fs = (e, b', fs')"
  shows "disk_ok (tempDir b) fs' \<and> content_ext (tempDir b) fs fs' \<and> writer_ok b' fs' \<and>
         (e = None \<longrightarrow> (\<exists>w n. contentW b' = Some w \<and> is_writer (tempDir b) fs' n w)) \<and> (files_small fs \<longrightarrow> files_small fs') \<and>
         (\<exists>cw. b' = b\<lparr>contentW := cw\<rparr>) \<and>
         (\<forall>p. (\<forall>n. content_name n \<longrightarrow> p \<noteq> path_Join (tempDir b) n) \<longrightarrow> same_file fs fs' p)"
proof -
  let ?upd = "case NewContentWriter (path_Join (tempDir b) fresh) (tempDir b) fs of
                Inl e \<Rightarrow> (Some (IoErr e), b\<lparr>contentW := None\<rparr>, fs)
              | Inr (w, fs') \<Rightarrow> (None, b\<lparr>contentW := Some w\<rparr>, fs')"
  have cases: "(e, b', fs') = ?upd \<or> e = None \<and> b' = b \<and> fs' = fs \<and>
      (\<exists>w. contentW b = Some w \<and> \<not> size_reached (maxSize b) (cw_size w))"
    using up ContentWriter_Size_def by (auto simp: updateContentWriter_def Let_def split: option.splits if_splits)
  then show ?thesis
  proof
    assume upd: "(e, b', fs') = ?upd"
    show ?thesis
    proof (cases "NewContentWriter (path_Join (tempDir b) fresh) (tempDir b) fs")
      case (Inl x)
      with upd ok show ?thesis by (auto simp: content_ext_refl writer_ok_def)
    next
      case (Inr r)
      obtain w1 fs1 where r: "r = (w1, fs1)" by (cases r)
      from upd Inr r have "e = None" "b' = b\<lparr>contentW := Some w1\<rparr>" "fs' = fs1" by simp_all
      then show ?thesis using NewContentWriter_ok [OF ok n Inr [unfolded r]] n
        by (auto simp: writer_ok_def)
    qed
  next
    assume same: "e = None \<and> b' = b \<and> fs' = fs \<and>
      (\<exists>w. contentW b = Some w \<and> \<not> size_reached (maxSize b) (cw_size w))"
    then have "\<exists>w n. contentW b = Some w \<and> is_writer (tempDir b) fs n w"
      using w unfolding writer_ok_def by blast
    then show ?thesis using same ok w by (auto simp: content_ext_refl intro: exI [of _ "contentW b"])
  qed
qed

lemma writeContent_ok:
  assumes ok: "disk_ok (tempDir b) fs" and w: "writer_ok b fs" and n: "content_name fresh"
    and fit: "fits k v" and k: "length k < 2 ^ 30"
    and wr: "writeContent fresh k v b fs = (r, b', fs')"
  shows "disk_ok (tempDir b) fs' \<and> content_ext (tempDir b) fs fs' \<and> writer_ok b' fs' \<and>
         (\<exists>cw. b' = b\<lparr>contentW := cw\<rparr>) \<and>
         (\<forall>p. (\<forall>n. content_name n \<longrightarrow> p \<noteq> path_Join (tempDir b) n) \<longrightarrow> same_file fs fs' p) \<and>
         (\<forall>idx. r = Inr idx \<longrightarrow> content_at fs' (tempDir b) idx k v)"
proof -
  obtain e b1 fs1 where up: "updateContentWriter fresh b fs = (e, b1, fs1)" by (metis prod_cases3)
  note U = updateContentWriter_ok [OF ok w n up]
  show ?thesis
  proof (cases e)
    case (Some x)
    with wr up U show ?thesis by (auto simp: writeContent_def)
  next
    case None
    with U obtain w1 n1 where w1: "contentW b1 = Some w1" "is_writer (tempDir b) fs1 n1 w1"
      and b1: "tempDir b1 = tempDir b" by (auto simp: writer_ok_def)
    from U have ok1: "disk_ok (tempDir b) fs1" by blast
    from ContentWriter_Write_ok [OF ok1 w1(2) fit k] obtain w2 idx fs2 where
      W: "ContentWriter_Write w1 k v fs1 = Inr (idx, w2, fs2)" "disk_ok (tempDir b) fs2"
        "content_ext (tempDir b) fs1 fs2" "is_writer (tempDir b) fs2 n1 w2"
        "content_at fs2 (tempDir b) idx k v" "\<forall>p. p \<noteq> path_Join (tempDir b) n1 \<longrightarrow> same_file fs1 fs2 p"
      by metis
    have res: "r = Inr idx" "b' = b1\<lparr>contentW := Some w2\<rparr>" "fs' = fs2"
      using wr by (simp_all add: writeContent_def up None w1 W(1))
    have n1: "content_name n1" using w1(2) by (simp add: is_writer_def)
    have frame: "\<forall>p. (\<forall>n. content_name n \<longrightarrow> p \<noteq> path_Join (tempDir b) n) \<longrightarrow> same_file fs fs2 p"
      using U W(6) n1 by (metis same_file_trans)
    have ext: "content_ext (tempDir b) fs fs2" using U W(3) by (blast intro: content_ext_trans)
    show ?thesis
      using U W(2,4,5) b1 res frame ext by (auto simp: writer_ok_def)
  qed
qed

subsection \<open>Writing the index\<close>

lemma IndexWriter_Write_eq:
  "IndexWriter_Write w k idx fs = Inr (iw_Write_bytes w (enc_log [(k, idx)]) fs)"
  by (simp add: IndexWriter_Write_def)

lemma write_entries_eq:
  "\<not> iw_buffering w \<Longrightarrow> write_entries es w fs = (w, fs_append (iw_ino w) (enc_log es) fs)"
  by (induction es arbitrary: fs) (auto simp: IndexWriter_Write_eq iw_Write_bytes_def fs_append_def)

text \<open>Appending one entry to the log, with the table it leads to.\<close>

lemma log_append:
  assumes rel: "store_rel s m" and wf: "wf_entry e" and small: "files_small fs'"
    and b': "b' = (blk s)\<lparr>indexW := w', indexTable := apply_entry (indexTable (blk s)) e\<rparr>"
    and wr: "iw_Write_bytes (indexW (blk s)) (enc_log [e]) (sfs s) = (w', fs')"
    and table: "table_ok b' fs' m'"
    and infl: "set infl' \<subseteq> set (inflight s)"
  shows "store_rel (s\<lparr>blk := b', sfs := fs', inflight := infl'\<rparr>) m'"
proof -
  let ?b = "blk s" and ?fs = "sfs s" and ?dir = "tempDir (blk s)"
  from rel obtain log where dir: "abs_dir ?dir" and fs: "fs_ok ?fs" and cont: "content_ok ?dir ?fs"
    and wrt: "writer_ok ?b ?fs" and log: "log_ok ?b ?fs log" and buf: "buffer_ok ?b ?fs (pending s) log"
    and fl: "\<forall>(k, v, idx) \<in> set (inflight s). content_at ?fs ?dir idx k v"
    unfolding store_rel_def by blast
  let ?i = "iw_ino (indexW ?b)"
  have fs': "fs' = fs_append ?i (enc_log [e]) ?fs"
    and w': "w' = (if iw_buffering (indexW ?b) then (indexW ?b)\<lparr>iw_buffer := iw_buffer (indexW ?b) @ enc_log [e]\<rparr> else indexW ?b)"
    using wr by (auto simp: iw_Write_bytes_def)
  have ino: "dirent ?fs (path_Join ?dir FilenameBlockIndex) = Some ?i" using log by (simp add: log_ok_def)
  have frame: "same_file ?fs fs' p" if "p \<noteq> path_Join ?dir FilenameBlockIndex" for p
    unfolding fs' by (rule fs_append_frame [OF fs ino that])
  have cframe: "same_file ?fs fs' (path_Join ?dir n)" if "content_name n" for n
    using frame names_apart(1) [OF dir that] by blast
  have ext: "content_ext ?dir ?fs fs'" by (rule content_ext_same) (rule cframe)
  have "writer_ok b' fs'"
    by (rule writer_ok_frame [OF wrt cframe]) (simp_all add: b')
  moreover have "content_ok ?dir fs'" using cont cframe by (rule content_ok_same)
  moreover have "log_ok b' fs' (log @ [e])"
    using log wf by (cases e) (auto simp: log_ok_def b' w' fs' replay_snoc)
  moreover have "buffer_ok b' fs' (pending s) (log @ [e])"
  proof -
    from buf obtain pre b1 b2 where *: "log = pre @ b1 @ b2"
        "iw_buffer (indexW ?b) = (if iw_buffering (indexW ?b) then enc_log (b1 @ b2) else [])"
        "\<forall>w. pending s = Some w \<longrightarrow> iw_buffering (indexW ?b) \<and> \<not> iw_buffering w \<and> iw_buffer w = [] \<and>
             dirent ?fs (path_Join ?dir FilenameBlockIndexTemp) = Some (iw_ino w) \<and>
             (\<exists>dump. inode ?fs (iw_ino w) = enc_log dump \<and> (\<forall>e \<in> set dump. wf_entry e) \<and>
                     replay dump = replay (pre @ b1))"
      unfolding buffer_ok_def by blast
    have t: "same_file ?fs fs' (path_Join ?dir FilenameBlockIndexTemp)"
      using names_apart(3) [OF dir] by (rule frame)
    show ?thesis
      unfolding buffer_ok_def using * t
      by (intro exI [of _ pre] exI [of _ b1] exI [of _ "b2 @ [e]"]) (auto simp: b' w' same_file_def)
  qed
  moreover have "\<forall>(k, v, idx) \<in> set infl'. content_at fs' ?dir idx k v"
    using fl infl content_at_ext [OF _ ext] by blast
  moreover have "fs_ok fs'" using fs by (simp add: fs')
  ultimately show ?thesis
    using dir small table unfolding store_rel_def b' by auto
qed

lemma index_write_ext:
  assumes rel: "store_rel s m" and wb: "iw_Write_bytes (indexW (blk s)) bs (sfs s) = (w', fs')"
  shows "content_ext (tempDir (blk s)) (sfs s) fs'"
proof (rule content_ext_same)
  fix n assume n: "content_name n"
  from rel obtain log where "fs_ok (sfs s)" "log_ok (blk s) (sfs s) log" "abs_dir (tempDir (blk s))"
    by (auto simp: store_rel_def)
  then show "same_file (sfs s) fs' (path_Join (tempDir (blk s)) n)"
    using fs_append_frame names_apart(1) [OF _ n] wb by (auto simp: iw_Write_bytes_def log_ok_def)
qed

lemma writeIndex_ok:
  assumes rel: "store_rel s m" and fl: "(k, v, idx) \<in> set (inflight s)"
    and wr: "writeIndex k idx (blk s) (sfs s) = (e, b', fs')" and small: "files_small fs'"
    and infl: "set infl' \<subseteq> set (inflight s)"
  shows "e = None \<and> store_rel (s\<lparr>blk := b', sfs := fs', inflight := infl'\<rparr>) (m(k \<mapsto> v))"
proof -
  let ?b = "blk s" and ?fs = "sfs s" and ?dir = "tempDir (blk s)"
  have at: "content_at ?fs ?dir idx k v" using rel fl unfolding store_rel_def by blast
  then have wf: "wf_entry (k, idx)" and nd: "\<not> IsDel idx" using content_at_wf by blast+
  obtain w' where wb: "iw_Write_bytes (indexW ?b) (enc_log [(k, idx)]) ?fs = (w', fs')" and e: "e = None"
    and b': "b' = ?b\<lparr>indexW := w', indexTable := apply_entry (indexTable ?b) (k, idx)\<rparr>"
    using wr nd by (auto simp: writeIndex_def IndexWriter_Write_eq apply_entry_def split: prod.splits)
  have ext: "content_ext ?dir ?fs fs'" by (rule index_write_ext [OF rel wb])
  have "table_ok ?b ?fs m" using rel by (simp add: store_rel_def)
  then have "table_ok b' fs' (m(k \<mapsto> v))"
    using nd content_at_ext [OF _ ext] at
    unfolding table_ok_def b' by (fastforce simp: apply_entry_def split: option.splits)
  with e log_append [OF rel wf small b' wb _ infl] show ?thesis by blast
qed

lemma Block_Del_ok:
  assumes rel: "store_rel s m" and k: "length k < 2 ^ 30"
    and del: "Block_Del k (blk s) (sfs s) = (e, b', fs')" and small: "files_small fs'"
  shows "e = None \<and> store_rel (s\<lparr>blk := b', sfs := fs'\<rparr>) (m(k := None))"
proof -
  let ?b = "blk s" and ?fs = "sfs s" and ?dir = "tempDir (blk s)"
  have wf: "wf_entry (k, NewDelIndex)" using k by (simp add: wf_entry_def) (simp add: NewDelIndex_def NewIndex_def)
  obtain w' where wb: "iw_Write_bytes (indexW ?b) (enc_log [(k, NewDelIndex)]) ?fs = (w', fs')" and e: "e = None"
    and b': "b' = ?b\<lparr>indexW := w', indexTable := apply_entry (indexTable ?b) (k, NewDelIndex)\<rparr>"
    using del by (auto simp: Block_Del_def IndexWriter_Write_eq apply_entry_def split: prod.splits)
  have ext: "content_ext ?dir ?fs fs'" by (rule index_write_ext [OF rel wb])
  have "table_ok ?b ?fs m" using rel by (simp add: store_rel_def)
  then have "table_ok b' fs' (m(k := None))"
    using content_at_ext [OF _ ext]
    unfolding table_ok_def b' by (fastforce simp: apply_entry_def split: option.splits)
  with e log_append [OF rel wf small b' wb _ order_refl] show ?thesis by auto
qed

subsection \<open>Dumping the index\<close>

lemma dump_begin_ok:
  assumes "store_rel s m" and "pending s = None"
  shows "store_rel (s\<lparr>blk := dump_begin (blk s)\<rparr>) m"
proof -
  let ?b = "dump_begin (blk s)"
  have same: "tempDir ?b = tempDir (blk s)" "maxSize ?b = maxSize (blk s)" "indexTable ?b = indexTable (blk s)" "contentW ?b = contentW (blk s)"
    "iw_ino (indexW ?b) = iw_ino (indexW (blk s))"
    by (simp_all add: dump_begin_def WriteAndBuffered_def)
  from assms obtain log where *: "log_ok (blk s) (sfs s) log" "buffer_ok (blk s) (sfs s) None log"
    unfolding store_rel_def by auto
  have "log_ok ?b (sfs s) log" using *(1) by (simp add: log_ok_def same)
  moreover have "buffer_ok ?b (sfs s) None log"
  proof -
    from *(2) obtain pre b1 b2 where "log = pre @ b1 @ b2"
        "iw_buffer (indexW (blk s)) = (if iw_buffering (indexW (blk s)) then enc_log (b1 @ b2) else [])"
      unfolding buffer_ok_def by blast
    then show ?thesis
      unfolding buffer_ok_def
      by (cases "iw_buffering (indexW (blk s))")
         (auto simp: dump_begin_def WriteAndBuffered_def intro: exI [of _ pre] exI [of _ log])
  qed
  moreover have "writer_ok ?b (sfs s) = writer_ok (blk s) (sfs s)" "table_ok ?b (sfs s) m = table_ok (blk s) (sfs s) m"
    unfolding writer_ok_def table_ok_def same by (rule refl)+
  ultimately show ?thesis
    using assms unfolding store_rel_def by (auto simp: same)
qed

lemma load_log:
  assumes "log_ok b fs log" and "files_small fs" and "\<not> denied fs (path_Join (tempDir b) FilenameBlockIndex)"
  shows "LoadIndexFromFile (path_Join (tempDir b) FilenameBlockIndex) fs = Inr (indexTable b, None)"
proof -
  have "length ([] @ enc_log log) < 2 ^ 63" "\<forall>e \<in> set log. wf_entry e"
    using assms unfolding log_ok_def files_small_def by (metis append_Nil, blast)
  from scan_enc_log [OF this(2,1)] have "scan_index (enc_log log) 0 = Inr (log, None)" by simp
  then show ?thesis
    using assms(1,3) by (auto simp: LoadIndexFromFile_def OpenRead_def log_ok_def replay_def [symmetric])
qed

lemma OpenAppend_trunc:
  assumes ok: "fs_ok fs" and op: "OpenAppend p True fs = Inr (i, fs')"
  shows "fs_ok fs' \<and> dirent fs' p = Some i \<and> inode fs' i = [] \<and> (\<forall>q. q \<noteq> p \<longrightarrow> same_file fs fs' q)"
proof (cases "dirent fs p")
  case (Some j)
  with op have "i = j" "fs' = fs\<lparr>inode := (inode fs)(j := [])\<rparr>"
    by (auto simp: OpenAppend_def split: if_splits)
  with ok Some show ?thesis
    by (auto simp: fs_ok_def same_file_def inj_on_def dom_def)
next
  case None
  with op have *: "i = next_ino fs" "fs' = fs\<lparr>dirent := (dirent fs)(p \<mapsto> next_ino fs),
      inode := (inode fs)(next_ino fs := []), next_ino := Suc (next_ino fs)\<rparr>"
    by (auto simp: OpenAppend_def split: if_splits)
  have lt: "\<And>q j. dirent fs q = Some j \<Longrightarrow> j < next_ino fs"
    and inj: "inj_on (dirent fs) (dom (dirent fs))" using ok by (auto simp: fs_ok_def)
  have "fs_ok fs'"
    unfolding fs_ok_def *(2) using lt inj None
    by (auto simp: inj_on_def dom_def less_Suc_eq) (metis less_irrefl lt)+
  then show ?thesis using * lt by (auto simp: same_file_def dest: lt)
qed

text \<open>Only files outside the content and index names change: the relation is kept.\<close>

lemma store_rel_frame:
  assumes rel: "store_rel s m" and fs: "fs_ok fs'" and small: "files_small fs'"
    and frame: "\<And>p. p \<noteq> path_Join (tempDir (blk s)) FilenameBlockIndexTemp \<Longrightarrow> same_file (sfs s) fs' p"
    and buf: "\<And>log. log_ok (blk s) (sfs s) log \<Longrightarrow> buffer_ok (blk s) (sfs s) (pending s) log
                \<Longrightarrow> buffer_ok (blk s) fs' pend log"
  shows "store_rel (s\<lparr>sfs := fs', pending := pend\<rparr>) m"
proof -
  let ?b = "blk s" and ?fs = "sfs s" and ?dir = "tempDir (blk s)"
  from rel obtain log where dir: "abs_dir ?dir" and cont: "content_ok ?dir ?fs"
    and wrt: "writer_ok ?b ?fs" and log: "log_ok ?b ?fs log" "buffer_ok ?b ?fs (pending s) log"
    and fl: "\<forall>(k, v, idx) \<in> set (inflight s). content_at ?fs ?dir idx k v" and tab: "table_ok ?b ?fs m"
    unfolding store_rel_def by blast
  have cframe: "same_file ?fs fs' (path_Join ?dir n)" if "content_name n" for n
    using frame names_apart(2) [OF dir that] by blast
  have ext: "content_ext ?dir ?fs fs'" by (rule content_ext_same) (rule cframe)
  have "content_ok ?dir fs'" using cont cframe by (rule content_ok_same)
  moreover have "writer_ok ?b fs'"
    by (rule writer_ok_frame [OF wrt cframe]) simp_all
  moreover have "table_ok ?b fs' m" using tab ext by (rule table_ok_ext) simp_all
  moreover have "log_ok ?b fs' log"
    using log(1) frame names_apart(3) [OF dir] by (intro log_ok_frame [OF log(1)]) auto
  moreover have "\<forall>(k, v, idx) \<in> set (inflight s). content_at fs' ?dir idx k v"
    using fl content_at_ext [OF _ ext] by blast
  ultimately show ?thesis
    using dir fs small buf [OF log] unfolding store_rel_def by auto
qed

lemma dump_merge_ok:
  assumes rel: "store_rel s m" and pend: "pending s = None" and on: "iw_buffering (indexW (blk s))"
    and ord: "range_order order" and merge: "dump_merge order (blk s) (sfs s) = Inr (Inr (w, fs'))"
    and small: "files_small fs'"
  shows "store_rel (s\<lparr>sfs := fs', pending := Some w\<rparr>) m"
proof -
  let ?b = "blk s" and ?fs = "sfs s" and ?dir = "tempDir (blk s)"
  let ?idx = "path_Join ?dir FilenameBlockIndex" and ?tmp = "path_Join ?dir FilenameBlockIndexTemp"
  from rel obtain log where dir: "abs_dir ?dir" and fs: "fs_ok ?fs" and sm: "files_small ?fs"
    and log: "log_ok ?b ?fs log" unfolding store_rel_def by blast
  have nd: "\<not> denied ?fs ?idx"
    using merge by (auto simp: dump_merge_def LoadIndexFromFile_def OpenRead_def split: if_splits)
  note load = load_log [OF log sm nd]
  obtain i fs1 where op: "OpenAppend ?tmp True ?fs = Inr (i, fs1)"
    using merge load by (auto simp: dump_merge_def NewIndexWriter_def split: sum.splits)
  then have w: "w = \<lparr>iw_ino = i, iw_buffering = False, iw_buffer = []\<rparr>"
    and fs': "fs' = fs_append i (enc_log (order (indexTable ?b))) fs1"
    using merge load by (simp_all add: dump_merge_def NewIndexWriter_def write_entries_eq)
  note O = OpenAppend_trunc [OF fs op]
  have frame: "same_file ?fs fs' p" if "p \<noteq> ?tmp" for p
    using O that fs_append_frame [of fs1 ?tmp i p] unfolding fs' by (blast intro: same_file_trans)
  show ?thesis
  proof (rule store_rel_frame [OF rel _ small frame])
    show "fs_ok fs'" using O by (simp add: fs')
  next
    fix log assume log: "log_ok ?b ?fs log" and "buffer_ok ?b ?fs (pending s) log"
    then obtain pre b1 b2 where *: "log = pre @ b1 @ b2"
        "iw_buffer (indexW ?b) = (if iw_buffering (indexW ?b) then enc_log (b1 @ b2) else [])"
      unfolding buffer_ok_def by blast
    have "replay log = indexTable ?b" "\<forall>e \<in> set log. wf_entry e" using log by (simp_all add: log_ok_def)
    then have "\<forall>e \<in> set (order (indexTable ?b)). wf_entry e" "replay (order (indexTable ?b)) = replay log"
      using order_wf [OF ord] replay_order [OF ord] by metis+
    then show "buffer_ok ?b fs' (Some w) log"
      unfolding buffer_ok_def using * on O
      by (intro exI [of _ pre] exI [of _ "b1 @ b2"] exI [of _ "[]"]) (auto simp: w fs')
  qed
qed

lemma fs_rename_ok:
  assumes "fs_ok fs" and "dirent fs a = Some i" and "a \<noteq> b"
  shows "fs_ok (fs_rename a b fs) \<and> dirent (fs_rename a b fs) b = Some i \<and> inode (fs_rename a b fs) = inode fs \<and>
         (\<forall>p. p \<noteq> a \<longrightarrow> p \<noteq> b \<longrightarrow> same_file fs (fs_rename a b fs) p)"
  using assms by (auto simp: fs_rename_def fs_ok_def same_file_def inj_on_def dom_def)

lemma dump_swap_ok:
  assumes rel: "store_rel s m" and pend: "pending s = Some w"
    and swap: "dump_swap w (blk s) (sfs s) = (b', fs')" and small: "files_small fs'"
  shows "store_rel (s\<lparr>blk := b', sfs := fs', pending := None\<rparr>) m"
proof -
  let ?b = "blk s" and ?fs = "sfs s" and ?dir = "tempDir (blk s)"
  let ?idx = "path_Join ?dir FilenameBlockIndex" and ?tmp = "path_Join ?dir FilenameBlockIndexTemp"
  from rel obtain log where dir: "abs_dir ?dir" and fs: "fs_ok ?fs" and cont: "content_ok ?dir ?fs"
    and wrt: "writer_ok ?b ?fs" and log: "log_ok ?b ?fs log" and buf: "buffer_ok ?b ?fs (Some w) log"
    and fl: "\<forall>(k, v, idx) \<in> set (inflight s). content_at ?fs ?dir idx k v" and tab: "table_ok ?b ?fs m"
    using pend unfolding store_rel_def by auto
  from buf obtain pre b1 b2 dump where *: "log = pre @ b1 @ b2" "iw_buffer (indexW ?b) = enc_log (b1 @ b2)"
      "\<not> iw_buffering w" "iw_buffer w = []" "dirent ?fs ?tmp = Some (iw_ino w)"
      "inode ?fs (iw_ino w) = enc_log dump" "\<forall>e \<in> set dump. wf_entry e" "replay dump = replay (pre @ b1)"
    unfolding buffer_ok_def by auto
  let ?fs1 = "fs_append (iw_ino w) (enc_log (b1 @ b2)) ?fs"
  have b': "b' = ?b\<lparr>indexW := w\<rparr>" and fs': "fs' = fs_rename ?tmp ?idx ?fs1"
    using swap *(2,3) by (simp_all add: dump_swap_def BufferWriteTo_def iw_Write_bytes_def)
  have R: "fs_ok fs'" "dirent fs' ?idx = Some (iw_ino w)" "inode fs' = inode ?fs1"
      "\<And>p. p \<noteq> ?tmp \<Longrightarrow> p \<noteq> ?idx \<Longrightarrow> same_file ?fs1 fs' p"
    using fs_rename_ok [of ?fs1 ?tmp "iw_ino w" ?idx] fs *(5) names_apart(3) [OF dir] unfolding fs' by auto
  have cframe: "same_file ?fs fs' (path_Join ?dir n)" if "content_name n" for n
    using R(4) names_apart(1,2) [OF dir that] fs_append_frame [OF fs *(5)] by (blast intro: same_file_trans)
  have ext: "content_ext ?dir ?fs fs'" by (rule content_ext_same) (rule cframe)
  have same: "tempDir b' = ?dir" "indexTable b' = indexTable ?b" "contentW b' = contentW ?b"
    by (simp_all add: b')
  have "content_ok ?dir fs'" using cont cframe by (rule content_ok_same)
  moreover have "writer_ok b' fs'"
    by (rule writer_ok_frame [OF wrt cframe]) (simp_all add: b')
  moreover have "table_ok b' fs' m" using tab ext by (rule table_ok_ext) (simp_all add: same)
  moreover have "log_ok b' fs' (dump @ b1 @ b2)"
  proof -
    have "replay (dump @ b1 @ b2) = foldl apply_entry (replay (pre @ b1)) (b1 @ b2)"
      using *(8) by (simp add: replay_append)
    also have "\<dots> = replay log" unfolding *(1) by (rule replay_suffix_twice)
    finally show ?thesis using log R(2,3) *(1,6,7) by (auto simp: log_ok_def b')
  qed
  moreover have "buffer_ok b' fs' None (dump @ b1 @ b2)"
    unfolding buffer_ok_def using *(3,4)
    by (intro exI [of _ "dump @ b1 @ b2"] exI [of _ "[]"]) (simp add: b')
  moreover have "\<forall>(k, v, idx) \<in> set (inflight s). content_at fs' ?dir idx k v"
    using fl content_at_ext [OF _ ext] by blast
  ultimately show ?thesis
    using dir R(1) small unfolding store_rel_def by (auto simp: same)
qed

lemma write_content_step:
  assumes rel: "store_rel s m" and n: "content_name fresh" and fit: "fits k v" and k: "length k < 2 ^ 30"
    and wr: "writeContent fresh k v (blk s) (sfs s) = (r, b', fs')" and small: "files_small fs'"
    and infl: "infl' = (case r of Inl _ \<Rightarrow> inflight s | Inr idx \<Rightarrow> (k, v, idx) # inflight s)"
  shows "store_rel (s\<lparr>blk := b', sfs := fs', inflight := infl'\<rparr>) m"
proof -
  let ?b = "blk s" and ?fs = "sfs s" and ?dir = "tempDir (blk s)"
  from rel obtain log where dir: "abs_dir ?dir" and disk: "disk_ok ?dir ?fs"
    and wrt: "writer_ok ?b ?fs" and log: "log_ok ?b ?fs log" and buf: "buffer_ok ?b ?fs (pending s) log"
    and fl: "\<forall>(k, v, idx) \<in> set (inflight s). content_at ?fs ?dir idx k v" and tab: "table_ok ?b ?fs m"
    unfolding store_rel_def disk_ok_def by blast
  note W = writeContent_ok [OF disk wrt n fit k wr]
  from W have ext: "content_ext ?dir ?fs fs'" by blast
  from W obtain cw where b': "b' = ?b\<lparr>contentW := cw\<rparr>" by blast
  have frames: "same_file ?fs fs' (path_Join ?dir FilenameBlockIndex)"
    "same_file ?fs fs' (path_Join ?dir FilenameBlockIndexTemp)"
    using W names_apart [OF dir] by metis+
  have "log_ok b' fs' log" by (rule log_ok_frame [OF log frames(1)]) (simp_all add: b')
  moreover have "buffer_ok b' fs' (pending s) log"
    by (rule buffer_ok_frame [OF buf frames(2)]) (simp_all add: b')
  moreover have "table_ok b' fs' m" using tab ext by (rule table_ok_ext) (simp_all add: b')
  moreover have "\<forall>(k, v, idx) \<in> set infl'. content_at fs' ?dir idx k v"
    using fl content_at_ext [OF _ ext] W unfolding infl by (auto split: sum.splits)
  ultimately show ?thesis
    using W small unfolding store_rel_def disk_ok_def by (auto simp: b')
qed

subsection \<open>Interleaved operations\<close>

text \<open>
  The critical sections of the code are the steps: a \<^verbatim>\<open>Set\<close> is a content write under the content
  lock followed by an index write under the index lock; \<^verbatim>\<open>Del\<close> holds the index lock; a dump is its
  three parts. The label says what the step means for the map. Files stay below \<open>2 ^ 63\<close> bytes,
  the range of a file offset.
\<close>

datatype block_label = Put string string | Remove string | Internal

fun spec_step :: "(string \<Rightarrow> string option) \<Rightarrow> block_label \<Rightarrow> (string \<Rightarrow> string option)" where
  "spec_step m (Put k v) = m(k \<mapsto> v)"
| "spec_step m (Remove k) = m(k := None)"
| "spec_step m Internal = m"

inductive block_step :: "system \<Rightarrow> block_label \<Rightarrow> system \<Rightarrow> bool" where
  write_content:
    "\<lbrakk>writeContent fresh k v (blk s) (sfs s) = (Inr idx, b', fs'); content_name fresh; fits k v; length k < 2 ^ 30;
      files_small fs'\<rbrakk>
     \<Longrightarrow> block_step s Internal (s\<lparr>blk := b', sfs := fs', inflight := (k, v, idx) # inflight s\<rparr>)"
| content_error:
    "\<lbrakk>writeContent fresh k v (blk s) (sfs s) = (Inl e, b', fs'); content_name fresh; fits k v; length k < 2 ^ 30;
      files_small fs'\<rbrakk>
     \<Longrightarrow> block_step s Internal (s\<lparr>blk := b', sfs := fs'\<rparr>)"
| write_index:
    "\<lbrakk>(k, v, idx) \<in> set (inflight s); writeIndex k idx (blk s) (sfs s) = (e, b', fs'); files_small fs'\<rbrakk>
     \<Longrightarrow> block_step s (Put k v) (s\<lparr>blk := b', sfs := fs', inflight := remove1 (k, v, idx) (inflight s)\<rparr>)"
| delete:
    "\<lbrakk>Block_Del k (blk s) (sfs s) = (e, b', fs'); length k < 2 ^ 30; files_small fs'\<rbrakk>
     \<Longrightarrow> block_step s (Remove k) (s\<lparr>blk := b', sfs := fs'\<rparr>)"
| dump_start: "pending s = None \<Longrightarrow> block_step s Internal (s\<lparr>blk := dump_begin (blk s)\<rparr>)"
| dump_merged:
    "\<lbrakk>pending s = None; iw_buffering (indexW (blk s)); range_order order;
      dump_merge order (blk s) (sfs s) = Inr (Inr (w, fs')); files_small fs'\<rbrakk>
     \<Longrightarrow> block_step s Internal (s\<lparr>sfs := fs', pending := Some w\<rparr>)"
| dump_swapped:
    "\<lbrakk>pending s = Some w; dump_swap w (blk s) (sfs s) = (b', fs'); files_small fs'\<rbrakk>
     \<Longrightarrow> block_step s Internal (s\<lparr>blk := b', sfs := fs', pending := None\<rparr>)"

inductive block_run :: "system \<Rightarrow> block_label list \<Rightarrow> system \<Rightarrow> bool" where
  run_refl: "block_run s [] s"
| run_step: "block_run s ls s' \<Longrightarrow> block_step s' l s'' \<Longrightarrow> block_run s (ls @ [l]) s''"

lemma block_step_simulates:
  assumes "block_step s l s'" and "store_rel s m"
  shows "store_rel s' (spec_step m l)"
  using assms
proof (induction rule: block_step.induct)
  case (write_content fresh k v s idx b' fs')
  then show ?case using write_content_step [of s m fresh k v "Inr idx"] by simp
next
  case (content_error fresh k v s e b' fs')
  then show ?case using write_content_step [of s m fresh k v "Inl e" b' fs' "inflight s"] by simp
next
  case (write_index k v idx s e b' fs')
  then show ?case
    using writeIndex_ok [OF write_index.prems write_index(1-3) set_remove1_subset]
    unfolding spec_step.simps by blast
next
  case (delete k s e b' fs')
  then show ?case using Block_Del_ok unfolding spec_step.simps by blast
next
  case (dump_start s)
  then show ?case using dump_begin_ok by simp
next
  case (dump_merged s order w fs')
  then show ?case using dump_merge_ok by simp
next
  case (dump_swapped s w b' fs')
  then show ?case using dump_swap_ok by simp
qed

lemma block_run_simulates: "block_run s ls s' \<Longrightarrow> store_rel s m \<Longrightarrow> store_rel s' (foldl spec_step m ls)"
  by (induction rule: block_run.induct) (auto intro: block_step_simulates)

lemma store_rel_Get:
  assumes rel: "store_rel s m" and nd: "\<forall>p. \<not> denied (sfs s) p"
  shows "Block_Get k (blk s) (sfs s) =
           (case m k of None \<Rightarrow> Inr (Inl errNotExist) | Some v \<Rightarrow> Inr (Inr v))"
proof -
  from rel have dir: "abs_dir (tempDir (blk s))" and small: "files_small (sfs s)"
    and tab: "table_ok (blk s) (sfs s) m" by (auto simp: store_rel_def)
  show ?thesis
  proof (cases "indexTable (blk s) k")
    case None
    then have "m k = None" using tab [unfolded table_ok_def, rule_format, of k] by simp
    then show ?thesis using None by (simp add: Block_Get_def readIndex_def)
  next
    case (Some idx)
    then obtain v where v: "m k = Some v" "content_at (sfs s) (tempDir (blk s)) idx k v"
      using tab [unfolded table_ok_def, rule_format, of k] by auto
    then show ?thesis
      using Some content_at_read [OF v(2) dir small nd] by (simp add: Block_Get_def readIndex_def)
  qed
qed

subsection \<open>Starting and restarting\<close>

definition start_system :: "Block \<Rightarrow> fsys \<Rightarrow> system" where
  "start_system b fs = \<lparr>blk = b, sfs = fs, pending = None, inflight = []\<rparr>"

text \<open>The walk at start opens content files for appending and changes no file.\<close>

lemma walk_content_ok:
  assumes "disk_ok dir fs" and "\<forall>p. \<not> denied fs p"
    and "\<forall>n \<in> set names. (content_name n \<or> n = FilenameBlockIndex \<or> n = FilenameBlockIndexTemp) \<and>
           dirent fs (path_Join dir n) \<noteq> None"
    and "\<forall>w. cw = Some w \<longrightarrow> (\<exists>n. is_writer dir fs n w)"
  shows "\<exists>cw'. walk_content dir mx names (cw, fs) = Inr (cw', fs) \<and>
               (\<forall>w. cw' = Some w \<longrightarrow> (\<exists>n. is_writer dir fs n w))"
  using assms(3,4)
proof (induction names arbitrary: cw)
  case Nil
  then show ?case by simp
next
  case (Cons n names)
  show ?case
  proof (cases "n = FilenameBlockIndex \<or> n = FilenameBlockIndexTemp")
    case True
    then show ?thesis using Cons by simp
  next
    case False
    with Cons.prems have n: "content_name n" and "dirent fs (path_Join dir n) \<noteq> None" by auto
    then obtain w where new: "NewContentWriter (path_Join dir n) dir fs = Inr (w, fs)"
      using assms(2) by (auto simp: NewContentWriter_def OpenAppend_def)
    then have "is_writer dir fs n w" using NewContentWriter_ok [OF assms(1) n new] by blast
    then have "\<forall>w'. (if size_reached mx (ContentWriter_Size w) then cw else Some w) = Some w' \<longrightarrow>
        (\<exists>n. is_writer dir fs n w')" using Cons.prems(2) by auto
    from Cons.IH [OF _ this] Cons.prems(1) show ?thesis by (simp add: False new split del: if_split cong: if_cong)
  qed
qed

lemma empty_disk_rel:
  assumes dir: "abs_dir dir" and empty: "dirent fs = Map.empty" and nd: "\<forall>p. \<not> denied fs p"
    and small: "files_small fs" and init: "Block_Initiate dir mx [] fs = Inr (Inr (b, fs'))"
  shows "store_rel (start_system b fs') Map.empty"
proof -
  let ?p = "path_Join dir FilenameBlockIndex" and ?i = "next_ino fs"
  let ?fs = "fs\<lparr>dirent := [?p \<mapsto> ?i], inode := (inode fs)(?i := []), next_ino := Suc ?i\<rparr>"
  let ?b = "\<lparr>tempDir = dir, maxSize = mx, contentW = None, indexTable = Map.empty,
              indexW = \<lparr>iw_ino = ?i, iw_buffering = False, iw_buffer = []\<rparr>\<rparr>"
  have eof: "scan_index [] 0 = Inr ([], None)"
    using scan_enc_log [of "[]" "[]"] by simp
  have "b = ?b" "fs' = ?fs"
    using init empty nd
    by (simp_all add: Block_Initiate_def NewIndexWriter_def OpenAppend_def loadIndex_def
        LoadIndexFromFile_def OpenRead_def eof)
  moreover have "store_rel (start_system ?b ?fs) Map.empty"
    using dir small names_apart(1) [OF dir]
    by (auto simp: store_rel_def start_system_def fs_ok_def inj_on_def content_ok_def files_small_def
        writer_ok_def table_ok_def log_ok_def buffer_ok_def replay_def intro!: exI [of _ "[]"] split: if_splits)
  ultimately show ?thesis by simp
qed

lemma restart_rel:
  assumes rel: "store_rel s m" and nd: "\<forall>p. \<not> denied (sfs s) p"
    and names: "\<forall>n \<in> set names. (content_name n \<or> n = FilenameBlockIndex \<or> n = FilenameBlockIndexTemp) \<and>
           dirent (sfs s) (path_Join (tempDir (blk s)) n) \<noteq> None"
  shows "\<exists>b. Block_Initiate (tempDir (blk s)) mx names (sfs s) = Inr (Inr (b, sfs s)) \<and>
             store_rel (start_system b (sfs s)) m \<and> indexTable b = indexTable (blk s)"
proof -
  let ?b = "blk s" and ?fs = "sfs s" and ?dir = "tempDir (blk s)"
  from rel obtain log where dir: "abs_dir ?dir" and fs: "fs_ok ?fs" and cont: "content_ok ?dir ?fs"
    and small: "files_small ?fs" and log: "log_ok ?b ?fs log" and tab: "table_ok ?b ?fs m"
    unfolding store_rel_def by blast
  from walk_content_ok [of ?dir ?fs names None mx] dir fs cont nd names
  obtain cw where cw: "walk_content ?dir mx names (None, ?fs) = Inr (cw, ?fs)"
    "\<forall>w. cw = Some w \<longrightarrow> (\<exists>n. is_writer ?dir ?fs n w)"
    by (auto simp: disk_ok_def)
  let ?w = "\<lparr>iw_ino = iw_ino (indexW ?b), iw_buffering = False, iw_buffer = []\<rparr>"
  let ?b1 = "\<lparr>tempDir = ?dir, maxSize = mx, contentW = cw, indexTable = indexTable ?b, indexW = ?w\<rparr>"
  have iw: "NewIndexWriter (path_Join ?dir FilenameBlockIndex) False ?fs = Inr (?w, ?fs)"
    using log nd by (simp add: NewIndexWriter_def OpenAppend_def log_ok_def)
  have "LoadIndexFromFile (path_Join ?dir FilenameBlockIndex) ?fs = Inr (indexTable ?b, None)"
    using log small nd by (intro load_log) auto
  then have init: "Block_Initiate ?dir mx names ?fs = Inr (Inr (?b1, ?fs))"
    by (simp add: Block_Initiate_def cw(1) iw loadIndex_def)
  have "log_ok ?b1 ?fs log" using log by (simp add: log_ok_def)
  moreover have "buffer_ok ?b1 ?fs None log"
    unfolding buffer_ok_def by (intro exI [of _ log] exI [of _ "[]"]) simp
  moreover have "table_ok ?b1 ?fs m" using tab content_ext_refl by (rule table_ok_ext) simp_all
  moreover have "writer_ok ?b1 ?fs" using cw(2) by (simp add: writer_ok_def)
  ultimately have "store_rel (start_system ?b1 ?fs) m"
    using dir fs cont small unfolding store_rel_def start_system_def by auto
  with init show ?thesis by auto
qed

end
