(* ===== verification/Block_Defrag.thy ===== *)
theory Block_Defrag
  imports Block_Correct
begin

text \<open>
  Defragmentation of the content files: the records a file still has are copied to the current
  content file before the file is removed, and the map the store stands for does not change.
\<close>

subsection \<open>Unique decoding of record sequences\<close>

lemma kv_bytes_prefix:
  assumes "fits k v" and "fits k' v'" and "kv_bytes k v @ xs = kv_bytes k' v' @ ys"
  shows "k = k' \<and> v = v' \<and> xs = ys"
proof -
  have "kv_Get ([] @ kv_bytes k v @ xs) (of_nat (length ([] :: string))) = Inr (Inr (NewKvstoreData k v))"
    by (rule kv_Get_at [OF assms(1)]) simp
  moreover have "kv_Get ([] @ kv_bytes k' v' @ ys) (of_nat (length ([] :: string))) = Inr (Inr (NewKvstoreData k' v'))"
    by (rule kv_Get_at [OF assms(2)]) simp
  ultimately have "NewKvstoreData k v = NewKvstoreData k' v'" using assms(3) by simp
  then have "k = k'" "v = v'" by (simp_all add: NewKvstoreData_def)
  with assms(3) show ?thesis by simp
qed

lemma records_inj:
  assumes "all_fit xs" and "all_fit ys" and "records xs = records ys"
  shows "xs = ys"
  using assms
proof (induction xs arbitrary: ys)
  case Nil
  then show ?case by (cases ys) auto
next
  case (Cons x xs)
  obtain k v where x: "x = (k, v)" by (cases x)
  from Cons.prems x obtain k' v' ys' where ys: "ys = (k', v') # ys'"
    by (cases ys) auto
  from Cons.prems x ys have "k = k' \<and> v = v' \<and> records xs = records ys'"
    by (intro kv_bytes_prefix) simp_all
  with Cons x ys show ?case by simp
qed

subsection \<open>What a write leaves alone\<close>

lemma NewContentWriter_frame:
  assumes ok: "fs_ok fs" and nd: "\<not> denied fs p"
  obtains w fs' where "NewContentWriter p dir fs = Inr (w, fs')" "cw_name w = p" "cw_base w = dir"
    "denied fs' = denied fs" "\<forall>q. q \<noteq> p \<longrightarrow> same_file fs fs' q"
    "\<forall>j. length (inode fs' j) \<le> length (inode fs j)"
proof (cases "dirent fs p")
  case (Some i)
  with nd show thesis
    by (intro that [of "\<lparr>cw_name = p, cw_ino = i, cw_base = dir, cw_size = of_nat (length (inode fs i))\<rparr>" fs])
       (simp_all add: NewContentWriter_def OpenAppend_def)
next
  case None
  let ?fs = "fs\<lparr>dirent := (dirent fs)(p \<mapsto> next_ino fs), inode := (inode fs)(next_ino fs := []),
               next_ino := Suc (next_ino fs)\<rparr>"
  have "\<forall>q. q \<noteq> p \<longrightarrow> same_file fs ?fs q"
    using ok by (fastforce simp: same_file_def fs_ok_def)
  with None nd show thesis
    by (intro that [of "\<lparr>cw_name = p, cw_ino = next_ino fs, cw_base = dir, cw_size = 0\<rparr>" ?fs])
       (simp_all add: NewContentWriter_def OpenAppend_def)
qed

text \<open>The writer a content write uses: the current one, or a new one on the fresh name.\<close>

lemma updateContentWriter_frame:
  assumes ok: "fs_ok fs" and nd: "\<forall>p. \<not> denied fs p"
  obtains w b' fs' where "updateContentWriter fresh b fs = (None, b', fs')" "contentW b' = Some w"
    "denied fs' = denied fs" "\<forall>q. q \<noteq> path_Join (tempDir b) fresh \<longrightarrow> same_file fs fs' q"
    "\<forall>j. length (inode fs' j) \<le> length (inode fs j)"
    "cw_name w = path_Join (tempDir b) fresh \<or> contentW b = Some w \<and> \<not> size_reached (maxSize b) (cw_size w)"
proof (cases "\<exists>w. contentW b = Some w \<and> \<not> size_reached (maxSize b) (cw_size w)")
  case True
  then obtain w where w: "contentW b = Some w" "\<not> size_reached (maxSize b) (cw_size w)" by blast
  then show thesis
    by (intro that [of b fs w]) (simp_all add: updateContentWriter_def ContentWriter_Size_def)
next
  case False
  from nd obtain w fs' where N: "NewContentWriter (path_Join (tempDir b) fresh) (tempDir b) fs = Inr (w, fs')"
      "cw_name w = path_Join (tempDir b) fresh" "denied fs' = denied fs"
      "\<forall>q. q \<noteq> path_Join (tempDir b) fresh \<longrightarrow> same_file fs fs' q"
      "\<forall>j. length (inode fs' j) \<le> length (inode fs j)"
    using NewContentWriter_frame [OF ok] by metis
  show thesis
    by (rule that [of "b\<lparr>contentW := Some w\<rparr>" fs' w])
       (use False N in \<open>auto simp: updateContentWriter_def ContentWriter_Size_def Let_def split: option.split\<close>)
qed

lemma writeContent_frame:
  assumes ok: "disk_ok (tempDir b) fs" and w: "writer_ok b fs" and n: "content_name fresh"
    and fit: "fits k v" and k: "length k < 2 ^ 30" and nd: "\<forall>p. \<not> denied fs p"
  obtains idx w b' fs' where "writeContent fresh k v b fs = (Inr idx, b', fs')" "contentW b' = Some w"
    "denied fs' = denied fs" "cw_name w = path_Join (tempDir b) fresh \<or>
       (\<exists>w0. contentW b = Some w0 \<and> \<not> size_reached (maxSize b) (cw_size w0) \<and> cw_name w = cw_name w0)"
    "\<forall>p. p \<noteq> cw_name w \<longrightarrow> p \<noteq> path_Join (tempDir b) fresh \<longrightarrow> same_file fs fs' p"
    "\<forall>j. length (inode fs' j) \<le> length (inode fs j) + length (kv_bytes k v)"
    "filenameContent idx = TrimPrefix (cw_name w) (tempDir b)"
proof -
  from ok have "fs_ok fs" by (simp add: disk_ok_def)
  from updateContentWriter_frame [OF this nd, of fresh b] obtain w1 b1 fs1 where
    U: "updateContentWriter fresh b fs = (None, b1, fs1)" "contentW b1 = Some w1"
      "denied fs1 = denied fs" "\<forall>q. q \<noteq> path_Join (tempDir b) fresh \<longrightarrow> same_file fs fs1 q"
      "\<forall>j. length (inode fs1 j) \<le> length (inode fs j)"
      "cw_name w1 = path_Join (tempDir b) fresh \<or> contentW b = Some w1 \<and> \<not> size_reached (maxSize b) (cw_size w1)"
    by metis
  note O = updateContentWriter_ok [OF ok w n U(1)]
  from O U(2) obtain n1 where w1: "is_writer (tempDir b) fs1 n1 w1" by auto
  let ?fs = "fs_append (cw_ino w1) (kv_bytes k v) fs1"
  let ?w = "w1\<lparr>cw_size := cw_size w1 + ucast (kv_Size (NewKvstoreData k v))\<rparr>"
  let ?idx = "NewIndex (TrimPrefix (cw_name w1) (cw_base w1)) (cw_size w1) (kv_Size (NewKvstoreData k v))"
  have W: "writeContent fresh k v b fs = (Inr ?idx, b1\<lparr>contentW := Some ?w\<rparr>, ?fs)"
    by (simp add: writeContent_def U(1,2) ContentWriter_Write_def kv_Set_New fs_append_def Let_def)
  have "fs_ok fs1" "dirent fs1 (cw_name w1) = Some (cw_ino w1)" "cw_base w1 = tempDir b"
    using O w1 by (auto simp: disk_ok_def is_writer_def)
  note A = fs_append_frame [OF this(1,2)]
  show thesis
  proof (rule that [OF W])
    show "\<forall>p. p \<noteq> cw_name ?w \<longrightarrow> p \<noteq> path_Join (tempDir b) fresh \<longrightarrow> same_file fs ?fs p"
      using U(4) A by (auto intro: same_file_trans)
    show "\<forall>j. length (inode ?fs j) \<le> length (inode fs j) + length (kv_bytes k v)"
      using U(5) by (auto simp: fs_append_def trans_le_add1)
    show "cw_name ?w = path_Join (tempDir b) fresh \<or>
       (\<exists>w0. contentW b = Some w0 \<and> \<not> size_reached (maxSize b) (cw_size w0) \<and> cw_name ?w = cw_name w0)"
      using U(6) by auto
  qed (use U(3) \<open>cw_base w1 = tempDir b\<close> in \<open>simp_all add: NewIndex_def\<close>)
qed

text \<open>A whole \<^verbatim>\<open>Set\<close> on a store with nothing in flight.\<close>

definition room :: "fsys \<Rightarrow> nat \<Rightarrow> bool" where
  "room fs c = (\<forall>j. length (inode fs j) + c < 2 ^ 63)"

lemma room_small: "room fs c \<Longrightarrow> files_small fs"
  unfolding room_def files_small_def by (metis add_lessD1)

lemma room_mono:
  assumes "room fs c" and "\<forall>j. length (inode fs' j) \<le> length (inode fs j) + d" and "d + c' \<le> c"
  shows "room fs' c'"
  unfolding room_def
proof
  fix j
  have "length (inode fs j) + c < 2 ^ 63" "length (inode fs' j) \<le> length (inode fs j) + d"
    using assms(1,2) by (auto simp: room_def)
  with assms(3) show "length (inode fs' j) + c' < 2 ^ 63" by linarith
qed

lemma Block_Set_ok:
  assumes rel: "store_rel s m" and fl: "inflight s = []" and nd: "\<forall>p. \<not> denied (sfs s) p"
    and n: "content_name fresh" and fit: "fits k v" and k: "length k < 2 ^ 30"
    and room: "room (sfs s) (length (kv_bytes k v) + 2 ^ 32 + c)"
  obtains b' fs' idx w where "Block_Set fresh k v (blk s) (sfs s) = (None, b', fs')"
    "store_rel (s\<lparr>blk := b', sfs := fs'\<rparr>) (m(k \<mapsto> v))" "denied fs' = denied (sfs s)" "room fs' c"
    "indexTable b' = (indexTable (blk s))(k \<mapsto> idx)" "filenameContent idx = TrimPrefix (cw_name w) (tempDir (blk s))"
    "contentW b' = Some w" "cw_name w = path_Join (tempDir (blk s)) fresh \<or> (\<exists>w0. contentW (blk s) = Some w0 \<and>
       \<not> size_reached (maxSize (blk s)) (cw_size w0) \<and> cw_name w = cw_name w0)"
    "\<forall>p. p \<noteq> cw_name w \<longrightarrow> p \<noteq> path_Join (tempDir (blk s)) fresh \<longrightarrow>
       p \<noteq> path_Join (tempDir (blk s)) FilenameBlockIndex \<longrightarrow> same_file (sfs s) fs' p"
    "tempDir b' = tempDir (blk s)" "maxSize b' = maxSize (blk s)"
proof -
  let ?b = "blk s" and ?fs = "sfs s" and ?dir = "tempDir (blk s)"
  have disk: "disk_ok ?dir ?fs" and wok: "writer_ok ?b ?fs" using rel by (auto simp: store_rel_def disk_ok_def)
  obtain idx w b1 fs1 where W: "writeContent fresh k v ?b ?fs = (Inr idx, b1, fs1)" "contentW b1 = Some w"
    "denied fs1 = denied ?fs" "cw_name w = path_Join ?dir fresh \<or>
       (\<exists>w0. contentW ?b = Some w0 \<and> \<not> size_reached (maxSize ?b) (cw_size w0) \<and> cw_name w = cw_name w0)"
    "\<forall>p. p \<noteq> cw_name w \<longrightarrow> p \<noteq> path_Join ?dir fresh \<longrightarrow> same_file ?fs fs1 p"
    "\<forall>j. length (inode fs1 j) \<le> length (inode ?fs j) + length (kv_bytes k v)"
    "filenameContent idx = TrimPrefix (cw_name w) ?dir"
    by (rule writeContent_frame [OF disk wok n fit k nd])
  have room1: "room fs1 (2 ^ 32 + c)" using room W(6) by (rule room_mono) simp
  define s1 where "s1 = s\<lparr>blk := b1, sfs := fs1, inflight := [(k, v, idx)]\<rparr>"
  have rel1: "store_rel s1 m"
    unfolding s1_def by (rule write_content_step [OF rel n fit k W(1) room_small [OF room1]]) (simp add: fl)
  have at: "content_at fs1 (tempDir b1) idx k v" using rel1 by (simp add: store_rel_def s1_def)
  then have wf: "fits k (Index_MarshalBinary idx)" using content_at_wf wf_entry_fits by blast
  obtain w2 b2 fs2 where I: "writeIndex k idx b1 fs1 = (None, b2, fs2)"
    "iw_Write_bytes (indexW b1) (kv_bytes k (Index_MarshalBinary idx)) fs1 = (w2, fs2)"
    "b2 = b1\<lparr>indexW := w2, indexTable := (indexTable b1)(k \<mapsto> idx)\<rparr>"
    by (cases "iw_Write_bytes (indexW b1) (kv_bytes k (Index_MarshalBinary idx)) fs1")
       (simp add: writeIndex_def IndexWriter_Write_eq)
  have fs2: "fs2 = fs_append (iw_ino (indexW b1)) (kv_bytes k (Index_MarshalBinary idx)) fs1"
    using I(2) by (auto simp: iw_Write_bytes_def)
  have "\<forall>j. length (inode fs2 j) \<le> length (inode fs1 j) + 2 ^ 32"
    using wf unfolding fs2 by (auto simp: fs_append_def fits_def)
  then have room2: "room fs2 c" by (rule room_mono [OF room1]) simp
  have "store_rel (s1\<lparr>blk := b2, sfs := fs2, inflight := []\<rparr>) (m(k \<mapsto> v))"
    using writeIndex_ok [OF rel1, of k v idx None b2 fs2 "[]"] I(1) room_small [OF room2] by (simp add: s1_def)
  then have rel2: "store_rel (s\<lparr>blk := b2, sfs := fs2\<rparr>) (m(k \<mapsto> v))"
    using fl by (cases s) (simp add: s1_def)
  have b1: "\<exists>cw. b1 = ?b\<lparr>contentW := cw\<rparr>" using writeContent_ok [OF disk wok n fit k W(1)] by blast
  from rel1 obtain log where "fs_ok fs1" "log_ok b1 fs1 log" unfolding store_rel_def s1_def by auto
  then have frame: "same_file fs1 fs2 p" if "p \<noteq> path_Join ?dir FilenameBlockIndex" for p
    using fs_append_frame that b1 unfolding fs2 log_ok_def by auto
  show thesis
  proof (rule that [of b2 fs2 idx w])
    show "\<forall>p. p \<noteq> cw_name w \<longrightarrow> p \<noteq> path_Join ?dir fresh \<longrightarrow> p \<noteq> path_Join ?dir FilenameBlockIndex \<longrightarrow>
        same_file ?fs fs2 p"
      using frame W(5) by (blast intro: same_file_trans)
    show "Block_Set fresh k v ?b ?fs = (None, b2, fs2)" by (simp add: Block_Set_def W(1) I(1))
    show "denied fs2 = denied ?fs" using W(3) by (simp add: fs2)
  qed (use rel2 room2 W I(3) b1 in auto)
qed

subsection \<open>The loop over one file\<close>

text \<open>
  The table still refers to the file \<open>n\<close>, whose records are \<open>rs\<close>, only at records from
  position \<open>p\<close> on, each under its own key.
\<close>

definition refers_from :: "Block \<Rightarrow> string \<Rightarrow> (string \<times> string) list \<Rightarrow> nat \<Rightarrow> bool" where
  "refers_from b n rs p = (\<forall>k idx. indexTable b k = Some idx \<longrightarrow> filenameContent idx = CHR ''/'' # n \<longrightarrow>
     (\<exists>rs1 v rs2. rs = rs1 @ (k, v) # rs2 \<and> p \<le> length rs1 \<and>
        idx = NewIndex (CHR ''/'' # n) (of_nat (length (records rs1))) (kv_Size (NewKvstoreData k v))))"

lemma refers_from_start:
  assumes rel: "store_rel s m" and i: "dirent (sfs s) (path_Join (tempDir (blk s)) n) = Some i"
    and rs: "inode (sfs s) i = records rs" "all_fit rs"
  shows "refers_from (blk s) n rs 0"
  unfolding refers_from_def
proof (intro allI impI)
  fix k idx assume idx: "indexTable (blk s) k = Some idx" "filenameContent idx = CHR ''/'' # n"
  have "table_ok (blk s) (sfs s) m" using rel by (simp add: store_rel_def)
  with idx(1) obtain v where "content_at (sfs s) (tempDir (blk s)) idx k v"
    using table_ok_Some by blast
  then obtain n' i' rs1 rs2 where *: "dirent (sfs s) (path_Join (tempDir (blk s)) n') = Some i'"
      "inode (sfs s) i' = records (rs1 @ (k, v) # rs2)" "all_fit (rs1 @ (k, v) # rs2)"
      "idx = NewIndex (CHR ''/'' # n') (of_nat (length (records rs1))) (kv_Size (NewKvstoreData k v))"
    unfolding content_at_def by blast
  have n': "n' = n" using idx(2) *(4) by (simp add: NewIndex_def)
  with * i have "i' = i" by simp
  with * rs have "rs = rs1 @ (k, v) # rs2" by (metis records_inj)
  with *(4) n' show "\<exists>rs1 v rs2. rs = rs1 @ (k, v) # rs2 \<and> 0 \<le> length rs1 \<and>
      idx = NewIndex (CHR ''/'' # n) (of_nat (length (records rs1))) (kv_Size (NewKvstoreData k v))"
    by blast
qed

lemma nth_split_eq: "rs = rs1 @ x # rs2 \<Longrightarrow> rs = rs1' @ y # rs2' \<Longrightarrow> length rs1 = length rs1' \<Longrightarrow> rs1 = rs1' \<and> x = y"
  by simp

text \<open>Passing a record whose key the table does not hold there leaves one position fewer.\<close>

lemma refers_from_skip:
  assumes ref: "refers_from b n (rs1 @ (k, v) # rs2) (length rs1)"
    and no: "indexTable b k \<noteq> Some (NewIndex (CHR ''/'' # n) (of_nat (length (records rs1))) (kv_Size (NewKvstoreData k v)))"
  shows "refers_from b n (rs1 @ (k, v) # rs2) (Suc (length rs1))"
  unfolding refers_from_def
proof (intro allI impI)
  fix k' idx assume idx: "indexTable b k' = Some idx" "filenameContent idx = CHR ''/'' # n"
  with ref obtain rs1' v' rs2' where *: "rs1 @ (k, v) # rs2 = rs1' @ (k', v') # rs2'" "length rs1 \<le> length rs1'"
      "idx = NewIndex (CHR ''/'' # n) (of_nat (length (records rs1'))) (kv_Size (NewKvstoreData k' v'))"
    unfolding refers_from_def by blast
  have "length rs1 \<noteq> length rs1'"
  proof
    assume "length rs1 = length rs1'"
    with *(1) have "rs1 = rs1'" "k = k'" "v = v'" by simp_all
    with * idx(1) no show False by simp
  qed
  with * show "\<exists>rs1' v0 rs2'. rs1 @ (k, v) # rs2 = rs1' @ (k', v0) # rs2' \<and> Suc (length rs1) \<le> length rs1' \<and>
      idx = NewIndex (CHR ''/'' # n) (of_nat (length (records rs1'))) (kv_Size (NewKvstoreData k' v0))"
    by (intro exI [of _ rs1'] exI [of _ v'] exI [of _ rs2']) simp
qed

lemma content_read_at:
  assumes fit: "fits k v" and small: "length (records rs1) < 2 ^ 63"
    and dir: "abs_dir dir" and n: "content_name n"
  shows "ContentReader_SequentialRead (path_Join dir n) dir (records (rs1 @ (k, v) # rs2)) (of_nat (length (records rs1))) =
           Inr (Inr (k, NewIndex (CHR ''/'' # n) (of_nat (length (records rs1))) (kv_Size (NewKvstoreData k v)),
                     of_nat (length (records (rs1 @ [(k, v)])))))"
proof -
  have "TrimPrefix (path_Join dir n) dir = CHR ''/'' # n"
    using n dir by (simp add: path_Join_abs content_name_def)
  then show ?thesis
    by (simp add: ContentReader_SequentialRead_def kv_Get_at [OF fit small] of_nat_kv_Size [OF fit] del: kv_bytes_length)
qed

text \<open>The state of the loop: what stays true from one record of the file to the next.\<close>

definition defrag_inv :: "string \<Rightarrow> nat \<Rightarrow> (string \<times> string) list \<Rightarrow> nat \<Rightarrow> nat \<Rightarrow> system \<Rightarrow> (string \<Rightarrow> string option) \<Rightarrow> bool" where
  "defrag_inv n i rs p c s m =
     (store_rel s m \<and> inflight s = [] \<and> (\<forall>q. \<not> denied (sfs s) q) \<and>
      content_name n \<and> dirent (sfs s) (path_Join (tempDir (blk s)) n) = Some i \<and>
      inode (sfs s) i = records rs \<and> all_fit rs \<and> refers_from (blk s) n rs p \<and>
      (\<forall>w. contentW (blk s) = Some w \<longrightarrow> cw_name w = path_Join (tempDir (blk s)) n \<longrightarrow>
           size_reached (maxSize (blk s)) (cw_size w)) \<and> room (sfs s) c)"

lemma rebuild_step:
  assumes inv: "defrag_inv n i (rs1 @ (k, v) # rs2) (length rs1) (length (kv_bytes k v) + 2 ^ 32 + c) s m"
    and fresh: "content_name f" "f \<noteq> n"
  obtains b' fs' where
    "rebuildIndex f k (NewIndex (CHR ''/'' # n) (of_nat (length (records rs1))) (kv_Size (NewKvstoreData k v)))
       (blk s) (sfs s) = Inr (b', fs')"
    "defrag_inv n i (rs1 @ (k, v) # rs2) (Suc (length rs1)) c (s\<lparr>blk := b', sfs := fs'\<rparr>) m"
    "tempDir b' = tempDir (blk s)"
proof -
  let ?b = "blk s" and ?fs = "sfs s" and ?dir = "tempDir (blk s)" and ?rs = "rs1 @ (k, v) # rs2"
  let ?idx = "NewIndex (CHR ''/'' # n) (of_nat (length (records rs1))) (kv_Size (NewKvstoreData k v))"
  have rel: "store_rel s m" and fl: "inflight s = []" and nd: "\<forall>q. \<not> denied ?fs q" and n: "content_name n"
    and i: "dirent ?fs (path_Join ?dir n) = Some i" and rs: "inode ?fs i = records ?rs" "all_fit ?rs"
    and ref: "refers_from ?b n ?rs (length rs1)"
    and full: "\<forall>w. contentW ?b = Some w \<longrightarrow> cw_name w = path_Join ?dir n \<longrightarrow> size_reached (maxSize ?b) (cw_size w)"
    and rm: "room ?fs (length (kv_bytes k v) + 2 ^ 32 + c)"
    using inv by (simp_all add: defrag_inv_def)
  have dir: "abs_dir ?dir" and tab: "table_ok ?b ?fs m" and small: "files_small ?fs"
    using rel by (simp_all add: store_rel_def)
  show thesis
  proof (cases "indexTable ?b k = Some ?idx")
    case False
    have "room ?fs c" using rm by (rule room_mono [where d = 0]) simp_all
    moreover have "refers_from ?b n ?rs (Suc (length rs1))" by (rule refers_from_skip [OF ref False])
    ultimately have "defrag_inv n i ?rs (Suc (length rs1)) c s m"
      using inv unfolding defrag_inv_def by blast
    moreover have "rebuildIndex f k ?idx ?b ?fs = Inr (?b, ?fs)"
      using False by (auto simp: rebuildIndex_def readIndex_def Index_Same_iff split: option.split)
    ultimately show thesis using that by simp
  next
    case True
    from table_ok_Some [OF tab True] obtain v' where v': "m k = Some v'" "content_at ?fs ?dir ?idx k v'" by blast
    then have k: "length k < 2 ^ 30" by (auto simp: content_at_def)
    have at: "content_at ?fs ?dir ?idx k v"
      unfolding content_at_def using n k i rs by blast
    have read: "readContent ?idx ?b ?fs = Inr (Inr v)" "readContent ?idx ?b ?fs = Inr (Inr v')"
      using content_at_read [OF at dir small nd] content_at_read [OF v'(2) dir small nd] by simp_all
    then have mk: "m(k \<mapsto> v) = m" using v'(1) by auto
    have fit: "fits k v" using rs(2) by simp
    obtain b' fs' idx w where S: "Block_Set f k v ?b ?fs = (None, b', fs')"
      "store_rel (s\<lparr>blk := b', sfs := fs'\<rparr>) (m(k \<mapsto> v))" "denied fs' = denied ?fs" "room fs' c"
      "indexTable b' = (indexTable ?b)(k \<mapsto> idx)" "filenameContent idx = TrimPrefix (cw_name w) ?dir"
      "contentW b' = Some w" "cw_name w = path_Join ?dir f \<or> (\<exists>w0. contentW ?b = Some w0 \<and>
         \<not> size_reached (maxSize ?b) (cw_size w0) \<and> cw_name w = cw_name w0)"
      "\<forall>p. p \<noteq> cw_name w \<longrightarrow> p \<noteq> path_Join ?dir f \<longrightarrow> p \<noteq> path_Join ?dir FilenameBlockIndex \<longrightarrow> same_file ?fs fs' p"
      "tempDir b' = ?dir" "maxSize b' = maxSize ?b"
      by (rule Block_Set_ok [OF rel fl nd fresh(1) fit k rm])
    have fn: "path_Join ?dir f \<noteq> path_Join ?dir n"
      using path_Join_inj [OF dir] fresh n by (auto simp: content_name_def)
    have wn: "cw_name w \<noteq> path_Join ?dir n" using S(8) full fn by auto
    have same: "same_file ?fs fs' (path_Join ?dir n)"
      using S(9) wn fn names_apart(1) [OF dir n] by metis
    have idxn: "filenameContent idx \<noteq> CHR ''/'' # n"
    proof
      assume "filenameContent idx = CHR ''/'' # n"
      moreover have "\<exists>n'. content_name n' \<and> cw_name w = path_Join ?dir n'"
        using S(8) fresh(1) rel unfolding store_rel_def writer_ok_def is_writer_def by metis
      ultimately have "cw_name w = path_Join ?dir n"
        using S(6) dir by (auto simp: path_Join_abs content_name_def)
      with wn show False by simp
    qed
    have "refers_from b' n ?rs (Suc (length rs1))"
    proof (rule refers_from_skip)
      show "refers_from b' n ?rs (length rs1)"
        using ref idxn unfolding refers_from_def S(5) by (metis fun_upd_apply option.inject)
      show "indexTable b' k \<noteq> Some ?idx" using S(5) idxn by (auto simp: NewIndex_def)
    qed
    then have "defrag_inv n i ?rs (Suc (length rs1)) c (s\<lparr>blk := b', sfs := fs'\<rparr>) m"
      using S(2-4,7,10) mk fl nd n i rs same wn unfolding defrag_inv_def same_file_def by simp
    moreover have "rebuildIndex f k ?idx ?b ?fs = Inr (b', fs')"
      using True read S(1) by (simp add: rebuildIndex_def readIndex_def Index_Same_iff)
    ultimately show thesis using that S(10) by simp
  qed
qed

text \<open>The loop ends at the end of the file, with nothing left that refers to the file.\<close>

lemma defrag_loop_ok:
  assumes "defrag_inv n i (rs1 @ rs2) (length rs1) (length (records rs2) + length rs2 * 2 ^ 32) s m"
    and fresh: "\<And>off. content_name (fresh off) \<and> fresh off \<noteq> n"
  shows "\<exists>b' fs'. defrag_loop fresh (path_Join (tempDir (blk s)) n) i (of_nat (length (records rs1))) (blk s) (sfs s)
             = Some (Inr (b', fs')) \<and> tempDir b' = tempDir (blk s) \<and>
           defrag_inv n i (rs1 @ rs2) (length (rs1 @ rs2)) 0 (s\<lparr>blk := b', sfs := fs'\<rparr>) m"
  using assms(1)
proof (induction rs2 arbitrary: rs1 s)
  case Nil
  have inv: "defrag_inv n i rs1 (length rs1) 0 s m" using Nil by simp
  then have "files_small (sfs s)" and rs: "inode (sfs s) i = records rs1"
    by (simp_all add: defrag_inv_def store_rel_def)
  then have "length (records rs1) < 2 ^ 63" by (metis files_small_def)
  then have "ContentReader_SequentialRead (path_Join (tempDir (blk s)) n) (tempDir (blk s)) (records rs1)
      (of_nat (length (records rs1))) = Inr (Inl kv_EOF)"
    by (simp add: ContentReader_SequentialRead_def kv_Get_eof)
  then have "defrag_loop fresh (path_Join (tempDir (blk s)) n) i (of_nat (length (records rs1))) (blk s) (sfs s)
      = Some (Inr (blk s, sfs s))"
    by (subst defrag_loop.simps) (simp add: rs)
  then show ?case using inv by simp
next
  case (Cons r rs2)
  obtain k v where r: "r = (k, v)" by (cases r)
  define c where "c = length (records rs2) + length rs2 * 2 ^ 32"
  have inv: "defrag_inv n i (rs1 @ (k, v) # rs2) (length rs1) (length (kv_bytes k v) + 2 ^ 32 + c) s m"
    using Cons.prems by (simp add: r c_def algebra_simps)
  let ?off = "of_nat (length (records rs1)) :: 64 word"
  let ?idx = "NewIndex (CHR ''/'' # n) ?off (kv_Size (NewKvstoreData k v))"
  have fit: "fits k v" and dir: "abs_dir (tempDir (blk s))" and n: "content_name n" and small: "files_small (sfs s)"
    and rs: "inode (sfs s) i = records (rs1 @ (k, v) # rs2)"
    using inv by (simp_all add: defrag_inv_def store_rel_def)
  have pre: "length (records rs1) < 2 ^ 63"
    using small rs unfolding files_small_def by (metis add_lessD1 length_append records_simps(3))
  note read = content_read_at [OF fit pre dir n, of rs2]
  obtain b1 fs1 where B: "rebuildIndex (fresh ?off) k ?idx (blk s) (sfs s) = Inr (b1, fs1)"
      "defrag_inv n i (rs1 @ (k, v) # rs2) (Suc (length rs1)) c (s\<lparr>blk := b1, sfs := fs1\<rparr>) m"
      "tempDir b1 = tempDir (blk s)"
    using rebuild_step [OF inv] fresh by metis
  have "defrag_loop fresh (path_Join (tempDir (blk s)) n) i ?off (blk s) (sfs s) =
      defrag_loop fresh (path_Join (tempDir (blk s)) n) i (of_nat (length (records (rs1 @ [(k, v)])))) b1 fs1"
    by (subst defrag_loop.simps) (simp only: rs read, simp add: B(1))
  with Cons.IH [of "rs1 @ [(k, v)]" "s\<lparr>blk := b1, sfs := fs1\<rparr>"] B(2,3) show ?case
    by (simp add: r c_def)
qed

subsection \<open>Removing the file\<close>

lemma fs_remove_ok:
  assumes "fs_ok fs"
  shows "fs_ok (fs_remove p fs) \<and> inode (fs_remove p fs) = inode fs \<and>
         (\<forall>q. q \<noteq> p \<longrightarrow> same_file fs (fs_remove p fs) q)"
  using assms by (auto simp: fs_remove_def fs_ok_def same_file_def inj_on_def dom_def)

lemma defrag_remove:
  assumes inv: "defrag_inv n i rs (length rs) c s m"
  shows "store_rel (s\<lparr>sfs := fs_remove (path_Join (tempDir (blk s)) n) (sfs s)\<rparr>) m"
proof -
  let ?b = "blk s" and ?fs = "sfs s" and ?dir = "tempDir (blk s)"
  let ?fs' = "fs_remove (path_Join ?dir n) ?fs"
  have rel: "store_rel s m" and fl: "inflight s = []" and n: "content_name n"
    and ref: "refers_from ?b n rs (length rs)"
    and full: "\<forall>w. contentW ?b = Some w \<longrightarrow> cw_name w = path_Join ?dir n \<longrightarrow> size_reached (maxSize ?b) (cw_size w)"
    using inv by (simp_all add: defrag_inv_def)
  from rel obtain log where dir: "abs_dir ?dir" and fs: "fs_ok ?fs" and cont: "content_ok ?dir ?fs"
    and wrt: "writer_ok ?b ?fs" and log: "log_ok ?b ?fs log" "buffer_ok ?b ?fs (pending s) log"
    and tab: "table_ok ?b ?fs m" and small: "files_small ?fs"
    unfolding store_rel_def by blast
  note R = fs_remove_ok [OF fs, of "path_Join ?dir n"]
  have gone: "dirent ?fs' (path_Join ?dir n) = None" by (simp add: fs_remove_def)
  have frames: "same_file ?fs ?fs' (path_Join ?dir FilenameBlockIndex)"
    "same_file ?fs ?fs' (path_Join ?dir FilenameBlockIndexTemp)"
    using R names_apart [OF dir] n by metis+
  have at: "content_at ?fs' ?dir idx k v" if "content_at ?fs ?dir idx k v" "indexTable ?b k = Some idx" for k idx v
  proof -
    from that(1) obtain n' i' rs1 rs2 where *: "content_name n'" "length k < 2 ^ 30"
        "dirent ?fs (path_Join ?dir n') = Some i'" "inode ?fs i' = records (rs1 @ (k, v) # rs2)"
        "all_fit (rs1 @ (k, v) # rs2)"
        "idx = NewIndex (CHR ''/'' # n') (of_nat (length (records rs1))) (kv_Size (NewKvstoreData k v))"
      unfolding content_at_def by blast
    have "n' \<noteq> n"
      using ref that(2) *(6) unfolding refers_from_def by (fastforce simp: NewIndex_def)
    then have "path_Join ?dir n' \<noteq> path_Join ?dir n"
      using path_Join_inj [OF dir] n *(1) by (auto simp: content_name_def)
    then have "same_file ?fs ?fs' (path_Join ?dir n')" using R by blast
    with * show ?thesis unfolding content_at_def same_file_def by metis
  qed
  have "table_ok ?b ?fs' m"
    unfolding table_ok_def
  proof
    fix k
    show "case indexTable ?b k of None \<Rightarrow> m k = None | Some idx \<Rightarrow> \<exists>v. m k = Some v \<and> content_at ?fs' ?dir idx k v"
      using tab [unfolded table_ok_def, rule_format, of k] at [of _ k] by (auto split: option.splits)
  qed
  moreover have "content_ok ?dir ?fs'"
    using cont R gone unfolding content_ok_def same_file_def by (metis option.distinct(1))
  moreover have "writer_ok ?b ?fs'"
    using wrt R full unfolding writer_ok_def is_writer_def same_file_def by metis
  moreover have "log_ok ?b ?fs' log" by (rule log_ok_frame [OF log(1) frames(1)]) simp_all
  moreover have "buffer_ok ?b ?fs' (pending s) log" by (rule buffer_ok_frame [OF log(2) frames(2)]) simp_all
  moreover have "files_small ?fs'" using small R by (simp add: files_small_def)
  ultimately show ?thesis
    using dir R fl unfolding store_rel_def by auto
qed

lemma length_records: "length rs \<le> length (records rs)"
  by (induction rs) (auto simp: add.commute le_SucI)

lemma sint_of_nat_small: "n < 2 ^ 63 \<Longrightarrow> sint (of_nat n :: 64 word) = int n"
  by (simp add: signed_of_nat signed_take_bit_int_eq_self)

text \<open>
  One visit of the walk with a size limit set. \<open>room\<close> asks that the copies fit below the largest
  file offset: every record of the file may be written once more, with an index entry.
\<close>

lemma defrag_file_rel:
  assumes rel: "store_rel s m" and fl: "inflight s = []" and nd: "\<forall>p. \<not> denied (sfs s) p"
    and n: "content_name n" and limit: "0 < sint (maxSize (blk s))"
    and fresh: "\<And>off. content_name (fresh off) \<and> fresh off \<noteq> n"
    and room: "\<forall>i. dirent (sfs s) (path_Join (tempDir (blk s)) n) = Some i \<longrightarrow>
                 room (sfs s) (length (inode (sfs s) i) * (2 ^ 32 + 1))"
  shows "\<exists>b' fs'. defrag_file fresh n recent (blk s) (sfs s) = Some (Inr (b', fs')) \<and>
           store_rel (s\<lparr>blk := b', sfs := fs'\<rparr>) m \<and> denied fs' = denied (sfs s)"
proof -
  let ?b = "blk s" and ?fs = "sfs s" and ?dir = "tempDir (blk s)" and ?p = "path_Join (tempDir (blk s)) n"
  have small: "files_small ?fs" and cont: "content_ok ?dir ?fs" and wok: "writer_ok ?b ?fs"
    using rel by (simp_all add: store_rel_def)
  show ?thesis
  proof (cases "(\<exists>i. dirent ?fs ?p = Some i \<and> sint (maxSize ?b) \<le> int (length (inode ?fs i))) \<and> \<not> recent")
    case False
    then have "defrag_file fresh n recent ?b ?fs = Some (Inr (?b, ?fs))"
      by (auto simp: defrag_file_def Let_def split: option.split)
    then show ?thesis using rel by simp
  next
    case True
    then obtain i where i: "dirent ?fs ?p = Some i" "sint (maxSize ?b) \<le> int (length (inode ?fs i))" and rec: "\<not> recent"
      by blast
    obtain rs where rs: "all_fit rs" "inode ?fs i = records rs"
      using cont n i(1) unfolding content_ok_def by blast
    have full: "\<forall>w. contentW ?b = Some w \<longrightarrow> cw_name w = ?p \<longrightarrow> size_reached (maxSize ?b) (cw_size w)"
    proof (intro allI impI, rule ccontr)
      fix w assume w: "contentW ?b = Some w" "cw_name w = ?p" and "\<not> size_reached (maxSize ?b) (cw_size w)"
      with wok have "dirent ?fs ?p = Some (cw_ino w)" "cw_size w = of_nat (length (inode ?fs (cw_ino w)))"
        unfolding writer_ok_def is_writer_def by auto
      with i small limit have "size_reached (maxSize ?b) (cw_size w)"
        by (simp add: size_reached_def files_small_def sint_of_nat_small)
      with \<open>\<not> size_reached (maxSize ?b) (cw_size w)\<close> show False by simp
    qed
    have "length (records rs) + length rs * 2 ^ 32 \<le> length (records rs) * (2 ^ 32 + 1)"
      using length_records [of rs] by (simp add: algebra_simps)
    moreover have "room ?fs (length (records rs) * (2 ^ 32 + 1))" using room i(1) rs(2) by metis
    ultimately have "room ?fs (length (records rs) + length rs * 2 ^ 32)"
      using room_mono [of ?fs _ ?fs 0] by (metis add_0 add_0_right order_refl)
    then have "defrag_inv n i ([] @ rs) (length ([] :: (string \<times> string) list)) (length (records rs) + length rs * 2 ^ 32) s m"
      using rel fl nd n i(1) rs full refers_from_start [OF rel i(1) rs(2,1)] by (simp add: defrag_inv_def)
    from defrag_loop_ok [where fresh = fresh, OF this fresh] obtain b' fs' where L:
      "defrag_loop fresh ?p i 0 ?b ?fs = Some (Inr (b', fs'))" "tempDir b' = ?dir"
      "defrag_inv n i rs (length rs) 0 (s\<lparr>blk := b', sfs := fs'\<rparr>) m" by auto
    have "defrag_file fresh n recent ?b ?fs = Some (Inr (b', fs_remove ?p fs'))"
      using i rec nd n L(1) by (simp add: defrag_file_def OpenRead_def content_name_def)
    moreover have "denied (fs_remove ?p fs') = denied ?fs"
      using L(3) nd by (auto simp: defrag_inv_def fs_remove_def fun_eq_iff)
    ultimately show ?thesis using defrag_remove [OF L(3)] L(2) by simp
  qed
qed

subsection \<open>Concrete stores\<close>

definition blank_disk :: fsys where
  "blank_disk = \<lparr>dirent = Map.empty, inode = (\<lambda>_. []), next_ino = 0, denied = (\<lambda>_. False)\<rparr>"

lemma blank_disk_simps [simp]:
  "dirent blank_disk = Map.empty" "denied blank_disk p = False" "files_small blank_disk"
  by (simp_all add: blank_disk_def files_small_def)

lemma abs_dir_d [simp]: "abs_dir ''/d''"
  unfolding abs_dir_def by (intro exI [of _ "[''d'']"]) (simp add: proper_name_def)

lemma content_name_f [simp]: "content_name ''f''" "content_name ''g''"
  by (simp_all add: content_name_def proper_name_def FilenameBlockIndex_def FilenameBlockIndexTemp_def)

lemma blank_Initiate:
  "\<exists>b fs'. Block_Initiate ''/d'' mx [] blank_disk = Inr (Inr (b, fs')) \<and> tempDir b = ''/d'' \<and> maxSize b = mx \<and>
     denied fs' = (\<lambda>_. False) \<and> (\<forall>j. inode fs' j = []) \<and> contentW b = None \<and>
     dirent fs' = [path_Join ''/d'' FilenameBlockIndex \<mapsto> 0]"
proof -
  have "scan_index [] 0 = Inr ([], None)" using scan_enc_log [of "[]" "[]"] by simp
  then show ?thesis
    by (simp add: blank_disk_def Block_Initiate_def NewIndexWriter_def OpenAppend_def loadIndex_def
        LoadIndexFromFile_def OpenRead_def fun_upd_def)
qed

text \<open>A \<^verbatim>\<open>Set\<close> can always run to its end when files can be opened.\<close>

lemma set_runs:
  assumes rel: "store_rel s m" and fl: "inflight s = []" and nd: "\<forall>p. \<not> denied (sfs s) p"
    and n: "content_name fresh" and fit: "fits k v" and k: "length k < 2 ^ 30"
    and room: "room (sfs s) (length (kv_bytes k v) + 2 ^ 32)"
  shows "\<exists>s'. block_run s [Internal, Put k v] s' \<and> (\<forall>p. \<not> denied (sfs s') p)"
proof -
  let ?b = "blk s" and ?fs = "sfs s"
  have disk: "disk_ok (tempDir ?b) ?fs" and wok: "writer_ok ?b ?fs" using rel by (auto simp: store_rel_def disk_ok_def)
  obtain idx b1 fs1 where W: "writeContent fresh k v ?b ?fs = (Inr idx, b1, fs1)" "denied fs1 = denied ?fs"
    "\<forall>j. length (inode fs1 j) \<le> length (inode ?fs j) + length (kv_bytes k v)"
    using writeContent_frame [OF disk wok n fit k nd] by metis
  have room1: "room fs1 (2 ^ 32)" using room W(3) by (rule room_mono) simp
  define s1 where "s1 = s\<lparr>blk := b1, sfs := fs1, inflight := (k, v, idx) # inflight s\<rparr>"
  have step1: "block_step s Internal s1"
    unfolding s1_def using W(1) n fit k room_small [OF room1] by (rule block_step.write_content)
  then have "store_rel s1 m" using block_step_simulates [OF _ rel] by fastforce
  then have "content_at fs1 (tempDir b1) idx k v" by (simp add: store_rel_def s1_def)
  then have wf: "fits k (Index_MarshalBinary idx)" using content_at_wf wf_entry_fits by blast
  obtain e b2 fs2 where I: "writeIndex k idx b1 fs1 = (e, b2, fs2)" by (metis prod_cases3)
  then have fs2: "fs2 = fs_append (iw_ino (indexW b1)) (kv_bytes k (Index_MarshalBinary idx)) fs1"
    by (auto simp: writeIndex_def IndexWriter_Write_eq iw_Write_bytes_def)
  have "\<forall>j. length (inode fs2 j) \<le> length (inode fs1 j) + 2 ^ 32"
    using wf unfolding fs2 by (auto simp: fs_append_def fits_def)
  then have "room fs2 0" by (rule room_mono [OF room1]) simp
  then have step2: "block_step s1 (Put k v) (s1\<lparr>blk := b2, sfs := fs2, inflight := remove1 (k, v, idx) (inflight s1)\<rparr>)"
    using I by (intro block_step.write_index) (auto simp: s1_def room_small)
  show ?thesis
    using run_step [OF run_step [OF run_refl step1] step2] nd W(2) by (auto simp: fs2)
qed

end
