(* ===== verification/Block_Props.thy ===== *)
theory Block_Props
  imports Block_Defrag
begin

text \<open>
  The properties of the block store, over its operations and their interleaved runs from an
  empty directory.
\<close>

text \<open>
  \<^bold>\<open>C1\<close>. The block store is a map. From an empty directory, after any interleaving of the critical
  sections of \<^verbatim>\<open>Set\<close>, \<^verbatim>\<open>Del\<close> and the index dump, \<^verbatim>\<open>Get\<close> answers with the value of the last
  \<^verbatim>\<open>Set\<close> whose index entry was written, unless a later \<^verbatim>\<open>Del\<close> removed it, and with
  \<^verbatim>\<open>errNotExist\<close> otherwise.
\<close>

theorem block_refines_map:
  assumes "abs_dir dir" and "dirent fs0 = Map.empty" and "files_small fs0" and "\<forall>p. \<not> denied fs0 p"
    and "Block_Initiate dir mx [] fs0 = Inr (Inr (b, fs))"
    and "block_run (start_system b fs) ls s" and "\<forall>p. \<not> denied (sfs s) p"
  shows "Block_Get k (blk s) (sfs s) =
           (case foldl spec_step Map.empty ls k of None \<Rightarrow> Inr (Inl errNotExist) | Some v \<Rightarrow> Inr (Inr v))"
  using store_rel_Get [OF block_run_simulates [OF assms(6) empty_disk_rel [OF assms(1,2,4,3,5)]] assms(7)] .

text \<open>A run of one \<^verbatim>\<open>Set\<close> on the blank disk, for the witnesses.\<close>

lemma blank_set_run:
  "\<exists>b fs s. Block_Initiate ''/d'' 100 [] blank_disk = Inr (Inr (b, fs)) \<and>
     block_run (start_system b fs) [Internal, Put ''k'' ''v''] s \<and> (\<forall>p. \<not> denied (sfs s) p)"
proof -
  obtain b fs where I: "Block_Initiate ''/d'' 100 [] blank_disk = Inr (Inr (b, fs))"
    "denied fs = (\<lambda>_. False)" "\<forall>j. inode fs j = []"
    using blank_Initiate [of 100] by blast
  have "store_rel (start_system b fs) Map.empty" by (rule empty_disk_rel [OF _ _ _ _ I(1)]) simp_all
  then have "\<exists>s. block_run (start_system b fs) [Internal, Put ''k'' ''v''] s \<and> (\<forall>p. \<not> denied (sfs s) p)"
    by (rule set_runs [where fresh = "''f''"]) (simp_all add: start_system_def I(2,3) fits_def room_def)
  with I(1) show ?thesis by blast
qed

theorem block_refines_map_witness:
  "\<exists>b fs s. Block_Initiate ''/d'' 100 [] blank_disk = Inr (Inr (b, fs)) \<and>
     block_run (start_system b fs) [Internal, Put ''k'' ''v''] s \<and>
     Block_Get ''k'' (blk s) (sfs s) = Inr (Inr ''v'') \<and> Block_Get ''j'' (blk s) (sfs s) = Inr (Inl errNotExist)"
proof -
  obtain b fs s where *: "Block_Initiate ''/d'' 100 [] blank_disk = Inr (Inr (b, fs))"
      "block_run (start_system b fs) [Internal, Put ''k'' ''v''] s" "\<forall>p. \<not> denied (sfs s) p"
    using blank_set_run by blast
  have "Block_Get k (blk s) (sfs s) = (case foldl spec_step Map.empty [Internal, Put ''k'' ''v''] k of
      None \<Rightarrow> Inr (Inl errNotExist) | Some v \<Rightarrow> Inr (Inr v))" for k
    by (rule block_refines_map [OF _ _ _ _ *]) simp_all
  from this [of "''k''"] this [of "''j''"] * show ?thesis by auto
qed

text \<open>
  \<^bold>\<open>C2\<close>. What was stored survives a restart at any moment, in the middle of an index dump too:
  \<^verbatim>\<open>Initiate\<close> on the files of a running store succeeds without changing them, and every \<^verbatim>\<open>Get\<close>
  answers as before.
\<close>

theorem block_survives_restart:
  assumes "abs_dir dir" and "dirent fs0 = Map.empty" and "files_small fs0" and "\<forall>p. \<not> denied fs0 p"
    and "Block_Initiate dir mx [] fs0 = Inr (Inr (b, fs))"
    and "block_run (start_system b fs) ls s" and "\<forall>p. \<not> denied (sfs s) p"
    and "\<forall>n \<in> set names. (content_name n \<or> n = FilenameBlockIndex \<or> n = FilenameBlockIndexTemp) \<and>
           dirent (sfs s) (path_Join (tempDir (blk s)) n) \<noteq> None"
  shows "\<exists>b'. Block_Initiate (tempDir (blk s)) mx' names (sfs s) = Inr (Inr (b', sfs s)) \<and>
              indexTable b' = indexTable (blk s) \<and>
              (\<forall>k. Block_Get k b' (sfs s) = Block_Get k (blk s) (sfs s))"
proof -
  have rel: "store_rel s (foldl spec_step Map.empty ls)"
    by (rule block_run_simulates [OF assms(6) empty_disk_rel [OF assms(1,2,4,3,5)]])
  from restart_rel [OF rel assms(7,8), of mx'] obtain b' where
    b': "Block_Initiate (tempDir (blk s)) mx' names (sfs s) = Inr (Inr (b', sfs s))"
      "store_rel (start_system b' (sfs s)) (foldl spec_step Map.empty ls)" "indexTable b' = indexTable (blk s)" by blast
  from store_rel_Get [OF b'(2)] store_rel_Get [OF rel assms(7)] assms(7)
  have "\<forall>k. Block_Get k b' (sfs s) = Block_Get k (blk s) (sfs s)" by (simp add: start_system_def)
  with b' show ?thesis by blast
qed

theorem block_survives_restart_witness:
  "\<exists>b fs s b'. Block_Initiate ''/d'' 100 [] blank_disk = Inr (Inr (b, fs)) \<and>
     block_run (start_system b fs) [Internal, Put ''k'' ''v''] s \<and>
     Block_Initiate (tempDir (blk s)) 7 [] (sfs s) = Inr (Inr (b', sfs s)) \<and>
     (\<forall>k. Block_Get k b' (sfs s) = Block_Get k (blk s) (sfs s))"
proof -
  obtain b fs s where *: "Block_Initiate ''/d'' 100 [] blank_disk = Inr (Inr (b, fs))"
      "block_run (start_system b fs) [Internal, Put ''k'' ''v''] s" "\<forall>p. \<not> denied (sfs s) p"
    using blank_set_run by blast
  from block_survives_restart [OF _ _ _ _ *, of "[]" 7] * show ?thesis by auto
qed



text \<open>
  Without a size limit (\<^verbatim>\<open>maxSize\<close> 0) defragmentation takes the file of the open content
  writer too and removes it: the next \<^verbatim>\<open>Set\<close> reports success and its value cannot be read.
\<close>

definition unlimited_run :: "(block_error + string) outcome option" where
  "unlimited_run =
     (case Block_Initiate ''/d'' 0 [] blank_disk of
        Inr (Inr (b0, fs0)) \<Rightarrow>
          (case Block_Set ''f'' ''a'' ''1'' b0 fs0 of
             (None, b1, fs1) \<Rightarrow>
               (case Block_Del ''a'' b1 fs1 of
                  (None, b2, fs2) \<Rightarrow>
                    (case DefragContent (\<lambda>_ _. ''g'') [(''f'', False)] b2 fs2 of
                       Some (Inr (b3, fs3)) \<Rightarrow>
                         (case Block_Set ''h'' ''b'' ''2'' b3 fs3 of
                            (None, b4, fs4) \<Rightarrow> Some (Block_Get ''b'' b4 fs4)
                          | _ \<Rightarrow> None)
                     | _ \<Rightarrow> None)
                | _ \<Rightarrow> None)
           | _ \<Rightarrow> None)
      | _ \<Rightarrow> None)"

theorem defrag_unlimited_loses: "unlimited_run = Some (Inr (Inl (IoErr IoNotExist)))"
  by code_simp

text \<open>
  A \<^verbatim>\<open>Set\<close> that fails (no content file can be opened) leaves the map as it was.
\<close>

theorem failed_set_keeps_map:
  assumes "store_rel s m" and "content_name fresh" and "fits k v" and "length k < 2 ^ 30"
    and "Block_Set fresh k v (blk s) (sfs s) = (Some e, b', fs')" and "files_small fs'"
  shows "store_rel (s\<lparr>blk := b', sfs := fs'\<rparr>) m"
proof -
  obtain r b1 fs1 where W: "writeContent fresh k v (blk s) (sfs s) = (r, b1, fs1)" by (metis prod_cases3)
  with assms(5) have r: "r = Inl e" "b1 = b'" "fs1 = fs'"
    by (auto simp: Block_Set_def writeIndex_def IndexWriter_Write_eq split: sum.splits prod.splits)
  have "store_rel (s\<lparr>blk := b', sfs := fs', inflight := inflight s\<rparr>) m"
    by (rule write_content_step [OF assms(1-4) W [unfolded r] assms(6)]) simp
  then show ?thesis by simp
qed

theorem failed_set_keeps_map_witness:
  "\<exists>b fs b' fs'. Block_Set ''f'' ''k'' ''v'' b (fs\<lparr>denied := (\<lambda>p. p = path_Join ''/d'' ''f'')\<rparr>) = (Some (IoErr IoDenied), b', fs') \<and>
     store_rel (start_system b' fs') Map.empty"
proof -
  obtain b fs where I: "Block_Initiate ''/d'' 100 [] blank_disk = Inr (Inr (b, fs))"
    "denied fs = (\<lambda>_. False)" "\<forall>j. inode fs j = []" "tempDir b = ''/d''" "contentW b = None"
    using blank_Initiate [of 100] by blast
  let ?fs = "fs\<lparr>denied := (\<lambda>p. p = path_Join ''/d'' ''f'')\<rparr>"
  have "store_rel (start_system b fs) Map.empty" by (rule empty_disk_rel [OF _ _ _ _ I(1)]) simp_all
  moreover have "content_at ?fs = content_at fs" by (intro ext) (simp add: content_at_def)
  then have "table_ok b ?fs = table_ok b fs" by (intro ext) (simp only: table_ok_def)
  ultimately have rel: "store_rel (start_system b ?fs) Map.empty"
    by (simp add: store_rel_def start_system_def fs_ok_def files_small_def content_ok_def writer_ok_def
        is_writer_def log_ok_def buffer_ok_def)
  have set: "Block_Set ''f'' ''k'' ''v'' b ?fs = (Some (IoErr IoDenied), b\<lparr>contentW := None\<rparr>, ?fs)"
    by (simp add: Block_Set_def writeContent_def updateContentWriter_def NewContentWriter_def OpenAppend_def I(4,5))
  from failed_set_keeps_map [OF rel, of "''f''" "''k''" "''v''"] set I(3)
  show ?thesis by (auto simp: start_system_def fits_def files_small_def)
qed

text \<open>
  \<^bold>\<open>C5\<close>. Reading a content or index file at the position of a record gives back its key and value,
  whatever was written before and after it.
\<close>

theorem record_roundtrip:
  assumes "fits k v" and "length pre < 2 ^ 63"
  shows "\<exists>file'. kv_Set (NewKvstoreData k v) pre = Inr file' \<and>
           kv_Get (file' @ post) (of_nat (length pre)) = Inr (Inr (NewKvstoreData k v))"
  using kv_Get_at [OF assms] by (simp add: kv_Set_New)

theorem record_roundtrip_witness:
  "\<exists>file'. kv_Set (NewKvstoreData ''key'' ''value'') ''xyz'' = Inr file' \<and>
     kv_Get (file' @ ''tail'') (of_nat (length ''xyz'')) = Inr (Inr (NewKvstoreData ''key'' ''value''))"
  by (rule record_roundtrip) (simp_all add: fits_def)

text \<open>
  Lengths are 32-bit: a record of \<open>2 ^ 32\<close> bytes or a little more is written without an error,
  and reading it back panics, because the wrapped total is smaller than the header.
\<close>

theorem oversized_record_panics:
  assumes "2 ^ 32 \<le> 10 + length k + length v" and "10 + length k + length v < 2 ^ 32 + 10"
  shows "\<exists>file'. kv_Set (NewKvstoreData k v) [] = Inr file' \<and> kv_Get file' 0 = Inl SliceBounds"
proof -
  have eq: "(10 + of_nat (length k) + of_nat (length v) :: 32 word) = of_nat (10 + length k + length v)" by simp
  have "unat (10 + of_nat (length k) + of_nat (length v) :: 32 word) = (10 + length k + length v) mod 2 ^ 32"
    unfolding eq by (simp add: unat_of_nat take_bit_eq_mod del: of_nat_add)
  also have "\<dots> = 10 + length k + length v - 2 ^ 32"
    using assms by (simp add: le_mod_geq)
  finally have "unat (10 + of_nat (length k) + of_nat (length v) :: 32 word) = 10 + length k + length v - 2 ^ 32" .
  moreover have "take 4 (drop 2 (take 10 (kv_bytes k v))) = be32 (of_nat (length k))"
    "take 4 (drop 6 (take 10 (kv_bytes k v))) = be32 (of_nat (length v))"
    by (simp_all add: kv_bytes_def)
  ultimately have "kv_get (kv_bytes k v) 0 = Inl SliceBounds"
    using assms by (simp add: kv_get_def Let_def)
  then show ?thesis by (simp add: kv_Set_New kv_Get_def)
qed

theorem oversized_record_panics_witness:
  "\<exists>file'. kv_Set (NewKvstoreData ''key'' (replicate (2 ^ 32 - 13) CHR ''v'')) [] = Inr file' \<and>
     kv_Get file' 0 = Inl SliceBounds"
  by (rule oversized_record_panics) simp_all

end
