(* ===== verification/Lru_File.thy ===== *)
theory Lru_File
  imports Block_Defrag
begin

text \<open>
  \<^verbatim>\<open>src/filesystem/lru_file.go\<close> and \<^verbatim>\<open>src/filesystem/file.go\<close>: the plain file handler and the handler
  that bounds the number of keys with a least-recently-used list. Both call the block store
  through the interface \<^verbatim>\<open>BlockHandler\<close>, modelled as a record of its operations; the laws the
  handlers rely on are the locale \<open>block_contract\<close>, interpreted on the block store. The linked
  list is a list of elements with identities, which the table refers to.
\<close>

subsection \<open>The LRU list\<close>

record lruInstance =
  lru_list :: "(nat \<times> string) list"
  lru_table :: "string \<Rightarrow> nat option"
  lru_size :: "64 word"
  lru_capacity :: "64 word"
  lru_next :: nat

definition newLRUInstance :: "64 word \<Rightarrow> lruInstance" where
  "newLRUInstance capacity =
     \<lparr>lru_list = [], lru_table = Map.empty, lru_size = 0, lru_capacity = capacity, lru_next = 0\<rparr>"

text \<open>\<^verbatim>\<open>list.MoveToFront\<close>, \<^verbatim>\<open>list.PushFront\<close> and \<^verbatim>\<open>list.Remove\<close> on the elements.\<close>

definition MoveToFront :: "nat \<Rightarrow> (nat \<times> string) list \<Rightarrow> (nat \<times> string) list" where
  "MoveToFront e xs = filter (\<lambda>x. fst x = e) xs @ filter (\<lambda>x. fst x \<noteq> e) xs"

definition list_Remove :: "nat \<Rightarrow> (nat \<times> string) list \<Rightarrow> (nat \<times> string) list" where
  "list_Remove e xs = filter (\<lambda>x. fst x \<noteq> e) xs"

text \<open>
  \<^verbatim>\<open>checkCapacity\<close>: the callback \<open>delFunc\<close> runs inside the loop, on the state behind it.
\<close>

function checkCapacity :: "(string \<Rightarrow> 's \<Rightarrow> 's) \<Rightarrow> lruInstance \<Rightarrow> 's \<Rightarrow> lruInstance \<times> 's" where
  "checkCapacity delFunc lru s =
     (if lru_capacity lru < lru_size lru then
        (if lru_list lru = [] then (lru, s)
         else (let delValue = snd (last (lru_list lru));
                   lru' = lru\<lparr>lru_list := butlast (lru_list lru), lru_table := (lru_table lru)(delValue := None)\<rparr>;
                   s' = delFunc delValue s
               in checkCapacity delFunc (lru'\<lparr>lru_size := lru_size lru' - 1\<rparr>) s'))
      else (lru, s))"
  by pat_completeness auto
termination
  by (relation "measure (\<lambda>(d, lru, s). length (lru_list lru))") auto

declare checkCapacity.simps [simp del]

definition lru_front :: "string \<Rightarrow> lruInstance \<Rightarrow> lruInstance" where
  "lru_front key lru =
     (case lru_table lru key of
        Some element \<Rightarrow> lru\<lparr>lru_list := MoveToFront element (lru_list lru)\<rparr>
      | None \<Rightarrow>
          lru\<lparr>lru_list := (lru_next lru, key) # lru_list lru, lru_table := (lru_table lru)(key \<mapsto> lru_next lru),
              lru_size := lru_size lru + 1, lru_next := Suc (lru_next lru)\<rparr>)"

definition lru_Add :: "(string \<Rightarrow> 's \<Rightarrow> 's) \<Rightarrow> string \<Rightarrow> lruInstance \<Rightarrow> 's \<Rightarrow> lruInstance \<times> 's" where
  "lru_Add delFunc key lru s = checkCapacity delFunc (lru_front key lru) s"

definition lru_Del :: "string \<Rightarrow> lruInstance \<Rightarrow> lruInstance" where
  "lru_Del key lru =
     (case lru_table lru key of
        None \<Rightarrow> lru
      | Some element \<Rightarrow>
          lru\<lparr>lru_list := list_Remove element (lru_list lru), lru_table := (lru_table lru)(key := None),
              lru_size := lru_size lru - 1\<rparr>)"

subsection \<open>The handlers\<close>

text \<open>
  The operations of the interface \<^verbatim>\<open>BlockHandler\<close>; \<open>'x\<close> is what the environment decides during a
  \<^verbatim>\<open>Set\<close> (the name of a new content file).
\<close>

record ('x, 's) BlockHandler =
  h_Set :: "'x \<Rightarrow> string \<Rightarrow> string \<Rightarrow> 's \<Rightarrow> block_error option \<times> 's"
  h_Get :: "string \<Rightarrow> 's \<Rightarrow> (block_error + string) outcome"
  h_Del :: "string \<Rightarrow> 's \<Rightarrow> block_error option \<times> 's"

definition File_SetContent ::
    "('x, 's) BlockHandler \<Rightarrow> 'x \<Rightarrow> string \<Rightarrow> string \<Rightarrow> 's \<Rightarrow> block_error option \<times> 's" where
  "File_SetContent h x key content s =
     (case h_Set h x key content s of (Some err, s') \<Rightarrow> (Some err, s') | (None, s') \<Rightarrow> (None, s'))"

definition File_GetContent :: "('x, 's) BlockHandler \<Rightarrow> string \<Rightarrow> 's \<Rightarrow> (block_error + string) outcome" where
  "File_GetContent h key s = h_Get h key s"

definition File_DelContent :: "('x, 's) BlockHandler \<Rightarrow> string \<Rightarrow> 's \<Rightarrow> block_error option \<times> 's" where
  "File_DelContent h key s =
     (case h_Del h key s of (Some err, s') \<Rightarrow> (Some err, s') | (None, s') \<Rightarrow> (None, s'))"

definition lru_delFunc :: "('x, 's) BlockHandler \<Rightarrow> string \<Rightarrow> 's \<Rightarrow> 's" where
  "lru_delFunc h key s = snd (h_Del h key s)"

definition LRU_SetContent ::
    "('x, 's) BlockHandler \<Rightarrow> 'x \<Rightarrow> string \<Rightarrow> string \<Rightarrow> lruInstance \<Rightarrow> 's \<Rightarrow> block_error option \<times> lruInstance \<times> 's" where
  "LRU_SetContent h x key content lru s =
     (case h_Set h x key content s of
        (Some err, s') \<Rightarrow> (Some err, lru, s')
      | (None, s') \<Rightarrow> (None, lru_Add (lru_delFunc h) key lru s'))"

definition LRU_GetContent ::
    "('x, 's) BlockHandler \<Rightarrow> string \<Rightarrow> lruInstance \<Rightarrow> 's \<Rightarrow> ((block_error + string) \<times> lruInstance \<times> 's) outcome" where
  "LRU_GetContent h key lru s =
     (case h_Get h key s of
        Inl p \<Rightarrow> Inl p
      | Inr (Inl err) \<Rightarrow> Inr (Inl err, lru, s)
      | Inr (Inr content) \<Rightarrow> Inr (Inr content, lru_Add (lru_delFunc h) key lru s))"

definition LRU_DelContent ::
    "('x, 's) BlockHandler \<Rightarrow> string \<Rightarrow> lruInstance \<Rightarrow> 's \<Rightarrow> block_error option \<times> lruInstance \<times> 's" where
  "LRU_DelContent h key lru s =
     (case h_Del h key s of
        (Some err, s') \<Rightarrow> (Some err, lru, s')
      | (None, s') \<Rightarrow> (None, lru_Del key lru, s'))"

subsection \<open>The list refines a list of keys by recency\<close>

definition lru_keys :: "lruInstance \<Rightarrow> string list" where
  "lru_keys lru = map snd (lru_list lru)"

definition lru_wf :: "lruInstance \<Rightarrow> bool" where
  "lru_wf lru =
     (distinct (map fst (lru_list lru)) \<and> distinct (lru_keys lru) \<and>
      (\<forall>k e. lru_table lru k = Some e \<longleftrightarrow> (e, k) \<in> set (lru_list lru)) \<and>
      (\<forall>e \<in> fst ` set (lru_list lru). e < lru_next lru) \<and>
      length (lru_list lru) < 2 ^ 64 \<and> lru_size lru = of_nat (length (lru_list lru)))"

lemma lru_wf_new [simp]: "lru_wf (newLRUInstance c)"
  by (simp add: lru_wf_def newLRUInstance_def lru_keys_def)

lemma lru_table_None: "lru_wf lru \<Longrightarrow> lru_table lru k = None \<longleftrightarrow> k \<notin> set (lru_keys lru)"
proof -
  assume wf: "lru_wf lru"
  then have *: "\<And>e. lru_table lru k = Some e \<longleftrightarrow> (e, k) \<in> set (lru_list lru)" by (simp add: lru_wf_def)
  have "k \<in> set (lru_keys lru) \<longleftrightarrow> (\<exists>e. (e, k) \<in> set (lru_list lru))" 
    unfolding lru_keys_def by (force simp: image_iff)
  then show ?thesis using * by (cases "lru_table lru k") auto
qed

lemma filter_elem:
  assumes "distinct (map fst xs)" and "(e, k) \<in> set xs"
  shows "filter (\<lambda>x. fst x = e) xs = [(e, k)]"
  using assms
proof (induction xs)
  case Nil
  then show ?case by simp
next
  case (Cons x xs)
  show ?case
  proof (cases "fst x = e")
    case True
    with Cons.prems have "e \<notin> fst ` set xs" by auto
    then have "filter (\<lambda>x. fst x = e) xs = []" by (auto simp: filter_empty_conv)
    moreover have "x = (e, k)" using True Cons.prems \<open>e \<notin> fst ` set xs\<close> by (auto simp: image_iff)
    ultimately show ?thesis by simp
  next
    case False
    with Cons show ?thesis by auto
  qed
qed

lemma keys_remove:
  assumes "distinct (map fst xs)" and "distinct (map snd xs)" and "(e, k) \<in> set xs"
  shows "map snd (filter (\<lambda>x. fst x \<noteq> e) xs) = remove1 k (map snd xs)"
proof -
  have "filter (\<lambda>x. fst x \<noteq> e) xs = filter (\<lambda>x. snd x \<noteq> k) xs"
  proof (rule filter_cong)
    fix x assume x: "x \<in> set xs"
    show "(fst x \<noteq> e) = (snd x \<noteq> k)"
      using assms x by (metis eq_key_imp_eq_value inj_on_def distinct_map prod.collapse fst_conv snd_conv)
  qed simp
  also have "map snd \<dots> = filter (\<lambda>y. y \<noteq> k) (map snd xs)" by (simp add: filter_map o_def)
  also have "\<dots> = remove1 k (map snd xs)" using assms(2) by (simp add: remove1_filter)
  finally show ?thesis .
qed

lemma distinct_filter_map: "distinct (map f xs) \<Longrightarrow> distinct (map f (filter P xs))"
  by (induction xs) auto

lemma lru_size_gt:
  assumes "lru_wf lru"
  shows "lru_capacity lru < lru_size lru \<longleftrightarrow> unat (lru_capacity lru) < length (lru_list lru)"
  using assms by (simp add: lru_wf_def word_less_nat_alt unat_of_nat)

lemma lru_wf_butlast:
  assumes wf: "lru_wf lru" and ne: "lru_list lru \<noteq> []"
  shows "lru_wf (lru\<lparr>lru_list := butlast (lru_list lru),
           lru_table := (lru_table lru)(snd (last (lru_list lru)) := None), lru_size := lru_size lru - 1\<rparr>)"
proof -
  obtain xs e k where xs: "lru_list lru = xs @ [(e, k)]"
    using ne by (metis append_butlast_last_id prod.collapse)
  have d: "distinct (map fst (xs @ [(e, k)]))" "distinct (map snd (xs @ [(e, k)]))"
    and t: "\<And>k' e'. lru_table lru k' = Some e' \<longleftrightarrow> (e', k') \<in> set (xs @ [(e, k)])"
    and sz: "lru_size lru = of_nat (length xs + 1)" "length xs + 1 < 2 ^ 64"
    and nx: "\<forall>e' \<in> fst ` set (xs @ [(e, k)]). e' < lru_next lru"
    using wf xs by (simp_all add: lru_wf_def lru_keys_def)
  have "((lru_table lru)(k := None)) k' = Some e' \<longleftrightarrow> (e', k') \<in> set xs" for k' e'
    using t [of k' e'] d by (auto simp: image_iff)
  then show ?thesis
    using d sz nx by (simp add: lru_wf_def lru_keys_def xs)
qed

lemma checkCapacity_spec:
  assumes "lru_wf lru"
  shows "lru_wf (fst (checkCapacity d lru s)) \<and> lru_capacity (fst (checkCapacity d lru s)) = lru_capacity lru \<and>
         lru_keys (fst (checkCapacity d lru s)) = take (unat (lru_capacity lru)) (lru_keys lru) \<and>
         snd (checkCapacity d lru s) = fold d (rev (drop (unat (lru_capacity lru)) (lru_keys lru))) s"
  using assms
proof (induction d lru s rule: checkCapacity.induct)
  case (1 d lru s)
  show ?case
  proof (cases "unat (lru_capacity lru) < length (lru_list lru)")
    case False
    then show ?thesis
      using 1(2) by (subst (1 2 3 4) checkCapacity.simps) (simp add: lru_size_gt lru_keys_def)
  next
    case True
    then have ne: "lru_list lru \<noteq> []" by auto
    let ?k = "snd (last (lru_list lru))"
    let ?l = "lru\<lparr>lru_list := butlast (lru_list lru), lru_table := (lru_table lru)(?k := None), lru_size := lru_size lru - 1\<rparr>"
    have eq: "checkCapacity d lru s = checkCapacity d ?l (d ?k s)"
      using True ne 1(2) by (subst checkCapacity.simps) (simp add: lru_size_gt Let_def)
    have IH: "lru_wf (fst (checkCapacity d ?l (d ?k s))) \<and> lru_capacity (fst (checkCapacity d ?l (d ?k s))) = lru_capacity lru \<and>
        lru_keys (fst (checkCapacity d ?l (d ?k s))) = take (unat (lru_capacity lru)) (lru_keys ?l) \<and>
        snd (checkCapacity d ?l (d ?k s)) = fold d (rev (drop (unat (lru_capacity lru)) (lru_keys ?l))) (d ?k s)"
      using 1(1) [OF _ ne refl refl refl] 1(2) True lru_wf_butlast [OF 1(2) ne] by (simp add: lru_size_gt)
    have keys: "lru_keys lru = lru_keys ?l @ [?k]"
      using ne by (simp add: lru_keys_def) (metis append_butlast_last_id map_append list.map)
    have len: "unat (lru_capacity lru) \<le> length (lru_keys ?l)"
      using True ne by (simp add: lru_keys_def)
    show ?thesis unfolding eq using IH keys len by simp
  qed
qed

text \<open>The key moves to the front before the capacity is checked.\<close>

lemma lru_touch:
  assumes wf: "lru_wf lru" and room: "length (lru_list lru) + 1 < 2 ^ 64"
  shows "lru_wf (lru_front key lru) \<and> lru_capacity (lru_front key lru) = lru_capacity lru \<and>
         lru_keys (lru_front key lru) = key # remove1 key (lru_keys lru)"
proof (cases "lru_table lru key")
  case None
  then have new: "key \<notin> set (lru_keys lru)" using lru_table_None [OF wf] by blast
  have t: "\<And>k e. lru_table lru k = Some e \<longleftrightarrow> (e, k) \<in> set (lru_list lru)"
    and lt: "\<And>e k. (e, k) \<in> set (lru_list lru) \<Longrightarrow> e < lru_next lru"
    using wf by (auto simp: lru_wf_def)
  have "((lru_table lru)(key \<mapsto> lru_next lru)) k = Some e \<longleftrightarrow> (e, k) \<in> set ((lru_next lru, key) # lru_list lru)" for k e
    using t [of k e] lt [of e k] None t [of key e] by auto
  moreover have "lru_next lru \<notin> fst ` set (lru_list lru)" using lt by fastforce
  ultimately have "lru_wf (lru_front key lru)"
    using wf None new room lt
    by (auto simp: lru_front_def lru_wf_def lru_keys_def less_Suc_eq)
  then show ?thesis using None new by (simp add: lru_front_def lru_keys_def remove1_idem)
next
  case (Some e)
  let ?xs = "lru_list lru"
  have d: "distinct (map fst ?xs)" "distinct (map snd ?xs)" and e: "(e, key) \<in> set ?xs"
    using wf Some by (simp_all add: lru_wf_def lru_keys_def)
  have xs: "MoveToFront e ?xs = (e, key) # filter (\<lambda>x. fst x \<noteq> e) ?xs"
    by (simp add: MoveToFront_def filter_elem [OF d(1) e])
  have keys: "map snd (filter (\<lambda>x. fst x \<noteq> e) ?xs) = remove1 key (map snd ?xs)"
    by (rule keys_remove [OF d e])
  have len: "length (MoveToFront e ?xs) = length ?xs"
    unfolding MoveToFront_def by (metis length_append sum_length_filter_compl)
  have st: "set (MoveToFront e ?xs) = set ?xs" by (auto simp: MoveToFront_def)
  have l1: "lru_front key lru = lru\<lparr>lru_list := MoveToFront e ?xs\<rparr>" by (simp add: lru_front_def Some)
  have "distinct (map fst (MoveToFront e ?xs))"
    unfolding xs using d(1) by (auto simp: distinct_filter_map)
  moreover have "distinct (map snd (MoveToFront e ?xs))"
    unfolding xs using d(2) keys by simp
  ultimately have "lru_wf (lru_front key lru)"
    using wf unfolding l1 lru_wf_def by (simp add: lru_keys_def st len)
  then show ?thesis using keys by (simp add: l1 lru_keys_def xs)
qed

lemma lru_Add_spec:
  assumes wf: "lru_wf lru" and room: "length (lru_list lru) + 1 < 2 ^ 64"
  shows "lru_wf (fst (lru_Add d key lru s)) \<and> lru_capacity (fst (lru_Add d key lru s)) = lru_capacity lru \<and>
         lru_keys (fst (lru_Add d key lru s)) = take (unat (lru_capacity lru)) (key # remove1 key (lru_keys lru)) \<and>
         snd (lru_Add d key lru s) = fold d (rev (drop (unat (lru_capacity lru)) (key # remove1 key (lru_keys lru)))) s"
  unfolding lru_Add_def
  using lru_touch [OF wf room, of key] checkCapacity_spec [of "lru_front key lru" d s] by simp

lemma lru_Del_spec:
  assumes wf: "lru_wf lru"
  shows "lru_wf (lru_Del key lru) \<and> lru_capacity (lru_Del key lru) = lru_capacity lru \<and>
         lru_keys (lru_Del key lru) = remove1 key (lru_keys lru)"
proof (cases "lru_table lru key")
  case None
  then show ?thesis using wf lru_table_None [OF wf, of key] by (simp add: lru_Del_def remove1_idem)
next
  case (Some e)
  let ?xs = "lru_list lru" and ?ys = "filter (\<lambda>x. fst x \<noteq> e) (lru_list lru)"
  have d: "distinct (map fst ?xs)" "distinct (map snd ?xs)" and e: "(e, key) \<in> set ?xs"
    using wf Some by (simp_all add: lru_wf_def lru_keys_def)
  have keys: "map snd ?ys = remove1 key (map snd ?xs)" by (rule keys_remove [OF d e])
  have "length ?ys = length ?xs - 1"
    using keys e by (metis length_map length_remove1 in_set_zipE image_eqI list.set_map snd_conv)
  moreover have "?xs \<noteq> []" using e by auto
  ultimately have sz: "lru_size lru - 1 = of_nat (length ?ys)" "length ?ys < 2 ^ 64"
    using wf by (cases ?xs; simp add: lru_wf_def)+
  have t: "((lru_table lru)(key := None)) k' = Some e' \<longleftrightarrow> (e', k') \<in> set ?ys" for k' e'
  proof -
    have "(e', k') \<in> set ?xs \<Longrightarrow> e' = e \<longleftrightarrow> k' = key"
      using d e by (metis eq_key_imp_eq_value inj_on_def distinct_map fst_conv snd_conv)
    then show ?thesis using wf by (auto simp: lru_wf_def)
  qed
  have "lru_wf (lru_Del key lru)"
    using wf d sz t keys
    by (auto simp: lru_wf_def lru_Del_def Some list_Remove_def lru_keys_def distinct_filter_map)
  then show ?thesis using keys by (simp add: lru_Del_def Some list_Remove_def lru_keys_def)
qed

subsection \<open>The contract of a block handler\<close>

text \<open>
  What the handlers rely on. \<open>inv c s\<close>: the store is well formed and has room for \<open>c\<close> more
  operations; \<open>abs s\<close>: the map it stands for; \<open>arg_ok\<close>, \<open>key_ok\<close>: arguments of admissible size.
\<close>

locale block_contract =
  fixes h :: "('x, 's) BlockHandler"
    and inv :: "nat \<Rightarrow> 's \<Rightarrow> bool"
    and abs :: "'s \<Rightarrow> string \<Rightarrow> string option"
    and arg_ok :: "'x \<Rightarrow> string \<Rightarrow> string \<Rightarrow> bool"
    and key_ok :: "string \<Rightarrow> bool"
  assumes inv_mono: "inv c s \<Longrightarrow> c' \<le> c \<Longrightarrow> inv c' s"
    and set_ok: "inv (Suc c) s \<Longrightarrow> arg_ok x k v \<Longrightarrow>
          \<exists>s'. h_Set h x k v s = (None, s') \<and> inv c s' \<and> abs s' = (abs s)(k \<mapsto> v)"
    and get_ok: "inv c s \<Longrightarrow>
          h_Get h k s = (case abs s k of None \<Rightarrow> Inr (Inl errNotExist) | Some v \<Rightarrow> Inr (Inr v))"
    and del_ok: "inv (Suc c) s \<Longrightarrow> key_ok k \<Longrightarrow>
          \<exists>s'. h_Del h k s = (None, s') \<and> inv c s' \<and> abs s' = (abs s)(k := None)"
    and dom_ok: "inv c s \<Longrightarrow> k \<in> dom (abs s) \<Longrightarrow> key_ok k"
begin

text \<open>The LRU handler: the list holds exactly the stored keys, at most \<open>capacity\<close> of them.\<close>

definition lru_inv :: "nat \<Rightarrow> lruInstance \<Rightarrow> 's \<Rightarrow> bool" where
  "lru_inv c lru s = (lru_wf lru \<and> inv c s \<and> dom (abs s) = set (lru_keys lru) \<and>
     length (lru_keys lru) \<le> unat (lru_capacity lru) \<and> unat (lru_capacity lru) + 1 < 2 ^ 64)"

lemma evict_one:
  assumes inv: "inv (Suc c) s" and dom: "dom (abs s) = set ks" and ks: "distinct ks" "length ks \<le> Suc n"
  shows "inv c (fold (lru_delFunc h) (rev (drop n ks)) s) \<and>
         abs (fold (lru_delFunc h) (rev (drop n ks)) s) = abs s |` set (take n ks)"
proof (cases "length ks \<le> n")
  case True
  have "abs s |` set ks = abs s" unfolding dom [symmetric] by (rule ext) (auto simp: restrict_map_def domIff)
  then show ?thesis using True inv inv_mono [OF inv, of c] by simp
next
  case False
  then have "length (drop n ks) = Suc 0" using ks(2) by simp
  then obtain k where drop: "drop n ks = [k]" unfolding length_Suc_conv by auto
  have split: "ks = take n ks @ [k]" using drop by (metis append_take_drop_id)
  then have k: "k \<in> dom (abs s)" using dom by (metis in_set_conv_decomp)
  from del_ok [OF inv dom_ok [OF inv k]] obtain s' where
    s': "h_Del h k s = (None, s')" "inv c s'" "abs s' = (abs s)(k := None)" by blast
  have "(abs s)(k := None) = abs s |` set (take n ks)"
  proof
    fix j
    have "j \<in> set (take n ks) \<longleftrightarrow> j \<in> dom (abs s) \<and> j \<noteq> k"
      using dom split ks(1) by (metis Un_iff distinct_append disjoint_iff insert_iff list.set(1,2) set_append empty_iff)
    then show "((abs s)(k := None)) j = (abs s |` set (take n ks)) j"
      by (auto simp: restrict_map_def)
  qed
  then show ?thesis using s' by (simp add: drop lru_delFunc_def)
qed

lemma set_content:
  assumes H: "lru_inv (Suc (Suc c)) lru s" and arg: "arg_ok x k v"
  shows "\<exists>lru' s'. LRU_SetContent h x k v lru s = (None, lru', s') \<and> lru_inv c lru' s' \<and>
           lru_capacity lru' = lru_capacity lru \<and>
           lru_keys lru' = take (unat (lru_capacity lru)) (k # remove1 k (lru_keys lru)) \<and>
           abs s' = (abs s)(k \<mapsto> v) |` set (lru_keys lru')"
proof -
  let ?n = "unat (lru_capacity lru)" and ?ks = "k # remove1 k (lru_keys lru)"
  have wf: "lru_wf lru" and inv: "inv (Suc (Suc c)) s" and dom: "dom (abs s) = set (lru_keys lru)"
    and len: "length (lru_keys lru) \<le> ?n" "?n + 1 < 2 ^ 64" using H by (auto simp: lru_inv_def)
  have dist: "distinct (lru_keys lru)" using wf by (simp add: lru_wf_def)
  from set_ok [OF inv arg] obtain s1 where
    s1: "h_Set h x k v s = (None, s1)" "inv (Suc c) s1" "abs s1 = (abs s)(k \<mapsto> v)" by blast
  have room: "length (lru_list lru) + 1 < 2 ^ 64" using len by (simp add: lru_keys_def)
  obtain lru' s' where A: "lru_Add (lru_delFunc h) k lru s1 = (lru', s')" by (metis prod.collapse)
  note spec = lru_Add_spec [OF wf room, of "lru_delFunc h" k s1, unfolded A fst_conv snd_conv]
  have "dom (abs s1) = set ?ks" using dom s1(3) dist by (auto simp: set_remove1_eq)
  moreover have "distinct ?ks" using dist by (simp add: distinct_remove1)
  moreover have "length ?ks \<le> Suc ?n" using len(1) by (auto simp: length_remove1)
  ultimately have E: "inv c s' \<and> abs s' = abs s1 |` set (take ?n ?ks)"
    using evict_one [OF s1(2), of ?ks ?n] spec by simp
  then have "dom (abs s') = set (lru_keys lru')"
    using \<open>dom (abs s1) = set ?ks\<close> spec set_take_subset [of ?n ?ks] by (auto simp del: take_Suc_Cons)
  then have "lru_inv c lru' s'"
    using spec E len(2) by (auto simp: lru_inv_def)
  then show ?thesis using s1 A E spec by (auto simp: LRU_SetContent_def)
qed

lemma get_content:
  assumes H: "lru_inv c lru s"
  shows "case abs s k of
           None \<Rightarrow> LRU_GetContent h k lru s = Inr (Inl errNotExist, lru, s)
         | Some v \<Rightarrow> \<exists>lru'. LRU_GetContent h k lru s = Inr (Inr v, lru', s) \<and> lru_inv c lru' s \<and>
             lru_capacity lru' = lru_capacity lru \<and> lru_keys lru' = k # remove1 k (lru_keys lru)"
proof (cases "abs s k")
  case None
  have "inv c s" using H by (simp add: lru_inv_def)
  with None show ?thesis using get_ok [of c s k] by (simp add: LRU_GetContent_def)
next
  case (Some v)
  let ?n = "unat (lru_capacity lru)" and ?ks = "k # remove1 k (lru_keys lru)"
  have wf: "lru_wf lru" and inv: "inv c s" and dom: "dom (abs s) = set (lru_keys lru)"
    and len: "length (lru_keys lru) \<le> ?n" "?n + 1 < 2 ^ 64" using H by (auto simp: lru_inv_def)
  have dist: "distinct (lru_keys lru)" using wf by (simp add: lru_wf_def)
  have k: "k \<in> set (lru_keys lru)" using Some dom by blast
  have room: "length (lru_list lru) + 1 < 2 ^ 64" using len by (simp add: lru_keys_def)
  obtain lru' s' where A: "lru_Add (lru_delFunc h) k lru s = (lru', s')" by (metis prod.collapse)
  note spec = lru_Add_spec [OF wf room, of "lru_delFunc h" k s, unfolded A fst_conv snd_conv]
  have "0 < length (lru_keys lru)" using k by (cases "lru_keys lru") auto
  then have l: "length ?ks \<le> ?n" using len(1) k by (simp add: length_remove1)
  then have keys: "lru_keys lru' = ?ks" "s' = s" using spec by simp_all
  have "set ?ks = set (lru_keys lru)" using k dist by (auto simp: set_remove1_eq)
  then have "lru_inv c lru' s" using spec keys inv dom len(2) l by (auto simp: lru_inv_def)
  then show ?thesis using Some get_ok [OF inv, of k] A keys spec by (simp add: LRU_GetContent_def)
qed

lemma del_content:
  assumes H: "lru_inv (Suc c) lru s" and k: "key_ok k"
  shows "\<exists>lru' s'. LRU_DelContent h k lru s = (None, lru', s') \<and> lru_inv c lru' s' \<and>
           lru_keys lru' = remove1 k (lru_keys lru) \<and> abs s' = (abs s)(k := None)"
proof -
  have wf: "lru_wf lru" and inv: "inv (Suc c) s" and dom: "dom (abs s) = set (lru_keys lru)"
    and len: "length (lru_keys lru) \<le> unat (lru_capacity lru)" "unat (lru_capacity lru) + 1 < 2 ^ 64"
    using H by (auto simp: lru_inv_def)
  have dist: "distinct (lru_keys lru)" using wf by (simp add: lru_wf_def)
  from del_ok [OF inv k] obtain s' where
    s': "h_Del h k s = (None, s')" "inv c s'" "abs s' = (abs s)(k := None)" by blast
  have "lru_inv c (lru_Del k lru) s'"
    using lru_Del_spec [OF wf, of k] s' dom len dist
    by (auto simp: lru_inv_def set_remove1_eq length_remove1)
  then show ?thesis using s' lru_Del_spec [OF wf, of k] by (simp add: LRU_DelContent_def)
qed

lemma lru_inv_start: "inv c s \<Longrightarrow> abs s = Map.empty \<Longrightarrow> unat cap + 1 < 2 ^ 64 \<Longrightarrow> lru_inv c (newLRUInstance cap) s"
  by (simp add: lru_inv_def newLRUInstance_def lru_wf_def lru_keys_def)

end

subsection \<open>The block store satisfies the contract\<close>

definition block_handler :: "(string, Block \<times> fsys) BlockHandler" where
  "block_handler =
     \<lparr>h_Set = (\<lambda>fresh k v (b, fs). Block_Set fresh k v b fs),
      h_Get = (\<lambda>k (b, fs). Block_Get k b fs),
      h_Del = (\<lambda>k (b, fs). Block_Del k b fs)\<rparr>"

definition block_abs :: "Block \<times> fsys \<Rightarrow> string \<Rightarrow> string option" where
  "block_abs s k = (case Block_Get k (fst s) (snd s) of Inr (Inr v) \<Rightarrow> Some v | _ \<Rightarrow> None)"

definition block_inv :: "nat \<Rightarrow> Block \<times> fsys \<Rightarrow> bool" where
  "block_inv c s = ((\<exists>m. store_rel (start_system (fst s) (snd s)) m) \<and>
     (\<forall>p. \<not> denied (snd s) p) \<and> room (snd s) (c * 2 ^ 33))"

definition block_arg_ok :: "string \<Rightarrow> string \<Rightarrow> string \<Rightarrow> bool" where
  "block_arg_ok fresh k v = (content_name fresh \<and> fits k v \<and> length k < 2 ^ 30)"

definition block_key_ok :: "string \<Rightarrow> bool" where
  "block_key_ok k = (length k < 2 ^ 30)"

lemma block_abs_eq:
  assumes "store_rel (start_system b fs) m" and "\<forall>p. \<not> denied fs p"
  shows "block_abs (b, fs) = m"
  using store_rel_Get [OF assms(1)] assms(2)
  by (intro ext) (simp add: block_abs_def start_system_def split: option.split)

lemma start_system_simps [simp]:
  "blk (start_system b fs) = b" "sfs (start_system b fs) = fs" "inflight (start_system b fs) = []"
  "(start_system b fs)\<lparr>blk := b', sfs := fs'\<rparr> = start_system b' fs'"
  by (simp_all add: start_system_def)

lemma Block_Set_ex:
  assumes "store_rel s m" and "inflight s = []" and "\<forall>p. \<not> denied (sfs s) p"
    and "content_name fresh" and "fits k v" and "length k < 2 ^ 30"
    and "room (sfs s) (length (kv_bytes k v) + 2 ^ 32 + c)"
  shows "\<exists>b' fs'. Block_Set fresh k v (blk s) (sfs s) = (None, b', fs') \<and>
    store_rel (s\<lparr>blk := b', sfs := fs'\<rparr>) (m(k \<mapsto> v)) \<and> denied fs' = denied (sfs s) \<and> room fs' c"
  by (rule Block_Set_ok [OF assms]) blast

interpretation block_store: block_contract block_handler block_inv block_abs block_arg_ok block_key_ok
proof
  fix c c' s assume "block_inv c s" "c' \<le> c"
  then show "block_inv c' s"
    using room_mono [of "snd s" "c * 2 ^ 33" "snd s" 0 "c' * 2 ^ 33"] by (auto simp: block_inv_def)
next
  fix c s x k v assume inv: "block_inv (Suc c) s" and arg: "block_arg_ok x k v"
  obtain b fs where s: "s = (b, fs)" by (cases s)
  from inv obtain m where rel: "store_rel (start_system b fs) m" and nd: "\<forall>p. \<not> denied fs p"
    and rm: "room fs (Suc c * 2 ^ 33)" by (auto simp: block_inv_def s)
  have "length (kv_bytes k v) + 2 ^ 32 + c * 2 ^ 33 \<le> Suc c * 2 ^ 33"
    using arg by (simp add: block_arg_ok_def fits_def)
  then have rm': "room fs (length (kv_bytes k v) + 2 ^ 32 + c * 2 ^ 33)"
    using room_mono [OF rm, of fs 0] by simp
  obtain b' fs' where S: "Block_Set x k v b fs = (None, b', fs')" "store_rel (start_system b' fs') (m(k \<mapsto> v))"
      "denied fs' = denied fs" "room fs' (c * 2 ^ 33)"
    using Block_Set_ex [OF rel, of x k v "c * 2 ^ 33"] nd arg rm' unfolding block_arg_ok_def start_system_simps by blast
  have "block_abs (b', fs') = (block_abs (b, fs))(k \<mapsto> v)"
    using block_abs_eq [OF S(2)] block_abs_eq [OF rel nd] nd S(3) by simp
  then show "\<exists>s'. h_Set block_handler x k v s = (None, s') \<and> block_inv c s' \<and> block_abs s' = (block_abs s)(k \<mapsto> v)"
    using S nd by (auto simp: block_handler_def s block_inv_def)
next
  fix c s k assume inv: "block_inv c s"
  obtain b fs where s: "s = (b, fs)" by (cases s)
  from inv obtain m where rel: "store_rel (start_system b fs) m" and nd: "\<forall>p. \<not> denied fs p"
    by (auto simp: block_inv_def s)
  show "h_Get block_handler k s = (case block_abs s k of None \<Rightarrow> Inr (Inl errNotExist) | Some v \<Rightarrow> Inr (Inr v))"
    using store_rel_Get [OF rel, of k] nd block_abs_eq [OF rel nd] by (simp add: block_handler_def s)
next
  fix c s k assume inv: "block_inv (Suc c) s" and k: "block_key_ok k"
  obtain b fs where s: "s = (b, fs)" by (cases s)
  from inv obtain m where rel: "store_rel (start_system b fs) m" and nd: "\<forall>p. \<not> denied fs p"
    and rm: "room fs (Suc c * 2 ^ 33)" by (auto simp: block_inv_def s)
  obtain e b' fs' where D: "Block_Del k b fs = (e, b', fs')" by (metis prod_cases3)
  have fs': "fs' = fs_append (iw_ino (indexW b)) (enc_log [(k, NewDelIndex)]) fs"
    using D by (auto simp: Block_Del_def IndexWriter_Write_eq iw_Write_bytes_def)
  have "length (enc_log [(k, NewDelIndex)]) \<le> 2 ^ 33"
    using k by (simp add: block_key_ok_def NewDelIndex_def NewIndex_def)
  then have "\<forall>j. length (inode fs' j) \<le> length (inode fs j) + 2 ^ 33" unfolding fs' by (auto simp: fs_append_def)
  then have rm': "room fs' (c * 2 ^ 33)" by (rule room_mono [OF rm]) simp
  have ok: "e = None" "store_rel (start_system b' fs') (m(k := None))"
    using Block_Del_ok [OF rel, of k e b' fs'] D k room_small [OF rm'] by (auto simp: block_key_ok_def)
  have "denied fs' = denied fs" by (simp add: fs')
  then have "block_abs (b', fs') = (block_abs (b, fs))(k := None)"
    using block_abs_eq [OF ok(2)] block_abs_eq [OF rel nd] nd by simp
  then show "\<exists>s'. h_Del block_handler k s = (None, s') \<and> block_inv c s' \<and> block_abs s' = (block_abs s)(k := None)"
    using D ok nd rm' \<open>denied fs' = denied fs\<close> by (auto simp: block_handler_def s block_inv_def)
next
  fix c s k assume inv: "block_inv c s" and k: "k \<in> dom (block_abs s)"
  obtain b fs where s: "s = (b, fs)" by (cases s)
  from inv obtain m where rel: "store_rel (start_system b fs) m" and nd: "\<forall>p. \<not> denied fs p"
    by (auto simp: block_inv_def s)
  have "m k \<noteq> None" using k block_abs_eq [OF rel nd] by (auto simp: s)
  moreover have tab: "table_ok b fs m" using rel by (simp add: store_rel_def)
  ultimately have "indexTable b k \<noteq> None"
    using tab [unfolded table_ok_def, rule_format, of k] by (auto split: option.splits)
  then show "block_key_ok k"
    using table_ok_Some [OF tab] by (auto simp: block_key_ok_def content_at_def)
qed

subsection \<open>Sequences of operations\<close>

datatype lru_op = LSet string string string | LGet string | LDel string

fun lru_exec :: "(string, 's) BlockHandler \<Rightarrow> lru_op \<Rightarrow> lruInstance \<times> 's \<Rightarrow> (lruInstance \<times> 's) outcome" where
  "lru_exec h (LSet fresh k v) (lru, s) = Inr (snd (LRU_SetContent h fresh k v lru s))"
| "lru_exec h (LGet k) (lru, s) = (case LRU_GetContent h k lru s of Inl p \<Rightarrow> Inl p | Inr (_, st) \<Rightarrow> Inr st)"
| "lru_exec h (LDel k) (lru, s) = Inr (snd (LRU_DelContent h k lru s))"

fun lru_exec_all :: "(string, 's) BlockHandler \<Rightarrow> lru_op list \<Rightarrow> lruInstance \<times> 's \<Rightarrow> (lruInstance \<times> 's) outcome" where
  "lru_exec_all h [] st = Inr st"
| "lru_exec_all h (op # ops) st = (case lru_exec h op st of Inl p \<Rightarrow> Inl p | Inr st' \<Rightarrow> lru_exec_all h ops st')"

text \<open>The specification: the keys by recency, cut to the capacity, and the map restricted to them.\<close>

fun lru_spec :: "nat \<Rightarrow> lru_op \<Rightarrow> string list \<times> (string \<Rightarrow> string option) \<Rightarrow> string list \<times> (string \<Rightarrow> string option)" where
  "lru_spec cap (LSet fresh k v) (ks, m) =
     (let ks' = take cap (k # remove1 k ks) in (ks', m(k \<mapsto> v) |` set ks'))"
| "lru_spec cap (LGet k) (ks, m) = (if m k = None then (ks, m) else (k # remove1 k ks, m))"
| "lru_spec cap (LDel k) (ks, m) = (remove1 k ks, m(k := None))"

fun lru_op_ok :: "lru_op \<Rightarrow> bool" where
  "lru_op_ok (LSet fresh k v) = block_arg_ok fresh k v"
| "lru_op_ok (LGet k) = True"
| "lru_op_ok (LDel k) = block_key_ok k"

lemma lru_exec_refines:
  assumes H: "block_store.lru_inv (Suc (Suc c)) lru s" and ok: "lru_op_ok op"
  shows "\<exists>lru' s'. lru_exec block_handler op (lru, s) = Inr (lru', s') \<and> block_store.lru_inv c lru' s' \<and>
           lru_capacity lru' = lru_capacity lru \<and>
           (lru_keys lru', block_abs s') = lru_spec (unat (lru_capacity lru)) op (lru_keys lru, block_abs s)"
proof -
  have H1: "block_store.lru_inv (Suc c) lru s" "block_store.lru_inv c lru s"
    using H block_store.inv_mono unfolding block_store.lru_inv_def by (meson le_SucI order_refl)+
  show ?thesis
  proof (cases op)
    case (LSet fresh k v)
    with ok have "block_arg_ok fresh k v" by simp
    from block_store.set_content [OF H this] LSet show ?thesis by (auto simp: Let_def)
  next
    case (LGet k)
    show ?thesis
    proof (cases "block_abs s k")
      case None
      then show ?thesis using LGet block_store.get_content [OF H1(2), of k] H1(2) by simp
    next
      case (Some v)
      then show ?thesis using LGet block_store.get_content [OF H1(2), of k] by (cases s) auto
    qed
  next
    case (LDel k)
    with ok have "block_key_ok k" by simp
    from block_store.del_content [OF H1(1) this] LDel show ?thesis
      using lru_Del_spec [of lru k] H unfolding block_store.lru_inv_def
      by (auto simp: LRU_DelContent_def split: prod.splits option.splits)
  qed
qed

lemma lru_exec_all_refines:
  assumes "block_store.lru_inv (2 * length ops) lru s" and "\<forall>op \<in> set ops. lru_op_ok op"
  shows "\<exists>lru' s'. lru_exec_all block_handler ops (lru, s) = Inr (lru', s') \<and> block_store.lru_inv 0 lru' s' \<and>
           lru_capacity lru' = lru_capacity lru \<and>
           (lru_keys lru', block_abs s') = fold (lru_spec (unat (lru_capacity lru))) ops (lru_keys lru, block_abs s)"
  using assms
proof (induction ops arbitrary: lru s)
  case Nil
  then show ?case by simp
next
  case (Cons op ops)
  from lru_exec_refines [of "2 * length ops" lru s op] Cons.prems obtain lru1 s1 where
    1: "lru_exec block_handler op (lru, s) = Inr (lru1, s1)" "block_store.lru_inv (2 * length ops) lru1 s1"
      "lru_capacity lru1 = lru_capacity lru"
      "(lru_keys lru1, block_abs s1) = lru_spec (unat (lru_capacity lru)) op (lru_keys lru, block_abs s)"
    by auto
  from Cons.IH [OF 1(2)] Cons.prems 1 show ?case by auto
qed



end
