(* ===== verification/Conn_Pool.thy ===== *)
theory Conn_Pool
  imports Prelude "HOL-Library.Multiset"
begin

text \<open>
  \<^verbatim>\<open>src/utility/pooling.go\<close>: the connection pool. Every critical section of the code (between
  \<^verbatim>\<open>Lock\<close> and \<^verbatim>\<open>Unlock\<close>) is one operation on the pool record; the connections an operation closes
  are part of its result. Runs of many goroutines are an inductive step relation over the pool
  and the connections that are tested, created, borrowed or closed at the moment.
\<close>

datatype pool_error = errPoolClosed | NewError

record pool =
  MaxIdle :: int
  idleNum :: int
  idle :: "(nat \<times> nat) list"
  pclosed :: bool

definition NewPool :: "int \<Rightarrow> pool" where
  "NewPool maxIdle = \<lparr>MaxIdle = maxIdle, idleNum = 0, idle = [], pclosed = False\<rparr>"

subsection \<open>The critical sections\<close>

text \<open>\<^verbatim>\<open>Get\<close>: take the front item of the idle list.\<close>

definition pool_pop :: "pool \<Rightarrow> ((nat \<times> nat) \<times> pool) option" where
  "pool_pop p = (case idle p of [] \<Rightarrow> None | e # es \<Rightarrow> Some (e, p\<lparr>idle := es\<rparr>))"

text \<open>A borrowed item that fails its test, and a new connection that cannot be made.\<close>

definition pool_release :: "pool \<Rightarrow> pool" where
  "pool_release p = p\<lparr>idleNum := idleNum p - 1\<rparr>"

definition may_create :: "pool \<Rightarrow> bool" where
  "may_create p = (MaxIdle p = 0 \<or> idleNum p < MaxIdle p)"

definition pool_reserve :: "pool \<Rightarrow> pool" where
  "pool_reserve p = p\<lparr>idleNum := idleNum p + 1\<rparr>"

definition pool_Put :: "nat \<Rightarrow> nat \<Rightarrow> pool \<Rightarrow> pool_error option \<times> nat list \<times> pool" where
  "pool_Put now conn p =
     (if pclosed p then (Some errPoolClosed, [], p)
      else (let p1 = p\<lparr>idle := (now, conn) # idle p\<rparr> in
            if int (length (idle p1)) > MaxIdle p1 then
              (None, [snd (last (idle p1))], p1\<lparr>idle := butlast (idle p1), idleNum := idleNum p1 - 1\<rparr>)
            else (None, [], p1)))"

definition pool_Remove :: "nat \<Rightarrow> pool \<Rightarrow> pool_error option \<times> nat list \<times> pool" where
  "pool_Remove conn p =
     (if pclosed p then (Some errPoolClosed, [], p)
      else (None, [conn], p\<lparr>idleNum := idleNum p - 1\<rparr>))"

text \<open>
  \<^verbatim>\<open>Close\<close>: the local variable is the same list as the field, so \<^verbatim>\<open>Init\<close> empties it before the
  loop that closes its members.
\<close>

definition pool_Close :: "pool \<Rightarrow> pool_error option \<times> nat list \<times> pool" where
  "pool_Close p =
     (if pclosed p then (Some errPoolClosed, [], p)
      else (let p1 = p\<lparr>pclosed := True, idle := []\<rparr> in (None, map snd (idle p1), p1)))"

definition pool_IdleNum :: "pool \<Rightarrow> int" where "pool_IdleNum p = idleNum p"
definition pool_Len :: "pool \<Rightarrow> int" where "pool_Len p = int (length (idle p))"

subsection \<open>\<^verbatim>\<open>Get\<close> by one goroutine\<close>

text \<open>
  The scan of the idle list, at most as many items as it had; \<open>test\<close> is \<^verbatim>\<open>TestOnBorrow\<close>, \<open>None\<close>
  when it is nil. Result: the connection, the connections closed, the pool.
\<close>

fun get_scan :: "(nat \<Rightarrow> nat \<Rightarrow> bool) option \<Rightarrow> nat \<Rightarrow> pool \<Rightarrow> nat option \<times> nat list \<times> pool" where
  "get_scan test 0 p = (None, [], p)"
| "get_scan test (Suc n) p =
     (case pool_pop p of
        None \<Rightarrow> (None, [], p)
      | Some ((idleTime, idleConn), p1) \<Rightarrow>
          if (case test of None \<Rightarrow> True | Some f \<Rightarrow> f idleConn idleTime) then (Some idleConn, [], p1)
          else (case get_scan test n (pool_release p1) of (r, cl, p2) \<Rightarrow> (r, idleConn # cl, p2)))"

text \<open>\<open>newConn\<close> is the result of \<^verbatim>\<open>NewFn\<close>; the outer \<open>None\<close> means that the caller waits.\<close>

definition pool_Get ::
    "(nat \<Rightarrow> nat \<Rightarrow> bool) option \<Rightarrow> nat option \<Rightarrow> pool \<Rightarrow> ((pool_error + nat) \<times> nat list \<times> pool) option" where
  "pool_Get test newConn p =
     (case get_scan test (length (idle p)) p of
        (Some c, cl, p1) \<Rightarrow> Some (Inr c, cl, p1)
      | (None, cl, p1) \<Rightarrow>
          if pclosed p1 then Some (Inl errPoolClosed, cl, p1)
          else if may_create p1 then
            (let p2 = pool_reserve p1 in
             case newConn of
               None \<Rightarrow> Some (Inl NewError, cl, pool_release p2)
             | Some c \<Rightarrow> Some (Inr c, cl, p2))
          else None)"

text \<open>The connection wrapper: the error of the last use decides how it goes back.\<close>

record conn =
  conn_idle :: nat
  conn_err :: bool

definition NewConn :: "nat \<Rightarrow> conn" where
  "NewConn i = \<lparr>conn_idle = i, conn_err = False\<rparr>"

definition conn_Do :: "(nat \<Rightarrow> bool) \<Rightarrow> conn \<Rightarrow> bool \<times> conn" where
  "conn_Do doFn c = (let c1 = c\<lparr>conn_err := doFn (conn_idle c)\<rparr> in (conn_err c1, c1))"

definition conn_Recycle :: "nat \<Rightarrow> conn \<Rightarrow> pool \<Rightarrow> pool_error option \<times> nat list \<times> pool" where
  "conn_Recycle now c p =
     (if conn_err c then pool_Remove (conn_idle c) p else pool_Put now (conn_idle c) p)"

subsection \<open>Many goroutines\<close>

record pool_sys =
  sys_pool :: pool
  testing :: "nat list"
  creating :: nat
  borrowed :: "nat list"
  shut :: "nat list"
  next_conn :: nat

inductive pool_step :: "pool_sys \<Rightarrow> pool_sys \<Rightarrow> bool" where
  take_idle: "pool_pop (sys_pool s) = Some ((t, c), p) \<Longrightarrow>
    pool_step s (s\<lparr>sys_pool := p, testing := c # testing s\<rparr>)"
| test_ok: "c \<in> set (testing s) \<Longrightarrow>
    pool_step s (s\<lparr>testing := remove1 c (testing s), borrowed := c # borrowed s\<rparr>)"
| test_fail: "c \<in> set (testing s) \<Longrightarrow>
    pool_step s (s\<lparr>testing := remove1 c (testing s), shut := c # shut s, sys_pool := pool_release (sys_pool s)\<rparr>)"
| reserve: "\<not> pclosed (sys_pool s) \<Longrightarrow> may_create (sys_pool s) \<Longrightarrow>
    pool_step s (s\<lparr>sys_pool := pool_reserve (sys_pool s), creating := Suc (creating s)\<rparr>)"
| new_ok: "0 < creating s \<Longrightarrow>
    pool_step s (s\<lparr>creating := creating s - 1, borrowed := next_conn s # borrowed s, next_conn := Suc (next_conn s)\<rparr>)"
| new_fail: "0 < creating s \<Longrightarrow>
    pool_step s (s\<lparr>creating := creating s - 1, sys_pool := pool_release (sys_pool s)\<rparr>)"
| put: "c \<in> set (borrowed s) \<Longrightarrow> pool_Put now c (sys_pool s) = (e, cl, p) \<Longrightarrow>
    pool_step s (s\<lparr>sys_pool := p, borrowed := remove1 c (borrowed s), shut := cl @ shut s\<rparr>)"
| remove: "c \<in> set (borrowed s) \<Longrightarrow> pool_Remove c (sys_pool s) = (e, cl, p) \<Longrightarrow>
    pool_step s (s\<lparr>sys_pool := p, borrowed := remove1 c (borrowed s), shut := cl @ shut s\<rparr>)"
| close: "pool_Close (sys_pool s) = (e, cl, p) \<Longrightarrow>
    pool_step s (s\<lparr>sys_pool := p, shut := cl @ shut s\<rparr>)"

definition pool_start :: "int \<Rightarrow> pool_sys" where
  "pool_start n = \<lparr>sys_pool = NewPool n, testing = [], creating = 0, borrowed = [], shut = [], next_conn = 0\<rparr>"

text \<open>Connections somebody may still use, and those about to be made.\<close>

definition held :: "pool_sys \<Rightarrow> nat list" where
  "held s = map snd (idle (sys_pool s)) @ testing s @ borrowed s"

definition live :: "pool_sys \<Rightarrow> int" where
  "live s = int (length (held s) + creating s)"

definition pool_inv :: "int \<Rightarrow> pool_sys \<Rightarrow> bool" where
  "pool_inv n s =
     (MaxIdle (sys_pool s) = n \<and> (0 < n \<longrightarrow> live s \<le> n) \<and> (\<not> pclosed (sys_pool s) \<longrightarrow> idleNum (sys_pool s) = live s) \<and>
      distinct (held s) \<and> set (held s) \<inter> set (shut s) = {} \<and> (\<forall>c \<in> set (held s @ shut s). c < next_conn s))"

lemma pool_inv_start: "0 \<le> n \<Longrightarrow> pool_inv n (pool_start n)"
  by (simp add: pool_inv_def pool_start_def NewPool_def held_def live_def)

lemmas pool_ops = pool_pop_def pool_release_def pool_reserve_def may_create_def pool_Put_def pool_Remove_def pool_Close_def

text \<open>Three ways a step changes the held connections: not at all, one fewer, one new.\<close>

lemma distinct_mset_eq: "mset xs = mset ys \<Longrightarrow> distinct xs = distinct ys \<and> set xs = set ys \<and> length xs = length ys"
  by (metis mset_eq_imp_distinct_iff mset_eq_setD mset_eq_length)

lemma pool_inv_same:
  assumes inv: "pool_inv n s" and held: "mset (held s') = mset (held s)"
    and "shut s' = shut s" "next_conn s' = next_conn s" "MaxIdle (sys_pool s') = MaxIdle (sys_pool s)"
    and "creating s' \<le> creating s"
    and num: "\<not> pclosed (sys_pool s') \<Longrightarrow> \<not> pclosed (sys_pool s) \<and>
                idleNum (sys_pool s') - idleNum (sys_pool s) = int (creating s') - int (creating s)"
  shows "pool_inv n s'"
  using assms distinct_mset_eq [OF held] by (auto simp: pool_inv_def live_def)

lemma pool_inv_drop:
  assumes inv: "pool_inv n s" and c: "mset (held s) = add_mset c (mset (held s'))"
    and "shut s' = shut s \<or> shut s' = c # shut s" and "next_conn s' = next_conn s"
    and "MaxIdle (sys_pool s') = MaxIdle (sys_pool s)" and "creating s' = creating s"
    and num: "\<not> pclosed (sys_pool s') \<Longrightarrow> \<not> pclosed (sys_pool s) \<and> idleNum (sys_pool s') = idleNum (sys_pool s) - 1"
  shows "pool_inv n s'"
proof -
  have "mset (held s) = mset (c # held s')" using c by simp
  from distinct_mset_eq [OF this] assms show ?thesis by (auto simp: pool_inv_def live_def)
qed

lemma pool_inv_new:
  assumes inv: "pool_inv n s" and c: "mset (held s') = add_mset (next_conn s) (mset (held s))"
    and same: "shut s' = shut s" "next_conn s' = Suc (next_conn s)" "sys_pool s' = sys_pool s"
      "creating s = Suc (creating s')"
  shows "pool_inv n s'"
proof -
  have "mset (held s') = mset (next_conn s # held s)" using c by simp
  note h = distinct_mset_eq [OF this]
  have lt: "\<forall>c \<in> set (held s) \<union> set (shut s). c < next_conn s" using inv by (auto simp: pool_inv_def)
  then have "next_conn s \<notin> set (held s)" "next_conn s \<notin> set (shut s)" by auto
  moreover have "\<forall>c \<in> set (held s' @ shut s'). c < next_conn s'" using lt h same by (simp add: less_Suc_eq)
  ultimately show ?thesis using inv h same by (simp add: pool_inv_def live_def)
qed

lemma mset_remove1_mem: "c \<in> set xs \<Longrightarrow> mset xs = add_mset c (mset (remove1 c xs))"
  by simp

lemma mset_last: "xs \<noteq> [] \<Longrightarrow> mset (map f xs) = add_mset (f (last xs)) (mset (map f (butlast xs)))"
  by (induction xs rule: rev_induct) auto

lemma mset_move: "add_mset c M = add_mset l N \<Longrightarrow> M + add_mset c B = add_mset l (N + B)"
  by (metis union_mset_add_mset_left union_mset_add_mset_right)

lemma pool_step_inv:
  assumes "pool_step s s'" and "pool_inv n s"
  shows "pool_inv n s'"
  using assms
proof (induction rule: pool_step.induct)
  case (take_idle s t c p)
  then obtain es where "idle (sys_pool s) = (t, c) # es" "p = (sys_pool s)\<lparr>idle := es\<rparr>"
    by (auto simp: pool_pop_def split: list.splits)
  with take_idle.prems show ?case by (intro pool_inv_same [OF take_idle.prems]) (simp_all add: held_def)
next
  case (test_ok c s)
  then show ?case
    using mset_remove1_mem [OF test_ok.hyps] by (intro pool_inv_same [OF test_ok.prems]) (simp_all add: held_def)
next
  case (test_fail c s)
  then show ?case
    using mset_remove1_mem [OF test_fail.hyps]
    by (intro pool_inv_drop [OF test_fail.prems, of c]) (simp_all add: held_def pool_release_def)
next
  case (reserve s)
  then show ?case by (auto simp: pool_inv_def live_def held_def pool_reserve_def may_create_def)
next
  case (new_ok s)
  then show ?case by (intro pool_inv_new [OF new_ok.prems]) (simp_all add: held_def)
next
  case (new_fail s)
  then show ?case
    by (intro pool_inv_same [OF new_fail.prems]) (simp_all add: held_def pool_release_def of_nat_diff)
next
  case (put c s now e cl p)
  have b: "mset (borrowed s) = add_mset c (mset (remove1 c (borrowed s)))" using put.hyps(1) by (rule mset_remove1_mem)
  let ?items = "(now, c) # idle (sys_pool s)"
  show ?case
  proof -
    consider "pclosed (sys_pool s)" | "\<not> pclosed (sys_pool s)" "int (length ?items) \<le> MaxIdle (sys_pool s)"
      | "\<not> pclosed (sys_pool s)" "\<not> int (length ?items) \<le> MaxIdle (sys_pool s)" by blast
    then show ?thesis
  proof cases
    case 1
    then have "cl = []" "p = sys_pool s" using put.hyps(2) by (simp_all add: pool_Put_def)
    with 1 b show ?thesis by (intro pool_inv_drop [OF put.prems, of c]) (simp_all add: held_def)
  next
    case 2
    then have "cl = []" "p = (sys_pool s)\<lparr>idle := ?items\<rparr>" using put.hyps(2) by (auto simp: pool_Put_def)
    with 2 b show ?thesis by (intro pool_inv_same [OF put.prems]) (simp_all add: held_def)
  next
    case False: 3
    define l where "l = snd (last ?items)"
    have "mset (map snd ?items) = add_mset l (mset (map snd (butlast ?items)))"
      unfolding l_def by (rule mset_last) simp
    moreover have "cl = [l]" "p = (sys_pool s)\<lparr>idle := butlast ?items, idleNum := idleNum (sys_pool s) - 1\<rparr>"
      using False put.hyps(2) by (auto simp: pool_Put_def Let_def l_def simp del: last.simps butlast.simps)
    moreover from calculation(1) have "mset (map snd (idle (sys_pool s))) + mset (borrowed s) =
        add_mset l (mset (map snd (butlast ?items)) + mset (remove1 c (borrowed s)))"
      by (subst b, intro mset_move) (simp del: butlast.simps)
    ultimately show ?thesis
      using False(1) by (intro pool_inv_drop [OF put.prems, of l]) (simp_all add: held_def del: butlast.simps)
  qed
  qed
next
  case (remove c s e cl p)
  then show ?case
    using mset_remove1_mem [OF remove.hyps(1)]
    by (intro pool_inv_drop [OF remove.prems, of c]) (auto simp: held_def pool_Remove_def split: if_splits)
next
  case (close s e cl p)
  then show ?case
    by (auto simp: pool_Close_def pool_inv_def live_def held_def Let_def split: if_splits)
qed

lemma pool_reach_inv: "pool_step\<^sup>*\<^sup>* s s' \<Longrightarrow> pool_inv n s \<Longrightarrow> pool_inv n s'"
  by (induction rule: rtranclp_induct) (auto intro: pool_step_inv)

subsection \<open>What one \<^verbatim>\<open>Get\<close> does\<close>

definition usable :: "(nat \<Rightarrow> nat \<Rightarrow> bool) option \<Rightarrow> nat \<times> nat \<Rightarrow> bool" where
  "usable test item = (case test of None \<Rightarrow> True | Some f \<Rightarrow> f (snd item) (fst item))"

lemma get_scan_spec:
  "get_scan test (length (idle p)) p =
     (let bad = takeWhile (\<lambda>i. \<not> usable test i) (idle p); rest = dropWhile (\<lambda>i. \<not> usable test i) (idle p) in
      (if rest = [] then None else Some (snd (hd rest)), map snd bad,
       p\<lparr>idle := tl rest, idleNum := idleNum p - int (length bad)\<rparr>))"
proof (induction "idle p" arbitrary: p)
  case Nil
  then show ?case by (simp flip: Nil)
next
  case (Cons i items)
  obtain t c where i: "i = (t, c)" by (cases i)
  have pop: "pool_pop p = Some (i, p\<lparr>idle := items\<rparr>)" by (simp add: pool_pop_def flip: Cons(2))
  show ?case
  proof (cases "usable test i")
    case True
    then show ?thesis
      by (simp add: pop Cons(2) [symmetric] i) (simp add: usable_def i split: option.splits)
  next
    case False
    have "get_scan test (length items) (pool_release (p\<lparr>idle := items\<rparr>)) =
        (let bad = takeWhile (\<lambda>i. \<not> usable test i) items; rest = dropWhile (\<lambda>i. \<not> usable test i) items in
         (if rest = [] then None else Some (snd (hd rest)), map snd bad,
          p\<lparr>idle := tl rest, idleNum := idleNum p - 1 - int (length bad)\<rparr>))"
      using Cons(1) [of "pool_release (p\<lparr>idle := items\<rparr>)"] by (simp add: pool_release_def)
    moreover have "(case test of None \<Rightarrow> True | Some f \<Rightarrow> f c t) = False"
      using False by (simp add: usable_def i split: option.splits)
    ultimately show ?thesis
      using False by (simp add: pop i Let_def Cons(2) [symmetric])
  qed
qed

subsection \<open>Properties\<close>

text \<open>
  \<^bold>\<open>C12\<close>. In every interleaving of \<^verbatim>\<open>Get\<close>, \<^verbatim>\<open>Put\<close>, \<^verbatim>\<open>Remove\<close> and \<^verbatim>\<open>Close\<close>: with a limit set, the
  connections that are idle, being tested, being made or borrowed never exceed \<^verbatim>\<open>MaxIdle\<close>; no
  connection is in two of these places, so none is borrowed twice; and no closed connection is in any.
\<close>

theorem pool_safe:
  assumes "pool_step\<^sup>*\<^sup>* (pool_start n) s" and "0 \<le> n"
  shows "(0 < n \<longrightarrow> live s \<le> n) \<and> distinct (held s) \<and> set (held s) \<inter> set (shut s) = {} \<and>
         (\<not> pclosed (sys_pool s) \<longrightarrow> pool_IdleNum (sys_pool s) = live s)"
  using pool_reach_inv [OF assms(1) pool_inv_start [OF assms(2)]] by (auto simp: pool_inv_def pool_IdleNum_def)

theorem pool_safe_witness:
  "\<exists>s. pool_step\<^sup>*\<^sup>* (pool_start 1) s \<and> borrowed s = [0] \<and> live s \<le> 1 \<and> distinct (held s)"
proof -
  let ?s1 = "(pool_start 1)\<lparr>sys_pool := pool_reserve (sys_pool (pool_start 1)), creating := 1\<rparr>"
  let ?s2 = "?s1\<lparr>creating := 0, borrowed := [0], next_conn := 1\<rparr>"
  have "pool_step (pool_start 1) ?s1"
    using pool_step.reserve [of "pool_start 1"] by (simp add: pool_start_def NewPool_def may_create_def)
  moreover have "pool_step ?s1 ?s2"
    using pool_step.new_ok [of ?s1] by (simp add: pool_start_def)
  ultimately have r: "pool_step\<^sup>*\<^sup>* (pool_start 1) ?s2" by simp
  from pool_safe [OF r] r show ?thesis by (intro exI [of _ ?s2]) simp
qed

text \<open>
  \<^bold>\<open>C13\<close>. What \<^verbatim>\<open>Get\<close> does: it closes the idle connections that fail their test from the front on
  and returns the first that passes; when none is left it fails on a closed pool, makes a
  connection below the limit (giving the place back when that fails), and waits otherwise.
\<close>

theorem pool_Get_correct:
  "pool_Get test newConn p =
     (let bad = takeWhile (\<lambda>i. \<not> usable test i) (idle p); rest = dropWhile (\<lambda>i. \<not> usable test i) (idle p);
          n = idleNum p - int (length bad); p1 = p\<lparr>idle := tl rest, idleNum := n\<rparr> in
      if rest \<noteq> [] then Some (Inr (snd (hd rest)), map snd bad, p1)
      else if pclosed p then Some (Inl errPoolClosed, map snd bad, p1)
      else if MaxIdle p = 0 \<or> n < MaxIdle p then
        Some (case newConn of None \<Rightarrow> (Inl NewError, map snd bad, p1)
                            | Some c \<Rightarrow> (Inr c, map snd bad, p1\<lparr>idleNum := n + 1\<rparr>))
      else None)"
  by (simp add: pool_Get_def get_scan_spec Let_def may_create_def pool_reserve_def pool_release_def split: option.split)

text \<open>
  \<^verbatim>\<open>Close\<close> closes no idle connection: it empties the list before it walks it.
\<close>

theorem pool_Close_leaks:
  assumes "\<not> pclosed p"
  shows "pool_Close p = (None, [], p\<lparr>pclosed := True, idle := []\<rparr>)"
  using assms by (simp add: pool_Close_def)

theorem pool_Close_leaks_witness:
  "pool_Close \<lparr>MaxIdle = 2, idleNum = 1, idle = [(0, 7)], pclosed = False\<rparr> =
     (None, [], \<lparr>MaxIdle = 2, idleNum = 1, idle = [], pclosed = True\<rparr>)"
  using pool_Close_leaks [of "\<lparr>MaxIdle = 2, idleNum = 1, idle = [(0, 7)], pclosed = False\<rparr>"] by simp

end
