(* ===== verification/Text_Util.thy ===== *)
theory Text_Util
  imports Prelude
begin

text \<open>
  \<^verbatim>\<open>src/utility/string.go\<close>, \<^verbatim>\<open>src/utility/byte.go\<close> and \<^verbatim>\<open>src/utility/array.go\<close>: wildcard
  matching of host names, conversion between snake case and camel case, and membership tests.
  The matcher is proved equal to a declarative matching relation; the two case conversions
  are proved inverse on well-formed snake-case names.
\<close>

subsection \<open>Wildcard matching\<close>

text \<open>
  \<^verbatim>\<open>deepMatchRune\<close>: the loop consumes pattern and text together; \<open>*\<close> branches. The final
  \<^verbatim>\<open>str = str[1:]\<close> of the loop body is a slice of an empty string when \<open>str\<close> is empty,
  which the \<open>?\<close> case reaches in simple mode.
\<close>

fun deepMatchRune :: "string \<Rightarrow> string \<Rightarrow> bool \<Rightarrow> bool outcome" where
  "deepMatchRune str [] simple = Inr (str = [])"
| "deepMatchRune str (p # ps) simple =
     (if p = CHR ''?'' then
        (if str = [] \<and> \<not> simple then Inr False
         else (case str of [] \<Rightarrow> Inl SliceBounds | _ # str' \<Rightarrow> deepMatchRune str' ps simple))
      else if p = CHR ''*'' then
        (case deepMatchRune str ps simple of
           Inl e \<Rightarrow> Inl e
         | Inr True \<Rightarrow> Inr True
         | Inr False \<Rightarrow>
             (case str of [] \<Rightarrow> Inr False | _ # str' \<Rightarrow> deepMatchRune str' (p # ps) simple))
      else
        (case str of
           [] \<Rightarrow> Inr False
         | c # str' \<Rightarrow> if c \<noteq> p then Inr False else deepMatchRune str' ps simple))"

definition WildcardMatch :: "string \<Rightarrow> string \<Rightarrow> bool outcome" where
  "WildcardMatch pattern name =
     (if pattern = '''' then Inr (name = pattern)
      else if pattern = ''*'' then Inr True
      else deepMatchRune name pattern False)"

definition WildcardMatchSimple :: "string \<Rightarrow> string \<Rightarrow> bool outcome" where
  "WildcardMatchSimple pattern name =
     (if pattern = '''' then Inr (name = pattern)
      else if pattern = ''*'' then Inr True
      else deepMatchRune name pattern True)"

text \<open>The specification: which texts a pattern stands for.\<close>

inductive wild_spec :: "string \<Rightarrow> string \<Rightarrow> bool" where
  wild_end: "wild_spec [] []"
| wild_one: "wild_spec ps cs \<Longrightarrow> wild_spec (CHR ''?'' # ps) (c # cs)"
| wild_many: "wild_spec ps cs \<Longrightarrow> wild_spec (CHR ''*'' # ps) (w @ cs)"
| wild_char: "wild_spec ps cs \<Longrightarrow> c \<noteq> CHR ''?'' \<Longrightarrow> c \<noteq> CHR ''*'' \<Longrightarrow> wild_spec (c # ps) (c # cs)"

inductive_simps wild_spec_Nil [simp]: "wild_spec [] cs"
inductive_simps wild_spec_Cons: "wild_spec (p # ps) cs"

lemma wild_spec_one [simp]:
  "wild_spec (CHR ''?'' # ps) cs \<longleftrightarrow> (\<exists>c cs'. cs = c # cs' \<and> wild_spec ps cs')"
  by (auto simp: wild_spec_Cons)

lemma wild_spec_char [simp]:
  "p \<noteq> CHR ''?'' \<Longrightarrow> p \<noteq> CHR ''*'' \<Longrightarrow>
   wild_spec (p # ps) cs \<longleftrightarrow> (\<exists>cs'. cs = p # cs' \<and> wild_spec ps cs')"
  by (auto simp: wild_spec_Cons)

lemma wild_spec_many_Nil: "wild_spec (CHR ''*'' # ps) [] \<longleftrightarrow> wild_spec ps []"
  by (auto simp: wild_spec_Cons)

lemma wild_spec_many_Cons:
  "wild_spec (CHR ''*'' # ps) (c # cs) \<longleftrightarrow>
     wild_spec ps (c # cs) \<or> wild_spec (CHR ''*'' # ps) cs"
proof
  assume "wild_spec (CHR ''*'' # ps) (c # cs)"
  then obtain w cs' where "c # cs = w @ cs'" and "wild_spec ps cs'"
    by (auto simp: wild_spec_Cons)
  then show "wild_spec ps (c # cs) \<or> wild_spec (CHR ''*'' # ps) cs"
    by (cases w) (auto intro: wild_many)
next
  assume "wild_spec ps (c # cs) \<or> wild_spec (CHR ''*'' # ps) cs"
  then show "wild_spec (CHR ''*'' # ps) (c # cs)"
  proof
    assume "wild_spec ps (c # cs)"
    then show ?thesis using wild_many [of ps "c # cs" "[]"] by simp
  next
    assume "wild_spec (CHR ''*'' # ps) cs"
    then obtain w cs' where cs: "cs = w @ cs'" and "wild_spec ps cs'"
      by (auto simp: wild_spec_Cons)
    then have "wild_spec (CHR ''*'' # ps) ((c # w) @ cs')"
      by (intro wild_many)
    with cs show ?thesis by simp
  qed
qed

lemma wild_spec_star: "wild_spec ''*'' cs"
  using wild_many [OF wild_end, of cs] by simp

lemma deepMatchRune_no_question:
  "\<not> simple \<or> CHR ''?'' \<notin> set ps \<Longrightarrow> deepMatchRune cs ps simple = Inr (wild_spec ps cs)"
proof (induction cs ps simple rule: deepMatchRune.induct)
  case (1 str simple)
  then show ?case by simp
next
  case (2 str p ps simple)
  consider "p = CHR ''?''" | "p = CHR ''*''" | "p \<noteq> CHR ''?''" "p \<noteq> CHR ''*''" by blast
  then show ?case
  proof cases
    case 1
    with 2 show ?thesis by (cases str) auto
  next
    case star: 2
    with 2 have IH: "deepMatchRune str ps simple = Inr (wild_spec ps str)" by simp
    show ?thesis
    proof (cases str)
      case Nil
      with star IH show ?thesis by (auto simp: wild_spec_many_Nil split: bool.splits)
    next
      case (Cons c cs)
      show ?thesis
      proof (cases "wild_spec ps str")
        case True
        with star IH Cons show ?thesis by (simp add: wild_spec_many_Cons)
      next
        case False
        with 2 star IH Cons have "deepMatchRune cs (p # ps) simple = Inr (wild_spec (p # ps) cs)"
          by auto
        with False star IH Cons show ?thesis by (simp add: wild_spec_many_Cons)
      qed
    qed
  next
    case 3
    with 2 show ?thesis by (cases str) auto
  qed
qed

lemma wild_spec_literal:
  "CHR ''?'' \<notin> set ps \<Longrightarrow> CHR ''*'' \<notin> set ps \<Longrightarrow> wild_spec ps cs \<longleftrightarrow> cs = ps"
proof (induction ps arbitrary: cs)
  case Nil
  then show ?case by simp
next
  case (Cons p ps)
  then have "p \<noteq> CHR ''?''" and "p \<noteq> CHR ''*''" by fastforce+
  with Cons show ?case by simp
qed

lemma deepMatchRune_literal_question:
  "CHR ''?'' \<notin> set ps \<Longrightarrow> CHR ''*'' \<notin> set ps \<Longrightarrow>
   deepMatchRune ps (ps @ ''?'') True = Inl SliceBounds"
proof (induction ps)
  case Nil
  then show ?case by simp
next
  case (Cons p ps)
  then have "p \<noteq> CHR ''?''" and "p \<noteq> CHR ''*''" by fastforce+
  with Cons show ?case by simp
qed

subsection \<open>Snake case and camel case\<close>

definition StringToBytes :: "string \<Rightarrow> string" where "StringToBytes s = s"
definition BytesToString :: "string \<Rightarrow> string" where "BytesToString b = b"

fun SnakeToUpperCamel_parts :: "string list \<Rightarrow> string" where
  "SnakeToUpperCamel_parts [] = []"
| "SnakeToUpperCamel_parts (v # vs) =
     (if length v > 0 then ToUpper (take 1 v) @ drop 1 v else []) @ SnakeToUpperCamel_parts vs"

definition SnakeToUpperCamel :: "string \<Rightarrow> string" where
  "SnakeToUpperCamel s = SnakeToUpperCamel_parts (split_on CHR ''_'' s)"

text \<open>The byte loop of \<^verbatim>\<open>SnakeString\<close>, with its flag \<open>j\<close>.\<close>

fun snake_loop :: "bool \<Rightarrow> string \<Rightarrow> string" where
  "snake_loop j [] = []"
| "snake_loop j (d # ds) =
     (if is_upper d then
        (if j then CHR ''_'' # d # snake_loop False ds else d # snake_loop j ds)
      else if d \<noteq> CHR ''_'' then d # snake_loop True ds
      else d # snake_loop j ds)"

definition SnakeString :: "string \<Rightarrow> string" where
  "SnakeString s = ToLower (BytesToString (snake_loop False (StringToBytes s)))"

text \<open>The byte loop of \<^verbatim>\<open>CamelString\<close>: \<open>j\<close> after a dropped underscore, \<open>k\<close> once a capital is out.\<close>

fun camel_loop :: "bool \<Rightarrow> bool \<Rightarrow> string \<Rightarrow> string" where
  "camel_loop j k [] = []"
| "camel_loop j k (d # ds) =
     (let k1 = (if k = False \<and> is_upper d then True else k);
          (d2, j2, k2) = (if is_lower d \<and> (j \<or> k1 = False) then (up_char d, False, True) else (d, j, k1))
      in if k2 \<and> d2 = CHR ''_'' \<and> ds \<noteq> [] \<and> is_lower (hd ds)
         then camel_loop True k2 ds
         else d2 # camel_loop j2 k2 ds)"

definition CamelString :: "string \<Rightarrow> string" where
  "CamelString s = camel_loop False False s"

text \<open>
  A word of a snake-case name: a lower-case letter followed by bytes that are neither capitals
  nor underscores. Words before the last one have at least two bytes.
\<close>

definition plain :: "string \<Rightarrow> bool" where
  "plain s = (\<forall>c \<in> set s. \<not> is_upper c \<and> c \<noteq> CHR ''_'')"

fun snake_word :: "string \<Rightarrow> bool" where
  "snake_word [] = False"
| "snake_word (c # cs) = (is_lower c \<and> plain cs)"

fun snake_words :: "string list \<Rightarrow> bool" where
  "snake_words [] = False"
| "snake_words [w] = snake_word w"
| "snake_words (w # v # ws) = (snake_word w \<and> 2 \<le> length w \<and> snake_words (v # ws))"

fun capitalize :: "string \<Rightarrow> string" where
  "capitalize [] = []"
| "capitalize (c # cs) = up_char c # cs"

lemma plain_Nil [simp]: "plain []"
  by (simp add: plain_def)

lemma plain_Cons [simp]: "plain (c # cs) \<longleftrightarrow> \<not> is_upper c \<and> c \<noteq> CHR ''_'' \<and> plain cs"
  by (auto simp: plain_def)

lemma underscore_case [simp]: "\<not> is_lower CHR ''_''" "\<not> is_upper CHR ''_''"
  by (simp_all add: is_lower_def is_upper_def)

lemma up_char_not_underscore: "is_lower c \<Longrightarrow> up_char c \<noteq> CHR ''_''"
  using up_char_upper [of c] by auto

lemma lower_not_underscore: "is_lower c \<Longrightarrow> CHR ''_'' \<noteq> c"
  using underscore_case(1) by metis

lemma camel_loop_plain: "plain xs \<Longrightarrow> camel_loop False True (xs @ ys) = xs @ camel_loop False True ys"
  by (induction xs) auto

lemma camel_loop_word:
  "is_lower c \<Longrightarrow> plain cs \<Longrightarrow> j \<or> \<not> k \<Longrightarrow>
   camel_loop j k ((c # cs) @ ys) = capitalize (c # cs) @ camel_loop False True ys"
  using not_lower_and_upper [of c] by (auto simp: camel_loop_plain up_char_not_underscore)

lemma camel_loop_join:
  "snake_words ws \<Longrightarrow> j \<or> \<not> k \<Longrightarrow>
   camel_loop j k (join_with ''_'' ws) = concat (map capitalize ws)"
proof (induction ws arbitrary: j k rule: snake_words.induct)
  case (2 w)
  then obtain c cs where "w = c # cs" by (cases w) auto
  with 2 show ?case using camel_loop_word [of c cs j k "[]"] by simp
next
  case (3 w v ws)
  then obtain c cs where w: "w = c # cs" by (cases w) auto
  from 3 have v: "snake_words (v # ws)" by simp
  then have hd: "join_with ''_'' (v # ws) \<noteq> [] \<and> is_lower (hd (join_with ''_'' (v # ws)))"
    by (cases ws; cases v) auto
  from 3 v have IH: "camel_loop True True (join_with ''_'' (v # ws)) = concat (map capitalize (v # ws))"
    by simp
  have "camel_loop False True (''_'' @ join_with ''_'' (v # ws)) = concat (map capitalize (v # ws))"
    using hd IH by simp
  then show ?case
    using 3 w camel_loop_word [of c cs j k "''_'' @ join_with ''_'' (v # ws)"] by simp
qed simp

lemma snake_loop_plain: "plain xs \<Longrightarrow> xs \<noteq> [] \<Longrightarrow> snake_loop j (xs @ ys) = xs @ snake_loop True ys"
proof (induction xs arbitrary: j)
  case Nil
  then show ?case by simp
next
  case (Cons x xs)
  then show ?case by (cases xs) auto
qed

lemma snake_loop_capital:
  "is_lower c \<Longrightarrow> plain cs \<Longrightarrow>
   ToLower (snake_loop j (up_char c # cs)) = (if j then ''_'' else []) @ c # cs"
proof -
  assume c: "is_lower c" and cs: "plain cs"
  have "snake_loop False cs = cs"
    using cs snake_loop_plain [of cs False "[]"] by (cases cs) auto
  moreover have "ToLower cs = cs"
    using cs by (intro ToLower_id) (auto simp: plain_def)
  moreover have "low_char CHR ''_'' = CHR ''_''"
    by (simp add: low_char_id)
  ultimately show ?thesis using c by (simp add: up_char_upper low_up_char)
qed

lemma snake_loop_words:
  "snake_words ws \<Longrightarrow>
   ToLower (snake_loop j (concat (map capitalize ws))) = (if j then ''_'' else []) @ join_with ''_'' ws"
proof (induction ws arbitrary: j rule: snake_words.induct)
  case (2 w)
  then obtain c cs where "w = c # cs" by (cases w) auto
  with 2 show ?case using snake_loop_capital [of c cs j] by simp
next
  case (3 w v ws)
  then obtain c cs where w: "w = c # cs" and c: "is_lower c" and cs: "plain cs" "1 \<le> length cs"
    by (cases w) auto
  then have ne: "cs \<noteq> []" by auto
  let ?rest = "concat (map capitalize (v # ws))"
  have "ToLower cs = cs"
    using cs(1) by (intro ToLower_id) (auto simp: plain_def)
  moreover have "low_char CHR ''_'' = CHR ''_''"
    by (simp add: low_char_id)
  moreover have "ToLower (snake_loop True ?rest) = ''_'' @ join_with ''_'' (v # ws)"
    using 3 by auto
  ultimately show ?case
    using w c snake_loop_plain [OF cs(1) ne, of False ?rest] by (simp add: up_char_upper low_up_char)
qed simp

lemma camel_of_words: "snake_words ws \<Longrightarrow> CamelString (join_with ''_'' ws) = concat (map capitalize ws)"
  by (simp add: CamelString_def camel_loop_join)

lemma snake_words_no_underscore: "snake_words ws \<Longrightarrow> \<forall>w \<in> set ws. CHR ''_'' \<notin> set w \<and> w \<noteq> []"
proof (induction ws rule: snake_words.induct)
  case (2 w)
  then show ?case by (cases w) (simp_all add: plain_def lower_not_underscore, blast)
next
  case (3 w v ws)
  then show ?case by (cases w) (simp_all add: plain_def lower_not_underscore, blast)
qed simp

lemma SnakeToUpperCamel_parts_eq:
  "\<forall>w \<in> set ws. w \<noteq> [] \<Longrightarrow> SnakeToUpperCamel_parts ws = concat (map capitalize ws)"
proof (induction ws)
  case Nil
  then show ?case by simp
next
  case (Cons w ws)
  then show ?case by (cases w) auto
qed

lemma upper_camel_of_words:
  "snake_words ws \<Longrightarrow> SnakeToUpperCamel (join_with ''_'' ws) = concat (map capitalize ws)"
  using snake_words_no_underscore [of ws]
  by (cases "ws = []") (simp_all add: SnakeToUpperCamel_def split_on_join SnakeToUpperCamel_parts_eq
      del: SnakeToUpperCamel_parts.simps)

lemma snake_loop_no_upper: "\<forall>c \<in> set (SnakeString s). \<not> is_upper c"
  by (auto simp: SnakeString_def ToLower_def)

subsection \<open>Membership\<close>

text \<open>
  \<^verbatim>\<open>InArrayString\<close> returns a pointer to the index, nil when there is none. The optional
  argument \<^verbatim>\<open>caseSensitives\<close> is the list of the variadic arguments.
\<close>

fun in_array_from :: "nat \<Rightarrow> string \<Rightarrow> string list \<Rightarrow> bool \<Rightarrow> nat option" where
  "in_array_from i needle [] caseSensitive = None"
| "in_array_from i needle (v # vs) caseSensitive =
     (if (if caseSensitive then needle = v else ToLower needle = ToLower v) then Some i
      else in_array_from (Suc i) needle vs caseSensitive)"

definition InArrayString :: "string \<Rightarrow> string list \<Rightarrow> bool list \<Rightarrow> nat option" where
  "InArrayString needle haystack caseSensitives =
     in_array_from 0 needle haystack (case caseSensitives of [] \<Rightarrow> True | b # _ \<Rightarrow> b)"

fun InMapString :: "string \<Rightarrow> (string \<times> string) list \<Rightarrow> bool" where
  "InMapString needle [] = False"
| "InMapString needle ((k, v) # m) = (if needle = v then True else InMapString needle m)"

lemma in_array_from_None:
  "in_array_from i x vs False = None \<longleftrightarrow> ToLower x \<notin> ToLower ` set vs"
  by (induction vs arbitrary: i) auto

lemma in_array_from_Some:
  "in_array_from i x vs False = Some j \<Longrightarrow>
   i \<le> j \<and> j - i < length vs \<and> ToLower (vs ! (j - i)) = ToLower x \<and>
   (\<forall>k < j - i. ToLower (vs ! k) \<noteq> ToLower x)"
proof (induction vs arbitrary: i)
  case Nil
  then show ?case by simp
next
  case (Cons v vs)
  show ?case
  proof (cases "ToLower x = ToLower v")
    case True
    with Cons.prems show ?thesis by simp
  next
    case False
    with Cons have "Suc i \<le> j \<and> j - Suc i < length vs \<and> ToLower (vs ! (j - Suc i)) = ToLower x \<and>
      (\<forall>k < j - Suc i. ToLower (vs ! k) \<noteq> ToLower x)" by simp
    moreover from this have "j - i = Suc (j - Suc i)" by linarith
    ultimately show ?thesis
      using False by (auto simp: nth_Cons split: nat.splits)
  qed
qed

lemma InArrayString_None:
  "InArrayString x vs [False] = None \<longleftrightarrow> ToLower x \<notin> ToLower ` set vs"
  by (simp add: InArrayString_def in_array_from_None)

lemma InArrayString_Some:
  "InArrayString x vs [False] = Some j \<Longrightarrow> j < length vs \<and> ToLower (vs ! j) = ToLower x"
  using in_array_from_Some [of 0 x vs j] by (simp add: InArrayString_def)

lemma InMapString_iff: "InMapString x m \<longleftrightarrow> x \<in> snd ` set m"
  by (induction x m rule: InMapString.induct) auto

subsection \<open>Properties\<close>

text \<open>
  \<^bold>\<open>C4\<close>. \<^verbatim>\<open>WildcardMatch\<close> returns, without a panic, exactly whether the text is one the pattern
  stands for: \<open>?\<close> one byte, \<open>*\<close> any bytes, every other byte itself.
\<close>

theorem WildcardMatch_correct: "WildcardMatch pattern name = Inr (wild_spec pattern name)"
  by (auto simp: WildcardMatch_def deepMatchRune_no_question wild_spec_star)

text \<open>
  \<^verbatim>\<open>WildcardMatchSimple\<close>, documented to know only \<open>*\<close>, treats \<open>?\<close> as one byte too and
  panics when the text ends there: a literal followed by \<open>?\<close> against the literal itself.
\<close>

theorem WildcardMatchSimple_panics:
  assumes "CHR ''?'' \<notin> set ps" and "CHR ''*'' \<notin> set ps"
  shows "WildcardMatchSimple (ps @ ''?'') ps = Inl SliceBounds"
  using assms deepMatchRune_literal_question [OF assms] by (auto simp: WildcardMatchSimple_def)

theorem WildcardMatchSimple_panics_witness: "WildcardMatchSimple ''ab?'' ''ab'' = Inl SliceBounds"
  using WildcardMatchSimple_panics [of "''ab''"] by simp



end
