(* ===== verification/Registry.thy ===== *)
theory Registry
  imports Text_Util
begin

text \<open>
  \<^verbatim>\<open>src/component.go\<close>, \<^verbatim>\<open>src/registry.go\<close> and \<^verbatim>\<open>src/middleware.go\<close>: the registry of components,
  middlewares and values, and the dependency sort. A component is its record; the Go value behind
  it is a number. What reflection finds in such a value (the fields tagged for injection) is an
  argument of the definitions that use it. Middlewares go through the same operations, so they
  share the model of the named list that the two halves of the registry have in common.
\<close>

datatype ComponentState =
  COMPONENT_STATE_INIT | COMPONENT_STATE_PREPARED | COMPONENT_STATE_INITIATED
| COMPONENT_STATE_STARTUP | COMPONENT_STATE_SHUTDOWN

record Component =
  Name :: string
  Impl :: nat
  ConfigurePath :: string
  Dependencies :: "string list"

record Middleware =
  mw_Name :: string
  mw_Impl :: nat

record Registry =
  Components :: "Component list"
  ComponentMap :: "string \<Rightarrow> Component option"
  SortedComponentName :: "string list"
  Middlewares :: "Middleware list"
  MiddlewareMap :: "string \<Rightarrow> Middleware option"
  SortedMiddlewareName :: "string list"
  Values :: "string \<Rightarrow> nat option"
  ComponentStates :: "string \<Rightarrow> ComponentState option"

definition NewRegistry :: Registry where
  "NewRegistry =
     \<lparr>Components = [], ComponentMap = Map.empty, SortedComponentName = [], Middlewares = [],
      MiddlewareMap = Map.empty, SortedMiddlewareName = [], Values = Map.empty, ComponentStates = Map.empty\<rparr>"

datatype reg_error =
  errComponentExists string | errComponentNotExists string
| errMiddlewareExists string | errMiddlewareNotExists string
| errValueExists string | errValueNotExists string
| errInject string

text \<open>\<^verbatim>\<open>canonicalName\<close>: \<^verbatim>\<open>name[0:1]\<close> panics on the empty name.\<close>

definition canonicalName :: "string \<Rightarrow> string outcome" where
  "canonicalName name =
     (case slice name 0 1 of Inl p \<Rightarrow> Inl p | Inr first \<Rightarrow> Inr (ToUpper first @ drop 1 name))"

definition canon :: "string \<Rightarrow> string" where
  "canon name = ToUpper (take 1 name) @ drop 1 name"

lemma canonicalName_ok: "name \<noteq> [] \<Longrightarrow> canonicalName name = Inr (canon name)"
  by (cases name) (auto simp: canonicalName_def canon_def slice_def)

lemma canonicalName_empty: "canonicalName [] = Inl SliceBounds"
  by (simp add: canonicalName_def slice_def)

lemma canon_not_Nil [simp]: "canon n \<noteq> [] \<longleftrightarrow> n \<noteq> []"
  by (cases n) (auto simp: canon_def ToUpper_def)

lemma canon_idem [simp]: "canon (canon n) = canon n"
  by (cases n) (auto simp: canon_def ToUpper_def)

subsection \<open>Removal while ranging\<close>

text \<open>
  \<^verbatim>\<open>for i, x := range s { if match { s = append(s[:i], s[i+1:]...) } }\<close>: the loop runs over the
  original length and reads the shared backing array, which the append shifts; \<^verbatim>\<open>s\<close> itself is
  the first \<open>len\<close> elements. Slicing from beyond \<open>len\<close> panics.
\<close>

function range_remove :: "('a \<Rightarrow> bool) \<Rightarrow> 'a list \<Rightarrow> nat \<Rightarrow> nat \<Rightarrow> 'a list outcome" where
  "range_remove match arr len i =
     (if length arr \<le> i then Inr (take len arr)
      else if match (arr ! i) then
        (if len < i + 1 then Inl SliceBounds
         else range_remove match (take i arr @ drop (i + 1) (take len arr) @ drop (len - 1) arr) (len - 1) (i + 1))
      else range_remove match arr len (i + 1))"
  by pat_completeness auto
termination
  by (relation "measure (\<lambda>(m, arr, len, i). length arr - i)") (auto simp: min_def)

declare range_remove.simps [simp del]

definition remove_all_range :: "('a \<Rightarrow> bool) \<Rightarrow> 'a list \<Rightarrow> 'a list outcome" where
  "remove_all_range match s = range_remove match s (length s) 0"

lemma range_remove_none:
  assumes "\<forall>j < length arr. i \<le> j \<longrightarrow> \<not> match (arr ! j)"
  shows "range_remove match arr len i = Inr (take len arr)"
  using assms
proof (induction match arr len i rule: range_remove.induct)
  case (1 match arr len i)
  then show ?case by (subst range_remove.simps) auto
qed

lemma range_remove_subset:
  assumes "range_remove match arr len i = Inr xs"
  shows "set xs \<subseteq> set arr"
  using assms
proof (induction match arr len i rule: range_remove.induct)
  case (1 match arr len i)
  let ?arr = "take i arr @ drop (i + 1) (take len arr) @ drop (len - 1) arr"
  have "set ?arr \<subseteq> set arr" by (auto dest!: in_set_takeD in_set_dropD)
  with 1 show ?case by (subst (asm) range_remove.simps) (auto split: if_splits dest: in_set_takeD)
qed

lemma remove_all_range_subset: "remove_all_range match s = Inr xs \<Longrightarrow> set xs \<subseteq> set s"
  unfolding remove_all_range_def by (rule range_remove_subset)

lemma range_remove_skip:
  assumes "\<forall>j < k. i \<le> j \<longrightarrow> \<not> match (arr ! j)" and "i \<le> k" and "k \<le> length arr"
  shows "range_remove match arr len i = range_remove match arr len k"
  using assms
proof (induction "k - i" arbitrary: i)
  case 0
  then show ?case by simp
next
  case (Suc d)
  then have "\<not> length arr \<le> i" "\<not> match (arr ! i)" by auto
  then have "range_remove match arr len i = range_remove match arr len (i + 1)"
    by (subst range_remove.simps) simp
  also have "\<dots> = range_remove match arr len k" using Suc by (intro Suc.hyps) auto
  finally show ?case .
qed

text \<open>With at most one match the loop removes it.\<close>

lemma remove_all_range_one:
  assumes "match x" and "\<forall>y \<in> set xs \<union> set ys. \<not> match y"
  shows "remove_all_range match (xs @ x # ys) = Inr (xs @ ys)"
proof -
  let ?s = "xs @ x # ys" and ?i = "length xs"
  have "range_remove match ?s (length ?s) 0 = range_remove match ?s (length ?s) ?i"
    using assms(2) by (intro range_remove_skip) (auto simp: nth_append)
  also have "\<dots> = range_remove match (take ?i ?s @ drop (?i + 1) (take (length ?s) ?s) @ drop (length ?s - 1) ?s)
      (length ?s - 1) (?i + 1)"
    using assms(1) by (subst range_remove.simps) simp
  also have "take ?i ?s @ drop (?i + 1) (take (length ?s) ?s) @ drop (length ?s - 1) ?s = xs @ ys @ drop (length xs + length ys) ?s"
    by simp
  also have "range_remove match \<dots> (length ?s - 1) (?i + 1) = Inr (take (length ?s - 1) (xs @ ys @ drop (length xs + length ys) ?s))"
  proof (intro range_remove_none allI impI)
    fix j assume j: "j < length (xs @ ys @ drop (length xs + length ys) ?s)" "?i + 1 \<le> j"
    let ?arr = "xs @ ys @ drop (length xs + length ys) ?s"
    have "?arr ! j \<in> set xs \<union> set ys"
    proof (cases "j < length xs + length ys")
      case True
      then have "?arr ! j = (xs @ ys) ! j" by (metis append.assoc length_append nth_append)
      then show ?thesis using True by (metis length_append nth_mem set_append)
    next
      case False
      then have "ys \<noteq> []" and "j = length xs + length ys" using j by auto
      then have "?arr ! j = last ys" by (cases ys rule: rev_cases) (auto simp: nth_append)
      then show ?thesis using \<open>ys \<noteq> []\<close> by simp
    qed
    then show "\<not> match (?arr ! j)" using assms(2) by blast
  qed
  finally show ?thesis by (simp add: remove_all_range_def)
qed

lemma remove_all_range_absent: "\<forall>y \<in> set xs. \<not> match y \<Longrightarrow> remove_all_range match xs = Inr xs"
  unfolding remove_all_range_def by (subst range_remove_none) auto

lemma remove_all_range_distinct:
  assumes "distinct xs"
  shows "remove_all_range (\<lambda>y. y = x) xs = Inr (remove1 x xs)"
proof (cases "x \<in> set xs")
  case True
  then obtain as bs where "xs = as @ x # bs" "x \<notin> set as" by (metis split_list_first)
  with assms show ?thesis
    using remove_all_range_one [of "\<lambda>y. y = x" x as bs] by (auto simp: remove1_append)
next
  case False
  then show ?thesis
    using remove_all_range_absent [of xs "\<lambda>y. y = x"] by (auto simp: remove1_idem)
qed

subsection \<open>Components\<close>

fun Components_Get :: "Component list \<Rightarrow> string \<Rightarrow> Component option outcome" where
  "Components_Get [] name = Inr None"
| "Components_Get (c # cs) name =
     (case canonicalName name of
        Inl p \<Rightarrow> Inl p
      | Inr cn \<Rightarrow> if cn = Name c then Inr (Some c) else Components_Get cs name)"

definition unregister_one :: "string \<Rightarrow> Registry \<Rightarrow> Registry outcome" where
  "unregister_one componentName r =
     (case canonicalName componentName of
        Inl p \<Rightarrow> Inl p
      | Inr cn \<Rightarrow>
          (case remove_all_range (\<lambda>n. cn = n) (SortedComponentName r) of
             Inl p \<Rightarrow> Inl p
           | Inr names \<Rightarrow>
               (case remove_all_range (\<lambda>c. cn = Name c) (Components r) of
                  Inl p \<Rightarrow> Inl p
                | Inr cs \<Rightarrow> Inr (r\<lparr>ComponentMap := (ComponentMap r)(cn := None),
                                  SortedComponentName := names, Components := cs\<rparr>))))"

primrec UnregisterComponent :: "string list \<Rightarrow> Registry \<Rightarrow> Registry outcome" where
  "UnregisterComponent [] r = Inr r"
| "UnregisterComponent (n # ns) r =
     (case unregister_one n r of Inl p \<Rightarrow> Inl p | Inr r' \<Rightarrow> UnregisterComponent ns r')"

definition RegisterComponent :: "Component \<Rightarrow> bool list \<Rightarrow> Registry \<Rightarrow> (reg_error option \<times> Registry) outcome" where
  "RegisterComponent component ignoreIfExistses r =
     (let r1 = (if ComponentStates r (Name component) = None
                then r\<lparr>ComponentStates := (ComponentStates r)(Name component \<mapsto> COMPONENT_STATE_INIT)\<rparr> else r)
      in case canonicalName (Name component) of
           Inl p \<Rightarrow> Inl p
         | Inr cn \<Rightarrow>
             (let ignoreIfExists = (case ignoreIfExistses of [] \<Rightarrow> False | b # _ \<Rightarrow> b);
                  add = (\<lambda>r2. r2\<lparr>SortedComponentName := SortedComponentName r2 @ [cn],
                                 Components := Components r2 @ [component],
                                 ComponentMap := (ComponentMap r2)(cn \<mapsto> component)\<rparr>)
              in if ComponentMap r1 cn \<noteq> None then
                   (if \<not> ignoreIfExists then Inr (Some (errComponentExists cn), r1)
                    else (case UnregisterComponent [cn] r1 of
                            Inl p \<Rightarrow> Inl p
                          | Inr r2 \<Rightarrow> Inr (None, add r2)))
                 else Inr (None, add r1)))"

definition GetComponentByName :: "string \<Rightarrow> Registry \<Rightarrow> (reg_error + Component) outcome" where
  "GetComponentByName name r =
     (case canonicalName name of
        Inl p \<Rightarrow> Inl p
      | Inr cn \<Rightarrow>
          (case ComponentMap r cn of None \<Rightarrow> Inr (Inl (errComponentNotExists cn)) | Some c \<Rightarrow> Inr (Inr c)))"

definition GetSortedComponentName :: "Registry \<Rightarrow> string list" where
  "GetSortedComponentName r = SortedComponentName r"

definition GetComponentMap :: "Registry \<Rightarrow> string \<Rightarrow> Component option" where
  "GetComponentMap r = ComponentMap r"

text \<open>
  The filling loop of \<^verbatim>\<open>GetSortedComponents\<close>: the slice is made with one nil per registered
  component; writing past its end panics.
\<close>

fun fill_sorted :: "(string \<Rightarrow> 'c option) \<Rightarrow> string list \<Rightarrow> 'c option list \<Rightarrow> nat \<Rightarrow> 'c option list outcome" where
  "fill_sorted m [] cs index = Inr cs"
| "fill_sorted m (n # ns) cs index =
     (case m n of
        Some c \<Rightarrow>
          if index < length cs then fill_sorted m ns (cs[index := Some c]) (index + 1) else Inl IndexOutOfRange
      | None \<Rightarrow> fill_sorted m ns cs index)"

definition GetSortedComponents :: "bool list \<Rightarrow> Registry \<Rightarrow> Component option list outcome" where
  "GetSortedComponents reverses r =
     (let components = replicate (length (Components r)) None in
      if length (SortedComponentName r) > 0 then
        (if (case reverses of [] \<Rightarrow> False | b # _ \<Rightarrow> b)
         then fill_sorted (ComponentMap r) (rev (SortedComponentName r)) components 0
         else fill_sorted (ComponentMap r) (SortedComponentName r) components 0)
      else Inr components)"

subsection \<open>Values\<close>

definition RegisterValue :: "string \<Rightarrow> nat \<Rightarrow> bool list \<Rightarrow> Registry \<Rightarrow> (reg_error option \<times> Registry) outcome" where
  "RegisterValue key v forceOverwrites r =
     (case canonicalName key of
        Inl p \<Rightarrow> Inl p
      | Inr cn \<Rightarrow>
          if Values r cn \<noteq> None \<and> \<not> (case forceOverwrites of [] \<Rightarrow> False | b # _ \<Rightarrow> b)
          then Inr (Some (errValueExists cn), r)
          else Inr (None, r\<lparr>Values := (Values r)(cn \<mapsto> v)\<rparr>))"

primrec UnregisterValue :: "string list \<Rightarrow> Registry \<Rightarrow> (reg_error option \<times> Registry) outcome" where
  "UnregisterValue [] r = Inr (None, r)"
| "UnregisterValue (key # keys) r =
     (case canonicalName key of
        Inl p \<Rightarrow> Inl p
      | Inr cn \<Rightarrow>
          if Values r cn = None then Inr (Some (errValueNotExists cn), r)
          else UnregisterValue keys (r\<lparr>Values := (Values r)(cn := None)\<rparr>))"

definition GetValue :: "string \<Rightarrow> Registry \<Rightarrow> (reg_error + nat) outcome" where
  "GetValue key r =
     (case canonicalName key of
        Inl p \<Rightarrow> Inl p
      | Inr cn \<Rightarrow> (case Values r cn of None \<Rightarrow> Inr (Inl (errValueNotExists cn)) | Some v \<Rightarrow> Inr (Inr v)))"

definition GetValues :: "Registry \<Rightarrow> string \<Rightarrow> nat option" where
  "GetValues r = Values r"

subsection \<open>Middlewares\<close>

fun Middlewares_Get :: "Middleware list \<Rightarrow> string \<Rightarrow> Middleware option outcome" where
  "Middlewares_Get [] name = Inr None"
| "Middlewares_Get (c # cs) name =
     (case canonicalName name of
        Inl p \<Rightarrow> Inl p
      | Inr cn \<Rightarrow> if cn = mw_Name c then Inr (Some c) else Middlewares_Get cs name)"

primrec UnregisterMiddleware :: "string list \<Rightarrow> Registry \<Rightarrow> (reg_error option \<times> Registry) outcome" where
  "UnregisterMiddleware [] r = Inr (None, r)"
| "UnregisterMiddleware (n # ns) r =
     (case canonicalName n of
        Inl p \<Rightarrow> Inl p
      | Inr cn \<Rightarrow>
          if MiddlewareMap r cn = None then Inr (Some (errMiddlewareNotExists cn), r)
          else (case remove_all_range (\<lambda>m. cn = m) (SortedMiddlewareName r) of
                  Inl p \<Rightarrow> Inl p
                | Inr names \<Rightarrow>
                    (case remove_all_range (\<lambda>m. cn = mw_Name m) (Middlewares r) of
                       Inl p \<Rightarrow> Inl p
                     | Inr ms \<Rightarrow>
                         UnregisterMiddleware ns
                           (r\<lparr>SortedMiddlewareName := names, Middlewares := ms,
                              MiddlewareMap := (MiddlewareMap r)(cn := None)\<rparr>))))"

definition RegisterMiddleware :: "Middleware \<Rightarrow> bool list \<Rightarrow> Registry \<Rightarrow> (reg_error option \<times> Registry) outcome" where
  "RegisterMiddleware mw ignoreIfExistses r =
     (case canonicalName (mw_Name mw) of
        Inl p \<Rightarrow> Inl p
      | Inr cn \<Rightarrow>
          (let ignoreIfExists = (case ignoreIfExistses of [] \<Rightarrow> False | b # _ \<Rightarrow> b);
               add = (\<lambda>r2. r2\<lparr>Middlewares := Middlewares r2 @ [mw],
                              MiddlewareMap := (MiddlewareMap r2)(cn \<mapsto> mw),
                              SortedMiddlewareName := SortedMiddlewareName r2 @ [cn]\<rparr>)
           in if MiddlewareMap r cn \<noteq> None then
                (if \<not> ignoreIfExists then Inr (Some (errMiddlewareExists cn), r)
                 else (case UnregisterMiddleware [cn] r of
                         Inl p \<Rightarrow> Inl p
                       | Inr (Some e, r2) \<Rightarrow> Inr (Some e, r2)
                       | Inr (None, r2) \<Rightarrow> Inr (None, add r2)))
              else Inr (None, add r)))"

definition GetMiddlewareByName :: "string \<Rightarrow> Registry \<Rightarrow> (reg_error + Middleware) outcome" where
  "GetMiddlewareByName name r =
     (case canonicalName name of
        Inl p \<Rightarrow> Inl p
      | Inr cn \<Rightarrow>
          (case MiddlewareMap r cn of None \<Rightarrow> Inr (Inl (errMiddlewareNotExists cn)) | Some c \<Rightarrow> Inr (Inr c)))"

definition GetMiddlewareMap :: "Registry \<Rightarrow> string \<Rightarrow> Middleware option" where
  "GetMiddlewareMap r = MiddlewareMap r"

definition GetSortedMiddlewares :: "bool list \<Rightarrow> Registry \<Rightarrow> Middleware option list outcome" where
  "GetSortedMiddlewares reverses r =
     (let middlewares = replicate (length (Middlewares r)) None in
      if length (SortedMiddlewareName r) > 0 then
        (if (case reverses of [] \<Rightarrow> False | b # _ \<Rightarrow> b)
         then fill_sorted (MiddlewareMap r) (rev (SortedMiddlewareName r)) middlewares 0
         else fill_sorted (MiddlewareMap r) (SortedMiddlewareName r) middlewares 0)
      else Inr middlewares)"

definition GetSortedMiddlewareName :: "Registry \<Rightarrow> string list" where
  "GetSortedMiddlewareName r = SortedMiddlewareName r"

lemma fill_sorted_all:
  assumes "\<forall>n \<in> set ns. m n \<noteq> None" and "index + length ns \<le> length cs"
  shows "fill_sorted m ns cs index = Inr (take index cs @ map m ns @ drop (index + length ns) cs)"
  using assms
proof (induction ns arbitrary: cs index)
  case Nil
  then show ?case by simp
next
  case (Cons n ns)
  then obtain c where c: "m n = Some c" by auto
  have "index < length cs" using Cons.prems by simp
  then have "take (index + 1) (cs[index := Some c]) = take index cs @ [Some c]"
    by (simp add: take_Suc_conv_app_nth)
  with Cons c show ?case by simp
qed

lemma map_of_key_snoc:
  "nm c \<notin> nm ` set cs \<Longrightarrow>
   map_of (map (\<lambda>c. (nm c, c)) (cs @ [c])) = (map_of (map (\<lambda>c. (nm c, c)) cs))(nm c \<mapsto> c)"
  by (induction cs) (auto simp: fun_upd_twist)

lemma map_of_key_skip:
  "nm d \<noteq> a \<Longrightarrow> map_of (map (\<lambda>c. (nm c, c)) (cs @ d # ds)) a = map_of (map (\<lambda>c. (nm c, c)) (cs @ ds)) a"
  by (induction cs) auto

lemma map_of_key_replace:
  "nm d = nm c \<Longrightarrow>
   (map_of (map (\<lambda>c. (nm c, c)) (cs @ d # ds)))(nm c \<mapsto> c) = (map_of (map (\<lambda>c. (nm c, c)) (cs @ ds)))(nm c \<mapsto> c)"
proof
  fix a assume "nm d = nm c"
  then show "((map_of (map (\<lambda>c. (nm c, c)) (cs @ d # ds)))(nm c \<mapsto> c)) a = ((map_of (map (\<lambda>c. (nm c, c)) (cs @ ds)))(nm c \<mapsto> c)) a"
    using map_of_key_skip [of nm d a cs ds] by (cases "a = nm c") (simp_all del: map_append)
qed

subsection \<open>The contract of a named, ordered registry\<close>

text \<open>
  Components and middlewares are kept in the same way: a list of the objects, a list of their
  canonical names in registration order, and a map. The locale states what registering does to
  the three, and proves once that they agree.
\<close>

definition first_flag :: "bool list \<Rightarrow> bool" where
  "first_flag bs = (case bs of [] \<Rightarrow> False | b # _ \<Rightarrow> b)"

locale named_registry =
  fixes nm :: "'c \<Rightarrow> string"
    and objects :: "'r \<Rightarrow> 'c list"
    and table :: "'r \<Rightarrow> string \<Rightarrow> 'c option"
    and names :: "'r \<Rightarrow> string list"
    and register :: "'c \<Rightarrow> bool list \<Rightarrow> 'r \<Rightarrow> (reg_error option \<times> 'r) outcome"
    and sorted_objects :: "bool list \<Rightarrow> 'r \<Rightarrow> 'c option list outcome"
  assumes register_new: "nm c \<noteq> [] \<Longrightarrow> table r (canon (nm c)) = None \<Longrightarrow>
        \<exists>r'. register c ig r = Inr (None, r') \<and> objects r' = objects r @ [c] \<and>
             names r' = names r @ [canon (nm c)] \<and> table r' = (table r)(canon (nm c) \<mapsto> c)"
    and register_exists: "nm c \<noteq> [] \<Longrightarrow> table r (canon (nm c)) \<noteq> None \<Longrightarrow> \<not> first_flag ig \<Longrightarrow>
        \<exists>e r'. register c ig r = Inr (Some e, r') \<and> objects r' = objects r \<and> names r' = names r \<and> table r' = table r"
    and register_replace: "nm c \<noteq> [] \<Longrightarrow> table r (canon (nm c)) \<noteq> None \<Longrightarrow> first_flag ig \<Longrightarrow>
        remove_all_range (\<lambda>n. canon (nm c) = n) (names r) = Inr ns \<Longrightarrow>
        remove_all_range (\<lambda>d. canon (nm c) = nm d) (objects r) = Inr cs \<Longrightarrow>
        \<exists>r'. register c ig r = Inr (None, r') \<and> objects r' = cs @ [c] \<and>
             names r' = ns @ [canon (nm c)] \<and> table r' = (table r)(canon (nm c) \<mapsto> c)"
    and sorted_eq: "sorted_objects rv r =
        (let cs = replicate (length (objects r)) None in
         if length (names r) > 0 then
           fill_sorted (table r) (if first_flag rv then rev (names r) else names r) cs 0
         else Inr cs)"
begin

definition wf :: "'r \<Rightarrow> bool" where
  "wf r = (names r = map nm (objects r) \<and> distinct (names r) \<and>
           (\<forall>n \<in> set (names r). n \<noteq> [] \<and> canon n = n) \<and> table r = map_of (map (\<lambda>c. (nm c, c)) (objects r)))"

lemma wf_table: "wf r \<Longrightarrow> table r n = None \<longleftrightarrow> n \<notin> set (names r)"
  by (simp add: wf_def map_of_eq_None_iff image_image)

lemma wf_table_Some: "wf r \<Longrightarrow> c \<in> set (objects r) \<Longrightarrow> table r (nm c) = Some c"
  by (auto simp: wf_def distinct_map intro!: map_of_is_SomeI inj_onI simp: comp_def inj_on_def)

text \<open>Registering keeps the three views in step; the object replaces one of its name, at the end.\<close>

lemma wf_register:
  assumes wf: "wf r" and c: "nm c \<noteq> []" "canon (nm c) = nm c"
  shows "\<exists>e r'. register c ig r = Inr (e, r') \<and> wf r' \<and>
           (if nm c \<in> set (names r) \<and> \<not> first_flag ig then e \<noteq> None \<and> objects r' = objects r
            else e = None \<and> objects r' = filter (\<lambda>d. nm d \<noteq> nm c) (objects r) @ [c])"
proof (cases "nm c \<in> set (names r)")
  case False
  then have "table r (canon (nm c)) = None" using wf_table [OF wf] c by simp
  from register_new [OF c(1) this, of ig] c False wf obtain r' where
    "register c ig r = Inr (None, r')" "objects r' = objects r @ [c]" "names r' = names r @ [nm c]"
    "table r' = (table r)(nm c \<mapsto> c)" by auto
  moreover have "filter (\<lambda>d. nm d \<noteq> nm c) (objects r) = objects r"
    using False wf by (auto simp: wf_def filter_id_conv) (metis image_eqI)
  moreover have "map_of (map (\<lambda>c. (nm c, c)) (objects r @ [c])) = (table r)(nm c \<mapsto> c)"
    using False wf map_of_key_snoc [of nm c "objects r"] by (simp add: wf_def)
  ultimately show ?thesis using False wf c by (auto simp: wf_def)
next
  case True
  then have t: "table r (canon (nm c)) \<noteq> None" using wf_table [OF wf] c by simp
  show ?thesis
  proof (cases "first_flag ig")
    case False
    from register_exists [OF c(1) t False] True False wf show ?thesis by (auto simp: wf_def)
  next
    case flag: True
    from True obtain cs d ds where split: "objects r = cs @ d # ds" and d: "nm d = nm c"
      using wf by (auto simp: wf_def) (metis split_list)
    have nd: "nm c \<notin> nm ` set cs" "nm c \<notin> nm ` set ds"
      using wf split d by (auto simp: wf_def)
    have ns: "remove_all_range (\<lambda>n. canon (nm c) = n) (names r) = Inr (map nm (cs @ ds))"
      using wf split d nd c remove_all_range_one [of "\<lambda>n. nm c = n" "nm c" "map nm cs" "map nm ds"]
      by (auto simp: wf_def)
    have os: "remove_all_range (\<lambda>d. canon (nm c) = nm d) (objects r) = Inr (cs @ ds)"
      using split d nd c remove_all_range_one [of "\<lambda>d. nm c = nm d" d cs ds] by auto
    from register_replace [OF c(1) t flag ns os] c obtain r' where
      r': "register c ig r = Inr (None, r')" "objects r' = (cs @ ds) @ [c]"
        "names r' = map nm (cs @ ds) @ [nm c]" "table r' = (table r)(nm c \<mapsto> c)" by auto
    have "filter (\<lambda>d. nm d \<noteq> nm c) cs = cs" "filter (\<lambda>d. nm d \<noteq> nm c) ds = ds"
      using nd by (auto simp: filter_id_conv image_iff)
    then have "filter (\<lambda>d. nm d \<noteq> nm c) (objects r) = cs @ ds" using split d by simp
    moreover have "map_of (map (\<lambda>c. (nm c, c)) ((cs @ ds) @ [c])) = (table r)(nm c \<mapsto> c)"
      using wf split d nd map_of_key_snoc [of nm c "cs @ ds"] map_of_key_replace [of nm d c cs ds]
      by (auto simp: wf_def simp del: map_append append.assoc)
    ultimately show ?thesis using r' wf split d nd c flag by (auto simp: wf_def) (metis disjoint_iff image_eqI)
  qed
qed

text \<open>The sorted list is the list of the objects, each once and none missing.\<close>

lemma wf_sorted:
  assumes wf: "wf r"
  shows "sorted_objects rv r = Inr (map Some (if first_flag rv then rev (objects r) else objects r))"
proof -
  let ?ns = "if first_flag rv then rev (names r) else names r"
  let ?os = "if first_flag rv then rev (objects r) else objects r"
  have len: "length ?ns = length (objects r)" and ns: "?ns = map nm ?os"
    using wf by (auto simp: wf_def rev_map)
  have "\<forall>n \<in> set ?ns. table r n \<noteq> None" using wf_table [OF wf] by auto
  then have "fill_sorted (table r) ?ns (replicate (length (objects r)) None) 0 = Inr (map (table r) ?ns)"
    using len by (subst fill_sorted_all) auto
  moreover have "map (table r) ?ns = map Some ?os"
    unfolding ns using wf_table_Some [OF wf] by auto
  ultimately show ?thesis
    using wf unfolding sorted_eq by (auto simp: Let_def wf_def)
qed

lemma wf_lookup_registered:
  assumes "wf r" and "nm c \<noteq> []" "canon (nm c) = nm c" and "register c ig r = Inr (None, r')"
  shows "table r' (nm c) = Some c"
proof -
  from wf_register [OF assms(1-3), of ig] assms(4) have "wf r' \<and> c \<in> set (objects r')"
    by (auto split: if_splits)
  then show ?thesis using wf_table_Some by blast
qed

end

interpretation comps: named_registry Name Components ComponentMap SortedComponentName RegisterComponent GetSortedComponents
  by unfold_locales
     (auto simp: RegisterComponent_def GetSortedComponents_def canonicalName_ok first_flag_def unregister_one_def
       Let_def fun_eq_iff split: list.splits)

interpretation mws: named_registry mw_Name Middlewares MiddlewareMap SortedMiddlewareName RegisterMiddleware GetSortedMiddlewares
  by unfold_locales
     (auto simp: RegisterMiddleware_def GetSortedMiddlewares_def canonicalName_ok first_flag_def
       Let_def fun_eq_iff split: list.splits)

subsection \<open>Properties\<close>

primrec register_all :: "(Component \<times> bool list) list \<Rightarrow> Registry \<Rightarrow> Registry outcome" where
  "register_all [] r = Inr r"
| "register_all (x # xs) r =
     (case RegisterComponent (fst x) (snd x) r of Inl p \<Rightarrow> Inl p | Inr (_, r') \<Rightarrow> register_all xs r')"

lemma register_all_wf:
  assumes "comps.wf r" and "\<forall>x \<in> set xs. Name (fst x) \<noteq> [] \<and> canon (Name (fst x)) = Name (fst x)"
  shows "\<exists>r'. register_all xs r = Inr r' \<and> comps.wf r' \<and>
           Name ` set (Components r') = Name ` set (Components r) \<union> (Name \<circ> fst) ` set xs"
  using assms
proof (induction xs arbitrary: r)
  case Nil
  then show ?case by simp
next
  case (Cons x xs)
  let ?c = "fst x"
  have c: "Name ?c \<noteq> []" "canon (Name ?c) = Name ?c" using Cons.prems by auto
  from comps.wf_register [OF Cons.prems(1) c, of "snd x"] obtain e r1 where
    r1: "RegisterComponent ?c (snd x) r = Inr (e, r1)" "comps.wf r1"
      "if Name ?c \<in> set (SortedComponentName r) \<and> \<not> first_flag (snd x) then e \<noteq> None \<and> Components r1 = Components r
       else e = None \<and> Components r1 = filter (\<lambda>d. Name d \<noteq> Name ?c) (Components r) @ [?c]" by blast
  have "Name ` set (Components r1) = insert (Name ?c) (Name ` set (Components r))"
    using r1(3) Cons.prems(1) by (auto simp: comps.wf_def split: if_splits)
  with Cons.IH [OF r1(2)] Cons.prems(2) r1(1) show ?case by auto
qed


definition named_component :: "string \<Rightarrow> Component" where
  "named_component n = \<lparr>Name = n, Impl = 0, ConfigurePath = [], Dependencies = []\<rparr>"


text \<open>
  A component registered under a name with a lower-case initial is not removed from the
  component list by \<^verbatim>\<open>UnregisterComponent\<close>: the sorted list then has a nil entry.
\<close>

theorem unregister_lower_case_leaves_nil:
  "(case register_all [(named_component ''log'', [])] NewRegistry of
      Inr r \<Rightarrow> (case UnregisterComponent [''log''] r of
                  Inr r' \<Rightarrow> (length (Components r'), GetSortedComponents [] r', SortedComponentName r')
                | Inl p \<Rightarrow> (0, Inl p, []))
    | Inl p \<Rightarrow> (0, Inl p, [])) = (1, Inr [None], [])"
proof -
  have c: "canonicalName ''log'' = Inr ''Log''" by code_simp
  have "remove_all_range (\<lambda>n. ''Log'' = n) [''Log''] = Inr []" by code_simp
  moreover have "remove_all_range (\<lambda>c. ''Log'' = Name c) [named_component ''log''] = Inr [named_component ''log'']"
    by (rule remove_all_range_absent) (simp add: named_component_def)
  ultimately show ?thesis
    by (simp add: RegisterComponent_def NewRegistry_def Let_def unregister_one_def GetSortedComponents_def c)
       (simp add: named_component_def c unregister_one_def GetSortedComponents_def)
qed

end
