(* ===== verification/Component_Sort.thy ===== *)
theory Component_Sort
  imports Registry
begin

text \<open>
  The dependency sort of \<^verbatim>\<open>src/component.go\<close> (\<^verbatim>\<open>SortComponent\<close>, \<^verbatim>\<open>sortComponent\<close>) and the operations
  that use it and inject components into tagged fields. What reflection reports about the
  fields of a component is the argument \<open>flds\<close>. The sort is a partial function: \<open>None\<close> is the
  run that does not end.
\<close>

record Field =
  f_Name :: string
  f_Exported :: bool
  f_Tag :: string
  f_Implements :: bool
  f_IsComponent :: bool

definition init_dependencies :: "(nat \<Rightarrow> Field list) \<Rightarrow> Component \<Rightarrow> Component" where
  "init_dependencies flds c =
     c\<lparr>Dependencies := Dependencies c @
         map f_Name (filter (\<lambda>f. f_Exported f \<and> f_Tag f = ''true'' \<and> f_Implements f \<and> f_IsComponent f) (flds (Impl c)))\<rparr>"

partial_function (option) find_roots :: "Component list \<Rightarrow> nat \<Rightarrow> Component list option" where
  "find_roots components rootDependenciesCount =
     (if filter (\<lambda>c. length (Dependencies c) = rootDependenciesCount) components \<noteq> []
      then Some (filter (\<lambda>c. length (Dependencies c) = rootDependenciesCount) components)
      else find_roots components (rootDependenciesCount + 1))"

definition place_component :: "string \<Rightarrow> string list \<Rightarrow> string list" where
  "place_component name srt =
     (case InArrayString name srt [False] of
        None \<Rightarrow> srt @ [name]
      | Some index \<Rightarrow> take index srt @ drop (index + 1) srt @ [srt ! index])"

definition next_level :: "Component list \<Rightarrow> Component \<Rightarrow> Component list" where
  "next_level components current =
     concat (map (\<lambda>c. map (\<lambda>_. c) (filter (\<lambda>d. d = Name current) (Dependencies c))) components)"

partial_function (option) sort_component :: "Component list \<Rightarrow> Component list \<Rightarrow> string list \<Rightarrow> string list option" where
  "sort_component components current srt =
     (case current of
        [] \<Rightarrow> Some srt
      | c # cs \<Rightarrow>
          Option.bind (sort_component components (next_level components c) (place_component (Name c) srt))
            (\<lambda>srt1. sort_component components cs srt1))"

declare find_roots.simps [code] sort_component.simps [code]

definition SortComponent :: "(nat \<Rightarrow> Field list) \<Rightarrow> Component list \<Rightarrow> string list option" where
  "SortComponent flds components =
     (let cs = map (init_dependencies flds) components in
      Option.bind (find_roots cs 0) (\<lambda>roots. sort_component cs roots []))"

subsection \<open>Order in a list\<close>

definition before :: "'a list \<Rightarrow> 'a \<Rightarrow> 'a \<Rightarrow> bool" where
  "before xs a b = (\<exists>us vs ws. xs = us @ a # vs @ b # ws)"

lemma before_append: "before xs a b \<Longrightarrow> before (xs @ ys) a b" "before ys a b \<Longrightarrow> before (xs @ ys) a b"
  unfolding before_def by (metis append.assoc append_Cons)+

lemma before_cross: "a \<in> set xs \<Longrightarrow> b \<in> set ys \<Longrightarrow> before (xs @ ys) a b"
  unfolding before_def by (metis append.assoc append_Cons split_list)

lemma before_filter: "before xs a b \<Longrightarrow> P a \<Longrightarrow> P b \<Longrightarrow> before (filter P xs) a b"
  unfolding before_def by fastforce

subsection \<open>The dependency relation\<close>

definition dep_rel :: "Component list \<Rightarrow> (string \<times> string) set" where
  "dep_rel cs = {(d, Name c) | c d. c \<in> set cs \<and> d \<in> set (Dependencies c)}"

definition reach :: "Component list \<Rightarrow> string set \<Rightarrow> string set" where
  "reach cs X = (dep_rel cs)\<^sup>* `` X"

definition topo :: "Component list \<Rightarrow> string list \<Rightarrow> bool" where
  "topo cs xs = (\<forall>(d, n) \<in> dep_rel cs. d \<in> set xs \<longrightarrow> before xs d n)"

lemma reach_closed: "d \<in> reach cs X \<Longrightarrow> (d, n) \<in> dep_rel cs \<Longrightarrow> n \<in> reach cs X"
  unfolding reach_def by (auto intro: rtrancl_into_rtrancl)

lemma reach_Un: "reach cs (X \<union> Y) = reach cs X \<union> reach cs Y"
  by (auto simp: reach_def)

lemma reach_self: "X \<subseteq> reach cs X"
  by (auto simp: reach_def)

lemma next_level_names: "Name ` set (next_level cs c) = dep_rel cs `` {Name c}"
  by (fastforce simp: next_level_def dep_rel_def)

lemma reach_one: "reach cs {x} = insert x (reach cs (dep_rel cs `` {x}))"
proof -
  have "(dep_rel cs)\<^sup>* `` {x} = {x} \<union> (dep_rel cs)\<^sup>* `` (dep_rel cs `` {x})"
    by (auto elim: converse_rtranclE intro: converse_rtrancl_into_rtrancl)
  then show ?thesis by (simp add: reach_def)
qed

lemma finite_dep_rel: "finite (dep_rel cs)"
proof -
  have "dep_rel cs = (\<Union>c \<in> set cs. (\<lambda>d. (d, Name c)) ` set (Dependencies c))"
    by (auto simp: dep_rel_def)
  then show ?thesis by simp
qed

text \<open>The assumptions on a list of components: names that differ in more than case, no cycle.\<close>

definition sortable :: "Component list \<Rightarrow> bool" where
  "sortable cs = (inj_on ToLower (Name ` set cs) \<and> acyclic (dep_rel cs))"

lemma place_component_eq:
  assumes inj: "inj_on ToLower N" and n: "n \<in> N" "set xs \<subseteq> N" and d: "distinct xs"
  shows "place_component n xs = filter (\<lambda>y. y \<noteq> n) xs @ [n]"
proof (cases "InArrayString n xs [False]")
  case None
  then have "n \<notin> set xs" unfolding InArrayString_None by blast
  then have "filter (\<lambda>y. y \<noteq> n) xs = xs" by (auto simp: filter_id_conv)
  then show ?thesis by (simp add: place_component_def None)
next
  case (Some i)
  then have i: "i < length xs" "ToLower (xs ! i) = ToLower n" using InArrayString_Some by blast+
  then have "xs ! i = n" using inj n by (metis inj_onD nth_mem subsetD)
  with i take_drop_remove1 [OF d i(1)] remove1_filter [OF d, of n] show ?thesis
    by (simp add: place_component_def Some)
qed

subsection \<open>The sort is topological\<close>

text \<open>One visit: the name and everything that depends on it move to the end, in order.\<close>

definition visits :: "Component list \<Rightarrow> Component \<Rightarrow> bool" where
  "visits cs c = (\<forall>srt. distinct srt \<longrightarrow> set srt \<subseteq> Name ` set cs \<longrightarrow>
     (\<exists>L. sort_component cs (next_level cs c) (place_component (Name c) srt) =
            Some (filter (\<lambda>n. n \<notin> reach cs {Name c}) srt @ L) \<and>
          set L = reach cs {Name c} \<and> distinct L \<and> topo cs L))"

lemma reach_names:
  assumes "X \<subseteq> Name ` set cs"
  shows "reach cs X \<subseteq> Name ` set cs"
proof
  fix y assume "y \<in> reach cs X"
  then obtain x where "x \<in> X" "(x, y) \<in> (dep_rel cs)\<^sup>*" by (auto simp: reach_def)
  then show "y \<in> Name ` set cs"
    using assms by (auto elim!: rtranclE [of x y] simp: dep_rel_def)
qed

lemma topo_append:
  assumes L1: "topo cs L1" "set L1 = reach cs X" and L2: "topo cs L2" "set L2 = reach cs Y"
  shows "topo cs (filter (\<lambda>n. n \<notin> reach cs Y) L1 @ L2)"
  unfolding topo_def
proof (intro ballI, clarify)
  fix d n assume e: "(d, n) \<in> dep_rel cs" and d: "d \<in> set (filter (\<lambda>n. n \<notin> reach cs Y) L1 @ L2)"
  show "before (filter (\<lambda>n. n \<notin> reach cs Y) L1 @ L2) d n"
  proof (cases "d \<in> set L2")
    case True
    then show ?thesis using L2(1) e before_append(2) unfolding topo_def by fast
  next
    case False
    then have d1: "d \<in> set L1" "d \<notin> reach cs Y" using d L2(2) by auto
    then have b: "before L1 d n" using L1(1) e unfolding topo_def by fast
    have n: "n \<in> set L1" using d1(1) e L1(2) reach_closed by metis
    show ?thesis
    proof (cases "n \<in> reach cs Y")
      case True
      then show ?thesis using d1 L2(2) by (intro before_cross) auto
    next
      case False
      then show ?thesis using before_filter [OF b, of "\<lambda>n. n \<notin> reach cs Y"] d1(2) before_append(1) by metis
    qed
  qed
qed

lemma sort_list:
  assumes "\<forall>c \<in> set cur. c \<in> set cs \<and> visits cs c" and "distinct srt" and "set srt \<subseteq> Name ` set cs"
  shows "\<exists>L. sort_component cs cur srt = Some (filter (\<lambda>n. n \<notin> reach cs (Name ` set cur)) srt @ L) \<and>
             set L = reach cs (Name ` set cur) \<and> distinct L \<and> topo cs L"
  using assms
proof (induction cur arbitrary: srt)
  case Nil
  have "sort_component cs [] srt = Some srt" by (subst sort_component.simps) simp
  moreover have "filter (\<lambda>n. n \<notin> reach cs {}) srt = srt" by (simp add: reach_def)
  ultimately show ?case by (auto simp: reach_def topo_def)
next
  case (Cons c cur)
  let ?X = "reach cs {Name c}" and ?Y = "reach cs (Name ` set cur)"
  from Cons.prems obtain L1 where L1:
    "sort_component cs (next_level cs c) (place_component (Name c) srt) = Some (filter (\<lambda>n. n \<notin> ?X) srt @ L1)"
    "set L1 = ?X" "distinct L1" "topo cs L1" unfolding visits_def by (metis list.set_intros(1))
  let ?s1 = "filter (\<lambda>n. n \<notin> ?X) srt @ L1"
  have "?X \<subseteq> Name ` set cs" using Cons.prems(1) by (intro reach_names) auto
  then have s1: "distinct ?s1" "set ?s1 \<subseteq> Name ` set cs"
    using Cons.prems(2,3) L1(2,3) by auto
  obtain L2 where L2: "sort_component cs cur ?s1 = Some (filter (\<lambda>n. n \<notin> ?Y) ?s1 @ L2)"
    "set L2 = ?Y" "distinct L2" "topo cs L2"
    using Cons.IH [OF _ s1] Cons.prems(1) by auto
  let ?L = "filter (\<lambda>n. n \<notin> ?Y) L1 @ L2"
  have XY: "reach cs (Name ` set (c # cur)) = ?X \<union> ?Y"
    using reach_Un [of cs "{Name c}" "Name ` set cur"] by simp
  have "sort_component cs (c # cur) srt = Some (filter (\<lambda>n. n \<notin> ?Y) ?s1 @ L2)"
    by (subst sort_component.simps) (simp add: L1(1) L2(1))
  also have "filter (\<lambda>n. n \<notin> ?Y) ?s1 @ L2 = filter (\<lambda>n. n \<notin> ?X \<union> ?Y) srt @ ?L"
    by (simp add: conj_commute)
  finally have "sort_component cs (c # cur) srt = Some (filter (\<lambda>n. n \<notin> ?X \<union> ?Y) srt @ ?L)" .
  moreover have "set ?L = ?X \<union> ?Y" "distinct ?L" using L1(2,3) L2(2,3) by auto
  moreover have "topo cs ?L" using topo_append [OF L1(4,2) L2(4,2)] .
  ultimately show ?case unfolding XY by blast
qed

lemma visits_all:
  assumes ok: "sortable cs" and "c \<in> set cs"
  shows "visits cs c"
proof -
  have wf: "wf ((dep_rel cs)\<inverse>)"
    using ok finite_dep_rel by (auto simp: sortable_def intro: finite_acyclic_wf_converse)
  show ?thesis
    using wf assms(2)
proof (induction "Name c" arbitrary: c rule: wf_induct_rule)
  case 2: (less c)
  show ?case
    unfolding visits_def
  proof (intro allI impI)
    fix srt assume s: "distinct srt" "set srt \<subseteq> Name ` set cs"
    let ?N = "Name c" and ?next = "next_level cs c"
    let ?R = "reach cs (dep_rel cs `` {?N})"
    have nx: "\<forall>d \<in> set ?next. d \<in> set cs \<and> visits cs d"
    proof
      fix d assume d: "d \<in> set ?next"
      then have "(?N, Name d) \<in> dep_rel cs" using next_level_names [of cs c] by auto
      moreover have "d \<in> set cs" using d by (auto simp: next_level_def)
      ultimately show "d \<in> set cs \<and> visits cs d" using 2(1) by auto
    qed
    have place: "place_component ?N srt = filter (\<lambda>y. y \<noteq> ?N) srt @ [?N]"
      using ok s 2(2) by (intro place_component_eq [of "Name ` set cs"]) (auto simp: sortable_def)
    have p: "distinct (filter (\<lambda>y. y \<noteq> ?N) srt @ [?N])" "set (filter (\<lambda>y. y \<noteq> ?N) srt @ [?N]) \<subseteq> Name ` set cs"
      using s 2(2) by auto
    obtain L where L: "sort_component cs ?next (filter (\<lambda>y. y \<noteq> ?N) srt @ [?N]) =
          Some (filter (\<lambda>n. n \<notin> ?R) (filter (\<lambda>y. y \<noteq> ?N) srt @ [?N]) @ L)"
        "set L = ?R" "distinct L" "topo cs L"
      using sort_list [OF nx p] unfolding next_level_names by blast
    have nN: "?N \<notin> ?R"
    proof
      assume "?N \<in> ?R"
      then have "(?N, ?N) \<in> (dep_rel cs)\<^sup>+" by (auto simp: reach_def intro: rtrancl_into_trancl2)
      then show False using ok by (auto simp: sortable_def acyclic_def)
    qed
    have "filter (\<lambda>n. n \<notin> ?R) (filter (\<lambda>y. y \<noteq> ?N) srt @ [?N]) @ L =
        filter (\<lambda>n. n \<notin> reach cs {?N}) srt @ (?N # L)"
      unfolding reach_one using nN by (simp add: conj_commute)
    moreover have "topo cs (?N # L)"
      unfolding topo_def
    proof (intro ballI, clarify)
      fix d n assume e: "(d, n) \<in> dep_rel cs" and d: "d \<in> set (?N # L)"
      show "before (?N # L) d n"
      proof (cases "d \<in> set L")
        case True
        then show ?thesis using L(4) e before_append(2) [of L d n "[?N]"] unfolding topo_def by auto
      next
        case False
        then have "d = ?N" "n \<in> set L" using d e L(2) reach_self by (auto, blast)
        then show ?thesis using before_cross [of ?N "[?N]" n L] by simp
      qed
    qed
    ultimately show "\<exists>L. sort_component cs ?next (place_component ?N srt) =
          Some (filter (\<lambda>n. n \<notin> reach cs {?N}) srt @ L) \<and>
        set L = reach cs {?N} \<and> distinct L \<and> topo cs L"
      using L nN unfolding place by (intro exI [of _ "?N # L"]) (auto simp: reach_one)
  qed
qed
qed

subsection \<open>The roots\<close>

lemma find_roots_from:
  assumes "\<forall>c \<in> set cs. m \<le> length (Dependencies c)" and "\<exists>c \<in> set cs. length (Dependencies c) = m" and "n \<le> m"
  shows "find_roots cs n = Some (filter (\<lambda>c. length (Dependencies c) = m) cs)"
  using assms(3)
proof (induction "m - n" arbitrary: n)
  case 0
  then have "n = m" by simp
  with assms(2) show ?case by (subst find_roots.simps) (auto simp: filter_empty_conv)
next
  case (Suc k)
  then have "filter (\<lambda>c. length (Dependencies c) = n) cs = []" using assms(1) by (auto simp: filter_empty_conv)
  with Suc show ?case by (subst find_roots.simps) simp
qed

lemma find_roots_ok:
  assumes "cs \<noteq> []"
  obtains m where "find_roots cs 0 = Some (filter (\<lambda>c. length (Dependencies c) = m) cs)"
    "\<forall>c \<in> set cs. m \<le> length (Dependencies c)" "\<exists>c \<in> set cs. length (Dependencies c) = m"
proof -
  let ?L = "(\<lambda>c. length (Dependencies c)) ` set cs"
  have "finite ?L" "?L \<noteq> {}" using assms by auto
  then have "Min ?L \<in> ?L" by (rule Min_in)
  then obtain c where "c \<in> set cs" "length (Dependencies c) = Min ?L" by auto
  moreover have "\<forall>c \<in> set cs. Min ?L \<le> length (Dependencies c)" by simp
  ultimately have min: "\<forall>c \<in> set cs. Min ?L \<le> length (Dependencies c)" "\<exists>c \<in> set cs. length (Dependencies c) = Min ?L"
    by blast+
  then show thesis using that find_roots_from [OF min, of 0] by blast
qed

lemma find_roots_some: "find_roots cs n = Some rs \<Longrightarrow> cs \<noteq> []"
  by (rule find_roots.raw_induct [of "\<lambda>cs n rs. cs \<noteq> []"]) (auto split: if_splits)

lemma find_roots_empty: "find_roots [] n = None"
  using find_roots_some [of "[]" n] by (cases "find_roots [] n") auto

subsection \<open>Injection\<close>

record Target =
  t_Name :: string
  t_Struct :: bool
  t_Fields :: "Field list"

text \<open>
  One field of a target: the assignments made and the error. \<open>canSet\<close> says whether the reflected
  field accepts the value (a method of the third-party package \<^verbatim>\<open>structs\<close>).
\<close>

definition inject_field ::
    "(Field \<Rightarrow> nat \<Rightarrow> bool) \<Rightarrow> Registry \<Rightarrow> string \<Rightarrow> Field \<Rightarrow> (string \<times> string \<times> nat) list \<times> reg_error option" where
  "inject_field canSet r tname f =
     (if f_Exported f \<and> f_Tag f = ''true'' then
        (let (as, e) =
           (if f_Implements f \<and> f_IsComponent f then
              (case ComponentMap r (f_Name f) of
                 Some c \<Rightarrow> if canSet f (Impl c) then ([(tname, f_Name f, Impl c)], None) else ([], Some (errInject (f_Name f)))
               | None \<Rightarrow> ([], Some (errInject (f_Name f))))
            else ([], None))
         in if e \<noteq> None then (as, e)
            else (case Values r (f_Name f) of
                    Some v \<Rightarrow> if canSet f v then (as @ [(tname, f_Name f, v)], None) else (as, Some (errInject (f_Name f)))
                  | None \<Rightarrow> (as, None)))
      else ([], None))"

fun inject_fields ::
    "(Field \<Rightarrow> nat \<Rightarrow> bool) \<Rightarrow> Registry \<Rightarrow> string \<Rightarrow> Field list \<Rightarrow> (string \<times> string \<times> nat) list \<times> reg_error option" where
  "inject_fields canSet r tname [] = ([], None)"
| "inject_fields canSet r tname (f # fs) =
     (case inject_field canSet r tname f of
        (as, Some e) \<Rightarrow> (as, Some e)
      | (as, None) \<Rightarrow> (case inject_fields canSet r tname fs of (bs, e) \<Rightarrow> (as @ bs, e)))"

fun InjectComponentTo ::
    "(Field \<Rightarrow> nat \<Rightarrow> bool) \<Rightarrow> Registry \<Rightarrow> Target list \<Rightarrow> (string \<times> string \<times> nat) list \<times> reg_error option" where
  "InjectComponentTo canSet r [] = ([], None)"
| "InjectComponentTo canSet r (t # ts) =
     (if \<not> t_Struct t then InjectComponentTo canSet r ts
      else (case inject_fields canSet r (t_Name t) (t_Fields t) of
              (as, Some e) \<Rightarrow> (as, Some e)
            | (as, None) \<Rightarrow> (case InjectComponentTo canSet r ts of (bs, e) \<Rightarrow> (as @ bs, e))))"

text \<open>\<^verbatim>\<open>InjectComponent\<close>: a nil entry of the sorted list is dereferenced.\<close>

fun targets_of :: "(nat \<Rightarrow> Target) \<Rightarrow> Component option list \<Rightarrow> Target list outcome" where
  "targets_of target [] = Inr []"
| "targets_of target (None # cs) = Inl NilDereference"
| "targets_of target (Some c # cs) =
     (case targets_of target cs of Inl p \<Rightarrow> Inl p | Inr ts \<Rightarrow> Inr (target (Impl c) # ts))"

definition InjectComponent ::
    "(nat \<Rightarrow> Target) \<Rightarrow> (Field \<Rightarrow> nat \<Rightarrow> bool) \<Rightarrow> Registry \<Rightarrow> ((string \<times> string \<times> nat) list \<times> reg_error option) outcome" where
  "InjectComponent target canSet r =
     (case GetSortedComponents [] r of
        Inl p \<Rightarrow> Inl p
      | Inr cs \<Rightarrow> (case targets_of target cs of Inl p \<Rightarrow> Inl p | Inr ts \<Rightarrow> Inr (InjectComponentTo canSet r ts)))"

fun named_targets :: "(nat \<Rightarrow> Target) \<Rightarrow> Registry \<Rightarrow> string list \<Rightarrow> Target list outcome" where
  "named_targets target r [] = Inr []"
| "named_targets target r (n # ns) =
     (case canonicalName n of
        Inl p \<Rightarrow> Inl p
      | Inr cn \<Rightarrow>
          (case named_targets target r ns of
             Inl p \<Rightarrow> Inl p
           | Inr ts \<Rightarrow> Inr (case GetComponentMap r cn of Some c \<Rightarrow> target (Impl c) # ts | None \<Rightarrow> ts)))"

definition InjectComponentByName ::
    "(nat \<Rightarrow> Target) \<Rightarrow> (Field \<Rightarrow> nat \<Rightarrow> bool) \<Rightarrow> Registry \<Rightarrow> string list
     \<Rightarrow> ((string \<times> string \<times> nat) list \<times> reg_error option) outcome" where
  "InjectComponentByName target canSet r names =
     (case named_targets target r names of Inl p \<Rightarrow> Inl p | Inr ts \<Rightarrow> Inr (InjectComponentTo canSet r ts))"

subsection \<open>\<^verbatim>\<open>UseComponent\<close>\<close>

definition OptionalComponents :: "Component list" where
  "OptionalComponents =
     [\<lparr>Name = ''Log'', Impl = 0, ConfigurePath = ''components.log'', Dependencies = []\<rparr>,
      \<lparr>Name = ''Database'', Impl = 1, ConfigurePath = ''components.database'', Dependencies = []\<rparr>,
      \<lparr>Name = ''Kvstore'', Impl = 2, ConfigurePath = ''components.kvstore'', Dependencies = []\<rparr>,
      \<lparr>Name = ''Queue'', Impl = 3, ConfigurePath = ''components.queue'', Dependencies = []\<rparr>,
      \<lparr>Name = ''Filesystem'', Impl = 4, ConfigurePath = ''components.filesystem'', Dependencies = []\<rparr>,
      \<lparr>Name = ''Session'', Impl = 5, ConfigurePath = ''components.session'', Dependencies = []\<rparr>]"

text \<open>
  The first loop: look the names up and register the components. \<open>annotatef\<close> is the function of
  the package \<^verbatim>\<open>errors\<close> that wraps an error; an unknown name wraps the error variable, which is
  nil there. \<open>Inl\<close> in the result is an early return.
\<close>

fun use_register ::
    "(reg_error option \<Rightarrow> reg_error option) \<Rightarrow> string list \<Rightarrow> Component list \<Rightarrow> Registry
     \<Rightarrow> ((reg_error option \<times> Registry) + (Component list \<times> Registry)) outcome" where
  "use_register annotatef [] components r = Inr (Inr (components, r))"
| "use_register annotatef (n # ns) components r =
     (case canonicalName n of
        Inl p \<Rightarrow> Inl p
      | Inr cn \<Rightarrow>
          (case Components_Get OptionalComponents cn of
             Inl p \<Rightarrow> Inl p
           | Inr None \<Rightarrow> Inr (Inl (annotatef None, r))
           | Inr (Some c) \<Rightarrow>
               (case RegisterComponent c [True] r of
                  Inl p \<Rightarrow> Inl p
                | Inr (Some e, r') \<Rightarrow> Inr (Inl (annotatef (Some e), r'))
                | Inr (None, r') \<Rightarrow> use_register annotatef ns (components @ [c]) r')))"

text \<open>The target of the second loop is the \<^verbatim>\<open>*Component\<close> itself, whose fields carry no tag.\<close>

definition wrapper_target :: "Component \<Rightarrow> Target" where
  "wrapper_target c =
     \<lparr>t_Name = Name c, t_Struct = True,
      t_Fields = map (\<lambda>n. \<lparr>f_Name = n, f_Exported = True, f_Tag = [], f_Implements = False, f_IsComponent = False\<rparr>)
        [''Name'', ''Component'', ''ConfigurePath'', ''Dependencies'']\<rparr>"

fun use_inject ::
    "(reg_error option \<Rightarrow> reg_error option) \<Rightarrow> (Field \<Rightarrow> nat \<Rightarrow> bool) \<Rightarrow> string list \<Rightarrow> Registry \<Rightarrow> (string \<times> string \<times> nat) list
     \<Rightarrow> (reg_error option \<times> (string \<times> string \<times> nat) list) outcome" where
  "use_inject annotatef canSet [] r as = Inr (None, as)"
| "use_inject annotatef canSet (n # ns) r as =
     (case GetComponentByName n r of
        Inl p \<Rightarrow> Inl p
      | Inr (Inl e) \<Rightarrow> Inr (annotatef (Some e), as)
      | Inr (Inr c) \<Rightarrow>
          (case InjectComponentTo canSet r [wrapper_target c] of
             (bs, Some e) \<Rightarrow> Inr (annotatef (Some e), as @ bs)
           | (bs, None) \<Rightarrow> use_inject annotatef canSet ns r (as @ bs)))"

text \<open>The result: the error, the registry and the assignments the injection made.\<close>

definition UseComponent ::
    "(reg_error option \<Rightarrow> reg_error option) \<Rightarrow> (nat \<Rightarrow> Field list) \<Rightarrow> (Field \<Rightarrow> nat \<Rightarrow> bool) \<Rightarrow> string list \<Rightarrow> Registry
     \<Rightarrow> (reg_error option \<times> Registry \<times> (string \<times> string \<times> nat) list) outcome option" where
  "UseComponent annotatef flds canSet names r =
     (case use_register annotatef names [] r of
        Inl p \<Rightarrow> Some (Inl p)
      | Inr (Inl (e, r')) \<Rightarrow> Some (Inr (e, r', []))
      | Inr (Inr (components, r')) \<Rightarrow>
          (case SortComponent flds components of
             None \<Rightarrow> None
           | Some srt \<Rightarrow>
               (case use_inject annotatef canSet srt r' [] of
                  Inl p \<Rightarrow> Some (Inl p)
                | Inr (e, as) \<Rightarrow> Some (Inr (e, r', as)))))"

subsection \<open>Middlewares\<close>

text \<open>The injection of middlewares (\<^verbatim>\<open>src/middleware.go\<close>) reuses \<^verbatim>\<open>InjectComponentTo\<close>.\<close>

fun mw_targets_of :: "(nat \<Rightarrow> Target) \<Rightarrow> Middleware option list \<Rightarrow> Target list outcome" where
  "mw_targets_of target [] = Inr []"
| "mw_targets_of target (None # ms) = Inl NilDereference"
| "mw_targets_of target (Some m # ms) =
     (case mw_targets_of target ms of Inl p \<Rightarrow> Inl p | Inr ts \<Rightarrow> Inr (target (mw_Impl m) # ts))"

definition InjectMiddleware ::
    "(nat \<Rightarrow> Target) \<Rightarrow> (Field \<Rightarrow> nat \<Rightarrow> bool) \<Rightarrow> Registry \<Rightarrow> ((string \<times> string \<times> nat) list \<times> reg_error option) outcome" where
  "InjectMiddleware target canSet r =
     (case GetSortedMiddlewares [] r of
        Inl p \<Rightarrow> Inl p
      | Inr ms \<Rightarrow> (case mw_targets_of target ms of Inl p \<Rightarrow> Inl p | Inr ts \<Rightarrow> Inr (InjectComponentTo canSet r ts)))"

fun named_mw_targets :: "(nat \<Rightarrow> Target) \<Rightarrow> Registry \<Rightarrow> string list \<Rightarrow> Target list outcome" where
  "named_mw_targets target r [] = Inr []"
| "named_mw_targets target r (n # ns) =
     (case canonicalName n of
        Inl p \<Rightarrow> Inl p
      | Inr cn \<Rightarrow>
          (case named_mw_targets target r ns of
             Inl p \<Rightarrow> Inl p
           | Inr ts \<Rightarrow> Inr (case GetMiddlewareMap r cn of Some m \<Rightarrow> target (mw_Impl m) # ts | None \<Rightarrow> ts)))"

definition InjectMiddlewareByName ::
    "(nat \<Rightarrow> Target) \<Rightarrow> (Field \<Rightarrow> nat \<Rightarrow> bool) \<Rightarrow> Registry \<Rightarrow> string list
     \<Rightarrow> ((string \<times> string \<times> nat) list \<times> reg_error option) outcome" where
  "InjectMiddlewareByName target canSet r names =
     (case named_mw_targets target r names of Inl p \<Rightarrow> Inl p | Inr ts \<Rightarrow> Inr (InjectComponentTo canSet r ts))"

definition OptionalMiddlewares :: "Middleware list" where
  "OptionalMiddlewares = [\<lparr>mw_Name = ''IPFilter'', mw_Impl = 6\<rparr>]"

fun use_mw_register ::
    "(reg_error option \<Rightarrow> reg_error option) \<Rightarrow> string list \<Rightarrow> Middleware list \<Rightarrow> Registry
     \<Rightarrow> ((reg_error option \<times> Registry) + (Middleware list \<times> Registry)) outcome" where
  "use_mw_register annotatef [] ms r = Inr (Inr (ms, r))"
| "use_mw_register annotatef (n # ns) ms r =
     (case canonicalName n of
        Inl p \<Rightarrow> Inl p
      | Inr cn \<Rightarrow>
          (case Middlewares_Get OptionalMiddlewares cn of
             Inl p \<Rightarrow> Inl p
           | Inr None \<Rightarrow> Inr (Inl (annotatef None, r))
           | Inr (Some m) \<Rightarrow>
               (case RegisterMiddleware m [True] r of
                  Inl p \<Rightarrow> Inl p
                | Inr (Some e, r') \<Rightarrow> Inr (Inl (annotatef (Some e), r'))
                | Inr (None, r') \<Rightarrow> use_mw_register annotatef ns (ms @ [m]) r')))"

definition mw_wrapper_target :: "Middleware \<Rightarrow> Target" where
  "mw_wrapper_target m =
     \<lparr>t_Name = mw_Name m, t_Struct = True,
      t_Fields = map (\<lambda>n. \<lparr>f_Name = n, f_Exported = True, f_Tag = [], f_Implements = False, f_IsComponent = False\<rparr>)
        [''Name'', ''Middleware'']\<rparr>"

fun use_mw_inject ::
    "(reg_error option \<Rightarrow> reg_error option) \<Rightarrow> (Field \<Rightarrow> nat \<Rightarrow> bool) \<Rightarrow> Middleware list \<Rightarrow> Registry \<Rightarrow> (string \<times> string \<times> nat) list
     \<Rightarrow> reg_error option \<times> (string \<times> string \<times> nat) list" where
  "use_mw_inject annotatef canSet [] r as = (None, as)"
| "use_mw_inject annotatef canSet (m # ms) r as =
     (case InjectComponentTo canSet r [mw_wrapper_target m] of
        (bs, Some e) \<Rightarrow> (annotatef (Some e), as @ bs)
      | (bs, None) \<Rightarrow> use_mw_inject annotatef canSet ms r (as @ bs))"

definition UseMiddleware ::
    "(reg_error option \<Rightarrow> reg_error option) \<Rightarrow> (Field \<Rightarrow> nat \<Rightarrow> bool) \<Rightarrow> string list \<Rightarrow> Registry
     \<Rightarrow> (reg_error option \<times> Registry \<times> (string \<times> string \<times> nat) list) outcome" where
  "UseMiddleware annotatef canSet names r =
     (case use_mw_register annotatef names [] r of
        Inl p \<Rightarrow> Inl p
      | Inr (Inl (e, r')) \<Rightarrow> Inr (e, r', [])
      | Inr (Inr (ms, r')) \<Rightarrow> (case use_mw_inject annotatef canSet ms r' [] of (e, as) \<Rightarrow> Inr (e, r', as)))"

subsection \<open>Properties\<close>

lemma sort_terminates:
  assumes ne: "components \<noteq> []" and ok: "sortable cs" and cs: "cs = map (init_dependencies flds) components"
  shows "\<exists>L m. SortComponent flds components = Some L \<and> distinct L \<and> topo cs L \<and>
    set L = reach cs (Name ` {c \<in> set cs. length (Dependencies c) = m}) \<and>
    (\<exists>c \<in> set cs. length (Dependencies c) = m)"
proof -
  have "cs \<noteq> []" using ne by (simp add: cs)
  then obtain m where m: "find_roots cs 0 = Some (filter (\<lambda>c. length (Dependencies c) = m) cs)"
    "\<exists>c \<in> set cs. length (Dependencies c) = m" using find_roots_ok by metis
  let ?roots = "filter (\<lambda>c. length (Dependencies c) = m) cs"
  have "\<forall>c \<in> set ?roots. c \<in> set cs \<and> visits cs c" using visits_all ok by auto
  from sort_list [OF this, of "[]"] obtain L where
    "sort_component cs ?roots [] = Some L" "set L = reach cs (Name ` set ?roots)" "distinct L" "topo cs L" by auto
  then show ?thesis using m by (auto simp: SortComponent_def Let_def cs [symmetric])
qed


definition sample_components :: "Component list" where
  "sample_components =
     [\<lparr>Name = ''Session'', Impl = 5, ConfigurePath = [], Dependencies = [''Log'', ''Kvstore'']\<rparr>,
      \<lparr>Name = ''Log'', Impl = 0, ConfigurePath = [], Dependencies = []\<rparr>,
      \<lparr>Name = ''Kvstore'', Impl = 2, ConfigurePath = [], Dependencies = [''Log'']\<rparr>]"

lemma acyclic_by_measure: "(\<And>a b. (a, b) \<in> r \<Longrightarrow> (f a :: nat) < f b) \<Longrightarrow> acyclic r"
  by (rule acyclic_subset [OF wf_acyclic [OF wf_measure [of f]]]) (auto simp: measure_def inv_image_def)

lemma sample_sortable: "sortable (map (init_dependencies (\<lambda>_. [])) sample_components)"
proof -
  have id: "init_dependencies (\<lambda>_. []) = id" by (simp add: init_dependencies_def fun_eq_iff)
  have "acyclic (dep_rel sample_components)"
    by (rule acyclic_by_measure [of _ "\<lambda>n. if n = ''Log'' then 0 else if n = ''Kvstore'' then 1 else 2"])
       (auto simp: dep_rel_def sample_components_def)
  moreover have "distinct (map (ToLower \<circ> Name) sample_components)" by code_simp
  then have "inj_on ToLower (Name ` set sample_components)" by (simp add: distinct_map inj_on_imageI)
  ultimately show ?thesis by (simp add: sortable_def id)
qed


text \<open>
  \<^verbatim>\<open>UseComponent\<close> with an unknown name returns no error: it wraps an error variable that is
  nil, and wrapping nil gives nil (the documented behaviour of \<^verbatim>\<open>errors.Annotatef\<close>).
\<close>

theorem UseComponent_unknown_silent:
  assumes "annotatef None = None" and "n \<noteq> []" and "canon n \<notin> Name ` set OptionalComponents"
  shows "UseComponent annotatef flds canSet (n # ns) r = Some (Inr (None, r, []))"
proof -
  have get: "cn \<notin> Name ` set cs \<Longrightarrow> cn \<noteq> [] \<Longrightarrow> canon cn = cn \<Longrightarrow> Components_Get cs cn = Inr None" for cn cs
    by (induction cs) (auto simp: canonicalName_ok)
  have "Components_Get OptionalComponents (canon n) = Inr None" using assms by (intro get) auto
  then show ?thesis using assms by (simp add: UseComponent_def canonicalName_ok)
qed

theorem UseComponent_unknown_silent_witness:
  "UseComponent id (\<lambda>_. []) (\<lambda>_ _. True) [''nosuch''] NewRegistry = Some (Inr (None, NewRegistry, []))"
  by (rule UseComponent_unknown_silent) (simp, simp, code_simp)

lemma wrapper_no_fields: "InjectComponentTo canSet r [wrapper_target c] = ([], None)"
  by (simp add: wrapper_target_def inject_field_def)

lemma use_inject_nothing: "use_inject annotatef canSet ns r as = Inr (e, bs) \<Longrightarrow> bs = as"
proof (induction ns arbitrary: as)
  case (Cons n ns)
  then show ?case
    by (auto simp: wrapper_no_fields simp del: InjectComponentTo.simps split: sum.splits)
qed simp

text \<open>
  \<^verbatim>\<open>UseComponent\<close> injects nothing: its second loop hands the \<^verbatim>\<open>Component\<close> wrapper to
  \<^verbatim>\<open>InjectComponentTo\<close>, and no field of the wrapper is tagged.
\<close>

theorem UseComponent_injects_nothing:
  assumes "UseComponent annotatef flds canSet names r = Some (Inr (e, r', assignments))"
  shows "assignments = []"
  using assms use_inject_nothing
  by (auto simp: UseComponent_def split: sum.splits option.splits)

theorem UseComponent_injects_nothing_witness:
  "\<exists>e r'. UseComponent id (\<lambda>_. []) (\<lambda>_ _. True) [''log''] NewRegistry = Some (Inr (e, r', []))"
proof -
  have "\<exists>e r' as. UseComponent id (\<lambda>_. []) (\<lambda>_ _. True) [''log''] NewRegistry = Some (Inr (e, r', as))"
  proof -
    let ?c = "\<lparr>Name = ''Log'', Impl = 0, ConfigurePath = ''components.log'', Dependencies = []\<rparr>"
    have cn: "canonicalName ''log'' = Inr ''Log''" "canonicalName ''Log'' = Inr ''Log''" by code_simp+
    have roots: "find_roots [?c] 0 = Some [?c]" by (subst find_roots.simps) simp
    have "sort_component [?c] [?c] [] = Some [''Log'']"
      by (subst sort_component.simps)
         (simp add: next_level_def place_component_def InArrayString_def, subst sort_component.simps, simp,
          subst sort_component.simps, simp)
    with roots cn show ?thesis
      by (simp add: UseComponent_def OptionalComponents_def RegisterComponent_def NewRegistry_def Let_def
          SortComponent_def init_dependencies_def GetComponentByName_def wrapper_no_fields del: InjectComponentTo.simps)
  qed
  then obtain e r' as where u: "UseComponent id (\<lambda>_. []) (\<lambda>_ _. True) [''log''] NewRegistry = Some (Inr (e, r', as))" by blast
  from UseComponent_injects_nothing [OF u] u show ?thesis by blast
qed

end
