(* ===== verification/Router.thy ===== *)
theory Router
  imports Text_Util
begin

text \<open>
  \<^verbatim>\<open>src/server.go\<close> and the server part of \<^verbatim>\<open>Engine.Startup\<close> in \<^verbatim>\<open>src/ltick.go\<close>: server options, the
  route declarations, the merging of routes that share method, group and path into one handler
  (the mesh), and the choice of the handler by host. Handlers are numbers; the router package
  itself is third-party, so what the code hands to it is the result: the list of
  registrations. Parsing of durations is an argument.
\<close>

subsection \<open>Server options\<close>

text \<open>
  A setter works on the observers already handed to \<^verbatim>\<open>prometheus.Register\<close> (a list) and the options.
  Writers, functions and observers are numbers; a nil slice of observers is \<open>None\<close>.
\<close>

record ServerOptions =
  logWriter :: nat
  Port :: nat
  ReadTimeout :: string
  ReadTimeoutDuration :: int
  ReadHeaderTimeout :: string
  ReadHeaderTimeoutDuration :: int
  WriteTimeout :: string
  WriteTimeoutDuration :: int
  IdleTimeout :: string
  IdleTimeoutDuration :: int
  GracefulStopTimeout :: string
  GracefulStopTimeoutDuration :: int
  MetricsHttpServerRequests :: "nat list option"
  MetricsHttpServerRequestsTrace :: "nat list option"
  MetricsHttpServerRequestsResponseSizes :: "nat list option"
  MetricsHttpServerRequestsRequestSizes :: "nat list option"
  MetricsHttpServerRequestLabelFuncs :: "nat list"

type_synonym ServerOption = "nat list \<times> ServerOptions \<Rightarrow> nat list \<times> ServerOptions"

definition ServerPort :: "nat \<Rightarrow> ServerOption" where
  "ServerPort port = apsnd (\<lambda>options. options\<lparr>Port := port\<rparr>)"

definition with_observers ::
    "nat \<Rightarrow> nat list option \<Rightarrow> (nat list \<Rightarrow> ServerOptions \<Rightarrow> ServerOptions) \<Rightarrow> ServerOption" where
  "with_observers dflt observers set_field st =
     (let obs = (case observers of None \<Rightarrow> [dflt] | Some os \<Rightarrow> os)
      in (fst st @ obs, set_field obs (snd st)))"

definition ServerMetricsHttpServerRequests :: "nat \<Rightarrow> nat list option \<Rightarrow> ServerOption" where
  "ServerMetricsHttpServerRequests dflt observers =
     with_observers dflt observers (\<lambda>os options. options\<lparr>MetricsHttpServerRequests := Some os\<rparr>)"
definition ServerMetricsHttpServerRequestsResponseSize :: "nat \<Rightarrow> nat list option \<Rightarrow> ServerOption" where
  "ServerMetricsHttpServerRequestsResponseSize dflt observers =
     with_observers dflt observers (\<lambda>os options. options\<lparr>MetricsHttpServerRequestsResponseSizes := Some os\<rparr>)"
definition ServerMetricsHttpServerRequestsRequestSize :: "nat \<Rightarrow> nat list option \<Rightarrow> ServerOption" where
  "ServerMetricsHttpServerRequestsRequestSize dflt observers =
     with_observers dflt observers (\<lambda>os options. options\<lparr>MetricsHttpServerRequestsRequestSizes := Some os\<rparr>)"
definition ServerMetricsHttpServerRequestsTrace :: "nat \<Rightarrow> nat list option \<Rightarrow> ServerOption" where
  "ServerMetricsHttpServerRequestsTrace dflt observers =
     with_observers dflt observers (\<lambda>os options. options\<lparr>MetricsHttpServerRequestsTrace := Some os\<rparr>)"
definition ServerMetricsHttpServerRequestLabelFunc :: "nat list \<Rightarrow> ServerOption" where
  "ServerMetricsHttpServerRequestLabelFunc fs = apsnd (\<lambda>options. options\<lparr>MetricsHttpServerRequestLabelFuncs := fs\<rparr>)"
definition ServerLogWriter :: "nat \<Rightarrow> ServerOption" where
  "ServerLogWriter w = apsnd (\<lambda>options. options\<lparr>logWriter := w\<rparr>)"
definition ServerGracefulStopTimeout :: "string \<Rightarrow> ServerOption" where
  "ServerGracefulStopTimeout t = apsnd (\<lambda>options. options\<lparr>GracefulStopTimeout := t\<rparr>)"
definition ServerGracefulStopTimeoutDuration :: "int \<Rightarrow> ServerOption" where
  "ServerGracefulStopTimeoutDuration d = apsnd (\<lambda>options. options\<lparr>GracefulStopTimeoutDuration := d\<rparr>)"
definition ServerReadTimeout :: "string \<Rightarrow> ServerOption" where
  "ServerReadTimeout t = apsnd (\<lambda>options. options\<lparr>ReadTimeout := t\<rparr>)"
definition ServerReadTimeoutDuration :: "int \<Rightarrow> ServerOption" where
  "ServerReadTimeoutDuration d = apsnd (\<lambda>options. options\<lparr>ReadTimeoutDuration := d\<rparr>)"
definition ServerReadHeaderTimeout :: "string \<Rightarrow> ServerOption" where
  "ServerReadHeaderTimeout t = apsnd (\<lambda>options. options\<lparr>ReadHeaderTimeout := t\<rparr>)"
definition ServerReadHeaderTimeoutDuration :: "int \<Rightarrow> ServerOption" where
  "ServerReadHeaderTimeoutDuration d = apsnd (\<lambda>options. options\<lparr>ReadHeaderTimeoutDuration := d\<rparr>)"
definition ServerWriteTimeout :: "string \<Rightarrow> ServerOption" where
  "ServerWriteTimeout t = apsnd (\<lambda>options. options\<lparr>WriteTimeout := t\<rparr>)"
definition ServerWriteTimeoutDuration :: "int \<Rightarrow> ServerOption" where
  "ServerWriteTimeoutDuration d = apsnd (\<lambda>options. options\<lparr>WriteTimeoutDuration := d\<rparr>)"

text \<open>\<^verbatim>\<open>Server.Resolve\<close>: a textual timeout that parses replaces the duration.\<close>

definition resolve_timeout :: "(string \<Rightarrow> int option) \<Rightarrow> string \<Rightarrow> int \<Rightarrow> int" where
  "resolve_timeout parse text dur =
     (if text \<noteq> [] then (case parse text of Some d \<Rightarrow> d | None \<Rightarrow> dur) else dur)"

definition Server_Resolve :: "(string \<Rightarrow> int option) \<Rightarrow> ServerOptions \<Rightarrow> ServerOptions" where
  "Server_Resolve parse s =
     s\<lparr>IdleTimeoutDuration := resolve_timeout parse (IdleTimeout s) (IdleTimeoutDuration s),
       ReadTimeoutDuration := resolve_timeout parse (ReadTimeout s) (ReadTimeoutDuration s),
       ReadHeaderTimeoutDuration := resolve_timeout parse (ReadHeaderTimeout s) (ReadHeaderTimeoutDuration s),
       WriteTimeoutDuration := resolve_timeout parse (WriteTimeout s) (WriteTimeoutDuration s),
       GracefulStopTimeoutDuration := resolve_timeout parse (GracefulStopTimeout s) (GracefulStopTimeoutDuration s)\<rparr>"

text \<open>The options of \<^verbatim>\<open>Engine.NewServer\<close>: defaults, the caller's setters, then the engine's writer.\<close>

definition second :: int where "second = 1000000000"

definition default_ServerOptions :: "nat \<Rightarrow> ServerOptions" where
  "default_ServerOptions stdout =
     \<lparr>logWriter = stdout, Port = 80, ReadTimeout = '''', ReadTimeoutDuration = 60 * second,
      ReadHeaderTimeout = '''', ReadHeaderTimeoutDuration = 60 * second,
      WriteTimeout = '''', WriteTimeoutDuration = 60 * second, IdleTimeout = '''', IdleTimeoutDuration = 60 * second,
      GracefulStopTimeout = '''', GracefulStopTimeoutDuration = 120 * second,
      MetricsHttpServerRequests = None, MetricsHttpServerRequestsTrace = None,
      MetricsHttpServerRequestsResponseSizes = None, MetricsHttpServerRequestsRequestSizes = None,
      MetricsHttpServerRequestLabelFuncs = []\<rparr>"

definition NewServer_options :: "nat \<Rightarrow> nat \<Rightarrow> ServerOption list \<Rightarrow> nat list \<times> ServerOptions" where
  "NewServer_options stdout engineWriter setters =
     fold (\<lambda>setter st. setter st) (setters @ [ServerLogWriter engineWriter]) ([], default_ServerOptions stdout)"

text \<open>
  \<^verbatim>\<open>ServerListenAndServe\<close> wraps the router; the wrappers are listed outermost first. Every label
  function adds one wrapper.
\<close>

datatype wrapper =
    InstrumentRequests "nat list" "nat list option" "nat option"
  | InstrumentResponseSize "nat list" "nat option"
  | InstrumentRequestSize "nat list" "nat option"
  | InstrumentMetricHandler

definition label_wrappers :: "nat list \<Rightarrow> (nat option \<Rightarrow> wrapper) \<Rightarrow> wrapper list \<Rightarrow> wrapper list" where
  "label_wrappers fs wrap handler =
     (if 0 < length fs then fold (\<lambda>f h. wrap (Some f) # h) fs handler else wrap None # handler)"

definition server_handler :: "ServerOptions \<Rightarrow> wrapper list" where
  "server_handler s =
     (let fs = MetricsHttpServerRequestLabelFuncs s;
          h1 = (case MetricsHttpServerRequests s of None \<Rightarrow> []
                | Some os \<Rightarrow> label_wrappers fs (InstrumentRequests os (MetricsHttpServerRequestsTrace s)) []);
          h2 = (case MetricsHttpServerRequestsResponseSizes s of None \<Rightarrow> h1
                | Some os \<Rightarrow> label_wrappers fs (InstrumentResponseSize os) h1);
          h3 = (case MetricsHttpServerRequestsRequestSizes s of None \<Rightarrow> h2
                | Some os \<Rightarrow> label_wrappers fs (InstrumentRequestSize os) h2)
      in InstrumentMetricHandler # h3)"

subsection \<open>Router options\<close>

record ServerRouterOptions =
  RequestTimeout :: int
  RequestTimeoutHandlers :: "nat list"
  Callbacks :: "nat list"
  AccessLogFunc :: "nat option"
  ErrorLogFunc :: "nat option"
  ErrorHandlerFunc :: "nat option"
  RecoveryLogFunc :: "nat option"
  RecoveryHandlerFunc :: "nat option"
  PanicHandlerFunc :: "nat option"
  TypeNegotiatorOpt :: "string list option"
  SlashRemoverOpt :: "int option"
  LanguageNegotiatorOpt :: "string list option"
  CorsOpt :: "nat option"
  RouteProviders :: "nat option"

type_synonym ServerRouterOption = "ServerRouterOptions \<Rightarrow> ServerRouterOptions"

definition empty_ServerRouterOptions :: ServerRouterOptions where
  "empty_ServerRouterOptions =
     \<lparr>RequestTimeout = 0, RequestTimeoutHandlers = [], Callbacks = [], AccessLogFunc = None, ErrorLogFunc = None,
      ErrorHandlerFunc = None, RecoveryLogFunc = None, RecoveryHandlerFunc = None, PanicHandlerFunc = None,
      TypeNegotiatorOpt = None, SlashRemoverOpt = None, LanguageNegotiatorOpt = None, CorsOpt = None,
      RouteProviders = None\<rparr>"

definition ServerRouterRequestTimeoutHandlers :: "nat list \<Rightarrow> ServerRouterOption" where
  "ServerRouterRequestTimeoutHandlers hs options = options\<lparr>RequestTimeoutHandlers := hs\<rparr>"
definition ServerRouterRequestTimeout :: "(string \<Rightarrow> int option) \<Rightarrow> string \<Rightarrow> ServerRouterOption" where
  "ServerRouterRequestTimeout parse t options =
     (case parse t of Some d \<Rightarrow> options\<lparr>RequestTimeout := d\<rparr> | None \<Rightarrow> options)"
definition ServerRouterCallback :: "nat list \<Rightarrow> ServerRouterOption" where
  "ServerRouterCallback cs options = options\<lparr>Callbacks := cs\<rparr>"
definition ServerRouterAccessLogFunc :: "nat option \<Rightarrow> ServerRouterOption" where
  "ServerRouterAccessLogFunc f options = options\<lparr>AccessLogFunc := f\<rparr>"
definition ServerRouterErrorLogFunc :: "nat option \<Rightarrow> ServerRouterOption" where
  "ServerRouterErrorLogFunc f options = options\<lparr>ErrorLogFunc := f\<rparr>"
definition ServerRouterErrorHandler :: "nat option \<Rightarrow> ServerRouterOption" where
  "ServerRouterErrorHandler f options = options\<lparr>ErrorHandlerFunc := f\<rparr>"
definition ServerRouterPanicHandler :: "nat option \<Rightarrow> ServerRouterOption" where
  "ServerRouterPanicHandler f options = options\<lparr>PanicHandlerFunc := f\<rparr>"
definition ServerRouterRecoveryLogFunc :: "nat option \<Rightarrow> ServerRouterOption" where
  "ServerRouterRecoveryLogFunc f options = options\<lparr>RecoveryLogFunc := f\<rparr>"
definition ServerRouterRecoveryHandler :: "nat option \<Rightarrow> ServerRouterOption" where
  "ServerRouterRecoveryHandler f options = options\<lparr>RecoveryHandlerFunc := f\<rparr>"
definition ServerRouterTypeNegotiator :: "string list option \<Rightarrow> ServerRouterOption" where
  "ServerRouterTypeNegotiator ts options = options\<lparr>TypeNegotiatorOpt := ts\<rparr>"
definition ServerRouterSlashRemover :: "int option \<Rightarrow> ServerRouterOption" where
  "ServerRouterSlashRemover n options = options\<lparr>SlashRemoverOpt := n\<rparr>"
definition ServerRouterLanguageNegotiator :: "string list option \<Rightarrow> ServerRouterOption" where
  "ServerRouterLanguageNegotiator ls options = options\<lparr>LanguageNegotiatorOpt := ls\<rparr>"
definition ServerRouterCors :: "nat option \<Rightarrow> ServerRouterOption" where
  "ServerRouterCors c options = (case c of Some v \<Rightarrow> options\<lparr>CorsOpt := Some v\<rparr> | None \<Rightarrow> options)"
definition ServerRouterRouteProviders :: "nat option \<Rightarrow> ServerRouterOption" where
  "ServerRouterRouteProviders p options = options\<lparr>RouteProviders := p\<rparr>"

text \<open>
  \<^verbatim>\<open>ServerRouter.Resolve\<close>: the handlers it appends to the router's startup and anterior lists, in the
  order of the calls. \<open>Default\<close> stands for the functions of \<^verbatim>\<open>defaults.go\<close>, \<open>defaultTypes\<close> for the four
  media types of the router package.
\<close>

datatype log_func = Default | Custom nat

datatype startup_handler =
    AccessLogger log_func
  | ErrorHandler log_func "nat option"
  | PanicHandler log_func
  | RecoveryHandler log_func "nat option"
  | TypeNegotiator "string list"
  | SlashRemover int
  | LanguageNegotiator "string list"
  | Cors nat
  | TimeoutHandler int
  | CallbackHandler nat

definition fault_handler ::
    "(log_func \<Rightarrow> nat option \<Rightarrow> startup_handler) \<Rightarrow> nat option \<Rightarrow> nat option \<Rightarrow> startup_handler list" where
  "fault_handler mk logf errorf =
     (case logf of
        Some l \<Rightarrow> (case errorf of Some h \<Rightarrow> [mk (Custom l) (Some h)] | None \<Rightarrow> [mk (Custom l) None])
      | None \<Rightarrow> (case errorf of Some h \<Rightarrow> [mk Default (Some h)] | None \<Rightarrow> []))"

definition ServerRouter_Resolve :: "string list \<Rightarrow> ServerRouterOptions \<Rightarrow> nat list \<Rightarrow> startup_handler list \<times> nat list" where
  "ServerRouter_Resolve defaultTypes o1 middlewares =
     ([AccessLogger (case AccessLogFunc o1 of Some f \<Rightarrow> Custom f | None \<Rightarrow> Default)]
      @ fault_handler ErrorHandler (ErrorLogFunc o1) (ErrorHandlerFunc o1)
      @ [PanicHandler (case PanicHandlerFunc o1 of Some f \<Rightarrow> Custom f | None \<Rightarrow> Default)]
      @ fault_handler RecoveryHandler (RecoveryLogFunc o1) (RecoveryHandlerFunc o1)
      @ [TypeNegotiator (case TypeNegotiatorOpt o1 of Some ts \<Rightarrow> ts | None \<Rightarrow> defaultTypes)]
      @ (case SlashRemoverOpt o1 of Some n \<Rightarrow> [SlashRemover n] | None \<Rightarrow> [])
      @ (case LanguageNegotiatorOpt o1 of Some ls \<Rightarrow> [LanguageNegotiator ls] | None \<Rightarrow> [])
      @ (case CorsOpt o1 of Some c \<Rightarrow> [Cors c] | None \<Rightarrow> [])
      @ (if 0 < RequestTimeout o1 then [TimeoutHandler (RequestTimeout o1)] else [])
      @ map CallbackHandler (Callbacks o1),
      middlewares)"

text \<open>\<^verbatim>\<open>SetReuqestSlashRemover\<close> and \<^verbatim>\<open>SetServerReuqestCors\<close> append directly; \<open>allowAll\<close> is \<^verbatim>\<open>CorsAllowAll\<close>.\<close>

definition SetReuqestSlashRemover :: "int \<Rightarrow> startup_handler list \<Rightarrow> startup_handler list" where
  "SetReuqestSlashRemover status hs = (if status = 301 \<or> status = 302 then hs @ [SlashRemover status] else hs)"

definition SetServerReuqestCors :: "nat \<Rightarrow> nat option \<Rightarrow> startup_handler list \<Rightarrow> startup_handler list" where
  "SetServerReuqestCors allowAll c hs = hs @ [Cors (case c of Some v \<Rightarrow> v | None \<Rightarrow> allowAll)]"

subsection \<open>Routes\<close>

record ServerBasicAuth =
  Username :: string
  Password :: string

record ServerRouterProxy =
  px_Host :: "string list"
  px_Group :: string
  px_Path :: string
  px_Upstream :: string

record ServerRouterMetrics =
  mt_Host :: "string list"
  mt_Group :: string
  mt_BasicAuth :: "ServerBasicAuth option"

record ServerRouterPprof =
  pp_Host :: "string list"
  pp_BasicAuth :: "ServerBasicAuth option"

datatype handler = ApiHandler nat | MetricsHandler | PprofHandler string | ProxyHandler ServerRouterProxy

record ServerRouterRoute =
  rt_Host :: "string list"
  rt_Group :: string
  rt_Method :: "string list"
  rt_Path :: string
  rt_BasicAuth :: "ServerBasicAuth option"
  rt_Handlers :: "handler option list"

record routeHandler =
  rh_Host :: "string list"
  rh_BasicAuth :: "ServerBasicAuth option"
  rh_Handler :: handler

record ServerRouter =
  rOptions :: ServerRouterOptions
  rMiddlewares :: "nat list"
  Metrics :: "ServerRouterMetrics option"
  Pprof :: "ServerRouterPprof option"
  Proxys :: "ServerRouterProxy option list"
  Routes :: "ServerRouterRoute option list"

definition NewServerRouter :: "ServerRouterOption list \<Rightarrow> ServerRouter" where
  "NewServerRouter setters =
     \<lparr>rOptions = fold (\<lambda>setter o1. setter o1) setters empty_ServerRouterOptions, rMiddlewares = [],
      Metrics = None, Pprof = None, Proxys = [], Routes = []\<rparr>"

text \<open>\<^verbatim>\<open>WithMiddlewares\<close>, as \<^verbatim>\<open>NewServer\<close> calls it.\<close>

definition WithMiddlewares :: "nat list \<Rightarrow> ServerRouter \<Rightarrow> ServerRouter" where
  "WithMiddlewares ms r = r\<lparr>rMiddlewares := ms\<rparr>"

definition add_method_route ::
    "string \<Rightarrow> string list \<Rightarrow> string \<Rightarrow> string \<Rightarrow> handler option list \<Rightarrow> ServerRouter \<Rightarrow> ServerRouter" where
  "add_method_route method host grp path handlers r =
     r\<lparr>Routes := Routes r @ [Some \<lparr>rt_Host = host, rt_Group = grp, rt_Method = [method], rt_Path = path,
                                   rt_BasicAuth = None, rt_Handlers = handlers\<rparr>]\<rparr>"

definition Server_Get :: "string list \<Rightarrow> string \<Rightarrow> string \<Rightarrow> handler option list \<Rightarrow> ServerRouter \<Rightarrow> ServerRouter" where
  "Server_Get = add_method_route ''GET''"
definition Server_Post :: "string list \<Rightarrow> string \<Rightarrow> string \<Rightarrow> handler option list \<Rightarrow> ServerRouter \<Rightarrow> ServerRouter" where
  "Server_Post = add_method_route ''POST''"
definition Server_Put :: "string list \<Rightarrow> string \<Rightarrow> string \<Rightarrow> handler option list \<Rightarrow> ServerRouter \<Rightarrow> ServerRouter" where
  "Server_Put = add_method_route ''PUT''"
definition Server_Patch :: "string list \<Rightarrow> string \<Rightarrow> string \<Rightarrow> handler option list \<Rightarrow> ServerRouter \<Rightarrow> ServerRouter" where
  "Server_Patch = add_method_route ''PATCH''"
definition Server_Delete :: "string list \<Rightarrow> string \<Rightarrow> string \<Rightarrow> handler option list \<Rightarrow> ServerRouter \<Rightarrow> ServerRouter" where
  "Server_Delete = add_method_route ''DELETE''"
definition Server_Connect :: "string list \<Rightarrow> string \<Rightarrow> string \<Rightarrow> handler option list \<Rightarrow> ServerRouter \<Rightarrow> ServerRouter" where
  "Server_Connect = add_method_route ''CONNECT''"
definition Server_Options :: "string list \<Rightarrow> string \<Rightarrow> string \<Rightarrow> handler option list \<Rightarrow> ServerRouter \<Rightarrow> ServerRouter" where
  "Server_Options = add_method_route ''OPTIONS''"
definition Server_Trace :: "string list \<Rightarrow> string \<Rightarrow> string \<Rightarrow> handler option list \<Rightarrow> ServerRouter \<Rightarrow> ServerRouter" where
  "Server_Trace = add_method_route ''TRACE''"

definition Server_Proxy :: "string list \<Rightarrow> string \<Rightarrow> string \<Rightarrow> string \<Rightarrow> ServerRouter \<Rightarrow> ServerRouter" where
  "Server_Proxy host grp path upstream r =
     r\<lparr>Proxys := Proxys r @ [Some \<lparr>px_Host = host, px_Group = grp, px_Path = path, px_Upstream = upstream\<rparr>]\<rparr>"
definition Server_Pprof :: "string list \<Rightarrow> ServerBasicAuth option \<Rightarrow> ServerRouter \<Rightarrow> ServerRouter" where
  "Server_Pprof host auth r = r\<lparr>Pprof := Some \<lparr>pp_Host = host, pp_BasicAuth = auth\<rparr>\<rparr>"
definition Server_Metrics :: "string list \<Rightarrow> string \<Rightarrow> ServerBasicAuth option \<Rightarrow> ServerRouter \<Rightarrow> ServerRouter" where
  "Server_Metrics host grp auth r = r\<lparr>Metrics := Some \<lparr>mt_Host = host, mt_Group = grp, mt_BasicAuth = auth\<rparr>\<rparr>"

subsection \<open>The mesh\<close>

type_synonym mesh_call = "string \<times> string \<times> string \<times> routeHandler"
type_synonym mesh_key = "string \<times> string \<times> string"

definition addMesh ::
    "mesh_call \<Rightarrow> (mesh_key \<Rightarrow> routeHandler list option) \<times> string list \<Rightarrow> (mesh_key \<Rightarrow> routeHandler list option) \<times> string list" where
  "addMesh call st =
     (case call of (method0, grp, path, h) \<Rightarrow> case st of (mesh, sortedMesh) \<Rightarrow>
        let method = ToUpper method0; key = (method, grp, path) in
        (case mesh key of
           None \<Rightarrow> (mesh(key \<mapsto> [h]), sortedMesh @ [method @ ''$'' @ grp @ ''$'' @ path])
         | Some hs \<Rightarrow> (mesh(key \<mapsto> hs @ [h]), sortedMesh)))"

definition metrics_calls :: "ServerRouter \<Rightarrow> mesh_call list" where
  "metrics_calls r =
     (case Metrics r of
        None \<Rightarrow> []
      | Some m \<Rightarrow> [(''GET'', mt_Group m, '''',
                    \<lparr>rh_Host = mt_Host m, rh_BasicAuth = mt_BasicAuth m, rh_Handler = MetricsHandler\<rparr>)])"

definition pprof_calls :: "ServerRouter \<Rightarrow> mesh_call list" where
  "pprof_calls r =
     (case Pprof r of
        None \<Rightarrow> []
      | Some p \<Rightarrow>
          map (\<lambda>(path, f). (''ANY'', ''/debug/pprof'', path,
                 \<lparr>rh_Host = pp_Host p, rh_BasicAuth = pp_BasicAuth p, rh_Handler = PprofHandler f\<rparr>))
            [(''*'', ''Index''), (''/cmdline'', ''Cmdline''), (''/profile'', ''Profile''),
             (''/symbol'', ''Symbol''), (''/trace'', ''Trace'')])"

text \<open>The calls for one method of a route; the bounds test is the code's \<^verbatim>\<open>len(Handlers) < index\<close>.\<close>

definition method_calls ::
    "ServerRouterProxy option list \<Rightarrow> ServerRouterRoute \<Rightarrow> nat \<Rightarrow> string \<Rightarrow> mesh_call list outcome" where
  "method_calls proxys route index method =
     (if length (rt_Handlers route) < index then Inr []
      else (case at_index (rt_Handlers route) index of
              Inl p \<Rightarrow> Inl p
            | Inr None \<Rightarrow> Inr []
            | Inr (Some h) \<Rightarrow>
                Inr (concat (map (\<lambda>px. case px of
                                None \<Rightarrow> []
                              | Some proxy \<Rightarrow>
                                  if px_Group proxy = rt_Group route \<and> px_Path proxy = rt_Path route
                                  then [(method, px_Group proxy, px_Path proxy,
                                         \<lparr>rh_Host = px_Host proxy, rh_BasicAuth = None, rh_Handler = ProxyHandler proxy\<rparr>)]
                                  else []) proxys)
                     @ [(method, rt_Group route, rt_Path route,
                         \<lparr>rh_Host = rt_Host route, rh_BasicAuth = rt_BasicAuth route, rh_Handler = h\<rparr>)])))"

fun methods_calls ::
    "ServerRouterProxy option list \<Rightarrow> ServerRouterRoute \<Rightarrow> nat \<Rightarrow> string list \<Rightarrow> mesh_call list outcome" where
  "methods_calls proxys route index [] = Inr []"
| "methods_calls proxys route index (m # ms) =
     (case method_calls proxys route index m of
        Inl p \<Rightarrow> Inl p
      | Inr cs \<Rightarrow> (case methods_calls proxys route (Suc index) ms of Inl p \<Rightarrow> Inl p | Inr ds \<Rightarrow> Inr (cs @ ds)))"

text \<open>A nil route ends \<^verbatim>\<open>Startup\<close> with an error: the inner \<open>None\<close>.\<close>

fun routes_calls :: "ServerRouterProxy option list \<Rightarrow> ServerRouterRoute option list \<Rightarrow> mesh_call list option outcome" where
  "routes_calls proxys [] = Inr (Some [])"
| "routes_calls proxys (None # rs) = Inr None"
| "routes_calls proxys (Some r # rs) =
     (case methods_calls proxys r 0 (rt_Method r) of
        Inl p \<Rightarrow> Inl p
      | Inr cs \<Rightarrow>
          (case routes_calls proxys rs of
             Inl p \<Rightarrow> Inl p
           | Inr None \<Rightarrow> Inr None
           | Inr (Some ds) \<Rightarrow> Inr (Some (cs @ ds))))"

definition proxy_calls :: "ServerRouterProxy option list \<Rightarrow> mesh_call list" where
  "proxy_calls proxys =
     concat (map (\<lambda>px. case px of
                None \<Rightarrow> []
              | Some proxy \<Rightarrow> [(''ANY'', px_Group proxy, px_Path proxy,
                  \<lparr>rh_Host = px_Host proxy, rh_BasicAuth = None, rh_Handler = ProxyHandler proxy\<rparr>)]) proxys)"

text \<open>What the server hands to the router: method (\<open>None\<close> for any), group, path, merged handlers.\<close>

type_synonym registration = "string option \<times> string \<times> string \<times> routeHandler list"

definition register_key :: "(mesh_key \<Rightarrow> routeHandler list option) \<Rightarrow> string \<Rightarrow> registration outcome" where
  "register_key mesh meshKey =
     (case split_n 3 CHR ''$'' meshKey of
        [m, g, p] \<Rightarrow>
          Inr (if ToLower m = ''any'' then None else Some m, g, p,
               case mesh (m, g, p) of None \<Rightarrow> [] | Some hs \<Rightarrow> hs)
      | _ \<Rightarrow> Inl IndexOutOfRange)"

fun register_keys :: "(mesh_key \<Rightarrow> routeHandler list option) \<Rightarrow> string list \<Rightarrow> registration list outcome" where
  "register_keys mesh [] = Inr []"
| "register_keys mesh (k # ks) =
     (case register_key mesh k of
        Inl p \<Rightarrow> Inl p
      | Inr r \<Rightarrow> (case register_keys mesh ks of Inl p \<Rightarrow> Inl p | Inr rs \<Rightarrow> Inr (r # rs)))"

definition server_registrations :: "ServerRouter \<Rightarrow> registration list option outcome" where
  "server_registrations r =
     (if Routes r = [] then Inr (Some [])
      else (case routes_calls (Proxys r) (Routes r) of
              Inl p \<Rightarrow> Inl p
            | Inr None \<Rightarrow> Inr None
            | Inr (Some cs) \<Rightarrow>
                (case fold addMesh (metrics_calls r @ pprof_calls r @ cs @ proxy_calls (Proxys r)) (Map.empty, []) of
                   (mesh, keys) \<Rightarrow> (case register_keys mesh keys of Inl p \<Rightarrow> Inl p | Inr rs \<Rightarrow> Inr (Some rs)))))"

subsection \<open>Serving a request\<close>

text \<open>
  \<^verbatim>\<open>genHandlerFunc\<close>: the first handler with a matching host is served, with the credentials the
  handler sets on the request; \<open>None\<close> is \<^verbatim>\<open>routing.NotFoundHandler\<close>.
\<close>

fun first_host :: "string list \<Rightarrow> string \<Rightarrow> bool outcome" where
  "first_host [] host = Inr False"
| "first_host (h # hs) host =
     (case WildcardMatch h host of Inl p \<Rightarrow> Inl p | Inr True \<Rightarrow> Inr True | Inr False \<Rightarrow> first_host hs host)"

fun serve_list :: "routeHandler list \<Rightarrow> string \<Rightarrow> (handler \<times> ServerBasicAuth option) option outcome" where
  "serve_list [] host = Inr None"
| "serve_list (r # rs) host =
     (case first_host (rh_Host r) host of
        Inl p \<Rightarrow> Inl p
      | Inr True \<Rightarrow> Inr (Some (rh_Handler r, rh_BasicAuth r))
      | Inr False \<Rightarrow> serve_list rs host)"

definition genHandlerFunc ::
    "routeHandler list \<Rightarrow> string \<Rightarrow> string \<Rightarrow> (handler \<times> ServerBasicAuth option) option outcome" where
  "genHandlerFunc rs requestHost urlHost = serve_list rs (if requestHost = '''' then urlHost else requestHost)"

text \<open>\<^verbatim>\<open>ServerRouteGroup.AddApiRoute\<close> holds a second copy of the same search.\<close>

definition AddApiRoute ::
    "routeHandler list \<Rightarrow> string \<Rightarrow> string \<Rightarrow> (handler \<times> ServerBasicAuth option) option outcome" where
  "AddApiRoute handlerRoutes requestHost urlHost =
     serve_list handlerRoutes (if requestHost = '''' then urlHost else requestHost)"

text \<open>
  \<^verbatim>\<open>ServerRouteGroup.AddRoute\<close>: the method under which the router gets the route, \<open>None\<close> for
  \<^verbatim>\<open>Any\<close>; an unknown method is passed on as it is written.
\<close>

definition AddRoute_method :: "string \<Rightarrow> string option" where
  "AddRoute_method method =
     (let m = ToUpper method in
      if m \<in> {''GET'', ''POST'', ''PUT'', ''PATCH'', ''DELETE'', ''CONNECT'', ''HEAD'', ''OPTIONS'', ''TRACE''} then Some m
      else if m = ''ANY'' then None
      else Some method)"

text \<open>
  \<^verbatim>\<open>Server.AddRoute\<close> looks a group up by the parts of the path and calls it; a missing group is a nil
  pointer. The result is the method, the path with the first occurrence of the prefix removed.
\<close>

definition Server_AddRoute :: "string list \<Rightarrow> string \<Rightarrow> string \<Rightarrow> (string \<times> string option \<times> string) outcome" where
  "Server_AddRoute routeGroups method path =
     (let prefix1 = (case find (\<lambda>p. p \<in> set routeGroups) (split_on CHR ''/'' path) of Some p \<Rightarrow> p | None \<Rightarrow> ''/'')
      in if prefix1 \<in> set routeGroups
         then Inr (prefix1, AddRoute_method method, replace_first prefix1 '''' path)
         else Inl NilDereference)"

text \<open>
  The handlers that \<^verbatim>\<open>AddCallback\<close> and \<^verbatim>\<open>AddMiddlewares\<close> install, around the rest of the chain: the
  events of a request and whether an error comes back. An error of a callback is dropped.
\<close>

datatype request_event =
  CallbackStartup nat | CallbackShutdown nat | RequestStartup nat | RequestShutdown nat | Handled

definition AddCallback :: "nat \<Rightarrow> request_event list \<times> bool \<Rightarrow> request_event list \<times> bool" where
  "AddCallback c nxt = (CallbackStartup c # fst nxt @ [CallbackShutdown c], snd nxt)"

definition AddMiddlewares :: "(nat \<Rightarrow> bool) \<Rightarrow> nat \<Rightarrow> request_event list \<times> bool \<Rightarrow> request_event list \<times> bool" where
  "AddMiddlewares fails m nxt =
     (if fails m then ([RequestStartup m, RequestShutdown m], True)
      else (RequestStartup m # fst nxt @ [RequestShutdown m], snd nxt))"

definition run_chain :: "(nat \<Rightarrow> bool) \<Rightarrow> nat list \<Rightarrow> nat list \<Rightarrow> bool \<Rightarrow> request_event list \<times> bool" where
  "run_chain fails cs ms handlerError =
     foldr AddCallback cs (foldr (AddMiddlewares fails) ms ([Handled], handlerError))"

subsection \<open>Proxying\<close>

definition word_char :: "char \<Rightarrow> bool" where
  "word_char c = (is_upper c \<or> is_lower c \<or> c = CHR ''_'' \<or> (48 \<le> (of_char c :: nat) \<and> of_char c \<le> (57 :: nat)))"

text \<open>Does the regular expression \<^verbatim>\<open><:(\w+)>\<close> match somewhere?\<close>

fun has_placeholder :: "string \<Rightarrow> bool" where
  "has_placeholder [] = False"
| "has_placeholder (c # cs) =
     ((c = CHR ''<'' \<and> cs \<noteq> [] \<and> hd cs = CHR '':'' \<and>
       (let ws = takeWhile word_char (tl cs) in ws \<noteq> [] \<and> prefix ''>'' (drop (length ws) (tl cs))))
      \<or> has_placeholder cs)"

text \<open>
  \<^verbatim>\<open>ServerRouterProxy.Serve\<close> up to the parsing of the upstream URL: the expression has no named
  group, so the captures are the four fixed ones; \<open>order\<close> is the order of the map. \<open>None\<close> is the
  error for an upstream without a placeholder.
\<close>

definition proxy_path :: "ServerRouterProxy \<Rightarrow> string \<Rightarrow> string \<Rightarrow> string" where
  "proxy_path sp urlPath rawPath = TrimLeft (if urlPath = '''' then rawPath else urlPath) (px_Group sp)"

definition proxy_upstream ::
    "((string \<times> string) list \<Rightarrow> (string \<times> string) list) \<Rightarrow> ServerRouterProxy \<Rightarrow> string \<Rightarrow> string \<Rightarrow> string \<Rightarrow> string \<Rightarrow> string option" where
  "proxy_upstream order sp urlPath rawPath fragment query =
     (if \<not> has_placeholder (px_Upstream sp) then None
      else (let captures = [(''fragment'', fragment), (''query'', query),
                            (''path'', proxy_path sp urlPath rawPath), (''group'', px_Group sp)]
            in Some (fold (\<lambda>(name, capture) up. replace_all (''<:'' @ name @ ''>'') capture up)
                       (order captures) (px_Upstream sp))))"

subsection \<open>Correctness of the mesh\<close>

definition firsts :: "'a list \<Rightarrow> 'a list" where
  "firsts xs = rev (remdups (rev xs))"

lemma firsts_simps [simp]: "firsts [] = []" "set (firsts xs) = set xs" "distinct (firsts xs)"
  by (simp_all add: firsts_def)

lemma firsts_snoc: "firsts (xs @ [x]) = (if x \<in> set xs then firsts xs else firsts xs @ [x])"
  by (simp add: firsts_def)

definition call_key :: "mesh_call \<Rightarrow> mesh_key" where
  "call_key c = (case c of (m, g, p, h) \<Rightarrow> (ToUpper m, g, p))"

definition call_handler :: "mesh_call \<Rightarrow> routeHandler" where
  "call_handler c = (case c of (m, g, p, h) \<Rightarrow> h)"

definition key_text :: "mesh_key \<Rightarrow> string" where
  "key_text k = (case k of (m, g, p) \<Rightarrow> m @ ''$'' @ g @ ''$'' @ p)"

definition handlers_of :: "mesh_call list \<Rightarrow> mesh_key \<Rightarrow> routeHandler list" where
  "handlers_of cs k = map call_handler (filter (\<lambda>c. call_key c = k) cs)"

lemma handlers_of_None: "handlers_of cs k = [] \<longleftrightarrow> k \<notin> call_key ` set cs"
  by (auto simp: handlers_of_def filter_empty_conv)

lemma addMesh_eq:
  "addMesh c (mesh, ks) =
     (case mesh (call_key c) of
        None \<Rightarrow> (mesh(call_key c \<mapsto> [call_handler c]), ks @ [key_text (call_key c)])
      | Some hs \<Rightarrow> (mesh(call_key c \<mapsto> hs @ [call_handler c]), ks))"
  by (cases c) (auto simp: addMesh_def call_key_def call_handler_def key_text_def Let_def split: option.split)

lemma addMesh_fold:
  "fold addMesh cs (Map.empty, []) =
     (\<lambda>k. if handlers_of cs k = [] then None else Some (handlers_of cs k), map key_text (firsts (map call_key cs)))"
proof (induction cs rule: rev_induct)
  case Nil
  then show ?case by (simp add: handlers_of_def)
next
  case (snoc c cs)
  let ?k = "call_key c"
  have h: "handlers_of (cs @ [c]) k = handlers_of cs k @ (if k = ?k then [call_handler c] else [])" for k
    by (simp add: handlers_of_def)
  have step: "addMesh c (\<lambda>k. if handlers_of cs k = [] then None else Some (handlers_of cs k), ks) =
     (\<lambda>k. if handlers_of (cs @ [c]) k = [] then None else Some (handlers_of (cs @ [c]) k),
      if handlers_of cs ?k = [] then ks @ [key_text ?k] else ks)" for ks
    by (auto simp: addMesh_eq h fun_eq_iff)
  have keys: "map key_text (firsts (map call_key (cs @ [c]))) =
     (if handlers_of cs ?k = [] then map key_text (firsts (map call_key cs)) @ [key_text ?k]
      else map key_text (firsts (map call_key cs)))"
    using handlers_of_None [of cs ?k] by (simp add: firsts_snoc)
  show ?case by (simp add: snoc.IH step keys del: map_append)
qed

lemma register_key_ok:
  assumes "CHR ''$'' \<notin> set m" and "CHR ''$'' \<notin> set g"
  shows "register_key mesh (key_text (m, g, p)) =
           Inr (if ToLower m = ''any'' then None else Some m, g, p, case mesh (m, g, p) of None \<Rightarrow> [] | Some hs \<Rightarrow> hs)"
proof -
  have "split_n 3 CHR ''$'' (m @ CHR ''$'' # g @ CHR ''$'' # p) = [m, g, p]"
    using split_n_sep [OF assms(1), of 1 "g @ CHR ''$'' # p"] split_n_sep [OF assms(2), of 0 p]
    by (simp add: numeral_3_eq_3)
  then show ?thesis by (simp add: register_key_def key_text_def)
qed

lemma register_keys_ok:
  assumes "\<forall>(m, g, p) \<in> set ks. CHR ''$'' \<notin> set m \<and> CHR ''$'' \<notin> set g"
  shows "register_keys mesh (map key_text ks) =
           Inr (map (\<lambda>(m, g, p). (if ToLower m = ''any'' then None else Some m, g, p,
                                  case mesh (m, g, p) of None \<Rightarrow> [] | Some hs \<Rightarrow> hs)) ks)"
  using assms by (induction ks) (auto simp: register_key_ok)

lemma key_text_split: "\<exists>m g p. split_n 3 CHR ''$'' (key_text k) = [m, g, p]"
proof -
  have "2 \<le> count_list (key_text k) CHR ''$''"
    by (cases k) (simp add: key_text_def count_list_append)
  then have "length (split_n 3 CHR ''$'' (key_text k)) = 3"
    using split_n_count [of 2 "CHR ''$''" "key_text k"] by (simp add: numeral_3_eq_3)
  then show ?thesis by (auto simp: numeral_3_eq_3 length_Suc_conv)
qed

lemma register_keys_total: "\<exists>rs. register_keys mesh (map key_text ks) = Inr rs"
proof (induction ks)
  case (Cons k ks)
  obtain m g p where "split_n 3 CHR ''$'' (key_text k) = [m, g, p]" using key_text_split [of k] by blast
  with Cons show ?case by (auto simp: register_key_def)
qed simp

subsection \<open>Routes without a handler\<close>

definition too_few_handlers :: "ServerRouterRoute option \<Rightarrow> bool" where
  "too_few_handlers r = (case r of None \<Rightarrow> False | Some rt \<Rightarrow> length (rt_Handlers rt) < length (rt_Method rt))"

lemma method_calls_panic:
  "method_calls proxys rt i m = Inl p \<longleftrightarrow> p = IndexOutOfRange \<and> length (rt_Handlers rt) = i"
  by (auto simp: method_calls_def at_index_def split: option.splits)

lemma methods_calls_panic:
  "i \<le> length (rt_Handlers rt) \<Longrightarrow>
   methods_calls proxys rt i ms = Inl p \<longleftrightarrow> p = IndexOutOfRange \<and> length (rt_Handlers rt) < i + length ms"
proof (induction ms arbitrary: i)
  case (Cons m ms)
  show ?case
  proof (cases "length (rt_Handlers rt) = i")
    case True
    then have "method_calls proxys rt i m = Inl IndexOutOfRange" by (simp add: method_calls_panic)
    with True show ?thesis by auto
  next
    case False
    then obtain cs where "method_calls proxys rt i m = Inr cs"
      using method_calls_panic [of proxys rt i m] by (cases "method_calls proxys rt i m") auto
    then have "methods_calls proxys rt i (m # ms) = Inl p \<longleftrightarrow> methods_calls proxys rt (Suc i) ms = Inl p"
      by (auto split: sum.splits)
    moreover have "Suc i \<le> length (rt_Handlers rt)" using False Cons.prems by simp
    ultimately show ?thesis using Cons.IH by simp
  qed
qed simp

lemma routes_calls_panic:
  "routes_calls proxys rs = Inl p \<longleftrightarrow>
     p = IndexOutOfRange \<and> (\<exists>rt \<in> set (takeWhile (\<lambda>r. r \<noteq> None) rs). too_few_handlers rt)"
proof (induction proxys rs rule: routes_calls.induct)
  case (3 proxys r rs)
  show ?case
  proof (cases "methods_calls proxys r 0 (rt_Method r)")
    case (Inl q)
    then show ?thesis using methods_calls_panic [of 0 r proxys "rt_Method r" q] by (auto simp: too_few_handlers_def)
  next
    case (Inr cs)
    then have "\<not> too_few_handlers (Some r)"
      using methods_calls_panic [of 0 r proxys "rt_Method r" IndexOutOfRange] by (auto simp: too_few_handlers_def)
    with 3 [OF Inr] Inr show ?thesis by (auto split: sum.splits option.splits)
  qed
qed simp_all

subsection \<open>Dispatch\<close>

definition host_matches :: "string \<Rightarrow> routeHandler \<Rightarrow> bool" where
  "host_matches host r = (\<exists>h \<in> set (rh_Host r). wild_spec h host)"

lemma first_host_eq: "first_host hs host = Inr (\<exists>h \<in> set hs. wild_spec h host)"
proof (induction hs)
  case (Cons h hs)
  have "WildcardMatch h host = Inr (wild_spec h host)"
    by (auto simp: WildcardMatch_def deepMatchRune_no_question wild_spec_star)
  with Cons show ?case by (cases "wild_spec h host") simp_all
qed simp

lemma serve_list_eq:
  "serve_list rs host = Inr (map_option (\<lambda>r. (rh_Handler r, rh_BasicAuth r)) (find (host_matches host) rs))"
proof (induction rs)
  case (Cons r rs)
  then show ?case by (cases "host_matches host r") (simp_all add: first_host_eq host_matches_def)
qed simp

lemma find_map: "find P (map f xs) = map_option f (find (P \<circ> f) xs)"
  by (induction xs) simp_all

lemma find_filter: "find P (filter Q xs) = find (\<lambda>x. Q x \<and> P x) xs"
  by (induction xs) auto

lemma ToUpper_any: "ToLower (ToUpper m) = ''any'' \<longleftrightarrow> ToUpper m = ''ANY''"
proof
  assume "ToLower (ToUpper m) = ''any''"
  then have "ToUpper (ToLower (ToUpper m)) = ToUpper ''any''" by (rule arg_cong)
  moreover have "ToUpper ''any'' = ''ANY''" by code_simp
  ultimately show "ToUpper m = ''ANY''" by simp
next
  have "ToLower ''ANY'' = ''any''" by code_simp
  then show "ToUpper m = ''ANY'' \<Longrightarrow> ToLower (ToUpper m) = ''any''" by simp
qed

definition mesh_calls :: "ServerRouter \<Rightarrow> mesh_call list \<Rightarrow> mesh_call list" where
  "mesh_calls r cs = metrics_calls r @ pprof_calls r @ cs @ proxy_calls (Proxys r)"

definition route_of_call :: "mesh_call \<Rightarrow> string option \<times> string \<times> string" where
  "route_of_call c = (case call_key c of (m, g, p) \<Rightarrow> (if m = ''ANY'' then None else Some m, g, p))"

definition route_of :: "registration \<Rightarrow> string option \<times> string \<times> string" where
  "route_of reg = (case reg of (m, g, p, hs) \<Rightarrow> (m, g, p))"

definition clean_call :: "mesh_call \<Rightarrow> bool" where
  "clean_call c = (case c of (m, g, p, h) \<Rightarrow> CHR ''$'' \<notin> set (ToUpper m) \<and> CHR ''$'' \<notin> set g)"

definition key_route :: "mesh_key \<Rightarrow> string option \<times> string \<times> string" where
  "key_route k = (case k of (m, g, p) \<Rightarrow> (if m = ''ANY'' then None else Some m, g, p))"

lemma inj_key_route: "inj key_route"
  by (rule injI) (auto simp: key_route_def split: if_splits)

lemma route_of_call_key: "route_of_call c = key_route (call_key c)"
  by (simp add: route_of_call_def key_route_def)

lemma map_route_of_call: "map route_of_call cs = map key_route (map call_key cs)"
  by (simp add: route_of_call_key)

lemma firsts_map_inj: "inj f \<Longrightarrow> firsts (map f xs) = map f (firsts xs)"
  by (induction xs rule: rev_induct) (auto simp: firsts_snoc inj_image_mem_iff)

lemma server_registrations_eq:
  assumes "Routes r \<noteq> []" and cs: "routes_calls (Proxys r) (Routes r) = Inr (Some cs)"
    and clean: "\<forall>c \<in> set (mesh_calls r cs). clean_call c"
  shows "server_registrations r =
    Inr (Some (map (\<lambda>(m, g, p). (if ToLower m = ''any'' then None else Some m, g, p,
                                  handlers_of (mesh_calls r cs) (m, g, p)))
                 (firsts (map call_key (mesh_calls r cs)))))"
proof -
  let ?cs = "mesh_calls r cs"
  have "\<forall>(m, g, p) \<in> set (firsts (map call_key ?cs)). CHR ''$'' \<notin> set m \<and> CHR ''$'' \<notin> set g"
    using clean by (auto simp: clean_call_def call_key_def split: prod.splits)
  note reg = register_keys_ok [OF this]
  have handlers: "(case if handlers_of ?cs k = [] then None else Some (handlers_of ?cs k) of None \<Rightarrow> [] | Some hs \<Rightarrow> hs)
                  = handlers_of ?cs k" for k
    by simp
  show ?thesis
    using assms(1) cs
    by (simp add: server_registrations_def mesh_calls_def [symmetric] addMesh_fold reg handlers)
qed

lemma genHandlerFunc_handlers_of:
  "genHandlerFunc (handlers_of cs k) requestHost urlHost =
     Inr (map_option (\<lambda>c. (rh_Handler (call_handler c), rh_BasicAuth (call_handler c)))
       (find (\<lambda>c. call_key c = k \<and> host_matches (if requestHost = '''' then urlHost else requestHost) (call_handler c)) cs))"
  by (simp add: genHandlerFunc_def serve_list_eq handlers_of_def find_map find_filter option.map_comp comp_def)


definition demo_router :: ServerRouter where
  "demo_router =
     Server_Get [''*''] ''/g'' ''/p'' [Some (ApiHandler 2)]
       (Server_Get [''a.com''] ''/g'' ''/p'' [Some (ApiHandler 1)] (Server_Metrics [''*''] ''/m'' None (NewServerRouter [])))"

definition demo_calls :: "mesh_call list" where
  "demo_calls =
     [(''GET'', ''/g'', ''/p'', \<lparr>rh_Host = [''a.com''], rh_BasicAuth = None, rh_Handler = ApiHandler 1\<rparr>),
      (''GET'', ''/g'', ''/p'', \<lparr>rh_Host = [''*''], rh_BasicAuth = None, rh_Handler = ApiHandler 2\<rparr>)]"


text \<open>
  Registering the routes panics exactly when some route that precedes every nil route has
  fewer handlers than methods, and then with an index out of range.
\<close>

theorem missing_handler_panics:
  "server_registrations r = Inl p \<longleftrightarrow>
     p = IndexOutOfRange \<and> (\<exists>rt \<in> set (takeWhile (\<lambda>rt. rt \<noteq> None) (Routes r)). too_few_handlers rt)"
proof (cases "Routes r = []")
  case True
  then show ?thesis by (simp add: server_registrations_def)
next
  case False
  show ?thesis
  proof (cases "routes_calls (Proxys r) (Routes r)")
    case (Inl q)
    then have "server_registrations r = Inl q" using False by (simp add: server_registrations_def)
    with Inl show ?thesis using routes_calls_panic [of "Proxys r" "Routes r" p] by simp
  next
    case (Inr o1)
    then have "\<not> (\<exists>rt \<in> set (takeWhile (\<lambda>rt. rt \<noteq> None) (Routes r)). too_few_handlers rt)"
      using routes_calls_panic [of "Proxys r" "Routes r" IndexOutOfRange] by auto
    moreover have "server_registrations r \<noteq> Inl p"
    proof (cases o1)
      case None
      with False Inr show ?thesis by (simp add: server_registrations_def)
    next
      case (Some cs)
      let ?st = "fold addMesh (metrics_calls r @ pprof_calls r @ cs @ proxy_calls (Proxys r)) (Map.empty, [])"
      obtain rs where "register_keys (fst ?st) (snd ?st) = Inr rs"
        unfolding addMesh_fold snd_conv using register_keys_total by blast
      with False Inr Some show ?thesis by (simp add: server_registrations_def split_beta)
    qed
    ultimately show ?thesis by blast
  qed
qed

subsection \<open>The chain of a request\<close>

lemma foldr_middlewares:
  "foldr (AddMiddlewares fails) ms (es, b) =
     (if \<exists>m \<in> set ms. fails m
      then (let good = takeWhile (\<lambda>m. \<not> fails m) ms; bad = hd (dropWhile (\<lambda>m. \<not> fails m) ms)
            in (map RequestStartup (good @ [bad]) @ map RequestShutdown (rev (good @ [bad])), True))
      else (map RequestStartup ms @ es @ map RequestShutdown (rev ms), b))"
  by (induction ms) (auto simp: AddMiddlewares_def Let_def)

lemma foldr_callbacks:
  "foldr AddCallback cs (es, b) = (map CallbackStartup cs @ es @ map CallbackShutdown (rev cs), b)"
  by (induction cs) (simp_all add: AddCallback_def)


subsection \<open>The proxied path, server options, groups\<close>

lemma TrimLeft_group: "TrimLeft (g @ rest) g = TrimLeft rest g"
  by (simp add: TrimLeft_def dropWhile_append2)

lemma TrimLeft_same: "TrimLeft s g = s \<longleftrightarrow> s = [] \<or> hd s \<notin> set g"
proof (cases s)
  case (Cons c cs)
  have "length (dropWhile (\<lambda>c. c \<in> set g) cs) \<le> length cs" by (rule length_dropWhile_le)
  then have "dropWhile (\<lambda>c. c \<in> set g) cs \<noteq> c # cs" by auto
  with Cons show ?thesis by (simp add: TrimLeft_def)
qed (simp add: TrimLeft_def)

text \<open>
  The path a proxy puts into the upstream URL for a request below its group is the rest of
  the path after the group only when that rest is empty or starts with a byte that does not occur in the
  group: \<^verbatim>\<open>strings.TrimLeft\<close> removes a set of bytes, not a prefix.
\<close>

theorem proxy_path_exact:
  assumes "px_Group sp @ rest \<noteq> []"
  shows "proxy_path sp (px_Group sp @ rest) raw = rest \<longleftrightarrow> rest = [] \<or> hd rest \<notin> set (px_Group sp)"
  using assms by (auto simp: proxy_path_def TrimLeft_group TrimLeft_same)

theorem proxy_path_exact_witness:
  "let sp = \<lparr>px_Host = [''*''], px_Group = ''/api'', px_Path = ''*'', px_Upstream = ''http://b/<:path>''\<rparr>
   in proxy_path sp ''/api/apple'' '''' \<noteq> ''/apple''"
  using proxy_path_exact [of "\<lparr>px_Host = [''*''], px_Group = ''/api'', px_Path = ''*'', px_Upstream = ''http://b/<:path>''\<rparr>"
      "''/apple''" "''''"] by simp

text \<open>The writer given by the caller of \<^verbatim>\<open>NewServer\<close> never survives.\<close>

lemma NewServer_log_writer: "logWriter (snd (NewServer_options stdout engineWriter setters)) = engineWriter"
  by (simp add: NewServer_options_def ServerLogWriter_def apsnd_def map_prod_def split: prod.splits)

text \<open>No code adds a route group, so \<^verbatim>\<open>Server.AddRoute\<close> runs into a nil group.\<close>

lemma Server_AddRoute_panics: "Server_AddRoute [] method path = Inl NilDereference"
  by (simp add: Server_AddRoute_def Let_def)

text \<open>A resolved timeout that does not parse keeps the duration that was set.\<close>

lemma Server_Resolve_idem: "Server_Resolve parse (Server_Resolve parse s) = Server_Resolve parse s"
  by (simp add: Server_Resolve_def resolve_timeout_def split: option.splits)

end
