(* ===== verification/Engine.thy ===== *)
theory Engine
  imports Component_Sort Router Path_Util
begin

text \<open>
  \<^verbatim>\<open>src/ltick.go\<close>: the options of the engine, the loading of the configuration, and the life cycle
  \<^verbatim>\<open>New\<close>, \<^verbatim>\<open>Startup\<close>, \<^verbatim>\<open>Shutdown\<close>. The methods of components, middlewares and the callback are an
  argument; the engine logs the calls it makes of them. \<^verbatim>\<open>os.Exit(1)\<close> and a returned error are
  values. The goroutine that reloads the configuration and the listening servers are not modelled.
\<close>

subsection \<open>Options\<close>

record EngineOptions =
  configFile :: string
  dotenvFile :: string
  envPrefix :: string
  configs :: nat
  callback :: "nat option"
  eLogWriter :: nat

text \<open>A setter exits (\<open>None\<close>) when \<^verbatim>\<open>filepath.Abs\<close>, an argument, fails.\<close>

type_synonym EngineOption = "EngineOptions \<Rightarrow> EngineOptions option"

definition EngineConfigFile :: "(string \<Rightarrow> string option) \<Rightarrow> string \<Rightarrow> EngineOption" where
  "EngineConfigFile path_abs f options = map_option (\<lambda>p. options\<lparr>configFile := p\<rparr>) (path_abs f)"
definition EngineConfigDotenvFile :: "(string \<Rightarrow> string option) \<Rightarrow> string \<Rightarrow> EngineOption" where
  "EngineConfigDotenvFile path_abs f options = map_option (\<lambda>p. options\<lparr>dotenvFile := p\<rparr>) (path_abs f)"
definition EngineConfigEnvPrefix :: "string \<Rightarrow> EngineOption" where
  "EngineConfigEnvPrefix p options = Some (options\<lparr>envPrefix := p\<rparr>)"
definition EngineConfigConfigs :: "nat \<Rightarrow> EngineOption" where
  "EngineConfigConfigs cs options = Some (options\<lparr>configs := cs\<rparr>)"
definition EngineCallback :: "nat option \<Rightarrow> EngineOption" where
  "EngineCallback c options = Some (options\<lparr>callback := c\<rparr>)"
definition EngineLogWriter :: "nat \<Rightarrow> EngineOption" where
  "EngineLogWriter w options = Some (options\<lparr>eLogWriter := w\<rparr>)"

primrec apply_setters :: "EngineOption list \<Rightarrow> EngineOption" where
  "apply_setters [] o1 = Some o1"
| "apply_setters (s # ss) o1 = (case s o1 of None \<Rightarrow> None | Some o2 \<Rightarrow> apply_setters ss o2)"

subsection \<open>The engine\<close>

datatype State = STATE_INITIATE | STATE_STARTUP | STATE_SHUTDOWN

datatype phase = Prepare | Initiate | OnStartup | OnShutdown

datatype event = Comp phase nat | Mw nat | CallbackOnStartup nat | CallbackOnShutdown nat

text \<open>
  A server with what \<^verbatim>\<open>Startup\<close> hands to its router: startup handlers, anterior handlers and the
  registered routes.
\<close>

record Server =
  sOptions :: ServerOptions
  sRouter :: "ServerRouter option"
  sStartup :: "startup_handler list"
  sAnterior :: "nat list"
  sRegistered :: "registration list"

record Engine =
  options :: EngineOptions
  estate :: State
  registry :: Registry
  econtext :: nat
  cachedConfigFile :: string
  ServerMap :: "(string \<times> Server) list"
  calls :: "event list"

datatype fault = Exit | Failed

text \<open>
  The methods of the user's objects: from an event and the current context, whether it fails and
  the context it returns.
\<close>

type_synonym methods = "event \<Rightarrow> nat \<Rightarrow> bool \<times> nat option"

definition call :: "methods \<Rightarrow> event \<Rightarrow> Engine \<Rightarrow> bool \<times> Engine" where
  "call impl ev e =
     (let e1 = e\<lparr>calls := calls e @ [ev]\<rparr> in
      case impl ev (econtext e) of
        (True, ctx) \<Rightarrow> (True, e1)
      | (False, Some ctx) \<Rightarrow> (False, e1\<lparr>econtext := ctx\<rparr>)
      | (False, None) \<Rightarrow> (False, e1))"

text \<open>\<^verbatim>\<open>ComponentStates[key]\<close>: a missing key reads as the zero value.\<close>

definition state_of :: "Engine \<Rightarrow> string \<Rightarrow> ComponentState" where
  "state_of e key = (case ComponentStates (registry e) key of Some s \<Rightarrow> s | None \<Rightarrow> COMPONENT_STATE_INIT)"

definition set_state :: "string \<Rightarrow> ComponentState \<Rightarrow> Engine \<Rightarrow> Engine" where
  "set_state key s e = e\<lparr>registry := (registry e)\<lparr>ComponentStates := (ComponentStates (registry e))(key \<mapsto> s)\<rparr>\<rparr>"

fun phase_pre :: "phase \<Rightarrow> ComponentState" where
  "phase_pre Prepare = COMPONENT_STATE_INIT"
| "phase_pre Initiate = COMPONENT_STATE_PREPARED"
| "phase_pre OnStartup = COMPONENT_STATE_INITIATED"
| "phase_pre OnShutdown = COMPONENT_STATE_STARTUP"

fun phase_post :: "phase \<Rightarrow> ComponentState" where
  "phase_post Prepare = COMPONENT_STATE_PREPARED"
| "phase_post Initiate = COMPONENT_STATE_INITIATED"
| "phase_post OnStartup = COMPONENT_STATE_STARTUP"
| "phase_post OnShutdown = COMPONENT_STATE_SHUTDOWN"

text \<open>The body the loops share: advance the state under \<open>key\<close>, then call the method.\<close>

definition advance :: "methods \<Rightarrow> phase \<Rightarrow> string \<Rightarrow> Component \<Rightarrow> Engine \<Rightarrow> bool \<times> Engine" where
  "advance impl ph key c e =
     (if state_of e key = phase_pre ph
      then call impl (Comp ph (Impl c)) (set_state key (phase_post ph) e)
      else (False, e))"

text \<open>The loop of \<^verbatim>\<open>New\<close> over the sorted names; it indexes the component map, a missing entry is nil.\<close>

fun prepare_loop :: "methods \<Rightarrow> string list \<Rightarrow> Engine \<Rightarrow> (bool \<times> Engine) outcome" where
  "prepare_loop impl [] e = Inr (False, e)"
| "prepare_loop impl (n # ns) e =
     (case ComponentMap (registry e) n of
        None \<Rightarrow> Inl NilDereference
      | Some c \<Rightarrow>
          (case advance impl Prepare n c e of
             (True, e1) \<Rightarrow> Inr (True, e1)
           | (False, e1) \<Rightarrow> prepare_loop impl ns e1))"

text \<open>The loops over the sorted components, keyed by the component's own name.\<close>

fun phase_loop :: "methods \<Rightarrow> phase \<Rightarrow> Component option list \<Rightarrow> Engine \<Rightarrow> (bool \<times> Engine) outcome" where
  "phase_loop impl ph [] e = Inr (False, e)"
| "phase_loop impl ph (None # cs) e = Inl NilDereference"
| "phase_loop impl ph (Some c # cs) e =
     (case advance impl ph (Name c) c e of
        (True, e1) \<Rightarrow> Inr (True, e1)
      | (False, e1) \<Rightarrow> phase_loop impl ph cs e1)"

subsection \<open>Loading the configuration\<close>

text \<open>
  What the configuration component (a wrapper of the package viper) and the file system answer is
  the record \<open>World\<close>; a \<open>\<dots>_fails\<close> field says whether the call returns an error (for the environment
  and \<^verbatim>\<open>os.Stat\<close>: one other than a missing file, which the code lets pass).
\<close>

record World =
  SetOptions_fails :: "nat \<Rightarrow> bool"
  LoadFromEnvFile_fails :: "string \<Rightarrow> string \<Rightarrow> bool"
  LoadFromEnv_fails :: "string \<Rightarrow> bool"
  GetString :: "string \<Rightarrow> string"
  ReadAll :: "string \<Rightarrow> string option"
  WriteFile_fails :: "string \<Rightarrow> string \<Rightarrow> bool"
  Stat_fails :: "string \<Rightarrow> bool"
  path_Abs :: "string \<Rightarrow> string option"
  LoadFromConfigPath_fails :: "string \<Rightarrow> string \<Rightarrow> bool"

definition path_Ext :: "string \<Rightarrow> string" where
  "path_Ext p =
     (let base = rev (takeWhile (\<lambda>c. c \<noteq> CHR ''/'') (rev p)) in
      if CHR ''.'' \<in> set base then CHR ''.'' # rev (takeWhile (\<lambda>c. c \<noteq> CHR ''.'') (rev base)) else [])"

definition path_Base :: "string \<Rightarrow> string" where
  "path_Base p =
     (if p = [] then ''.''
      else (let q = rev (dropWhile (\<lambda>c. c = CHR ''/'') (rev p)) in
            if q = [] then ''/'' else rev (takeWhile (\<lambda>c. c \<noteq> CHR ''/'') (rev q))))"

definition path_IsAbs :: "string \<Rightarrow> bool" where
  "path_IsAbs p = prefix ''/'' p"

text \<open>\<^verbatim>\<open>configPlaceholdRegExp.FindAll\<close> for \<^verbatim>\<open>%\w+%\<close>: the matches from left to right, not overlapping.\<close>

function find_placeholders :: "string \<Rightarrow> string list" where
  "find_placeholders [] = []"
| "find_placeholders (c # cs) =
     (let ws = takeWhile word_char cs in
      if c = CHR ''%'' \<and> ws \<noteq> [] \<and> prefix ''%'' (drop (length ws) cs)
      then (''%'' @ ws @ ''%'') # find_placeholders (drop (length ws + 1) cs)
      else find_placeholders cs)"
  by pat_completeness auto
termination
  by (relation "measure length") auto

definition Trim :: "string \<Rightarrow> string \<Rightarrow> string" where
  "Trim s cutset = rev (TrimLeft (rev (TrimLeft s cutset)) cutset)"

definition substitute :: "(string \<Rightarrow> string) \<Rightarrow> string \<Rightarrow> string" where
  "substitute getString content =
     fold (\<lambda>m text. replace_all m (getString (Trim m ''%'')) text) (find_placeholders content) content"

text \<open>\<^verbatim>\<open>loadFileConfig\<close>: \<open>False\<close> is \<^verbatim>\<open>os.Exit(1)\<close>.\<close>

definition loadFileConfig :: "World \<Rightarrow> string \<Rightarrow> string \<Rightarrow> bool" where
  "loadFileConfig w configPath configName =
     (if configPath = '''' \<or> configName = '''' then False
      else (case (if prefix ''/'' configPath then Some configPath else path_Abs w configPath) of
              None \<Rightarrow> False
            | Some p \<Rightarrow> \<not> Stat_fails w p \<and> \<not> LoadFromConfigPath_fails w p configName))"

text \<open>
  \<^verbatim>\<open>loadCachedFileConfig\<close>: the content written to the cache file, if any, and whether the process
  goes on.
\<close>

definition loadCachedFileConfig :: "World \<Rightarrow> string \<Rightarrow> string \<Rightarrow> string option \<times> bool" where
  "loadCachedFileConfig w configPath cachedFile =
     (case ReadAll w configPath of
        None \<Rightarrow> (None, True)
      | Some content \<Rightarrow>
          (let cached = substitute (GetString w) content in
           if WriteFile_fails w cachedFile cached then (None, True)
           else (Some cached,
                 loadFileConfig w (path_Dir cachedFile)
                   (replace_first (path_Ext cachedFile) '''' (path_Base cachedFile)))))"

definition cached_file_name :: "string \<Rightarrow> string \<Rightarrow> string" where
  "cached_file_name file folder =
     (let ext = path_Ext file;
          cached = replace_all ext '''' file @ ''.cached'' @ ext
      in if folder \<noteq> '''' then replace_all (path_Dir cached) folder cached else cached)"

definition LoadEnv :: "World \<Rightarrow> string \<Rightarrow> bool" where
  "LoadEnv w pfx = (\<not> LoadFromEnv_fails w pfx)"

definition LoadEnvFile :: "World \<Rightarrow> string \<Rightarrow> string \<Rightarrow> bool" where
  "LoadEnvFile w pfx file = (\<not> LoadFromEnvFile_fails w pfx file)"

text \<open>\<^verbatim>\<open>loadConfig\<close>: \<open>None\<close> is \<^verbatim>\<open>os.Exit(1)\<close>; the content of the cache file is returned beside the engine.\<close>

definition loadConfig :: "World \<Rightarrow> EngineOption list \<Rightarrow> Engine \<Rightarrow> (Engine \<times> string option) option" where
  "loadConfig w setters e =
     (case apply_setters setters (options e) of
        None \<Rightarrow> None
      | Some o1 \<Rightarrow>
          if SetOptions_fails w (configs o1) then None
          else if \<not> path_IsAbs (configFile o1) then None
          else if \<not> path_IsAbs (dotenvFile o1) then None
          else if \<not> (if dotenvFile o1 \<noteq> '''' then LoadEnvFile w (envPrefix o1) (dotenvFile o1) else LoadEnv w (envPrefix o1))
          then None
          else (let cached = cached_file_name (configFile o1) (GetString w ''CONFIG_CACHE_FOLDER'') in
                case loadCachedFileConfig w (configFile o1) cached of
                  (content, True) \<Rightarrow> Some (e\<lparr>options := o1, cachedConfigFile := cached\<rparr>, content)
                | (content, False) \<Rightarrow> None))"

text \<open>
  \<^verbatim>\<open>ConfigureComponentFileConfig\<close>: which configuration path the component is configured with;
  \<open>cfg\<close> is \<^verbatim>\<open>ConfigureFileConfig\<close> of the configuration component, \<open>True\<close> an error.
\<close>

definition ConfigureComponentFileConfig ::
    "(nat \<Rightarrow> string \<Rightarrow> string list \<Rightarrow> bool) \<Rightarrow> Component \<Rightarrow> string \<Rightarrow> string list \<Rightarrow> bool" where
  "ConfigureComponentFileConfig cfg c file tags =
     (if 0 < length tags then cfg (Impl c) file tags
      else if ConfigurePath c \<noteq> '''' then cfg (Impl c) file [ConfigurePath c]
      else cfg (Impl c) file [])"

definition ConfigureComponentFileConfigByName ::
    "(nat \<Rightarrow> string \<Rightarrow> string list \<Rightarrow> bool) \<Rightarrow> string \<Rightarrow> string \<Rightarrow> string list \<Rightarrow> Registry \<Rightarrow> bool outcome" where
  "ConfigureComponentFileConfigByName cfg name file tags r =
     (case GetComponentByName name r of
        Inl p \<Rightarrow> Inl p
      | Inr (Inl e) \<Rightarrow> Inr True
      | Inr (Inr c) \<Rightarrow>
          Inr (if 0 < length tags then cfg (Impl c) file tags
               else if ConfigurePath c \<noteq> '''' then cfg (Impl c) file [ConfigurePath c]
               else cfg (Impl c) file []))"

subsection \<open>\<^verbatim>\<open>New\<close>\<close>

text \<open>
  \<open>target\<close> and \<open>canSet\<close> describe the reflected objects as in the injection; \<open>isConfig\<close> says whether
  an implementation has the type \<^verbatim>\<open>*config.Config\<close>, and \<open>configImpl\<close> is the one \<^verbatim>\<open>New\<close> creates. A result
  \<open>Inr (Some Exit, e)\<close> is \<^verbatim>\<open>os.Exit(1)\<close> with the engine as it is then.
\<close>

type_synonym reflection = "(nat \<Rightarrow> Target) \<times> (Field \<Rightarrow> nat \<Rightarrow> bool)"

definition inject_all :: "reflection \<Rightarrow> Engine \<Rightarrow> bool outcome" where
  "inject_all rfl e =
     (case InjectMiddleware (fst rfl) (snd rfl) (registry e) of
        Inl p \<Rightarrow> Inl p
      | Inr (_, Some err) \<Rightarrow> Inr True
      | Inr (_, None) \<Rightarrow>
          (case InjectComponent (fst rfl) (snd rfl) (registry e) of
             Inl p \<Rightarrow> Inl p
           | Inr (_, Some err) \<Rightarrow> Inr True
           | Inr (_, None) \<Rightarrow> Inr False))"

text \<open>Register the built-in configuration component, then prepare and initiate it.\<close>

definition New_config :: "methods \<Rightarrow> nat \<Rightarrow> Engine \<Rightarrow> (fault option \<times> Engine) outcome" where
  "New_config impl configImpl e =
     (case RegisterComponent \<lparr>Name = ''Config'', Impl = configImpl, ConfigurePath = '''', Dependencies = []\<rparr> [True] (registry e) of
        Inl p \<Rightarrow> Inl p
      | Inr (Some err, r) \<Rightarrow> Inr (Some Exit, e\<lparr>registry := r\<rparr>)
      | Inr (None, r) \<Rightarrow>
          (case GetComponentByName ''Config'' r of
             Inl p \<Rightarrow> Inl p
           | Inr (Inl err) \<Rightarrow> Inl NilDereference
           | Inr (Inr c) \<Rightarrow>
               (case advance impl Prepare (Name c) c (e\<lparr>registry := r\<rparr>) of
                  (True, e1) \<Rightarrow> Inr (Some Exit, e1)
                | (False, e1) \<Rightarrow>
                    (case advance impl Initiate (Name c) c e1 of
                       (True, e2) \<Rightarrow> Inr (Some Exit, e2)
                     | (False, e2) \<Rightarrow> Inr (None, e2)))))"

text \<open>The loop that initiates the components in registration order, shared by \<^verbatim>\<open>New\<close> and \<^verbatim>\<open>Startup\<close>.\<close>

definition run_phase :: "fault \<Rightarrow> methods \<Rightarrow> phase \<Rightarrow> Engine \<Rightarrow> (fault option \<times> Engine) outcome" where
  "run_phase flt impl ph e =
     (case GetSortedComponents [] (registry e) of
        Inl p \<Rightarrow> Inl p
      | Inr cs \<Rightarrow>
          (case phase_loop impl ph cs e of
             Inl p \<Rightarrow> Inl p
           | Inr (True, e1) \<Rightarrow> Inr (Some flt, e1)
           | Inr (False, e1) \<Rightarrow> Inr (None, e1)))"

definition New_load ::
    "methods \<Rightarrow> (nat \<Rightarrow> bool) \<Rightarrow> World \<Rightarrow> EngineOption list \<Rightarrow> Engine \<Rightarrow> (fault option \<times> Engine) outcome" where
  "New_load impl isConfig w setters e =
     (case GetComponentByName ''Config'' (registry e) of
        Inl p \<Rightarrow> Inl p
      | Inr (Inl err) \<Rightarrow> Inr (Some Exit, e)
      | Inr (Inr c) \<Rightarrow>
          if \<not> isConfig (Impl c) then Inr (Some Exit, e)
          else (case loadConfig w setters e of
                  None \<Rightarrow> Inr (Some Exit, e)
                | Some (e1, content) \<Rightarrow> run_phase Exit impl Initiate e1))"

definition New_engine :: "EngineOptions \<Rightarrow> Registry \<Rightarrow> nat \<Rightarrow> Engine" where
  "New_engine o1 r background =
     \<lparr>options = o1, estate = STATE_INITIATE, registry = r, econtext = background,
      cachedConfigFile = '''', ServerMap = [], calls = []\<rparr>"

definition New ::
    "methods \<Rightarrow> reflection \<Rightarrow> (nat \<Rightarrow> bool) \<Rightarrow> nat \<Rightarrow> World \<Rightarrow> nat \<Rightarrow> EngineOptions \<Rightarrow> EngineOption list \<Rightarrow> Registry
     \<Rightarrow> (fault option \<times> Engine) outcome" where
  "New impl rfl isConfig configImpl w background defaults setters r =
     (case apply_setters setters defaults of
        None \<Rightarrow> Inr (Some Exit, New_engine defaults r background)
      | Some o1 \<Rightarrow>
          (case New_config impl configImpl (New_engine o1 r background) of
             Inl p \<Rightarrow> Inl p
           | Inr (Some f, e1) \<Rightarrow> Inr (Some f, e1)
           | Inr (None, e1) \<Rightarrow>
               (case inject_all rfl e1 of
                  Inl p \<Rightarrow> Inl p
                | Inr True \<Rightarrow> Inr (Some Exit, e1)
                | Inr False \<Rightarrow>
                    (case prepare_loop impl (GetSortedComponentName (registry e1)) e1 of
                       Inl p \<Rightarrow> Inl p
                     | Inr (True, e2) \<Rightarrow> Inr (Some Exit, e2)
                     | Inr (False, e2) \<Rightarrow> New_load impl isConfig w setters e2))))"

subsection \<open>\<^verbatim>\<open>Startup\<close> and \<^verbatim>\<open>Shutdown\<close>\<close>

text \<open>\<open>order\<close> is the order in which Go ranges over the middleware map.\<close>

fun mw_loop :: "methods \<Rightarrow> Middleware list \<Rightarrow> Engine \<Rightarrow> bool \<times> Engine" where
  "mw_loop impl [] e = (False, e)"
| "mw_loop impl (m # ms) e =
     (case call impl (Mw (mw_Impl m)) e of
        (True, e1) \<Rightarrow> (True, e1)
      | (False, e1) \<Rightarrow> mw_loop impl ms e1)"

text \<open>The callback: injection, then \<^verbatim>\<open>OnStartup\<close>; the callback gets the engine, not a context.\<close>

definition callback_startup :: "methods \<Rightarrow> reflection \<Rightarrow> Engine \<Rightarrow> bool \<times> Engine" where
  "callback_startup impl rfl e =
     (case callback (options e) of
        None \<Rightarrow> (False, e)
      | Some cb \<Rightarrow>
          (case InjectComponentTo (snd rfl) (registry e) [fst rfl cb] of
             (_, Some err) \<Rightarrow> (True, e)
           | (_, None) \<Rightarrow> (fst (impl (CallbackOnStartup cb) (econtext e)),
                           e\<lparr>calls := calls e @ [CallbackOnStartup cb]\<rparr>)))"

text \<open>
  The servers in the order of the range: a nil router is skipped, a nil route ends \<^verbatim>\<open>Startup\<close> with
  an error, registering may panic. \<open>parse\<close> is \<^verbatim>\<open>time.ParseDuration\<close>, \<open>types\<close> the default media types.
\<close>

definition start_server :: "(string \<Rightarrow> int option) \<Rightarrow> string list \<Rightarrow> Server \<Rightarrow> (bool \<times> Server) outcome" where
  "start_server parse types s =
     (let s1 = s\<lparr>sOptions := Server_Resolve parse (sOptions s)\<rparr> in
      case sRouter s of
        None \<Rightarrow> Inr (False, s1)
      | Some r \<Rightarrow>
          (let res = ServerRouter_Resolve types (rOptions r) (rMiddlewares r);
               s2 = s1\<lparr>sStartup := sStartup s @ fst res, sAnterior := sAnterior s @ snd res\<rparr> in
           case server_registrations r of
             Inl p \<Rightarrow> Inl p
           | Inr None \<Rightarrow> Inr (True, s2)
           | Inr (Some regs) \<Rightarrow> Inr (False, s2\<lparr>sRegistered := sRegistered s @ regs\<rparr>)))"

fun server_loop ::
    "(string \<Rightarrow> int option) \<Rightarrow> string list \<Rightarrow> (string \<times> Server) list \<Rightarrow> (bool \<times> (string \<times> Server) list) outcome" where
  "server_loop parse types [] = Inr (False, [])"
| "server_loop parse types ((name, s) # ss) =
     (case start_server parse types s of
        Inl p \<Rightarrow> Inl p
      | Inr (True, s1) \<Rightarrow> Inr (True, (name, s1) # ss)
      | Inr (False, s1) \<Rightarrow>
          (case server_loop parse types ss of
             Inl p \<Rightarrow> Inl p
           | Inr (b, ss1) \<Rightarrow> Inr (b, (name, s1) # ss1)))"

definition Startup_components :: "methods \<Rightarrow> reflection \<Rightarrow> Engine \<Rightarrow> (fault option \<times> Engine) outcome" where
  "Startup_components impl rfl e =
     (case inject_all rfl e of
        Inl p \<Rightarrow> Inl p
      | Inr True \<Rightarrow> Inr (Some Failed, e)
      | Inr False \<Rightarrow>
          (case run_phase Failed impl Initiate e of
             Inl p \<Rightarrow> Inl p
           | Inr (Some f, e1) \<Rightarrow> Inr (Some f, e1)
           | Inr (None, e1) \<Rightarrow>
               (case run_phase Failed impl OnStartup e1 of
                  Inl p \<Rightarrow> Inl p
                | Inr (Some f, e2) \<Rightarrow> Inr (Some f, e2)
                | Inr (None, e2) \<Rightarrow> Inr (None, e2\<lparr>estate := STATE_STARTUP\<rparr>))))"

definition Startup ::
    "methods \<Rightarrow> reflection \<Rightarrow> (string \<Rightarrow> int option) \<Rightarrow> string list \<Rightarrow> Middleware list \<Rightarrow> Engine \<Rightarrow> (fault option \<times> Engine) outcome" where
  "Startup impl rfl parse types order e =
     (if estate e \<noteq> STATE_INITIATE then Inr (None, e)
      else (case mw_loop impl order e of
              (True, e1) \<Rightarrow> Inr (Some Exit, e1)
            | (False, e1) \<Rightarrow>
                (case callback_startup impl rfl e1 of
                   (True, e2) \<Rightarrow> Inr (Some Exit, e2)
                 | (False, e2) \<Rightarrow>
                     (case server_loop parse types (ServerMap e2) of
                        Inl p \<Rightarrow> Inl p
                      | Inr (True, ss) \<Rightarrow> Inr (Some Failed, e2\<lparr>ServerMap := ss\<rparr>)
                      | Inr (False, ss) \<Rightarrow> Startup_components impl rfl (e2\<lparr>ServerMap := ss\<rparr>)))))"

definition Shutdown :: "methods \<Rightarrow> Engine \<Rightarrow> (fault option \<times> Engine) outcome" where
  "Shutdown impl e =
     (if estate e \<noteq> STATE_STARTUP then Inr (None, e)
      else (case run_phase Failed impl OnShutdown e of
              Inl p \<Rightarrow> Inl p
            | Inr (Some f, e1) \<Rightarrow> Inr (Some f, e1)
            | Inr (None, e1) \<Rightarrow>
                (case callback (options e1) of
                   None \<Rightarrow> Inr (None, e1\<lparr>estate := STATE_SHUTDOWN\<rparr>)
                 | Some cb \<Rightarrow>
                     (let e2 = e1\<lparr>calls := calls e1 @ [CallbackOnShutdown cb]\<rparr> in
                      if fst (impl (CallbackOnShutdown cb) (econtext e1)) then Inr (Some Failed, e2)
                      else Inr (None, e2\<lparr>estate := STATE_SHUTDOWN\<rparr>)))))"

subsection \<open>Servers of the engine\<close>

fun mw_impls :: "Middleware option list \<Rightarrow> nat list outcome" where
  "mw_impls [] = Inr []"
| "mw_impls (None # ms) = Inl NilDereference"
| "mw_impls (Some m # ms) = (case mw_impls ms of Inl p \<Rightarrow> Inl p | Inr ids \<Rightarrow> Inr (mw_Impl m # ids))"

text \<open>\<^verbatim>\<open>NewServer\<close>: the server and the observers its setters register.\<close>

definition NewServer :: "nat \<Rightarrow> ServerRouter \<Rightarrow> ServerOption list \<Rightarrow> Engine \<Rightarrow> (nat list \<times> Server) outcome" where
  "NewServer stdout router setters e =
     (case GetSortedMiddlewares [] (registry e) of
        Inl p \<Rightarrow> Inl p
      | Inr ms \<Rightarrow>
          (case mw_impls ms of
             Inl p \<Rightarrow> Inl p
           | Inr ids \<Rightarrow>
               (case NewServer_options stdout (eLogWriter (options e)) setters of
                  (obs, so) \<Rightarrow>
                    Inr (obs, \<lparr>sOptions = so, sRouter = Some (WithMiddlewares ids router),
                               sStartup = [], sAnterior = [], sRegistered = []\<rparr>))))"

text \<open>\<open>cfg_fails\<close> says whether the configuration of the server from file fails.\<close>

definition RegisterServer :: "bool \<Rightarrow> string \<Rightarrow> Server \<Rightarrow> Engine \<Rightarrow> (fault option \<times> Engine) outcome" where
  "RegisterServer cfg_fails name server e =
     (if map_of (ServerMap e) name \<noteq> None then Inr (Some Exit, e)
      else (let e1 = e\<lparr>ServerMap := ServerMap e @ [(name, server)]\<rparr> in
            if sRouter server = None then Inl NilDereference
            else if cfg_fails then Inr (Some Exit, e1) else Inr (None, e1)))"

definition GetServer :: "string \<Rightarrow> Engine \<Rightarrow> Server option" where
  "GetServer name e = map_of (ServerMap e) name"

definition WithCallback :: "nat option \<Rightarrow> Engine \<Rightarrow> Engine" where
  "WithCallback c e = (if c \<noteq> None then e\<lparr>options := (options e)\<lparr>callback := c\<rparr>\<rparr> else e)"

end
