(* ===== verification/Engine_Life.thy ===== *)
theory Engine_Life
  imports Engine
begin

text \<open>
  The life cycle of the engine. A locale collects what an invariant has to satisfy to hold in every
  state the operations of the engine produce, failed calls included; it is interpreted for the order of the
  calls on each component and for the names of the components that get initiated. A second group of
  lemmas computes the log of a run without failures.
\<close>

subsection \<open>Frame\<close>

text \<open>Two engines that differ only in component states, context and log.\<close>

definition frame :: "Engine \<Rightarrow> Engine \<Rightarrow> bool" where
  "frame e e' = (options e' = options e \<and> estate e' = estate e \<and> ServerMap e' = ServerMap e \<and>
     cachedConfigFile e' = cachedConfigFile e \<and>
     (registry e')\<lparr>ComponentStates := Map.empty\<rparr> = (registry e)\<lparr>ComponentStates := Map.empty\<rparr>)"

lemma registry_fields:
  assumes "r'\<lparr>ComponentStates := Map.empty\<rparr> = r\<lparr>ComponentStates := Map.empty\<rparr>"
  shows "Components r' = Components r \<and> ComponentMap r' = ComponentMap r \<and>
         SortedComponentName r' = SortedComponentName r"
  using assms by (metis Registry.select_convs(1,2,3) Registry.surjective Registry.update_convs(8))

lemma frame_refl [simp]: "frame e e"
  by (simp add: frame_def)

lemma frame_trans: "frame e e1 \<Longrightarrow> frame e1 e2 \<Longrightarrow> frame e e2"
  by (simp add: frame_def)

lemma frame_registry:
  assumes "frame e e'"
  shows "Components (registry e') = Components (registry e)"
    and "ComponentMap (registry e') = ComponentMap (registry e)"
    and "SortedComponentName (registry e') = SortedComponentName (registry e)"
  using registry_fields [of "registry e'" "registry e"] assms by (simp_all add: frame_def)

lemma call_frame: "frame e (snd (call impl ev e))"
  by (auto simp: call_def frame_def Let_def split: prod.splits bool.splits option.splits)

lemma call_calls: "calls (snd (call impl ev e)) = calls e @ [ev]"
  by (auto simp: call_def Let_def split: prod.splits bool.splits option.splits)

lemma call_registry: "registry (snd (call impl ev e)) = registry e"
  by (auto simp: call_def Let_def split: prod.splits bool.splits option.splits)

lemma call_state [simp]: "state_of (snd (call impl ev e)) k = state_of e k"
  by (simp add: state_of_def call_registry)

lemma set_state_frame: "frame e (set_state k s e)"
  by (simp add: set_state_def frame_def)

lemma set_state_state [simp]: "state_of (set_state k s e) k' = (if k' = k then s else state_of e k')"
  by (simp add: set_state_def state_of_def)

lemma set_state_calls [simp]: "calls (set_state k s e) = calls e"
  by (simp add: set_state_def)

lemma advance_frame: "frame e (snd (advance impl ph k c e))"
  using frame_trans [OF set_state_frame call_frame] by (auto simp: advance_def)

lemma advance_state:
  "state_of (snd (advance impl ph k c e)) k' =
     (if state_of e k = phase_pre ph \<and> k' = k then phase_post ph else state_of e k')"
  by (simp add: advance_def)

lemma advance_calls:
  "calls (snd (advance impl ph k c e)) =
     (if state_of e k = phase_pre ph then calls e @ [Comp ph (Impl c)] else calls e)"
  by (simp add: advance_def call_calls)

subsection \<open>Invariants of the life cycle\<close>

definition listed :: "Engine \<Rightarrow> Component \<Rightarrow> bool" where
  "listed e c = (\<exists>n \<in> set (SortedComponentName (registry e)). ComponentMap (registry e) n = Some c)"

lemma listed_frame: "frame e e' \<Longrightarrow> listed e' c = listed e c"
  by (simp add: listed_def frame_registry)

lemma fill_sorted_listed:
  assumes "fill_sorted m ns cs i = Inr ds" and "Some c \<in> set ds"
  shows "Some c \<in> set cs \<or> (\<exists>n \<in> set ns. m n = Some c)"
  using assms
proof (induction m ns cs i rule: fill_sorted.induct)
  case (2 m n ns cs i)
  show ?case
  proof (cases "m n")
    case None
    with 2 show ?thesis by auto
  next
    case (Some d)
    with 2 have "Some c \<in> set (cs[i := Some d]) \<or> (\<exists>n \<in> set ns. m n = Some c)"
      by (auto split: if_splits)
    then show ?thesis using Some set_update_subset_insert [of cs i "Some d"] by auto
  qed
qed simp

lemma sorted_listed:
  assumes "GetSortedComponents [] (registry e) = Inr cs" and "Some c \<in> set cs"
  shows "listed e c"
  using assms fill_sorted_listed [of "ComponentMap (registry e)" "SortedComponentName (registry e)"
      "replicate (length (Components (registry e))) None" 0 cs c]
  by (auto simp: GetSortedComponents_def Let_def listed_def split: if_splits)

fun is_comp :: "event \<Rightarrow> bool" where
  "is_comp (Comp ph i) = True"
| "is_comp _ = False"

definition config_component :: "nat \<Rightarrow> Component" where
  "config_component i = \<lparr>Name = ''Config'', Impl = i, ConfigurePath = '''', Dependencies = []\<rparr>"

lemma canonicalName_Config: "canonicalName ''Config'' = Inr ''Config''"
  by code_simp

lemma register_config_listed:
  assumes "RegisterComponent (config_component i) [True] r = Inr (None, r')"
  shows "ComponentMap r' ''Config'' = Some (config_component i) \<and> ''Config'' \<in> set (SortedComponentName r')"
  using assms
  by (auto simp: RegisterComponent_def Let_def canonicalName_Config config_component_def split: if_splits sum.splits)

locale lifecycle =
  fixes impl :: methods and P :: "Engine \<Rightarrow> bool"
  assumes P_prepare: "P e \<Longrightarrow> n \<in> set (SortedComponentName (registry e)) \<Longrightarrow>
      ComponentMap (registry e) n = Some c \<Longrightarrow> P (snd (advance impl Prepare n c e))"
    and P_phase: "P e \<Longrightarrow> listed e c \<Longrightarrow> ph \<noteq> Prepare \<Longrightarrow> P (snd (advance impl ph (Name c) c e))"
    and P_other: "P e \<Longrightarrow> \<not> is_comp ev \<Longrightarrow> calls e' = calls e @ [ev] \<Longrightarrow> registry e' = registry e \<Longrightarrow> P e'"
    and P_same: "P e \<Longrightarrow> calls e' = calls e \<Longrightarrow> registry e' = registry e \<Longrightarrow> P e'"
begin

lemma P_prepare_loop:
  assumes "prepare_loop impl ns e = Inr (b, e')" and "P e" and "set ns \<subseteq> set (SortedComponentName (registry e))"
  shows "P e'"
  using assms
proof (induction ns arbitrary: e)
  case (Cons n ns)
  then obtain c where c: "ComponentMap (registry e) n = Some c" by (auto split: option.splits)
  obtain f e1 where a: "advance impl Prepare n c e = (f, e1)" by (cases "advance impl Prepare n c e")
  have p: "P e1" using P_prepare [of e n c] Cons.prems c a by simp
  have "frame e e1" using advance_frame [of e impl Prepare n c] a by simp
  then show ?case
    using Cons.IH [of e1] Cons.prems c a p by (cases f) (auto simp: frame_registry)
qed simp

lemma P_phase_loop:
  assumes "phase_loop impl ph cs e = Inr (b, e')" and "P e" and "ph \<noteq> Prepare"
    and "\<forall>c. Some c \<in> set cs \<longrightarrow> listed e c"
  shows "P e'"
  using assms
proof (induction cs arbitrary: e)
  case (Cons x cs)
  then obtain c where x: "x = Some c" by (cases x) auto
  obtain f e1 where a: "advance impl ph (Name c) c e = (f, e1)" by (cases "advance impl ph (Name c) c e")
  have p: "P e1" using P_phase [of e c ph] Cons.prems x a by simp
  have "frame e e1" using advance_frame [of e impl ph "Name c" c] a by simp
  then show ?case
    using Cons.IH [of e1] Cons.prems x a p by (cases f) (auto simp: listed_frame)
qed simp

lemma P_run_phase:
  assumes "run_phase flt impl ph e = Inr (f, e')" and "P e" and "ph \<noteq> Prepare"
  shows "P e'"
proof -
  obtain cs where cs: "GetSortedComponents [] (registry e) = Inr cs"
    using assms(1) by (auto simp: run_phase_def split: sum.splits)
  then obtain b where "phase_loop impl ph cs e = Inr (b, e')"
    using assms(1) by (auto simp: run_phase_def split: sum.splits prod.splits bool.splits)
  then show ?thesis using P_phase_loop assms sorted_listed [OF cs] by blast
qed

lemma P_mw_loop: "mw_loop impl ms e = (b, e') \<Longrightarrow> P e \<Longrightarrow> P e'"
proof (induction ms arbitrary: e)
  case (Cons m ms)
  obtain f e1 where a: "call impl (Mw (mw_Impl m)) e = (f, e1)" by (cases "call impl (Mw (mw_Impl m)) e")
  have "P e1"
    using P_other [OF Cons.prems(2), of "Mw (mw_Impl m)" e1] call_calls [of impl "Mw (mw_Impl m)" e]
      call_registry [of impl "Mw (mw_Impl m)" e] a by simp
  then show ?case using Cons a by (cases f) auto
qed simp

lemma P_event: "P e \<Longrightarrow> \<not> is_comp ev \<Longrightarrow> P (e\<lparr>calls := calls e @ [ev]\<rparr>)"
  by (rule P_other) simp_all

lemma P_callback_startup: "callback_startup impl rfl e = (b, e') \<Longrightarrow> P e \<Longrightarrow> P e'"
  by (auto simp: callback_startup_def simp del: InjectComponentTo.simps split: option.splits prod.splits intro: P_event)

lemma P_Startup_components:
  assumes "Startup_components impl rfl e = Inr (f, e')" and "P e"
  shows "P e'"
  using assms P_run_phase [of Failed Initiate e] P_run_phase [of Failed OnStartup]
  by (fastforce simp: Startup_components_def split: sum.splits prod.splits bool.splits option.splits intro: P_same)

lemma P_Startup:
  assumes "Startup impl rfl parse types order e = Inr (f, e')" and "P e"
  shows "P e'"
proof (cases "estate e = STATE_INITIATE")
  case False
  with assms show ?thesis by (simp add: Startup_def)
next
  case True
  obtain b1 e1 b2 e2 where 1: "mw_loop impl order e = (b1, e1)" "callback_startup impl rfl e1 = (b2, e2)"
    by (meson surj_pair)
  have p1: "P e1" using P_mw_loop 1 assms(2) by blast
  have p2: "P e2" using P_callback_startup 1 p1 by blast
  then have p3: "P (e2\<lparr>ServerMap := ss\<rparr>)" for ss by (rule P_same) simp_all
  from assms(1) True 1 p1 p2 p3 show ?thesis
    by (auto simp: Startup_def split: bool.splits sum.splits dest: P_Startup_components [OF _ p3])
qed

lemma P_Shutdown:
  assumes "Shutdown impl e = Inr (f, e')" and "P e"
  shows "P e'"
proof (cases "estate e = STATE_STARTUP")
  case False
  with assms show ?thesis by (simp add: Shutdown_def)
next
  case True
  then obtain g e1 where 1: "run_phase Failed impl OnShutdown e = Inr (g, e1)"
    using assms(1) by (auto simp: Shutdown_def split: sum.splits)
  then have "P e1" using P_run_phase assms(2) by blast
  moreover from this have "P (e1\<lparr>calls := calls e1 @ [CallbackOnShutdown cb]\<rparr>)" for cb by (rule P_event) simp
  moreover from this have "P (e1\<lparr>calls := calls e1 @ [CallbackOnShutdown cb], estate := s\<rparr>)" for cb s
    by (rule P_same) simp_all
  moreover from \<open>P e1\<close> have "P (e1\<lparr>estate := s\<rparr>)" for s by (rule P_same) simp_all
  ultimately show ?thesis
    using assms(1) True 1 by (auto simp: Shutdown_def Let_def split: option.splits if_splits)
qed

lemma P_New_config:
  assumes "New_config impl configImpl e = Inr (g, e1)"
    and reg: "\<And>err r'. RegisterComponent (config_component configImpl) [True] (registry e) = Inr (err, r') \<Longrightarrow> P (e\<lparr>registry := r'\<rparr>)"
  shows "P e1"
proof -
  let ?cfg = "config_component configImpl"
  obtain err r' where r': "RegisterComponent ?cfg [True] (registry e) = Inr (err, r')"
    using assms(1) by (auto simp: New_config_def config_component_def split: sum.splits)
  note p = reg [OF r']
  show ?thesis
  proof (cases err)
    case (Some x)
    with assms(1) r' p show ?thesis by (auto simp: New_config_def config_component_def)
  next
    case None
    note l = register_config_listed [OF r' [unfolded None]]
    let ?e = "e\<lparr>registry := r'\<rparr>"
    obtain b2 e2 where 2: "advance impl Prepare ''Config'' ?cfg ?e = (b2, e2)" by (meson surj_pair)
    obtain b3 e3 where 3: "advance impl Initiate ''Config'' ?cfg e2 = (b3, e3)" by (meson surj_pair)
    have p2: "P e2" using P_prepare [OF p, of "''Config''" ?cfg] l 2 by simp
    have "listed ?e ?cfg" using l by (auto simp: listed_def)
    then have "listed e2 ?cfg" using listed_frame advance_frame [of ?e impl Prepare "''Config''" ?cfg] 2 by simp
    from P_phase [OF p2 this, of Initiate] 3 have p3: "P e3" by (simp add: config_component_def)
    have "New_config impl configImpl e = (if b2 then Inr (Some Exit, e2) else if b3 then Inr (Some Exit, e3) else Inr (None, e3))"
      using r' None l 2 3
      by (simp add: New_config_def config_component_def GetComponentByName_def canonicalName_Config split: bool.splits)
    with assms(1) p2 p3 show ?thesis by (auto split: if_splits)
  qed
qed

lemma P_New:
  assumes "New impl rfl isConfig configImpl w background defaults setters r = Inr (f, e)"
    and start: "\<And>o1. P (New_engine o1 r background)"
    and reg: "\<And>o1 err r'. RegisterComponent (config_component configImpl) [True] r = Inr (err, r') \<Longrightarrow>
                P ((New_engine o1 r background)\<lparr>registry := r'\<rparr>)"
  shows "P e"
proof (cases "apply_setters setters defaults")
  case None
  with assms show ?thesis by (auto simp: New_def)
next
  case (Some o1)
  then obtain g e1 where 1: "New_config impl configImpl (New_engine o1 r background) = Inr (g, e1)"
    using assms(1) by (auto simp: New_def split: sum.splits)
  have "registry (New_engine o1 r background) = r" by (simp add: New_engine_def)
  then have p1: "P e1" using P_New_config [OF 1] reg by simp
  have p2: "prepare_loop impl (GetSortedComponentName (registry e1)) e1 = Inr (b, e2) \<Longrightarrow> P e2" for b e2
    using P_prepare_loop p1 by (simp add: GetSortedComponentName_def)
  have p3: "P e2 \<Longrightarrow> New_load impl isConfig w setters e2 = Inr (f, e) \<Longrightarrow> P e" for e2
  proof -
    assume p: "P e2" and l: "New_load impl isConfig w setters e2 = Inr (f, e)"
    have "loadConfig w setters e2 = Some (e3, content) \<Longrightarrow> P e3" for e3 content
      using p by (auto simp: loadConfig_def Let_def split: option.splits if_splits prod.splits bool.splits intro: P_same)
    with p l show "P e"
      by (auto simp: New_load_def split: sum.splits if_splits option.splits prod.splits intro: P_run_phase)
  qed
  from assms(1) Some 1 p1 p2 p3 show ?thesis
    by (auto simp: New_def split: option.splits sum.splits bool.splits prod.splits)
qed

end

subsection \<open>The order of the calls on a component\<close>

fun phases_of :: "nat \<Rightarrow> event list \<Rightarrow> phase list" where
  "phases_of i [] = []"
| "phases_of i (Comp ph j # es) = (if i = j then ph # phases_of i es else phases_of i es)"
| "phases_of i (_ # es) = phases_of i es"

lemma phases_of_append [simp]: "phases_of i (es @ fs) = phases_of i es @ phases_of i fs"
  by (induction i es rule: phases_of.induct) auto

lemma phases_of_other: "\<not> is_comp ev \<Longrightarrow> phases_of i [ev] = []"
  by (cases ev) auto

fun phases_to :: "ComponentState \<Rightarrow> phase list" where
  "phases_to COMPONENT_STATE_INIT = []"
| "phases_to COMPONENT_STATE_PREPARED = [Prepare]"
| "phases_to COMPONENT_STATE_INITIATED = [Prepare, Initiate]"
| "phases_to COMPONENT_STATE_STARTUP = [Prepare, Initiate, OnStartup]"
| "phases_to COMPONENT_STATE_SHUTDOWN = [Prepare, Initiate, OnStartup, OnShutdown]"

lemma phases_to_step: "phases_to (phase_post ph) = phases_to (phase_pre ph) @ [ph]"
  by (cases ph) simp_all

definition life_inv :: "Engine \<Rightarrow> bool" where
  "life_inv e = (comps.wf (registry e) \<and> inj_on Impl (set (Components (registry e))) \<and>
     (\<forall>c \<in> set (Components (registry e)). phases_of (Impl c) (calls e) = phases_to (state_of e (Name c))))"

lemma wf_lookup:
  assumes "comps.wf r" and "ComponentMap r n = Some c"
  shows "c \<in> set (Components r) \<and> Name c = n"
  using assms by (auto simp: comps.wf_def dest!: map_of_SomeD)

lemma frame_wf: "frame e e' \<Longrightarrow> comps.wf (registry e') = comps.wf (registry e)"
  by (simp add: comps.wf_def frame_registry)

lemma life_inv_advance:
  assumes inv: "life_inv e" and c: "c \<in> set (Components (registry e))"
  shows "life_inv (snd (advance impl ph (Name c) c e))"
proof -
  let ?e = "snd (advance impl ph (Name c) c e)"
  have fr: "frame e ?e" by (rule advance_frame)
  have "phases_of (Impl d) (calls ?e) = phases_to (state_of ?e (Name d))"
    if d: "d \<in> set (Components (registry e))" for d
  proof -
    have "Impl d = Impl c \<longleftrightarrow> d = c" using inv c d by (auto simp: life_inv_def inj_on_def)
    moreover have "Name d = Name c \<longleftrightarrow> d = c"
      using inv c d by (auto simp: life_inv_def comps.wf_def distinct_map inj_on_def)
    ultimately show ?thesis
      using inv c d by (auto simp: life_inv_def advance_calls advance_state phases_to_step)
  qed
  with inv fr show ?thesis by (simp add: life_inv_def frame_wf frame_registry)
qed

interpretation life: lifecycle impl life_inv for impl
proof (unfold_locales, goal_cases)
  case (1 e n c)
  then show ?case using wf_lookup [of "registry e" n c] life_inv_advance [of e c] by (auto simp: life_inv_def)
next
  case (2 e c ph)
  then show ?case using wf_lookup [of "registry e" _ c] life_inv_advance [of e c] by (auto simp: life_inv_def listed_def)
next
  case (3 e ev e')
  then show ?case by (simp add: life_inv_def phases_of_other state_of_def)
next
  case (4 e e')
  then show ?case by (simp add: life_inv_def state_of_def)
qed

text \<open>Registration keeps the states that are set.\<close>

lemma unregister_states: "UnregisterComponent ns r = Inr r' \<Longrightarrow> ComponentStates r' = ComponentStates r"
  by (induction ns arbitrary: r) (auto simp: unregister_one_def split: sum.splits)

lemma register_states:
  assumes "RegisterComponent c ig r = Inr (err, r')"
  shows "ComponentStates r' =
     (if ComponentStates r (Name c) = None then (ComponentStates r)(Name c \<mapsto> COMPONENT_STATE_INIT) else ComponentStates r)"
  using assms unregister_states
  by (auto simp: RegisterComponent_def Let_def split: sum.splits if_splits simp del: UnregisterComponent.simps) 

definition fresh_registry :: "Registry \<Rightarrow> nat \<Rightarrow> bool" where
  "fresh_registry r configImpl = (comps.wf r \<and> inj_on Impl (set (Components r)) \<and>
     configImpl \<notin> Impl ` set (Components r) \<and>
     (\<forall>k s. ComponentStates r k = Some s \<longrightarrow> s = COMPONENT_STATE_INIT))"

lemma fresh_states:
  assumes "\<forall>k s. ComponentStates r k = Some s \<longrightarrow> s = COMPONENT_STATE_INIT" and "registry e = r"
  shows "state_of e k = COMPONENT_STATE_INIT"
  using assms by (auto simp: state_of_def split: option.splits)

lemma life_inv_New:
  assumes fresh: "fresh_registry r configImpl"
    and new: "New impl rfl isConfig configImpl w background defaults setters r = Inr (f, e)"
  shows "life_inv e"
proof (rule life.P_New [OF new])
  fix o1
  show "life_inv (New_engine o1 r background)"
    using fresh fresh_states [of r "New_engine o1 r background"]
    by (auto simp: life_inv_def fresh_registry_def New_engine_def)
next
  fix o1 err r'
  assume r': "RegisterComponent (config_component configImpl) [True] r = Inr (err, r')"
  let ?e = "(New_engine o1 r background)\<lparr>registry := r'\<rparr>"
  have cn: "canon ''Config'' = ''Config''" by code_simp
  from comps.wf_register [of r "config_component configImpl" "[True]"] fresh r' cn
  have wf: "comps.wf r'" and cs: "Components r' = filter (\<lambda>d. Name d \<noteq> ''Config'') (Components r) @ [config_component configImpl]"
    by (auto simp: fresh_registry_def config_component_def first_flag_def)
  have "\<forall>k s. ComponentStates r' k = Some s \<longrightarrow> s = COMPONENT_STATE_INIT"
    using register_states [OF r'] fresh by (auto simp: fresh_registry_def split: if_splits)
  then have "state_of ?e k = COMPONENT_STATE_INIT" for k by (rule fresh_states) simp
  moreover have "inj_on Impl (set (Components r'))"
    using fresh by (auto simp: cs fresh_registry_def inj_on_def config_component_def image_iff)
  ultimately show "life_inv ?e" using wf by (simp add: life_inv_def New_engine_def)
qed

subsection \<open>Components with other names\<close>

text \<open>States are kept only under canonical names, so only such components get past \<^verbatim>\<open>Prepare\<close>.\<close>

definition canon_inv :: "Engine \<Rightarrow> bool" where
  "canon_inv e = ((\<forall>n \<in> set (SortedComponentName (registry e)). canon n = n) \<and>
     (\<forall>k. canon k \<noteq> k \<longrightarrow> state_of e k = COMPONENT_STATE_INIT) \<and>
     (\<forall>ph i. Comp ph i \<in> set (calls e) \<longrightarrow> ph \<noteq> Prepare \<longrightarrow>
        (\<exists>c \<in> ran (ComponentMap (registry e)). Impl c = i \<and> canon (Name c) = Name c)))"

lemma canon_inv_advance:
  assumes inv: "canon_inv e" and k: "canon k = k \<or> ph \<noteq> Prepare"
    and c: "ph \<noteq> Prepare \<longrightarrow> k = Name c \<and> c \<in> ran (ComponentMap (registry e))"
  shows "canon_inv (snd (advance impl ph k c e))"
proof (cases "state_of e k = phase_pre ph")
  case False
  then show ?thesis using inv by (simp add: advance_def)
next
  case True
  have k': "canon k = k"
  proof (cases "ph = Prepare")
    case False
    then have "phase_pre ph \<noteq> COMPONENT_STATE_INIT" by (cases ph) simp_all
    then show ?thesis using True inv by (auto simp: canon_inv_def)
  qed (use k in simp)
  have fr: "frame e (snd (advance impl ph k c e))" by (rule advance_frame)
  show ?thesis
    using inv c k' by (auto simp: canon_inv_def advance_state advance_calls frame_registry [OF fr] True)
qed

lemma listed_ran: "listed e c \<Longrightarrow> c \<in> ran (ComponentMap (registry e))"
  by (auto simp: listed_def ran_def)

interpretation canons: lifecycle impl canon_inv for impl
proof (unfold_locales, goal_cases)
  case (1 e n c)
  then show ?case using canon_inv_advance [of e n Prepare c] by (simp add: canon_inv_def)
next
  case (2 e c ph)
  then show ?case using canon_inv_advance [of e "Name c" ph c] listed_ran by blast
next
  case (3 e ev e')
  then show ?case by (cases ev) (auto simp: canon_inv_def state_of_def)
next
  case (4 e e')
  then show ?case by (simp add: canon_inv_def state_of_def)
qed

lemma unregister_names:
  assumes "UnregisterComponent ns r = Inr r'"
  shows "set (SortedComponentName r') \<subseteq> set (SortedComponentName r)"
  using assms
proof (induction ns arbitrary: r)
  case (Cons n ns)
  then obtain r1 where r1: "unregister_one n r = Inr r1" "UnregisterComponent ns r1 = Inr r'"
    by (auto split: sum.splits)
  then have "set (SortedComponentName r1) \<subseteq> set (SortedComponentName r)"
    by (auto simp: unregister_one_def dest!: remove_all_range_subset split: sum.splits)
  with Cons.IH r1 show ?case by blast
qed simp

text \<open>What holds of a registry that was filled by \<^verbatim>\<open>RegisterComponent\<close> alone.\<close>

definition registered_only :: "Registry \<Rightarrow> bool" where
  "registered_only r = ((\<forall>n \<in> set (SortedComponentName r). canon n = n) \<and>
     (\<forall>k s. ComponentStates r k = Some s \<longrightarrow> s = COMPONENT_STATE_INIT))"

lemma register_names:
  assumes "RegisterComponent c ig r = Inr (err, r')" and "Name c \<noteq> []"
  shows "set (SortedComponentName r') \<subseteq> insert (canon (Name c)) (set (SortedComponentName r))"
  using assms unregister_names
  by (fastforce simp: RegisterComponent_def Let_def canonicalName_ok simp del: UnregisterComponent.simps
      split: sum.splits if_splits)

lemma registered_only_register:
  assumes "registered_only r" and "RegisterComponent c ig r = Inr (err, r')" and "Name c \<noteq> []"
  shows "registered_only r'"
proof -
  have "\<forall>n \<in> set (SortedComponentName r'). canon n = n"
    using register_names [OF assms(2,3)] assms(1) by (auto simp: registered_only_def)
  moreover have "\<forall>k s. ComponentStates r' k = Some s \<longrightarrow> s = COMPONENT_STATE_INIT"
    using register_states [OF assms(2)] assms(1) by (auto simp: registered_only_def split: if_splits)
  ultimately show ?thesis by (simp add: registered_only_def)
qed

lemma register_empty_panics: "Name c = [] \<Longrightarrow> RegisterComponent c ig r = Inl SliceBounds"
  by (simp add: RegisterComponent_def Let_def canonicalName_empty)

lemma register_all_registered_only: "register_all xs r = Inr r' \<Longrightarrow> registered_only r \<Longrightarrow> registered_only r'"
proof (induction xs arbitrary: r)
  case (Cons x xs)
  then obtain e r1 where r1: "RegisterComponent (fst x) (snd x) r = Inr (e, r1)" by (auto split: sum.splits)
  then have "Name (fst x) \<noteq> []" using register_empty_panics [of "fst x"] by auto
  with Cons r1 show ?case using registered_only_register by auto
qed simp

lemma canon_inv_New:
  assumes reg: "registered_only r"
    and new: "New impl rfl isConfig configImpl w background defaults setters r = Inr (f, e)"
  shows "canon_inv e"
proof (rule canons.P_New [OF new])
  fix o1
  show "canon_inv (New_engine o1 r background)"
    using reg fresh_states [of r "New_engine o1 r background"]
    by (simp add: canon_inv_def registered_only_def New_engine_def)
next
  fix o1 err r'
  assume "RegisterComponent (config_component configImpl) [True] r = Inr (err, r')"
  then have "registered_only r'" using registered_only_register [OF reg] by (simp add: config_component_def)
  then show "canon_inv ((New_engine o1 r background)\<lparr>registry := r'\<rparr>)"
    using fresh_states [of r' "(New_engine o1 r background)\<lparr>registry := r'\<rparr>"]
    by (simp add: canon_inv_def registered_only_def New_engine_def)
qed

subsection \<open>Runs of the engine\<close>

text \<open>
  The engines a program reaches: \<^verbatim>\<open>New\<close>, then any sequence of operations, whether they fail or not.
  \<^verbatim>\<open>Startup\<close> ranges over the middlewares in any order.
\<close>

inductive engine_run :: "methods \<Rightarrow> reflection \<Rightarrow> nat \<Rightarrow> Registry \<Rightarrow> Engine \<Rightarrow> bool" for impl rfl configImpl r where
  run_New: "New impl rfl isConfig configImpl w background defaults setters r = Inr (f, e) \<Longrightarrow>
     engine_run impl rfl configImpl r e"
| run_Startup: "engine_run impl rfl configImpl r e \<Longrightarrow> Startup impl rfl parse types order e = Inr (f, e') \<Longrightarrow>
     engine_run impl rfl configImpl r e'"
| run_Shutdown: "engine_run impl rfl configImpl r e \<Longrightarrow> Shutdown impl e = Inr (f, e') \<Longrightarrow>
     engine_run impl rfl configImpl r e'"
| run_RegisterServer: "engine_run impl rfl configImpl r e \<Longrightarrow> RegisterServer b name s e = Inr (f, e') \<Longrightarrow>
     engine_run impl rfl configImpl r e'"
| run_WithCallback: "engine_run impl rfl configImpl r e \<Longrightarrow> engine_run impl rfl configImpl r (WithCallback cb e)"

lemma RegisterServer_same:
  "RegisterServer b name s e = Inr (f, e') \<Longrightarrow> calls e' = calls e \<and> registry e' = registry e"
  by (auto simp: RegisterServer_def Let_def split: if_splits)

lemma WithCallback_same: "calls (WithCallback cb e) = calls e" "registry (WithCallback cb e) = registry e"
  by (simp_all add: WithCallback_def)

lemma engine_run_inv:
  assumes "engine_run impl rfl configImpl r e" and "lifecycle impl P"
    and "\<And>isConfig w background defaults setters f e. New impl rfl isConfig configImpl w background defaults setters r = Inr (f, e) \<Longrightarrow> P e"
  shows "P e"
  using assms(1)
proof (induction rule: engine_run.induct)
  case (run_RegisterServer e b name s f e')
  then show ?case using lifecycle.P_same [OF assms(2), of e e'] RegisterServer_same by blast
next
  case (run_WithCallback e cb)
  then show ?case using lifecycle.P_same [OF assms(2), of e "WithCallback cb e"] WithCallback_same by simp
qed (use assms(3) lifecycle.P_Startup [OF assms(2)] lifecycle.P_Shutdown [OF assms(2)] in blast)+

text \<open>
  \<^bold>\<open>C10\<close>. Whatever calls fail and however often \<^verbatim>\<open>Startup\<close> and \<^verbatim>\<open>Shutdown\<close> are called, the engine calls
  the methods of each component in the order \<^verbatim>\<open>Prepare\<close>, \<^verbatim>\<open>Initiate\<close>, \<^verbatim>\<open>OnStartup\<close>, \<^verbatim>\<open>OnShutdown\<close>, each at
  most once, and the recorded state of the component says exactly which of them were called. (For
  components with canonical, different names and different implementations.)
\<close>

theorem lifecycle_order:
  assumes "fresh_registry r configImpl" and "engine_run impl rfl configImpl r e"
    and "c \<in> set (Components (registry e))"
  shows "phases_of (Impl c) (calls e) = phases_to (state_of e (Name c)) \<and>
         prefix (phases_of (Impl c) (calls e)) [Prepare, Initiate, OnStartup, OnShutdown]"
proof -
  have "life_inv e"
    using engine_run_inv [OF assms(2) life.lifecycle_axioms] life_inv_New [OF assms(1)] by blast
  then have eq: "phases_of (Impl c) (calls e) = phases_to (state_of e (Name c))"
    using assms(3) by (simp add: life_inv_def)
  then show ?thesis by (cases "state_of e (Name c)") simp_all
qed

text \<open>
  A component registered under a name that does not start with an upper-case letter is never
  initiated, started or shut down: every such call goes to a component with a canonical name.
\<close>

theorem only_canonical_initiated:
  assumes "register_all xs NewRegistry = Inr r" and "engine_run impl rfl configImpl r e"
    and "Comp ph i \<in> set (calls e)" and "ph \<noteq> Prepare"
  shows "\<exists>c \<in> ran (ComponentMap (registry e)). Impl c = i \<and> canon (Name c) = Name c"
proof -
  have "registered_only NewRegistry" by (simp add: registered_only_def NewRegistry_def)
  then have "registered_only r" using register_all_registered_only assms(1) by blast
  then have "canon_inv e"
    using engine_run_inv [OF assms(2) canons.lifecycle_axioms] canon_inv_New by blast
  then show ?thesis using assms(3,4) by (auto simp: canon_inv_def)
qed

subsection \<open>The log of a run without failures\<close>

definition phase_calls :: "phase \<Rightarrow> Component list \<Rightarrow> event list" where
  "phase_calls ph cs = map (\<lambda>c. Comp ph (Impl c)) cs"

text \<open>What a completed loop over components with different names has done.\<close>

definition looped :: "phase \<Rightarrow> Component list \<Rightarrow> Engine \<Rightarrow> Engine \<Rightarrow> bool" where
  "looped ph cs e e' = (frame e e' \<and>
     calls e' = calls e @ phase_calls ph (filter (\<lambda>c. state_of e (Name c) = phase_pre ph) cs) \<and>
     (\<forall>k. state_of e' k = (if k \<in> Name ` set cs \<and> state_of e k = phase_pre ph then phase_post ph else state_of e k)))"

lemma phase_pre_post [simp]: "phase_post ph \<noteq> phase_pre ph"
  by (cases ph) simp_all

lemma looped_Cons:
  assumes a: "advance impl ph (Name c) c e = (f, e1)" and l: "looped ph cs e1 e'" and d: "Name c \<notin> Name ` set cs"
  shows "looped ph (c # cs) e e'"
proof -
  have fr: "frame e e1" using advance_frame [of e impl ph "Name c" c] a by simp
  have st: "state_of e1 k = (if state_of e (Name c) = phase_pre ph \<and> k = Name c then phase_post ph else state_of e k)" for k
    using advance_state [of impl ph "Name c" c e k] a by simp
  have cl: "calls e1 = (if state_of e (Name c) = phase_pre ph then calls e @ [Comp ph (Impl c)] else calls e)"
    using advance_calls [of impl ph "Name c" c e] a by simp
  have "filter (\<lambda>x. state_of e1 (Name x) = phase_pre ph) cs = filter (\<lambda>x. state_of e (Name x) = phase_pre ph) cs"
    using d by (intro filter_cong) (auto simp: st image_iff)
  with l fr d show ?thesis
    by (auto simp: looped_def cl st phase_calls_def intro: frame_trans)
qed

lemma phase_loop_success:
  "phase_loop impl ph (map Some cs) e = Inr (False, e') \<Longrightarrow> distinct (map Name cs) \<Longrightarrow> looped ph cs e e'"
proof (induction cs arbitrary: e)
  case Nil
  then show ?case by (simp add: looped_def phase_calls_def)
next
  case (Cons c cs)
  obtain f e1 where a: "advance impl ph (Name c) c e = (f, e1)" by (meson surj_pair)
  with Cons.prems have "\<not> f" "phase_loop impl ph (map Some cs) e1 = Inr (False, e')" by (auto split: bool.splits)
  with looped_Cons [OF a] Cons show ?case by auto
qed

lemma prepare_loop_success:
  "prepare_loop impl (map Name cs) e = Inr (False, e') \<Longrightarrow> distinct (map Name cs) \<Longrightarrow>
   \<forall>c \<in> set cs. ComponentMap (registry e) (Name c) = Some c \<Longrightarrow> looped Prepare cs e e'"
proof (induction cs arbitrary: e)
  case Nil
  then show ?case by (simp add: looped_def phase_calls_def)
next
  case (Cons c cs)
  obtain f e1 where a: "advance impl Prepare (Name c) c e = (f, e1)" by (meson surj_pair)
  have "frame e e1" using advance_frame [of e impl Prepare "Name c" c] a by simp
  moreover from a Cons.prems have "\<not> f" "prepare_loop impl (map Name cs) e1 = Inr (False, e')" by (auto split: bool.splits)
  ultimately show ?case using looped_Cons [OF a] Cons by (auto simp: frame_registry)
qed

lemma run_phase_success:
  assumes "run_phase flt impl ph e = Inr (None, e')" and wf: "comps.wf (registry e)"
  shows "looped ph (Components (registry e)) e e'"
proof -
  have "GetSortedComponents [] (registry e) = Inr (map Some (Components (registry e)))"
    using comps.wf_sorted [OF wf, of "[]"] by (simp add: first_flag_def)
  then have "phase_loop impl ph (map Some (Components (registry e))) e = Inr (False, e')"
    using assms(1) by (auto simp: run_phase_def split: sum.splits prod.splits bool.splits)
  moreover have "distinct (map Name (Components (registry e)))" using wf unfolding comps.wf_def by metis
  ultimately show ?thesis by (rule phase_loop_success)
qed

lemma mw_loop_success:
  "mw_loop impl ms e = (False, e') \<Longrightarrow> frame e e' \<and> calls e' = calls e @ map (\<lambda>m. Mw (mw_Impl m)) ms \<and> registry e' = registry e"
proof (induction ms arbitrary: e)
  case (Cons m ms)
  obtain f e1 where a: "call impl (Mw (mw_Impl m)) e = (f, e1)" by (meson surj_pair)
  with Cons.prems have "\<not> f" "mw_loop impl ms e1 = (False, e')" by (auto split: bool.splits)
  with Cons.IH a call_frame [of e impl "Mw (mw_Impl m)"] call_calls [of impl "Mw (mw_Impl m)" e]
    call_registry [of impl "Mw (mw_Impl m)" e] frame_trans show ?case by auto
qed simp

lemma callback_startup_success:
  assumes "callback_startup impl rfl e = (False, e')"
  shows "frame e e' \<and> registry e' = registry e \<and>
    calls e' = calls e @ (case callback (options e) of None \<Rightarrow> [] | Some cb \<Rightarrow> [CallbackOnStartup cb])"
  using assms
  by (auto simp: callback_startup_def frame_def simp del: InjectComponentTo.simps split: option.splits prod.splits)

lemma New_config_success:
  assumes fresh: "fresh_registry r configImpl"
    and new: "New_config impl configImpl (New_engine o1 r background) = Inr (None, e1)"
  shows "comps.wf (registry e1) \<and>
    Components (registry e1) = filter (\<lambda>d. Name d \<noteq> ''Config'') (Components r) @ [config_component configImpl] \<and>
    calls e1 = [Comp Prepare configImpl, Comp Initiate configImpl] \<and> estate e1 = STATE_INITIATE \<and>
    (\<forall>k. state_of e1 k = (if k = ''Config'' then COMPONENT_STATE_INITIATED else COMPONENT_STATE_INIT))"
proof -
  let ?cfg = "config_component configImpl" and ?e0 = "New_engine o1 r background"
  have e0: "registry ?e0 = r" "calls ?e0 = []" "estate ?e0 = STATE_INITIATE" by (simp_all add: New_engine_def)
  obtain r' where r': "RegisterComponent ?cfg [True] r = Inr (None, r')"
    using new by (auto simp: New_config_def config_component_def e0 split: sum.splits prod.splits option.splits)
  note l = register_config_listed [OF r']
  have cn: "canon ''Config'' = ''Config''" by code_simp
  from comps.wf_register [of r ?cfg "[True]"] fresh r' cn
  have wf: "comps.wf r'" and cs: "Components r' = filter (\<lambda>d. Name d \<noteq> ''Config'') (Components r) @ [?cfg]"
    by (auto simp: fresh_registry_def config_component_def first_flag_def)
  have "\<forall>k s. ComponentStates r' k = Some s \<longrightarrow> s = COMPONENT_STATE_INIT"
    using register_states [OF r'] fresh by (auto simp: fresh_registry_def split: if_splits)
  then have init: "state_of (?e0\<lparr>registry := r'\<rparr>) k = COMPONENT_STATE_INIT" for k by (rule fresh_states) simp
  obtain b2 e2 where 2: "advance impl Prepare ''Config'' ?cfg (?e0\<lparr>registry := r'\<rparr>) = (b2, e2)" by (meson surj_pair)
  obtain b3 e3 where 3: "advance impl Initiate ''Config'' ?cfg e2 = (b3, e3)" by (meson surj_pair)
  have e1: "e1 = e3"
    using new r' l 2 3
    by (auto simp: New_config_def config_component_def GetComponentByName_def canonicalName_Config e0 split: bool.splits)
  have st2: "state_of e2 k = (if k = ''Config'' then COMPONENT_STATE_PREPARED else COMPONENT_STATE_INIT)" for k
    using advance_state [of impl Prepare "''Config''" ?cfg "?e0\<lparr>registry := r'\<rparr>" k] 2 init by simp
  have st3: "state_of e3 k = (if k = ''Config'' then COMPONENT_STATE_INITIATED else COMPONENT_STATE_INIT)" for k
    using advance_state [of impl Initiate "''Config''" ?cfg e2 k] 3 st2 by simp
  have "calls e2 = [Comp Prepare configImpl]"
    using advance_calls [of impl Prepare "''Config''" ?cfg "?e0\<lparr>registry := r'\<rparr>"] 2 init
    by (simp add: e0 config_component_def)
  then have c3: "calls e3 = [Comp Prepare configImpl, Comp Initiate configImpl]"
    using advance_calls [of impl Initiate "''Config''" ?cfg e2] 3 st2 by (simp add: config_component_def)
  have "frame (?e0\<lparr>registry := r'\<rparr>) e3"
    using advance_frame [of "?e0\<lparr>registry := r'\<rparr>" impl Prepare "''Config''" ?cfg]
      advance_frame [of e2 impl Initiate "''Config''" ?cfg] 2 3 frame_trans by simp
  then show ?thesis
    using wf cs c3 st3 e1 frame_registry [of "?e0\<lparr>registry := r'\<rparr>" e3] frame_wf [of "?e0\<lparr>registry := r'\<rparr>" e3]
    by (simp add: frame_def e0)
qed

text \<open>All listed components are in state \<open>s\<close>.\<close>

definition all_in :: "ComponentState \<Rightarrow> Engine \<Rightarrow> bool" where
  "all_in s e = (comps.wf (registry e) \<and> (\<forall>c \<in> set (Components (registry e)). state_of e (Name c) = s))"

lemma looped_all_in:
  assumes "looped ph (Components (registry e)) e e'" and "all_in (phase_pre ph) e"
  shows "all_in (phase_post ph) e' \<and> calls e' = calls e @ phase_calls ph (Components (registry e)) \<and> frame e e'"
  using assms by (auto simp: looped_def all_in_def frame_wf frame_registry)

lemma looped_none:
  assumes "looped ph (Components (registry e)) e e'" and "all_in s e" and "s \<noteq> phase_pre ph"
  shows "all_in s e' \<and> calls e' = calls e \<and> frame e e'"
proof -
  have "filter (\<lambda>c. state_of e (Name c) = phase_pre ph) (Components (registry e)) = []"
    using assms(2,3) by (auto simp: all_in_def filter_empty_conv)
  with assms show ?thesis by (auto simp: looped_def all_in_def frame_wf frame_registry phase_calls_def)
qed

lemma loadConfig_same:
  "loadConfig w setters e = Some (e', content) \<Longrightarrow>
   calls e' = calls e \<and> registry e' = registry e \<and> estate e' = estate e"
  by (auto simp: loadConfig_def Let_def split: option.splits if_splits prod.splits bool.splits)

lemma New_success:
  assumes fresh: "fresh_registry r configImpl"
    and new: "New impl rfl isConfig configImpl w background defaults setters r = Inr (None, e)"
  defines "cs \<equiv> filter (\<lambda>d. Name d \<noteq> ''Config'') (Components r)"
  shows "all_in COMPONENT_STATE_INITIATED e \<and> estate e = STATE_INITIATE \<and>
    Components (registry e) = cs @ [config_component configImpl] \<and>
    calls e = [Comp Prepare configImpl, Comp Initiate configImpl] @ phase_calls Prepare cs @ phase_calls Initiate cs"
proof -
  obtain o1 where o1: "apply_setters setters defaults = Some o1"
    using new by (auto simp: New_def split: option.splits)
  obtain e1 where e1: "New_config impl configImpl (New_engine o1 r background) = Inr (None, e1)"
    using new o1 by (auto simp: New_def split: sum.splits option.splits)
  obtain e2 where e2: "prepare_loop impl (SortedComponentName (registry e1)) e1 = Inr (False, e2)"
    and load: "New_load impl isConfig w setters e2 = Inr (None, e)"
    using new o1 e1 by (auto simp: New_def GetSortedComponentName_def split: sum.splits bool.splits prod.splits)
  from load obtain e3 content where e3: "loadConfig w setters e2 = Some (e3, content)"
    and init: "run_phase Exit impl Initiate e3 = Inr (None, e)"
    by (auto simp: New_load_def split: sum.splits if_splits option.splits)
  let ?cfg = "config_component configImpl"
  have wf1: "comps.wf (registry e1)" and c1: "Components (registry e1) = cs @ [?cfg]"
    and l1: "calls e1 = [Comp Prepare configImpl, Comp Initiate configImpl]" and s1: "estate e1 = STATE_INITIATE"
    and st1: "\<And>k. state_of e1 k = (if k = ''Config'' then COMPONENT_STATE_INITIATED else COMPONENT_STATE_INIT)"
    using New_config_success [OF fresh e1] by (auto simp: cs_def)
  have names: "SortedComponentName (registry e1) = map Name (cs @ [?cfg])" "distinct (map Name (cs @ [?cfg]))"
    using wf1 c1 unfolding comps.wf_def by metis+
  have l2: "looped Prepare (cs @ [?cfg]) e1 e2"
    using prepare_loop_success [of impl "cs @ [?cfg]" e1 e2] e2 names comps.wf_table_Some [OF wf1] c1 by simp
  have other: "Name d \<noteq> ''Config''" if "d \<in> set cs" for d using that by (simp add: cs_def)
  have f1: "filter (\<lambda>c. state_of e1 (Name c) = phase_pre Prepare) (cs @ [?cfg]) = cs"
    using other by (auto simp: st1 config_component_def filter_id_conv)
  have st2: "state_of e2 (Name d) = COMPONENT_STATE_PREPARED" if "d \<in> set cs" for d
    using l2 other [OF that] that by (auto simp: looped_def st1)
  have cfg2: "state_of e2 ''Config'' = COMPONENT_STATE_INITIATED"
    using l2 by (auto simp: looped_def st1)
  have fr2: "frame e1 e2" using l2 by (simp add: looped_def)
  have same3: "calls e3 = calls e2" "registry e3 = registry e2" "estate e3 = estate e2"
    using loadConfig_same [OF e3] by auto
  have st3: "state_of e3 k = state_of e2 k" for k by (simp add: state_of_def same3)
  have wf3: "comps.wf (registry e3)" and c3: "Components (registry e3) = cs @ [?cfg]"
    using frame_wf [OF fr2] frame_registry(1) [OF fr2] wf1 c1 by (simp_all add: same3)
  have l3: "looped Initiate (cs @ [?cfg]) e3 e" using run_phase_success [OF init wf3] c3 by simp
  have f3: "filter (\<lambda>c. state_of e3 (Name c) = phase_pre Initiate) (cs @ [?cfg]) = cs"
    using st2 cfg2 by (auto simp: st3 config_component_def filter_id_conv)
  have fr3: "frame e3 e" using l3 by (simp add: looped_def)
  have "calls e = calls e1 @ phase_calls Prepare cs @ phase_calls Initiate cs"
    using l2 l3 f1 f3 by (simp add: looped_def same3)
  moreover have "state_of e (Name d) = COMPONENT_STATE_INITIATED" if "d \<in> set (cs @ [?cfg])" for d
    using l3 that st2 cfg2 by (auto simp: looped_def st3 config_component_def)
  ultimately show ?thesis
    using wf3 c3 l1 s1 fr2 fr3 same3(3) frame_wf [OF fr3] frame_registry(1) [OF fr3]
    by (auto simp: all_in_def frame_def)
qed

lemma Startup_success:
  assumes up: "Startup impl rfl parse types order e = Inr (None, e')" and st: "estate e = STATE_INITIATE"
    and all: "all_in COMPONENT_STATE_INITIATED e"
  shows "all_in COMPONENT_STATE_STARTUP e' \<and> estate e' = STATE_STARTUP \<and> options e' = options e \<and>
    Components (registry e') = Components (registry e) \<and>
    calls e' = calls e @ map (\<lambda>m. Mw (mw_Impl m)) order
      @ (case callback (options e) of None \<Rightarrow> [] | Some cb \<Rightarrow> [CallbackOnStartup cb])
      @ phase_calls OnStartup (Components (registry e))"
proof -
  obtain e1 where 1: "mw_loop impl order e = (False, e1)"
    using up st by (auto simp: Startup_def split: prod.splits bool.splits)
  obtain e2 where 2: "callback_startup impl rfl e1 = (False, e2)"
    using up st 1 by (auto simp: Startup_def split: prod.splits bool.splits)
  obtain ss where 3: "Startup_components impl rfl (e2\<lparr>ServerMap := ss\<rparr>) = Inr (None, e')"
    using up st 1 2 by (auto simp: Startup_def split: sum.splits bool.splits)
  let ?e2 = "e2\<lparr>ServerMap := ss\<rparr>"
  obtain e3 e4 where 4: "run_phase Failed impl Initiate ?e2 = Inr (None, e3)"
    and 5: "run_phase Failed impl OnStartup e3 = Inr (None, e4)" and 6: "e' = e4\<lparr>estate := STATE_STARTUP\<rparr>"
    using 3 by (auto simp: Startup_components_def split: sum.splits bool.splits option.splits)
  note m1 = mw_loop_success [OF 1] and m2 = callback_startup_success [OF 2]
  have all2: "all_in COMPONENT_STATE_INITIATED ?e2"
    using all m1 m2 by (simp add: all_in_def state_of_def)
  have "comps.wf (registry ?e2)" using all2 by (simp only: all_in_def)
  from looped_none [OF run_phase_success [OF 4 this] all2]
  have m4: "all_in COMPONENT_STATE_INITIATED e3" "calls e3 = calls ?e2" "frame ?e2 e3" by simp_all
  have "comps.wf (registry e3)" using m4 by (simp only: all_in_def)
  from looped_all_in [OF run_phase_success [OF 5 this]] m4(1)
  have m5: "all_in COMPONENT_STATE_STARTUP e4" "calls e4 = calls e3 @ phase_calls OnStartup (Components (registry e3))"
    "frame e3 e4" by simp_all
  have "options e1 = options e" using m1 by (simp add: frame_def)
  moreover have "all_in COMPONENT_STATE_STARTUP e'" using m5 6 by (simp add: all_in_def state_of_def)
  moreover have "options e' = options e"
    using m1 m2 m4(3) m5(3) 6 by (simp add: frame_def)
  moreover have "Components (registry e') = Components (registry e)" "Components (registry e3) = Components (registry e)"
    using m1 m2 m4(3) m5(3) 6 frame_registry(1) [of ?e2 e3] frame_registry(1) [of e3 e4] by simp_all
  ultimately show ?thesis using m1 m2 m4 m5 6 by simp
qed

lemma Shutdown_success:
  assumes down: "Shutdown impl e = Inr (None, e')" and st: "estate e = STATE_STARTUP"
    and all: "all_in COMPONENT_STATE_STARTUP e"
  shows "estate e' = STATE_SHUTDOWN \<and>
    calls e' = calls e @ phase_calls OnShutdown (Components (registry e))
      @ (case callback (options e) of None \<Rightarrow> [] | Some cb \<Rightarrow> [CallbackOnShutdown cb])"
proof -
  obtain e1 where 1: "run_phase Failed impl OnShutdown e = Inr (None, e1)"
    using down st by (auto simp: Shutdown_def split: sum.splits option.splits)
  have "comps.wf (registry e)" using all by (simp only: all_in_def)
  from looped_all_in [OF run_phase_success [OF 1 this]] all
  have "calls e1 = calls e @ phase_calls OnShutdown (Components (registry e))" "frame e e1" by simp_all
  with down st 1 show ?thesis
    by (auto simp: Shutdown_def Let_def frame_def split: option.splits if_splits)
qed


subsection \<open>A sample run\<close>

definition sample_impl :: methods where "sample_impl ev ctx = (False, Some (ctx + 1))"

definition sample_refl :: reflection where
  "sample_refl = (\<lambda>i. \<lparr>t_Name = '''', t_Struct = False, t_Fields = []\<rparr>, \<lambda>f v. True)"

definition sample_world :: World where
  "sample_world =
     \<lparr>SetOptions_fails = \<lambda>_. False, LoadFromEnvFile_fails = \<lambda>_ _. False, LoadFromEnv_fails = \<lambda>_. False,
      GetString = \<lambda>_. '''', ReadAll = \<lambda>_. None, WriteFile_fails = \<lambda>_ _. False, Stat_fails = \<lambda>_. False,
      path_Abs = Some, LoadFromConfigPath_fails = \<lambda>_ _. False\<rparr>"

definition sample_options :: EngineOptions where
  "sample_options = \<lparr>configFile = ''/etc/l.json'', dotenvFile = ''/.env'', envPrefix = ''LTICK'', configs = 0,
     callback = Some 9, eLogWriter = 0\<rparr>"

definition sample_registry :: Registry where
  "sample_registry =
     (case register_all [(\<lparr>Name = ''Log'', Impl = 1, ConfigurePath = '''', Dependencies = []\<rparr>, []),
                         (\<lparr>Name = ''Queue'', Impl = 2, ConfigurePath = '''', Dependencies = []\<rparr>, [])] NewRegistry of
        Inr r \<Rightarrow> r | Inl p \<Rightarrow> NewRegistry)"

lemma sample_fresh: "fresh_registry sample_registry 7"
proof -
  let ?xs = "[(\<lparr>Name = ''Log'', Impl = 1, ConfigurePath = '''', Dependencies = []\<rparr>, []),
              (\<lparr>Name = ''Queue'', Impl = 2, ConfigurePath = '''', Dependencies = []\<rparr>, [])] :: (Component \<times> bool list) list"
  have cn: "canon ''Log'' = ''Log''" "canon ''Queue'' = ''Queue''" by code_simp+
  have "comps.wf NewRegistry" by (simp add: comps.wf_def NewRegistry_def)
  from register_all_wf [OF this, of ?xs] cn obtain r where r: "register_all ?xs NewRegistry = Inr r" "comps.wf r" by auto
  then have s: "sample_registry = r" by (simp add: sample_registry_def)
  have "registered_only NewRegistry" by (simp add: registered_only_def NewRegistry_def)
  with r have "registered_only r" using register_all_registered_only by blast
  moreover have "map Impl (Components sample_registry) = [1, 2]" by code_simp
  then have "inj_on Impl (set (Components r))" "Impl ` set (Components r) = {1, 2}"
    unfolding s by (auto simp: map_eq_Cons_conv inj_on_def)
  ultimately show ?thesis using r(2) s by (simp add: fresh_registry_def registered_only_def)
qed

definition ok_engine :: "(fault option \<times> Engine) outcome \<Rightarrow> Engine option" where
  "ok_engine x = (case x of Inl p \<Rightarrow> None | Inr (Some f, e) \<Rightarrow> None | Inr (None, e) \<Rightarrow> Some e)"

lemma ok_engine_Some: "ok_engine x = Some e \<longleftrightarrow> x = Inr (None, e)"
  by (auto simp: ok_engine_def split: sum.splits option.splits)

lemma ex_Some_bind: "(\<exists>e. x = Some e \<and> Q e) \<longleftrightarrow> (case x of None \<Rightarrow> False | Some e \<Rightarrow> Q e)"
  "(\<exists>e. x = Some e) \<longleftrightarrow> \<not> Option.is_none x"
  by (auto split: option.splits simp: Option.is_none_def)

lemma sample_run:
  obtains e1 e2 e3 where
    "New sample_impl sample_refl (\<lambda>i. i = 7) 7 sample_world 0 sample_options [] sample_registry = Inr (None, e1)"
    "Startup sample_impl sample_refl (\<lambda>_. None) [] [] e1 = Inr (None, e2)"
    "Shutdown sample_impl e2 = Inr (None, e3)"
    "options e1 = sample_options"
proof -
  have "(\<exists>e1. ok_engine (New sample_impl sample_refl (\<lambda>i. i = 7) 7 sample_world 0 sample_options [] sample_registry) = Some e1 \<and>
      options e1 = sample_options \<and>
      (\<exists>e2. ok_engine (Startup sample_impl sample_refl (\<lambda>_. None) [] [] e1) = Some e2 \<and>
        (\<exists>e3. ok_engine (Shutdown sample_impl e2) = Some e3)))"
    unfolding ex_Some_bind by code_simp
  then show ?thesis using that by (auto simp: ok_engine_Some)
qed

lemma sample_calls:
  "phase_calls ph (filter (\<lambda>d. Name d \<noteq> ''Config'') (Components sample_registry)) = [Comp ph 1, Comp ph 2]"
proof -
  have "map Impl (filter (\<lambda>d. Name d \<noteq> ''Config'') (Components sample_registry)) = [1, 2]" by code_simp
  then show ?thesis by (auto simp: phase_calls_def map_eq_Cons_conv)
qed


theorem lifecycle_order_witness:
  "\<exists>e c. engine_run sample_impl sample_refl 7 sample_registry e \<and> c \<in> set (Components (registry e)) \<and>
     phases_of (Impl c) (calls e) = phases_to (state_of e (Name c))"
proof -
  obtain e1 e2 e3 where
    n: "New sample_impl sample_refl (\<lambda>i. i = 7) 7 sample_world 0 sample_options [] sample_registry = Inr (None, e1)"
    by (rule sample_run)
  then have run: "engine_run sample_impl sample_refl 7 sample_registry e1" by (rule run_New)
  have "config_component 7 \<in> set (Components (registry e1))" using New_success [OF sample_fresh n] by simp
  with lifecycle_order [OF sample_fresh run this] run show ?thesis by blast
qed

theorem only_canonical_initiated_witness:
  "\<exists>(e :: Engine) c. Comp Initiate 1 \<in> set (calls e) \<and> c \<in> ran (ComponentMap (registry e)) \<and> Impl c = 1 \<and> canon (Name c) = Name c"
proof -
  let ?xs = "[(\<lparr>Name = ''Log'', Impl = 1, ConfigurePath = '''', Dependencies = []\<rparr>, []),
              (\<lparr>Name = ''Queue'', Impl = 2, ConfigurePath = '''', Dependencies = []\<rparr>, [])] :: (Component \<times> bool list) list"
  have "isl (register_all ?xs NewRegistry) = False" by code_simp
  then have reg: "register_all ?xs NewRegistry = Inr sample_registry"
    by (cases "register_all ?xs NewRegistry") (simp_all add: sample_registry_def)
  obtain e1 e2 e3 where
    n: "New sample_impl sample_refl (\<lambda>i. i = 7) 7 sample_world 0 sample_options [] sample_registry = Inr (None, e1)"
    by (rule sample_run)
  have "Comp Initiate 1 \<in> set (calls e1)"
    using New_success [OF sample_fresh n] by (simp add: sample_calls)
  moreover from only_canonical_initiated [OF reg run_New [OF n] this]
  have "\<exists>c \<in> ran (ComponentMap (registry e1)). Impl c = 1 \<and> canon (Name c) = Name c" by simp
  ultimately show ?thesis by blast
qed

end
