(* ===== verification/Config_Template.thy ===== *)
theory Config_Template
  imports Engine
begin

text \<open>
  The template substitution of \<^verbatim>\<open>loadCachedFileConfig\<close> in \<^verbatim>\<open>src/ltick.go\<close>: every \<^verbatim>\<open>%KEY%\<close> of the configuration
  file is replaced by the value of the key, one placeholder after the other over the whole text. A template
  is a list of pairs of a literal and the key that follows it, and a last literal.
\<close>

fun render :: "(string \<times> string) list \<Rightarrow> string \<Rightarrow> string" where
  "render [] rest = rest"
| "render ((l, k) # ps) rest = l @ CHR ''%'' # k @ CHR ''%'' # render ps rest"

fun fill :: "(string \<Rightarrow> string) \<Rightarrow> (string \<times> string) list \<Rightarrow> string \<Rightarrow> string" where
  "fill val [] rest = rest"
| "fill val ((l, k) # ps) rest = l @ val k @ fill val ps rest"

definition plain :: "string \<Rightarrow> bool" where "plain s = (CHR ''%'' \<notin> set s)"

definition key_name :: "string \<Rightarrow> bool" where "key_name k = (k \<noteq> [] \<and> (\<forall>c \<in> set k. word_char c))"

definition breaks :: "string \<Rightarrow> bool" where "breaks s = (\<exists>c \<in> set s. \<not> word_char c)"

text \<open>Literals have no percent sign, and a literal between two keys holds a byte that is no key byte.\<close>

fun template_ok :: "(string \<times> string) list \<Rightarrow> bool" where
  "template_ok [] = True"
| "template_ok [(l, k)] = (plain l \<and> key_name k)"
| "template_ok ((l, k) # (l', k') # ps) = (plain l \<and> key_name k \<and> breaks l' \<and> template_ok ((l', k') # ps))"

lemma percent_not_word: "\<not> word_char CHR ''%''"
  by code_simp

lemma key_plain: "key_name k \<Longrightarrow> plain k"
  using percent_not_word by (auto simp: key_name_def plain_def)

abbreviation mark :: "string \<Rightarrow> string" where
  "mark k \<equiv> CHR ''%'' # k @ ''%''"

lemma replace_skip: "plain l \<Longrightarrow> replace_all (mark k) v (l @ t) = l @ replace_all (mark k) v t"
proof (induction l)
  case (Cons c l)
  then have "c \<noteq> CHR ''%''" by (metis list.set_intros(1) plain_def)
  with Cons show ?case by (subst replace_all.simps) (simp add: plain_def)
qed simp

lemma replace_hit: "replace_all (mark k) v (mark k @ t) = v @ replace_all (mark k) v t"
  by (subst replace_all.simps) simp

lemma prefix_until:
  assumes "prefix (k @ ''%'') (l @ t)" and "key_name k" and "breaks l" and "plain l"
  shows False
proof -
  obtain u where u: "l @ t = k @ CHR ''%'' # u" using assms(1) by (auto simp: prefix_def)
  show False
  proof (cases "length l \<le> length k")
    case True
    then have "set l \<subseteq> set k" using u by (metis append_eq_append_conv_if set_take_subset)
    with assms(2,3) show False by (auto simp: key_name_def breaks_def)
  next
    case False
    then have "l ! length k = CHR ''%''" using u by (metis nth_append nth_append_length not_le)
    with False assms(4) show False by (metis nth_mem not_le plain_def)
  qed
qed

lemma prefix_plain: "prefix (k @ ''%'') t \<Longrightarrow> plain t \<Longrightarrow> False"
  by (auto simp: prefix_def plain_def)

text \<open>No placeholder starts at the closing percent sign of another one.\<close>

definition no_start :: "string \<Rightarrow> bool" where
  "no_start t = (\<forall>k. key_name k \<longrightarrow> \<not> prefix (k @ ''%'') t)"

lemma replace_miss:
  assumes "key_name k" "key_name k'" "k \<noteq> k'" "no_start t"
  shows "replace_all (mark k) v (mark k' @ t) = mark k' @ replace_all (mark k) v t"
proof -
  have "\<not> prefix (mark k) (mark k' @ t)"
  proof
    assume "prefix (mark k) (mark k' @ t)"
    then obtain u where u: "k' @ CHR ''%'' # t = k @ CHR ''%'' # u" by (auto simp: prefix_def)
    have "takeWhile (\<lambda>c. c \<noteq> CHR ''%'') (k' @ CHR ''%'' # t) = k'" "takeWhile (\<lambda>c. c \<noteq> CHR ''%'') (k @ CHR ''%'' # u) = k"
      using key_plain [OF assms(1)] key_plain [OF assms(2)] by (auto simp: plain_def takeWhile_append)
    with u assms(3) show False by simp
  qed
  then have "replace_all (mark k) v (mark k' @ t) = CHR ''%'' # replace_all (mark k) v (k' @ CHR ''%'' # t)"
    by (subst replace_all.simps) simp
  also have "\<dots> = CHR ''%'' # k' @ replace_all (mark k) v (CHR ''%'' # t)"
    using replace_skip [OF key_plain [OF assms(2)], of k v] by simp
  also have "\<not> prefix (mark k) (CHR ''%'' # t)" using assms(1,4) by (auto simp: no_start_def)
  then have "replace_all (mark k) v (CHR ''%'' # t) = CHR ''%'' # replace_all (mark k) v t"
    by (subst replace_all.simps) simp
  finally show ?thesis by simp
qed

lemma no_start_render:
  assumes "plain rest" and "ps \<noteq> [] \<longrightarrow> breaks (fst (hd ps)) \<and> plain (fst (hd ps))"
  shows "no_start (render ps rest)"
proof (cases ps)
  case Nil
  then show ?thesis using assms(1) prefix_plain by (auto simp: no_start_def)
next
  case (Cons p qs)
  then show ?thesis using assms(2) prefix_until by (cases p) (auto simp: no_start_def)
qed

text \<open>Replacing one key in a template: the literals around it are joined.\<close>

fun put :: "string \<Rightarrow> string \<Rightarrow> string \<Rightarrow> (string \<times> string) list \<Rightarrow> string \<Rightarrow> (string \<times> string) list \<times> string" where
  "put k v acc [] rest = ([], acc @ rest)"
| "put k v acc ((l, k') # ps) rest =
     (if k' = k then put k v (acc @ l @ v) ps rest
      else (case put k v [] ps rest of (qs, r) \<Rightarrow> ((acc @ l, k') # qs, r)))"

lemma template_ok_Cons:
  "template_ok ((l, k) # ps) \<longleftrightarrow> plain l \<and> key_name k \<and> template_ok ps \<and> (ps \<noteq> [] \<longrightarrow> breaks (fst (hd ps)))"
  by (cases ps) auto

lemma template_ok_hd: "template_ok ps \<Longrightarrow> ps \<noteq> [] \<Longrightarrow> plain (fst (hd ps))"
  by (cases ps) (auto simp: template_ok_Cons)

lemma replace_render:
  assumes "template_ok ps" and "plain rest" and "key_name k"
  shows "acc @ replace_all (mark k) v (render ps rest) = (case put k v acc ps rest of (qs, r) \<Rightarrow> render qs r)"
  using assms
proof (induction k v acc ps rest rule: put.induct)
  case (1 k v acc rest)
  then show ?case using replace_skip [of rest k v "[]"] by (simp add: replace_all.simps)
next
  case (2 k v acc l k' ps rest)
  have ok: "plain l" "key_name k'" "template_ok ps" "ps \<noteq> [] \<longrightarrow> breaks (fst (hd ps))"
    using "2.prems"(1) by (auto simp: template_ok_Cons)
  have skip: "replace_all (mark k) v (render ((l, k') # ps) rest) = l @ replace_all (mark k) v (mark k' @ render ps rest)"
    using replace_skip [OF ok(1), of k v] by simp
  show ?case
  proof (cases "k' = k")
    case True
    then show ?thesis using "2.IH"(1) [OF True ok(3)] "2.prems" skip replace_hit [of k v] by simp
  next
    case False
    have "no_start (render ps rest)"
      using no_start_render [OF "2.prems"(2)] ok template_ok_hd by blast
    from replace_miss [OF "2.prems"(3) ok(2) _ this, of v] False skip "2.IH"(2) [OF False ok(3)] "2.prems"
    show ?thesis by (auto split: prod.splits)
  qed
qed

lemma plain_append [simp]: "plain (s @ t) \<longleftrightarrow> plain s \<and> plain t"
  by (simp add: plain_def)

lemma put_first:
  "put k v acc ps rest = (qs, r) \<Longrightarrow> qs \<noteq> [] \<Longrightarrow> ps \<noteq> [] \<and> set acc \<union> set (fst (hd ps)) \<subseteq> set (fst (hd qs))"
proof (induction k v acc ps rest arbitrary: qs rule: put.induct)
  case (2 k v acc l k' ps rest)
  show ?case
  proof (cases "k' = k")
    case True
    with 2 show ?thesis by auto
  next
    case False
    with "2.prems" show ?thesis by (auto split: prod.splits)
  qed
qed simp

lemma put_ok:
  assumes "put k v acc ps rest = (qs, r)" and "template_ok ps" "plain rest" "plain acc" "plain v"
  shows "template_ok qs \<and> plain r \<and> snd ` set qs = snd ` set ps - {k} \<and>
         (val k = v \<longrightarrow> fill val qs r = acc @ fill val ps rest)"
  using assms
proof (induction k v acc ps rest arbitrary: qs rule: put.induct)
  case (1 k v acc rest)
  then show ?case by auto
next
  case (2 k v acc l k' ps rest)
  have ok: "plain l" "key_name k'" "template_ok ps" "ps \<noteq> [] \<longrightarrow> breaks (fst (hd ps))"
    using "2.prems"(2) by (auto simp: template_ok_Cons)
  show ?case
  proof (cases "k' = k")
    case True
    with "2.IH"(1) [OF True, of qs] "2.prems" ok show ?thesis by auto
  next
    case False
    with "2.prems"(1) obtain qs' where qs': "put k v [] ps rest = (qs', r)" "qs = (acc @ l, k') # qs'"
      by (auto split: prod.splits)
    have "qs' \<noteq> [] \<longrightarrow> breaks (fst (hd qs'))"
      using put_first [OF qs'(1)] ok(4) by (auto simp: breaks_def)
    with "2.IH"(2) [OF False qs'(1) ok(3)] "2.prems" ok qs' False show ?thesis
      by (auto simp: template_ok_Cons plain_def)
  qed
qed

lemma fold_replace:
  assumes "\<forall>k \<in> set ks. key_name k \<and> plain (val k)" and "template_ok ps" and "plain rest" and "snd ` set ps \<subseteq> set ks"
  shows "fold (\<lambda>k text. replace_all (mark k) (val k) text) ks (render ps rest) = fill val ps rest"
  using assms
proof (induction ks arbitrary: ps rest)
  case Nil
  then show ?case by simp
next
  case (Cons k ks)
  obtain qs r where put: "put k (val k) [] ps rest = (qs, r)" by (meson surj_pair)
  have "replace_all (mark k) (val k) (render ps rest) = render qs r"
    using replace_render [of ps rest k "[]" "val k"] Cons.prems put by simp
  moreover have "template_ok qs \<and> plain r \<and> snd ` set qs = snd ` set ps - {k} \<and> fill val qs r = fill val ps rest"
    using put_ok [OF put, of val] Cons.prems by (simp add: plain_def)
  ultimately show ?case using Cons.IH [of qs r] Cons.prems by auto
qed

lemma find_skip: "plain l \<Longrightarrow> find_placeholders (l @ t) = find_placeholders t"
proof (induction l)
  case (Cons c l)
  then have "c \<noteq> CHR ''%''" by (metis list.set_intros(1) plain_def)
  with Cons show ?case by (simp add: plain_def Let_def)
qed simp

lemma find_mark: "key_name k \<Longrightarrow> find_placeholders (mark k @ t) = mark k # find_placeholders t"
proof -
  assume k: "key_name k"
  then have "takeWhile word_char (k @ CHR ''%'' # t) = k" using percent_not_word by (simp add: key_name_def)
  with k show ?thesis by (simp add: key_name_def Let_def)
qed

lemma find_render:
  "template_ok ps \<Longrightarrow> plain rest \<Longrightarrow> find_placeholders (render ps rest) = map (\<lambda>p. mark (snd p)) ps"
proof (induction ps)
  case Nil
  then show ?case using find_skip [of rest "[]"] by simp
next
  case (Cons p ps)
  obtain l k where p: "p = (l, k)" by (cases p)
  have "plain l" "key_name k" "template_ok ps" using Cons.prems p by (auto simp: template_ok_Cons)
  then show ?case using Cons find_skip [of l "mark k @ render ps rest"] find_mark [of k "render ps rest"] p by simp
qed

lemma Trim_mark: "key_name k \<Longrightarrow> Trim (mark k) ''%'' = k"
proof -
  assume k: "key_name k"
  then have "hd k \<noteq> CHR ''%''" "last k \<noteq> CHR ''%''" "k \<noteq> []"
    using key_plain [OF k] by (metis hd_in_set last_in_set plain_def key_name_def)+
  then have "dropWhile (\<lambda>c. c = CHR ''%'') (k @ t) = k @ t" "dropWhile (\<lambda>c. c = CHR ''%'') (rev k) = rev k" for t
    by (auto simp: dropWhile_eq_self_iff hd_rev)
  then show ?thesis by (simp add: Trim_def TrimLeft_def)
qed



text \<open>
  Without such a separator the substitution goes wrong: in \<^verbatim>\<open>%B%;%A%B%C%\<close> the text between the
  placeholders of \<^verbatim>\<open>A\<close> and \<^verbatim>\<open>C\<close> is taken for the key \<^verbatim>\<open>B\<close>, so \<^verbatim>\<open>A\<close> and \<^verbatim>\<open>C\<close> stay unreplaced.
\<close>

theorem substitute_adjacent_wrong:
  "substitute (\<lambda>k. ''v'') ''%B%;%A%B%C%'' = ''v;%AvC%''"
  by code_simp

end
