(* ===== verification/Config_Component.thy ===== *)
theory Config_Component
  imports Path_Util
begin

text \<open>
  \<^verbatim>\<open>src/config/protocol.go\<close> and \<^verbatim>\<open>src/config/callbacks.go\<close>: the configuration component over a provider. The provider
  (\<^verbatim>\<open>src/config/viper.go\<close> passes every call to the viper package) is an argument; what the theorems use of it is
  the predicate \<open>viper_laws\<close>.
\<close>

subsection \<open>Options and providers\<close>

datatype option_type =
  TInvalid | TString | TBool | TInt | TInt64 | TFloat64 | TTime | TDuration | TStringSlice | TStringMap | TStringMapString
  | TStringMapStringSlice | TSizeInBytes

record 'v Option =
  OptType :: option_type
  Default :: "'v option"
  EnvironmentKey :: string

text \<open>A provider with state \<open>'s\<close>: \<open>None\<close> is nil. The typed getters convert the value under a key, each its own way.\<close>

record ('s, 'v) Provider =
  pInitiate :: "'s \<Rightarrow> string option \<times> 's"
  pAddConfigPath :: "string \<Rightarrow> 's \<Rightarrow> 's"
  pSetConfigName :: "string \<Rightarrow> 's \<Rightarrow> 's"
  pSetConfigFile :: "string \<Rightarrow> 's \<Rightarrow> 's"
  pSetEnvPrefix :: "string \<Rightarrow> 's \<Rightarrow> 's"
  pSetDefault :: "string \<Rightarrow> 'v \<Rightarrow> 's \<Rightarrow> 's"
  pBindEnv :: "string \<Rightarrow> 's \<Rightarrow> string option \<times> 's"
  pReadInConfig :: "'s \<Rightarrow> string option \<times> 's"
  pSet :: "string \<Rightarrow> 'v \<Rightarrow> 's \<Rightarrow> 's"
  pGet :: "'s \<Rightarrow> string \<Rightarrow> 'v option"

record ('s, 'v) Config =
  cfgProvider :: string
  handler :: 's
  options :: "(string \<times> 'v Option) list option"
  bindedEnvironmentKeys :: "string list"

text \<open>\<^verbatim>\<open>errors.Annotatef\<close>, and a name in quotes.\<close>

definition annotate :: "string \<Rightarrow> string option \<Rightarrow> string option" where
  "annotate m err = map_option (\<lambda>e. m @ '': '' @ e) err"

definition quoted :: "string \<Rightarrow> string" where
  "quoted s = [CHR 0x27] @ s @ [CHR 0x27]"

subsection \<open>The registry of providers\<close>

definition config_Register :: "string \<Rightarrow> 'h option \<Rightarrow> (string \<rightharpoonup> 'h) \<Rightarrow> string option \<times> (string \<rightharpoonup> 'h)" where
  "config_Register name configHandler handlers =
     (case configHandler of
        None \<Rightarrow> (Some ''config: Register config is nil'', handlers)
      | Some h \<Rightarrow> (None, if handlers name = None then handlers(name \<mapsto> h) else handlers))"

definition config_lookup :: "string \<Rightarrow> (string \<rightharpoonup> 'h) \<Rightarrow> string + 'h" where
  "config_lookup name handlers =
     (case handlers name of
        None \<Rightarrow> Inl (''config: unknown config '' @ name @ '' (forgotten register?)'')
      | Some h \<Rightarrow> Inr h)"

text \<open>A registered provider makes its first state.\<close>

definition Config_Use ::
    "('s, 'v) Provider \<Rightarrow> (string \<rightharpoonup> 's) \<Rightarrow> string \<Rightarrow> ('s, 'v) Config \<Rightarrow> string option \<times> ('s, 'v) Config" where
  "Config_Use P handlers name c =
     (case config_lookup name handlers of
        Inl e \<Rightarrow> (Some e, c)
      | Inr s \<Rightarrow>
          (case pInitiate P s of
             (err, s1) \<Rightarrow> (annotate (''config: initiate '' @ quoted name @ '' error'') err, c\<lparr>cfgProvider := name, handler := s1\<rparr>)))"

definition Config_Initiate ::
    "('s, 'v) Provider \<Rightarrow> 's \<Rightarrow> (string \<rightharpoonup> 's) \<Rightarrow> ('s, 'v) Config \<Rightarrow> string option \<times> ('s, 'v) Config \<times> (string \<rightharpoonup> 's)" where
  "Config_Initiate P viper handlers c =
     (let c1 = (if options c = None then c\<lparr>options := Some []\<rparr> else c) in
      case config_Register ''viper'' (Some viper) handlers of
        (Some e, hs) \<Rightarrow> (annotate (''config: initiate '' @ quoted (cfgProvider c1) @ '' error'') (Some e), c1, hs)
      | (None, hs) \<Rightarrow>
          (case Config_Use P hs ''viper'' c1 of
             (err, c2) \<Rightarrow> (annotate (''config: initiate '' @ quoted (cfgProvider c2) @ '' error'') err, c2, hs)))"

definition AddConfigPath :: "('s, 'v) Provider \<Rightarrow> string \<Rightarrow> ('s, 'v) Config \<Rightarrow> ('s, 'v) Config" where
  "AddConfigPath P p c = c\<lparr>handler := pAddConfigPath P p (handler c)\<rparr>"

definition SetEnvPrefix :: "('s, 'v) Provider \<Rightarrow> string \<Rightarrow> ('s, 'v) Config \<Rightarrow> ('s, 'v) Config" where
  "SetEnvPrefix P p c = c\<lparr>handler := pSetEnvPrefix P p (handler c)\<rparr>"

subsection \<open>Options\<close>

text \<open>
  \<^verbatim>\<open>SetOptions\<close> over the options in the order of the map iteration. The first option of a key is kept while each
  default is set; writing to the nil map before \<^verbatim>\<open>Initiate\<close> panics.
\<close>

fun set_options :: "('s, 'v) Provider \<Rightarrow> (string \<times> 'v Option) list \<Rightarrow> ('s, 'v) Config \<Rightarrow> ('s, 'v) Config outcome" where
  "set_options P [] c = Inr c"
| "set_options P ((key, opt) # opts) c =
     (case (if key \<noteq> '''' then
              (case options c of
                 None \<Rightarrow> Inl (ExplicitPanic ''assignment to entry in nil map'')
               | Some os \<Rightarrow> Inr (if map_of os key = None then c\<lparr>options := Some (os @ [(key, opt)])\<rparr> else c))
            else Inr c) of
        Inl p \<Rightarrow> Inl p
      | Inr c1 \<Rightarrow>
          set_options P opts
            (case Default opt of None \<Rightarrow> c1 | Some v \<Rightarrow> c1\<lparr>handler := pSetDefault P key v (handler c1)\<rparr>))"

definition SetOptions :: "('s, 'v) Provider \<Rightarrow> (string \<times> 'v Option) list option \<Rightarrow> ('s, 'v) Config \<Rightarrow> ('s, 'v) Config outcome" where
  "SetOptions P opts c = (case opts of None \<Rightarrow> Inr c | Some os \<Rightarrow> set_options P os c)"

text \<open>The loop of every getter: the environment key of the option of that key, if it has another one.\<close>

fun env_key :: "string \<Rightarrow> (string \<times> 'v Option) list \<Rightarrow> string option" where
  "env_key key [] = None"
| "env_key key ((optionKey, opt) # opts) =
     (if key = optionKey \<and> EnvironmentKey opt \<noteq> '''' \<and> EnvironmentKey opt \<noteq> optionKey then Some (EnvironmentKey opt)
      else env_key key opts)"

definition option_list :: "('s, 'v) Config \<Rightarrow> (string \<times> 'v Option) list" where
  "option_list c = (case options c of None \<Rightarrow> [] | Some os \<Rightarrow> os)"

definition Config_Get :: "('s, 'v) Provider \<Rightarrow> ('s, 'v) Config \<Rightarrow> string \<Rightarrow> 'v option" where
  "Config_Get P c key =
     (case env_key key (option_list c) of Some k \<Rightarrow> pGet P (handler c) k | None \<Rightarrow> pGet P (handler c) key)"

text \<open>\<^verbatim>\<open>GetString\<close> to \<^verbatim>\<open>GetSizeInBytes\<close>: the same loop around a typed getter of the provider.\<close>

definition Config_GetAs :: "('s \<Rightarrow> string \<Rightarrow> 'a) \<Rightarrow> ('s, 'v) Config \<Rightarrow> string \<Rightarrow> 'a" where
  "Config_GetAs getter c key =
     (case env_key key (option_list c) of Some k \<Rightarrow> getter (handler c) k | None \<Rightarrow> getter (handler c) key)"

record ('s, 'f, 't, 'v) Getters =
  gString :: "'s \<Rightarrow> string \<Rightarrow> string"
  gBool :: "'s \<Rightarrow> string \<Rightarrow> bool"
  gInt :: "'s \<Rightarrow> string \<Rightarrow> int"
  gInt64 :: "'s \<Rightarrow> string \<Rightarrow> int"
  gFloat64 :: "'s \<Rightarrow> string \<Rightarrow> 'f"
  gTime :: "'s \<Rightarrow> string \<Rightarrow> 't"
  gDuration :: "'s \<Rightarrow> string \<Rightarrow> int"
  gStringSlice :: "'s \<Rightarrow> string \<Rightarrow> string list"
  gStringMap :: "'s \<Rightarrow> string \<Rightarrow> (string \<times> 'v) list"
  gStringMapString :: "'s \<Rightarrow> string \<Rightarrow> (string \<times> string) list"
  gStringMapStringSlice :: "'s \<Rightarrow> string \<Rightarrow> (string \<times> string list) list"
  gSizeInBytes :: "'s \<Rightarrow> string \<Rightarrow> nat"

definition Config_GetString :: "('s, 'f, 't, 'v) Getters \<Rightarrow> ('s, 'v) Config \<Rightarrow> string \<Rightarrow> string" where
  "Config_GetString G c key = Config_GetAs (gString G) c key"

definition Config_GetBool :: "('s, 'f, 't, 'v) Getters \<Rightarrow> ('s, 'v) Config \<Rightarrow> string \<Rightarrow> bool" where
  "Config_GetBool G c key = Config_GetAs (gBool G) c key"

definition Config_GetInt :: "('s, 'f, 't, 'v) Getters \<Rightarrow> ('s, 'v) Config \<Rightarrow> string \<Rightarrow> int" where
  "Config_GetInt G c key = Config_GetAs (gInt G) c key"

definition Config_GetInt64 :: "('s, 'f, 't, 'v) Getters \<Rightarrow> ('s, 'v) Config \<Rightarrow> string \<Rightarrow> int" where
  "Config_GetInt64 G c key = Config_GetAs (gInt64 G) c key"

definition Config_GetFloat64 :: "('s, 'f, 't, 'v) Getters \<Rightarrow> ('s, 'v) Config \<Rightarrow> string \<Rightarrow> 'f" where
  "Config_GetFloat64 G c key = Config_GetAs (gFloat64 G) c key"

definition Config_GetTime :: "('s, 'f, 't, 'v) Getters \<Rightarrow> ('s, 'v) Config \<Rightarrow> string \<Rightarrow> 't" where
  "Config_GetTime G c key = Config_GetAs (gTime G) c key"

definition Config_GetDuration :: "('s, 'f, 't, 'v) Getters \<Rightarrow> ('s, 'v) Config \<Rightarrow> string \<Rightarrow> int" where
  "Config_GetDuration G c key = Config_GetAs (gDuration G) c key"

definition Config_GetStringSlice :: "('s, 'f, 't, 'v) Getters \<Rightarrow> ('s, 'v) Config \<Rightarrow> string \<Rightarrow> string list" where
  "Config_GetStringSlice G c key = Config_GetAs (gStringSlice G) c key"

definition Config_GetStringMap :: "('s, 'f, 't, 'v) Getters \<Rightarrow> ('s, 'v) Config \<Rightarrow> string \<Rightarrow> (string \<times> 'v) list" where
  "Config_GetStringMap G c key = Config_GetAs (gStringMap G) c key"

definition Config_GetStringMapString :: "('s, 'f, 't, 'v) Getters \<Rightarrow> ('s, 'v) Config \<Rightarrow> string \<Rightarrow> (string \<times> string) list" where
  "Config_GetStringMapString G c key = Config_GetAs (gStringMapString G) c key"

definition Config_GetStringMapStringSlice :: "('s, 'f, 't, 'v) Getters \<Rightarrow> ('s, 'v) Config \<Rightarrow> string \<Rightarrow> (string \<times> string list) list" where
  "Config_GetStringMapStringSlice G c key = Config_GetAs (gStringMapStringSlice G) c key"

definition Config_GetSizeInBytes :: "('s, 'f, 't, 'v) Getters \<Rightarrow> ('s, 'v) Config \<Rightarrow> string \<Rightarrow> nat" where
  "Config_GetSizeInBytes G c key = Config_GetAs (gSizeInBytes G) c key"

definition Config_Set :: "('s, 'v) Provider \<Rightarrow> string \<Rightarrow> 'v \<Rightarrow> ('s, 'v) Config \<Rightarrow> ('s, 'v) Config" where
  "Config_Set P key v c = c\<lparr>handler := pSet P key v (handler c)\<rparr>"

subsection \<open>Callbacks\<close>

fun run_callbacks ::
    "('s, 'v) Provider \<Rightarrow> (string \<times> ('v \<Rightarrow> string + 'v)) list \<Rightarrow> ('s, 'v) Config \<Rightarrow> string option \<times> ('s, 'v) Config" where
  "run_callbacks P [] c = (None, c)"
| "run_callbacks P ((key, callback) # cbs) c =
     (case Config_Get P c key of
        None \<Rightarrow> run_callbacks P cbs c
      | Some v \<Rightarrow>
          (case callback v of
             Inl e \<Rightarrow> (annotate (''config: callback '' @ quoted key @ '' error:'') (Some e), c)
           | Inr v1 \<Rightarrow> run_callbacks P cbs (Config_Set P key v1 c)))"

text \<open>\<^verbatim>\<open>Realpath\<close>: the context may hold a prefix that is a string; the value may be a string.\<close>

datatype cval = CString string | COther

definition Realpath :: "cval option \<Rightarrow> cval \<Rightarrow> cval" where
  "Realpath pathPrefix v =
     (case (pathPrefix, v) of
        (Some (CString prefixPath), CString path) \<Rightarrow>
          if path \<noteq> '''' \<and> \<not> HasPrefix path ''/'' then CString (trim_right (\<lambda>c. c = CHR ''/'') prefixPath @ ''/'' @ path) else v
      | _ \<Rightarrow> v)"

subsection \<open>Files and the environment\<close>

definition LoadFromConfigPath :: "('s, 'v) Provider \<Rightarrow> string \<Rightarrow> ('s, 'v) Config \<Rightarrow> string option \<times> ('s, 'v) Config" where
  "LoadFromConfigPath P name c =
     (case pReadInConfig P (pSetConfigName P name (handler c)) of
        (err, s) \<Rightarrow> (annotate ''config: load from config path error'' err, c\<lparr>handler := s\<rparr>))"

definition LoadFromConfigFile :: "('s, 'v) Provider \<Rightarrow> string \<Rightarrow> ('s, 'v) Config \<Rightarrow> string option \<times> ('s, 'v) Config" where
  "LoadFromConfigFile P file c =
     (case pReadInConfig P (pSetConfigFile P file (handler c)) of
        (err, s) \<Rightarrow> (annotate ''config: load from config file error'' err, c\<lparr>handler := s\<rparr>))"

fun bind_envs :: "('s, 'v) Provider \<Rightarrow> (string \<times> 'v Option) list \<Rightarrow> ('s, 'v) Config \<Rightarrow> string option \<times> ('s, 'v) Config" where
  "bind_envs P [] c = (None, c)"
| "bind_envs P ((key, opt) # opts) c =
     (if EnvironmentKey opt \<noteq> '''' then
        (case pBindEnv P (EnvironmentKey opt) (handler c) of
           (Some e, s) \<Rightarrow> 
             (annotate (''config: load from env error: [key:'' @ quoted key @ '', env_key:'' @ quoted (EnvironmentKey opt) @ '']'') (Some e), c\<lparr>handler := s\<rparr>)
         | (None, s) \<Rightarrow> bind_envs P opts (c\<lparr>handler := s, bindedEnvironmentKeys := bindedEnvironmentKeys c @ [EnvironmentKey opt]\<rparr>))
      else bind_envs P opts c)"

definition LoadFromEnv :: "('s, 'v) Provider \<Rightarrow> ('s, 'v) Config \<Rightarrow> string option \<times> ('s, 'v) Config" where
  "LoadFromEnv P c = bind_envs P (option_list c) c"

text \<open>
  \<^verbatim>\<open>LoadFromEnvFile\<close>: \<open>stat\<close> is the error of an absent file, \<open>dotenv\<close> is the error of \<^verbatim>\<open>godotenv.Load\<close> and the provider
  after it has put the variables into the environment.
\<close>

definition LoadFromEnvFile ::
    "('s, 'v) Provider \<Rightarrow> (string \<Rightarrow> string option) \<Rightarrow> (string \<Rightarrow> 's \<Rightarrow> string option \<times> 's) \<Rightarrow> string \<Rightarrow> ('s, 'v) Config \<Rightarrow>
     string option \<times> ('s, 'v) Config" where
  "LoadFromEnvFile P stat dotenv file c =
     (if file = '''' then (None, c)
      else if stat file \<noteq> None then (annotate ''config: load from env file error'' (stat file), c)
      else (case dotenv file (handler c) of
              (Some e, s) \<Rightarrow> (annotate ''config: load from env file error'' (Some e), c\<lparr>handler := s\<rparr>)
            | (None, s) \<Rightarrow>
                (case LoadFromEnv P (c\<lparr>handler := s\<rparr>) of
                   (err, c1) \<Rightarrow> (annotate ''config: load from env file error'' err, c1))))"

subsection \<open>Configuring an object\<close>

text \<open>
  \<^verbatim>\<open>ConfigureFileConfig\<close> and \<^verbatim>\<open>ConfigureJsonConfig\<close> over the \<^verbatim>\<open>tick-config\<close> package, with state \<open>'o\<close>: its loading, the
  registration of providers, the configuration of the target.
\<close>

record ('o, 'p, 't) Loader =
  newLoader :: 'o
  Load :: "string \<Rightarrow> 'o \<Rightarrow> string option \<times> 'o"
  LoadJSON :: "string \<Rightarrow> 'o \<Rightarrow> string option \<times> 'o"
  LRegister :: "string \<Rightarrow> 'p \<Rightarrow> 'o \<Rightarrow> string option \<times> 'o"
  Configure :: "'o \<Rightarrow> string list \<Rightarrow> 't \<Rightarrow> string option \<times> 't"
  showTarget :: "'t \<Rightarrow> string"

fun register_providers :: "('o, 'p, 't) Loader \<Rightarrow> (string \<times> 'p) list \<Rightarrow> 'o \<Rightarrow> string option \<times> 'o" where
  "register_providers L [] oc = (None, oc)"
| "register_providers L ((name, p) # ps) oc =
     (case LRegister L name p oc of
        (Some e, oc1) \<Rightarrow> (annotate (''config: register config provider '' @ quoted name @ '' error'') (Some e), oc1)
      | (None, oc1) \<Rightarrow> register_providers L ps oc1)"

definition configure_from :: "('o, 'p, 't) Loader \<Rightarrow> string \<Rightarrow> string option \<times> 'o \<Rightarrow> 't \<Rightarrow> (string \<times> 'p) list \<Rightarrow> string list \<Rightarrow> string option \<times> 't" where
  "configure_from L what loaded target providers tags =
     (case loaded of
        (Some e, _) \<Rightarrow> (annotate what (Some e), target)
      | (None, oc) \<Rightarrow>
          (case register_providers L providers oc of
             (Some e, _) \<Rightarrow> (Some e, target)
           | (None, oc1) \<Rightarrow>
               (case Configure L oc1 tags target of
                  (err, target1) \<Rightarrow> (annotate (''config: configure '' @ quoted (showTarget L target1) @ '' error'') err, target1))))"

definition ConfigureFileConfig :: "('o, 'p, 't) Loader \<Rightarrow> 't \<Rightarrow> string \<Rightarrow> (string \<times> 'p) list \<Rightarrow> string list \<Rightarrow> string option \<times> 't" where
  "ConfigureFileConfig L target configFile providers tags =
     configure_from L (''config: load config file '' @ quoted configFile) (Load L configFile (newLoader L)) target providers tags"

definition ConfigureJsonConfig :: "('o, 'p, 't) Loader \<Rightarrow> 't \<Rightarrow> string \<Rightarrow> (string \<times> 'p) list \<Rightarrow> string list \<Rightarrow> string option \<times> 't" where
  "ConfigureJsonConfig L target configData providers tags =
     configure_from L (''config: load config '' @ quoted configData @ '' error'') (LoadJSON L configData (newLoader L)) target providers tags"

subsection \<open>What a getter sees\<close>

text \<open>
  The viper package: keys are compared without case, a key with dots is a path. A value that is set wins over all
  other sources, a default over none.
\<close>

definition plain_key :: "string \<Rightarrow> bool" where
  "plain_key k = (k \<noteq> '''' \<and> CHR ''.'' \<notin> set k)"

definition viper_laws :: "('s, 'v) Provider \<Rightarrow> bool" where
  "viper_laws P =
     (\<forall>s k v k'. plain_key k \<and> plain_key k' \<longrightarrow>
        pGet P (pSet P k v s) k' = (if ToLower k' = ToLower k then Some v else pGet P s k') \<and>
        (ToLower k' \<noteq> ToLower k \<longrightarrow> pGet P (pSetDefault P k v s) k' = pGet P s k') \<and>
        (ToLower k' = ToLower k \<and> pGet P s k' = None \<longrightarrow> pGet P (pSetDefault P k v s) k' = Some v))"

definition effective_key :: "('s, 'v) Config \<Rightarrow> string \<Rightarrow> string" where
  "effective_key c key = (case env_key key (option_list c) of Some k \<Rightarrow> k | None \<Rightarrow> key)"

lemma Config_Get_effective: "Config_Get P c key = pGet P (handler c) (effective_key c key)"
  by (simp add: Config_Get_def effective_key_def split: option.split)

lemma env_key_map_of:
  "distinct (map fst os) \<Longrightarrow>
     env_key key os = (case map_of os key of
       Some opt \<Rightarrow> if EnvironmentKey opt \<noteq> '''' \<and> EnvironmentKey opt \<noteq> key then Some (EnvironmentKey opt) else None | None \<Rightarrow> None)"
proof (induction os)
  case (Cons x os)
  obtain k opt where x: "x = (k, opt)" by (cases x)
  have "k \<notin> set (map fst os) \<Longrightarrow> env_key k os = None" by (induction os) auto
  then show ?case using Cons by (auto simp: x split: option.split)
qed simp

lemma effective_key_Set [simp]: "effective_key (Config_Set P k v c) key = effective_key c key"
  by (simp add: effective_key_def option_list_def Config_Set_def)

lemma viper_Set:
  "viper_laws P \<Longrightarrow> plain_key k \<Longrightarrow> plain_key k' \<Longrightarrow> pGet P (pSet P k v s) k' = (if ToLower k' = ToLower k then Some v else pGet P s k')"
  by (simp add: viper_laws_def)

lemma viper_Default_other:
  "viper_laws P \<Longrightarrow> plain_key k \<Longrightarrow> plain_key k' \<Longrightarrow> ToLower k' \<noteq> ToLower k \<Longrightarrow> pGet P (pSetDefault P k v s) k' = pGet P s k'"
  unfolding viper_laws_def by presburger

lemma Get_after_Set:
  assumes "viper_laws P" and "plain_key key" and "plain_key (effective_key c key')"
  shows "Config_Get P (Config_Set P key v c) key' =
           (if ToLower (effective_key c key') = ToLower key then Some v else Config_Get P c key')"
  using viper_Set [OF assms] by (simp add: Config_Get_effective) (simp add: Config_Set_def)


text \<open>A provider for examples: values that were set, the environment that is bound, defaults.\<close>

record memviper =
  mv_set :: "string \<rightharpoonup> string"
  mv_default :: "string \<rightharpoonup> string"

definition mem_provider :: "(memviper, string) Provider" where
  "mem_provider = \<lparr>pInitiate = \<lambda>s. (None, s), pAddConfigPath = \<lambda>p s. s, pSetConfigName = \<lambda>n s. s, pSetConfigFile = \<lambda>f s. s,
     pSetEnvPrefix = \<lambda>p s. s, pSetDefault = \<lambda>k v s. s\<lparr>mv_default := (mv_default s)(ToLower k \<mapsto> v)\<rparr>, pBindEnv = \<lambda>k s. (None, s),
     pReadInConfig = \<lambda>s. (None, s), pSet = \<lambda>k v s. s\<lparr>mv_set := (mv_set s)(ToLower k \<mapsto> v)\<rparr>,
     pGet = \<lambda>s k. (case mv_set s (ToLower k) of Some v \<Rightarrow> Some v | None \<Rightarrow> mv_default s (ToLower k))\<rparr>"

lemma mem_provider_laws: "viper_laws mem_provider"
  by (auto simp: viper_laws_def mem_provider_def split: option.splits)

definition demo_config :: "(memviper, string) Config" where
  "demo_config = \<lparr>cfgProvider = ''viper'', handler = \<lparr>mv_set = Map.empty, mv_default = Map.empty\<rparr>,
     options = Some [(''DB'', \<lparr>OptType = TString, Default = Some ''mysql'', EnvironmentKey = ''APP_DB''\<rparr>)], bindedEnvironmentKeys = []\<rparr>"


text \<open>Setting a value, or a default, under the key of an option with another environment key is not seen by the getter.\<close>

theorem env_option_ignores_set:
  assumes "viper_laws P" and "env_key key (option_list c) = Some ek" and "plain_key key" "plain_key ek" "ToLower ek \<noteq> ToLower key"
  shows "Config_Get P (Config_Set P key v c) key = Config_Get P c key"
  using Get_after_Set [of P key c key v] assms by (simp add: effective_key_def)

lemma option_list_Default [simp]: "option_list (c\<lparr>handler := h\<rparr>) = option_list c"
  by (simp add: option_list_def)

theorem env_option_default_lost:
  assumes "viper_laws P" and "plain_key key" "plain_key ek" "ToLower ek \<noteq> ToLower key" and "options c = Some []"
  shows "\<exists>c'. SetOptions P (Some [(key, \<lparr>OptType = t, Default = Some v, EnvironmentKey = ek\<rparr>)]) c = Inr c' \<and>
           Config_Get P c' key = pGet P (handler c) ek"
proof -
  have "key \<noteq> ''''" "ek \<noteq> ''''" "ek \<noteq> key" using assms by (auto simp: plain_key_def)
  then show ?thesis
    using assms(5) viper_Default_other [OF assms(1-4)]
    by (simp add: SetOptions_def Config_Get_def option_list_def)
qed

lemma map_of_snoc: "map_of (xs @ [(k, v)]) q = (case map_of xs q of Some u \<Rightarrow> Some u | None \<Rightarrow> if q = k then Some v else None)"
  by (simp add: map_add_def split: option.split)

text \<open>The options kept: each key has the option given first.\<close>

lemma set_options_first:
  "set_options P opts c = Inr c' \<Longrightarrow>
     map_of (option_list c') key = (case map_of (option_list c) key of
       Some o1 \<Rightarrow> Some o1 | None \<Rightarrow> map_of (filter (\<lambda>(k, o1). k \<noteq> '''') opts) key)"
proof (induction opts arbitrary: c)
  case Nil
  then show ?case by (simp split: option.split)
next
  case (Cons x opts)
  obtain k opt where x: "x = (k, opt)" by (cases x)
  let ?d = "\<lambda>c1. case Default opt of None \<Rightarrow> c1 | Some v \<Rightarrow> c1\<lparr>handler := pSetDefault P k v (handler c1)\<rparr>"
  have d: "option_list (?d c1) = option_list c1" for c1 by (simp split: option.split)
  show ?case
  proof (cases "k = ''''")
    case True
    then have "set_options P opts (?d c) = Inr c'" using Cons.prems by (simp add: x True cong: option.case_cong)
    from Cons.IH [OF this] show ?thesis using True by (simp add: x d split: option.split)
  next
    case False
    then obtain os where os: "options c = Some os" using Cons.prems by (auto simp: x split: option.splits)
    define c1 where "c1 = (if map_of os k = None then c\<lparr>options := Some (os @ [(k, opt)])\<rparr> else c)"
    have "set_options P opts (?d c1) = Inr c'" 
      unfolding c1_def using Cons.prems False by (simp add: x os)
    note IH = Cons.IH [OF this, unfolded d]
    have o: "option_list c = os" "option_list c1 = (if map_of os k = None then os @ [(k, opt)] else os)"
      by (simp_all add: option_list_def os c1_def)
    show ?thesis
    proof (cases "map_of os k")
      case None
      then show ?thesis using IH o False by (simp add: x map_of_snoc split: option.split del: map_of_append)
    next
      case (Some u)
      then show ?thesis using IH o False by (auto simp: x split: option.split)
    qed
  qed
qed

lemma set_options_returns: "options c \<noteq> None \<Longrightarrow> \<exists>c'. set_options P opts c = Inr c'"
proof (induction opts arbitrary: c)
  case (Cons x opts)
  obtain k opt where x: "x = (k, opt)" by (cases x)
  obtain os where os: "options c = Some os" using Cons.prems by blast
  have "\<exists>c'. set_options P opts (case Default opt of None \<Rightarrow> c1 | Some v \<Rightarrow> c1\<lparr>handler := pSetDefault P k v (handler c1)\<rparr>) = Inr c'"
    if "options c1 \<noteq> None" for c1
    by (rule Cons.IH) (use that in \<open>simp split: option.split\<close>)
  note rest = this
  show ?case
    using rest [of c] rest [of "c\<lparr>options := Some (os @ [(k, opt)])\<rparr>"]
    by (cases "k = []"; cases "map_of os k") (simp_all add: x os cong: option.case_cong)
qed simp

text \<open>
  Options can be set once the component is initiated, never with a panic, and each key keeps the option
  that was set for it first.
\<close>

theorem SetOptions_first_wins:
  assumes "options c \<noteq> None"
  shows "\<exists>c'. SetOptions P (Some opts) c = Inr c' \<and>
     (\<forall>key. map_of (option_list c') key = (case map_of (option_list c) key of
        Some o1 \<Rightarrow> Some o1 | None \<Rightarrow> map_of (filter (\<lambda>(k, o1). k \<noteq> '''') opts) key))"
  using set_options_returns [OF assms, of P opts] set_options_first [of P opts c] by (auto simp: SetOptions_def)

theorem SetOptions_first_wins_witness:
  "\<exists>c'. SetOptions mem_provider (Some [(''DB'', \<lparr>OptType = TInt, Default = None, EnvironmentKey = ''''\<rparr>)]) demo_config = Inr c' \<and>
     map_of (option_list c') ''DB'' = Some \<lparr>OptType = TString, Default = Some ''mysql'', EnvironmentKey = ''APP_DB''\<rparr>"
proof -
  have "options demo_config \<noteq> None" by (simp add: demo_config_def)
  from SetOptions_first_wins [OF this, of mem_provider "[(''DB'', \<lparr>OptType = TInt, Default = None, EnvironmentKey = ''''\<rparr>)]"]
  show ?thesis by (auto simp: demo_config_def option_list_def)
qed

lemma bind_envs_all:
  "bind_envs P opts c = (None, c') \<Longrightarrow>
     bindedEnvironmentKeys c' = bindedEnvironmentKeys c @ filter (\<lambda>k. k \<noteq> '''') (map (\<lambda>(k, o1). EnvironmentKey o1) opts)"
proof (induction opts arbitrary: c)
  case (Cons x opts)
  then show ?case by (cases x) (auto simp: annotate_def split: if_splits prod.splits option.splits)
qed simp

lemma LoadFromEnv_binds:
  "LoadFromEnv P c = (None, c') \<Longrightarrow>
     bindedEnvironmentKeys c' = bindedEnvironmentKeys c @ filter (\<lambda>k. k \<noteq> '''') (map (\<lambda>(k, o1). EnvironmentKey o1) (option_list c))"
  unfolding LoadFromEnv_def by (rule bind_envs_all)

text \<open>A path that was made absolute stays as it is.\<close>

lemma Realpath_idem:
  assumes "HasPrefix p ''/''"
  shows "Realpath (Some (CString p)) (Realpath (Some (CString p)) v) = Realpath (Some (CString p)) v"
proof (cases v)
  case (CString path)
  have "HasPrefix (trim_right (\<lambda>c. c = CHR ''/'') p @ ''/'' @ path) ''/''"
  proof (cases "trim_right (\<lambda>c. c = CHR ''/'') p")
    case (Cons c cs)
    obtain t where "p = trim_right (\<lambda>c. c = CHR ''/'') p @ t"
      unfolding trim_right_def by (metis rev_append rev_rev_ident takeWhile_dropWhile_id)
    then show ?thesis using assms Cons by (cases p) (auto simp: HasPrefix_def)
  qed (simp add: HasPrefix_def)
  then show ?thesis by (simp add: Realpath_def CString)
qed (simp add: Realpath_def)

end
