(* ===== verification/Convert.thy ===== *)
theory Convert
  imports Prelude
begin

text \<open>
  \<^verbatim>\<open>src/utility/convert.go\<close>: the conversion of request parameters to the type of a struct field, with
  \<^verbatim>\<open>strconv.ParseInt\<close> and \<^verbatim>\<open>strconv.ParseUint\<close> for base 10, and \<^verbatim>\<open>src/convert_types.go\<close>: conversions between
  values and pointers, and of times. A float is a value of an arbitrary type, its parser an argument.
\<close>

subsection \<open>\<^verbatim>\<open>strconv\<close> for base 10\<close>

datatype num_error = ErrSyntax | ErrRange

definition digit :: "char \<Rightarrow> nat option" where
  "digit c = (let n = of_char c :: nat in if 48 \<le> n \<and> n \<le> 57 then Some (n - 48) else None)"

fun digits_value :: "int \<Rightarrow> string \<Rightarrow> int option" where
  "digits_value acc [] = Some acc"
| "digits_value acc (c # cs) =
     (case digit c of None \<Rightarrow> None | Some d \<Rightarrow> digits_value (10 * acc + int d) cs)"

definition ParseUint :: "string \<Rightarrow> nat \<Rightarrow> num_error + int" where
  "ParseUint s bits =
     (if s = [] then Inl ErrSyntax
      else (case digits_value 0 s of
              None \<Rightarrow> Inl ErrSyntax
            | Some n \<Rightarrow> if n < 2 ^ bits then Inr n else Inl ErrRange))"

text \<open>The digits after an optional sign are read as an unsigned number of 64 bits.\<close>

definition ParseInt :: "string \<Rightarrow> nat \<Rightarrow> num_error + int" where
  "ParseInt s bits =
     (if s = [] then Inl ErrSyntax
      else (let neg = (hd s = CHR ''-'');
                t = (if hd s = CHR ''+'' \<or> hd s = CHR ''-'' then tl s else s)
            in case ParseUint t 64 of
                 Inl e \<Rightarrow> Inl e
               | Inr n \<Rightarrow>
                   if \<not> neg \<and> 2 ^ (bits - 1) \<le> n then Inl ErrRange
                   else if neg \<and> 2 ^ (bits - 1) < n then Inl ErrRange
                   else Inr (if neg then - n else n)))"

subsection \<open>\<^verbatim>\<open>ConvertAssign\<close>\<close>

text \<open>
  The destination: its type and current value. \<open>DOther\<close> is any type the function does not support
  (structs, maps, named string types).
\<close>

datatype 'f dest =
    DString string | DStrings "string list" | DBytes string | DBytesList "string list"
  | DBool bool | DBools "bool list"
  | DInt nat int | DUint nat int | DFloat nat 'f
  | DInts nat "int list" | DUints nat "int list" | DFloats nat "'f list"
  | DOther

datatype convert_error = CannotSet | Converting num_error | Unsupported

definition TrimSpace :: "string \<Rightarrow> string" where
  "TrimSpace s =
     (let sp = (\<lambda>c. (of_char c :: nat) \<in> {9, 10, 11, 12, 13, 32})
      in rev (dropWhile sp (rev (dropWhile sp s))))"

definition parseBool :: "string \<Rightarrow> bool" where
  "parseBool v = (TrimSpace (ToLower v) \<in> {''true'', ''on'', ''1''})"

text \<open>The slice cases append one converted element after the other; the first error stops.\<close>

fun append_parsed :: "(string \<Rightarrow> num_error + 'a) \<Rightarrow> string list \<Rightarrow> 'a list \<Rightarrow> convert_error option \<times> 'a list" where
  "append_parsed parse [] xs = (None, xs)"
| "append_parsed parse (s # ss) xs =
     (case parse s of Inl e \<Rightarrow> (Some (Converting e), xs) | Inr x \<Rightarrow> append_parsed parse ss (xs @ [x]))"

definition ConvertAssign ::
    "(string \<Rightarrow> nat \<Rightarrow> num_error + 'f) \<Rightarrow> bool \<Rightarrow> 'f dest \<Rightarrow> string list \<Rightarrow> convert_error option \<times> 'f dest" where
  "ConvertAssign parseFloat canSet dst src =
     (case src of
        [] \<Rightarrow> (None, dst)
      | s # _ \<Rightarrow>
          if \<not> canSet then (Some CannotSet, dst)
          else (case dst of
                  DString _ \<Rightarrow> (None, DString s)
                | DStrings _ \<Rightarrow> (None, DStrings src)
                | DBytes _ \<Rightarrow> (None, DBytes s)
                | DBytesList _ \<Rightarrow> (None, DBytesList src)
                | DBool _ \<Rightarrow> (None, DBool (parseBool s))
                | DBools _ \<Rightarrow> (None, DBools (map parseBool src))
                | DInt b _ \<Rightarrow> (case ParseInt s b of Inl e \<Rightarrow> (Some (Converting e), dst) | Inr i \<Rightarrow> (None, DInt b i))
                | DUint b _ \<Rightarrow> (case ParseUint s b of Inl e \<Rightarrow> (Some (Converting e), dst) | Inr i \<Rightarrow> (None, DUint b i))
                | DFloat b _ \<Rightarrow> (case parseFloat s b of Inl e \<Rightarrow> (Some (Converting e), dst) | Inr x \<Rightarrow> (None, DFloat b x))
                | DInts b xs \<Rightarrow> (case append_parsed (\<lambda>t. ParseInt t b) src xs of (e, ys) \<Rightarrow> (e, DInts b ys))
                | DUints b xs \<Rightarrow> (case append_parsed (\<lambda>t. ParseUint t b) src xs of (e, ys) \<Rightarrow> (e, DUints b ys))
                | DFloats b xs \<Rightarrow> (case append_parsed (\<lambda>t. parseFloat t b) src xs of (e, ys) \<Rightarrow> (e, DFloats b ys))
                | DOther \<Rightarrow> (Some Unsupported, dst)))"

subsection \<open>Times\<close>

text \<open>
  A time is seconds and nanoseconds since the epoch, or \<open>None\<close> for \<^verbatim>\<open>time.Time{}\<close>. Go divides
  towards zero; the product wraps at 64 bits. \<^verbatim>\<open>time.Unix\<close> normalises the nanoseconds.
\<close>

definition quot :: "int \<Rightarrow> int \<Rightarrow> int" where
  "quot a b = (if a < 0 then - ((- a) div b) else a div b)"

definition time_Unix :: "int \<Rightarrow> int \<Rightarrow> int \<times> int" where
  "time_Unix sec nsec = (sec + nsec div 1000000000, nsec mod 1000000000)"

definition SecondsTimeValue :: "64 word option \<Rightarrow> (int \<times> int) option" where
  "SecondsTimeValue v = map_option (\<lambda>x. time_Unix (quot (sint x) 1000) 0) v"

definition MillisecondsTimeValue :: "64 word option \<Rightarrow> (int \<times> int) option" where
  "MillisecondsTimeValue v = map_option (\<lambda>x. time_Unix 0 (sint (x * 1000000))) v"

text \<open>\<^verbatim>\<open>UnixNano\<close> of the time, as a 64-bit number, divided by a million.\<close>

definition TimeUnixMilli :: "int \<times> int \<Rightarrow> int" where
  "TimeUnixMilli t = quot (sint (word_of_int (fst t * 1000000000 + snd t) :: 64 word)) 1000000"

subsection \<open>Decimal texts\<close>

function dec_nat :: "nat \<Rightarrow> string" where
  "dec_nat n = (if n < 10 then [char_of (48 + n)] else dec_nat (n div 10) @ [char_of (48 + n mod 10)])"
  by pat_completeness auto
termination by (relation "measure id") auto

declare dec_nat.simps [simp del]

definition dec_int :: "int \<Rightarrow> string" where
  "dec_int i = (if i < 0 then CHR ''-'' # dec_nat (nat (- i)) else dec_nat (nat i))"

lemma digit_char: "d < 10 \<Longrightarrow> digit (char_of (48 + d)) = Some d"
  by (simp add: digit_def Let_def)

lemma digits_value_snoc:
  "digits_value acc s = Some n \<Longrightarrow> digit c = Some d \<Longrightarrow> digits_value acc (s @ [c]) = Some (10 * n + int d)"
  by (induction s arbitrary: acc) (auto split: option.splits)

lemma digits_value_dec: "digits_value 0 (dec_nat n) = Some (int n)"
proof (induction n rule: dec_nat.induct)
  case (1 n)
  show ?case
  proof (cases "n < 10")
    case True
    then show ?thesis by (subst dec_nat.simps) (simp add: digit_char)
  next
    case False
    have "digit (char_of (48 + n mod 10)) = Some (n mod 10)" by (rule digit_char) simp
    from digits_value_snoc [OF 1 [OF False] this] False show ?thesis
      by (subst dec_nat.simps) (simp add: zdiv_int zmod_int)
  qed
qed

lemma dec_nat_not_Nil [simp]: "dec_nat n \<noteq> []"
  by (subst dec_nat.simps) simp

lemma dec_nat_hd: "digit (hd (dec_nat n)) \<noteq> None"
proof (induction n rule: dec_nat.induct)
  case (1 n)
  then show ?case by (subst dec_nat.simps) (simp add: digit_char hd_append)
qed

lemma ParseUint_dec: "int n < 2 ^ bits \<Longrightarrow> ParseUint (dec_nat n) bits = Inr (int n)"
  by (simp add: ParseUint_def digits_value_dec)

lemma ParseInt_dec:
  assumes b: "1 \<le> bits" "bits \<le> 64" and lo: "- (2 ^ (bits - 1)) \<le> i" and hi: "i < 2 ^ (bits - 1)"
  shows "ParseInt (dec_int i) bits = Inr i"
proof -
  have p: "(2::int) ^ (bits - 1) \<le> 2 ^ 63" using b by (intro power_increasing) auto
  have h: "hd (dec_nat n) \<noteq> CHR ''+''" "hd (dec_nat n) \<noteq> CHR ''-''" for n
    using dec_nat_hd [of n] by (auto simp: digit_def Let_def)
  have u: "ParseUint (dec_nat n) 64 = Inr (int n)" if "int n \<le> 2 ^ 63" for n
    using that by (intro ParseUint_dec) simp
  show ?thesis
  proof (cases "i < 0")
    case True
    have "int (nat (- i)) \<le> 2 ^ 63" using True lo p by simp
    then have "ParseUint (dec_nat (nat (- i))) 64 = Inr (- i)" using u True by simp
    then show ?thesis using True lo by (simp add: dec_int_def ParseInt_def Let_def)
  next
    case False
    have "int (nat i) \<le> 2 ^ 63" using False hi p by simp
    then have "ParseUint (dec_nat (nat i)) 64 = Inr i" using u False by simp
    then show ?thesis using False hi h by (simp add: dec_int_def ParseInt_def Let_def)
  qed
qed

lemma ParseInt_bounds:
  assumes "ParseInt s bits = Inr i"
  shows "- (2 ^ (bits - 1)) \<le> i \<and> i < 2 ^ (bits - 1)"
proof -
  have nn: "digits_value acc t = Some n \<Longrightarrow> 0 \<le> acc \<Longrightarrow> 0 \<le> n" for acc t n
    by (induction acc t rule: digits_value.induct) (auto split: option.splits)
  have u: "ParseUint t 64 = Inr n \<Longrightarrow> 0 \<le> n" for t n
    using nn [of 0] by (auto simp: ParseUint_def split: if_splits option.splits)
  have p: "(0::int) < 2 ^ (bits - 1)" by simp
  let ?t = "if hd s = CHR ''+'' \<or> hd s = CHR ''-'' then tl s else s"
  obtain n where n: "ParseUint ?t 64 = Inr n"
    using assms by (auto simp: ParseInt_def Let_def split: if_splits sum.splits)
  have "i = n \<and> n < 2 ^ (bits - 1) \<or> i = - n \<and> n \<le> 2 ^ (bits - 1)"
    using assms n by (auto simp: ParseInt_def Let_def split: if_splits)
  then show ?thesis using u [OF n] p by linarith
qed



lemma append_parsed_ok:
  "(\<And>s. s \<in> set ss \<Longrightarrow> parse s = Inr (f s)) \<Longrightarrow> append_parsed parse ss xs = (None, xs @ map f ss)"
  by (induction ss arbitrary: xs) auto

text \<open>
  A destination that is a slice of numbers is not replaced: the new elements are
  appended to the ones it holds, so a second assignment to the same field keeps those of the first.
\<close>

theorem ConvertAssign_slice_accumulates:
  assumes "\<forall>s \<in> set ss. ParseInt s bits = Inr (f s)" and "ss \<noteq> []"
  shows "ConvertAssign parseFloat True (DInts bits old) ss = (None, DInts bits (old @ map f ss))"
proof -
  have "append_parsed (\<lambda>t. ParseInt t bits) ss old = (None, old @ map f ss)"
    by (rule append_parsed_ok) (use assms in simp)
  then show ?thesis using assms(2) by (cases ss) (simp_all add: ConvertAssign_def)
qed

theorem ConvertAssign_slice_accumulates_witness:
  "ConvertAssign (\<lambda>s b. Inl ErrSyntax) True (DInts 64 [1, 2]) [''3''] = (None, DInts 64 [1, 2, 3] :: unit dest)"
proof -
  have "ParseInt ''3'' 64 = Inr 3" by code_simp
  then show ?thesis
    using ConvertAssign_slice_accumulates [of "[''3'']" 64 "\<lambda>_. 3" "\<lambda>s b. Inl ErrSyntax" "[1, 2]"] by simp
qed

subsection \<open>Times, properties\<close>

lemma quot_mult: "0 < b \<Longrightarrow> quot (a * b) b = a"
  by (auto simp: quot_def mult_neg_pos minus_mult_left simp del: minus_mult_left [symmetric])

lemma sint_of_int:
  assumes "- (2 ^ 63) \<le> i" and "i < 2 ^ 63"
  shows "sint (word_of_int i :: 64 word) = i"
  using assms by transfer (simp add: signed_take_bit_int_eq_self)

text \<open>
  A time made by \<^verbatim>\<open>MillisecondsTimeValue\<close> gives the milliseconds back with \<^verbatim>\<open>TimeUnixMilli\<close> as
  long as the nanoseconds fit 64 bits; beyond, the product wraps to another time.
\<close>

theorem milliseconds_roundtrip:
  assumes "- (2 ^ 63) \<le> i * 1000000" and "i * 1000000 < 2 ^ 63"
  shows "map_option TimeUnixMilli (MillisecondsTimeValue (Some (word_of_int i))) = Some i"
proof -
  have "word_of_int i * 1000000 = (word_of_int (i * 1000000) :: 64 word)" by (simp add: wi_hom_mult)
  then have "sint (word_of_int i * 1000000 :: 64 word) = i * 1000000" using sint_of_int [OF assms] by simp
  moreover have "i * 1000000 div 1000000000 * 1000000000 + i * 1000000 mod 1000000000 = i * 1000000"
    by (rule div_mult_mod_eq)
  ultimately show ?thesis
    using sint_of_int [OF assms] quot_mult [of 1000000 i]
    by (simp add: MillisecondsTimeValue_def TimeUnixMilli_def time_Unix_def)
qed

theorem milliseconds_roundtrip_witness:
  "map_option TimeUnixMilli (MillisecondsTimeValue (Some (word_of_int (- 1500)))) = Some (- 1500)"
  by (rule milliseconds_roundtrip) simp_all

text \<open>
  \<^verbatim>\<open>SecondsTimeValue\<close>, documented to take seconds, takes milliseconds: for a number of seconds other
  than zero the result is another time, and all numbers below a thousand give the epoch.
\<close>

theorem SecondsTimeValue_divides:
  assumes "sint v \<noteq> 0"
  shows "SecondsTimeValue (Some v) \<noteq> Some (sint v, 0) \<and>
         (\<bar>sint v\<bar> < 1000 \<longrightarrow> SecondsTimeValue (Some v) = Some (0, 0))"
proof -
  have "quot x 1000 \<noteq> x" if "x \<noteq> 0" for x using that by (auto simp: quot_def)
  moreover have "quot x 1000 = 0" if "\<bar>x\<bar> < 1000" for x using that by (auto simp: quot_def)
  ultimately show ?thesis using assms by (auto simp: SecondsTimeValue_def time_Unix_def)
qed

theorem SecondsTimeValue_divides_witness: "SecondsTimeValue (Some 60) = Some (0, 0)"
proof -
  have "sint (60 :: 64 word) = 60" by simp
  then show ?thesis using SecondsTimeValue_divides [of 60] by simp
qed

end
