(* ===== verification/Api_Params.thy ===== *)
theory Api_Params
  imports Convert Text_Util
begin

text \<open>
  \<^verbatim>\<open>src/api/param.go\<close>: the tags of a request parameter, parsed from the text of a struct tag such as
  \<^verbatim>\<open><in:query> <name:p> <len:1:10>\<close>, and the validation rules made from them. Regular expressions and
  floats are arguments.
\<close>

subsection \<open>\<^verbatim>\<open>ParseTags\<close>\<close>

definition TrimRight_sp :: "string \<Rightarrow> string" where
  "TrimRight_sp s = rev (dropWhile (\<lambda>c. c = CHR '' '') (rev s))"

definition TrimLeft_sp :: "string \<Rightarrow> string" where
  "TrimLeft_sp s = dropWhile (\<lambda>c. c = CHR '' '') s"

text \<open>
  The loop over one pair: \<open>pre\<close> is \<^verbatim>\<open>tag[:i]\<close>, the last argument \<^verbatim>\<open>tag[i:]\<close>, \<open>nm\<close> the name once it is read. The
  result is the pair and the text after it, or \<open>None\<close> when the text ends first.
\<close>

function parse_pair :: "string option \<Rightarrow> string \<Rightarrow> string \<Rightarrow> ((string \<times> string) \<times> string) option outcome" where
  "parse_pair nm pre [] = Inr None"
| "parse_pair nm pre (c # cs) =
     (if c = CHR '':'' then
        (case nm of
           Some n \<Rightarrow> parse_pair nm (pre @ [c]) cs
         | None \<Rightarrow> parse_pair (Some (TrimRight_sp pre)) [] (TrimLeft_sp cs))
      else if c = CHR 0x5C then
        (case cs of
           [] \<Rightarrow> Inl IndexOutOfRange
         | d # ds \<Rightarrow>
             if d = CHR ''<'' \<or> d = CHR ''>'' then parse_pair nm (pre @ [d]) ds
             else parse_pair nm (pre @ [c, d]) ds)
      else if c = CHR ''>'' then
        (case nm of
           None \<Rightarrow> Inr (Some ((TrimRight_sp pre, ''''), cs))
         | Some n \<Rightarrow> Inr (Some ((n, TrimRight_sp pre), cs)))
      else parse_pair nm (pre @ [c]) cs)"
  by pat_completeness auto
termination
  by (relation "measure (\<lambda>(nm, pre, rest). length rest)")
     (auto simp: TrimLeft_sp_def length_dropWhile_le le_imp_less_Suc)

lemma parse_pair_shorter: "parse_pair nm pre s = Inr (Some (kv, rest)) \<Longrightarrow> length rest < length s"
proof (induction nm pre s rule: parse_pair.induct)
  case (2 nm pre c cs)
  have "length (TrimLeft_sp cs) \<le> length cs" by (simp add: TrimLeft_sp_def length_dropWhile_le)
  with 2 show ?case by (fastforce split: if_splits option.splits list.splits)
qed simp

text \<open>The outer loop: the text up to the next \<^verbatim>\<open><\<close> is skipped, and the spaces after it.\<close>

function parse_tags :: "string \<Rightarrow> (string \<Rightarrow> string option) \<Rightarrow> (string \<Rightarrow> string option) outcome" where
  "parse_tags tag tags =
     (let t = TrimLeft_sp (drop 1 (dropWhile (\<lambda>c. c \<noteq> CHR ''<'') tag)) in
      if CHR ''<'' \<notin> set tag \<or> t = [] then Inr tags
      else (case parse_pair None [] t of
              Inl p \<Rightarrow> Inl p
            | Inr None \<Rightarrow> Inr tags
            | Inr (Some ((k, v), rest)) \<Rightarrow> parse_tags rest (tags(k \<mapsto> v))))"
  by pat_completeness auto
termination
proof (relation "measure (\<lambda>(tag, tags). length tag)", goal_cases)
  case 1
  then show ?case by simp
next
  case (2 tag tags t x2 x2a x y k v)
  then have "length y < length t" using parse_pair_shorter by auto
  also have "length t \<le> length (dropWhile (\<lambda>c. c \<noteq> CHR ''<'') tag)"
    using 2(1) length_dropWhile_le [of "\<lambda>c. c = CHR '' ''" "drop 1 (dropWhile (\<lambda>c. c \<noteq> CHR ''<'') tag)"]
    by (simp add: TrimLeft_sp_def)
  also have "\<dots> \<le> length tag" by (rule length_dropWhile_le)
  finally show ?case by simp
qed

declare parse_tags.simps [simp del]

definition ParseTags :: "string \<Rightarrow> (string \<Rightarrow> string option) outcome" where
  "ParseTags tag = parse_tags tag Map.empty"

definition parseTuple :: "string \<Rightarrow> (string \<times> string) outcome" where
  "parseTuple tuple =
     (case split_on CHR '':'' tuple of
        [a] \<Rightarrow> if a \<noteq> [] then Inr (a, a) else Inl (ExplicitPanic ''invalid validation tuple'')
      | [a, b] \<Rightarrow> if a \<noteq> [] \<or> b \<noteq> [] then Inr (a, b) else Inl (ExplicitPanic ''invalid validation tuple'')
      | _ \<Rightarrow> Inl (ExplicitPanic ''invalid validation tuple''))"

subsection \<open>Rules\<close>

datatype ('f, 'r) Rule = LengthRule int int | RangeRule 'f 'f | NotEmptyRule | MatchRule 'r

text \<open>One bound of a tuple: an empty text leaves the zero value.\<close>

definition bound :: "(string \<Rightarrow> num_error + 'a) \<Rightarrow> 'a \<Rightarrow> string \<Rightarrow> 'a option" where
  "bound parse zero s = (if s = '''' then Some zero else case parse s of Inl e \<Rightarrow> None | Inr x \<Rightarrow> Some x)"

definition tuple_rule ::
    "(string \<Rightarrow> num_error + 'a) \<Rightarrow> 'a \<Rightarrow> ('a \<Rightarrow> 'a \<Rightarrow> ('f, 'r) Rule) \<Rightarrow> string option \<Rightarrow> ('f, 'r) Rule list option" where
  "tuple_rule parse zero mk tag =
     (case tag of
        None \<Rightarrow> Some []
      | Some tuple \<Rightarrow>
          (case parseTuple tuple of
             Inl p \<Rightarrow> None
           | Inr (a, b) \<Rightarrow>
               (case bound parse zero a of
                  None \<Rightarrow> None
                | Some mn \<Rightarrow> (case bound parse zero b of None \<Rightarrow> None | Some mx \<Rightarrow> Some [mk mn mx]))))"

text \<open>
  \<^verbatim>\<open>makeVerifyRules\<close>: \<open>None\<close> is an error, a recovered panic included. \<open>compile\<close> is \<^verbatim>\<open>regexp.Compile\<close>.
\<close>

definition makeVerifyRules ::
    "(string \<Rightarrow> num_error + 'f) \<Rightarrow> 'f \<Rightarrow> (string \<Rightarrow> 'r option) \<Rightarrow> (string \<Rightarrow> string option) \<Rightarrow> ('f, 'r) Rule list option" where
  "makeVerifyRules parseFloat zero compile tags =
     (case tuple_rule (\<lambda>s. ParseInt s 64) 0 LengthRule (tags ''len'') of
        None \<Rightarrow> None
      | Some r1 \<Rightarrow>
          (case tuple_rule parseFloat zero RangeRule (tags ''range'') of
             None \<Rightarrow> None
           | Some r2 \<Rightarrow>
               (let r3 = (if tags ''notempty'' \<noteq> None then [NotEmptyRule] else []) in
                case tags ''regexp'' of
                  None \<Rightarrow> Some (r1 @ r2 @ r3)
                | Some reg \<Rightarrow> (case compile reg of None \<Rightarrow> None | Some re \<Rightarrow> Some (r1 @ r2 @ r3 @ [MatchRule re])))))"

text \<open>
  \<^verbatim>\<open>validate\<close>: a slice is checked element by element; \<open>valid\<close> is \<^verbatim>\<open>validation.Validate\<close>. The kind of a
  byte slice is a slice too.
\<close>

fun elements :: "'f dest \<Rightarrow> 'f dest list option" where
  "elements (DStrings ss) = Some (map DString ss)"
| "elements (DBytes s) = Some (map (\<lambda>c. DUint 8 (of_char c)) s)"
| "elements (DBytesList ss) = Some (map DBytes ss)"
| "elements (DBools bs) = Some (map DBool bs)"
| "elements (DInts b xs) = Some (map (DInt b) xs)"
| "elements (DUints b xs) = Some (map (DUint b) xs)"
| "elements (DFloats b xs) = Some (map (DFloat b) xs)"
| "elements _ = None"

definition Param_validate :: "('f dest \<Rightarrow> ('f, 'r) Rule list \<Rightarrow> bool) \<Rightarrow> ('f, 'r) Rule list \<Rightarrow> 'f dest \<Rightarrow> bool" where
  "Param_validate valid rules v =
     (case elements v of
        Some vs \<Rightarrow> \<forall>x \<in> set vs. valid x rules
      | None \<Rightarrow> valid v rules)"

subsection \<open>Printing and parsing tags\<close>

definition escape :: "string \<Rightarrow> string" where
  "escape v = concat (map (\<lambda>c. if c = CHR ''<'' \<or> c = CHR ''>'' then [CHR 0x5C, c] else [c]) v)"

definition tag_text :: "(string \<times> string) list \<Rightarrow> string" where
  "tag_text kvs = concat (map (\<lambda>(k, v). ''<'' @ k @ '':'' @ escape v @ ''>'') kvs)"

definition trimmed :: "string \<Rightarrow> bool" where
  "trimmed s = (s = [] \<or> (hd s \<noteq> CHR '' '' \<and> last s \<noteq> CHR '' ''))"

definition tag_ok :: "string \<times> string \<Rightarrow> bool" where
  "tag_ok kv = (case kv of (k, v) \<Rightarrow>
     (\<forall>c \<in> set k. c \<noteq> CHR '':'' \<and> c \<noteq> CHR 0x5C \<and> c \<noteq> CHR ''>'') \<and> CHR 0x5C \<notin> set v \<and> trimmed k \<and> trimmed v)"

lemma TrimRight_trimmed: "trimmed s \<Longrightarrow> TrimRight_sp s = s"
  by (cases s rule: rev_cases) (auto simp: trimmed_def TrimRight_sp_def)

lemma TrimLeft_other: "s \<noteq> [] \<Longrightarrow> hd s \<noteq> CHR '' '' \<Longrightarrow> TrimLeft_sp s = s"
  by (cases s) (simp_all add: TrimLeft_sp_def)

lemma escape_Nil [simp]: "escape [] = []"
  by (simp add: escape_def)

lemma escape_Cons: "escape (c # v) = (if c = CHR ''<'' \<or> c = CHR ''>'' then [CHR 0x5C, c] else [c]) @ escape v"
  by (simp add: escape_def)

lemma parse_name:
  "(\<forall>c \<in> set k. c \<noteq> CHR '':'' \<and> c \<noteq> CHR 0x5C \<and> c \<noteq> CHR ''>'') \<Longrightarrow>
   parse_pair None pre (k @ CHR '':'' # s) = parse_pair (Some (TrimRight_sp (pre @ k))) [] (TrimLeft_sp s)"
  by (induction k arbitrary: pre) simp_all

lemma parse_value:
  "CHR 0x5C \<notin> set v \<Longrightarrow>
   parse_pair (Some n) pre (escape v @ CHR ''>'' # s) = Inr (Some ((n, TrimRight_sp (pre @ v)), s))"
proof (induction v arbitrary: pre)
  case (Cons c v)
  then have c: "c \<noteq> CHR 0x5C" and IH: "parse_pair (Some n) (pre @ [c]) (escape v @ CHR ''>'' # s) = Inr (Some ((n, TrimRight_sp ((pre @ [c]) @ v)), s))"
    by (metis list.set_intros(1), simp)
  show ?case
  proof (cases "c = CHR ''<'' \<or> c = CHR ''>''")
    case True
    then show ?thesis using IH by (auto simp: escape_Cons)
  next
    case False
    with c IH show ?thesis by (auto simp: escape_Cons)
  qed
qed simp

lemma parse_one:
  assumes "tag_ok (k, v)"
  shows "parse_tags (''<'' @ k @ '':'' @ escape v @ ''>'' @ s) tags = parse_tags s (tags(k \<mapsto> v))"
proof -
  let ?t = "k @ CHR '':'' # escape v @ CHR ''>'' # s"
  have k: "\<forall>c \<in> set k. c \<noteq> CHR '':'' \<and> c \<noteq> CHR 0x5C \<and> c \<noteq> CHR ''>''" and v: "CHR 0x5C \<notin> set v"
    and t: "trimmed k" "trimmed v" using assms by (auto simp: tag_ok_def)
  have "hd ?t \<noteq> CHR '' ''" using t(1) by (cases k) (auto simp: trimmed_def)
  then have skip: "TrimLeft_sp ?t = ?t" by (intro TrimLeft_other) auto
  have "TrimLeft_sp (escape v @ CHR ''>'' # s) = escape v @ CHR ''>'' # s"
    using t(2) by (intro TrimLeft_other; cases v) (auto simp: trimmed_def escape_Cons)
  then have "parse_pair None [] ?t = Inr (Some ((k, v), s))"
    using parse_name [OF k, of "[]" "escape v @ CHR ''>'' # s"] parse_value [OF v, of k "[]" s] TrimRight_trimmed t by simp
  then show ?thesis using skip by (subst parse_tags.simps) (simp add: Let_def)
qed

text \<open>
  \<^bold>\<open>C19\<close>. \<^verbatim>\<open>ParseTags\<close> reads back what was written: for pairs of a name and a value without backslashes and
  outer spaces, names without \<^verbatim>\<open>:\<close> and \<^verbatim>\<open>>\<close>, angle brackets in values escaped by a backslash, the
  result maps every name to its last value.
\<close>

theorem ParseTags_roundtrip:
  assumes "\<forall>kv \<in> set kvs. tag_ok kv"
  shows "ParseTags (tag_text kvs) = Inr (map_of (rev kvs))"
proof -
  have "parse_tags (tag_text kvs) tags = Inr (tags ++ map_of (rev kvs))" for tags
    using assms
  proof (induction kvs arbitrary: tags)
    case Nil
    show ?case by (subst parse_tags.simps) (simp add: tag_text_def)
  next
    case (Cons kv kvs)
    obtain k v where kv: "kv = (k, v)" by (cases kv)
    have "parse_tags (tag_text (kv # kvs)) tags = parse_tags (tag_text kvs) (tags(k \<mapsto> v))"
      using parse_one [of k v "tag_text kvs" tags] Cons.prems kv by (simp add: tag_text_def)
    also have "\<dots> = Inr (tags(k \<mapsto> v) ++ map_of (rev kvs))" using Cons by simp
    also have "tags(k \<mapsto> v) ++ map_of (rev kvs) = tags ++ map_of (rev (kv # kvs))"
      using kv by (simp add: map_add_def fun_eq_iff split: option.split)
    finally show ?case .
  qed
  then show ?thesis by (simp add: ParseTags_def)
qed

theorem ParseTags_roundtrip_witness:
  "ParseTags ''<in:query><name:p><len:1:10>'' = Inr (map_of [(''len'', ''1:10''), (''name'', ''p''), (''in'', ''query'')])"
proof -
  have "tag_text [(''in'', ''query''), (''name'', ''p''), (''len'', ''1:10'')] = ''<in:query><name:p><len:1:10>''" by code_simp
  moreover have "\<forall>kv \<in> set [(''in'', ''query''), (''name'', ''p''), (''len'', ''1:10'')]. tag_ok kv" by code_simp
  ultimately show ?thesis
    using ParseTags_roundtrip [of "[(''in'', ''query''), (''name'', ''p''), (''len'', ''1:10'')]"] by simp
qed

text \<open>
  A tag that ends with a backslash inside a pair makes \<^verbatim>\<open>ParseTags\<close> index past the end of the text.
\<close>

theorem ParseTags_backslash_panics:
  assumes "\<forall>c \<in> set k. c \<noteq> CHR '':'' \<and> c \<noteq> CHR 0x5C \<and> c \<noteq> CHR ''>'' \<and> c \<noteq> CHR '' ''"
  shows "ParseTags (''<'' @ k @ [CHR 0x5C]) = Inl IndexOutOfRange"
proof -
  have p: "parse_pair None pre (k @ [CHR 0x5C]) = Inl IndexOutOfRange" for pre
    using assms by (induction k arbitrary: pre) simp_all
  have "hd (k @ [CHR 0x5C]) \<noteq> CHR '' ''" using assms by (cases k) auto
  then have "TrimLeft_sp (k @ [CHR 0x5C]) = k @ [CHR 0x5C]" by (intro TrimLeft_other) auto
  then show ?thesis using p by (simp add: ParseTags_def) (subst parse_tags.simps, simp add: Let_def)
qed

theorem ParseTags_backslash_panics_witness: "ParseTags (''<in'' @ [CHR 0x5C]) = Inl IndexOutOfRange"
  using ParseTags_backslash_panics [of "''in''"] by simp

end
