(* ===== verification/Api_Binding.thy ===== *)
theory Api_Binding
  imports Api_Params "HOL-Library.List_Lexorder" "HOL-Library.Char_ord"
begin

text \<open>
  \<^verbatim>\<open>src/api/api_handler.go\<close>: the parameter model of an API handler, built from the fields of a struct,
  and the binding of a request to the fields. Reflection is replaced by a description of the fields and a
  list of slots for their values. The validation package, the body decoder, regular expressions and
  floats are arguments.
\<close>

subsection \<open>Route parameters\<close>

type_synonym ApiParams = "(string \<times> string) list"

fun ByName :: "ApiParams \<Rightarrow> string \<Rightarrow> string" where
  "ByName [] name = ''''"
| "ByName ((k, v) # ps) name = (if k = name then v else ByName ps name)"

fun ApiParams_Get :: "ApiParams \<Rightarrow> string \<Rightarrow> string \<times> bool" where
  "ApiParams_Get [] name = ('''', False)"
| "ApiParams_Get ((k, v) # ps) name = (if k = name then (v, True) else ApiParams_Get ps name)"

fun replace_loop :: "string \<Rightarrow> string \<Rightarrow> int \<Rightarrow> ApiParams \<Rightarrow> ApiParams \<times> bool" where
  "replace_loop name v n [] = ([], False)"
| "replace_loop name v n ((k, w) # ps) =
     (if n \<le> 0 then ((k, w) # ps, False)
      else if k = name then ((k, v) # fst (replace_loop name v (n - 1) ps), True)
      else ((k, w) # fst (replace_loop name v n ps), snd (replace_loop name v n ps)))"

definition ApiParams_Replace :: "string \<Rightarrow> string \<Rightarrow> int \<Rightarrow> ApiParams \<Rightarrow> ApiParams \<times> bool" where
  "ApiParams_Replace name v n ps = replace_loop name v (if n < 0 then int (length ps) else n) ps"

subsection \<open>The parameters of a struct\<close>

text \<open>
  A field: its name, whether it is embedded, whether its kind is a struct or a pointer, its type, its tag
  \<^verbatim>\<open>param\<close>, whether it can be set, and the fields of its struct type.
\<close>

datatype field_t = Field_T
  (fd_name: string) (fd_anonymous: bool) (fd_struct: bool) (fd_ptr: bool) (fd_type: string)
  (fd_tag: "string option") (fd_canSet: bool) (fd_fields: "field_t list")

record ('f, 'r) Param =
  pname :: string
  indexPath :: "nat list"
  isRequired :: bool
  isFile :: bool
  ptags :: "string \<Rightarrow> string option"
  prules :: "('f, 'r) Rule list"

definition Param_In :: "('f, 'r) Param \<Rightarrow> string" where
  "Param_In p = (case ptags p ''in'' of Some s \<Rightarrow> s | None \<Rightarrow> '''')"

definition Param_Description :: "('f, 'r) Param \<Rightarrow> string" where
  "Param_Description p = (case ptags p ''desc'' of Some s \<Rightarrow> s | None \<Rightarrow> '''')"

datatype add_error =
  PointerField | UnexportedField | FileNotFormData | CookieNotCookie | BodyAndFormData | TwoBodies
| InvalidIn | InvalidLen | InvalidRange | InvalidRegexp | InvalidMaxmb | InitialValidation

definition file_types :: "string list" where
  "file_types = [''*multipart.FileHeader'', ''[]*multipart.FileHeader'', ''multipart.FileHeader'', ''[]multipart.FileHeader'']"

definition cookie_types :: "string list" where
  "cookie_types = [''*http.Cookie'', ''http.Cookie'']"

definition number_types :: "string list" where
  "number_types = [''int'', ''int8'', ''int16'', ''int32'', ''int64'', ''uint'', ''uint8'', ''uint16'', ''uint32'', ''uint64'', ''float32'', ''float64'']"

definition TagInValues :: "string list" where
  "TagInValues = [''path'', ''query'', ''formData'', ''body'', ''header'', ''cookie'']"

text \<open>\<^verbatim>\<open>textproto.CanonicalMIMEHeaderKey\<close>: unchanged when some byte is not allowed in a header name.\<close>

definition header_byte :: "char \<Rightarrow> bool" where
  "header_byte c = (is_upper c \<or> is_lower c \<or> digit c \<noteq> None \<or> c \<in> set ''!#$%&*+-.^_`|~'' \<or> c = CHR 0x27)"

fun canon_header :: "bool \<Rightarrow> string \<Rightarrow> string" where
  "canon_header up [] = []"
| "canon_header up (c # cs) = (if up then up_char c else low_char c) # canon_header (c = CHR ''-'') cs"

definition CanonicalMIMEHeaderKey :: "string \<Rightarrow> string" where
  "CanonicalMIMEHeaderKey s = (if \<forall>c \<in> set s. header_byte c then canon_header True s else s)"

text \<open>What the loop of \<^verbatim>\<open>addFields\<close> keeps per struct: form data seen, body seen, largest \<^verbatim>\<open>maxmb\<close>.\<close>

record level =
  hasFormData :: bool
  hasBody :: bool
  maxMemoryMB :: int

record ('f, 'r) env =
  env_parseFloat :: "string \<Rightarrow> num_error + 'f"
  env_zero :: 'f
  env_compile :: "string \<Rightarrow> 'r option"
  env_normalize :: "string \<Rightarrow> string"

text \<open>The position of the parameter: the error, or the level and the tags afterwards.\<close>

definition check_position ::
    "string \<Rightarrow> level \<Rightarrow> (string \<Rightarrow> string option) \<Rightarrow> add_error + (level \<times> (string \<Rightarrow> string option))" where
  "check_position pos lev tags =
     (if pos = ''formData'' then
        (if hasBody lev then Inl BodyAndFormData else Inr (lev\<lparr>hasFormData := True\<rparr>, tags))
      else if pos = ''body'' then
        (if hasFormData lev then Inl BodyAndFormData
         else if hasBody lev then Inl TwoBodies
         else Inr (lev\<lparr>hasBody := True\<rparr>, tags))
      else if pos = ''path'' then Inr (lev, tags(''required'' \<mapsto> ''required''))
      else if pos \<in> set TagInValues then Inr (lev, tags)
      else Inl InvalidIn)"

definition check_types :: "string \<Rightarrow> (string \<Rightarrow> string option) \<Rightarrow> add_error option" where
  "check_types ty tags =
     (if tags ''len'' \<noteq> None \<and> ty \<notin> set (''string'' # ''[]string'' # map ((@) ''[]'') number_types) then Some InvalidLen
      else if tags ''range'' \<noteq> None \<and> ty \<notin> set (number_types @ map ((@) ''[]'') number_types) then Some InvalidRange
      else if tags ''regexp'' \<noteq> None \<and> ty \<noteq> ''string'' \<and> ty \<noteq> ''[]string'' then Some InvalidRegexp
      else None)"

text \<open>One tagged field, after its tag was parsed.\<close>

definition add_param ::
    "('f, 'r) env \<Rightarrow> nat list \<Rightarrow> field_t \<Rightarrow> (string \<Rightarrow> string option) \<Rightarrow> level \<Rightarrow> add_error + (level \<times> ('f, 'r) Param)" where
  "add_param env path f tags0 lev0 =
     (let pos = (case tags0 ''in'' of Some s \<Rightarrow> s | None \<Rightarrow> '''') in
      if fd_type f \<in> set file_types \<and> pos \<noteq> ''formData'' then Inl FileNotFormData
      else if fd_type f \<in> set cookie_types \<and> pos \<noteq> ''cookie'' then Inl CookieNotCookie
      else (case check_position pos lev0 tags0 of
              Inl e \<Rightarrow> Inl e
            | Inr (lev, tags) \<Rightarrow>
                (case check_types (fd_type f) tags of
                   Some e \<Rightarrow> Inl e
                 | None \<Rightarrow>
                     (case (case tags ''maxmb'' of None \<Rightarrow> Inr 0 | Some a \<Rightarrow> ParseInt a 64) of
                        Inl e \<Rightarrow> Inl InvalidMaxmb
                      | Inr mb \<Rightarrow>
                          (let lev1 = (if maxMemoryMB lev < mb then lev\<lparr>maxMemoryMB := mb\<rparr> else lev);
                               nm = (case tags ''name'' of Some n \<Rightarrow> n | None \<Rightarrow> env_normalize env (fd_name f));
                               nm1 = (if pos = ''header'' then CanonicalMIMEHeaderKey nm else nm);
                               req = (tags ''required'' \<noteq> None \<or> tags ''notempty'' \<noteq> None \<or> tags ''range'' \<notin> {None, Some ''''})
                           in case makeVerifyRules (env_parseFloat env) (env_zero env) (env_compile env) tags of
                                None \<Rightarrow> Inl InitialValidation
                              | Some rules \<Rightarrow>
                                  Inr (lev1, \<lparr>pname = nm1, indexPath = path, isRequired = req,
                                              isFile = fd_type f \<in> set file_types, ptags = tags, prules = rules\<rparr>))))))"

definition MB :: int where "MB = 1048576"

definition memory_of :: "int \<Rightarrow> int" where
  "memory_of mb = (if 0 < mb then sint (word_of_int (mb * MB) :: 64 word) else 32 * MB)"

text \<open>
  \<^verbatim>\<open>addFields\<close>: the parameters found so far and the memory limit, which the call for every struct
  sets at its end. A panic is that of \<^verbatim>\<open>ParseTags\<close>.
\<close>

fun addFields ::
    "('f, 'r) env \<Rightarrow> nat list \<Rightarrow> nat \<Rightarrow> field_t list \<Rightarrow> level \<Rightarrow> ('f, 'r) Param list \<times> int
     \<Rightarrow> (add_error + (('f, 'r) Param list \<times> int)) outcome" where
  "addFields env parent i [] lev (ps, mem) = Inr (Inr (ps, memory_of (maxMemoryMB lev)))"
| "addFields env parent i (Field_T n an st ptr ty tg cs sub # fs) lev (ps, mem) =
     (case tg of
        None \<Rightarrow>
          if an \<and> st then
            (case addFields env (parent @ [i]) 0 sub \<lparr>hasFormData = False, hasBody = False, maxMemoryMB = 0\<rparr> (ps, mem) of
               Inl p \<Rightarrow> Inl p
             | Inr (Inl e) \<Rightarrow> Inr (Inl e)
             | Inr (Inr st1) \<Rightarrow> addFields env parent (Suc i) fs lev st1)
          else addFields env parent (Suc i) fs lev (ps, mem)
      | Some tag \<Rightarrow>
          if tag = ''-'' then addFields env parent (Suc i) fs lev (ps, mem)
          else if ptr \<and> ty \<noteq> ''*multipart.FileHeader'' \<and> ty \<noteq> ''*http.Cookie'' then Inr (Inl PointerField)
          else if \<not> cs then Inr (Inl UnexportedField)
          else (case ParseTags tag of
                  Inl p \<Rightarrow> Inl p
                | Inr tags \<Rightarrow>
                    (case add_param env (parent @ [i]) (Field_T n an st ptr ty tg cs sub) tags lev of
                       Inl e \<Rightarrow> Inr (Inl e)
                     | Inr (lev1, p) \<Rightarrow> addFields env parent (Suc i) fs lev1 (ps @ [p], mem))))"

record ('f, 'r) Api =
  api_name :: string
  api_params :: "('f, 'r) Param list"
  maxMemory :: int
  rawStructPointer :: nat

text \<open>The APIs registered so far, by name.\<close>

type_synonym ('f, 'r) ApiMap = "string \<Rightarrow> ('f, 'r) Api option"

definition apiMap_get :: "('f, 'r) ApiMap \<Rightarrow> string \<Rightarrow> ('f, 'r) Api option" where
  "apiMap_get m name = m name"

definition apiMap_set :: "('f, 'r) Api \<Rightarrow> ('f, 'r) ApiMap \<Rightarrow> ('f, 'r) ApiMap" where
  "apiMap_set a m = m(api_name a \<mapsto> a)"

definition GetApi :: "('f, 'r) ApiMap \<Rightarrow> string \<Rightarrow> ('f, 'r) Api option" where
  "GetApi m name = apiMap_get m name"

definition SetApi :: "('f, 'r) Api \<Rightarrow> ('f, 'r) ApiMap \<Rightarrow> ('f, 'r) ApiMap" where
  "SetApi a m = apiMap_set a m"

text \<open>
  \<^verbatim>\<open>NewApi\<close> for the object at an address: \<open>struct\<close> is \<open>None\<close> when the object is not a
  struct pointer. An API that is made is registered under the name of its type.
\<close>

definition NewApi ::
    "('f, 'r) env \<Rightarrow> string \<Rightarrow> nat \<Rightarrow> field_t list option \<Rightarrow> ('f, 'r) ApiMap
     \<Rightarrow> ((add_error option + ('f, 'r) Api) \<times> ('f, 'r) ApiMap) outcome" where
  "NewApi env name addr struct m =
     (case struct of
        None \<Rightarrow> Inr (Inl None, m)
      | Some fs \<Rightarrow>
          (case addFields env [] 0 fs \<lparr>hasFormData = False, hasBody = False, maxMemoryMB = 0\<rparr> ([], 0) of
             Inl p \<Rightarrow> Inl p
           | Inr (Inl e) \<Rightarrow> Inr (Inl (Some e), m)
           | Inr (Inr (ps, mem)) \<Rightarrow>
               (let a = \<lparr>api_name = name, api_params = ps, maxMemory = mem, rawStructPointer = addr\<rparr>
                in Inr (Inr a, apiMap_set a m))))"

text \<open>
  \<^verbatim>\<open>ToAPIHandler\<close> uses the snake-case names of the fields, \<^verbatim>\<open>IsHandlerWithoutPath\<close> the default,
  which is the same; both register the API.
\<close>

definition ToAPIHandler ::
    "('f, 'r) env \<Rightarrow> string \<Rightarrow> nat \<Rightarrow> field_t list option \<Rightarrow> ('f, 'r) ApiMap
     \<Rightarrow> ((add_error option + ('f, 'r) Api) \<times> ('f, 'r) ApiMap) outcome" where
  "ToAPIHandler env name addr struct m = NewApi (env\<lparr>env_normalize := SnakeString\<rparr>) name addr struct m"

definition IsHandlerWithoutPath ::
    "('f, 'r) env \<Rightarrow> string \<Rightarrow> nat \<Rightarrow> field_t list option \<Rightarrow> ('f, 'r) ApiMap \<Rightarrow> (bool \<times> ('f, 'r) ApiMap) outcome" where
  "IsHandlerWithoutPath env name addr struct m =
     (case NewApi (env\<lparr>env_normalize := SnakeString\<rparr>) name addr struct m of
        Inl p \<Rightarrow> Inl p
      | Inr (Inl e, m1) \<Rightarrow> Inr (True, m1)
      | Inr (Inr a, m1) \<Rightarrow> Inr (\<forall>p \<in> set (api_params a). Param_In p \<noteq> ''path'', m1))"

definition Api_Number :: "('f, 'r) Api \<Rightarrow> nat" where
  "Api_Number a = length (api_params a)"

subsection \<open>Binding\<close>

text \<open>
  The slot of a parameter: a value \<^verbatim>\<open>ConvertAssign\<close> knows, uploaded files (numbers), or a cookie.
\<close>

datatype 'f slot = Plain "'f dest" | FileSlot "nat option" | FilesSlot "nat list" | CookieSlot "string option"

record Request =
  rq_path :: ApiParams
  rq_query :: "string \<Rightarrow> string list option"
  rq_multipart :: "((string \<Rightarrow> nat list) \<times> (string \<Rightarrow> string list option)) option"
  rq_postForm :: "string \<Rightarrow> string list option"
  rq_body :: "string option"
  rq_header :: "string \<Rightarrow> string list option"
  rq_cookie :: "string \<Rightarrow> string option"

datatype bind_error =
  MissingPath | MissingQuery | MissingFormData | MissingBody | MissingHeader | MissingCookie
| ConvertFailed convert_error | DecodeFailed | Invalid | RecoveredPanic

text \<open>
  What binding calls: the parser of floats, the body decoder and the validation of a slot (third-party
  packages).
\<close>

record ('f, 'r) bindops =
  b_parseFloat :: "string \<Rightarrow> nat \<Rightarrow> num_error + 'f"
  b_decode :: "'f slot \<Rightarrow> string \<Rightarrow> 'f slot option"
  b_valid :: "'f slot \<Rightarrow> ('f, 'r) Rule list \<Rightarrow> bool"

text \<open>
  \<^verbatim>\<open>defaultBodydecoder\<close>: \<^verbatim>\<open>json.Unmarshal\<close> into a \<^verbatim>\<open>reflect.Value\<close>. That is not a pointer,
  so it returns an \<^verbatim>\<open>InvalidUnmarshalError\<close> (or a syntax error) and sets nothing.
\<close>

definition defaultBodydecoder :: "'f slot \<Rightarrow> string \<Rightarrow> 'f slot option" where
  "defaultBodydecoder s body = None"

text \<open>\<^verbatim>\<open>Param.validate\<close> on a slot: slices element by element.\<close>

definition slot_validate :: "('f, 'r) bindops \<Rightarrow> ('f, 'r) Rule list \<Rightarrow> 'f slot \<Rightarrow> bool" where
  "slot_validate b rules s =
     (case s of
        Plain d \<Rightarrow> Param_validate (\<lambda>x. b_valid b (Plain x)) rules d
      | FilesSlot fs \<Rightarrow> \<forall>f \<in> set fs. b_valid b (FileSlot (Some f)) rules
      | _ \<Rightarrow> b_valid b s rules)"

definition assign :: "('f, 'r) bindops \<Rightarrow> 'f slot \<Rightarrow> string list \<Rightarrow> bind_error option \<times> 'f slot" where
  "assign b s src =
     (case s of
        Plain d \<Rightarrow>
          (case ConvertAssign (b_parseFloat b) True d src of
             (Some e, d1) \<Rightarrow> (Some (ConvertFailed e), Plain d1)
           | (None, d1) \<Rightarrow> (None, Plain d1))
      | _ \<Rightarrow> (if src = [] then None else Some RecoveredPanic, s))"

definition assign_opt ::
    "('f, 'r) bindops \<Rightarrow> bind_error \<Rightarrow> ('f, 'r) Param \<Rightarrow> 'f slot \<Rightarrow> string list option \<Rightarrow> bind_error option \<times> 'f slot" where
  "assign_opt b missing p s src =
     (case src of
        Some vs \<Rightarrow> assign b s vs
      | None \<Rightarrow> if isRequired p then (Some missing, s) else (None, s))"

text \<open>The file part of a form parameter; \<^verbatim>\<open>fhs[0]\<close> of no files is a panic, recovered by the caller.\<close>

definition bind_file :: "('f, 'r) Param \<Rightarrow> Request \<Rightarrow> 'f slot \<Rightarrow> bind_error option \<times> 'f slot" where
  "bind_file p req s =
     (if \<not> isFile p then (None, s)
      else (case rq_multipart req of
              None \<Rightarrow> if isRequired p then (Some MissingFormData, s) else (None, s)
            | Some (files, vals) \<Rightarrow>
                (let fhs = files (pname p) in
                 if fhs = [] \<and> isRequired p then (Some MissingFormData, s)
                 else (case s of
                         FileSlot _ \<Rightarrow> (case fhs of [] \<Rightarrow> (Some RecoveredPanic, s) | f # _ \<Rightarrow> (None, FileSlot (Some f)))
                       | FilesSlot _ \<Rightarrow> (None, FilesSlot fhs)
                       | _ \<Rightarrow> (Some Invalid, s)))))"

definition bind_form :: "('f, 'r) bindops \<Rightarrow> ('f, 'r) Param \<Rightarrow> Request \<Rightarrow> 'f slot \<Rightarrow> bind_error option \<times> 'f slot" where
  "bind_form b p req s =
     (case bind_file p req s of
        (Some e, s1) \<Rightarrow> (Some e, s1)
      | (None, s1) \<Rightarrow>
          (case (case rq_multipart req of
                   Some (files, vals) \<Rightarrow> (case vals (pname p) of Some vs \<Rightarrow> assign b s1 vs | None \<Rightarrow> (None, s1))
                 | None \<Rightarrow> (None, s1)) of
             (Some e, s2) \<Rightarrow> (Some e, s2)
           | (None, s2) \<Rightarrow> assign_opt b MissingFormData p s2 (rq_postForm req (pname p))))"

definition bind_cookie :: "('f, 'r) bindops \<Rightarrow> ('f, 'r) Param \<Rightarrow> Request \<Rightarrow> 'f slot \<Rightarrow> bind_error option \<times> 'f slot" where
  "bind_cookie b p req s =
     (case rq_cookie req (pname p) of
        Some c \<Rightarrow> (case s of CookieSlot _ \<Rightarrow> (None, CookieSlot (Some c)) | _ \<Rightarrow> assign b s [c])
      | None \<Rightarrow> if isRequired p then (Some MissingCookie, s) else (None, s))"

definition bind_body :: "('f, 'r) bindops \<Rightarrow> ('f, 'r) Param \<Rightarrow> Request \<Rightarrow> 'f slot \<Rightarrow> bind_error option \<times> 'f slot" where
  "bind_body b p req s =
     (case rq_body req of
        Some body \<Rightarrow> (case b_decode b s body of Some s1 \<Rightarrow> (None, s1) | None \<Rightarrow> (Some DecodeFailed, s))
      | None \<Rightarrow> if isRequired p then (Some MissingBody, s) else (None, s))"

definition bind_param :: "('f, 'r) bindops \<Rightarrow> Request \<Rightarrow> ('f, 'r) Param \<Rightarrow> 'f slot \<Rightarrow> bind_error option \<times> 'f slot" where
  "bind_param b req p s =
     (let pos = Param_In p in
      if pos = ''path'' then
        (case ApiParams_Get (rq_path req) (pname p) of
           (v, True) \<Rightarrow> assign b s [v]
         | (v, False) \<Rightarrow> (Some MissingPath, s))
      else if pos = ''query'' then assign_opt b MissingQuery p s (rq_query req (pname p))
      else if pos = ''formData'' then bind_form b p req s
      else if pos = ''body'' then bind_body b p req s
      else if pos = ''header'' then assign_opt b MissingHeader p s (rq_header req (pname p))
      else if pos = ''cookie'' then bind_cookie b p req s
      else (None, s))"

text \<open>The loop; the fields are set in place, so those before an error keep their new values.\<close>

fun BindFields ::
    "('f, 'r) bindops \<Rightarrow> Request \<Rightarrow> ('f, 'r) Param list \<Rightarrow> 'f slot list \<Rightarrow> bind_error option \<times> 'f slot list" where
  "BindFields b req [] ss = (None, ss)"
| "BindFields b req (p # ps) [] = (Some RecoveredPanic, [])"
| "BindFields b req (p # ps) (s # ss) =
     (case bind_param b req p s of
        (Some e, s1) \<Rightarrow> (Some e, s1 # ss)
      | (None, s1) \<Rightarrow>
          if \<not> slot_validate b (prules p) s1 then (Some Invalid, s1 # ss)
          else (case BindFields b req ps ss of (e, ss1) \<Rightarrow> (e, s1 # ss1)))"

text \<open>
  \<^verbatim>\<open>NewReceiver\<close> returns the object the API was made with, after decoding the default values into
  it (\<open>defaults\<close>, the identity when there are none); \<^verbatim>\<open>BindNew\<close> binds that object.
\<close>

definition NewReceiver :: "('f slot list \<Rightarrow> 'f slot list) \<Rightarrow> 'f slot list \<Rightarrow> 'f slot list" where
  "NewReceiver defaults obj = defaults obj"

definition BindNew ::
    "('f, 'r) bindops \<Rightarrow> ('f slot list \<Rightarrow> 'f slot list) \<Rightarrow> ('f, 'r) Api \<Rightarrow> Request \<Rightarrow> 'f slot list \<Rightarrow> bind_error option \<times> 'f slot list" where
  "BindNew b defaults a req obj = BindFields b req (api_params a) (NewReceiver defaults obj)"

text \<open>\<^verbatim>\<open>BindAt\<close> binds another object, of the same type: \<open>None\<close> is a type that does not match.\<close>

definition BindAt ::
    "('f, 'r) bindops \<Rightarrow> ('f, 'r) Api \<Rightarrow> string \<Rightarrow> Request \<Rightarrow> 'f slot list \<Rightarrow> (bind_error option \<times> 'f slot list) option" where
  "BindAt b a typeName req obj =
     (if typeName \<noteq> api_name a then None else Some (BindFields b req (api_params a) obj))"

text \<open>
  The objects live at addresses. \<^verbatim>\<open>BindByName\<close> binds the object of the registered API, \<^verbatim>\<open>Bind\<close>
  the object it is given. \<^verbatim>\<open>apiHandler.Serve\<close> adds the parameters of the route to those of the context
  and answers 400, or calls the object's own handler (the object after binding).
\<close>

type_synonym 'f objects = "nat \<Rightarrow> 'f slot list"

datatype api_error = NotRegistered | TypeMismatch | BindFailed bind_error

definition BindByName ::
    "('f, 'r) bindops \<Rightarrow> (('f, 'r) Api \<Rightarrow> 'f slot list \<Rightarrow> 'f slot list) \<Rightarrow> ('f, 'r) ApiMap \<Rightarrow> string \<Rightarrow> Request \<Rightarrow> 'f objects
     \<Rightarrow> (api_error + nat) \<times> 'f objects" where
  "BindByName b defaults m name req objs =
     (case GetApi m name of
        None \<Rightarrow> (Inl NotRegistered, objs)
      | Some a \<Rightarrow>
          (case BindNew b (defaults a) a req (objs (rawStructPointer a)) of
             (Some e, o1) \<Rightarrow> (Inl (BindFailed e), objs(rawStructPointer a := o1))
           | (None, o1) \<Rightarrow> (Inr (rawStructPointer a), objs(rawStructPointer a := o1))))"

definition Bind ::
    "('f, 'r) bindops \<Rightarrow> ('f, 'r) ApiMap \<Rightarrow> string \<Rightarrow> nat \<Rightarrow> Request \<Rightarrow> 'f objects \<Rightarrow> api_error option \<times> 'f objects" where
  "Bind b m typeName addr req objs =
     (case GetApi m typeName of
        None \<Rightarrow> (Some NotRegistered, objs)
      | Some a \<Rightarrow>
          (case BindAt b a typeName req (objs addr) of
             None \<Rightarrow> (Some TypeMismatch, objs)
           | Some (e, o1) \<Rightarrow> (map_option BindFailed e, objs(addr := o1))))"

definition apiHandler_Serve ::
    "('f, 'r) bindops \<Rightarrow> (('f, 'r) Api \<Rightarrow> 'f slot list \<Rightarrow> 'f slot list) \<Rightarrow> ('f, 'r) Api \<Rightarrow> ApiParams \<Rightarrow> Request \<Rightarrow> 'f objects
     \<Rightarrow> (nat \<times> bind_error + 'f slot list) \<times> 'f objects" where
  "apiHandler_Serve b defaults a paramMap req objs =
     (case BindNew b (defaults a) a (req\<lparr>rq_path := rq_path req @ paramMap\<rparr>) (objs (rawStructPointer a)) of
        (Some e, o1) \<Rightarrow> (Inl (400, e), objs(rawStructPointer a := o1))
      | (None, o1) \<Rightarrow> (Inr o1, objs(rawStructPointer a := o1)))"

subsection \<open>Documentation\<close>

record APIParam =
  ap_Name :: string
  ap_In :: string
  ap_Required :: bool
  ap_Desc :: string

definition param_key :: "APIParam \<Rightarrow> string" where
  "param_key info = ap_Name info @ [CHR ''<'', CHR 0x0D, CHR ''-'', CHR 0x0A, CHR ''-'', CHR 0x09, CHR ''>''] @ ap_In info"

definition merge_info :: "APIParam \<Rightarrow> APIParam \<Rightarrow> APIParam" where
  "merge_info new info =
     (let n1 = (if \<not> ap_Required new \<and> ap_Required info then new\<lparr>ap_Required := True\<rparr> else new)
      in if ap_Desc n1 = '''' \<and> ap_Desc info \<noteq> '''' then n1\<lparr>ap_Desc := ap_Desc info\<rparr> else n1)"

fun collect_infos :: "APIParam list \<Rightarrow> string list \<times> (string \<Rightarrow> APIParam option) \<Rightarrow> string list \<times> (string \<Rightarrow> APIParam option)" where
  "collect_infos [] st = st"
| "collect_infos (info # infos) (ks, m) =
     (let k = param_key info in
      case m k of
        Some new \<Rightarrow> collect_infos infos (ks @ [k], m(k \<mapsto> merge_info new info))
      | None \<Rightarrow> collect_infos infos (ks @ [k], m(k \<mapsto> info)))"

definition distinctAndSortedApiParams :: "APIParam list \<Rightarrow> APIParam list" where
  "distinctAndSortedApiParams infos =
     (case collect_infos infos ([], Map.empty) of (ks, m) \<Rightarrow> map (\<lambda>k. the (m k)) (sort ks))"

text \<open>\<^verbatim>\<open>Doc\<close>: each parameter replaces the first documented one of its name, or is added.\<close>

fun put_info :: "APIParam \<Rightarrow> APIParam list \<Rightarrow> APIParam list" where
  "put_info info [] = [info]"
| "put_info info (p # ps) = (if ap_Name p = ap_Name info then info # ps else p # put_info info ps)"

definition Api_Doc :: "('f, 'r) Api \<Rightarrow> APIParam list \<Rightarrow> APIParam list" where
  "Api_Doc a extra =
     fold (\<lambda>p. put_info \<lparr>ap_Name = pname p, ap_In = Param_In p, ap_Required = isRequired p, ap_Desc = Param_Description p\<rparr>)
       (api_params a) extra"

subsection \<open>Well-formed parameters\<close>

definition param_wf :: "('f, 'r) Param \<Rightarrow> bool" where
  "param_wf p =
     (Param_In p \<in> set TagInValues \<and> (Param_In p = ''path'' \<longrightarrow> isRequired p) \<and>
      (isFile p \<longrightarrow> Param_In p = ''formData''))"

lemma check_position_tags:
  "check_position pos lev tags = Inr (lev1, tags1) \<Longrightarrow>
   pos \<in> set TagInValues \<and> tags1 ''in'' = tags ''in'' \<and> (pos = ''path'' \<longrightarrow> tags1 ''required'' \<noteq> None)"
  by (auto simp: check_position_def TagInValues_def split: if_splits)

lemma add_param_wf:
  assumes "add_param env path f tags lev = Inr (lev1, p)"
  shows "param_wf p"
proof -
  define pos where "pos = (case tags ''in'' of Some s \<Rightarrow> s | None \<Rightarrow> '''')"
  from assms obtain lev2 tags1 rules where *: "check_position pos lev tags = Inr (lev2, tags1)"
    "ptags p = tags1" "isFile p = (fd_type f \<in> set file_types)" "fd_type f \<in> set file_types \<longrightarrow> pos = ''formData''"
    "isRequired p = (tags1 ''required'' \<noteq> None \<or> tags1 ''notempty'' \<noteq> None \<or> tags1 ''range'' \<notin> {None, Some ''''})"
    unfolding add_param_def Let_def pos_def [symmetric]
    by (auto split: if_splits sum.splits prod.splits option.splits)
  have "Param_In p = pos" using check_position_tags [OF *(1)] *(2) by (simp add: Param_In_def pos_def)
  then show ?thesis using check_position_tags [OF *(1)] * by (auto simp: param_wf_def)
qed

lemma addFields_wf:
  assumes "addFields env parent i fs lev st = Inr (Inr (ps, mem))" and "list_all param_wf (fst st)"
  shows "list_all param_wf ps"
  using assms
proof (induction env parent i fs lev st arbitrary: ps mem rule: addFields.induct)
  case (2 env parent i n an st ptr ty tg cs sub fs lev qs m)
  show ?case
  proof (cases tg)
    case None
    show ?thesis
    proof (cases "an \<and> st")
      case True
      with None 2 show ?thesis by (fastforce split: sum.splits)
    qed (use None 2 in auto)
  next
    case (Some tag)
    show ?thesis
    proof (cases "tag = ''-''")
      case False
      with Some "2.prems"(1) obtain tags lev1 p where *: "ParseTags tag = Inr tags"
        "add_param env (parent @ [i]) (Field_T n an st ptr ty tg cs sub) tags lev = Inr (lev1, p)"
        "addFields env parent (Suc i) fs lev1 (qs @ [p], m) = Inr (Inr (ps, mem))"
        "\<not> (ptr \<and> ty \<noteq> ''*multipart.FileHeader'' \<and> ty \<noteq> ''*http.Cookie'')" "cs"
        by (auto split: if_splits sum.splits prod.splits)
      from "2.prems"(2) add_param_wf [OF *(2)] have "list_all param_wf (fst (qs @ [p], m))" by simp
      with 2(5) [OF Some False *(4) _ *(1,2) refl *(3)] *(5) show ?thesis by simp
    qed (use Some 2 in auto)
  qed
qed simp

subsection \<open>Correctness of binding\<close>

definition supplied :: "Request \<Rightarrow> ('f, 'r) Param \<Rightarrow> bool" where
  "supplied req p =
     (let pos = Param_In p; n = pname p in
      if pos = ''path'' then snd (ApiParams_Get (rq_path req) n)
      else if pos = ''query'' then rq_query req n \<noteq> None
      else if pos = ''formData'' then rq_postForm req n \<noteq> None
      else if pos = ''body'' then rq_body req \<noteq> None
      else if pos = ''header'' then rq_header req n \<noteq> None
      else if pos = ''cookie'' then rq_cookie req n \<noteq> None
      else True)"

lemma assign_opt_supplied: "assign_opt b m p s src = (None, s') \<Longrightarrow> isRequired p \<Longrightarrow> src \<noteq> None"
  by (cases src) (auto simp: assign_opt_def)

lemma bind_form_supplied:
  "bind_form b p req s = (None, s') \<Longrightarrow> isRequired p \<Longrightarrow> rq_postForm req (pname p) \<noteq> None"
  by (auto simp: bind_form_def dest: assign_opt_supplied split: prod.splits option.splits)

lemma bind_param_supplied:
  assumes "bind_param b req p s = (None, s')" and "isRequired p \<or> Param_In p = ''path''"
  shows "supplied req p"
  using assms bind_form_supplied [of b p req s s']
  by (auto simp: bind_param_def supplied_def Let_def bind_body_def bind_cookie_def
      split: if_splits prod.splits bool.splits option.splits dest: assign_opt_supplied)

lemma BindFields_nth:
  assumes "BindFields b req ps ss = (None, ss')" and "i < length ps"
  shows "i < length ss \<and> bind_param b req (ps ! i) (ss ! i) = (None, ss' ! i) \<and> slot_validate b (prules (ps ! i)) (ss' ! i)"
  using assms
proof (induction ps arbitrary: i ss ss')
  case (Cons p ps)
  then obtain s rest where ss: "ss = s # rest" by (cases ss) auto
  then obtain s1 ss1 where s1: "bind_param b req p s = (None, s1)" "slot_validate b (prules p) s1"
    "BindFields b req ps rest = (None, ss1)" "ss' = s1 # ss1"
    using Cons.prems(1) by (auto split: prod.splits option.splits if_splits)
  show ?case
  proof (cases i)
    case (Suc j)
    then show ?thesis using Cons.IH [OF s1(3), of j] Cons.prems(2) s1 ss by auto
  qed (use s1 ss in simp)
qed simp

text \<open>
  \<^bold>\<open>C20\<close>. When binding succeeds, every required parameter was supplied by the request at its position (path
  parameters always are required), and the value bound to each parameter satisfies its validation rules.
\<close>

theorem BindFields_complete:
  assumes "BindFields b req ps ss = (None, ss')" and "i < length ps"
  shows "slot_validate b (prules (ps ! i)) (ss' ! i) \<and>
         (isRequired (ps ! i) \<or> Param_In (ps ! i) = ''path'' \<longrightarrow> supplied req (ps ! i))"
  using BindFields_nth [OF assms] bind_param_supplied by blast

definition demo_param :: "(unit, unit) Param" where
  "demo_param = \<lparr>pname = ''p'', indexPath = [0], isRequired = True, isFile = False, ptags = [''in'' \<mapsto> ''query''], prules = []\<rparr>"

definition demo_ops :: "(unit, unit) bindops" where
  "demo_ops = \<lparr>b_parseFloat = \<lambda>_ _. Inl ErrSyntax, b_decode = \<lambda>_ _. None, b_valid = \<lambda>_ _. True\<rparr>"

definition demo_request :: "(string \<Rightarrow> string list option) \<Rightarrow> Request" where
  "demo_request q = \<lparr>rq_path = [], rq_query = q, rq_multipart = None, rq_postForm = \<lambda>_. None, rq_body = None,
     rq_header = \<lambda>_. None, rq_cookie = \<lambda>_. None\<rparr>"

theorem BindFields_complete_witness: "supplied (demo_request [''p'' \<mapsto> [''x'']]) demo_param"
proof -
  have "BindFields demo_ops (demo_request [''p'' \<mapsto> [''x'']]) [demo_param] [Plain (DString '''')] = (None, [Plain (DString ''x'')])"
    by (simp add: bind_param_def Param_In_def demo_param_def demo_request_def demo_ops_def assign_opt_def assign_def
        ConvertAssign_def slot_validate_def Param_validate_def Let_def)
  from BindFields_complete [OF this, of 0] show ?thesis by (simp add: demo_param_def)
qed

text \<open>
  \<^bold>\<open>C21\<close>. An API that is made is found under its name afterwards, the other APIs are as before, and each of its
  parameters has one of the six positions, a path parameter is required and a file parameter is form data.
\<close>

theorem NewApi_registers:
  assumes "NewApi env name addr struct m = Inr (Inr a, m')"
  shows "GetApi m' name = Some a \<and> (\<forall>n. n \<noteq> name \<longrightarrow> GetApi m' n = GetApi m n) \<and> list_all param_wf (api_params a)"
proof -
  from assms obtain fs ps mem where
    "addFields env [] 0 fs \<lparr>hasFormData = False, hasBody = False, maxMemoryMB = 0\<rparr> ([], 0) = Inr (Inr (ps, mem))"
    "a = \<lparr>api_name = name, api_params = ps, maxMemory = mem, rawStructPointer = addr\<rparr>" "m' = apiMap_set a m"
    by (auto simp: NewApi_def Let_def split: option.splits sum.splits)
  then show ?thesis using addFields_wf [of env "[]" 0 fs _ "([], 0)" ps mem]
    by (simp add: GetApi_def apiMap_get_def apiMap_set_def)
qed

definition demo_env :: "(unit, unit) env" where
  "demo_env = \<lparr>env_parseFloat = \<lambda>_. Inl ErrSyntax, env_zero = (), env_compile = \<lambda>_. None, env_normalize = SnakeString\<rparr>"

theorem NewApi_registers_witness:
  "\<exists>a m'. NewApi demo_env ''T'' 1 (Some [Field_T ''P'' False False False ''string'' (Some ''<in:path>'') True []]) Map.empty
            = Inr (Inr a, m') \<and> list_all param_wf (api_params a) \<and> map isRequired (api_params a) = [True]"
proof -
  let ?f = "Field_T ''P'' False False False ''string'' (Some ''<in:path>'') True []"
  let ?lev = "\<lparr>hasFormData = False, hasBody = False, maxMemoryMB = 0\<rparr>"
  have 1: "ParseTags ''<in:path>'' = Inr [''in'' \<mapsto> ''path'']"
    by (simp add: ParseTags_def parse_tags.simps parse_pair.simps TrimRight_sp_def TrimLeft_sp_def)
  have "makeVerifyRules f z c [''in'' \<mapsto> ''path'', ''required'' \<mapsto> ''required''] = Some []"
    for f :: "string \<Rightarrow> num_error + unit" and z and c :: "string \<Rightarrow> unit option" by (simp add: makeVerifyRules_def tuple_rule_def)
  then have "\<exists>l p. add_param demo_env [0] ?f [''in'' \<mapsto> ''path''] ?lev = Inr (l, p) \<and> isRequired p"
    by (simp add: add_param_def file_types_def cookie_types_def check_position_def check_types_def Let_def)
  then obtain l p where 2: "add_param demo_env [0] ?f [''in'' \<mapsto> ''path''] ?lev = Inr (l, p)" "isRequired p" by blast
  have "addFields demo_env [] 0 [?f] ?lev ([], 0) = Inr (Inr ([p], memory_of (maxMemoryMB l)))"
    using 1 2(1) by simp
  then have 3: "NewApi demo_env ''T'' 1 (Some [?f]) Map.empty =
      Inr (Inr \<lparr>api_name = ''T'', api_params = [p], maxMemory = memory_of (maxMemoryMB l), rawStructPointer = 1\<rparr>,
           apiMap_set \<lparr>api_name = ''T'', api_params = [p], maxMemory = memory_of (maxMemoryMB l), rawStructPointer = 1\<rparr> Map.empty)"
    by (simp only: NewApi_def option.case sum.case prod.case Let_def)
  show ?thesis
    by (rule exI, rule exI, rule conjI [OF 3]) (use NewApi_registers [OF 3] 2(2) in simp)
qed

text \<open>
  The default body decoder hands the \<^verbatim>\<open>reflect.Value\<close> of the field, a struct and no pointer, to
  \<^verbatim>\<open>json.Unmarshal\<close>, which refuses it whatever the body is.
\<close>

theorem default_body_never_binds:
  assumes "\<And>s body. b_decode b s body = defaultBodydecoder s body" and "p \<in> set ps" and "Param_In p = ''body''"
    and "rq_body req \<noteq> None"
  shows "fst (BindFields b req ps ss) \<noteq> None"
proof
  assume "fst (BindFields b req ps ss) = None"
  then obtain ss' where bf: "BindFields b req ps ss = (None, ss')" by (cases "BindFields b req ps ss") auto
  obtain i where i: "i < length ps" "ps ! i = p" using assms(2) by (auto simp: in_set_conv_nth)
  from BindFields_nth [OF bf i(1)] i assms(1,3,4) show False
    by (auto simp: bind_param_def bind_body_def defaultBodydecoder_def)
qed

text \<open>
  A required file parameter never binds from an upload: whatever files the form holds, binding
  fails unless the post form also has a text value under the same name.
\<close>

theorem required_file_never_binds:
  assumes "p \<in> set ps" and "isRequired p" and "isFile p" and "Param_In p = ''formData''"
    and "rq_postForm req (pname p) = None"
  shows "fst (BindFields b req ps ss) \<noteq> None"
proof
  assume "fst (BindFields b req ps ss) = None"
  then obtain ss' where bf: "BindFields b req ps ss = (None, ss')" by (cases "BindFields b req ps ss") auto
  obtain i where i: "i < length ps" "ps ! i = p" using assms(1) by (auto simp: in_set_conv_nth)
  have "supplied req p" using BindFields_nth [OF bf i(1)] bind_param_supplied i assms(2) by blast
  then show False using assms(4,5) by (simp add: supplied_def Let_def)
qed

theorem required_file_never_binds_witness:
  "let p = demo_param\<lparr>isFile := True, ptags := [''in'' \<mapsto> ''formData'']\<rparr>;
       req = (demo_request Map.empty)\<lparr>rq_multipart := Some (\<lambda>n. [7], \<lambda>n. None)\<rparr>
   in fst (BindFields demo_ops req [p] [FileSlot None]) \<noteq> None"
  unfolding Let_def
  by (rule required_file_never_binds [where p = "demo_param\<lparr>isFile := True, ptags := [''in'' \<mapsto> ''formData'']\<rparr>"])
     (simp_all add: demo_param_def demo_request_def Param_In_def)

text \<open>
  \<^verbatim>\<open>BindNew\<close> binds the object the API was registered with, not a new one: an optional query
  parameter that a request does not have keeps the value in that object, the one an earlier request left there.
\<close>

theorem absent_param_keeps_old:
  assumes "BindNew b defaults a req obj = (None, obj')" and "i < length (api_params a)"
    and "Param_In (api_params a ! i) = ''query''" and "\<not> isRequired (api_params a ! i)"
    and "rq_query req (pname (api_params a ! i)) = None"
  shows "obj' ! i = defaults obj ! i"
proof -
  have "BindFields b req (api_params a) (defaults obj) = (None, obj')"
    using assms(1) by (simp add: BindNew_def NewReceiver_def)
  from BindFields_nth [OF this assms(2)] assms(3-5) show ?thesis
    by (auto simp: bind_param_def assign_opt_def)
qed

theorem absent_param_keeps_old_witness:
  "let a = \<lparr>api_name = ''A'', api_params = [demo_param\<lparr>isRequired := False\<rparr>], maxMemory = 0, rawStructPointer = 0\<rparr>;
       obj1 = snd (BindNew demo_ops id a (demo_request [''p'' \<mapsto> [''x'']]) [Plain (DString '''')])
   in snd (BindNew demo_ops id a (demo_request Map.empty) obj1) ! 0 = Plain (DString ''x'')"
proof -
  let ?a = "\<lparr>api_name = ''A'', api_params = [demo_param\<lparr>isRequired := False\<rparr>], maxMemory = 0, rawStructPointer = 0\<rparr> :: (unit, unit) Api"
  have 1: "BindNew demo_ops id ?a (demo_request [''p'' \<mapsto> [''x'']]) [Plain (DString '''')] = (None, [Plain (DString ''x'')])"
    by (simp add: BindNew_def NewReceiver_def bind_param_def Param_In_def demo_param_def demo_request_def demo_ops_def
        assign_opt_def assign_def ConvertAssign_def slot_validate_def Param_validate_def Let_def)
  have 2: "\<exists>o2. BindNew demo_ops id ?a (demo_request Map.empty) [Plain (DString ''x'')] = (None, o2)"
    by (simp add: BindNew_def NewReceiver_def bind_param_def Param_In_def demo_param_def demo_request_def demo_ops_def
        assign_opt_def slot_validate_def Param_validate_def Let_def)
  then obtain o2 where o2: "BindNew demo_ops id ?a (demo_request Map.empty) [Plain (DString ''x'')] = (None, o2)" by blast
  from absent_param_keeps_old [OF o2, of 0] have "o2 ! 0 = Plain (DString ''x'')"
    by (simp add: demo_param_def Param_In_def demo_request_def)
  with 1 o2 show ?thesis by (simp add: Let_def)
qed

text \<open>The keys are collected once per parameter, duplicates included.\<close>

lemma collect_infos_keys: "fst (collect_infos infos (ks, m)) = ks @ map param_key infos"
  by (induction infos "(ks, m)" arbitrary: ks m rule: collect_infos.induct) (auto simp: Let_def split: option.splits)

text \<open>
  \<^verbatim>\<open>distinctAndSortedApiParams\<close> does not remove duplicates: its result has as many entries as its
  argument, so two parameters of one name and position are both listed.
\<close>

theorem distinctAndSorted_keeps_duplicates: "length (distinctAndSortedApiParams infos) = length infos"
  using collect_infos_keys [of infos "[]" Map.empty]
  by (simp add: distinctAndSortedApiParams_def split_beta)

end
