(* ===== verification/Ip_Filter.thy ===== *)
theory Ip_Filter
  imports Text_Util
begin

text \<open>
  \<^verbatim>\<open>src/middleware/ipfilter.go\<close>: the white list of client addresses, with exact entries and prefixes
  marked by a final star. What the request context answers (the two addresses, the configured values) is an
  argument.
\<close>

record IPFilter =
  whitelist :: "string list"
  realIP :: bool

text \<open>\<^verbatim>\<open>Prepare\<close>: a context value of another type (\<open>None\<close>) leaves the field alone.\<close>

definition IPFilter_Prepare :: "string list option \<Rightarrow> bool option \<Rightarrow> IPFilter \<Rightarrow> IPFilter" where
  "IPFilter_Prepare ctxWhitelist ctxRealIP i =
     (let i1 = (case ctxWhitelist of Some w \<Rightarrow> i\<lparr>whitelist := w\<rparr> | None \<Rightarrow> i)
      in case ctxRealIP of Some b \<Rightarrow> i1\<lparr>realIP := b\<rparr> | None \<Rightarrow> i1)"

fun split_whitelist :: "string list \<Rightarrow> string list \<Rightarrow> string list \<Rightarrow> string list \<times> string list" where
  "split_whitelist [] match pre = (match, pre)"
| "split_whitelist (s # ss) match pre =
     (if suffix ''*'' s then split_whitelist ss match (pre @ [take (length s - 1) s])
      else split_whitelist ss (match @ [s]) pre)"

datatype verdict = Next | Forbidden "string option"

definition IPFilter_OnRequestStartup :: "string \<Rightarrow> string \<Rightarrow> IPFilter \<Rightarrow> verdict" where
  "IPFilter_OnRequestStartup clientRealIP clientRemoteIP i =
     (if length (whitelist i) = 0 then Forbidden None
      else (case split_whitelist (whitelist i) [] [] of
              (match, pre) \<Rightarrow>
                let ip = (if realIP i then clientRealIP else clientRemoteIP) in
                if \<exists>m \<in> set match. m = ip then Next
                else if \<exists>p \<in> set pre. prefix p ip then Next
                else Forbidden (Some (''access not allow for ip: '' @ ip))))"

lemma split_whitelist_sets:
  "split_whitelist ss match pre = (m, p) \<Longrightarrow>
     set m = set match \<union> {s \<in> set ss. \<not> suffix ''*'' s} \<and>
     set p = set pre \<union> butlast ` {s \<in> set ss. suffix ''*'' s}"
  by (induction ss match pre rule: split_whitelist.induct) (auto simp: butlast_conv_take split: if_splits)

lemma ex_split:
  "(\<exists>s \<in> W. if Q s then R (f s) else s = a) \<longleftrightarrow> a \<in> {s \<in> W. \<not> Q s} \<or> (\<exists>x \<in> f ` {s \<in> W. Q s}. R x)"
  by auto

text \<open>A pattern whose only wildcard is a final star.\<close>

definition simple_entry :: "string \<Rightarrow> bool" where
  "simple_entry s = (CHR ''?'' \<notin> set s \<and> CHR ''*'' \<notin> set (butlast s))"

lemma wild_spec_plain_text:
  "CHR ''?'' \<notin> set p \<Longrightarrow> CHR ''*'' \<notin> set p \<Longrightarrow> wild_spec (p @ q) t \<longleftrightarrow> (\<exists>u. t = p @ u \<and> wild_spec q u)"
proof (induction p arbitrary: t)
  case (Cons c p)
  then have "c \<noteq> CHR ''?''" "c \<noteq> CHR ''*''" by (metis list.set_intros(1))+
  with Cons show ?case by auto
qed simp

lemma wild_spec_simple_entry:
  assumes "simple_entry s"
  shows "wild_spec s ip \<longleftrightarrow> (if suffix ''*'' s then prefix (butlast s) ip else s = ip)"
proof (cases "suffix ''*'' s")
  case True
  then obtain p where s: "s = p @ ''*''" by (auto simp: suffix_def)
  have "CHR ''?'' \<notin> set p" "CHR ''*'' \<notin> set p" using assms s by (auto simp: simple_entry_def butlast_append)
  from wild_spec_plain_text [OF this, of "''*''" ip] show ?thesis
    using True s wild_spec_star by (auto simp: butlast_append prefix_def)
next
  case False
  have "CHR ''*'' \<notin> set s"
  proof
    assume star: "CHR ''*'' \<in> set s"
    then have "s \<noteq> []" by auto
    then have s: "s = butlast s @ [last s]" by simp
    with star assms have "last s = CHR ''*''" unfolding simple_entry_def
      by (metis Un_iff empty_iff empty_set set_ConsD set_append)
    with s False show False by (metis suffixI)
  qed
  moreover have "CHR ''?'' \<notin> set s" using assms by (simp add: simple_entry_def)
  ultimately show ?thesis using wild_spec_plain_text [of s "[]" ip] False by auto
qed

text \<open>
  \<^bold>\<open>C24\<close>. The filter lets a request pass exactly when the address it looks at matches, as a wildcard
  pattern, some entry of the white list, for entries whose only wildcard is a final star; an empty list
  forbids every request.
\<close>

theorem ipfilter_decides:
  assumes "\<forall>s \<in> set (whitelist i). simple_entry s"
  shows "IPFilter_OnRequestStartup realAddr remoteAddr i = Next \<longleftrightarrow>
         (\<exists>s \<in> set (whitelist i). wild_spec s (if realIP i then realAddr else remoteAddr))"
proof -
  obtain m p where mp: "split_whitelist (whitelist i) [] [] = (m, p)" by (meson surj_pair)
  note sets = split_whitelist_sets [OF mp]
  let ?ip = "if realIP i then realAddr else remoteAddr"
  have "(\<exists>s \<in> set (whitelist i). wild_spec s ?ip) \<longleftrightarrow> ?ip \<in> set m \<or> (\<exists>x \<in> set p. prefix x ?ip)"
  proof -
    have "(\<exists>s \<in> set (whitelist i). wild_spec s ?ip) \<longleftrightarrow>
          (\<exists>s \<in> set (whitelist i). if suffix ''*'' s then prefix (butlast s) ?ip else s = ?ip)"
      using assms wild_spec_simple_entry by (intro bex_cong) simp_all
    also have "\<dots> \<longleftrightarrow> ?ip \<in> set m \<or> (\<exists>x \<in> set p. prefix x ?ip)"
      using sets ex_split [of "set (whitelist i)" "suffix ''*''" "\<lambda>x. prefix x ?ip" butlast ?ip] by simp
    finally show ?thesis .
  qed
  then show ?thesis
    using mp by (auto simp: IPFilter_OnRequestStartup_def Let_def)
qed

theorem ipfilter_decides_witness:
  "IPFilter_OnRequestStartup '''' ''10.1.2.3'' \<lparr>whitelist = [''10.1.*''], realIP = False\<rparr> = Next"
proof -
  have "simple_entry ''10.1.*''" by code_simp
  moreover have "wild_spec ''10.1.*'' ''10.1.2.3''"
    using wild_spec_plain_text [of "''10.1.''" "''*''" "''10.1.2.3''"] wild_spec_star by simp
  ultimately show ?thesis
    using ipfilter_decides [of "\<lparr>whitelist = [''10.1.*''], realIP = False\<rparr>" "''''" "''10.1.2.3''"] by simp
qed

end
