(* ===== verification/Merged_Context.thy ===== *)
theory Merged_Context
  imports Prelude
begin

text \<open>
  \<^verbatim>\<open>src/utility/context.go\<close>: the context a request handler gets, merged from the request's context and
  the engine's. The goroutine \<^verbatim>\<open>run\<close> is a step relation; deadlines are nanoseconds.
\<close>

subsection \<open>Deadline\<close>

text \<open>\<^verbatim>\<open>UnixNano\<close> of the zero time.\<close>

definition zero_time :: int where "zero_time = - 6795364578871345152"

definition merged_Deadline :: "int option \<Rightarrow> int option \<Rightarrow> int \<times> bool" where
  "merged_Deadline mainDeadline ctxDeadline =
     (let d1 = (case ctxDeadline of Some d \<Rightarrow> d | None \<Rightarrow> zero_time); ok1 = (ctxDeadline \<noteq> None);
          d2 = (case mainDeadline of Some d \<Rightarrow> d | None \<Rightarrow> zero_time); ok2 = (mainDeadline \<noteq> None);
          d = (if ok1 \<and> d1 < d2 then d1 else if ok2 then d2 else zero_time)
      in (d, ok1 \<or> ok2))"

subsection \<open>Cancellation\<close>

datatype 'e run_pc = Waiting | Chosen 'e | Stored | Finished

record 'e mergedContext =
  merr :: "'e option"
  mdone :: bool
  mpc :: "'e run_pc"

definition MergeContext :: "'e mergedContext" where
  "MergeContext = \<lparr>merr = None, mdone = False, mpc = Waiting\<rparr>"

text \<open>
  \<open>mainErr\<close> and \<open>ctxErr\<close> are the errors of the two contexts once they are done. The select picks
  one that is done; the error is stored under the lock, the channel closed afterwards.
\<close>

inductive merged_step :: "'e option \<Rightarrow> 'e option \<Rightarrow> 'e mergedContext \<Rightarrow> 'e mergedContext \<Rightarrow> bool" for mainErr ctxErr where
  main_done: "mpc c = Waiting \<Longrightarrow> mainErr = Some e \<Longrightarrow> merged_step mainErr ctxErr c (c\<lparr>mpc := Chosen e\<rparr>)"
| ctx_done: "mpc c = Waiting \<Longrightarrow> ctxErr = Some e \<Longrightarrow> merged_step mainErr ctxErr c (c\<lparr>mpc := Chosen e\<rparr>)"
| store: "mpc c = Chosen e \<Longrightarrow> merr c = None \<Longrightarrow> merged_step mainErr ctxErr c (c\<lparr>merr := Some e, mpc := Stored\<rparr>)"
| close: "mpc c = Stored \<Longrightarrow> merged_step mainErr ctxErr c (c\<lparr>mdone := True, mpc := Finished\<rparr>)"

inductive_cases merged_stepE: "merged_step mainErr ctxErr c c'"

definition merged_inv :: "'e option \<Rightarrow> 'e option \<Rightarrow> 'e mergedContext \<Rightarrow> bool" where
  "merged_inv mainErr ctxErr c =
     ((merr c \<noteq> None \<longleftrightarrow> mpc c \<in> {Stored, Finished}) \<and> (mdone c \<longleftrightarrow> mpc c = Finished) \<and>
      (\<forall>e. (mpc c = Chosen e \<or> merr c = Some e) \<longrightarrow> mainErr = Some e \<or> ctxErr = Some e))"

lemma merged_inv_step: "merged_step mainErr ctxErr c c' \<Longrightarrow> merged_inv mainErr ctxErr c \<Longrightarrow> merged_inv mainErr ctxErr c'"
  by (erule merged_stepE) (auto simp: merged_inv_def)

lemma merged_inv_start: "merged_inv mainErr ctxErr MergeContext"
  by (simp add: merged_inv_def MergeContext_def)

lemma merged_inv_reach:
  "(merged_step mainErr ctxErr)\<^sup>*\<^sup>* MergeContext c \<Longrightarrow> merged_inv mainErr ctxErr c"
  by (induction rule: rtranclp_induct) (auto intro: merged_inv_start merged_inv_step)



text \<open>
  With a deadline on the request's context the merged deadline is the earlier of the two; but when
  only the other context has one (after the zero time), the merged context reports that it
  has a deadline and gives the zero time, long past.
\<close>

theorem merged_deadline:
  "merged_Deadline (Some d2) ctxDeadline = (case ctxDeadline of Some d1 \<Rightarrow> min d1 d2 | None \<Rightarrow> d2, True) \<and>
   merged_Deadline None None = (zero_time, False) \<and>
   merged_Deadline None (Some (zero_time + int n)) = (zero_time, True)"
  by (auto simp: merged_Deadline_def Let_def min_def split: option.splits)

end
