(* ===== verification/Redis_Store.thy ===== *)
theory Redis_Store
  imports Convert
begin

text \<open>
  \<^verbatim>\<open>src/kvstore/redis.go\<close> and \<^verbatim>\<open>src/kvstore/protocol.go\<close>: named redis connections and the commands they
  send. The server and the client package (redigo) are arguments; what the refinement needs of them are the
  laws \<open>redis_laws\<close>. An error is its text, because the code recognises errors by their text.
\<close>

subsection \<open>Values and the client package\<close>

text \<open>Values of type \<^verbatim>\<open>interface{}\<close>.\<close>

datatype goval =
  GNil | GString string | GInt int | GInt64 int | GBool bool | GBytes string | GSlice "goval list" | GOther nat

text \<open>
  The package: sending a command, the conversions of replies, \<^verbatim>\<open>Args.AddFlat\<close> and the text of
  \<^verbatim>\<open>redis.ErrNil\<close>.
\<close>

record 's redigo =
  rg_do :: "string \<Rightarrow> goval list \<Rightarrow> 's \<Rightarrow> (string + goval) \<times> 's"
  rg_String :: "string + goval \<Rightarrow> string + string"
  rg_Strings :: "string + goval \<Rightarrow> string + string list"
  rg_Int :: "string + goval \<Rightarrow> string + int"
  rg_Int64 :: "string + goval \<Rightarrow> string + int"
  rg_Values :: "string + goval \<Rightarrow> string + goval list"
  rg_AddFlat :: "goval \<Rightarrow> goval list"
  rg_ErrNil :: string

subsection \<open>Named connections\<close>

record RedisPool =
  Host :: string
  Port :: string
  Password :: string
  Database :: int
  KeyPrefix :: string
  Debug :: bool
  MaxIdle :: int
  MaxActive :: int

definition empty_RedisPool :: RedisPool where
  "empty_RedisPool = \<lparr>Host = '''', Port = '''', Password = '''', Database = 0, KeyPrefix = '''', Debug = False,
     MaxIdle = 0, MaxActive = 0\<rparr>"

definition bind_sum :: "'e + 'a \<Rightarrow> ('a \<Rightarrow> 'e + 'b) \<Rightarrow> 'e + 'b" where
  "bind_sum r f = (case r of Inl e \<Rightarrow> Inl e | Inr x \<Rightarrow> f x)"

type_synonym configs = "string \<Rightarrow> goval option"

definition typeError :: "string \<Rightarrow> string \<Rightarrow> string" where
  "typeError key ty = ''kvstore(redis): new handler error: '' @ key @ '' data type must be '' @ ty"

definition set_string :: "configs \<Rightarrow> string \<Rightarrow> (string \<Rightarrow> RedisPool \<Rightarrow> RedisPool) \<Rightarrow> RedisPool \<Rightarrow> string + RedisPool" where
  "set_string config key upd pool =
     (case config key of
        None \<Rightarrow> Inr pool
      | Some GNil \<Rightarrow> Inr pool
      | Some (GString s) \<Rightarrow> Inr (upd s pool)
      | Some _ \<Rightarrow> Inl (typeError key ''string''))"

definition set_int :: "configs \<Rightarrow> string \<Rightarrow> (int \<Rightarrow> RedisPool \<Rightarrow> RedisPool) \<Rightarrow> RedisPool \<Rightarrow> string + RedisPool" where
  "set_int config key upd pool =
     (case config key of
        None \<Rightarrow> Inr pool
      | Some GNil \<Rightarrow> Inr pool
      | Some (GInt i) \<Rightarrow> Inr (upd i pool)
      | Some _ \<Rightarrow> Inl (typeError key ''int''))"

definition set_bool :: "configs \<Rightarrow> string \<Rightarrow> (bool \<Rightarrow> RedisPool \<Rightarrow> RedisPool) \<Rightarrow> RedisPool \<Rightarrow> string + RedisPool" where
  "set_bool config key upd pool =
     (case config key of
        None \<Rightarrow> Inr pool
      | Some GNil \<Rightarrow> Inr pool
      | Some (GBool b) \<Rightarrow> Inr (upd b pool)
      | Some _ \<Rightarrow> Inl (typeError key ''bool''))"

definition configure_pool :: "configs \<Rightarrow> string + RedisPool" where
  "configure_pool config =
     bind_sum (set_string config ''KVSTORE_REDIS_HOST'' (\<lambda>x p. p\<lparr>Host := x\<rparr>) empty_RedisPool) (\<lambda>p.
     bind_sum (set_string config ''KVSTORE_REDIS_PORT'' (\<lambda>x p. p\<lparr>Port := x\<rparr>) p) (\<lambda>p.
     bind_sum (set_string config ''KVSTORE_REDIS_PASSWORD'' (\<lambda>x p. p\<lparr>Password := x\<rparr>) p) (\<lambda>p.
     bind_sum (set_int config ''KVSTORE_REDIS_DATABASE'' (\<lambda>x p. p\<lparr>Database := x\<rparr>) p) (\<lambda>p.
     bind_sum (set_string config ''KVSTORE_REDIS_KEY_PREFIX'' (\<lambda>x p. p\<lparr>KeyPrefix := x\<rparr>) p) (\<lambda>p.
     bind_sum (set_int config ''KVSTORE_REDIS_MAX_ACTIVE'' (\<lambda>x p. p\<lparr>MaxActive := x\<rparr>) p) (\<lambda>p.
     bind_sum (set_int config ''KVSTORE_REDIS_MAX_IDLE'' (\<lambda>x p. p\<lparr>MaxIdle := x\<rparr>) p) (\<lambda>p.
     set_bool config ''KVSTORE_REDIS_DEBUG'' (\<lambda>x p. p\<lparr>Debug := x\<rparr>) p)))))))"

text \<open>The handler: the pools by name, \<open>None\<close> for the nil map before \<^verbatim>\<open>Initiate\<close>.\<close>

type_synonym RedisHandler = "(string \<Rightarrow> RedisPool option) option"

definition Redis_NewHandler :: RedisHandler where "Redis_NewHandler = None"

definition Redis_Initiate :: "RedisHandler \<Rightarrow> RedisHandler" where
  "Redis_Initiate h = Some (\<lambda>_. None)"

definition RedisHandler_NewHandler :: "string \<Rightarrow> configs \<Rightarrow> RedisHandler \<Rightarrow> (string + RedisPool) \<times> RedisHandler" where
  "RedisHandler_NewHandler name config h =
     (case configure_pool config of
        Inl e \<Rightarrow> (Inl e, h)
      | Inr pool \<Rightarrow>
          if Host pool \<noteq> '''' then
            (let pools = (case h of Some m \<Rightarrow> m | None \<Rightarrow> (\<lambda>_. None)) in (Inr pool, Some (pools(name \<mapsto> pool))))
          else (Inl ''kvstore(redis): new handler error: pool.Host is empty'', h))"

definition notExists :: "string \<Rightarrow> string" where
  "notExists name = ''kvstore(redis): '' @ [CHR 0x27] @ name @ [CHR 0x27] @ '' handler not exists''"

definition RedisHandler_GetHandler :: "string \<Rightarrow> RedisHandler \<Rightarrow> string + RedisPool" where
  "RedisHandler_GetHandler name h =
     (case h of
        None \<Rightarrow> Inl (notExists name)
      | Some pools \<Rightarrow>
          (case pools name of
             None \<Rightarrow> Inl (notExists name)
           | Some p \<Rightarrow> Inr p))"

definition GetConfig :: "RedisPool \<Rightarrow> configs" where
  "GetConfig p = [''host'' \<mapsto> GString (Host p), ''port'' \<mapsto> GString (Port p), ''password'' \<mapsto> GString (Password p),
     ''database'' \<mapsto> GInt (Database p), ''max_idle'' \<mapsto> GInt (MaxIdle p), ''max_active'' \<mapsto> GInt (MaxActive p),
     ''prefix'' \<mapsto> GString (KeyPrefix p), ''debug'' \<mapsto> GBool (Debug p)]"

subsection \<open>Commands\<close>

text \<open>
  The key of a command. For an \<^verbatim>\<open>int\<close> the code asserts the value to be an \<^verbatim>\<open>int64\<close>, which fails.
\<close>

definition generateKey :: "RedisPool \<Rightarrow> goval \<Rightarrow> (string + string) outcome" where
  "generateKey p key =
     (case key of
        GString s \<Rightarrow> Inr (Inr (KeyPrefix p @ s))
      | GInt i \<Rightarrow> Inl TypeAssertion
      | GInt64 i \<Rightarrow> Inr (Inr (KeyPrefix p @ dec_int i))
      | GBytes b \<Rightarrow> Inr (Inr (KeyPrefix p @ b))
      | _ \<Rightarrow> Inr (Inl ''key type not support''))"

text \<open>Every command with a key starts by making it; the connection of the pool is part of the server.\<close>

type_synonym ('a, 's) reply = "((string + 'a) \<times> 's) outcome"

definition with_key :: "RedisPool \<Rightarrow> goval \<Rightarrow> (string \<Rightarrow> 's \<Rightarrow> (string + 'a) \<times> 's) \<Rightarrow> 's \<Rightarrow> ('a, 's) reply" where
  "with_key p key f s =
     (case generateKey p key of
        Inl x \<Rightarrow> Inl x
      | Inr (Inl e) \<Rightarrow> Inr (Inl e, s)
      | Inr (Inr k) \<Rightarrow> Inr (f k s))"

definition conv :: "(string + goval \<Rightarrow> string + 'a) \<Rightarrow> (string + goval) \<times> 's \<Rightarrow> (string + 'a) \<times> 's" where
  "conv f r = (f (fst r), snd r)"

text \<open>\<^verbatim>\<open>_, err = c.Do(...)\<close>: only the error is kept.\<close>

definition only_error :: "string + goval \<Rightarrow> string + unit" where
  "only_error r = map_sum id (\<lambda>_. ()) r"

definition RedisPool_Get :: "'s redigo \<Rightarrow> RedisPool \<Rightarrow> goval \<Rightarrow> 's \<Rightarrow> (goval, 's) reply" where
  "RedisPool_Get rg p key =
     with_key p key (\<lambda>k s. conv (map_sum id GString \<circ> rg_String rg) (rg_do rg ''GET'' [GString k] s))"

definition RedisPool_Set :: "'s redigo \<Rightarrow> RedisPool \<Rightarrow> goval \<Rightarrow> goval \<Rightarrow> 's \<Rightarrow> (unit, 's) reply" where
  "RedisPool_Set rg p key val = with_key p key (\<lambda>k s. conv only_error (rg_do rg ''SET'' [GString k, val] s))"

definition RedisPool_Del :: "'s redigo \<Rightarrow> RedisPool \<Rightarrow> goval \<Rightarrow> 's \<Rightarrow> (goval, 's) reply" where
  "RedisPool_Del rg p key = with_key p key (\<lambda>k s. rg_do rg ''DEL'' [GString k] s)"

definition RedisPool_Keys :: "'s redigo \<Rightarrow> RedisPool \<Rightarrow> goval \<Rightarrow> 's \<Rightarrow> (string list, 's) reply" where
  "RedisPool_Keys rg p key = with_key p key (\<lambda>k s. conv (rg_Strings rg) (rg_do rg ''KEYS'' [GString k] s))"

definition RedisPool_Expire :: "'s redigo \<Rightarrow> RedisPool \<Rightarrow> goval \<Rightarrow> int \<Rightarrow> 's \<Rightarrow> (unit, 's) reply" where
  "RedisPool_Expire rg p key expire =
     with_key p key (\<lambda>k s. conv only_error (rg_do rg ''EXPIRE'' [GString k, GInt64 expire] s))"

text \<open>\<^verbatim>\<open>Hmset\<close> takes the arguments in pairs; an odd number of them makes \<^verbatim>\<open>args[i+1]\<close> panic.\<close>

definition RedisPool_Hmset :: "'s redigo \<Rightarrow> RedisPool \<Rightarrow> goval \<Rightarrow> goval list \<Rightarrow> 's \<Rightarrow> (unit, 's) reply" where
  "RedisPool_Hmset rg p key args s =
     (case generateKey p key of
        Inr (Inr k) \<Rightarrow>
          if odd (length args) then Inl IndexOutOfRange
          else Inr (conv only_error (rg_do rg ''HMSET'' (GString k # args) s))
      | _ \<Rightarrow> with_key p key (\<lambda>k s. (Inr (), s)) s)"

definition RedisPool_Hmget :: "'s redigo \<Rightarrow> RedisPool \<Rightarrow> goval \<Rightarrow> goval list \<Rightarrow> 's \<Rightarrow> (goval, 's) reply" where
  "RedisPool_Hmget rg p key args = with_key p key (\<lambda>k s. rg_do rg ''HMGET'' (GString k # args) s)"

definition RedisPool_Hset :: "'s redigo \<Rightarrow> RedisPool \<Rightarrow> goval \<Rightarrow> goval \<Rightarrow> goval \<Rightarrow> 's \<Rightarrow> (unit, 's) reply" where
  "RedisPool_Hset rg p key field val =
     with_key p key (\<lambda>k s. conv only_error (rg_do rg ''HSET'' [GString k, field, val] s))"

definition RedisPool_Hget :: "'s redigo \<Rightarrow> RedisPool \<Rightarrow> goval \<Rightarrow> goval \<Rightarrow> 's \<Rightarrow> (goval, 's) reply" where
  "RedisPool_Hget rg p key field = with_key p key (\<lambda>k s. rg_do rg ''HGET'' [GString k, field] s)"

definition RedisPool_Hlen :: "'s redigo \<Rightarrow> RedisPool \<Rightarrow> goval \<Rightarrow> 's \<Rightarrow> (goval, 's) reply" where
  "RedisPool_Hlen rg p key = with_key p key (\<lambda>k s. rg_do rg ''HLEN'' [GString k] s)"

definition RedisPool_Hdel :: "'s redigo \<Rightarrow> RedisPool \<Rightarrow> goval \<Rightarrow> goval \<Rightarrow> 's \<Rightarrow> (goval, 's) reply" where
  "RedisPool_Hdel rg p key field = with_key p key (\<lambda>k s. rg_do rg ''HDEL'' [GString k, field] s)"

definition RedisPool_Hgetall :: "'s redigo \<Rightarrow> RedisPool \<Rightarrow> goval \<Rightarrow> 's \<Rightarrow> (goval list, 's) reply" where
  "RedisPool_Hgetall rg p key = with_key p key (\<lambda>k s. conv (rg_Values rg) (rg_do rg ''HGETALL'' [GString k] s))"

definition RedisPool_Exists :: "'s redigo \<Rightarrow> RedisPool \<Rightarrow> goval \<Rightarrow> 's \<Rightarrow> (bool, 's) reply" where
  "RedisPool_Exists rg p key =
     with_key p key (\<lambda>k s. conv (map_sum id (\<lambda>i. i = 1) \<circ> rg_Int rg) (rg_do rg ''EXISTS'' [GString k] s))"

definition RedisPool_Sadd :: "'s redigo \<Rightarrow> RedisPool \<Rightarrow> goval \<Rightarrow> goval list \<Rightarrow> 's \<Rightarrow> (unit, 's) reply" where
  "RedisPool_Sadd rg p key args =
     with_key p key (\<lambda>k s. conv only_error (rg_do rg ''SADD'' (GString k # concat (map (rg_AddFlat rg) args)) s))"

definition RedisPool_Scard :: "'s redigo \<Rightarrow> RedisPool \<Rightarrow> goval \<Rightarrow> 's \<Rightarrow> (int, 's) reply" where
  "RedisPool_Scard rg p key = with_key p key (\<lambda>k s. conv (rg_Int64 rg) (rg_do rg ''SCARD'' [GString k] s))"

text \<open>\<^verbatim>\<open>Zadd\<close> sends nothing when all values are nil, and all of them otherwise.\<close>

definition RedisPool_Zadd :: "'s redigo \<Rightarrow> RedisPool \<Rightarrow> goval \<Rightarrow> goval list \<Rightarrow> 's \<Rightarrow> (unit, 's) reply" where
  "RedisPool_Zadd rg p key vals =
     with_key p key (\<lambda>k s.
       if filter (\<lambda>v. v \<noteq> GNil) vals \<noteq> [] then conv only_error (rg_do rg ''ZADD'' (GString k # vals) s)
       else (Inr (), s))"

definition RedisPool_Zcard :: "'s redigo \<Rightarrow> RedisPool \<Rightarrow> goval \<Rightarrow> 's \<Rightarrow> (int, 's) reply" where
  "RedisPool_Zcard rg p key = with_key p key (\<lambda>k s. conv (rg_Int64 rg) (rg_do rg ''ZCARD'' [GString k] s))"

definition RedisPool_Zscore :: "'s redigo \<Rightarrow> RedisPool \<Rightarrow> goval \<Rightarrow> goval \<Rightarrow> 's \<Rightarrow> (goval, 's) reply" where
  "RedisPool_Zscore rg p key field = with_key p key (\<lambda>k s. rg_do rg ''ZSCORE'' [GString k, field] s)"

definition RedisPool_Zrem :: "'s redigo \<Rightarrow> RedisPool \<Rightarrow> goval \<Rightarrow> goval \<Rightarrow> 's \<Rightarrow> (goval, 's) reply" where
  "RedisPool_Zrem rg p key field = with_key p key (\<lambda>k s. rg_do rg ''ZREM'' [GString k, field] s)"

definition RedisPool_Zrange :: "'s redigo \<Rightarrow> RedisPool \<Rightarrow> goval \<Rightarrow> goval \<Rightarrow> goval \<Rightarrow> 's \<Rightarrow> (goval, 's) reply" where
  "RedisPool_Zrange rg p key start stop = with_key p key (\<lambda>k s. rg_do rg ''ZRANGE'' [GString k, start, stop] s)"

definition RedisPool_Zrevrange :: "'s redigo \<Rightarrow> RedisPool \<Rightarrow> goval \<Rightarrow> goval \<Rightarrow> goval \<Rightarrow> 's \<Rightarrow> (goval, 's) reply" where
  "RedisPool_Zrevrange rg p key start stop = with_key p key (\<lambda>k s. rg_do rg ''ZREVRANGE'' [GString k, start, stop] s)"

definition limit_args :: "goval list \<Rightarrow> goval list" where
  "limit_args limits = (if limits \<noteq> [] then GString ''LIMIT'' # limits else [])"

text \<open>\<^verbatim>\<open>ZrangeByScore\<close> has the clause for the limits twice.\<close>

definition RedisPool_ZrangeByScore ::
    "'s redigo \<Rightarrow> RedisPool \<Rightarrow> goval \<Rightarrow> goval \<Rightarrow> goval \<Rightarrow> goval list \<Rightarrow> 's \<Rightarrow> (goval, 's) reply" where
  "RedisPool_ZrangeByScore rg p key low high limits =
     with_key p key (\<lambda>k s. rg_do rg ''ZRANGEBYSCORE''
       ([GString k, low, high, GString ''WITHSCORES''] @ limit_args limits @ limit_args limits) s)"

definition RedisPool_ZrevrangeByScore ::
    "'s redigo \<Rightarrow> RedisPool \<Rightarrow> goval \<Rightarrow> goval \<Rightarrow> goval \<Rightarrow> goval list \<Rightarrow> 's \<Rightarrow> (goval, 's) reply" where
  "RedisPool_ZrevrangeByScore rg p key low high limits =
     with_key p key (\<lambda>k s. rg_do rg ''ZREVRANGEBYSCORE''
       ([GString k, high, low, GString ''WITHSCORES''] @ limit_args limits) s)"

definition scan_args :: "string \<Rightarrow> string \<Rightarrow> int \<Rightarrow> goval list" where
  "scan_args cursor pattern count =
     [GString cursor] @ (if pattern \<noteq> '''' then [GString ''MATCH'', GString pattern] else []) @
     (if 0 < count then [GString ''COUNT'', GInt64 count] else [])"

definition default_count :: "int \<Rightarrow> int" where
  "default_count count = (if count = 0 then 1000 else count)"

fun bytes_list :: "goval list \<Rightarrow> string list option" where
  "bytes_list [] = Some []"
| "bytes_list (GBytes b # vs) = map_option ((#) b) (bytes_list vs)"
| "bytes_list (v # vs) = None"

text \<open>The reply of a scan: the next cursor and the keys.\<close>

definition scan_reply :: "goval list \<Rightarrow> string + (string \<times> string list)" where
  "scan_reply vs =
     (case vs of
        [c, ks] \<Rightarrow>
          (case c of
             GBytes cursor \<Rightarrow>
               (case ks of
                  GSlice keys \<Rightarrow>
                    (case bytes_list keys of
                       Some bs \<Rightarrow> Inr (cursor, bs)
                     | None \<Rightarrow> Inl ''kvstore(redis): zscan cursor type error'')
                | _ \<Rightarrow> Inl ''kvstore(redis): zscan value type error'')
           | _ \<Rightarrow> Inl ''kvstore(redis): zscan cursor type error'')
      | _ \<Rightarrow> Inl ''kvstore(redis): zscan value length error'')"

definition RedisPool_Zscan ::
    "'s redigo \<Rightarrow> RedisPool \<Rightarrow> goval \<Rightarrow> string \<Rightarrow> string \<Rightarrow> int \<Rightarrow> 's \<Rightarrow> (string \<times> string list, 's) reply" where
  "RedisPool_Zscan rg p key cursor pattern count =
     with_key p key (\<lambda>k s. conv (\<lambda>r. bind_sum (rg_Values rg r) scan_reply)
       (rg_do rg ''ZSCAN'' (GString k # scan_args cursor pattern (default_count count)) s))"

definition RedisPool_Sscan :: "'s redigo \<Rightarrow> RedisPool \<Rightarrow> goval \<Rightarrow> string \<Rightarrow> string \<Rightarrow> int \<Rightarrow> 's \<Rightarrow> (goval, 's) reply" where
  "RedisPool_Sscan rg p key cursor pattern count =
     with_key p key (\<lambda>k s. rg_do rg ''SSCAN'' (GString k # scan_args cursor pattern (default_count count)) s)"

definition RedisPool_Hscan :: "'s redigo \<Rightarrow> RedisPool \<Rightarrow> goval \<Rightarrow> string \<Rightarrow> string \<Rightarrow> int \<Rightarrow> 's \<Rightarrow> (goval, 's) reply" where
  "RedisPool_Hscan rg p key cursor pattern count =
     with_key p key (\<lambda>k s. rg_do rg ''HSCAN'' (GString k # scan_args cursor pattern (default_count count)) s)"

definition RedisPool_Scan :: "'s redigo \<Rightarrow> string \<Rightarrow> string \<Rightarrow> int \<Rightarrow> 's \<Rightarrow> (string + (string \<times> string list)) \<times> 's" where
  "RedisPool_Scan rg cursor pattern count s =
     conv (\<lambda>r. bind_sum (rg_Values rg r) scan_reply) (rg_do rg ''SCAN'' (scan_args cursor pattern count) s)"

definition RedisPool_Sort ::
    "'s redigo \<Rightarrow> RedisPool \<Rightarrow> goval \<Rightarrow> goval \<Rightarrow> int \<Rightarrow> int \<Rightarrow> bool option \<Rightarrow> bool option \<Rightarrow> goval list \<Rightarrow> 's \<Rightarrow> (string list, 's) reply" where
  "RedisPool_Sort rg p key sortBy offset count desc alpha gets =
     with_key p key (\<lambda>k s. conv (rg_Strings rg) (rg_do rg ''SORT''
       ([GString k] @ (if sortBy \<noteq> GNil then [GString ''BY'', sortBy] else []) @
        concat (map (\<lambda>g. [GString ''GET'', g]) (filter (\<lambda>g. g \<noteq> GString '''') gets)) @
        [GString ''LIMIT'', GInt64 offset, GInt64 (default_count count)] @
        (if desc = Some True then [GString ''DESC''] else []) @
        (if alpha = Some True then [GString ''ALPHA''] else [])) s))"

definition RedisErrNil :: "'s redigo \<Rightarrow> string \<Rightarrow> bool" where
  "RedisErrNil rg err = contains_str err (rg_ErrNil rg)"

subsection \<open>The key-value component\<close>

text \<open>
  Providers by name: the constructors registered. A second registration under a name is ignored; the
  constructors of the sources make a redis handler.
\<close>

type_synonym providers = "string \<Rightarrow> RedisHandler option"

definition Kvstore_Register :: "string \<Rightarrow> RedisHandler option \<Rightarrow> providers \<Rightarrow> string option \<times> providers" where
  "Kvstore_Register name handler hs =
     (case handler of
        None \<Rightarrow> (Some ''kvstore: kvstore handler is nil'', hs)
      | Some h \<Rightarrow> (None, if hs name = None then hs(name \<mapsto> h) else hs))"

definition Kvstore_lookup :: "string \<Rightarrow> providers \<Rightarrow> string + RedisHandler" where
  "Kvstore_lookup name hs =
     (case hs name of
        None \<Rightarrow> Inl (''kvstore: unknown kvstore '' @ name @ '' (forgotten register?)'')
      | Some h \<Rightarrow> Inr h)"

text \<open>The component; \<^verbatim>\<open>configs\<close> may be a nil map and \<^verbatim>\<open>handler\<close> a nil interface.\<close>

record Kvstore =
  kv_configs :: "configs option"
  kv_provider :: string
  kv_handler :: "RedisHandler option"

definition NewKvstore :: "configs option \<Rightarrow> Kvstore" where
  "NewKvstore configs = \<lparr>kv_configs = configs, kv_provider = '''', kv_handler = None\<rparr>"

definition Kvstore_Prepare :: "string option \<Rightarrow> Kvstore \<Rightarrow> string option \<times> Kvstore" where
  "Kvstore_Prepare setOptionsErr c =
     (case setOptionsErr of Some e \<Rightarrow> (Some e, c) | None \<Rightarrow> (None, c\<lparr>kv_configs := Some Map.empty\<rparr>))"

definition Kvstore_Use :: "providers \<Rightarrow> string \<Rightarrow> Kvstore \<Rightarrow> string option \<times> Kvstore" where
  "Kvstore_Use hs provider c =
     (case Kvstore_lookup provider hs of
        Inl e \<Rightarrow> (Some e, c)
      | Inr h \<Rightarrow> (None, c\<lparr>kv_provider := provider, kv_handler := Some (Redis_Initiate h)\<rparr>))"

definition kv_options :: "(string \<Rightarrow> string) \<Rightarrow> (string \<Rightarrow> int) \<Rightarrow> (string \<Rightarrow> bool) \<Rightarrow> configs" where
  "kv_options getString getInt getBool =
     (\<lambda>k. if k \<in> {''KVSTORE_REDIS_HOST'', ''KVSTORE_REDIS_PORT'', ''KVSTORE_REDIS_PASSWORD'', ''KVSTORE_REDIS_KEY_PREFIX''}
          then Some (GString (getString k))
          else if k \<in> {''KVSTORE_REDIS_DATABASE'', ''KVSTORE_REDIS_MAX_ACTIVE'', ''KVSTORE_REDIS_MAX_IDLE''}
          then Some (GInt (getInt k))
          else if k = ''KVSTORE_REDIS_DEBUG'' then Some (GBool (getBool k))
          else None)"

text \<open>
  \<^verbatim>\<open>Initiate\<close>: every option that is missing is read from the configuration; assigning to a nil map
  panics.
\<close>

definition Kvstore_Initiate ::
    "(string \<Rightarrow> string) \<Rightarrow> (string \<Rightarrow> int) \<Rightarrow> (string \<Rightarrow> bool) \<Rightarrow> providers \<Rightarrow> Kvstore \<Rightarrow> (string option \<times> providers \<times> Kvstore) outcome" where
  "Kvstore_Initiate getString getInt getBool hs c =
     (let hs1 = snd (Kvstore_Register ''redis'' (Some Redis_NewHandler) hs) in
      case Kvstore_Use hs1 ''redis'' c of
        (Some e, c1) \<Rightarrow> Inr (Some e, hs1, c1)
      | (None, c1) \<Rightarrow>
          (case kv_configs c1 of
             None \<Rightarrow> Inl (ExplicitPanic ''assignment to entry in nil map'')
           | Some m \<Rightarrow> Inr (None, hs1, c1\<lparr>kv_configs := Some (kv_options getString getInt getBool ++ m)\<rparr>)))"

definition Kvstore_OnStartup :: "(string \<Rightarrow> string) \<Rightarrow> providers \<Rightarrow> Kvstore \<Rightarrow> string option \<times> providers \<times> Kvstore" where
  "Kvstore_OnStartup getString hs c =
     (let hs1 = snd (Kvstore_Register ''redis'' (Some Redis_NewHandler) hs);
          provider = getString ''KVSTORE_PROVIDER'' in
      if provider \<noteq> '''' then (case Kvstore_Use hs1 provider c of (e, c1) \<Rightarrow> (e, hs1, c1)) else (None, hs1, c))"

definition Kvstore_GetHandler :: "string \<Rightarrow> Kvstore \<Rightarrow> (string + RedisPool) outcome" where
  "Kvstore_GetHandler name c =
     (case kv_handler c of None \<Rightarrow> Inl NilDereference | Some h \<Rightarrow> Inr (RedisHandler_GetHandler name h))"

text \<open>
  \<^verbatim>\<open>NewHandler\<close> returns the pool of that name if there is one; otherwise the options of the call win over
  those of the component.
\<close>

definition Kvstore_NewHandler :: "string \<Rightarrow> configs option \<Rightarrow> Kvstore \<Rightarrow> ((string + RedisPool) \<times> Kvstore) outcome" where
  "Kvstore_NewHandler name configs c =
     (case Kvstore_GetHandler name c of
        Inl p \<Rightarrow> Inl p
      | Inr (Inr pool) \<Rightarrow> Inr (Inr pool, c)
      | Inr (Inl _) \<Rightarrow>
          (case kv_handler c of
             None \<Rightarrow> Inl NilDereference
           | Some h \<Rightarrow>
               (let own = (case kv_configs c of Some m \<Rightarrow> m | None \<Rightarrow> Map.empty);
                    cfg = (case configs of Some m \<Rightarrow> own ++ m | None \<Rightarrow> own)
                in case RedisHandler_NewHandler name cfg h of (r, h1) \<Rightarrow> Inr (r, c\<lparr>kv_handler := Some h1\<rparr>))))"

subsection \<open>Properties\<close>

text \<open>
  What the code relies on of the server and the package, \<open>held\<close> being the strings a server state holds: replies
  without an error are those of the redis documentation, an error of the server is not \<^verbatim>\<open>ErrNil\<close>.
\<close>

definition redis_laws :: "'s redigo \<Rightarrow> ('s \<Rightarrow> string \<Rightarrow> string option) \<Rightarrow> bool" where
  "redis_laws rg held =
     ((\<forall>k x s r s'. rg_do rg ''SET'' [GString k, GString x] s = (Inr r, s') \<longrightarrow> held s' = (held s)(k \<mapsto> x)) \<and>
      (\<forall>k s r s'. rg_do rg ''GET'' [GString k] s = (Inr r, s') \<longrightarrow>
         held s' = held s \<and> r = (case held s k of None \<Rightarrow> GNil | Some x \<Rightarrow> GBytes x)) \<and>
      (\<forall>k s r s'. rg_do rg ''DEL'' [GString k] s = (Inr r, s') \<longrightarrow> held s' = (held s)(k := None)) \<and>
      (\<forall>k t s r s'. rg_do rg ''EXPIRE'' [GString k, GInt64 t] s = (Inr r, s') \<longrightarrow>
         held s' = (if t \<le> 0 then (held s)(k := None) else held s)) \<and>
      (\<forall>c as s e s'. rg_do rg c as s = (Inl e, s') \<longrightarrow> \<not> contains_str e (rg_ErrNil rg)) \<and>
      (\<forall>x. rg_String rg (Inr (GBytes x)) = Inr x) \<and> rg_String rg (Inr GNil) = Inl (rg_ErrNil rg) \<and>
      (\<forall>e. rg_String rg (Inl e) = Inl e))"

datatype kv_op = KSet string string | KGet string | KDel string
datatype kv_answer = Done | Found string | Missing | Failed string

fun kv_exec :: "'s redigo \<Rightarrow> RedisPool \<Rightarrow> kv_op \<Rightarrow> 's \<Rightarrow> (kv_answer \<times> 's) outcome" where
  "kv_exec rg p (KSet k v) s =
     map_sum id (\<lambda>(r, s1). (case r of Inl e \<Rightarrow> Failed e | Inr _ \<Rightarrow> Done, s1)) (RedisPool_Set rg p (GString k) (GString v) s)"
| "kv_exec rg p (KGet k) s =
     map_sum id (\<lambda>(r, s1). (case r of
         Inl e \<Rightarrow> if RedisErrNil rg e then Missing else Failed e
       | Inr (GString v) \<Rightarrow> Found v
       | Inr _ \<Rightarrow> Missing, s1)) (RedisPool_Get rg p (GString k) s)"
| "kv_exec rg p (KDel k) s =
     map_sum id (\<lambda>(r, s1). (case r of Inl e \<Rightarrow> Failed e | Inr _ \<Rightarrow> Done, s1)) (RedisPool_Del rg p (GString k) s)"

fun kv_run :: "'s redigo \<Rightarrow> RedisPool \<Rightarrow> kv_op list \<Rightarrow> 's \<Rightarrow> (kv_answer list \<times> 's) outcome" where
  "kv_run rg p [] s = Inr ([], s)"
| "kv_run rg p (x # xs) s =
     bind_sum (kv_exec rg p x s) (\<lambda>(a, s1). map_sum id (\<lambda>(as, s2). (a # as, s2)) (kv_run rg p xs s1))"

text \<open>The specification: a map, and the answers of its operations.\<close>

fun kv_spec :: "kv_op \<Rightarrow> (string \<Rightarrow> string option) \<Rightarrow> kv_answer \<times> (string \<Rightarrow> string option)" where
  "kv_spec (KSet k v) m = (Done, m(k \<mapsto> v))"
| "kv_spec (KGet k) m = (case m k of Some v \<Rightarrow> Found v | None \<Rightarrow> Missing, m)"
| "kv_spec (KDel k) m = (Done, m(k := None))"

fun kv_spec_run :: "kv_op list \<Rightarrow> (string \<Rightarrow> string option) \<Rightarrow> kv_answer list \<times> (string \<Rightarrow> string option)" where
  "kv_spec_run [] m = ([], m)"
| "kv_spec_run (x # xs) m = (case kv_spec x m of (a, m1) \<Rightarrow> (case kv_spec_run xs m1 of (as, m2) \<Rightarrow> (a # as, m2)))"

text \<open>The part of the server a pool sees: the keys with its prefix.\<close>

definition pool_view :: "RedisPool \<Rightarrow> (string \<Rightarrow> string option) \<Rightarrow> string \<Rightarrow> string option" where
  "pool_view p m k = m (KeyPrefix p @ k)"

definition failed :: "kv_answer \<Rightarrow> bool" where
  "failed a = (case a of Failed _ \<Rightarrow> True | _ \<Rightarrow> False)"

lemma pool_view_upd [simp]: "pool_view p (m(KeyPrefix p @ k := v)) = (pool_view p m)(k := v)"
  by (auto simp: pool_view_def)

lemma laws_server_error:
  "redis_laws rg held \<Longrightarrow> rg_do rg c as s = (Inl e, s') \<Longrightarrow> \<not> contains_str e (rg_ErrNil rg)"
  unfolding redis_laws_def by blast

lemma kv_exec_refines:
  assumes laws: "redis_laws rg held" and run: "kv_exec rg p x s = Inr (a, s1)" and ok: "\<not> failed a"
  shows "kv_spec x (pool_view p (held s)) = (a, pool_view p (held s1)) \<and> (\<forall>k. \<not> prefix (KeyPrefix p) k \<longrightarrow> held s1 k = held s k)"
proof (cases x)
  case (KSet k v)
  obtain r s' where do: "rg_do rg ''SET'' [GString (KeyPrefix p @ k), GString v] s = (r, s')" by fastforce
  with KSet run ok obtain r' where "r = Inr r'" "s' = s1" "a = Done"
    by (cases r) (auto simp: RedisPool_Set_def with_key_def generateKey_def conv_def only_error_def failed_def)
  with do laws KSet show ?thesis by (auto simp: redis_laws_def)
next
  case (KDel k)
  obtain r s' where do: "rg_do rg ''DEL'' [GString (KeyPrefix p @ k)] s = (r, s')" by fastforce
  with KDel run ok obtain r' where "r = Inr r'" "s' = s1" "a = Done"
    by (cases r) (auto simp: RedisPool_Del_def with_key_def generateKey_def failed_def)
  with do laws KDel show ?thesis by (auto simp: redis_laws_def)
next
  case (KGet k)
  obtain r s' where do: "rg_do rg ''GET'' [GString (KeyPrefix p @ k)] s = (r, s')" by fastforce
  have s': "s' = s1" using run KGet do by (auto simp: RedisPool_Get_def with_key_def generateKey_def conv_def)
  show ?thesis
  proof (cases r)
    case (Inl e)
    have "rg_String rg r = Inl e" using laws Inl by (simp add: redis_laws_def)
    moreover have "\<not> RedisErrNil rg e" using laws_server_error [OF laws] do Inl by (simp add: RedisErrNil_def)
    ultimately have "rg_String rg r = Inl e" "\<not> RedisErrNil rg e" by simp_all
    then show ?thesis using run ok KGet do
      by (auto simp: RedisPool_Get_def with_key_def generateKey_def conv_def failed_def)
  next
    case (Inr v)
    with do laws have v: "held s' = held s" "v = (case held s (KeyPrefix p @ k) of None \<Rightarrow> GNil | Some x \<Rightarrow> GBytes x)"
      by (auto simp: redis_laws_def)
    have "contains_str (rg_ErrNil rg) (rg_ErrNil rg)" by (simp add: contains_str_iff)
    with v laws Inr run do KGet s' show ?thesis
      by (cases "held s (KeyPrefix p @ k)")
         (auto simp: RedisPool_Get_def with_key_def generateKey_def conv_def redis_laws_def RedisErrNil_def pool_view_def)
  qed
qed

text \<open>
  \<^bold>\<open>C25\<close>. Any sequence of Set, Get and Del on a pool whose commands the server does not refuse answers like a
  map, the part of the server under the key prefix of the pool, and changes no key without that prefix.
\<close>

theorem redis_pool_refines_map:
  assumes "redis_laws rg held" and "kv_run rg p xs s = Inr (as, s1)" and "\<not> list_ex failed as"
  shows "kv_spec_run xs (pool_view p (held s)) = (as, pool_view p (held s1)) \<and>
         (\<forall>k. \<not> prefix (KeyPrefix p) k \<longrightarrow> held s1 k = held s k)"
  using assms(2,3)
proof (induction xs arbitrary: s as)
  case (Cons x xs)
  then obtain a s' as' where *: "kv_exec rg p x s = Inr (a, s')" "kv_run rg p xs s' = Inr (as', s1)" "as = a # as'"
    by (cases "kv_exec rg p x s"; cases "kv_run rg p xs (snd (projr (kv_exec rg p x s)))") (auto simp: bind_sum_def)
  then have "\<not> failed a" "\<not> list_ex failed as'" using Cons.prems by auto
  with kv_exec_refines [OF assms(1) *(1)] Cons.IH [OF *(2)] * show ?case by simp
qed simp

text \<open>A server that holds strings only, to evaluate the model on.\<close>

definition mem_redis :: "(string \<Rightarrow> string option) redigo" where
  "mem_redis = \<lparr>
     rg_do = (\<lambda>c as m.
       (case as of
          [GString k] \<Rightarrow>
            if c = ''GET'' then (Inr (case m k of None \<Rightarrow> GNil | Some x \<Rightarrow> GBytes x), m)
            else if c = ''DEL'' then (Inr (GInt64 (if m k = None then 0 else 1)), m(k := None))
            else (Inl ''ERR'', m)
        | [GString k, GString x] \<Rightarrow> if c = ''SET'' then (Inr (GString ''OK''), m(k \<mapsto> x)) else (Inl ''ERR'', m)
        | [GString k, GInt64 t] \<Rightarrow>
            if c = ''EXPIRE'' then (Inr (GInt64 1), if t \<le> 0 then m(k := None) else m) else (Inl ''ERR'', m)
        | _ \<Rightarrow> (Inl ''ERR'', m))),
     rg_String = (\<lambda>r. case r of Inr (GBytes x) \<Rightarrow> Inr x | Inr GNil \<Rightarrow> Inl ''redigo: nil returned''
                   | Inl e \<Rightarrow> Inl e | _ \<Rightarrow> Inl ''redigo: unexpected type''),
     rg_Strings = (\<lambda>r. Inl ''''), rg_Int = (\<lambda>r. Inl ''''), rg_Int64 = (\<lambda>r. Inl ''''), rg_Values = (\<lambda>r. Inl ''''),
     rg_AddFlat = (\<lambda>v. [v]), rg_ErrNil = ''redigo: nil returned''\<rparr>"

lemma mem_redis_laws: "redis_laws mem_redis (\<lambda>m. m)"
proof -
  have "snd (rg_do mem_redis c as m) = snd (rg_do mem_redis c as m) \<and>
        (fst (rg_do mem_redis c as m) = Inl e \<longrightarrow> e = ''ERR'')" for c as m e
    by (auto simp: mem_redis_def split: list.splits goval.splits)
  then have "rg_do mem_redis c as m = (Inl e, m') \<longrightarrow> e = ''ERR''" for c as m e m' by (metis fst_conv)
  moreover have "\<not> contains_str ''ERR'' (rg_ErrNil mem_redis)" by (simp add: mem_redis_def)
  ultimately have "rg_do mem_redis c as m = (Inl e, m') \<longrightarrow> \<not> contains_str e (rg_ErrNil mem_redis)" for c as m e m'
    by blast
  then show ?thesis by (simp add: redis_laws_def) (simp add: mem_redis_def)
qed

theorem redis_pool_refines_map_witness:
  "let p = empty_RedisPool\<lparr>KeyPrefix := ''s:''\<rparr>; xs = [KSet ''a'' ''1'', KGet ''a'', KDel ''a'', KGet ''a''] in
   kv_run mem_redis p xs Map.empty = Inr ([Done, Found ''1'', Done, Missing], Map.empty) \<and>
   fst (kv_spec_run xs Map.empty) = [Done, Found ''1'', Done, Missing]"
proof -
  let ?p = "empty_RedisPool\<lparr>KeyPrefix := ''s:''\<rparr>" and ?xs = "[KSet ''a'' ''1'', KGet ''a'', KDel ''a'', KGet ''a'']"
  have 1: "kv_run mem_redis ?p ?xs Map.empty = Inr ([Done, Found ''1'', Done, Missing], Map.empty)"
    by (simp add: bind_sum_def RedisPool_Set_def RedisPool_Get_def RedisPool_Del_def with_key_def generateKey_def
        conv_def only_error_def RedisErrNil_def mem_redis_def)
  from redis_pool_refines_map [OF mem_redis_laws 1] have "fst (kv_spec_run ?xs Map.empty) = [Done, Found ''1'', Done, Missing]"
    by (simp add: failed_def pool_view_def)
  with 1 show ?thesis by (simp add: Let_def)
qed

text \<open>
  The handler of a name is made once: after a successful \<^verbatim>\<open>NewHandler\<close>, the same pool is returned for that name
  whatever options are given, until \<^verbatim>\<open>Use\<close> is called again.
\<close>

lemma NewHandler_once:
  assumes "Kvstore_NewHandler name cfg c = Inr (Inr pool, c1)"
  shows "Kvstore_NewHandler name cfg' c1 = Inr (Inr pool, c1)"
proof -
  obtain h where h: "kv_handler c = Some h"
    using assms by (cases "kv_handler c") (simp_all add: Kvstore_NewHandler_def Kvstore_GetHandler_def)
  show ?thesis
  proof (cases "RedisHandler_GetHandler name h")
    case (Inr q)
    with assms h show ?thesis by (simp add: Kvstore_NewHandler_def Kvstore_GetHandler_def)
  next
    case (Inl e)
    with assms h obtain cfg1 h1 where "RedisHandler_NewHandler name cfg1 h = (Inr pool, h1)" "c1 = c\<lparr>kv_handler := Some h1\<rparr>"
      by (auto simp: Kvstore_NewHandler_def Kvstore_GetHandler_def Let_def split: prod.splits)
    then show ?thesis
      by (auto simp: Kvstore_NewHandler_def Kvstore_GetHandler_def RedisHandler_GetHandler_def RedisHandler_NewHandler_def
          Let_def split: sum.splits if_splits)
  qed
qed

text \<open>An \<^verbatim>\<open>int\<close> key makes every command with a key panic.\<close>

lemma int_key_panics: "with_key p (GInt i) f s = Inl TypeAssertion"
  by (simp add: with_key_def generateKey_def)

end
