(* ===== verification/Session_Store.thy ===== *)
theory Session_Store
  imports Redis_Store
begin

text \<open>
  The session stores and their providers: \<^verbatim>\<open>src/session/redis.go\<close> over the redis connections and
  \<^verbatim>\<open>src/session/mysql.go\<close> over the database interface, whose calls are arguments. The codec of the data
  (gob) is an argument.
\<close>

type_synonym session_data = "goval \<Rightarrow> goval option"

record gob_codec =
  EncodeGob :: "session_data \<Rightarrow> string + string"
  DecodeGob :: "string \<Rightarrow> string + session_data"

subsection \<open>Stores\<close>

text \<open>The two store types have the same fields, apart from the connection they keep.\<close>

record SessionStore =
  st_id :: string
  st_maxAge :: int
  st_data :: session_data

definition RedisStore_Set :: "goval \<Rightarrow> goval \<Rightarrow> SessionStore \<Rightarrow> SessionStore" where
  "RedisStore_Set key val st = st\<lparr>st_data := (st_data st)(key \<mapsto> val)\<rparr>"

definition RedisStore_Get :: "goval \<Rightarrow> SessionStore \<Rightarrow> goval" where
  "RedisStore_Get key st = (case st_data st key of Some v \<Rightarrow> v | None \<Rightarrow> GNil)"

definition RedisStore_Delete :: "goval \<Rightarrow> SessionStore \<Rightarrow> SessionStore" where
  "RedisStore_Delete key st = st\<lparr>st_data := (st_data st)(key := None)\<rparr>"

definition RedisStore_Flush :: "SessionStore \<Rightarrow> SessionStore" where
  "RedisStore_Flush st = st\<lparr>st_data := Map.empty\<rparr>"

definition MysqlStore_Set :: "goval \<Rightarrow> goval \<Rightarrow> SessionStore \<Rightarrow> SessionStore" where
  "MysqlStore_Set key val st = st\<lparr>st_data := (st_data st)(key \<mapsto> val)\<rparr>"

definition MysqlStore_Get :: "goval \<Rightarrow> SessionStore \<Rightarrow> goval" where
  "MysqlStore_Get key st = (case st_data st key of Some v \<Rightarrow> v | None \<Rightarrow> GNil)"

definition MysqlStore_Delete :: "goval \<Rightarrow> SessionStore \<Rightarrow> SessionStore" where
  "MysqlStore_Delete key st = st\<lparr>st_data := (st_data st)(key := None)\<rparr>"

definition MysqlStore_Flush :: "SessionStore \<Rightarrow> SessionStore" where
  "MysqlStore_Flush st = st\<lparr>st_data := Map.empty\<rparr>"

subsection \<open>Error texts\<close>

definition quoted :: "string \<Rightarrow> string" where
  "quoted s = [CHR 0x27] @ s @ [CHR 0x27]"

definition sid_error :: "string \<Rightarrow> string \<Rightarrow> string \<Rightarrow> string" where
  "sid_error err sid e = err @ '': [sessionId:'' @ quoted sid @ '', error:'' @ quoted e @ '']''"

definition old_sid_error :: "string \<Rightarrow> string \<Rightarrow> string \<Rightarrow> string \<Rightarrow> string" where
  "old_sid_error err oldSid sid e =
     err @ '': [oldSessionId:'' @ quoted oldSid @ '', sessionId:'' @ quoted sid @ '', error:'' @ quoted e @ '']''"

definition all_error :: "string \<Rightarrow> string \<Rightarrow> string" where
  "all_error err e = err @ '': [error:'' @ quoted e @ '']''"

subsection \<open>The redis provider\<close>

record RedisSession =
  rs_pool :: RedisPool
  rs_maxAge :: int

text \<open>
  \<^verbatim>\<open>Initiate\<close>: the component switches to a new redis handler, so that the pool of the name is made anew, and
  makes the pool \<^verbatim>\<open>session\<close>.
\<close>

definition RedisSession_Initiate ::
    "int \<Rightarrow> configs \<Rightarrow> providers \<Rightarrow> Kvstore \<Rightarrow> ((string + RedisSession) \<times> Kvstore) outcome" where
  "RedisSession_Initiate maxAge config hs k =
     (case Kvstore_Use hs ''redis'' k of
        (Some e, k1) \<Rightarrow> Inr (Inl (''session redis: initiate error: '' @ e), k1)
      | (None, k1) \<Rightarrow>
          (case Kvstore_NewHandler ''session'' (Some config) k1 of
             Inl p \<Rightarrow> Inl p
           | Inr (Inl e, k2) \<Rightarrow> Inr (Inl (''session redis: initiate error: '' @ e), k2)
           | Inr (Inr pool, k2) \<Rightarrow> Inr (Inr \<lparr>rs_pool = pool, rs_maxAge = maxAge\<rparr>, k2)))"

text \<open>
  The data of a stored value: nothing stored is an empty map, and anything but bytes is the error \<open>err\<close>.
\<close>

definition stored_data :: "gob_codec \<Rightarrow> string \<Rightarrow> goval \<Rightarrow> string + session_data" where
  "stored_data gob err v =
     (case v of
        GNil \<Rightarrow> Inr Map.empty
      | GBytes b \<Rightarrow> DecodeGob gob b
      | _ \<Rightarrow> Inl err)"

definition new_store :: "RedisSession \<Rightarrow> string \<Rightarrow> session_data \<Rightarrow> SessionStore" where
  "new_store m sid d = \<lparr>st_id = sid, st_maxAge = rs_maxAge m, st_data = d\<rparr>"

definition RedisSession_Read :: "'s redigo \<Rightarrow> gob_codec \<Rightarrow> RedisSession \<Rightarrow> string \<Rightarrow> 's \<Rightarrow> (SessionStore, 's) reply" where
  "RedisSession_Read rg gob m sid s =
     (case RedisPool_Get rg (rs_pool m) (GString sid) s of
        Inl p \<Rightarrow> Inl p
      | Inr (Inl e, s1) \<Rightarrow>
          if \<not> RedisErrNil rg e then Inr (Inl (sid_error ''session redis: session read error'' sid e), s1)
          else Inr (map_sum id (new_store m sid) (stored_data gob '''' GNil), s1)
      | Inr (Inr v, s1) \<Rightarrow>
          Inr (map_sum id (new_store m sid) (stored_data gob (sid_error ''session redis: session read error'' sid ''invalid session data type'') v), s1))"

definition RedisSession_Exist :: "'s redigo \<Rightarrow> RedisSession \<Rightarrow> string \<Rightarrow> 's \<Rightarrow> (bool, 's) reply" where
  "RedisSession_Exist rg m sid s =
     (case RedisPool_Get rg (rs_pool m) (GString sid) s of
        Inl p \<Rightarrow> Inl p
      | Inr (Inl e, s1) \<Rightarrow>
          if RedisErrNil rg e then Inr (Inr False, s1)
          else Inr (Inl (sid_error ''session redis: session exists error'' sid e), s1)
      | Inr (Inr v, s1) \<Rightarrow> Inr (Inr True, s1))"

text \<open>
  \<^verbatim>\<open>Regenerate\<close>: when the old session is not stored an empty text is stored under the new name; the store
  returned has the data of the old one.
\<close>

definition RedisSession_Regenerate ::
    "'s redigo \<Rightarrow> gob_codec \<Rightarrow> RedisSession \<Rightarrow> string \<Rightarrow> string \<Rightarrow> 's \<Rightarrow> (SessionStore, 's) reply" where
  "RedisSession_Regenerate rg gob m oldSid sid s =
     (let err = ''session redis: session regenerate error'' in
      case RedisPool_Get rg (rs_pool m) (GString oldSid) s of
        Inl p \<Rightarrow> Inl p
      | Inr (Inr v, s1) \<Rightarrow> Inr (map_sum id (new_store m sid) (stored_data gob (old_sid_error err oldSid sid ''invalid session data type'') v), s1)
      | Inr (Inl e, s1) \<Rightarrow>
          if \<not> RedisErrNil rg e then Inr (Inl (old_sid_error err oldSid sid e), s1)
          else (case RedisPool_Set rg (rs_pool m) (GString sid) (GString '''') s1 of
                  Inl p \<Rightarrow> Inl p
                | Inr (Inl e1, s2) \<Rightarrow> Inr (Inl (err @ '': '' @ e1), s2)
                | Inr (Inr _, s2) \<Rightarrow>
                    (case RedisPool_Expire rg (rs_pool m) (GString sid) (rs_maxAge m) s2 of
                       Inl p \<Rightarrow> Inl p
                     | Inr (Inl e2, s3) \<Rightarrow> Inr (Inl (err @ '': '' @ e2), s3)
                     | Inr (Inr _, s3) \<Rightarrow> Inr (map_sum id (new_store m sid) (stored_data gob '''' GNil), s3))))"

definition RedisSession_Destroy :: "'s redigo \<Rightarrow> RedisSession \<Rightarrow> string \<Rightarrow> 's \<Rightarrow> (unit, 's) reply" where
  "RedisSession_Destroy rg m sid s =
     (case RedisPool_Del rg (rs_pool m) (GString sid) s of
        Inl p \<Rightarrow> Inl p
      | Inr (Inl e, s1) \<Rightarrow> Inr (Inl (sid_error ''session redis: session destory error'' sid e), s1)
      | Inr (Inr _, s1) \<Rightarrow> Inr (Inr (), s1))"

text \<open>\<^verbatim>\<open>All\<close> goes on as long as a scan returns keys, whatever the cursor; it need not end.\<close>

partial_function (option) all_loop ::
    "'s redigo \<Rightarrow> nat \<Rightarrow> string \<Rightarrow> string list \<Rightarrow> 's \<Rightarrow> ((string + nat) \<times> 's) option" where
  "all_loop rg count cursor ks s =
     (if ks = [] then Some (Inr count, s)
      else (case RedisPool_Scan rg cursor '''' 0 s of
              (Inl e, s1) \<Rightarrow> Some (Inl (all_error ''session redis: session all error'' e), s1)
            | (Inr (next, ks1), s1) \<Rightarrow> all_loop rg (count + length ks) next ks1 s1))"

definition RedisSession_All :: "'s redigo \<Rightarrow> 's \<Rightarrow> ((string + nat) \<times> 's) option" where
  "RedisSession_All rg s =
     (case RedisPool_Scan rg '''' '''' 0 s of
        (Inl e, s1) \<Rightarrow> Some (Inl (all_error ''session redis: session all error'' e), s1)
      | (Inr (next, ks), s1) \<Rightarrow> all_loop rg 0 next ks s1)"

text \<open>\<^verbatim>\<open>Release\<close> writes the encoded data as a string.\<close>

definition RedisStore_Release :: "'s redigo \<Rightarrow> gob_codec \<Rightarrow> RedisPool \<Rightarrow> SessionStore \<Rightarrow> 's \<Rightarrow> (unit, 's) reply" where
  "RedisStore_Release rg gob pool st s =
     (case EncodeGob gob (st_data st) of
        Inl e \<Rightarrow> Inr (Inl e, s)
      | Inr b \<Rightarrow>
          (case RedisPool_Set rg pool (GString (st_id st)) (GString b) s of
             Inl p \<Rightarrow> Inl p
           | Inr (Inl e, s1) \<Rightarrow> Inr (Inl e, s1)
           | Inr (Inr _, s1) \<Rightarrow> RedisPool_Expire rg pool (GString (st_id st)) (st_maxAge st) s1))"

subsection \<open>The mysql provider\<close>

text \<open>
  The calls of the database interface. \<^verbatim>\<open>Find\<close> returns its error and what the pointer to the row holds
  afterwards, \<open>None\<close> for nil.
\<close>

record 's mysql_ops =
  db_Find :: "string \<Rightarrow> 's \<Rightarrow> string option \<times> string option"
  db_RecordNotFound :: "'s \<Rightarrow> bool"
  db_Save :: "string \<Rightarrow> string \<Rightarrow> 's \<Rightarrow> string option \<times> 's"
  db_Delete :: "string \<Rightarrow> 's \<Rightarrow> string option \<times> 's"
  db_Count :: "'s \<Rightarrow> string option \<times> nat"
  db_Update :: "string \<Rightarrow> string \<Rightarrow> 's \<Rightarrow> 's"
  db_Error :: "'s \<Rightarrow> string option"

definition row_data :: "gob_codec \<Rightarrow> string option \<Rightarrow> string + session_data" where
  "row_data gob row = (case row of None \<Rightarrow> Inr Map.empty | Some d \<Rightarrow> DecodeGob gob d)"

definition mysql_store :: "string \<Rightarrow> session_data \<Rightarrow> SessionStore" where
  "mysql_store sid d = \<lparr>st_id = sid, st_maxAge = 0, st_data = d\<rparr>"

definition MysqlSession_Read :: "'s mysql_ops \<Rightarrow> gob_codec \<Rightarrow> string \<Rightarrow> 's \<Rightarrow> string + SessionStore" where
  "MysqlSession_Read db gob sid s =
     (case db_Find db sid s of
        (Some e, row) \<Rightarrow> Inl (sid_error ''session mysql: session read error'' sid e)
      | (None, row) \<Rightarrow> map_sum id (mysql_store sid) (row_data gob row))"

definition MysqlSession_Exist :: "'s mysql_ops \<Rightarrow> string \<Rightarrow> 's \<Rightarrow> string + bool" where
  "MysqlSession_Exist db sid s =
     (case db_Find db sid s of
        (Some e, row) \<Rightarrow> Inl (sid_error ''session mysql: session exists error'' sid e)
      | (None, Some _) \<Rightarrow> Inl ''session mysql: session not exists''
      | (None, None) \<Rightarrow> Inr True)"

definition MysqlSession_Regenerate ::
    "'s mysql_ops \<Rightarrow> gob_codec \<Rightarrow> string \<Rightarrow> string \<Rightarrow> 's \<Rightarrow> ((string + SessionStore) \<times> 's) outcome" where
  "MysqlSession_Regenerate db gob oldSid sid s =
     (let err = old_sid_error ''session mysql: session regenerate error'' oldSid sid in
      case db_Find db oldSid s of
        (Some e, row) \<Rightarrow> Inr (Inl (err e), s)
      | (None, row) \<Rightarrow>
          if db_RecordNotFound db s then
            (case row of
               None \<Rightarrow> Inl NilDereference
             | Some d \<Rightarrow>
                 (case db_Save db sid d s of
                    (Some e, s1) \<Rightarrow> Inr (Inl (err e), s1)
                  | (None, s1) \<Rightarrow> Inr (map_sum id (mysql_store sid) (row_data gob row), s1)))
          else Inr (map_sum id (mysql_store sid) (row_data gob row), s))"

definition MysqlSession_Destroy :: "'s mysql_ops \<Rightarrow> string \<Rightarrow> 's \<Rightarrow> (string + unit) \<times> 's" where
  "MysqlSession_Destroy db sid s =
     (case db_Delete db sid s of
        (Some e, s1) \<Rightarrow> (Inl (sid_error ''session mysql: session destory error'' sid e), s1)
      | (None, s1) \<Rightarrow> (Inr (), s1))"

definition MysqlSession_All :: "'s mysql_ops \<Rightarrow> 's \<Rightarrow> string + nat" where
  "MysqlSession_All db s =
     (case db_Count db s of
        (Some e, n) \<Rightarrow> Inl (all_error ''session mysql: session all error'' e)
      | (None, n) \<Rightarrow> Inr n)"

definition MysqlStore_Release :: "'s mysql_ops \<Rightarrow> gob_codec \<Rightarrow> SessionStore \<Rightarrow> 's \<Rightarrow> (string + unit) \<times> 's" where
  "MysqlStore_Release db gob st s =
     (case EncodeGob gob (st_data st) of
        Inl e \<Rightarrow> (Inl e, s)
      | Inr b \<Rightarrow>
          (let s1 = db_Update db (st_id st) b s
           in (case db_Error db s1 of Some e \<Rightarrow> Inl e | None \<Rightarrow> Inr (), s1)))"

subsection \<open>The contract of a store\<close>

text \<open>
  \<^verbatim>\<open>session.Store\<close>: what a reader of a session may rely on, for any implementation.
\<close>

locale session_store =
  fixes sset :: "goval \<Rightarrow> goval \<Rightarrow> 'st \<Rightarrow> 'st" and sget :: "goval \<Rightarrow> 'st \<Rightarrow> goval"
    and sdelete :: "goval \<Rightarrow> 'st \<Rightarrow> 'st" and sflush :: "'st \<Rightarrow> 'st" and sid :: "'st \<Rightarrow> string"
  assumes get_set: "sget k (sset k' v st) = (if k = k' then v else sget k st)"
    and get_delete: "sget k (sdelete k' st) = (if k = k' then GNil else sget k st)"
    and get_flush: "sget k (sflush st) = GNil"
    and id_kept: "sid (sset k' v st) = sid st" "sid (sdelete k' st) = sid st" "sid (sflush st) = sid st"
begin

fun sexec :: "(goval \<times> goval option) option list \<Rightarrow> 'st \<Rightarrow> 'st" where
  "sexec [] st = st"
| "sexec (Some (k, Some v) # xs) st = sexec xs (sset k v st)"
| "sexec (Some (k, None) # xs) st = sexec xs (sdelete k st)"
| "sexec (None # xs) st = sexec xs (sflush st)"

lemma sexec_id: "sid (sexec xs st) = sid st"
  by (induction xs st rule: sexec.induct) (simp_all add: id_kept)

lemma sexec_untouched:
  "\<forall>x \<in> set xs. \<exists>k' v. x = Some (k', v) \<and> k' \<noteq> k \<Longrightarrow> sget k (sexec xs st) = sget k st"
  by (induction xs st rule: sexec.induct) (auto simp: get_set get_delete)

lemma sexec_append: "sexec (xs @ ys) st = sexec ys (sexec xs st)"
  by (induction xs st rule: sexec.induct) simp_all

lemma last_write_wins:
  assumes "\<forall>x \<in> set ys. \<exists>k' v. x = Some (k', v) \<and> k' \<noteq> k"
  shows "sget k (sexec (xs @ [Some (k, Some v)] @ ys) st) = v"
  using sexec_untouched [OF assms] by (simp add: sexec_append get_set)

end

interpretation redis_store: session_store RedisStore_Set RedisStore_Get RedisStore_Delete RedisStore_Flush st_id
  by unfold_locales (auto simp: RedisStore_Set_def RedisStore_Get_def RedisStore_Delete_def RedisStore_Flush_def)

interpretation mysql_store: session_store MysqlStore_Set MysqlStore_Get MysqlStore_Delete MysqlStore_Flush st_id
  by unfold_locales (auto simp: MysqlStore_Set_def MysqlStore_Get_def MysqlStore_Delete_def MysqlStore_Flush_def)

subsection \<open>A stored session cannot be read\<close>

lemma Read_stored:
  assumes laws: "redis_laws rg held" and stored: "held s (KeyPrefix (rs_pool m) @ sid) = Some x"
  shows "\<exists>e s1. RedisSession_Read rg gob m sid s = Inr (Inl e, s1)"
proof -
  obtain r s1 where do: "rg_do rg ''GET'' [GString (KeyPrefix (rs_pool m) @ sid)] s = (r, s1)" by fastforce
  show ?thesis
  proof (cases r)
    case (Inl e)
    then have "\<not> RedisErrNil rg e" using laws_server_error [OF laws] do by (simp add: RedisErrNil_def)
    moreover have "rg_String rg r = Inl e" using laws Inl by (simp add: redis_laws_def)
    ultimately show ?thesis
      using do by (simp add: RedisSession_Read_def RedisPool_Get_def with_key_def generateKey_def conv_def)
  next
    case (Inr v)
    then have "v = GBytes x" using laws do stored unfolding redis_laws_def by fastforce
    then have "rg_String rg r = Inr x" using laws Inr by (simp add: redis_laws_def)
    then show ?thesis
      using do by (simp add: RedisSession_Read_def RedisPool_Get_def with_key_def generateKey_def conv_def stored_data_def)
  qed
qed

lemma Release_stores:
  assumes laws: "redis_laws rg held" and rel: "RedisStore_Release rg gob pool st s = Inr (Inr (), s1)" and age: "0 < st_maxAge st"
  shows "held s1 (KeyPrefix pool @ st_id st) \<noteq> None"
proof -
  let ?k = "KeyPrefix pool @ st_id st"
  obtain b where b: "EncodeGob gob (st_data st) = Inr b"
    using rel by (cases "EncodeGob gob (st_data st)") (auto simp: RedisStore_Release_def)
  obtain r s' where set: "rg_do rg ''SET'' [GString ?k, GString b] s = (r, s')" by fastforce
  obtain r2 s2 where ex: "rg_do rg ''EXPIRE'' [GString ?k, GInt64 (st_maxAge st)] s' = (r2, s2)" by fastforce
  have "\<exists>v. r = Inr v" "s2 = s1" "\<exists>v. r2 = Inr v"
    using rel b set ex
    by (cases r; cases r2; simp add: RedisStore_Release_def RedisPool_Set_def RedisPool_Expire_def with_key_def generateKey_def
        conv_def only_error_def)+
  then have "held s' = (held s)(?k \<mapsto> b)" "held s1 = held s'"
    using laws set ex age unfolding redis_laws_def by fastforce+
  then show ?thesis by simp
qed

text \<open>
  A session that the redis provider has saved is never read back: the connection returns a string where
  the provider expects bytes, so after a successful \<^verbatim>\<open>Release\<close> every \<^verbatim>\<open>Read\<close> of that session is an error.
\<close>

theorem released_session_unreadable:
  assumes "redis_laws rg held" and "RedisStore_Release rg gob (rs_pool m) st s = Inr (Inr (), s1)" and "0 < st_maxAge st"
  shows "\<exists>e s2. RedisSession_Read rg gob m (st_id st) s1 = Inr (Inl e, s2)"
  using Release_stores [OF assms] Read_stored [OF assms(1)] by blast

definition demo_gob :: gob_codec where
  "demo_gob = \<lparr>EncodeGob = \<lambda>_. Inr ''x'', DecodeGob = \<lambda>_. Inr Map.empty\<rparr>"

theorem released_session_unreadable_witness:
  "let m = \<lparr>rs_pool = empty_RedisPool, rs_maxAge = 60\<rparr>; st = new_store m ''id'' Map.empty in
   \<exists>s1 e s2. RedisStore_Release mem_redis demo_gob (rs_pool m) st Map.empty = Inr (Inr (), s1) \<and>
             RedisSession_Read mem_redis demo_gob m ''id'' s1 = Inr (Inl e, s2)"
proof -
  let ?m = "\<lparr>rs_pool = empty_RedisPool, rs_maxAge = 60\<rparr>" let ?st = "new_store ?m ''id'' Map.empty"
  have r: "RedisStore_Release mem_redis demo_gob (rs_pool ?m) ?st Map.empty = Inr (Inr (), [''id'' \<mapsto> ''x''])"
    by (simp add: RedisStore_Release_def RedisPool_Set_def RedisPool_Expire_def with_key_def generateKey_def conv_def
        only_error_def mem_redis_def demo_gob_def new_store_def empty_RedisPool_def)
  have "\<exists>e s2. RedisSession_Read mem_redis demo_gob ?m (st_id ?st) [''id'' \<mapsto> ''x''] = Inr (Inl e, s2)"
    by (rule released_session_unreadable [OF mem_redis_laws r]) (simp add: new_store_def)
  with r show ?thesis by (auto simp: Let_def new_store_def)
qed

text \<open>
  Counting the sessions never ends on a server that always has keys: \<^verbatim>\<open>All\<close> does not stop at the end of an
  iteration, where redis returns the cursor 0, but starts the next one.
\<close>

theorem All_never_returns:
  assumes scan: "\<And>cursor s. \<exists>next k ks s1. RedisPool_Scan rg cursor '''' 0 s = (Inr (next, k # ks), s1)"
  shows "RedisSession_All rg s = None"
proof -
  have none: "ks = []" if "all_loop rg count cursor ks s = Some y" for count cursor ks s y
  proof -
    have "rg = rg \<longrightarrow> ks = []"
    proof (rule all_loop.raw_induct [where P = "\<lambda>rg' count cursor ks s y. rg' = rg \<longrightarrow> ks = []", OF _ that])
      fix f rg' count cursor ks s y
      assume IH: "\<And>rg' count cursor ks s y. f rg' count cursor ks s = Some y \<Longrightarrow> rg' = rg \<longrightarrow> ks = []"
        and step: "(if ks = [] then Some (Inr count, s)
           else (case RedisPool_Scan rg' cursor '''' 0 s of
                   (Inl e, s1) \<Rightarrow> Some (Inl (all_error ''session redis: session all error'' e), s1)
                 | (Inr (next, ks1), s1) \<Rightarrow> f rg' (count + length ks) next ks1 s1)) = Some y"
      show "rg' = rg \<longrightarrow> ks = []"
      proof (intro impI, rule ccontr)
        assume "rg' = rg" "ks \<noteq> []"
        moreover obtain n k ks2 s1 where "RedisPool_Scan rg cursor '''' 0 s = (Inr (n, k # ks2), s1)" using scan by blast
        ultimately show False using step IH [of rg "count + length ks" n "k # ks2" s1 y] by simp
      qed
    qed
    then show ?thesis by simp
  qed
  obtain n k ks s1 where first: "RedisPool_Scan rg '''' '''' 0 s = (Inr (n, k # ks), s1)" using scan by blast
  have "all_loop rg 0 n (k # ks) s1 = None" using none [of 0 n "k # ks" s1] by (cases "all_loop rg 0 n (k # ks) s1") auto
  then show ?thesis using first by (simp add: RedisSession_All_def)
qed

definition one_key_redis :: "unit redigo" where
  "one_key_redis = \<lparr>rg_do = (\<lambda>c as s. (Inr (GSlice [GBytes ''0'', GSlice [GBytes ''key'']]), s)),
     rg_String = (\<lambda>r. Inl ''''), rg_Strings = (\<lambda>r. Inl ''''), rg_Int = (\<lambda>r. Inl ''''), rg_Int64 = (\<lambda>r. Inl ''''),
     rg_Values = (\<lambda>r. case r of Inr (GSlice vs) \<Rightarrow> Inr vs | _ \<Rightarrow> Inl ''''), rg_AddFlat = (\<lambda>v. [v]), rg_ErrNil = ''nil''\<rparr>"

theorem All_never_returns_witness: "RedisSession_All one_key_redis () = None"
  by (rule All_never_returns)
     (simp add: RedisPool_Scan_def conv_def one_key_redis_def bind_sum_def scan_reply_def)

text \<open>
  \<^verbatim>\<open>Exist\<close> of the mysql provider never answers that a session exists as long as \<^verbatim>\<open>Find\<close> leaves the pointer to
  the row, which it was given, in place.
\<close>

lemma MysqlSession_Exist_never:
  "snd (db_Find db sid s) \<noteq> None \<Longrightarrow> \<exists>e. MysqlSession_Exist db sid s = Inl e"
  by (cases "db_Find db sid s") (auto simp: MysqlSession_Exist_def split: option.splits)

end
