(* ===== verification/Session_Manager.thy ===== *)
theory Session_Manager
  imports Session_Store Api_Binding
begin

text \<open>
  \<^verbatim>\<open>src/session/protocol.go\<close>: the identifier of a session in a request, starting, destroying and renewing a
  session, over any provider (the annotations that \<^verbatim>\<open>errors.Annotate\<close> adds to error texts are left out); and \<^verbatim>\<open>src/api/context.go\<close>: the session of a request. Random bytes and the time are
  arguments.
\<close>

subsection \<open>\<^verbatim>\<open>url.QueryEscape\<close> and \<^verbatim>\<open>hex\<close>\<close>

definition hex_digit :: "string \<Rightarrow> nat \<Rightarrow> char" where
  "hex_digit digits n = digits ! n"

definition unhex :: "char \<Rightarrow> nat option" where
  "unhex c =
     (let n = of_char c in
      if 48 \<le> n \<and> n \<le> 57 then Some (n - 48)
      else if 97 \<le> n \<and> n \<le> 102 then Some (n - 87)
      else if 65 \<le> n \<and> n \<le> 70 then Some (n - 55)
      else None)"

definition unreserved :: "char \<Rightarrow> bool" where
  "unreserved c = (is_upper c \<or> is_lower c \<or> digit c \<noteq> None \<or> c \<in> set ''-_.~'')"

definition escape_byte :: "char \<Rightarrow> string" where
  "escape_byte c =
     (if unreserved c then [c]
      else if c = CHR '' '' then ''+''
      else [CHR 0x25, hex_digit ''0123456789ABCDEF'' (of_char c div 16), hex_digit ''0123456789ABCDEF'' (of_char c mod 16)])"

definition QueryEscape :: "string \<Rightarrow> string" where
  "QueryEscape s = concat (map escape_byte s)"

fun QueryUnescape :: "string \<Rightarrow> string option" where
  "QueryUnescape [] = Some []"
| "QueryUnescape (c # cs) =
     (if c = CHR 0x25 then
        (case cs of
           a # b # rest \<Rightarrow>
             (case (unhex a, unhex b) of
                (Some x, Some y) \<Rightarrow> map_option ((#) (char_of (16 * x + y))) (QueryUnescape rest)
              | _ \<Rightarrow> None)
         | _ \<Rightarrow> None)
      else if c = CHR ''+'' then map_option ((#) (CHR '' '')) (QueryUnescape cs)
      else map_option ((#) c) (QueryUnescape cs))"

definition hex_EncodeToString :: "string \<Rightarrow> string" where
  "hex_EncodeToString bs =
     concat (map (\<lambda>c. [hex_digit ''0123456789abcdef'' (of_char c div 16), hex_digit ''0123456789abcdef'' (of_char c mod 16)]) bs)"

lemma unhex_digit: "n < 16 \<Longrightarrow> unhex (hex_digit ''0123456789ABCDEF'' n) = Some n"
proof -
  have "list_all (\<lambda>n. unhex (hex_digit ''0123456789ABCDEF'' n) = Some n) [0..<16]" by code_simp
  then show "n < 16 \<Longrightarrow> ?thesis" by (simp add: list_all_iff)
qed

lemma unreserved_plain: "unreserved c \<Longrightarrow> c \<noteq> CHR 0x25 \<and> c \<noteq> CHR ''+''"
  by (rule conjI; rule notI) (simp_all add: unreserved_def is_upper_def is_lower_def digit_def Let_def)

lemma unescape_byte: "QueryUnescape (escape_byte c @ s) = map_option ((#) c) (QueryUnescape s)"
proof (cases "unreserved c \<or> c = CHR '' ''")
  case True
  then show ?thesis using unreserved_plain by (auto simp: escape_byte_def)
next
  case False
  have "(of_char c :: nat) < 256" by (rule nat_of_char_less_256)
  then have "of_char c div 16 < (16 :: nat)" by (intro less_mult_imp_div_less) simp
  moreover have "of_char c mod 16 < (16 :: nat)" by simp
  moreover have "char_of (16 * (of_char c div 16) + of_char c mod 16 :: nat) = c" by simp
  ultimately show ?thesis using False by (simp add: escape_byte_def unhex_digit)
qed

lemma QueryUnescape_Escape: "QueryUnescape (QueryEscape s) = Some s"
  by (induction s) (simp_all add: QueryEscape_def unescape_byte)

subsection \<open>Requests, responses and providers\<close>

record cookie =
  ck_name :: string
  ck_value :: string
  ck_path :: string
  ck_httpOnly :: bool
  ck_secure :: bool
  ck_domain :: string
  ck_maxAge :: int
  ck_expires :: "int option"

text \<open>
  The parts of a request and of a response that sessions use. The cookies of a request are their names and
  values in order; \<^verbatim>\<open>r.Cookie\<close> returns the first of the name.
\<close>

record http =
  rqCookies :: "(string \<times> string) list"
  rqForm :: "string \<Rightarrow> string"
  rqHeader :: "string \<Rightarrow> string list option"
  rqScheme :: string
  rqTLS :: bool
  wCookies :: "cookie list"
  wHeader :: "string \<Rightarrow> string list option"

definition header_Set :: "string \<Rightarrow> string \<Rightarrow> (string \<Rightarrow> string list option) \<Rightarrow> string \<Rightarrow> string list option" where
  "header_Set key v h = h(CanonicalMIMEHeaderKey key \<mapsto> [v])"

definition header_Del :: "string \<Rightarrow> (string \<Rightarrow> string list option) \<Rightarrow> string \<Rightarrow> string list option" where
  "header_Del key h = h(CanonicalMIMEHeaderKey key := None)"

text \<open>
  \<^verbatim>\<open>r.AddCookie\<close>. The values added are escaped, so nothing is removed from them.
\<close>

definition AddCookie :: "cookie \<Rightarrow> http \<Rightarrow> http" where
  "AddCookie c w = w\<lparr>rqCookies := rqCookies w @ [(ck_name c, ck_value c)]\<rparr>"

text \<open>\<^verbatim>\<open>session.Handler\<close>, the operations a session calls.\<close>

record 's Handler =
  h_Read :: "string \<Rightarrow> 's \<Rightarrow> (SessionStore, 's) reply"
  h_Exist :: "string \<Rightarrow> 's \<Rightarrow> (bool, 's) reply"
  h_Regenerate :: "string \<Rightarrow> string \<Rightarrow> 's \<Rightarrow> (SessionStore, 's) reply"
  h_Destroy :: "string \<Rightarrow> 's \<Rightarrow> (unit, 's) reply"

definition redis_handler :: "'s redigo \<Rightarrow> gob_codec \<Rightarrow> RedisSession \<Rightarrow> 's Handler" where
  "redis_handler rg gob m = \<lparr>h_Read = RedisSession_Read rg gob m, h_Exist = RedisSession_Exist rg m,
     h_Regenerate = RedisSession_Regenerate rg gob m, h_Destroy = RedisSession_Destroy rg m\<rparr>"

definition mysql_handler :: "'s mysql_ops \<Rightarrow> gob_codec \<Rightarrow> 's Handler" where
  "mysql_handler db gob = \<lparr>h_Read = (\<lambda>sid s. Inr (MysqlSession_Read db gob sid s, s)),
     h_Exist = (\<lambda>sid s. Inr (MysqlSession_Exist db sid s, s)),
     h_Regenerate = MysqlSession_Regenerate db gob,
     h_Destroy = (\<lambda>sid s. Inr (MysqlSession_Destroy db sid s))\<rparr>"

subsection \<open>The session component\<close>

record Session =
  CookieName :: string
  MaxAge :: int
  EnableSetCookie :: bool
  Secure :: bool
  CookieLifeTime :: int
  Domain :: string
  SessionIDLength :: int
  EnableSidInHttpHeader :: bool
  SessionNameInHttpHeader :: string
  EnableSidInUrlQuery :: bool

text \<open>\<open>None\<close>: the cookie cannot be unescaped.\<close>

definition getSid :: "Session \<Rightarrow> http \<Rightarrow> string option" where
  "getSid c w =
     (let v = (case map_of (rqCookies w) (CookieName c) of Some v \<Rightarrow> v | None \<Rightarrow> '''') in
      if v \<noteq> '''' then QueryUnescape v
      else (let sid = (if EnableSidInUrlQuery c then rqForm w (CookieName c) else '''') in
            if EnableSidInHttpHeader c \<and> sid = '''' then
              (case rqHeader w (SessionNameInHttpHeader c) of Some (x # _) \<Rightarrow> Some x | _ \<Rightarrow> Some sid)
            else Some sid))"

text \<open>\<open>random\<close> are the bytes the system returned, \<open>None\<close> for a failure.\<close>

definition sessionID :: "Session \<Rightarrow> string option \<Rightarrow> string + string" where
  "sessionID c random =
     (case random of
        Some b \<Rightarrow> if int (length b) = SessionIDLength c then Inr (hex_EncodeToString b) else Inl ''csprng''
      | None \<Rightarrow> Inl ''csprng'')"

definition isSecure :: "Session \<Rightarrow> http \<Rightarrow> bool" where
  "isSecure c w =
     (if \<not> Secure c then False
      else if rqScheme w \<noteq> '''' then rqScheme w = ''https''
      else rqTLS w)"

definition SetSecure :: "bool \<Rightarrow> Session \<Rightarrow> Session" where
  "SetSecure b c = c\<lparr>Secure := b\<rparr>"

definition new_cookie :: "Session \<Rightarrow> string \<Rightarrow> http \<Rightarrow> cookie" where
  "new_cookie c sid w = \<lparr>ck_name = CookieName c, ck_value = QueryEscape sid, ck_path = ''/'', ck_httpOnly = True,
     ck_secure = isSecure c w, ck_domain = Domain c, ck_maxAge = 0, ck_expires = None\<rparr>"

definition with_lifetime :: "Session \<Rightarrow> int \<Rightarrow> cookie \<Rightarrow> cookie" where
  "with_lifetime c now ck =
     (if 0 < CookieLifeTime c then ck\<lparr>ck_maxAge := CookieLifeTime c, ck_expires := Some (now + CookieLifeTime c)\<rparr> else ck)"

text \<open>The end of \<^verbatim>\<open>Start\<close> and \<^verbatim>\<open>RegenerateID\<close>: the cookie and the header of the new identifier.\<close>

definition send_sid :: "Session \<Rightarrow> string \<Rightarrow> cookie \<Rightarrow> http \<Rightarrow> http" where
  "send_sid c sid ck w =
     (let w1 = (if EnableSetCookie c then w\<lparr>wCookies := wCookies w @ [ck]\<rparr> else w);
          w2 = AddCookie ck w1 in
      if EnableSidInHttpHeader c then
        w2\<lparr>rqHeader := header_Set (SessionNameInHttpHeader c) sid (rqHeader w2),
           wHeader := header_Set (SessionNameInHttpHeader c) sid (wHeader w2)\<rparr>
      else w2)"

definition Session_Start ::
    "'s Handler \<Rightarrow> Session \<Rightarrow> string option \<Rightarrow> int \<Rightarrow> http \<Rightarrow> 's \<Rightarrow> ((string + SessionStore) \<times> http \<times> 's) outcome" where
  "Session_Start h c random now w s =
     (case getSid c w of
        None \<Rightarrow> Inr (Inl ''session: session start'', w, s)
      | Some sid \<Rightarrow>
          (case h_Exist h sid s of
             Inl p \<Rightarrow> Inl p
           | Inr (Inl e, s1) \<Rightarrow> Inr (Inl e, w, s1)
           | Inr (Inr known, s1) \<Rightarrow>
               if sid \<noteq> '''' \<and> known then
                 (case h_Read h sid s1 of Inl p \<Rightarrow> Inl p | Inr (r, s2) \<Rightarrow> Inr (r, w, s2))
               else (case sessionID c random of
                       Inl e \<Rightarrow> Inr (Inl e, w, s1)
                     | Inr sid1 \<Rightarrow>
                         (case h_Read h sid1 s1 of
                            Inl p \<Rightarrow> Inl p
                          | Inr (Inl e, s2) \<Rightarrow> Inr (Inl e, w, s2)
                          | Inr (Inr st, s2) \<Rightarrow>
                              Inr (Inr st, send_sid c sid1 (with_lifetime c now (new_cookie c sid1 w)) w, s2)))))"

text \<open>\<^verbatim>\<open>Destroy\<close> drops the errors of unescaping (the identifier is then empty) and of the provider.\<close>

definition Session_Destroy :: "'s Handler \<Rightarrow> Session \<Rightarrow> int \<Rightarrow> http \<Rightarrow> 's \<Rightarrow> (http \<times> 's) outcome" where
  "Session_Destroy h c now w s =
     (let w1 = (if EnableSidInHttpHeader c then
                  w\<lparr>rqHeader := header_Del (SessionNameInHttpHeader c) (rqHeader w),
                    wHeader := header_Del (SessionNameInHttpHeader c) (wHeader w)\<rparr>
                else w) in
      case map_of (rqCookies w1) (CookieName c) of
        None \<Rightarrow> Inr (w1, s)
      | Some v \<Rightarrow>
          if v = '''' then Inr (w1, s)
          else (case h_Destroy h (case QueryUnescape v of Some sid \<Rightarrow> sid | None \<Rightarrow> '''') s of
                  Inl p \<Rightarrow> Inl p
                | Inr (_, s1) \<Rightarrow>
                    Inr (if EnableSetCookie c then
                           w1\<lparr>wCookies := wCookies w1 @ [\<lparr>ck_name = CookieName c, ck_value = '''', ck_path = ''/'',
                               ck_httpOnly = True, ck_secure = False, ck_domain = '''', ck_maxAge = - 1, ck_expires = Some now\<rparr>]\<rparr>
                         else w1, s1)))"

definition Session_GetStore :: "'s Handler \<Rightarrow> Session \<Rightarrow> http \<Rightarrow> 's \<Rightarrow> (SessionStore, 's) reply" where
  "Session_GetStore h c w s =
     (case getSid c w of
        None \<Rightarrow> Inr (Inl ''invalid URL escape'', s)
      | Some sid \<Rightarrow>
          (case h_Exist h sid s of
             Inl p \<Rightarrow> Inl p
           | Inr (Inl e, s1) \<Rightarrow> Inr (Inl e, s1)
           | Inr (Inr known, s1) \<Rightarrow>
               if sid \<noteq> '''' \<and> known then h_Read h sid s1
               else Inr (Inl ''session: session does not exist'', s1)))"

definition ok_of :: "'e + 'a \<Rightarrow> 'a option" where
  "ok_of r = (case r of Inl _ \<Rightarrow> None | Inr x \<Rightarrow> Some x)"

text \<open>\<^verbatim>\<open>RegenerateID\<close>: the store, nil on an error, which is dropped.\<close>

definition Session_RegenerateID ::
    "'s Handler \<Rightarrow> Session \<Rightarrow> string option \<Rightarrow> int \<Rightarrow> http \<Rightarrow> 's \<Rightarrow> (SessionStore option \<times> http \<times> 's) outcome" where
  "Session_RegenerateID h c random now w s =
     (case sessionID c random of
        Inl e \<Rightarrow> Inr (None, w, s)
      | Inr sid \<Rightarrow>
          (let old = (case map_of (rqCookies w) (CookieName c) of Some v \<Rightarrow> v | None \<Rightarrow> '''') in
           case (if old = '''' then h_Read h sid s
                 else h_Regenerate h (case QueryUnescape old of Some x \<Rightarrow> x | None \<Rightarrow> '''') sid s) of
             Inl p \<Rightarrow> Inl p
           | Inr (r, s1) \<Rightarrow>
               (let ck = (if old = '''' then new_cookie c sid w
                          else (new_cookie c sid w)\<lparr>ck_secure := False, ck_domain := ''''\<rparr>)
                in Inr (ok_of r, send_sid c sid (with_lifetime c now ck) w, s1))))"

subsection \<open>The session of a request context\<close>

record Context =
  sessionStore :: "SessionStore option"
  enableSession :: bool

text \<open>The surroundings of a call: provider, component, random bytes and time.\<close>

record 's surround =
  sr_handler :: "'s Handler"
  sr_session :: Session
  sr_random :: "string option"
  sr_now :: int

definition startSession :: "'s surround \<Rightarrow> Context \<times> http \<times> 's \<Rightarrow> ((string + SessionStore) \<times> Context \<times> http \<times> 's) outcome" where
  "startSession e = (\<lambda>(cx, w, s).
     (case sessionStore cx of
        Some st \<Rightarrow> Inr (Inr st, cx, w, s)
      | None \<Rightarrow>
          if \<not> enableSession cx then Inr (Inl ''session not enabled'', cx, w, s)
          else (case Session_Start (sr_handler e) (sr_session e) (sr_random e) (sr_now e) w s of
                  Inl p \<Rightarrow> Inl p
                | Inr (r, w1, s1) \<Rightarrow> Inr (r, cx\<lparr>sessionStore := ok_of r\<rparr>, w1, s1))))"

definition getSessionStore :: "'s surround \<Rightarrow> Context \<times> http \<times> 's \<Rightarrow> ((string + SessionStore) \<times> Context \<times> http \<times> 's) outcome" where
  "getSessionStore e = (\<lambda>(cx, w, s).
     (case sessionStore cx of
        Some st \<Rightarrow> Inr (Inr st, cx, w, s)
      | None \<Rightarrow>
          if \<not> enableSession cx then Inr (Inl ''session not enabled'', cx, w, s)
          else (case Session_GetStore (sr_handler e) (sr_session e) w s of
                  Inl p \<Rightarrow> Inl p
                | Inr (r, s1) \<Rightarrow> Inr (r, cx\<lparr>sessionStore := ok_of r\<rparr>, w, s1))))"

text \<open>The stores of the sources behave alike; those of the redis provider are used here.\<close>

definition SetSession :: "'s surround \<Rightarrow> goval \<Rightarrow> goval \<Rightarrow> Context \<times> http \<times> 's \<Rightarrow> (Context \<times> http \<times> 's) outcome" where
  "SetSession e key val x =
     (case startSession e x of
        Inl p \<Rightarrow> Inl p
      | Inr (Inl _, cx, w, s) \<Rightarrow> Inr (cx, w, s)
      | Inr (Inr st, cx, w, s) \<Rightarrow> Inr (cx\<lparr>sessionStore := Some (RedisStore_Set key val st)\<rparr>, w, s))"

definition GetSession :: "'s surround \<Rightarrow> goval \<Rightarrow> Context \<times> http \<times> 's \<Rightarrow> (goval \<times> Context \<times> http \<times> 's) outcome" where
  "GetSession e key x =
     (case getSessionStore e x of
        Inl p \<Rightarrow> Inl p
      | Inr (Inl _, cx, w, s) \<Rightarrow> Inr (GNil, cx, w, s)
      | Inr (Inr st, cx, w, s) \<Rightarrow> Inr (RedisStore_Get key st, cx, w, s))"

definition DelSession :: "'s surround \<Rightarrow> goval \<Rightarrow> Context \<times> http \<times> 's \<Rightarrow> (Context \<times> http \<times> 's) outcome" where
  "DelSession e key x =
     (case getSessionStore e x of
        Inl p \<Rightarrow> Inl p
      | Inr (Inl _, cx, w, s) \<Rightarrow> Inr (cx, w, s)
      | Inr (Inr st, cx, w, s) \<Rightarrow> Inr (cx\<lparr>sessionStore := Some (RedisStore_Delete key st)\<rparr>, w, s))"

definition SessionRegenerateID :: "'s surround \<Rightarrow> Context \<times> http \<times> 's \<Rightarrow> (Context \<times> http \<times> 's) outcome" where
  "SessionRegenerateID e x =
     (case getSessionStore e x of
        Inl p \<Rightarrow> Inl p
      | Inr (Inl _, cx, w, s) \<Rightarrow> Inr (cx, w, s)
      | Inr (Inr st, cx, w, s) \<Rightarrow>
          (case Session_Destroy (sr_handler e) (sr_session e) (sr_now e) w s of
             Inl p \<Rightarrow> Inl p
           | Inr (w1, s1) \<Rightarrow>
               (case Session_RegenerateID (sr_handler e) (sr_session e) (sr_random e) (sr_now e) w1 s1 of
                  Inl p \<Rightarrow> Inl p
                | Inr (st1, w2, s2) \<Rightarrow> Inr (cx\<lparr>sessionStore := st1\<rparr>, w2, s2))))"

definition DestroySession :: "'s surround \<Rightarrow> Context \<times> http \<times> 's \<Rightarrow> (Context \<times> http \<times> 's) outcome" where
  "DestroySession e x =
     (case getSessionStore e x of
        Inl p \<Rightarrow> Inl p
      | Inr (Inl _, cx, w, s) \<Rightarrow> Inr (cx, w, s)
      | Inr (Inr st, cx, w, s) \<Rightarrow>
          (case Session_Destroy (sr_handler e) (sr_session e) (sr_now e) w s of
             Inl p \<Rightarrow> Inl p
           | Inr (w1, s1) \<Rightarrow> Inr (cx\<lparr>sessionStore := None\<rparr>, w1, s1)))"

text \<open>Before the header is written the session is destroyed.\<close>

definition beforeWriteHeader :: "'s surround \<Rightarrow> Context \<times> http \<times> 's \<Rightarrow> (Context \<times> http \<times> 's) outcome" where
  "beforeWriteHeader e = (\<lambda>(cx, w, s).
     if enableSession cx \<and> sessionStore cx \<noteq> None then
       (case Session_Destroy (sr_handler e) (sr_session e) (sr_now e) w s of
          Inl p \<Rightarrow> Inl p
        | Inr (w1, s1) \<Rightarrow> Inr (cx\<lparr>sessionStore := None\<rparr>, w1, s1))
     else Inr (cx, w, s))"

definition Redirect_status :: "int \<Rightarrow> bool" where
  "Redirect_status status = (\<not> (status < 300 \<or> 308 < status))"

subsection \<open>The contract of a provider\<close>

text \<open>
  What the component relies on: the store a provider returns for an identifier is the store of that
  identifier.
\<close>

locale session_provider =
  fixes h :: "'s Handler"
  assumes Read_id: "h_Read h sid s = Inr (Inr st, s1) \<Longrightarrow> st_id st = sid"
    and Regenerate_id: "h_Regenerate h oldSid sid s = Inr (Inr st, s1) \<Longrightarrow> st_id st = sid"
begin

lemma Start_new:
  assumes "Session_Start h c random now w s = Inr (Inr st, w1, s1)" and "getSid c w = Some ''''"
  shows "\<exists>b. random = Some b \<and> int (length b) = SessionIDLength c \<and> st_id st = hex_EncodeToString b \<and>
             w1 = send_sid c (st_id st) (with_lifetime c now (new_cookie c (st_id st) w)) w"
  using assms
  by (auto simp: Session_Start_def sessionID_def dest: Read_id split: sum.splits prod.splits option.splits if_splits)

lemma RegenerateID_new:
  assumes "Session_RegenerateID h c random now w s = Inr (Some st, w1, s1)"
  shows "\<exists>b. random = Some b \<and> int (length b) = SessionIDLength c \<and> st_id st = hex_EncodeToString b"
  using assms
  by (auto simp: Session_RegenerateID_def sessionID_def Let_def ok_of_def dest: Read_id Regenerate_id
      split: sum.splits prod.splits option.splits if_splits)

end

lemma map_sum_InrD: "map_sum id f r = Inr x \<Longrightarrow> \<exists>y. r = Inr y \<and> x = f y"
  by (cases r) auto

interpretation redis_provider: session_provider "redis_handler rg gob m" for rg :: "'s redigo" and gob m
  by unfold_locales
     (auto simp: redis_handler_def RedisSession_Read_def RedisSession_Regenerate_def Let_def new_store_def
       dest!: map_sum_InrD split: sum.splits prod.splits if_splits)

interpretation mysql_provider: session_provider "mysql_handler db gob" for db :: "'s mysql_ops" and gob
  by unfold_locales
     (auto simp: mysql_handler_def MysqlSession_Read_def MysqlSession_Regenerate_def Let_def mysql_store_def
       dest!: map_sum_InrD split: sum.splits prod.splits option.splits if_splits)

lemma escape_not_Nil: "s \<noteq> '''' \<Longrightarrow> QueryEscape s \<noteq> ''''"
  by (cases s) (auto simp: QueryEscape_def escape_byte_def)

lemma hex_not_Nil: "b \<noteq> '''' \<Longrightarrow> hex_EncodeToString b \<noteq> ''''"
  by (cases b) (auto simp: hex_EncodeToString_def)

lemma send_sid_cookies: "rqCookies (send_sid c sid ck w) = rqCookies w @ [(ck_name ck, ck_value ck)]"
  by (simp add: send_sid_def AddCookie_def Let_def)

lemma send_sid_wCookies: "EnableSetCookie c \<Longrightarrow> wCookies (send_sid c sid ck w) = wCookies w @ [ck]"
  by (simp add: send_sid_def AddCookie_def Let_def)

lemma lifetime_fields [simp]:
  "ck_name (with_lifetime c now ck) = ck_name ck" "ck_value (with_lifetime c now ck) = ck_value ck"
  by (simp_all add: with_lifetime_def)


definition demo_session :: Session where
  "demo_session = \<lparr>CookieName = ''sid'', MaxAge = 60, EnableSetCookie = True, Secure = False, CookieLifeTime = 0, Domain = '''',
     SessionIDLength = 2, EnableSidInHttpHeader = False, SessionNameInHttpHeader = '''', EnableSidInUrlQuery = False\<rparr>"

definition demo_http :: http where
  "demo_http = \<lparr>rqCookies = [], rqForm = \<lambda>_. '''', rqHeader = \<lambda>_. None, rqScheme = '''', rqTLS = False, wCookies = [],
     wHeader = \<lambda>_. None\<rparr>"

definition demo_redis :: RedisSession where
  "demo_redis = \<lparr>rs_pool = empty_RedisPool, rs_maxAge = 60\<rparr>"

lemma mem_get:
  "RedisPool_Get mem_redis empty_RedisPool (GString k) s =
     Inr (case s k of None \<Rightarrow> Inl ''redigo: nil returned'' | Some x \<Rightarrow> Inr (GString x), s)"
  by (simp add: RedisPool_Get_def with_key_def generateKey_def conv_def mem_redis_def empty_RedisPool_def split: option.splits)

lemma mem_ErrNil: "RedisErrNil mem_redis ''redigo: nil returned''"
  by (simp add: RedisErrNil_def mem_redis_def)

lemma demo_start:
  "\<exists>w1. Session_Start (redis_handler mem_redis demo_gob demo_redis) demo_session (Some ''Ab'') 0 demo_http Map.empty =
     Inr (Inr \<lparr>st_id = ''4162'', st_maxAge = 60, st_data = Map.empty\<rparr>, w1, Map.empty)"
proof -
  have "hex_EncodeToString ''Ab'' = ''4162''" by code_simp
  then show ?thesis
    by (simp add: Session_Start_def getSid_def demo_session_def demo_http_def redis_handler_def RedisSession_Exist_def
        RedisSession_Read_def demo_redis_def mem_get mem_ErrNil sessionID_def stored_data_def new_store_def)
qed


subsection \<open>Redis sessions forget\<close>

lemma Get_no_bytes: "RedisPool_Get rg p key s = Inr (Inr v, s1) \<Longrightarrow> \<exists>x. v = GString x"
  by (auto simp: RedisPool_Get_def with_key_def conv_def dest!: map_sum_InrD split: sum.splits prod.splits)

lemma Read_empty: "RedisSession_Read rg gob m sid s = Inr (Inr st, s1) \<Longrightarrow> st_data st = Map.empty"
  by (auto simp: RedisSession_Read_def stored_data_def new_store_def dest!: map_sum_InrD dest: Get_no_bytes
      split: sum.splits prod.splits if_splits goval.splits)

lemma Regenerate_empty: "RedisSession_Regenerate rg gob m oldSid sid s = Inr (Inr st, s1) \<Longrightarrow> st_data st = Map.empty"
  by (auto simp: RedisSession_Regenerate_def Let_def stored_data_def new_store_def dest!: map_sum_InrD dest: Get_no_bytes
      split: sum.splits prod.splits if_splits goval.splits)

lemma GetStore_empty:
  "Session_GetStore (redis_handler rg gob m) c w s = Inr (Inr st, s1) \<Longrightarrow> st_data st = Map.empty"
  by (auto simp: Session_GetStore_def redis_handler_def dest: Read_empty split: option.splits sum.splits prod.splits if_splits)

lemma RegenerateID_empty:
  "Session_RegenerateID (redis_handler rg gob m) c random now w s = Inr (Some st, w1, s1) \<Longrightarrow> st_data st = Map.empty"
  by (auto simp: Session_RegenerateID_def redis_handler_def Let_def ok_of_def dest: Read_empty Regenerate_empty
      split: sum.splits prod.splits if_splits)

text \<open>
  \<^bold>\<open>C26\<close>. With the redis provider a request never sees the data of an earlier one, whatever the server holds: in a
  new context every \<^verbatim>\<open>GetSession\<close> returns nil; and renewing the identifier, documented not to change the data,
  leaves no data.
\<close>

theorem redis_sessions_forget:
  assumes "sr_handler e = redis_handler rg gob m"
  shows "(sessionStore cx = None \<and> GetSession e key (cx, w, s) = Inr (v, x) \<longrightarrow> v = GNil) \<and>
         (SessionRegenerateID e (cx1, w1, s1) = Inr (cx2, y) \<and> sessionStore cx2 = Some st \<and> sessionStore cx1 \<noteq> None
            \<longrightarrow> st_data st = Map.empty)"
proof (intro conjI impI)
  assume *: "sessionStore cx = None \<and> GetSession e key (cx, w, s) = Inr (v, x)"
  show "v = GNil"
  proof (cases "enableSession cx")
    case True
    with * assms show ?thesis
      by (auto simp: GetSession_def getSessionStore_def RedisStore_Get_def dest!: GetStore_empty
          split: sum.splits prod.splits)
  qed (use * in \<open>auto simp: GetSession_def getSessionStore_def\<close>)
next
  assume *: "SessionRegenerateID e (cx1, w1, s1) = Inr (cx2, y) \<and> sessionStore cx2 = Some st \<and> sessionStore cx1 \<noteq> None"
  then obtain st1 where "sessionStore cx1 = Some st1" by blast
  with * assms show "st_data st = Map.empty"
    by (auto simp: SessionRegenerateID_def getSessionStore_def dest!: RegenerateID_empty split: sum.splits prod.splits)
qed

definition demo_surround :: "(string \<Rightarrow> string option) surround" where
  "demo_surround = \<lparr>sr_handler = redis_handler mem_redis demo_gob demo_redis, sr_session = demo_session,
     sr_random = Some ''Ab'', sr_now = 0\<rparr>"

theorem redis_sessions_forget_witness:
  "\<exists>x. GetSession demo_surround (GString ''user'')
         (\<lparr>sessionStore = None, enableSession = True\<rparr>, demo_http\<lparr>rqCookies := [(''sid'', ''4162'')]\<rparr>, [''4162'' \<mapsto> ''data'']) = Inr (GNil, x)"
proof -
  have un: "QueryUnescape ''4162'' = Some ''4162''" by simp
  have "\<exists>v x. GetSession demo_surround (GString ''user'')
         (\<lparr>sessionStore = None, enableSession = True\<rparr>, demo_http\<lparr>rqCookies := [(''sid'', ''4162'')]\<rparr>, [''4162'' \<mapsto> ''data'']) = Inr (v, x)"
    by (simp add: GetSession_def getSessionStore_def demo_surround_def Session_GetStore_def getSid_def demo_session_def
        un redis_handler_def RedisSession_Exist_def RedisSession_Read_def demo_redis_def mem_get stored_data_def del: QueryUnescape.simps)
  moreover have "sr_handler demo_surround = redis_handler mem_redis demo_gob demo_redis" by (simp add: demo_surround_def)
  ultimately show ?thesis
    using redis_sessions_forget [of demo_surround mem_redis demo_gob demo_redis "\<lparr>sessionStore = None, enableSession = True\<rparr>"
        "GString ''user''" "demo_http\<lparr>rqCookies := [(''sid'', ''4162'')]\<rparr>" "[''4162'' \<mapsto> ''data'']"]
    by (metis (no_types, lifting) Context.select_convs(1))
qed

end
