(* ===== verification/Session_Cookie.thy ===== *)
theory Session_Cookie
  imports Convert
begin

text \<open>
  The signed and encrypted cookies of \<^verbatim>\<open>src/session/protocol.go\<close>: base64, counter mode, \<^verbatim>\<open>encodeCookie\<close> and
  \<^verbatim>\<open>decodeCookie\<close>. The key stream of the block cipher, the MAC and the codec of the data are arguments.
\<close>

subsection \<open>\<^verbatim>\<open>base64.URLEncoding\<close>\<close>

definition b64_code :: "nat \<Rightarrow> nat" where
  "b64_code n = (if n < 26 then 65 + n else if n < 52 then 71 + n else if n < 62 then n - 4 else if n = 62 then 45 else 95)"

definition b64_char :: "nat \<Rightarrow> char" where
  "b64_char n = char_of (b64_code n)"

definition b64_val :: "char \<Rightarrow> nat option" where
  "b64_val c =
     (let n = of_char c in
      if 65 \<le> n \<and> n \<le> 90 then Some (n - 65)
      else if 97 \<le> n \<and> n \<le> 122 then Some (n - 71)
      else if 48 \<le> n \<and> n \<le> 57 then Some (n + 4)
      else if n = 45 then Some 62
      else if n = 95 then Some 63
      else None)"

fun base64_encode :: "string \<Rightarrow> string" where
  "base64_encode [] = []"
| "base64_encode [a] = (let x = of_char a in [b64_char (x div 4), b64_char (x mod 4 * 16), CHR ''='', CHR ''=''])"
| "base64_encode [a, b] =
     (let x = of_char a; y = of_char b in
      [b64_char (x div 4), b64_char (x mod 4 * 16 + y div 16), b64_char (y mod 16 * 4), CHR ''=''])"
| "base64_encode (a # b # c # cs) =
     (let x = of_char a; y = of_char b; z = of_char c in
      b64_char (x div 4) # b64_char (x mod 4 * 16 + y div 16) # b64_char (y mod 16 * 4 + z div 64) # b64_char (z mod 64) # base64_encode cs)"

text \<open>
  Decoding without line ends: groups of four characters, the last of which may end with padding. Bits left over
  in the last group are not checked.
\<close>

fun decode_groups :: "string \<Rightarrow> string option" where
  "decode_groups [] = Some []"
| "decode_groups (a # b # c # d # cs) =
     (case (b64_val a, b64_val b) of
        (Some w, Some x) \<Rightarrow>
          if c = CHR ''='' then (if d = CHR ''='' \<and> cs = [] then Some [char_of (w * 4 + x div 16)] else None)
          else (case b64_val c of
                  None \<Rightarrow> None
                | Some y \<Rightarrow>
                    if d = CHR ''='' then
                      (if cs = [] then Some [char_of (w * 4 + x div 16), char_of (x mod 16 * 16 + y div 4)] else None)
                    else (case b64_val d of
                            None \<Rightarrow> None
                          | Some z \<Rightarrow>
                              map_option (\<lambda>r. char_of (w * 4 + x div 16) # char_of (x mod 16 * 16 + y div 4) # char_of (y mod 4 * 64 + z) # r)
                                (decode_groups cs)))
      | _ \<Rightarrow> None)"
| "decode_groups _ = None"

text \<open>The decoder skips carriage returns and line feeds.\<close>

definition base64_decode :: "string \<Rightarrow> string option" where
  "base64_decode s = decode_groups (filter (\<lambda>c. c \<noteq> CHR 0x0A \<and> c \<noteq> CHR 0x0D) s)"

lemma b64_code: "n < 64 \<Longrightarrow> of_char (b64_char n) = b64_code n"
  by (simp add: b64_char_def b64_code_def)

lemma b64_val_char [simp]: "n < 64 \<Longrightarrow> b64_val (b64_char n) = Some n"
  by (simp add: b64_val_def b64_code Let_def) (auto simp: b64_code_def)

definition b64_other :: "char \<Rightarrow> bool" where
  "b64_other c = (of_char c \<in> {10, 13, 61, 124 :: nat})"

lemma b64_char_not_other: "n < 64 \<Longrightarrow> \<not> b64_other (b64_char n)"
  by (auto simp: b64_other_def b64_code b64_code_def)

lemma b64_others: "b64_other (CHR ''='')" "b64_other (CHR 0x0A)" "b64_other (CHR 0x0D)" "b64_other (CHR ''|'')"
  by (simp_all add: b64_other_def)

lemma b64_char_neq:
  assumes "n < 64"
  shows "b64_char n \<noteq> CHR ''=''" "b64_char n \<noteq> CHR ''|''"
  using b64_char_not_other [OF assms] b64_others by metis+

definition b64_ok :: "char \<Rightarrow> bool" where
  "b64_ok c = (\<not> b64_other c \<or> c = CHR ''='')"

lemma b64_ok_simps: "b64_ok (CHR ''='')" "n < 64 \<Longrightarrow> b64_ok (b64_char n)"
  by (simp_all add: b64_ok_def b64_char_not_other)

lemma byte_parts:
  fixes c :: char
  shows "of_char c div 4 < (64 :: nat)" "of_char c mod 4 * 16 + of_char d div 16 < (64 :: nat)" "of_char c mod 4 * 16 < (64 :: nat)"
    "of_char c mod 16 * 4 + of_char d div 64 < (64 :: nat)" "of_char c mod 16 * 4 < (64 :: nat)" "of_char c mod 64 < (64 :: nat)"
proof -
  have c: "of_char c < (256 :: nat)" and d: "of_char d < (256 :: nat)" by simp_all
  from c show "of_char c div 4 < (64 :: nat)" by linarith
  from d show "of_char c mod 4 * 16 + of_char d div 16 < (64 :: nat)" by linarith
  show "of_char c mod 4 * 16 < (64 :: nat)" by linarith
  from d show "of_char c mod 16 * 4 + of_char d div 64 < (64 :: nat)" by linarith
  show "of_char c mod 16 * 4 < (64 :: nat)" by linarith
  show "of_char c mod 64 < (64 :: nat)" by simp
qed

lemma encode_chars: "list_all b64_ok (base64_encode s)"
  by (induction s rule: base64_encode.induct) (simp_all only: base64_encode.simps Let_def list.pred_inject b64_ok_simps byte_parts simp_thms)

lemma b64_ok_neq: "b64_ok c \<Longrightarrow> c \<noteq> CHR 0x0A \<and> c \<noteq> CHR 0x0D \<and> c \<noteq> CHR ''|''"
  by (intro conjI notI; simp add: b64_ok_def b64_others)

text \<open>Three bytes in four groups of six bits, and back.\<close>

lemma group_div: "r < m \<Longrightarrow> (k * m + r) div m = (k :: nat)"
  by simp

lemma group_mod: "r < m \<Longrightarrow> (k * m + r) mod m = (r :: nat)"
  by simp

lemma regroup:
  fixes x y z :: nat
  assumes "y < 256" "z < 256"
  shows "x div 4 * 4 + (x mod 4 * 16 + y div 16) div 16 = x"
    and "(x mod 4 * 16 + y div 16) mod 16 * 16 + (y mod 16 * 4 + z div 64) div 4 = y"
    and "(y mod 16 * 4 + z div 64) mod 4 * 64 + z mod 64 = z"
proof -
  have y: "y div 16 < 16" and z: "z div 64 < 4" using assms by (simp_all add: div_less_iff_less_mult)
  show "x div 4 * 4 + (x mod 4 * 16 + y div 16) div 16 = x"
    by (simp only: group_div [OF y] div_mult_mod_eq)
  show "(x mod 4 * 16 + y div 16) mod 16 * 16 + (y mod 16 * 4 + z div 64) div 4 = y"
    by (simp only: group_mod [OF y] group_div [OF z] div_mult_mod_eq)
  show "(y mod 16 * 4 + z div 64) mod 4 * 64 + z mod 64 = z"
    by (simp only: group_mod [OF z] div_mult_mod_eq)
qed

lemma regroup_end: "x div 4 * 4 + x mod 4 * 16 div 16 = (x :: nat)"
    "y < 256 \<Longrightarrow> (x mod 4 * 16 + y div 16) mod 16 * 16 + y mod 16 * 4 div 4 = (y :: nat)"
  using regroup(2) [of y 0 x] by simp_all

lemma decode_groups_encode: "decode_groups (base64_encode s) = Some s"
proof (induction s rule: base64_encode.induct)
  case (2 a)
  show ?case
    by (simp only: base64_encode.simps decode_groups.simps Let_def b64_val_char byte_parts option.case prod.case simp_thms
        if_True regroup_end char_of_char)
next
  case (3 a b)
  have b: "of_char b < (256 :: nat)" by simp
  show ?case
    by (simp only: base64_encode.simps decode_groups.simps Let_def b64_val_char b64_char_neq byte_parts option.case prod.case simp_thms
        if_True if_False regroup(1) [OF b b] regroup_end(2) [OF b] char_of_char)
next
  case (4 a b c cs)
  have b: "of_char b < (256 :: nat)" and c: "of_char c < (256 :: nat)" by simp_all
  show ?case
    by (simp only: base64_encode.simps decode_groups.simps Let_def b64_val_char b64_char_neq byte_parts option.case prod.case simp_thms
        if_True if_False regroup [OF b c] char_of_char 4 option.map)
qed simp

lemma decode_encode: "base64_decode (base64_encode s) = Some s"
proof -
  have "filter (\<lambda>c. c \<noteq> CHR 0x0A \<and> c \<noteq> CHR 0x0D) (base64_encode s) = base64_encode s"
    using encode_chars b64_ok_neq by (intro filter_True) (auto simp: list_all_iff)
  then show ?thesis by (simp add: base64_decode_def decode_groups_encode)
qed

subsection \<open>Counter mode\<close>

fun xor_char :: "char \<Rightarrow> char \<Rightarrow> char" where
  "xor_char (Char a0 a1 a2 a3 a4 a5 a6 a7) (Char b0 b1 b2 b3 b4 b5 b6 b7) =
     Char (a0 \<noteq> b0) (a1 \<noteq> b1) (a2 \<noteq> b2) (a3 \<noteq> b3) (a4 \<noteq> b4) (a5 \<noteq> b5) (a6 \<noteq> b6) (a7 \<noteq> b7)"

definition XORKeyStream :: "(nat \<Rightarrow> char) \<Rightarrow> string \<Rightarrow> string" where
  "XORKeyStream ks v = map (\<lambda>(i, c). xor_char c (ks i)) (enumerate 0 v)"

text \<open>
  A block cipher: its block size and the key stream of counter mode for an initialization vector. A
  cookie has besides a MAC and a codec for its data.
\<close>

record 'd cookie_ops =
  BlockSize :: nat
  keyStream :: "string \<Rightarrow> nat \<Rightarrow> char"
  hmac_sum :: "string \<Rightarrow> string \<Rightarrow> string"
  gobEncode :: "'d \<Rightarrow> string option"
  gobDecode :: "string \<Rightarrow> 'd option"

definition encrypt :: "'d cookie_ops \<Rightarrow> string \<Rightarrow> string \<Rightarrow> string" where
  "encrypt ops iv v = iv @ XORKeyStream (keyStream ops iv) v"

definition decrypt :: "'d cookie_ops \<Rightarrow> string \<Rightarrow> string option" where
  "decrypt ops v =
     (if BlockSize ops < length v then Some (XORKeyStream (keyStream ops (take (BlockSize ops) v)) (drop (BlockSize ops) v)) else None)"

lemma xor_char_twice [simp]: "xor_char (xor_char a b) b = a"
proof -
  have "((x \<noteq> y) \<noteq> y) = x" for x y :: bool by blast
  then show ?thesis by (cases a; cases b) (simp only: xor_char.simps)
qed

lemma XORKeyStream_length [simp]: "length (XORKeyStream ks v) = length v"
  by (simp add: XORKeyStream_def)

lemma XORKeyStream_twice [simp]: "XORKeyStream ks (XORKeyStream ks v) = v"
  by (rule nth_equalityI) (simp_all add: XORKeyStream_def nth_enumerate_eq)

lemma decrypt_encrypt: "length iv = BlockSize ops \<Longrightarrow> v \<noteq> [] \<Longrightarrow> decrypt ops (encrypt ops iv v) = Some v"
  by (simp add: decrypt_def encrypt_def)

subsection \<open>Cookies\<close>

datatype cookie_error =
  EncodeError | BadBase64 | InvalidValue | NotValid | InvalidTimestamp | TooNew | Expired | BadPayload | NotDecrypted | DecodeError

text \<open>The text that is signed: name, date and value, each followed by a bar.\<close>

definition signed_text :: "string \<Rightarrow> string \<Rightarrow> string \<Rightarrow> string" where
  "signed_text name date v = name @ ''|'' @ date @ ''|'' @ v @ ''|''"

definition encodeCookie :: "'d cookie_ops \<Rightarrow> string \<Rightarrow> int \<Rightarrow> string \<Rightarrow> string \<Rightarrow> 'd \<Rightarrow> cookie_error + string" where
  "encodeCookie ops iv now hashKey name v =
     (case gobEncode ops v of
        None \<Rightarrow> Inl EncodeError
      | Some b \<Rightarrow>
          (let t = signed_text name (dec_int now) (base64_encode (encrypt ops iv b));
               sig = hmac_sum ops hashKey t
           in Inr (base64_encode (drop (length name + 1) (t @ sig)))))"

definition decodeCookie :: "'d cookie_ops \<Rightarrow> int \<Rightarrow> string \<Rightarrow> string \<Rightarrow> string \<Rightarrow> 64 word \<Rightarrow> cookie_error + 'd" where
  "decodeCookie ops now hashKey name v gcmaxlifetime =
     (case base64_decode v of
        None \<Rightarrow> Inl BadBase64
      | Some b \<Rightarrow>
          (case split_n 3 (CHR ''|'') b of
             [p0, p1, p2] \<Rightarrow>
               (let sig = hmac_sum ops hashKey (name @ ''|'' @ take (length b - length p2) b) in
                if length sig \<noteq> length p2 \<or> sig \<noteq> p2 then Inl NotValid
                else (case ParseInt p0 64 of
                        Inl _ \<Rightarrow> Inl InvalidTimestamp
                      | Inr t1 \<Rightarrow>
                          if now < t1 then Inl TooNew
                          else if t1 < sint (word_of_int now - gcmaxlifetime) then Inl Expired
                          else (case base64_decode p1 of
                                  None \<Rightarrow> Inl BadPayload
                                | Some e \<Rightarrow>
                                    (case decrypt ops e of
                                       None \<Rightarrow> Inl NotDecrypted
                                     | Some g \<Rightarrow> (case gobDecode ops g of None \<Rightarrow> Inl DecodeError | Some d \<Rightarrow> Inr d)))))
           | _ \<Rightarrow> Inl InvalidValue))"

lemma dec_nat_chars: "c \<in> set (dec_nat n) \<Longrightarrow> digit c \<noteq> None"
proof (induction n rule: dec_nat.induct)
  case (1 n)
  have "digit (char_of (48 + d)) \<noteq> None" if "d < 10" for d :: nat using digit_char [OF that] by simp
  with 1 show ?case by (subst (asm) dec_nat.simps) (auto split: if_splits)
qed

lemma bar_not_digit: "CHR ''|'' \<notin> set (dec_int i)"
proof -
  have "digit (CHR ''|'') = None" by (simp add: digit_def)
  then have "CHR ''|'' \<notin> set (dec_nat n)" for n using dec_nat_chars [of "CHR ''|''" n] by auto
  then show ?thesis by (simp add: dec_int_def)
qed

lemma bar_not_encoded: "CHR ''|'' \<notin> set (base64_encode s)"
  using encode_chars [of s] b64_ok_neq by (auto simp: list_all_iff)

lemma split_signed:
  assumes "CHR ''|'' \<notin> set date" and "CHR ''|'' \<notin> set v"
  shows "split_n 3 (CHR ''|'') (date @ ''|'' @ v @ ''|'' @ sig) = [date, v, sig]"
proof -
  have "split_n (Suc (Suc (Suc 0))) (CHR ''|'') (date @ CHR ''|'' # v @ CHR ''|'' # sig) = [date, v, sig]"
    by (simp only: split_n_sep [OF assms(1)] split_n_sep [OF assms(2)] split_n.simps)
  then show ?thesis by (simp add: numeral_3_eq_3)
qed

lemma decodeCookie_encodeCookie:
  assumes "encodeCookie ops iv t hashKey name d = Inr cookie"
    and "\<And>b. gobEncode ops d = Some b \<Longrightarrow> b \<noteq> [] \<and> gobDecode ops b = Some d" and "length iv = BlockSize ops"
    and "- (2 ^ 63) \<le> t" "t < 2 ^ 63" "t \<le> now" "now \<le> t + sint life" "- (2 ^ 63) \<le> now - sint life" "now < 2 ^ 63"
  shows "decodeCookie ops now hashKey name cookie life = Inr d"
proof -
  obtain b where b: "gobEncode ops d = Some b" using assms(1) by (auto simp: encodeCookie_def split: option.splits)
  define v where "v = base64_encode (encrypt ops iv b)"
  define sig where "sig = hmac_sum ops hashKey (signed_text name (dec_int t) v)"
  define payload where "payload = dec_int t @ ''|'' @ v @ ''|'' @ sig"
  have cookie: "cookie = base64_encode payload"
    using assms(1) b by (simp add: encodeCookie_def Let_def v_def sig_def payload_def signed_text_def)
  have split: "split_n 3 (CHR ''|'') payload = [dec_int t, v, sig]"
    unfolding payload_def v_def by (rule split_signed [OF bar_not_digit bar_not_encoded])
  have signed: "name @ ''|'' @ take (length payload - length sig) payload = signed_text name (dec_int t) v"
    by (simp add: payload_def signed_text_def)
  have "sint (word_of_int now - life) = now - sint life"
  proof -
    have "word_of_int now - life = word_of_int (now - sint life)" by simp
    moreover have "sint (word_of_int (now - sint life) :: 64 word) = now - sint life"
      using assms(4-9) by (intro sint_of_int) auto
    ultimately show ?thesis by simp
  qed
  moreover have "ParseInt (dec_int t) 64 = Inr t" using assms(4,5) by (intro ParseInt_dec) auto
  moreover have "decrypt ops (encrypt ops iv b) = Some b" "gobDecode ops b = Some d"
    using decrypt_encrypt [OF assms(3)] assms(2) [OF b] by simp_all
  ultimately show ?thesis
    using assms(6,7) split signed by (simp add: decodeCookie_def cookie decode_encode v_def sig_def Let_def)
qed

text \<open>
  \<^bold>\<open>C28\<close>. A cookie is decoded to the data it was made of, at any time from its making to the end of its life, by
  whoever has the keys.
\<close>

theorem cookie_roundtrip:
  assumes "encodeCookie ops iv t hashKey name d = Inr cookie"
    and "\<And>b. gobEncode ops d = Some b \<Longrightarrow> b \<noteq> [] \<and> gobDecode ops b = Some d" and "length iv = BlockSize ops"
    and "- (2 ^ 63) \<le> t" "t < 2 ^ 63" "t \<le> now" "now \<le> t + sint life" "- (2 ^ 63) \<le> now - sint life" "now < 2 ^ 63"
  shows "decodeCookie ops now hashKey name cookie life = Inr d"
  by (rule decodeCookie_encodeCookie [OF assms])

definition demo_cookie :: "string cookie_ops" where
  "demo_cookie = \<lparr>BlockSize = 1, keyStream = \<lambda>iv i. CHR ''k'', hmac_sum = \<lambda>k t. k @ ''|'', gobEncode = \<lambda>d. Some (''g'' @ d),
     gobDecode = \<lambda>b. Some (tl b)\<rparr>"

theorem cookie_roundtrip_witness:
  "\<exists>cookie. encodeCookie demo_cookie ''i'' 1000 ''key'' ''sid'' ''data'' = Inr cookie \<and>
            decodeCookie demo_cookie 1050 ''key'' ''sid'' cookie 60 = Inr ''data''"
proof -
  obtain cookie where c: "encodeCookie demo_cookie ''i'' 1000 ''key'' ''sid'' ''data'' = Inr cookie"
    by (simp add: encodeCookie_def demo_cookie_def Let_def)
  have "decodeCookie demo_cookie 1050 ''key'' ''sid'' cookie 60 = Inr ''data''"
    by (rule cookie_roundtrip [OF c]) (auto simp: demo_cookie_def)
  with c show ?thesis by blast
qed

lemma split_n_3:
  assumes "split_n 3 c b = [p0, p1, p2]"
  shows "b = p0 @ [c] @ p1 @ [c] @ p2"
  using join_split_n [of c 2 b] assms by (simp add: numeral_3_eq_3)

text \<open>
  \<^bold>\<open>C29\<close>. Only authentic cookies are accepted: a cookie that decodes carries the MAC of its name, date and value
  under the key, and its date is neither in the future nor older than its life.
\<close>

theorem cookie_authentic:
  assumes "decodeCookie ops now hashKey name v life = Inr d"
  shows "\<exists>date val t. base64_decode v = Some (date @ ''|'' @ val @ ''|'' @ hmac_sum ops hashKey (signed_text name date val)) \<and>
           ParseInt date 64 = Inr t \<and> sint (word_of_int now - life) \<le> t \<and> t \<le> now"
proof -
  obtain b where b: "base64_decode v = Some b" using assms by (auto simp: decodeCookie_def split: option.splits)
  obtain p0 p1 p2 where s: "split_n 3 (CHR ''|'') b = [p0, p1, p2]"
    using assms b by (auto simp: decodeCookie_def split: list.splits)
  have eq: "b = p0 @ ''|'' @ p1 @ ''|'' @ p2" using split_n_3 [OF s] by simp
  then have "name @ ''|'' @ take (length b - length p2) b = signed_text name p0 p1" by (simp add: signed_text_def)
  then have sig: "hmac_sum ops hashKey (signed_text name p0 p1) = p2"
    using assms b s by (auto simp: decodeCookie_def Let_def split: if_splits)
  have "\<exists>t. ParseInt p0 64 = Inr t \<and> sint (word_of_int now - life) \<le> t \<and> t \<le> now"
    using assms b s by (cases "ParseInt p0 64") (auto simp: decodeCookie_def Let_def split: if_splits)
  then show ?thesis using b eq sig by blast
qed

theorem cookie_authentic_witness:
  "\<exists>cookie date val t. decodeCookie demo_cookie 1050 ''key'' ''sid'' cookie 60 = Inr ''data'' \<and>
     base64_decode cookie = Some (date @ ''|'' @ val @ ''|'' @ hmac_sum demo_cookie ''key'' (signed_text ''sid'' date val)) \<and>
     ParseInt date 64 = Inr t \<and> t \<le> 1050"
proof -
  obtain p where p: "encodeCookie demo_cookie ''i'' 1000 ''key'' ''sid'' ''data'' = Inr p"
    by (simp add: encodeCookie_def demo_cookie_def Let_def)
  have d: "decodeCookie demo_cookie 1050 ''key'' ''sid'' p 60 = Inr ''data''"
    by (rule decodeCookie_encodeCookie [OF p]) (auto simp: demo_cookie_def)
  from cookie_authentic [OF d] d show ?thesis by blast
qed

end
