(* ===== verification/Http_Request.thy ===== *)
theory Http_Request
  imports Session_Manager Session_Cookie Path_Util
begin

text \<open>
  \<^verbatim>\<open>src/api/context_request.go\<close>: what a handler asks about its request (scheme, host, addresses, accepted types,
  parameters), secure cookies (with \<^verbatim>\<open>SetSecureCookie\<close> of \<^verbatim>\<open>src/api/context_response.go\<close>), and the names under
  which uploaded files are stored.
\<close>

subsection \<open>The request\<close>

record Req =
  URLPath :: string
  URLScheme :: string
  hasTLS :: bool
  ReqHost :: string
  RemoteAddr :: string
  ReqMethod :: string
  ReqHeader :: "string \<Rightarrow> string list option"
  ReqCookies :: "(string \<times> string) list"

definition HeaderParam :: "Req \<Rightarrow> string \<Rightarrow> string" where
  "HeaderParam r key = (case ReqHeader r (CanonicalMIMEHeaderKey key) of Some (v # _) \<Rightarrow> v | _ \<Rightarrow> '''')"

definition ModifyPath :: "string \<Rightarrow> Req \<Rightarrow> Req" where
  "ModifyPath p r = r\<lparr>URLPath := p\<rparr>"

definition Scheme :: "Req \<Rightarrow> string" where
  "Scheme r =
     (let scheme = HeaderParam r ''X-Forwarded-Proto'' in
      if scheme \<noteq> '''' then scheme
      else if URLScheme r \<noteq> '''' then URLScheme r
      else if \<not> hasTLS r then ''http''
      else ''https'')"

definition Site :: "Req \<Rightarrow> string" where
  "Site r = Scheme r @ ''://'' @ ReqHost r"

definition IsSecure :: "Req \<Rightarrow> bool" where
  "IsSecure r = (Scheme r = ''https'')"

text \<open>The host without its port; an address in brackets without them.\<close>

definition Domain_of :: "Req \<Rightarrow> string" where
  "Domain_of r =
     (let hostport = ReqHost r in
      case index_byte (CHR '':'') hostport of
        None \<Rightarrow> hostport
      | Some colon \<Rightarrow>
          (case index_byte (CHR '']'') hostport of
             Some i \<Rightarrow> TrimPrefix (take i hostport) ''[''
           | None \<Rightarrow> take colon hostport))"

fun index_str :: "string \<Rightarrow> string \<Rightarrow> nat option" where
  "index_str sub [] = (if sub = [] then Some 0 else None)"
| "index_str sub (c # cs) = (if prefix sub (c # cs) then Some 0 else map_option Suc (index_str sub cs))"

definition portString :: "string \<Rightarrow> string" where
  "portString hostport =
     (case index_byte (CHR '':'') hostport of
        None \<Rightarrow> ''''
      | Some colon \<Rightarrow>
          (case index_str '']:'' hostport of
             Some i \<Rightarrow> drop (i + 2) hostport
           | None \<Rightarrow> if contains_str hostport '']'' then '''' else drop (colon + 1) hostport))"

text \<open>The value \<^verbatim>\<open>strconv.Atoi\<close> returns beside an error: zero, or the nearest number when it is out of range.\<close>

definition Atoi_value :: "string \<Rightarrow> int" where
  "Atoi_value s =
     (case ParseInt s 64 of
        Inr i \<Rightarrow> i
      | Inl ErrSyntax \<Rightarrow> 0
      | Inl ErrRange \<Rightarrow> if hd s = CHR ''-'' then - (2 ^ 63) else 2 ^ 63 - 1)"

definition Port_of :: "Req \<Rightarrow> int" where
  "Port_of r = (let portStr = portString (ReqHost r) in if portStr = '''' then 80 else Atoi_value portStr)"

text \<open>The address of the client: everything in brackets is taken for the local machine.\<close>

definition ip_part :: "string \<Rightarrow> string" where
  "ip_part addr =
     (let ip = hd (split_on (CHR '':'') addr) in
      if ip = '''' then '''' else if hd ip \<noteq> CHR ''['' then ip else ''127.0.0.1'')"

definition IP :: "Req \<Rightarrow> string" where
  "IP r = ip_part (RemoteAddr r)"

definition Proxy :: "Req \<Rightarrow> string list" where
  "Proxy r = (let ips = HeaderParam r ''X-Forwarded-For'' in if ips \<noteq> '''' then split_on (CHR '','') ips else [])"

definition RealIP :: "Req \<Rightarrow> string" where
  "RealIP r =
     (let ip = HeaderParam r ''X-Real-IP''; ips = Proxy r in
      if ip \<noteq> '''' then ip
      else if ips \<noteq> [] \<and> hd ips \<noteq> '''' then ip_part (hd ips)
      else IP r)"

definition Is :: "string \<Rightarrow> Req \<Rightarrow> bool" where
  "Is method r = (ReqMethod r = method)"

definition IsAjax :: "Req \<Rightarrow> bool" where
  "IsAjax r = (HeaderParam r ''X-Requested-With'' = ''XMLHttpRequest'')"

definition IsWebsocket :: "Req \<Rightarrow> bool" where
  "IsWebsocket r = (HeaderParam r ''Upgrade'' = ''websocket'')"

definition IsUpload :: "Req \<Rightarrow> bool" where
  "IsUpload r = contains_str (HeaderParam r ''Content-Type'') ''multipart/form-data''"

text \<open>The regular expressions \<^verbatim>\<open>(a|b)(?:,|$)\<close>: an alternative before a comma or at the end.\<close>

definition accepts :: "string list \<Rightarrow> string \<Rightarrow> bool" where
  "accepts alts s = list_ex (\<lambda>a. contains_str s (a @ '','') \<or> HasSuffix s a) alts"

definition AcceptHTML :: "Req \<Rightarrow> bool" where
  "AcceptHTML r = accepts [''text/html'', ''application/xhtml+xml''] (HeaderParam r ''Accept'')"

definition AcceptXML :: "Req \<Rightarrow> bool" where
  "AcceptXML r = accepts [''application/xml'', ''text/xml''] (HeaderParam r ''Accept'')"

definition AcceptJSON :: "Req \<Rightarrow> bool" where
  "AcceptJSON r = accepts [''application/json''] (HeaderParam r ''Accept'')"

definition CookieParam :: "Req \<Rightarrow> string \<Rightarrow> string" where
  "CookieParam r key = (case map_of (ReqCookies r) key of Some v \<Rightarrow> v | None \<Rightarrow> '''')"

text \<open>\<^verbatim>\<open>Param\<close>: the parameter of the route (the routing package), the header, the cookie.\<close>

definition Param_of :: "(string \<Rightarrow> string) \<Rightarrow> Req \<Rightarrow> string \<Rightarrow> string" where
  "Param_of routeParam r key =
     (if routeParam key \<noteq> '''' then routeParam key
      else if HeaderParam r key \<noteq> '''' then HeaderParam r key
      else CookieParam r key)"

subsection \<open>Secure cookies\<close>

text \<open>
  The value \<^verbatim>\<open>SetSecureCookie\<close> sends and what \<^verbatim>\<open>SecureCookieParam\<close> makes of a cookie. \<open>mac\<close> is the MAC with its
  key first; \<open>partial\<close> are the bytes the base64 decoder returns beside an error, which is dropped.
\<close>

definition secure_sig :: "(string \<Rightarrow> string \<Rightarrow> string) \<Rightarrow> string \<Rightarrow> string \<Rightarrow> string \<Rightarrow> string" where
  "secure_sig mac secret vs timestamp = hex_EncodeToString (mac secret (vs @ timestamp))"

definition secure_cookie_value :: "(string \<Rightarrow> string \<Rightarrow> string) \<Rightarrow> int \<Rightarrow> string \<Rightarrow> string \<Rightarrow> string" where
  "secure_cookie_value mac now secret v =
     (let vs = base64_encode v; timestamp = dec_int now
      in join_with ''|'' [vs, timestamp, secure_sig mac secret vs timestamp])"

definition SecureCookieParam :: "(string \<Rightarrow> string \<Rightarrow> string) \<Rightarrow> (string \<Rightarrow> string) \<Rightarrow> string \<Rightarrow> Req \<Rightarrow> string \<Rightarrow> string option" where
  "SecureCookieParam mac partial secret r key =
     (let val = CookieParam r key in
      if val = '''' then None
      else (case split_n 3 (CHR ''|'') val of
              [vs, timestamp, sig] \<Rightarrow>
                if secure_sig mac secret vs timestamp \<noteq> sig then None
                else Some (case base64_decode vs of Some res \<Rightarrow> res | None \<Rightarrow> partial vs)
            | _ \<Rightarrow> None))"

subsection \<open>What they guarantee\<close>

lemma index_byte_first [simp]: "c \<notin> set s \<Longrightarrow> index_byte c (s @ c # t) = Some (length s)"
  by (induction s) auto

lemma index_str_first:
  "CHR '']'' \<notin> set s \<Longrightarrow> index_str '']:'' (s @ t) = map_option (\<lambda>i. length s + i) (index_str '']:'' t)"
  by (induction s) (cases "index_str '']:'' t"; auto)+

lemma contains_bracket: "contains_str s '']'' \<longleftrightarrow> CHR '']'' \<in> set s"
  by (induction s) auto

lemma Domain_at:
  "ReqHost r = hp \<Longrightarrow> index_byte (CHR '':'') hp = Some colon \<Longrightarrow>
     Domain_of r = (case index_byte (CHR '']'') hp of Some i \<Rightarrow> TrimPrefix (take i hp) ''['' | None \<Rightarrow> take colon hp)"
  by (simp add: Domain_of_def Let_def split: option.split)

lemma host_port_v6:
  assumes "CHR '']'' \<notin> set h" and "CHR '':'' \<in> set h" and hp: "hp = ''['' @ h @ '']:'' @ p"
  shows "ReqHost r = hp \<Longrightarrow> Domain_of r = h" and "portString hp = p"
proof -
  have "index_byte (CHR '':'') hp \<noteq> None" using assms(2) by (simp add: index_byte_None hp)
  then obtain colon where colon: "index_byte (CHR '':'') hp = Some colon" by blast
  have "index_byte (CHR '']'') hp = Some (Suc (length h))" using assms(1) by (simp add: hp)
  moreover have "TrimPrefix (take (Suc (length h)) hp) ''['' = h" by (simp add: hp TrimPrefix_def HasPrefix_def)
  ultimately show "ReqHost r = hp \<Longrightarrow> Domain_of r = h" using Domain_at [OF _ colon] by simp
  have "index_str '']:'' hp = Some (Suc (length h))"
    using index_str_first [of "''['' @ h" "'']:'' @ p"] assms(1) by (simp add: hp)
  moreover have "drop (Suc (length h) + 2) hp = p" by (simp add: hp)
  ultimately show "portString hp = p" using colon by (simp add: portString_def)
qed

lemma host_port_name:
  assumes "CHR '':'' \<notin> set h" and "CHR '']'' \<notin> set h" and "CHR '']'' \<notin> set p" and hp: "hp = h @ '':'' @ p"
  shows "ReqHost r = hp \<Longrightarrow> Domain_of r = h" and "portString hp = p"
proof -
  have colon: "index_byte (CHR '':'') hp = Some (length h)" using assms(1) by (simp add: hp)
  have none: "CHR '']'' \<notin> set hp" using assms by (simp add: hp)
  then have "index_byte (CHR '']'') hp = None" by (simp only: index_byte_None not_False_eq_True)
  then show "ReqHost r = hp \<Longrightarrow> Domain_of r = h" using Domain_at [OF _ colon] by (simp add: hp)
  have "index_str '']:'' hp = None" using index_str_first [OF none, of "[]"] by simp
  moreover have "\<not> contains_str hp '']''" using none by (simp only: contains_bracket not_False_eq_True)
  moreover have "drop (length h + 1) hp = p" by (simp add: hp)
  ultimately show "portString hp = p" using colon by (simp add: portString_def)
qed

lemma not_in_dec_int: "digit c = None \<Longrightarrow> c \<noteq> CHR ''-'' \<Longrightarrow> c \<notin> set (dec_int i)"
  using dec_nat_chars [of c] by (auto simp: dec_int_def)

lemma Atoi_dec: "0 \<le> i \<Longrightarrow> i < 2 ^ 63 \<Longrightarrow> Atoi_value (dec_int i) = i"
  using ParseInt_dec [of 64 i] by (simp add: Atoi_value_def)

text \<open>
  The host and the port of a request are read back from the \<^verbatim>\<open>Host\<close> header for a name with a port, an IPv6
  address in brackets with a port, and a bare name, whose port is 80.
\<close>

theorem host_roundtrip:
  assumes "CHR '':'' \<notin> set name" and "CHR '']'' \<notin> set name" and "CHR '':'' \<in> set v6" and "CHR '']'' \<notin> set v6"
    and "0 \<le> port" and "port < 65536"
  shows "Domain_of (r\<lparr>ReqHost := name @ '':'' @ dec_int port\<rparr>) = name \<and>
         Port_of (r\<lparr>ReqHost := name @ '':'' @ dec_int port\<rparr>) = port \<and>
         Domain_of (r\<lparr>ReqHost := ''['' @ v6 @ '']:'' @ dec_int port\<rparr>) = v6 \<and>
         Port_of (r\<lparr>ReqHost := ''['' @ v6 @ '']:'' @ dec_int port\<rparr>) = port \<and>
         Domain_of (r\<lparr>ReqHost := name\<rparr>) = name \<and> Port_of (r\<lparr>ReqHost := name\<rparr>) = 80"
proof -
  have bracket: "CHR '']'' \<notin> set (dec_int port)" by (rule not_in_dec_int) (simp_all add: digit_def)
  have "dec_int port \<noteq> []" by (simp add: dec_int_def)
  moreover have "Atoi_value (dec_int port) = port" using assms(5,6) by (intro Atoi_dec) auto
  moreover have "Domain_of (r\<lparr>ReqHost := name\<rparr>) = name" "Port_of (r\<lparr>ReqHost := name\<rparr>) = 80"
    using assms(1) by (simp_all add: Domain_of_def Port_of_def portString_def index_byte_None [THEN iffD2])
  ultimately show ?thesis
    using host_port_name [OF assms(1,2) bracket HOL.refl] host_port_v6 [OF assms(4,3) HOL.refl] by (simp add: Port_of_def Let_def)
qed

definition demo_req :: Req where
  "demo_req = \<lparr>URLPath = ''/'', URLScheme = '''', hasTLS = False, ReqHost = '''', RemoteAddr = ''[2001:db8::1]:4242'',
     ReqMethod = ''GET'', ReqHeader = Map.empty, ReqCookies = []\<rparr>"

theorem host_roundtrip_witness:
  "Domain_of (demo_req\<lparr>ReqHost := ''example.org:8080''\<rparr>) = ''example.org'' \<and> Port_of (demo_req\<lparr>ReqHost := ''[::1]:8080''\<rparr>) = 8080"
proof -
  have "char_of (56 :: nat) = CHR ''8''" "char_of (48 :: nat) = CHR ''0''"
    using char_of_char [of "CHR ''8''"] char_of_char [of "CHR ''0''"] by simp_all
  then have d: "dec_int 8080 = ''8080''" by (simp add: dec_int_def dec_nat.simps)
  show ?thesis using host_roundtrip [of "''example.org''" "''::1''" 8080 demo_req] by (simp add: d)
qed

text \<open>A client that connects over IPv6 is always taken for the local machine.\<close>

lemma ip_part_bracket: "ip_part (CHR ''['' # s) = ''127.0.0.1''"
proof -
  have "hd (split_on (CHR '':'') (CHR ''['' # s)) \<noteq> []" "hd (hd (split_on (CHR '':'') (CHR ''['' # s))) = CHR ''[''"
    by (cases "split_on (CHR '':'') s"; simp)+
  then show ?thesis by (simp add: ip_part_def Let_def)
qed

theorem IP_v6_is_local: "IP (r\<lparr>RemoteAddr := ''['' @ v6 @ '']:'' @ port\<rparr>) = ''127.0.0.1''"
  by (simp add: IP_def ip_part_bracket)

text \<open>The addresses of IPv4 clients are those before the port.\<close>

lemma IP_v4: "CHR '':'' \<notin> set a \<Longrightarrow> a \<noteq> [] \<Longrightarrow> hd a \<noteq> CHR ''['' \<Longrightarrow> IP (r\<lparr>RemoteAddr := a @ '':'' @ port\<rparr>) = a"
  by (simp add: IP_def ip_part_def split_on_sep)

lemma SecureCookieParam_parts:
  assumes "CookieParam r key = join_with ''|'' [vs, ts, secure_sig mac secret vs ts]"
    and "CHR ''|'' \<notin> set vs" and "CHR ''|'' \<notin> set ts" and "base64_decode vs = Some v"
  shows "SecureCookieParam mac partial secret r key = Some v"
proof -
  define sig where "sig = secure_sig mac secret vs ts"
  have "join_with ''|'' [vs, ts, sig] = vs @ ''|'' @ ts @ ''|'' @ sig" by simp
  with assms(1) split_signed [OF assms(2,3)] show ?thesis
    by (simp add: SecureCookieParam_def Let_def assms(4) flip: sig_def)
qed

lemma CookieParam_first [simp]: "CookieParam (r\<lparr>ReqCookies := (key, v) # cs\<rparr>) key = v"
  by (simp add: CookieParam_def)

text \<open>
  A secure cookie that a client sends back gives the value it was set to, under the secret it was set with.
\<close>

theorem secure_cookie_roundtrip:
  "SecureCookieParam mac partial secret (r\<lparr>ReqCookies := (key, secure_cookie_value mac now secret v) # cs\<rparr>) key = Some v"
  by (rule SecureCookieParam_parts [OF _ bar_not_encoded bar_not_digit decode_encode])
    (simp add: secure_cookie_value_def Let_def)

lemma decode_groups_append:
  "3 dvd length v \<Longrightarrow> decode_groups (base64_encode v @ t) = map_option ((@) v) (decode_groups t)"
proof (induction v rule: base64_encode.induct)
  case 1
  show ?case by (cases "decode_groups t") simp_all
next
  case (4 a b c cs)
  have b: "of_char b < (256 :: nat)" and c: "of_char c < (256 :: nat)" by simp_all
  have "3 dvd length cs" using 4(2) by simp presburger
  then show ?case
    using 4(1) by (cases "decode_groups t")
      (simp_all only: base64_encode.simps decode_groups.simps Let_def b64_val_char b64_char_neq byte_parts option.case prod.case simp_thms
        append.simps if_True if_False regroup [OF b c] char_of_char option.map)
next
  case (3 a b)
  have "\<not> 3 dvd Suc (Suc 0)" by presburger
  with 3 show ?case by simp
qed simp

lemma digit_is_b64:
  assumes "digit c \<noteq> None"
  shows "\<exists>n < 64. c = b64_char n"
proof -
  have r: "48 \<le> (of_char c :: nat)" "(of_char c :: nat) \<le> 57" using assms by (auto simp: digit_def Let_def split: if_splits)
  define n where "n = (of_char c :: nat) + 4"
  have "b64_code n = of_char c" using r by (simp add: n_def b64_code_def)
  then have "b64_char n = c" by (simp add: b64_char_def)
  moreover have "n < 64" using r by (simp add: n_def)
  ultimately show ?thesis by blast
qed

lemma dec_nat_length: "10 ^ k \<le> n \<Longrightarrow> k < length (dec_nat n)"
proof (induction k arbitrary: n)
  case (Suc k)
  then have "10 ^ k \<le> n div 10" by (simp add: less_eq_div_iff_mult_less_eq)
  moreover have "\<not> n < 10" using Suc.prems one_le_power [of "10 :: nat" k] unfolding power_Suc by linarith
  ultimately show ?case using Suc.IH by (subst dec_nat.simps) simp
qed simp

lemma digits_decode:
  assumes "\<And>c. c \<in> set ds \<Longrightarrow> digit c \<noteq> None" and "length ds = 4"
  shows "\<exists>w. decode_groups ds = Some w \<and> length w = 3"
proof -
  obtain a b c d where ds: "ds = [a, b, c, d]" using assms(2) by (auto simp: numeral_eq_Suc length_Suc_conv)
  have "\<exists>n < 64. x = b64_char n" if "x \<in> set ds" for x using that assms(1) digit_is_b64 by blast
  then obtain i j k l where "i < 64" "a = b64_char i" "j < 64" "b = b64_char j" "k < 64" "c = b64_char k" "l < 64" "d = b64_char l"
    by (metis ds list.set_intros)
  then show ?thesis by (simp add: ds b64_char_neq)
qed

text \<open>
  \<^bold>\<open>C31\<close>. The signature of a secure cookie does not separate the value from the time: a client that moves the first
  four digits of the time into the value of a cookie it was given has a cookie that is accepted with another value,
  three bytes longer, for values whose length is a multiple of three.
\<close>

theorem secure_cookie_malleable:
  assumes "3 dvd length v" and "1000 \<le> now"
  shows "\<exists>vs ts sig forged w. secure_cookie_value mac now secret v = join_with ''|'' [vs, ts, sig] \<and>
           forged = join_with ''|'' [vs @ take 4 ts, drop 4 ts, sig] \<and> length w = 3 \<and>
           SecureCookieParam mac partial secret (r\<lparr>ReqCookies := (key, forged) # cs\<rparr>) key = Some (v @ w)"
proof -
  define vs where "vs = base64_encode v"
  define ts where "ts = dec_int now"
  define sig where "sig = secure_sig mac secret vs ts"
  have ts: "ts = dec_nat (nat now)" using assms(2) by (simp add: ts_def dec_int_def)
  then have digits: "digit c \<noteq> None" if "c \<in> set ts" for c using that dec_nat_chars by auto
  have "3 < length ts" unfolding ts by (rule dec_nat_length) (use assms(2) in simp)
  then have "length (take 4 ts) = 4" by simp
  then obtain w where w: "decode_groups (take 4 ts) = Some w" "length w = 3"
    using digits_decode [of "take 4 ts"] digits in_set_takeD by metis
  have clean: "filter (\<lambda>c. c \<noteq> CHR 0x0A \<and> c \<noteq> CHR 0x0D) (vs @ take 4 ts) = vs @ take 4 ts"
  proof (intro filter_True ballI)
    fix c assume "c \<in> set (vs @ take 4 ts)"
    then have "b64_ok c"
      using encode_chars [of v] digits digit_is_b64 b64_ok_simps(2)
      by (fastforce simp: vs_def list_all_iff dest: in_set_takeD)
    then show "c \<noteq> CHR 0x0A \<and> c \<noteq> CHR 0x0D" using b64_ok_neq by blast
  qed
  have dec: "base64_decode (vs @ take 4 ts) = Some (v @ w)"
    unfolding base64_decode_def clean using decode_groups_append [OF assms(1), of "take 4 ts"] w(1) by (simp add: vs_def)
  have same: "secure_sig mac secret (vs @ take 4 ts) (drop 4 ts) = sig"
    by (simp add: sig_def secure_sig_def)
  have bars: "CHR ''|'' \<notin> set (vs @ take 4 ts)" "CHR ''|'' \<notin> set (drop 4 ts)"
    using bar_not_encoded [of v] bar_not_digit [of now] by (auto simp: vs_def ts_def dest: in_set_takeD in_set_dropD)
  have "SecureCookieParam mac partial secret (r\<lparr>ReqCookies := (key, join_with ''|'' [vs @ take 4 ts, drop 4 ts, sig]) # cs\<rparr>) key
      = Some (v @ w)"
    by (rule SecureCookieParam_parts [OF _ bars dec]) (simp only: CookieParam_first same)
  then show ?thesis using w(2) unfolding secure_cookie_value_def Let_def vs_def ts_def sig_def by blast
qed

theorem secure_cookie_malleable_witness:
  "\<exists>vs ts sig w. secure_cookie_value (\<lambda>k t. k @ t) 1700000000 ''key'' ''uid'' = join_with ''|'' [vs, ts, sig] \<and> length w = 3 \<and>
     SecureCookieParam (\<lambda>k t. k @ t) id ''key''
       (demo_req\<lparr>ReqCookies := [(''c'', join_with ''|'' [vs @ take 4 ts, drop 4 ts, sig])]\<rparr>) ''c'' = Some (''uid'' @ w)"
proof -
  have "3 dvd length ''uid''" by (simp add: eval_nat_numeral)
  from secure_cookie_malleable [OF this, of 1700000000] show ?thesis by fastforce
qed

end
