(* ===== verification/File_Upload.thy ===== *)
theory File_Upload
  imports Http_Request
begin

text \<open>
  Uploaded files of \<^verbatim>\<open>src/api/context_request.go\<close>: the name of an uploaded file, the search for a free numbered
  name, \<^verbatim>\<open>StoreFile\<close> and \<^verbatim>\<open>StoreFiles\<close> on a disk of files and directories. What fails in the operating system
  is an argument.
\<close>

subsection \<open>\<^verbatim>\<open>path/filepath\<close>\<close>

definition last_comp :: "string \<Rightarrow> string" where
  "last_comp p = rev (takeWhile (\<lambda>c. c \<noteq> CHR ''/'') (rev p))"

definition path_Split :: "string \<Rightarrow> string \<times> string" where
  "path_Split p = (let f = last_comp p in (take (length p - length f) p, f))"

definition path_Base :: "string \<Rightarrow> string" where
  "path_Base p =
     (if p = '''' then ''.''
      else let f = last_comp (trim_right (\<lambda>c. c = CHR ''/'') p) in if f = '''' then ''/'' else f)"

definition path_Ext :: "string \<Rightarrow> string" where
  "path_Ext p =
     (let q = takeWhile (\<lambda>c. c \<noteq> CHR ''/'' \<and> c \<noteq> CHR ''.'') (rev p) in
      case drop (length q) (rev p) of c # _ \<Rightarrow> if c = CHR ''.'' then c # rev q else '''' | [] \<Rightarrow> '''')"

definition last_index_str :: "string \<Rightarrow> string \<Rightarrow> nat option" where
  "last_index_str s sub = map_option (\<lambda>i. length s - length sub - i) (index_str (rev sub) (rev s))"

subsection \<open>Names of uploaded files\<close>

text \<open>An uploaded file: its header, its bytes, and what fails when it is opened, copied (after how many bytes) or closed.\<close>

record FileHeader =
  Filename :: string
  Disposition :: string
  Content :: string
  OpenErr :: "string option"
  CopyErr :: "(nat \<times> string) option"
  CloseErr :: "string option"

definition int_index :: "nat option \<Rightarrow> int" where
  "int_index i = (case i of None \<Rightarrow> - 1 | Some n \<Rightarrow> int n)"

definition given_name :: "FileHeader \<Rightarrow> string" where
  "given_name fh =
     (if contains_str (Filename fh) '':'' then
        (let sub = [CHR 0x22] @ ''; filename='' @ [CHR 0x22]; disp = Disposition fh in
         case index_str sub disp of
           None \<Rightarrow> Filename fh
         | Some idx \<Rightarrow>
             (let rest = drop (idx + length sub) disp in
              case index_byte (CHR 0x22) rest of None \<Rightarrow> Filename fh | Some j \<Rightarrow> take j rest))
      else Filename fh)"

definition fixFilename :: "FileHeader \<Rightarrow> string" where
  "fixFilename fh =
     (let name = trim_right (\<lambda>c. c = CHR 0x5C) (trim_right (\<lambda>c. c = CHR ''/'') (given_name fh));
          m = int_index (last_index_byte (CHR ''/'') name);
          n = int_index (last_index_byte (CHR 0x5C) name)
      in if m > n then drop (nat (m + 1)) name
         else if n > m then drop (nat (n + 1)) name
         else name)"

definition full_name :: "string \<Rightarrow> string list \<Rightarrow> string \<Rightarrow> string" where
  "full_name fileStoreDir overwriteFilenames filename =
     (case overwriteFilenames of
        [] \<Rightarrow> path_Join fileStoreDir filename
      | o1 # _ \<Rightarrow>
          if contains_str o1 ''?'' then path_Join fileStoreDir (replace_all ''?'' filename o1)
          else (let fname = trim_right (\<lambda>c. c = CHR ''.'') o1 in
                if path_Ext fname = '''' then path_Join fileStoreDir (fname @ path_Ext filename)
                else path_Join fileStoreDir fname))"

definition ext_index :: "string \<Rightarrow> nat" where
  "ext_index p = (case last_index_str p (path_Ext p) of Some i \<Rightarrow> i | None \<Rightarrow> 0)"

definition numbered :: "string \<Rightarrow> nat \<Rightarrow> string" where
  "numbered fullname i = (let idx = ext_index fullname in take idx fullname @ ''('' @ dec_nat i @ '')'' @ drop idx fullname)"

text \<open>The loop that looks for a free name; it has no bound.\<close>

partial_function (option) free_from :: "(string \<Rightarrow> bool) \<Rightarrow> bool \<Rightarrow> string \<Rightarrow> nat \<Rightarrow> string \<Rightarrow> (nat \<times> string) option" where
  "free_from ex cover fullname num cur =
     (if ex cur \<and> \<not> cover then free_from ex cover fullname (num + 1) (numbered fullname (num + 1)) else Some (num, cur))"

subsection \<open>The disk\<close>

text \<open>Directories are named without a slash at the end. \<open>statErr\<close>: \<^verbatim>\<open>os.Stat\<close> fails and not because the file is absent.\<close>

record Disk =
  Files :: "string \<rightharpoonup> string"
  Dirs :: "string \<Rightarrow> bool"

record OS =
  statErr :: "string \<Rightarrow> bool"
  mkdirErr :: "string \<Rightarrow> string option"
  openErr :: "string \<Rightarrow> string option"
  closeErr :: "string \<Rightarrow> string option"

definition FileExists :: "OS \<Rightarrow> Disk \<Rightarrow> string \<Rightarrow> bool" where
  "FileExists os d name = (Files d name \<noteq> None \<or> Dirs d name \<or> name = ''/'' \<or> statErr os name)"

definition os_MkdirAll :: "OS \<Rightarrow> string \<Rightarrow> Disk \<Rightarrow> string + Disk" where
  "os_MkdirAll os p d =
     (case mkdirErr os p of
        Some e \<Rightarrow> Inl e
      | None \<Rightarrow>
          if p = '''' then Inl ''mkdir : no such file or directory''
          else if list_ex (\<lambda>i. p ! i = CHR ''/'' \<and> Files d (take i p) \<noteq> None) [0..<length p] then Inl ''not a directory''
          else Inr (d\<lparr>Dirs := \<lambda>q. Dirs d q \<or> prefix (q @ ''/'') p\<rparr>))"

definition os_OpenFile :: "OS \<Rightarrow> string \<Rightarrow> Disk \<Rightarrow> string + Disk" where
  "os_OpenFile os p d =
     (let dir = fst (path_Split p) in
      case openErr os p of
        Some e \<Rightarrow> Inl e
      | None \<Rightarrow>
          if Dirs d p \<or> p = ''/'' then Inl ''is a directory''
          else if \<not> (dir = '''' \<or> dir = ''/'' \<or> Dirs d (butlast dir)) then Inl ''no such file or directory''
          else Inr (d\<lparr>Files := (Files d)(p \<mapsto> '''')\<rparr>))"

definition io_Copy :: "FileHeader \<Rightarrow> string \<Rightarrow> Disk \<Rightarrow> nat \<times> string option \<times> Disk" where
  "io_Copy fh p d =
     (let written = (case CopyErr fh of None \<Rightarrow> Content fh | Some (n, _) \<Rightarrow> take n (Content fh))
      in (length written, map_option snd (CopyErr fh), d\<lparr>Files := (Files d)(p \<mapsto> written)\<rparr>))"

subsection \<open>Storing\<close>

record UploadForm =
  ParseErr :: "string option"
  FormFiles :: "string \<Rightarrow> FileHeader list"

record StoredFileInfo =
  Url :: string
  Size :: nat

definition HasFormFile :: "UploadForm \<Rightarrow> string \<Rightarrow> bool" where
  "HasFormFile form key = (ParseErr form = None \<and> FormFiles form key \<noteq> [])"

definition FormFile :: "UploadForm \<Rightarrow> string \<Rightarrow> string + FileHeader" where
  "FormFile form key =
     (case ParseErr form of
        Some e \<Rightarrow> Inl e
      | None \<Rightarrow>
          (case FormFiles form key of
             [] \<Rightarrow> Inl ''http: no such file''
           | fh # _ \<Rightarrow> (case OpenErr fh of Some e \<Rightarrow> Inl e | None \<Rightarrow> Inr fh)))"

definition url_of :: "string \<Rightarrow> string" where
  "url_of fullname = ''/'' @ replace_all [CHR 0x5C] ''/'' fullname"

definition or_else :: "string option \<Rightarrow> string option \<Rightarrow> string option" where
  "or_else err err2 = (if err2 \<noteq> None \<and> err = None then err2 else err)"

text \<open>\<^verbatim>\<open>StoreFile\<close>; \<open>None\<close> when the search for a name does not end. The deferred function closes the upload.\<close>

definition StoreFile ::
    "OS \<Rightarrow> UploadForm \<Rightarrow> string \<Rightarrow> string \<Rightarrow> bool \<Rightarrow> string list \<Rightarrow> Disk \<Rightarrow> (StoredFileInfo \<times> string option \<times> Disk) option" where
  "StoreFile os form fileStoreDir key cover overwriteFilenames d =
     (case FormFile form key of
        Inl e \<Rightarrow> Some (\<lparr>Url = '''', Size = 0\<rparr>, Some e, d)
      | Inr fh \<Rightarrow>
          (let filename = path_Base (fixFilename fh);
               fullname = full_name fileStoreDir overwriteFilenames filename
           in case os_MkdirAll os (fst (path_Split fullname)) d of
                Inl e \<Rightarrow> Some (\<lparr>Url = '''', Size = 0\<rparr>, Some e, d)
              | Inr d1 \<Rightarrow>
                  (case free_from (FileExists os d1) cover fullname 1 fullname of
                     None \<Rightarrow> None
                   | Some (_, name) \<Rightarrow>
                       (case os_OpenFile os name d1 of
                          Inl e \<Rightarrow> Some (\<lparr>Url = url_of name, Size = 0\<rparr>, Some e, d1)
                        | Inr d2 \<Rightarrow>
                            (let (n, err, d3) = io_Copy fh name d2
                             in Some (\<lparr>Url = url_of name, Size = n\<rparr>, or_else (or_else err (closeErr os name)) (CloseErr fh), d3))))))"

definition open_or_mkdir :: "OS \<Rightarrow> string \<Rightarrow> Disk \<Rightarrow> (string \<times> Disk) + Disk" where
  "open_or_mkdir os name d =
     (case os_OpenFile os name d of
        Inr d1 \<Rightarrow> Inr d1
      | Inl _ \<Rightarrow>
          (case os_MkdirAll os (fst (path_Split name)) d of
             Inl e \<Rightarrow> Inl (e, d)
           | Inr d1 \<Rightarrow> (case os_OpenFile os name d1 of Inl e \<Rightarrow> Inl (e, d1) | Inr d2 \<Rightarrow> Inr d2)))"

text \<open>
  One round of the loop of \<^verbatim>\<open>StoreFiles\<close>; \<open>filemap\<close> counts the names. The error of the copy does not end the loop.
\<close>

definition store_one ::
    "OS \<Rightarrow> string \<Rightarrow> bool \<Rightarrow> string list \<Rightarrow> (string \<Rightarrow> nat) \<Rightarrow> FileHeader \<Rightarrow> Disk \<Rightarrow>
     ((string \<times> Disk) + (StoredFileInfo \<times> string option \<times> (string \<Rightarrow> nat) \<times> Disk)) option" where
  "store_one os dir cover names filemap fh d =
     (case OpenErr fh of
        Some e \<Rightarrow> Some (Inl (e, d))
      | None \<Rightarrow>
          (let fullname = full_name dir names (path_Base (fixFilename fh));
               num = filemap fullname + 1;
               cur = (if num \<ge> 2 then numbered fullname num else fullname)
           in case free_from (FileExists os d) cover fullname num cur of
                None \<Rightarrow> None
              | Some (num', name) \<Rightarrow>
                  Some (case open_or_mkdir os name d of
                          Inl (e, d1) \<Rightarrow> Inl (e, d1)
                        | Inr d1 \<Rightarrow>
                            (let (n, cerr, d2) = io_Copy fh name d1 in
                             case (cerr, closeErr os name) of
                               (None, Some e) \<Rightarrow> Inl (e, d2)
                             | _ \<Rightarrow> Inr (\<lparr>Url = url_of name, Size = n\<rparr>, cerr, filemap(fullname := num'), d2)))))"

text \<open>The deferred calls close the uploads, the last one first; \<open>err\<close> is the named result, which the next upload overwrites.\<close>

definition run_closes :: "string option list \<Rightarrow> string option \<Rightarrow> string option" where
  "run_closes closes err = foldl or_else err closes"

fun store_loop ::
    "OS \<Rightarrow> string \<Rightarrow> bool \<Rightarrow> string list \<Rightarrow> (string \<Rightarrow> nat) \<Rightarrow> StoredFileInfo list \<Rightarrow> string option \<Rightarrow> string option list \<Rightarrow>
     FileHeader list \<Rightarrow> Disk \<Rightarrow> (StoredFileInfo list \<times> string option \<times> Disk) option" where
  "store_loop os dir cover names filemap infos err closes [] d = Some (infos, run_closes closes err, d)"
| "store_loop os dir cover names filemap infos err closes (fh # fhs) d =
     (case store_one os dir cover names filemap fh d of
        None \<Rightarrow> None
      | Some (Inl (e, d1)) \<Rightarrow> Some (infos, Some e, d1)
      | Some (Inr (info, cerr, filemap', d1)) \<Rightarrow>
          store_loop os dir cover names filemap' (infos @ [info]) cerr (CloseErr fh # closes) fhs d1)"

definition StoreFiles ::
    "OS \<Rightarrow> UploadForm \<Rightarrow> string \<Rightarrow> string \<Rightarrow> bool \<Rightarrow> string list \<Rightarrow> Disk \<Rightarrow> (StoredFileInfo list \<times> string option \<times> Disk) option" where
  "StoreFiles os form fileStoreDir key cover overwriteFilenames d =
     (if \<not> HasFormFile form key then Some ([], Some (''there are no file param: '' @ key), d)
      else store_loop os fileStoreDir cover overwriteFilenames (\<lambda>_. 0) [] None [] (FormFiles form key) d)"

subsection \<open>Free names\<close>

lemma index_str_prefix: "prefix sub s \<Longrightarrow> index_str sub s = Some 0"
  by (cases s) auto

lemma last_index_suffix: "suffix sub s \<Longrightarrow> last_index_str s sub = Some (length s - length sub)"
  by (simp add: last_index_str_def index_str_prefix suffix_to_prefix)

lemma path_Ext_suffix: "suffix (path_Ext p) p"
proof -
  define q where "q = takeWhile (\<lambda>c. c \<noteq> CHR ''/'' \<and> c \<noteq> CHR ''.'') (rev p)"
  define r where "r = drop (length q) (rev p)"
  have "rev p = q @ r" unfolding q_def r_def by (metis takeWhile_dropWhile_id dropWhile_eq_drop)
  then have "p = rev r @ rev q" by (metis rev_append rev_rev_ident)
  moreover have "path_Ext p = (case r of c # _ \<Rightarrow> if c = CHR ''.'' then c # rev q else '''' | [] \<Rightarrow> '''')"
    by (simp only: path_Ext_def Let_def q_def r_def)
  ultimately show ?thesis by (cases r) (simp_all add: suffix_def)
qed

lemma ext_index_eq: "ext_index p = length p - length (path_Ext p)"
  by (simp add: ext_index_def last_index_suffix [OF path_Ext_suffix])

lemma dec_nat_inj: "dec_nat m = dec_nat n \<Longrightarrow> m = n"
  by (metis digits_value_dec of_nat_eq_iff option.inject)

lemma numbered_inj: "numbered p i = numbered p j \<Longrightarrow> i = j"
  using dec_nat_inj by (simp add: numbered_def Let_def)

lemma free_from_cover [simp]: "free_from ex True full num cur = Some (num, cur)"
  by (simp add: free_from.simps)

lemma free_from_free: "\<not> ex cur \<Longrightarrow> free_from ex cover full num cur = Some (num, cur)"
  by (simp add: free_from.simps)

lemma free_from_next:
  "ex cur \<Longrightarrow> free_from ex False full num cur = free_from ex False full (num + 1) (numbered full (num + 1))"
  by (subst free_from.simps) simp

lemma free_from_finds:
  assumes "\<not> ex (numbered full (num + k))" and "0 < k"
  shows "\<exists>r. free_from ex False full num cur = Some r"
  using assms
proof (induction k arbitrary: num cur)
  case (Suc k)
  show ?case
  proof (cases "ex cur")
    case True
    show ?thesis
    proof (cases "k = 0")
      case True
      then show ?thesis using Suc.prems \<open>ex cur\<close> by (simp add: free_from_next free_from_free)
    next
      case False
      then show ?thesis using Suc.IH [of "num + 1" "numbered full (num + 1)"] Suc.prems \<open>ex cur\<close> by (simp add: free_from_next)
    qed
  qed (simp add: free_from_free)
qed simp

lemma free_from_result:
  assumes "free_from ex cover full num cur = Some (num', name)"
  shows "cover \<or> \<not> ex name" and "num \<le> num'" and "name = cur \<and> num' = num \<or> name = numbered full num' \<and> num < num'"
proof -
  define P where "P = (\<lambda>ex cover full (num :: nat) cur r.
      (cover \<or> \<not> ex (snd r)) \<and> num \<le> fst r \<and> (snd r = cur \<and> fst r = num \<or> snd r = numbered full (fst r) \<and> num < fst r))"
  have "P ex cover full num cur (num', name)"
  proof (rule free_from.raw_induct [OF _ assms])
    fix f ex cover full num cur r
    assume IH: "\<And>ex cover full num cur r. f ex cover full num cur = Some r \<Longrightarrow> P ex cover full num cur r"
      and step: "(if ex cur \<and> \<not> cover then f ex cover full (num + 1) (numbered full (num + 1)) else Some (num, cur)) = Some r"
    show "P ex cover full num cur r"
    proof (cases "ex cur \<and> \<not> cover")
      case True
      then have "P ex cover full (num + 1) (numbered full (num + 1)) r" using step by (intro IH) simp
      then show ?thesis unfolding P_def by auto
    next
      case False
      then show ?thesis using step by (auto simp: P_def)
    qed
  qed
  then show "cover \<or> \<not> ex name" and "num \<le> num'" and "name = cur \<and> num' = num \<or> name = numbered full num' \<and> num < num'"
    unfolding P_def by simp_all
qed

text \<open>The search ends exactly when a name is free.\<close>

lemma free_from_none:
  assumes "ex cur" and "\<And>i. num < i \<Longrightarrow> ex (numbered full i)"
  shows "free_from ex False full num cur = None"
proof (rule ccontr)
  assume "free_from ex False full num cur \<noteq> None"
  then obtain num' name where "free_from ex False full num cur = Some (num', name)" by auto
  from free_from_result [OF this] assms show False by auto
qed

lemma free_from_returns:
  assumes "finite {p. ex p}"
  shows "\<exists>r. free_from ex cover full num cur = Some r"
proof (cases cover)
  case False
  have "infinite (numbered full ` {num<..})"
    by (meson finite_imageD infinite_Ioi inj_onI numbered_inj)
  then obtain p where "p \<in> numbered full ` {num<..}" "\<not> ex p" using assms by (metis (mono_tags) finite_subset mem_Collect_eq subsetI)
  then obtain i where "num < i" "\<not> ex (numbered full i)" by auto
  then show ?thesis using False free_from_finds [of ex full num "i - num"] by simp
qed simp

subsection \<open>Names stay in the directory\<close>

lemma last_index_after:
  assumes "last_index_byte c s = Some i"
  shows "c \<notin> set (drop (Suc i) s)"
proof -
  obtain j where j: "index_byte c (rev s) = Some j" "i = length s - Suc j" using assms by (auto simp: last_index_byte_def)
  then have "j < length s" "c \<notin> set (take j (rev s))" using index_byte_SomeD [of c "rev s" j] by auto
  then have "c \<notin> set (drop (length s - j) s)" by (simp add: take_rev)
  then show ?thesis using j \<open>j < length s\<close> by (simp add: Suc_diff_Suc)
qed

lemma last_index_none: "last_index_byte c s = None \<longleftrightarrow> c \<notin> set s"
  by (simp add: last_index_byte_def index_byte_None)

lemma int_index_after: "int_index (last_index_byte c s) \<le> k \<Longrightarrow> c \<notin> set (drop (nat (k + 1)) s)"
proof (cases "last_index_byte c s")
  case None
  then show ?thesis by (auto simp: last_index_none dest: in_set_dropD)
next
  case (Some i)
  assume "int_index (last_index_byte c s) \<le> k"
  then have "Suc i \<le> nat (k + 1)" using Some by (simp add: int_index_def)
  then show ?thesis using last_index_after [OF Some] set_drop_subset_set_drop by fastforce
qed

lemma fixFilename_no_separator: "CHR ''/'' \<notin> set (fixFilename fh) \<and> CHR 0x5C \<notin> set (fixFilename fh)"
proof -
  define name where "name = trim_right (\<lambda>c. c = CHR 0x5C) (trim_right (\<lambda>c. c = CHR ''/'') (given_name fh))"
  define m where "m = int_index (last_index_byte (CHR ''/'') name)"
  define n where "n = int_index (last_index_byte (CHR 0x5C) name)"
  have f: "fixFilename fh = (if m > n then drop (nat (m + 1)) name else if n > m then drop (nat (n + 1)) name else name)"
    by (simp only: fixFilename_def Let_def name_def m_def n_def)
  have after: "m \<le> k \<Longrightarrow> n \<le> k \<Longrightarrow> CHR ''/'' \<notin> set (drop (nat (k + 1)) name) \<and> CHR 0x5C \<notin> set (drop (nat (k + 1)) name)" for k
    unfolding m_def n_def using int_index_after by blast
  have "m = n \<Longrightarrow> m = - 1"
  proof (rule ccontr)
    assume eq: "m = n" and "m \<noteq> - 1"
    then obtain i j where i: "last_index_byte (CHR ''/'') name = Some i" and j: "last_index_byte (CHR 0x5C) name = Some j" and "i = j"
      by (auto simp: m_def n_def int_index_def split: option.splits)
    have at: "name ! k = c" if "last_index_byte c name = Some k" for c k
      using that index_byte_SomeD [of c "rev name"] by (auto simp: last_index_byte_def rev_nth)
    from at [OF i] at [OF j] \<open>i = j\<close> show False by simp
  qed
  then show ?thesis unfolding f using after [of m] after [of n] after [of "- 1"] by (auto split: if_split)
qed

lemma takeWhile_stop: "\<not> P x \<Longrightarrow> takeWhile P (xs @ x # ys) = takeWhile P xs"
  by (induction xs) auto

lemma last_comp_no_slash: "CHR ''/'' \<notin> set s \<Longrightarrow> last_comp s = s"
  unfolding last_comp_def by (subst takeWhile_eq_all_conv [THEN iffD2]) auto

lemma last_comp_under: "CHR ''/'' \<notin> set n \<Longrightarrow> last_comp (d @ CHR ''/'' # n) = n"
  using last_comp_no_slash [of n] by (simp add: last_comp_def takeWhile_stop)

lemma path_Base_no_slash: "CHR ''/'' \<notin> set s \<Longrightarrow> path_Base s = (if s = '''' then ''.'' else s)"
proof -
  assume s: "CHR ''/'' \<notin> set s"
  then have "trim_right (\<lambda>c. c = CHR ''/'') s = s" by (intro trim_right_id) (metis last_in_set)
  then show ?thesis using last_comp_no_slash [OF s] by (simp add: path_Base_def Let_def)
qed

text \<open>The name under which an upload is stored: a plain name, or one of the two names of directories.\<close>

lemma upload_name_cases:
  "path_Base (fixFilename fh) = ''.'' \<or> path_Base (fixFilename fh) = ''..'' \<or> proper_name (path_Base (fixFilename fh))"
  using fixFilename_no_separator [of fh] by (auto simp: path_Base_no_slash proper_name_def)

lemma path_Ext_under:
  assumes "CHR ''/'' \<notin> set n"
  shows "path_Ext (d @ CHR ''/'' # n) = path_Ext n"
proof -
  let ?p = "\<lambda>c. c \<noteq> CHR ''/'' \<and> c \<noteq> CHR ''.''"
  have tw: "takeWhile ?p (rev n @ CHR ''/'' # rev d) = takeWhile ?p (rev n)"
    by (rule takeWhile_stop) simp
  show ?thesis
  proof (cases "drop (length (takeWhile ?p (rev n))) (rev n)")
    case Nil
    then have "length (takeWhile ?p (rev n)) = length n" 
      by (metis drop_eq_Nil length_rev length_takeWhile_le le_antisym)
    then show ?thesis using Nil tw by (simp add: path_Ext_def Let_def)
  next
    case (Cons c cs)
    then show ?thesis using tw by (simp add: path_Ext_def Let_def)
  qed
qed

lemma numbered_under:
  assumes "CHR ''/'' \<notin> set n"
  shows "numbered (d @ CHR ''/'' # n) i = d @ CHR ''/'' # numbered n i"
proof -
  have "length (path_Ext n) \<le> length n" using path_Ext_suffix suffix_length_le by blast
  then show ?thesis
    by (simp add: numbered_def Let_def ext_index_eq path_Ext_under [OF assms] Suc_diff_le)
qed

lemma numbered_proper: "proper_name n \<Longrightarrow> proper_name (numbered n i)"
proof -
  assume n: "proper_name n"
  have "digit (CHR ''/'') = None" by (simp add: digit_def)
  then have "CHR ''/'' \<notin> set (dec_nat i)" using dec_nat_chars by fastforce
  then have "CHR ''/'' \<notin> set (numbered n i)" using n by (auto simp: numbered_def Let_def proper_name_def dest: in_set_takeD in_set_dropD)
  moreover have "CHR ''('' \<in> set (numbered n i)" by (simp add: numbered_def Let_def)
  moreover have "CHR ''('' \<notin> set ''.''" "CHR ''('' \<notin> set ''..''" by simp_all
  ultimately show ?thesis unfolding proper_name_def by (metis list.set_intros(1) empty_iff list.set(1))
qed

subsection \<open>Storing keeps what is there\<close>

lemma os_MkdirAll_files: "os_MkdirAll os p d = Inr d1 \<Longrightarrow> Files d1 = Files d"
  by (auto simp: os_MkdirAll_def split: option.splits if_splits)

lemma os_OpenFile_files: "os_OpenFile os p d = Inr d1 \<Longrightarrow> Files d1 = (Files d)(p \<mapsto> '''')"
  by (auto simp: os_OpenFile_def Let_def split: option.splits if_splits)

lemma open_or_mkdir_files: "open_or_mkdir os p d = Inr d1 \<Longrightarrow> Files d1 = (Files d)(p \<mapsto> '''')"
  by (auto simp: open_or_mkdir_def os_OpenFile_files os_MkdirAll_files split: sum.splits)

lemma open_or_mkdir_failed: "open_or_mkdir os p d = Inl (e, d1) \<Longrightarrow> Files d1 = Files d"
  by (auto simp: open_or_mkdir_def os_MkdirAll_files split: sum.splits)

lemma io_Copy_files:
  assumes "io_Copy fh p d = (n, err, d')"
  shows "\<exists>w. Files d' = (Files d)(p \<mapsto> w) \<and> (err = None \<longrightarrow> w = Content fh \<and> n = length (Content fh)) \<and> (err = None \<longleftrightarrow> CopyErr fh = None)"
  using assms by (cases "CopyErr fh") (auto simp: io_Copy_def Let_def)

lemma or_else_none [simp]: "or_else a b = None \<longleftrightarrow> a = None \<and> b = None"
  by (auto simp: or_else_def)

lemma free_name_fresh: "free_from (FileExists os d) False full num cur = Some (num', name) \<Longrightarrow> Files d name = None"
  using free_from_result(1) by (fastforce simp: FileExists_def)

lemma StoreFile_cases:
  assumes "StoreFile os form dir key cover names d = Some (info, err, d')" and "FormFile form key = Inr fh"
    and "full = full_name dir names (path_Base (fixFilename fh))"
  obtains (failed) "Files d' = Files d" and "err \<noteq> None"
    | (stored) d1 num name w where "Files d1 = Files d" "free_from (FileExists os d1) cover full 1 full = Some (num, name)"
        "Files d' = (Files d)(name \<mapsto> w)" "err = None \<Longrightarrow> w = Content fh \<and> info = \<lparr>Url = url_of name, Size = length (Content fh)\<rparr>"
proof (cases "os_MkdirAll os (fst (path_Split full)) d")
  case (Inl e)
  then show thesis using assms by (intro failed) (auto simp: StoreFile_def Let_def)
next
  case (Inr d1)
  note mk = this
  obtain num name where free: "free_from (FileExists os d1) cover full 1 full = Some (num, name)"
    using assms mk by (auto simp: StoreFile_def Let_def split: option.splits)
  show thesis
  proof (cases "os_OpenFile os name d1")
    case (Inl e)
    then show thesis using assms mk free os_MkdirAll_files [OF mk] by (intro failed) (auto simp: StoreFile_def Let_def)
  next
    case (Inr d2)
    obtain k cerr d3 where c: "io_Copy fh name d2 = (k, cerr, d3)" by (cases "io_Copy fh name d2") auto
    have r: "d' = d3" "info = \<lparr>Url = url_of name, Size = k\<rparr>" "err = None \<Longrightarrow> cerr = None"
      using assms mk free Inr c by (auto simp: StoreFile_def Let_def)
    obtain w where w: "Files d3 = (Files d2)(name \<mapsto> w)" "cerr = None \<longrightarrow> w = Content fh \<and> k = length (Content fh)"
      using io_Copy_files [OF c] by blast
    show thesis
      using stored [OF os_MkdirAll_files [OF mk] free, of w] r w os_OpenFile_files [OF Inr] os_MkdirAll_files [OF mk] by simp
  qed
qed

lemma full_name_inside:
  assumes "abs_dir dir" and "proper_name n" and "free_from ex cover (full_name dir [] n) num (full_name dir [] n) = Some (num', name)"
  shows "\<exists>m. proper_name m \<and> name = dir @ ''/'' @ m"
proof -
  have full: "full_name dir [] n = dir @ CHR ''/'' # n" using path_Join_abs [OF assms(1,2)] by (simp add: full_name_def)
  have "CHR ''/'' \<notin> set n" using assms(2) by (simp add: proper_name_def)
  then show ?thesis using free_from_result(3) [OF assms(3)] numbered_proper [OF assms(2)] assms(2)
    by (auto simp: full numbered_under)
qed


lemma contains_char: "contains_str s [c] \<longleftrightarrow> c \<in> set s"
  by (induction s) auto

lemma fixFilename_id:
  assumes "CHR '':'' \<notin> set (Filename fh)" and "CHR ''/'' \<notin> set (Filename fh)" and "CHR 0x5C \<notin> set (Filename fh)"
  shows "fixFilename fh = Filename fh"
proof -
  have g: "given_name fh = Filename fh" using assms(1) by (simp add: given_name_def contains_char)
  have t: "trim_right (\<lambda>c. c = CHR ''/'') (Filename fh) = Filename fh" "trim_right (\<lambda>c. c = CHR 0x5C) (Filename fh) = Filename fh"
    using assms(2,3) by (intro trim_right_id; metis last_in_set)+
  have "last_index_byte (CHR ''/'') (Filename fh) = None" "last_index_byte (CHR 0x5C) (Filename fh) = None"
    using assms(2,3) by (simp_all only: last_index_none not_False_eq_True)
  then show ?thesis by (simp add: fixFilename_def Let_def g t int_index_def)
qed

lemma abs_dir_single: "proper_name n \<Longrightarrow> abs_dir (CHR ''/'' # n)"
  unfolding abs_dir_def by (intro exI [of _ "[n]"]) simp

definition demo_upload :: "string \<Rightarrow> FileHeader" where
  "demo_upload name = \<lparr>Filename = name, Disposition = '''', Content = ''data'', OpenErr = None, CopyErr = None, CloseErr = None\<rparr>"

definition demo_form :: "string list \<Rightarrow> UploadForm" where
  "demo_form names = \<lparr>ParseErr = None, FormFiles = \<lambda>key. map demo_upload names\<rparr>"

definition demo_os :: "(string \<Rightarrow> bool) \<Rightarrow> OS" where
  "demo_os stat = \<lparr>statErr = stat, mkdirErr = \<lambda>p. None, openErr = \<lambda>p. None, closeErr = \<lambda>p. None\<rparr>"

definition demo_disk :: Disk where
  "demo_disk = \<lparr>Files = [''/up/a.txt'' \<mapsto> ''old''], Dirs = \<lambda>p. p = ''/up''\<rparr>"

lemma demo_FormFile: "FormFile (demo_form (n # ns)) key = Inr (demo_upload n)"
  by (simp add: FormFile_def demo_form_def demo_upload_def)

subsection \<open>Storing ends\<close>

lemma os_MkdirAll_finite:
  assumes "os_MkdirAll os p d = Inr d1" and "finite {q. FileExists os d q}"
  shows "finite {q. FileExists os d1 q}"
proof -
  have "{q. FileExists os d1 q} \<subseteq> {q. FileExists os d q} \<union> set (prefixes p)"
    using assms(1) by (auto simp: os_MkdirAll_def FileExists_def prefix_def split: option.splits if_splits)
  then show ?thesis using assms(2) by (meson List.finite_set finite_UnI finite_subset)
qed

lemma put_finite: "Files d1 = (Files d)(p \<mapsto> w) \<Longrightarrow> Dirs d1 = Dirs d \<Longrightarrow> finite {q. FileExists os d q} \<Longrightarrow> finite {q. FileExists os d1 q}"
  by (rule finite_subset [of _ "insert p {q. FileExists os d q}"]) (auto simp: FileExists_def)

lemma os_OpenFile_finite: "os_OpenFile os p d = Inr d1 \<Longrightarrow> finite {q. FileExists os d q} \<Longrightarrow> finite {q. FileExists os d1 q}"
  by (rule put_finite [of d1 d p "''''"]) (auto simp: os_OpenFile_def Let_def split: option.splits if_splits)

lemma open_or_mkdir_finite: "open_or_mkdir os p d = Inr d1 \<Longrightarrow> finite {q. FileExists os d q} \<Longrightarrow> finite {q. FileExists os d1 q}"
  by (auto simp: open_or_mkdir_def split: sum.splits intro: os_OpenFile_finite os_MkdirAll_finite)

lemma io_Copy_finite: "io_Copy fh p d = (n, e, d1) \<Longrightarrow> finite {q. FileExists os d q} \<Longrightarrow> finite {q. FileExists os d1 q}"
  by (rule put_finite [of d1 d p]) (auto simp: io_Copy_def Let_def)

lemma store_one_returns:
  assumes "finite {q. FileExists os d q}"
  shows "\<exists>r. store_one os dir cover names fm fh d = Some r"
proof (cases "OpenErr fh")
  case None
  define full where "full = full_name dir names (path_Base (fixFilename fh))"
  obtain num' name where "free_from (FileExists os d) cover full (fm full + 1) (if fm full + 1 \<ge> 2 then numbered full (fm full + 1) else full)
      = Some (num', name)"
    using free_from_returns [OF assms] by (metis surj_pair)
  then show ?thesis by (simp only: store_one_def None Let_def option.case prod.case full_def) blast
qed (simp add: store_one_def)

lemma store_one_stored:
  assumes "store_one os dir cover names fm fh d = Some (Inr (info, cerr, fm', d2))"
  obtains full num cur num' name d1 n where "free_from (FileExists os d) cover full num cur = Some (num', name)"
    "open_or_mkdir os name d = Inr d1" "io_Copy fh name d1 = (n, cerr, d2)" "info = \<lparr>Url = url_of name, Size = n\<rparr>"
proof -
  define full where "full = full_name dir names (path_Base (fixFilename fh))"
  define cur where "cur = (if fm full + 1 \<ge> 2 then numbered full (fm full + 1) else full)"
  have "OpenErr fh = None" using assms by (auto simp: store_one_def split: option.splits)
  then have r: "Some (Inr (info, cerr, fm', d2)) = (case free_from (FileExists os d) cover full (fm full + 1) cur of
       None \<Rightarrow> None
     | Some (num', name) \<Rightarrow>
         Some (case open_or_mkdir os name d of
                 Inl (e, d1) \<Rightarrow> Inl (e, d1)
               | Inr d1 \<Rightarrow>
                   (let (n, cerr, d2) = io_Copy fh name d1 in
                    case (cerr, closeErr os name) of
                      (None, Some e) \<Rightarrow> Inl (e, d2)
                    | _ \<Rightarrow> Inr (\<lparr>Url = url_of name, Size = n\<rparr>, cerr, fm(full := num'), d2))))"
    using assms by (simp only: store_one_def Let_def option.case full_def cur_def)
  obtain num' name where f: "free_from (FileExists os d) cover full (fm full + 1) cur = Some (num', name)"
    using r by (auto split: option.splits)
  obtain d1 where o: "open_or_mkdir os name d = Inr d1" using r f by (auto split: sum.splits)
  obtain n e d3 where c: "io_Copy fh name d1 = (n, e, d3)" by (cases "io_Copy fh name d1") auto
  have "e = cerr" "d3 = d2" "info = \<lparr>Url = url_of name, Size = n\<rparr>" using r f o c by (auto split: option.splits)
  then show thesis using that f o c by blast
qed

lemma store_loop_returns:
  "finite {q. FileExists os d q} \<Longrightarrow> \<exists>r. store_loop os dir cover names fm infos err closes fhs d = Some r"
proof (induction fhs arbitrary: fm infos err closes d)
  case (Cons fh fhs)
  obtain r where r: "store_one os dir cover names fm fh d = Some r" using store_one_returns [OF Cons.prems] by blast
  show ?case
  proof (cases r)
    case (Inr x)
    then obtain info cerr fm' d2 where x: "store_one os dir cover names fm fh d = Some (Inr (info, cerr, fm', d2))"
      using r by (cases x) auto
    then have "finite {q. FileExists os d2 q}"
      by (rule store_one_stored) (blast intro: io_Copy_finite open_or_mkdir_finite Cons.prems)
    then show ?thesis using Cons.IH x by simp
  qed (use r in auto)
qed simp

lemma StoreFile_returns:
  assumes fin: "finite {q. FileExists os d q}"
  shows "\<exists>r. StoreFile os form dir key cover names d = Some r"
proof (cases "FormFile form key")
  case (Inr fh)
  define full where "full = full_name dir names (path_Base (fixFilename fh))"
  show ?thesis
  proof (cases "os_MkdirAll os (fst (path_Split full)) d")
    case (Inr d1)
    obtain num name where free: "free_from (FileExists os d1) cover full 1 full = Some (num, name)"
      using free_from_returns [OF os_MkdirAll_finite [OF Inr fin]] by (metis surj_pair)
    show ?thesis
      using Inr free by (simp add: StoreFile_def \<open>FormFile form key = Inr fh\<close> Let_def full_def split: sum.split prod.split)
  qed (simp add: StoreFile_def Inr full_def Let_def)
qed (simp add: StoreFile_def)

text \<open>
  Storing uploads always ends when the names that \<^verbatim>\<open>os.Stat\<close> does not report as absent are finitely many.
\<close>

theorem uploads_return:
  assumes "finite {q. FileExists os d q}"
  shows "(\<exists>r. StoreFile os form dir key cover names d = Some r) \<and> (\<exists>r. StoreFiles os form dir key cover names d = Some r)"
  using StoreFile_returns [OF assms] store_loop_returns [OF assms] by (simp add: StoreFiles_def)

lemma demo_finite: "finite {q. FileExists (demo_os (\<lambda>p. False)) demo_disk q}"
  by (rule finite_subset [of _ "{''/up/a.txt'', ''/up'', ''/''}"])
    (auto simp: FileExists_def demo_os_def demo_disk_def split: if_splits)

theorem uploads_return_witness:
  "finite {q. FileExists (demo_os (\<lambda>p. False)) demo_disk q} \<and>
   (\<exists>r. StoreFile (demo_os (\<lambda>p. False)) (demo_form [''a.txt'']) ''/up'' ''f'' False [] demo_disk = Some r)"
  using uploads_return [OF demo_finite] demo_finite by blast


subsection \<open>Several uploads\<close>

lemma store_one_failed:
  assumes "store_one os dir False names fm fh d = Some (Inl (e, d1))"
  shows "Files d \<subseteq>\<^sub>m Files d1"
proof (cases "OpenErr fh")
  case None
  define full where "full = full_name dir names (path_Base (fixFilename fh))"
  define cur where "cur = (if fm full + 1 \<ge> 2 then numbered full (fm full + 1) else full)"
  obtain num' name where f: "free_from (FileExists os d) False full (fm full + 1) cur = Some (num', name)"
    using assms by (auto simp: store_one_def None Let_def full_def cur_def split: option.splits if_splits)
  have r: "Inl (e, d1) = (case open_or_mkdir os name d of
       Inl (e, d1) \<Rightarrow> Inl (e, d1)
     | Inr d1 \<Rightarrow>
         (let (n, cerr, d2) = io_Copy fh name d1 in
          case (cerr, closeErr os name) of
            (None, Some e) \<Rightarrow> Inl (e, d2)
          | _ \<Rightarrow> Inr (\<lparr>Url = url_of name, Size = n\<rparr>, cerr, fm(full := num'), d2)))"
    using assms f by (simp only: store_one_def None Let_def option.case prod.case full_def cur_def option.inject)
  have fresh: "Files d name = None" by (rule free_name_fresh [OF f])
  show ?thesis
  proof (cases "open_or_mkdir os name d")
    case (Inl x)
    then show ?thesis using r open_or_mkdir_failed [of os name d e d1] by (auto split: prod.splits)
  next
    case (Inr d2)
    obtain n cerr d3 where c: "io_Copy fh name d2 = (n, cerr, d3)" by (cases "io_Copy fh name d2") auto
    have "d1 = d3" using r Inr c by (auto split: option.splits)
    then show ?thesis using io_Copy_files [OF c] open_or_mkdir_files [OF Inr] fresh by (auto simp: map_le_def)
  qed
qed (use assms in \<open>simp add: store_one_def\<close>)

lemma store_one_kept:
  assumes "store_one os dir False names fm fh d = Some (Inr (info, cerr, fm', d2))"
  shows "\<exists>p. Files d p = None \<and> Files d \<subseteq>\<^sub>m Files d2 \<and> Files d2 p \<noteq> None \<and> Url info = url_of p \<and>
           (CopyErr fh = None \<longrightarrow> Files d2 p = Some (Content fh))"
  using assms
proof (rule store_one_stored)
  fix full num cur num' name d1 n
  assume f: "free_from (FileExists os d) False full num cur = Some (num', name)" and o: "open_or_mkdir os name d = Inr d1"
    and c: "io_Copy fh name d1 = (n, cerr, d2)" and "info = \<lparr>Url = url_of name, Size = n\<rparr>"
  then show ?thesis
    using free_name_fresh [OF f] io_Copy_files [OF c] open_or_mkdir_files [OF o] by (intro exI [of _ name]) (auto simp: map_le_def)
qed

lemma store_loop_keeps:
  "store_loop os dir False names fm infos err closes fhs d = Some (infos', err', d') \<Longrightarrow>
     Files d \<subseteq>\<^sub>m Files d' \<and>
     (\<exists>ps new. infos' = infos @ new \<and> length ps = length new \<and> distinct ps \<and> (\<forall>p \<in> set ps. Files d p = None) \<and>
        length new \<le> length fhs \<and> (err' = None \<longrightarrow> length new = length fhs) \<and>
        (\<forall>i < length new. Url (new ! i) = url_of (ps ! i) \<and> Files d' (ps ! i) \<noteq> None \<and>
           (CopyErr (fhs ! i) = None \<longrightarrow> Files d' (ps ! i) = Some (Content (fhs ! i)))))"
proof (induction fhs arbitrary: fm infos err closes d)
  case Nil
  then show ?case by (auto intro!: exI [of _ "[]"])
next
  case (Cons fh fhs)
  obtain r where r: "store_one os dir False names fm fh d = Some r" using Cons.prems by (auto split: option.splits)
  show ?case
  proof (cases r)
    case (Inl x)
    then show ?thesis using Cons.prems r store_one_failed by (cases x) (fastforce intro!: exI [of _ "[]"])
  next
    case (Inr x)
    then obtain info cerr fm' d2 where x: "store_one os dir False names fm fh d = Some (Inr (info, cerr, fm', d2))"
      using r by (cases x) auto
    obtain p where p: "Files d p = None" "Files d \<subseteq>\<^sub>m Files d2" "Files d2 p \<noteq> None" "Url info = url_of p"
        "CopyErr fh = None \<longrightarrow> Files d2 p = Some (Content fh)"
      using store_one_kept [OF x] by (elim exE conjE)
    obtain ps new where IH: "Files d2 \<subseteq>\<^sub>m Files d'" "infos' = (infos @ [info]) @ new" "length ps = length new" "distinct ps"
        "\<forall>q \<in> set ps. Files d2 q = None" "length new \<le> length fhs" "err' = None \<longrightarrow> length new = length fhs"
        "\<forall>i < length new. Url (new ! i) = url_of (ps ! i) \<and> Files d' (ps ! i) \<noteq> None \<and>
           (CopyErr (fhs ! i) = None \<longrightarrow> Files d' (ps ! i) = Some (Content (fhs ! i)))"
      using Cons.IH [of fm' "infos @ [info]" cerr "CloseErr fh # closes" d2] Cons.prems x by auto
    have "Files d' p = Files d2 p" using IH(1) p(3) by (metis domIff map_le_def)
    moreover have "Files d q = None" if "Files d2 q = None" for q using that p(2) by (metis domIff map_le_def)
    ultimately have fresh: "\<forall>q \<in> set (p # ps). Files d q = None" using IH(5) p(1) by simp
    have "\<forall>i < length (info # new). Url ((info # new) ! i) = url_of ((p # ps) ! i) \<and> Files d' ((p # ps) ! i) \<noteq> None \<and>
           (CopyErr ((fh # fhs) ! i) = None \<longrightarrow> Files d' ((p # ps) ! i) = Some (Content ((fh # fhs) ! i)))"
      unfolding length_Cons All_less_Suc2 nth_Cons_0 nth_Cons_Suc \<open>Files d' p = Files d2 p\<close> using p(3,4,5) IH(8) by blast
    moreover have "Files d \<subseteq>\<^sub>m Files d'" using p(2) IH(1) map_le_trans by blast
    moreover have "distinct (p # ps)" using IH(4,5) p(3) by auto
    ultimately show ?thesis
      using fresh IH(2,3,6,7) by (intro conjI exI [of _ "p # ps"] exI [of _ "info # new"]) (assumption | simp)+
  qed
qed

text \<open>
  Storing the uploads of a request without permission to overwrite keeps every file, those of the same
  request included: the uploads get different names that were free, and every upload whose copy did not fail is in
  its file at the end. All of them are stored when no error is returned.
\<close>

theorem StoreFiles_keeps:
  assumes "StoreFiles os form dir key False names d = Some (infos, err, d')"
  shows "Files d \<subseteq>\<^sub>m Files d' \<and>
     (\<exists>ps. length ps = length infos \<and> distinct ps \<and> (\<forall>p \<in> set ps. Files d p = None) \<and>
        (err = None \<longrightarrow> length infos = length (FormFiles form key)) \<and>
        (\<forall>i < length infos. Url (infos ! i) = url_of (ps ! i) \<and>
           (CopyErr (FormFiles form key ! i) = None \<longrightarrow> Files d' (ps ! i) = Some (Content (FormFiles form key ! i)))))"
proof (cases "HasFormFile form key")
  case True
  then have "store_loop os dir False names (\<lambda>_. 0) [] None [] (FormFiles form key) d = Some (infos, err, d')"
    using assms by (simp add: StoreFiles_def)
  from store_loop_keeps [OF this] show ?thesis by auto
next
  case False
  then show ?thesis using assms by (auto simp: StoreFiles_def intro!: exI [of _ "[]"])
qed

theorem StoreFiles_keeps_witness:
  "\<exists>infos err d' ps. StoreFiles (demo_os (\<lambda>p. False)) (demo_form [''a.txt'', ''a.txt'']) ''/up'' ''f'' False [] demo_disk = Some (infos, err, d') \<and>
     Files d' ''/up/a.txt'' = Some ''old'' \<and> length ps = length infos \<and> distinct ps \<and> (\<forall>p \<in> set ps. Files demo_disk p = None)"
proof -
  obtain infos err d' where r:
    "StoreFiles (demo_os (\<lambda>p. False)) (demo_form [''a.txt'', ''a.txt'']) ''/up'' ''f'' False [] demo_disk = Some (infos, err, d')"
    using store_loop_returns [OF demo_finite] by (metis StoreFiles_def surj_pair)
  from StoreFiles_keeps [OF r] obtain ps where ps: "length ps = length infos" "distinct ps"
      "\<forall>p \<in> set ps. Files demo_disk p = None" and le: "Files demo_disk \<subseteq>\<^sub>m Files d'"
    by blast
  have "Files demo_disk ''/up/a.txt'' = Some ''old''" by (simp add: demo_disk_def)
  then have "Files d' ''/up/a.txt'' = Some ''old''" using le by (auto simp: map_le_def dom_def)
  with ps r show ?thesis by blast
qed

text \<open>
  The search for a name takes every failure of \<^verbatim>\<open>os.Stat\<close> but absence for a file that exists: on a system
  that refuses names of more than 255 bytes an upload with a longer name is never answered.
\<close>

theorem long_name_never_returns:
  assumes "FormFile form key = Inr fh" and "\<And>p. statErr os p = (255 < length (last_comp p))"
    and "abs_dir dir" and "proper_name (path_Base (fixFilename fh))" and "255 < length (path_Base (fixFilename fh))"
    and "os_MkdirAll os (dir @ ''/'') d = Inr d1"
  shows "StoreFile os form dir key False [] d = None"
proof -
  define n where "n = path_Base (fixFilename fh)"
  have n: "proper_name n" "255 < length n" using assms(4,5) by (simp_all add: n_def)
  then have slash: "CHR ''/'' \<notin> set n" by (simp add: proper_name_def)
  have full: "full_name dir [] n = dir @ CHR ''/'' # n" using path_Join_abs [OF assms(3) n(1)] by (simp add: full_name_def)
  have "fst (path_Split (dir @ CHR ''/'' # n)) = dir @ ''/''" by (simp add: path_Split_def Let_def last_comp_under [OF slash])
  moreover have "free_from (FileExists os d1) False (dir @ CHR ''/'' # n) 1 (dir @ CHR ''/'' # n) = None"
  proof (rule free_from_none)
    show "FileExists os d1 (dir @ CHR ''/'' # n)" using n(2) by (simp add: FileExists_def assms(2) last_comp_under [OF slash])
    fix i :: nat
    have "CHR ''/'' \<notin> set (numbered n i)" using numbered_proper [OF n(1)] by (simp add: proper_name_def)
    moreover have "length n \<le> length (numbered n i)" by (simp add: numbered_def Let_def)
    ultimately show "FileExists os d1 (numbered (dir @ CHR ''/'' # n) i)"
      using n(2) by (simp add: FileExists_def assms(2) last_comp_under numbered_under [OF slash])
  qed
  ultimately show ?thesis using assms(1,6) full by (simp add: StoreFile_def Let_def n_def)
qed

theorem long_name_never_returns_witness:
  "StoreFile (demo_os (\<lambda>p. 255 < length (last_comp p))) (demo_form [replicate 256 (CHR ''a'')]) ''/up'' ''f'' False [] demo_disk = None"
proof -
  let ?n = "replicate 256 (CHR ''a'')"
  have up: "abs_dir ''/up''" by (rule abs_dir_single) (simp add: proper_name_def)
  have f: "fixFilename (demo_upload ?n) = ?n" by (subst fixFilename_id) (simp_all add: demo_upload_def)
  have slash: "CHR ''/'' \<notin> set ?n" and len: "length ?n = 256" by simp_all
  have "length ''.'' \<noteq> 256" "length ''..'' \<noteq> 256" "length [] \<noteq> (256 :: nat)" by simp_all
  then have neq: "?n \<noteq> []" "?n \<noteq> ''.''" "?n \<noteq> ''..''" using len by metis+
  have b: "path_Base (fixFilename (demo_upload ?n)) = ?n" using path_Base_no_slash [OF slash] neq(1) by (simp only: f if_False)
  have "\<exists>d1. os_MkdirAll (demo_os (\<lambda>p. 255 < length (last_comp p))) (''/up'' @ ''/'') demo_disk = Inr d1"
    by (auto simp: os_MkdirAll_def demo_os_def demo_disk_def upt_rec)
  then show ?thesis
    using long_name_never_returns [of "demo_form [?n]" "''f''" "demo_upload ?n" "demo_os (\<lambda>p. 255 < length (last_comp p))" "''/up''" demo_disk]
      demo_FormFile up b neq slash len by (auto simp: demo_os_def proper_name_def)
qed

text \<open>An upload named by the parent directory is stored beside the store directory, not in it.\<close>

theorem parent_name_escapes:
  "map_option (\<lambda>(info, err, d'). (err, Files d' ''/srv(2)''))
     (StoreFile (demo_os (\<lambda>p. False)) (demo_form [''..'']) ''/srv/up'' ''f'' False []
        \<lparr>Files = Map.empty, Dirs = \<lambda>p. p \<in> {''/srv'', ''/srv/up''}\<rparr>) = Some (None, Some ''data'')"
proof -
  have f: "path_Base (fixFilename (demo_upload ''..'')) = ''..''"
    by (subst fixFilename_id) (simp_all add: demo_upload_def path_Base_no_slash)
  have full: "full_name ''/srv/up'' [] ''..'' = ''/srv''" by code_simp
  have split: "fst (path_Split ''/srv'') = ''/''" "fst (path_Split ''/srv(2)'') = ''/''" by code_simp+
  have num: "numbered ''/srv'' 2 = ''/srv(2)''" by code_simp
  define d1 where "d1 = \<lparr>Files = Map.empty, Dirs = \<lambda>p. p \<in> {''/srv'', ''/srv/up''} \<or> prefix (p @ ''/'') ''/''\<rparr> "
  define d0 where "d0 = \<lparr>Files = Map.empty, Dirs = \<lambda>p. p \<in> {''/srv'', ''/srv/up''}\<rparr>"
  have mk: "os_MkdirAll (demo_os (\<lambda>p. False)) ''/'' d0 = Inr d1" by (simp add: os_MkdirAll_def demo_os_def d0_def d1_def)
  have free: "free_from (FileExists (demo_os (\<lambda>p. False)) d1) False ''/srv'' 1 ''/srv'' = Some (2, ''/srv(2)'')"
    using num by (subst free_from.simps, subst free_from.simps) (simp add: FileExists_def demo_os_def d1_def numeral_2_eq_2)
  have op: "os_OpenFile (demo_os (\<lambda>p. False)) ''/srv(2)'' d1 = Inr (d1\<lparr>Files := [''/srv(2)'' \<mapsto> '''']\<rparr>)"
    using split(2) by (simp add: os_OpenFile_def demo_os_def d1_def Let_def)
  show ?thesis
    unfolding StoreFile_def demo_FormFile sum.case Let_def f full split mk [unfolded d0_def] free option.case prod.case op io_Copy_def
    by (simp add: demo_upload_def demo_os_def)
qed

end
