(* ===== verification/Accept_Encoding.thy ===== *)
theory Accept_Encoding
  imports Convert
begin

text \<open>
  \<^verbatim>\<open>src/api/acceptencoder/acceptencoder.go\<close>: the choice of a response encoding from the request header
  and the pools of compressing writers. The parser of quality values is an argument, the qualities are
  of a linear order with zero; a writer is its compression level; which writer a \<^verbatim>\<open>sync.Pool\<close> gives back
  is an argument, since the pool may drop writers.
\<close>

subsection \<open>Configuration\<close>

record gzip_config =
  gzipMinLength :: int
  gzipCompressLevel :: int
  includedMethods :: "string list"
  getMethodOnly :: bool

definition BestSpeed :: int where "BestSpeed = 1"
definition BestCompression :: int where "BestCompression = 9"

definition default_gzip :: gzip_config where
  "default_gzip = \<lparr>gzipMinLength = 20, gzipCompressLevel = 0, includedMethods = [], getMethodOnly = False\<rparr>"

definition InitGzip :: "int \<Rightarrow> int \<Rightarrow> string list \<Rightarrow> gzip_config \<Rightarrow> gzip_config" where
  "InitGzip minLength compressLevel methods g =
     \<lparr>gzipMinLength = (if 0 \<le> minLength then minLength else gzipMinLength g),
      gzipCompressLevel = (if compressLevel < 0 \<or> BestCompression < compressLevel then BestSpeed else compressLevel),
      includedMethods = map ToUpper methods,
      getMethodOnly = (methods = [] \<or> (length methods = 1 \<and> ToUpper (hd methods) = ''GET''))\<rparr>"

subsection \<open>Choosing the encoding\<close>

text \<open>The name of the encoder for a coding; the identity has an empty name.\<close>

definition encoderMap :: "string \<Rightarrow> string option" where
  "encoderMap coding =
     (if coding = ''gzip'' \<or> coding = ''*'' then Some ''gzip''
      else if coding = ''deflate'' then Some ''deflate''
      else if coding = ''identity'' then Some ''''
      else None)"

text \<open>
  The loop over the items of the header, \<open>lastQ\<close> being the best coding so far; \<open>parseQ\<close> is
  \<^verbatim>\<open>strconv.ParseFloat\<close> with its error dropped.
\<close>

fun parse_items :: "(string \<Rightarrow> 'q :: {linorder, zero}) \<Rightarrow> string list \<Rightarrow> string \<times> 'q \<Rightarrow> string" where
  "parse_items parseQ [] lastQ = fst lastQ"
| "parse_items parseQ (v0 # rest) lastQ =
     (let v = TrimSpace v0 in
      if v = '''' then parse_items parseQ rest lastQ
      else (let vs = split_on CHR '';'' v in
            case encoderMap (hd vs) of
              None \<Rightarrow> parse_items parseQ rest lastQ
            | Some name \<Rightarrow>
                if length vs = 1 then name
                else if length vs = 2 then
                  (let f = parseQ (replace_all ''q='' '''' (vs ! 1)) in
                   if f = 0 then parse_items parseQ rest lastQ
                   else if snd lastQ < f then parse_items parseQ rest (name, f)
                   else parse_items parseQ rest lastQ)
                else parse_items parseQ rest lastQ))"

definition parseEncoding :: "(string \<Rightarrow> 'q :: {linorder, zero}) \<Rightarrow> string \<Rightarrow> string" where
  "parseEncoding parseQ header =
     (if header = '''' then '''' else parse_items parseQ (split_on CHR '','' header) ('''', 0))"

text \<open>The request is its method and its header \<^verbatim>\<open>Accept-Encoding\<close>; \<open>None\<close> is a nil request.\<close>

definition ParseEncoding :: "(string \<Rightarrow> 'q :: {linorder, zero}) \<Rightarrow> gzip_config \<Rightarrow> (string \<times> string) option \<Rightarrow> string" where
  "ParseEncoding parseQ g r =
     (case r of
        None \<Rightarrow> ''''
      | Some (method, header) \<Rightarrow>
          if (getMethodOnly g \<and> method = ''GET'') \<or> method \<in> set (includedMethods g)
          then parseEncoding parseQ header else '''')"

subsection \<open>Pools of writers\<close>

text \<open>The two pools of one encoder, as the levels of the writers in them.\<close>

record pools =
  customPool :: "int list"
  bestPool :: "int list"

text \<open>\<^verbatim>\<open>Pool.Get\<close>: \<open>choice\<close> is the pooled writer it returns; otherwise it makes a new one.\<close>

definition pool_get :: "int \<Rightarrow> nat option \<Rightarrow> int list \<Rightarrow> int \<times> int list" where
  "pool_get newLevel choice ws =
     (case choice of
        None \<Rightarrow> (newLevel, ws)
      | Some i \<Rightarrow> if i < length ws then (ws ! i, take i ws @ drop (Suc i) ws) else (newLevel, ws))"

text \<open>\<^verbatim>\<open>encode\<close> for an encoder with pools; the identity encoder has none and its writer is \<open>None\<close>.\<close>

definition encode :: "gzip_config \<Rightarrow> nat option \<Rightarrow> string \<Rightarrow> int \<Rightarrow> pools \<Rightarrow> int option \<times> pools" where
  "encode g choice name level p =
     (if name = '''' then (None, p)
      else if level = BestSpeed then
        (case pool_get (gzipCompressLevel g) choice (customPool p) of (w, ws) \<Rightarrow> (Some w, p\<lparr>customPool := ws\<rparr>))
      else if level = BestCompression then
        (case pool_get BestCompression choice (bestPool p) of (w, ws) \<Rightarrow> (Some w, p\<lparr>bestPool := ws\<rparr>))
      else (Some level, p))"

definition encoder_put :: "gzip_config \<Rightarrow> string \<Rightarrow> int option \<Rightarrow> int \<Rightarrow> pools \<Rightarrow> pools" where
  "encoder_put g name w level p =
     (if name = '''' then p
      else (case w of
              None \<Rightarrow> p
            | Some l \<Rightarrow>
                if level = gzipCompressLevel g then p\<lparr>customPool := customPool p @ [l]\<rparr>
                else if level = BestCompression then p\<lparr>bestPool := bestPool p @ [l]\<rparr>
                else p))"

text \<open>\<^verbatim>\<open>writeLevel\<close>: the level written with, the two results (nothing on a copy error), the pools.\<close>

definition writeLevel ::
    "gzip_config \<Rightarrow> nat option \<Rightarrow> string \<Rightarrow> bool \<Rightarrow> int \<Rightarrow> pools \<Rightarrow> (int option \<times> (bool \<times> string) option) \<times> pools" where
  "writeLevel g choice encoding copyFails level p =
     (let name = (case encoderMap encoding of Some n \<Rightarrow> n | None \<Rightarrow> '''') in
      case encode g choice name level p of
        (w, p1) \<Rightarrow>
          ((w, if copyFails then None else Some (name \<noteq> '''', name)), encoder_put g name w level p1))"

definition WriteFile ::
    "gzip_config \<Rightarrow> nat option \<Rightarrow> string \<Rightarrow> bool \<Rightarrow> pools \<Rightarrow> (int option \<times> (bool \<times> string) option) \<times> pools" where
  "WriteFile g choice encoding copyFails p = writeLevel g choice encoding copyFails BestCompression p"

definition WriteBody ::
    "gzip_config \<Rightarrow> nat option \<Rightarrow> string \<Rightarrow> string \<Rightarrow> bool \<Rightarrow> pools \<Rightarrow> (int option \<times> (bool \<times> string) option) \<times> pools" where
  "WriteBody g choice encoding content copyFails p =
     (if encoding = '''' \<or> int (length content) < gzipMinLength g then ((None, Some (False, '''')), p)
      else writeLevel g choice encoding copyFails (gzipCompressLevel g) p)"

subsection \<open>The encoding chosen\<close>

text \<open>
  An item the server can use: the encoder and the quality, \<open>None\<close> when the item has no parameter.
\<close>

definition item :: "(string \<Rightarrow> 'q) \<Rightarrow> string \<Rightarrow> (string \<times> 'q option) option" where
  "item parseQ v0 =
     (let v = TrimSpace v0; vs = split_on CHR '';'' v in
      if v = '''' then None
      else (case encoderMap (hd vs) of
              None \<Rightarrow> None
            | Some name \<Rightarrow>
                if length vs = 1 then Some (name, None)
                else if length vs = 2 then Some (name, Some (parseQ (replace_all ''q='' '''' (vs ! 1))))
                else None))"

definition items :: "(string \<Rightarrow> 'q) \<Rightarrow> string \<Rightarrow> (string \<times> 'q option) list" where
  "items parseQ header = List.map_filter (item parseQ) (split_on CHR '','' header)"

fun pick :: "(string \<times> 'q :: {linorder, zero} option) list \<Rightarrow> string \<times> 'q \<Rightarrow> string" where
  "pick [] lastQ = fst lastQ"
| "pick ((n, None) # xs) lastQ = n"
| "pick ((n, Some f) # xs) lastQ = (if f \<noteq> 0 \<and> snd lastQ < f then pick xs (n, f) else pick xs lastQ)"

lemma parse_items_step:
  "parse_items parseQ (v # rest) lastQ =
     (case item parseQ v of
        None \<Rightarrow> parse_items parseQ rest lastQ
      | Some (n, None) \<Rightarrow> n
      | Some (n, Some f) \<Rightarrow> if f \<noteq> 0 \<and> snd lastQ < f then parse_items parseQ rest (n, f) else parse_items parseQ rest lastQ)"
  unfolding parse_items.simps item_def Let_def by (simp split: option.split)

lemma map_filter_Cons:
  "List.map_filter f (x # xs) = (case f x of None \<Rightarrow> List.map_filter f xs | Some y \<Rightarrow> y # List.map_filter f xs)"
  by (simp add: List.map_filter_def split: option.split)

lemma parse_items_pick: "parse_items parseQ vs lastQ = pick (List.map_filter (item parseQ) vs) lastQ"
proof (induction vs arbitrary: lastQ)
  case Nil
  then show ?case by (simp add: List.map_filter_def)
next
  case (Cons v vs)
  then show ?case
    unfolding parse_items_step map_filter_Cons by (simp split: option.split prod.split)
qed

lemma pick_plain: "find (\<lambda>x. snd x = None) xs = Some y \<Longrightarrow> pick xs lastQ = fst y"
  by (induction xs lastQ rule: pick.induct) (auto split: if_splits)

lemma find_no_plain: "find (\<lambda>x. snd x = None) xs = None \<Longrightarrow> \<forall>x \<in> set xs. snd x \<noteq> None"
  by (induction xs) (auto split: if_splits)

text \<open>The best item: of positive quality, above all before it and not below any after it.\<close>

definition best_item :: "(string \<times> 'q :: {linorder, zero} option) list \<Rightarrow> string \<Rightarrow> bool" where
  "best_item xs n = (\<exists>ys f zs. xs = ys @ (n, Some f) # zs \<and> 0 < f \<and>
     (\<forall>m q. (m, Some q) \<in> set ys \<longrightarrow> q < f) \<and> (\<forall>m q. (m, Some q) \<in> set zs \<longrightarrow> q \<le> f))"

definition wins :: "(string \<times> 'q :: {linorder, zero} option) list \<Rightarrow> 'q \<Rightarrow> string \<Rightarrow> string \<Rightarrow> bool" where
  "wins xs q0 n0 r = ((\<forall>m q. (m, Some q) \<in> set xs \<longrightarrow> q \<le> q0) \<and> r = n0 \<or>
     (\<exists>ys f zs. xs = ys @ (r, Some f) # zs \<and> q0 < f \<and>
       (\<forall>m q. (m, Some q) \<in> set ys \<longrightarrow> q < f) \<and> (\<forall>m q. (m, Some q) \<in> set zs \<longrightarrow> q \<le> f)))"

lemma wins_Cons:
  assumes "wins xs q1 n1 r" and q1: "if q0 < f then q1 = f \<and> n1 = n else q1 = q0 \<and> n1 = n0"
  shows "wins ((n, Some f) # xs) q0 n0 r"
  using assms(1) unfolding wins_def [of xs]
proof
  assume le: "(\<forall>m q. (m, Some q) \<in> set xs \<longrightarrow> q \<le> q1) \<and> r = n1"
  show ?thesis
  proof (cases "q0 < f")
    case True
    then have "(n, Some f) # xs = [] @ (r, Some f) # xs" using q1 le by simp
    then show ?thesis using True q1 le unfolding wins_def by (metis empty_iff empty_set)
  next
    case False
    then show ?thesis using q1 le by (auto simp: wins_def)
  qed
next
  assume "\<exists>ys g zs. xs = ys @ (r, Some g) # zs \<and> q1 < g \<and>
       (\<forall>m q. (m, Some q) \<in> set ys \<longrightarrow> q < g) \<and> (\<forall>m q. (m, Some q) \<in> set zs \<longrightarrow> q \<le> g)"
  then obtain ys g zs where g: "xs = ys @ (r, Some g) # zs" "q1 < g"
    "\<forall>m q. (m, Some q) \<in> set ys \<longrightarrow> q < g" "\<forall>m q. (m, Some q) \<in> set zs \<longrightarrow> q \<le> g" by blast
  have "(n, Some f) # xs = ((n, Some f) # ys) @ (r, Some g) # zs" using g by simp
  moreover have "q0 < g" "f < g" using q1 g(2) by (auto split: if_splits)
  then have "q0 < g" "\<forall>m q. (m, Some q) \<in> set ((n, Some f) # ys) \<longrightarrow> q < g" using g(3) by auto
  ultimately show ?thesis using g(4) unfolding wins_def by blast
qed

lemma pick_quality: "\<forall>x \<in> set xs. snd x \<noteq> None \<Longrightarrow> 0 \<le> q0 \<Longrightarrow> wins xs q0 n0 (pick xs (n0, q0))"
proof (induction xs arbitrary: n0 q0)
  case Nil
  then show ?case by (simp add: wins_def)
next
  case (Cons x xs)
  then obtain n f where x: "x = (n, Some f)" by (cases x) auto
  show ?case
  proof (cases "q0 < f")
    case True
    then have "pick (x # xs) (n0, q0) = pick xs (n, f)" using x Cons.prems by auto
    moreover have "wins xs f n (pick xs (n, f))" using Cons True by auto
    ultimately show ?thesis using wins_Cons [of xs f n] True x by simp
  next
    case False
    then have "pick (x # xs) (n0, q0) = pick xs (n0, q0)" using x by auto
    moreover have "wins xs q0 n0 (pick xs (n0, q0))" using Cons by auto
    ultimately show ?thesis using wins_Cons [of xs q0 n0] False x by simp
  qed
qed

text \<open>
  The encoding chosen for a request is that of the first usable item without a quality, if there is
  one; otherwise that of the item with the highest positive quality, the first among equals;
  and none when no item has a positive quality.
\<close>

theorem parseEncoding_chooses:
  fixes parseQ :: "string \<Rightarrow> 'q :: {linorder, zero}"
  shows "case find (\<lambda>x. snd x = None) (items parseQ header) of
     Some x \<Rightarrow> parseEncoding parseQ header = fst x
   | None \<Rightarrow> (if \<forall>n q. (n, Some q) \<in> set (items parseQ header) \<longrightarrow> q \<le> 0
              then parseEncoding parseQ header = ''''
              else best_item (items parseQ header) (parseEncoding parseQ header))"
proof (cases "header = ''''")
  case True
  then have "items parseQ header = []" by (simp add: items_def List.map_filter_def item_def TrimSpace_def Let_def)
  then show ?thesis using True by (simp add: parseEncoding_def)
next
  case False
  then have eq: "parseEncoding parseQ header = pick (items parseQ header) ('''', 0)"
    by (simp add: parseEncoding_def parse_items_pick items_def)
  show ?thesis
  proof (cases "find (\<lambda>x. snd x = None) (items parseQ header)")
    case None
    then have "\<forall>x \<in> set (items parseQ header). snd x \<noteq> None" by (rule find_no_plain)
    then have "wins (items parseQ header) 0 '''' (parseEncoding parseQ header)"
      unfolding eq by (rule pick_quality) simp
    then consider "\<forall>m q. (m, Some q) \<in> set (items parseQ header) \<longrightarrow> q \<le> 0" "parseEncoding parseQ header = ''''"
      | "best_item (items parseQ header) (parseEncoding parseQ header)"
      unfolding wins_def best_item_def by blast
    then show ?thesis
    proof cases
      case 2
      then obtain ys f zs where "items parseQ header = ys @ (parseEncoding parseQ header, Some f) # zs" "0 < f"
        unfolding best_item_def by blast
      then have "(parseEncoding parseQ header, Some f) \<in> set (items parseQ header)" "\<not> f \<le> 0" by simp_all
      with None 2 show ?thesis by auto
    qed (use None in simp)
  next
    case (Some x)
    then show ?thesis using pick_plain [OF Some] eq by simp
  qed
qed

theorem parseEncoding_chooses_witness:
  "parseEncoding (\<lambda>s. if s = ''1'' then 1 else 0 :: int) ''gzip;q=0, deflate'' = ''deflate''"
proof -
  have "find (\<lambda>x. snd x = None) (items (\<lambda>s. if s = ''1'' then 1 else 0 :: int) ''gzip;q=0, deflate'') = Some (''deflate'', None)"
    by code_simp
  then show ?thesis using parseEncoding_chooses [of "\<lambda>s. if s = ''1'' then 1 else 0 :: int" "''gzip;q=0, deflate''"] by simp
qed

subsection \<open>The level of a writer\<close>

definition pools_ok :: "gzip_config \<Rightarrow> pools \<Rightarrow> bool" where
  "pools_ok g p = (set (customPool p) \<subseteq> {gzipCompressLevel g} \<and> set (bestPool p) \<subseteq> {BestCompression})"

lemma pool_get_level:
  assumes "set ws \<subseteq> {l}" and "pool_get l choice ws = (w, ws')"
  shows "w = l \<and> set ws' \<subseteq> {l}"
proof -
  have "i < length ws \<Longrightarrow> ws ! i = l" for i using assms(1) nth_mem by fastforce
  moreover have "set (take i ws @ drop (Suc i) ws) \<subseteq> {l}" for i
    using assms(1) by (auto dest!: in_set_takeD in_set_dropD)
  ultimately show ?thesis
    using assms unfolding pool_get_def by (auto split: option.splits if_splits simp del: set_append)
qed

text \<open>
  As long as the configured level does not change, the writers in the pools keep their level, and
  a response or file is compressed with the level asked for, whichever writer the pool returns.
\<close>

theorem writer_level_kept:
  assumes "pools_ok g p" and "level = gzipCompressLevel g \<or> level = BestCompression"
    and "writeLevel g choice encoding copyFails level p = ((w, result), p')"
  shows "pools_ok g p' \<and> (w = None \<or> w = Some level)"
proof -
  let ?name = "case encoderMap encoding of Some n \<Rightarrow> n | None \<Rightarrow> ''''"
  obtain w1 p1 where e: "encode g choice ?name level p = (w1, p1)" by (meson surj_pair)
  have w1: "w = w1" and p': "p' = encoder_put g ?name w1 level p1"
    using assms(3) e by (auto simp: writeLevel_def Let_def)
  have "pools_ok g p1 \<and> (w1 = None \<or> w1 = Some level)"
    using e assms(1,2) pool_get_level [of "customPool p" "gzipCompressLevel g" choice]
      pool_get_level [of "bestPool p" BestCompression choice]
    by (auto simp: encode_def pools_ok_def BestSpeed_def BestCompression_def split: if_splits prod.splits)
  then show ?thesis using assms(2) by (auto simp: w1 p' encoder_put_def pools_ok_def split: option.splits)
qed

theorem writer_level_kept_witness:
  "let g = InitGzip 0 5 [] default_gzip; p = \<lparr>customPool = [5], bestPool = [9]\<rparr> in
   snd (writeLevel g (Some 0) ''gzip'' False 9 p) = p \<and> fst (fst (writeLevel g (Some 0) ''gzip'' False 9 p)) \<in> {None, Some 9}"
proof -
  let ?g = "InitGzip 0 5 [] default_gzip" and ?p = "\<lparr>customPool = [5], bestPool = [9]\<rparr> :: pools"
  obtain w result p' where w: "writeLevel ?g (Some 0) ''gzip'' False 9 ?p = ((w, result), p')" by (metis surj_pair)
  have "pools_ok ?g ?p" by code_simp
  from writer_level_kept [OF this _ w] have "w = None \<or> w = Some 9" by (simp add: BestCompression_def)
  moreover have "snd (writeLevel ?g (Some 0) ''gzip'' False 9 ?p) = ?p" by code_simp
  ultimately show ?thesis using w by (auto simp: Let_def)
qed

end
