(* ===== verification/Http_Response.thy ===== *)
theory Http_Response
  imports File_Upload Accept_Encoding
begin

text \<open>
  \<^verbatim>\<open>src/api/response.go\<close> and \<^verbatim>\<open>src/api/context_response.go\<close>: response data, writing with its errors, copying from a
  reader, cookies, and the responses of the different content types, compressed with the encoder of the request.
  Encoding as JSON or XML and the compression are arguments.
\<close>

subsection \<open>Response data\<close>

record 'd ResponseData =
  rd_Code :: string
  rd_Status :: int
  rd_Message :: string
  rd_Data :: 'd

type_synonym response_options = "string \<rightharpoonup> int \<times> string"

definition responseOptions :: response_options where
  "responseOptions = map_of
     [(''Success'', 200, ''Success''),
      (''InvalidURI'', 400, ''Couldn'' @ [CHR 0x27] @ ''t parse the specified URI.''),
      (''BadRequest'', 400, ''Bad request''),
      (''EntityTooLarge'', 400, ''Your proposed upload exceeds the maximum allowed object size.''),
      (''AccessDenied'', 403, ''Access denied''),
      (''NotFound'', 404, ''The specified record does not exist''),
      (''RequestTimeout'', 408, ''Your socket connection to the server was not read from or written to within the timeout period''),
      (''InternalError'', 500, ''We encountered an internal error. Please try again''),
      (''BadGateway'', 502, ''Bad gateway''),
      (''SlowDown'', 503, ''Reduce your request rate''),
      (''ServiceUnavailable'', 503, ''Service unavailable''),
      (''RequestedRangeNotSatisfiable'', 416, ''Requested Range Not Satisfiable'')]"

definition NewResponseData :: "response_options \<Rightarrow> string \<Rightarrow> 'd \<Rightarrow> string list \<Rightarrow> 'd ResponseData" where
  "NewResponseData opts code data messages =
     (let (status, message) = (case opts code of Some c \<Rightarrow> c | None \<Rightarrow> (500, ''error code not exists'')) in
      \<lparr>rd_Code = code, rd_Status = status, rd_Message = (case messages of m # _ \<Rightarrow> m | [] \<Rightarrow> message), rd_Data = data\<rparr>)"

definition RegisterResponseOption :: "string \<Rightarrow> int \<Rightarrow> string \<Rightarrow> response_options \<Rightarrow> response_options" where
  "RegisterResponseOption code status message opts = opts(code \<mapsto> (status, message))"

subsection \<open>Errors of writing\<close>

definition ConnectionResetByPeer :: "string \<Rightarrow> bool" where
  "ConnectionResetByPeer err = contains_str err ''connection reset by peer''"

definition Timeout_err :: "string \<Rightarrow> bool" where
  "Timeout_err err = contains_str err ''i/o timeout''"

definition NetworkUnreachable :: "string \<Rightarrow> bool" where
  "NetworkUnreachable err = contains_str err ''network is unreachable''"

definition BrokenPipe :: "string \<Rightarrow> bool" where
  "BrokenPipe err = contains_str err ''broken pipe''"

datatype HTTPError = HTTPError int string

definition client_gone :: "string \<Rightarrow> bool" where
  "client_gone err = (BrokenPipe err \<or> ConnectionResetByPeer err \<or> Timeout_err err \<or> NetworkUnreachable err)"

definition write_error :: "int \<Rightarrow> string \<Rightarrow> HTTPError" where
  "write_error status err = HTTPError (if client_gone err then 499 else status) (''Response write error: '' @ err)"

subsection \<open>The response\<close>

text \<open>Status and headers sent, whether something was written, and the data handed to the writer of the context.\<close>

record Resp =
  rStatus :: int
  rHeader :: "string \<Rightarrow> string list"
  rWrote :: bool
  rData :: "string list"

definition Header_Set :: "string \<Rightarrow> string \<Rightarrow> Resp \<Rightarrow> Resp" where
  "Header_Set key v r = r\<lparr>rHeader := (rHeader r)(CanonicalMIMEHeaderKey key := [v])\<rparr>"

definition Header_Add :: "string \<Rightarrow> string \<Rightarrow> Resp \<Rightarrow> Resp" where
  "Header_Add key v r = r\<lparr>rHeader := (rHeader r)(CanonicalMIMEHeaderKey key := rHeader r (CanonicalMIMEHeaderKey key) @ [v])\<rparr>"

definition DelCookie :: "Resp \<Rightarrow> Resp" where
  "DelCookie r = r\<lparr>rHeader := (rHeader r)(''Set-Cookie'' := [])\<rparr>"

definition Response_WriteHeader :: "int \<Rightarrow> Resp \<Rightarrow> Resp" where
  "Response_WriteHeader status r = r\<lparr>rStatus := status\<rparr>"

text \<open>\<^verbatim>\<open>Write\<close>: the context writes the data with its writer, of the routing package.\<close>

definition Response_Write :: "(string \<Rightarrow> Resp \<Rightarrow> string option \<times> Resp) \<Rightarrow> string \<Rightarrow> Resp \<Rightarrow> HTTPError option \<times> Resp" where
  "Response_Write ctxWrite data r =
     (case ctxWrite data r of (err, r1) \<Rightarrow> (map_option (write_error 500) err, r1))"

text \<open>
  \<^verbatim>\<open>Copy\<close> without \<^verbatim>\<open>io.ReaderFrom\<close>: the reads of the source, each with its bytes and error (\<^verbatim>\<open>Some EOF\<close> ends the
  source), and the writes, each with the count and error the connection gives for a chunk.
\<close>

definition EOF :: string where "EOF = ''EOF''"
definition ErrShortWrite :: string where "ErrShortWrite = ''short write''"

definition write_chunk :: "('w \<Rightarrow> string \<Rightarrow> nat \<times> string option \<times> 'w) \<Rightarrow> string \<Rightarrow> nat \<Rightarrow> 'w \<Rightarrow> nat \<times> string option \<times> 'w" where
  "write_chunk wr chunk n w =
     (if chunk = [] then (n, None, w)
      else (case wr w chunk of
              (nw, ew, w1) \<Rightarrow>
                (n + nw, (case ew of Some e \<Rightarrow> Some e | None \<Rightarrow> if length chunk \<noteq> nw then Some ErrShortWrite else None), w1)))"

fun copy_loop ::
    "('w \<Rightarrow> string \<Rightarrow> nat \<times> string option \<times> 'w) \<Rightarrow> (string \<times> string option) list \<Rightarrow> nat \<Rightarrow> 'w \<Rightarrow> (nat \<times> string option \<times> 'w) option" where
  "copy_loop wr [] n w = None"
| "copy_loop wr ((chunk, er) # reads) n w =
     (case write_chunk wr chunk n w of
        (n1, Some e, w1) \<Rightarrow> Some (n1, Some e, w1)
      | (n1, None, w1) \<Rightarrow>
          if er = Some EOF then Some (n1, None, w1)
          else if er \<noteq> None then Some (n1, er, w1)
          else copy_loop wr reads n1 w1)"

definition Response_Copy ::
    "('w \<Rightarrow> string \<Rightarrow> nat \<times> string option \<times> 'w) \<Rightarrow> bool \<Rightarrow> (string \<times> string option) list \<Rightarrow> 'w \<Rightarrow> (nat \<times> HTTPError option \<times> 'w) option" where
  "Response_Copy wr wrote reads w =
     (if wrote then Some (0, None, w)
      else map_option (\<lambda>(n, err, w1). (case err of None \<Rightarrow> (n, None, w1) | Some e \<Rightarrow> (0, Some (write_error 504 e), w1)))
             (copy_loop wr reads 0 w))"

subsection \<open>Status\<close>

definition IsCachable :: "Resp \<Rightarrow> bool" where
  "IsCachable r = (rStatus r \<ge> 200 \<and> rStatus r < 300 \<or> rStatus r = 304)"

definition IsEmpty :: "Resp \<Rightarrow> bool" where
  "IsEmpty r = (rStatus r = 201 \<or> rStatus r = 204 \<or> rStatus r = 304)"

definition IsOk :: "Resp \<Rightarrow> bool" where
  "IsOk r = (rStatus r = 200)"

definition IsSuccessful :: "Resp \<Rightarrow> bool" where
  "IsSuccessful r = (rStatus r \<ge> 200 \<and> rStatus r < 300)"

definition IsRedirect :: "Resp \<Rightarrow> bool" where
  "IsRedirect r = (rStatus r = 301 \<or> rStatus r = 302 \<or> rStatus r = 303 \<or> rStatus r = 307)"

definition IsForbidden :: "Resp \<Rightarrow> bool" where
  "IsForbidden r = (rStatus r = 403)"

definition IsNotFound :: "Resp \<Rightarrow> bool" where
  "IsNotFound r = (rStatus r = 404)"

definition IsClientError :: "Resp \<Rightarrow> bool" where
  "IsClientError r = (rStatus r \<ge> 400 \<and> rStatus r < 500)"

definition IsServerError :: "Resp \<Rightarrow> bool" where
  "IsServerError r = (rStatus r \<ge> 500 \<and> rStatus r < 600)"

subsection \<open>Cookies\<close>

record HttpCookie =
  hc_Name :: string
  hc_Value :: string
  hc_Path :: string
  hc_Domain :: string
  hc_Expires :: "int option"
  hc_MaxAge :: int
  hc_Secure :: bool
  hc_HttpOnly :: bool

text \<open>The further arguments of \<^verbatim>\<open>SetCookie\<close>: an integer of one of the three types, a string, a bool, nil or something else.\<close>

datatype other = OInt int | OString string | OBool bool | ONil | OOther

definition other_at :: "other list \<Rightarrow> nat \<Rightarrow> other option" where
  "other_at others i = (if i < length others then Some (others ! i) else None)"

text \<open>The time is in nanoseconds; the duration is a product of 64-bit integers.\<close>

definition cookie_age :: "int \<Rightarrow> other list \<Rightarrow> HttpCookie \<Rightarrow> HttpCookie" where
  "cookie_age now others c =
     (case other_at others 0 of
        Some (OInt maxAge) \<Rightarrow>
          if maxAge > 0
          then c\<lparr>hc_Expires := Some (now + sint (word_of_int maxAge * 1000000000 :: 64 word)), hc_MaxAge := maxAge\<rparr>
          else c
      | _ \<Rightarrow> c)"

definition NewCookie :: "int \<Rightarrow> string \<Rightarrow> string \<Rightarrow> other list \<Rightarrow> HttpCookie" where
  "NewCookie now name v others =
     (let c = cookie_age now others \<lparr>hc_Name = name, hc_Value = v, hc_Path = '''', hc_Domain = '''', hc_Expires = None, hc_MaxAge = 0,
                hc_Secure = False, hc_HttpOnly = False\<rparr>
      in c\<lparr>hc_Path := (case other_at others 1 of None \<Rightarrow> ''/'' | Some (OString p) \<Rightarrow> p | _ \<Rightarrow> ''''),
           hc_Domain := (case other_at others 2 of Some (OString d) \<Rightarrow> d | _ \<Rightarrow> ''''),
           hc_Secure := (case other_at others 3 of None \<Rightarrow> False | Some (OBool b) \<Rightarrow> b | Some ONil \<Rightarrow> False | Some _ \<Rightarrow> True),
           hc_HttpOnly := (other_at others 4 = Some (OBool True))\<rparr>)"

text \<open>\<open>toString\<close> is \<^verbatim>\<open>http.Cookie.String\<close>.\<close>

definition Response_AddCookie :: "(HttpCookie \<Rightarrow> string) \<Rightarrow> HttpCookie \<Rightarrow> Resp \<Rightarrow> Resp" where
  "Response_AddCookie toString c r = Header_Add ''Set-Cookie'' (toString c) r"

definition Response_SetCookie :: "(HttpCookie \<Rightarrow> string) \<Rightarrow> HttpCookie \<Rightarrow> Resp \<Rightarrow> Resp" where
  "Response_SetCookie toString c r = Header_Set ''Set-Cookie'' (toString c) r"

definition SetCookie :: "(HttpCookie \<Rightarrow> string) \<Rightarrow> int \<Rightarrow> string \<Rightarrow> string \<Rightarrow> other list \<Rightarrow> Resp \<Rightarrow> Resp" where
  "SetCookie toString now name v others r = Response_AddCookie toString (NewCookie now name v others) r"

definition SetSecureCookie ::
    "(HttpCookie \<Rightarrow> string) \<Rightarrow> (string \<Rightarrow> string \<Rightarrow> string) \<Rightarrow> int \<Rightarrow> string \<Rightarrow> string \<Rightarrow> string \<Rightarrow> other list \<Rightarrow> Resp \<Rightarrow> Resp" where
  "SetSecureCookie toString mac now secret name v others r =
     SetCookie toString now name (secure_cookie_value mac now secret v) others r"

subsection \<open>Responses\<close>

text \<open>
  What a response is written with: the writer of the context, the compression of a text by an encoder at a level,
  the parser of qualities, the configuration of the encoders, the choice of the pool.
\<close>

record 'q out =
  ctxWrite :: "string \<Rightarrow> Resp \<Rightarrow> string option \<times> Resp"
  compress :: "string \<Rightarrow> int option \<Rightarrow> string \<Rightarrow> string"
  parseQuality :: "string \<Rightarrow> 'q"
  gzipConfig :: gzip_config
  poolChoice :: "nat option"
  enableGzip :: bool

definition encode_body :: "('q :: {linorder, zero}) out \<Rightarrow> Req \<Rightarrow> string \<Rightarrow> Resp \<times> pools \<Rightarrow> string \<times> Resp \<times> pools" where
  "encode_body o1 req content s =
     (case s of (r, p) \<Rightarrow>
        if enableGzip o1 \<and> rHeader r ''Content-Encoding'' = [] then
          (let encoding = ParseEncoding (parseQuality o1) (gzipConfig o1) (Some (ReqMethod req, HeaderParam req ''Accept-Encoding'')) in
           case WriteBody (gzipConfig o1) (poolChoice o1) encoding content False p of
             ((w, Some (True, enc)), p1) \<Rightarrow> (compress o1 enc w content, Header_Set ''Content-Encoding'' enc r, p1)
           | (_, p1) \<Rightarrow> (content, r, p1))
        else (content, r, p))"

definition ResponseBytes ::
    "('q :: {linorder, zero}) out \<Rightarrow> Req \<Rightarrow> int \<Rightarrow> string \<Rightarrow> string \<Rightarrow> Resp \<times> pools \<Rightarrow> HTTPError option \<times> Resp \<times> pools" where
  "ResponseBytes o1 req status contentType content s =
     (case s of (r, p) \<Rightarrow>
        if rWrote r then (None, r, p)
        else (case encode_body o1 req content (Header_Set ''Content-Type'' contentType r, p) of
                (content1, r1, p1) \<Rightarrow>
                  (let r2 = Header_Set ''Content-Length'' (dec_nat (length content1)) r1;
                       r3 = Response_WriteHeader status r2
                   in case Response_Write (ctxWrite o1) content1 r3 of (err, r4) \<Rightarrow> (err, r4, p1))))"

definition NoContent :: "int \<Rightarrow> Resp \<Rightarrow> Resp" where
  "NoContent status r = Response_WriteHeader status r"

definition ResponseString ::
    "('q :: {linorder, zero}) out \<Rightarrow> Req \<Rightarrow> (string \<Rightarrow> 'a list \<Rightarrow> string) \<Rightarrow> int \<Rightarrow> string \<Rightarrow> 'a list \<Rightarrow> Resp \<times> pools \<Rightarrow>
     HTTPError option \<times> Resp \<times> pools" where
  "ResponseString o1 req sprintf status format args s =
     (if args = [] then ResponseBytes o1 req status ''text/plain; charset=utf-8'' format s
      else ResponseBytes o1 req status ''text/plain; charset=utf-8'' (sprintf format args) s)"

definition ResponseHTML :: "('q :: {linorder, zero}) out \<Rightarrow> Req \<Rightarrow> int \<Rightarrow> string \<Rightarrow> Resp \<times> pools \<Rightarrow> HTTPError option \<times> Resp \<times> pools" where
  "ResponseHTML o1 req status html s = ResponseBytes o1 req status ''text/html; charset=utf-8'' html s"

text \<open>The encoders of the standard library, with and without indentation; an error is returned as it is.\<close>

record 'd encoders =
  json_Marshal :: "bool \<Rightarrow> 'd \<Rightarrow> string + string"
  xml_Marshal :: "bool \<Rightarrow> 'd \<Rightarrow> string + string"
  JSEscapeString :: "string \<Rightarrow> string"

type_synonym response_result = "((string + HTTPError) option) \<times> Resp \<times> pools"

definition lift_err :: "HTTPError option \<times> Resp \<times> pools \<Rightarrow> response_result" where
  "lift_err x = (case x of (e, s) \<Rightarrow> (map_option Inr e, s))"

definition indent :: "bool list \<Rightarrow> bool" where
  "indent isIndent = (isIndent \<noteq> [] \<and> hd isIndent)"

definition ResponseJSONBlob :: "('q :: {linorder, zero}) out \<Rightarrow> Req \<Rightarrow> int \<Rightarrow> string \<Rightarrow> Resp \<times> pools \<Rightarrow> HTTPError option \<times> Resp \<times> pools" where
  "ResponseJSONBlob o1 req status b s = ResponseBytes o1 req status ''application/json; charset=utf-8'' b s"

definition ResponseJSON :: "('q :: {linorder, zero}) out \<Rightarrow> 'd encoders \<Rightarrow> Req \<Rightarrow> int \<Rightarrow> 'd \<Rightarrow> bool list \<Rightarrow> Resp \<times> pools \<Rightarrow> response_result" where
  "ResponseJSON o1 en req status data isIndent s =
     (case json_Marshal en (indent isIndent) data of
        Inl e \<Rightarrow> (Some (Inl e), s)
      | Inr b \<Rightarrow> lift_err (ResponseJSONBlob o1 req status b s))"

definition ResponseJSONP ::
    "('q :: {linorder, zero}) out \<Rightarrow> 'd encoders \<Rightarrow> Req \<Rightarrow> int \<Rightarrow> string \<Rightarrow> 'd \<Rightarrow> bool list \<Rightarrow> Resp \<times> pools \<Rightarrow> response_result" where
  "ResponseJSONP o1 en req status callback data isIndent s =
     (case json_Marshal en (indent isIndent) data of
        Inl e \<Rightarrow> (Some (Inl e), s)
      | Inr b \<Rightarrow>
          (let callback1 = JSEscapeString en callback;
               content = '' if(window.'' @ callback1 @ '')'' @ callback1 @ ''('' @ b @ '');'' @ [CHR 0x0D, CHR 0x0A]
           in lift_err (ResponseBytes o1 req status ''application/javascript; charset=utf-8'' content s)))"

definition xml_Header :: string where
  "xml_Header = ''<?xml version='' @ [CHR 0x22] @ ''1.0'' @ [CHR 0x22] @ '' encoding='' @ [CHR 0x22] @ ''UTF-8'' @ [CHR 0x22] @ ''?>'' @ [CHR 0x0A]"

definition ResponseXMLBlob :: "('q :: {linorder, zero}) out \<Rightarrow> Req \<Rightarrow> int \<Rightarrow> string \<Rightarrow> Resp \<times> pools \<Rightarrow> HTTPError option \<times> Resp \<times> pools" where
  "ResponseXMLBlob o1 req status b s = ResponseBytes o1 req status ''application/xml; charset=utf-8'' (xml_Header @ b) s"

definition ResponseXML :: "('q :: {linorder, zero}) out \<Rightarrow> 'd encoders \<Rightarrow> Req \<Rightarrow> int \<Rightarrow> 'd \<Rightarrow> bool list \<Rightarrow> Resp \<times> pools \<Rightarrow> response_result" where
  "ResponseXML o1 en req status data isIndent s =
     (case xml_Marshal en (indent isIndent) data of
        Inl e \<Rightarrow> (Some (Inl e), s)
      | Inr b \<Rightarrow> lift_err (ResponseXMLBlob o1 req status b s))"

definition ResponseJSONOrXML ::
    "('q :: {linorder, zero}) out \<Rightarrow> 'd encoders \<Rightarrow> Req \<Rightarrow> int \<Rightarrow> 'd \<Rightarrow> bool list \<Rightarrow> Resp \<times> pools \<Rightarrow> response_result" where
  "ResponseJSONOrXML o1 en req status data isIndent s =
     (if AcceptJSON req \<or> \<not> AcceptXML req then ResponseJSON o1 en req status data isIndent s
      else ResponseXML o1 en req status data isIndent s)"

text \<open>\<^verbatim>\<open>ResponseDefault\<close>: the data is written by the context itself; a broken pipe is not among the errors of a lost client.\<close>

definition ResponseDefault ::
    "('d ResponseData \<Rightarrow> Resp \<Rightarrow> string option \<times> Resp) \<Rightarrow> response_options \<Rightarrow> string \<Rightarrow> 'd \<Rightarrow> string list \<Rightarrow> Resp \<Rightarrow> HTTPError option \<times> Resp" where
  "ResponseDefault writeData opts code data messages r =
     (case writeData (NewResponseData opts code data messages) r of
        (None, r1) \<Rightarrow> (None, r1)
      | (Some err, r1) \<Rightarrow>
          (Some (HTTPError (if ConnectionResetByPeer err \<or> Timeout_err err \<or> NetworkUnreachable err then 499 else 408)
                   (''Response write error: '' @ err)), r1))"

text \<open>\<^verbatim>\<open>File\<close>: the headers of a download; the file itself is served by the standard library.\<close>

definition File_headers :: "string \<Rightarrow> string list \<Rightarrow> Resp \<Rightarrow> Resp" where
  "File_headers localFilename showFilename r =
     (let shown = (if showFilename \<noteq> [] \<and> hd showFilename \<noteq> '''' then hd showFilename else path_Base localFilename)
      in Header_Set ''Pragma'' ''public'' (Header_Set ''Cache-Control'' ''must-revalidate'' (Header_Set ''Expires'' ''0''
           (Header_Set ''Content-Transfer-Encoding'' ''binary'' (Header_Set ''Content-Disposition'' (''attachment; filename='' @ shown)
           (Header_Set ''Content-Type'' ''application/octet-stream'' (Header_Set ''Content-Description'' ''File Transfer'' r)))))))"

subsection \<open>What they guarantee\<close>

lemma NewResponseData_registered:
  "NewResponseData (RegisterResponseOption code status message opts) code data [] =
     \<lparr>rd_Code = code, rd_Status = status, rd_Message = message, rd_Data = data\<rparr>"
  by (simp add: NewResponseData_def RegisterResponseOption_def)

text \<open>The bytes of a source: the chunks up to its end.\<close>

fun source :: "(string \<times> string option) list \<Rightarrow> string" where
  "source [] = []"
| "source ((chunk, er) # reads) = (if er = None then chunk @ source reads else chunk)"

text \<open>A connection, seen as the bytes it took: a write takes the first bytes of the chunk and says how many.\<close>

definition takes_prefix :: "(string \<Rightarrow> string \<Rightarrow> nat \<times> string option \<times> string) \<Rightarrow> bool" where
  "takes_prefix wr = (\<forall>w c. case wr w c of (nw, ew, w1) \<Rightarrow> nw \<le> length c \<and> w1 = w @ take nw c)"

lemma takes_prefixD: "takes_prefix wr \<Longrightarrow> wr w c = (nw, ew, w1) \<Longrightarrow> nw \<le> length c \<and> w1 = w @ take nw c"
  unfolding takes_prefix_def by (metis (mono_tags, lifting) case_prod_conv)

lemma write_chunk_all:
  "takes_prefix wr \<Longrightarrow> write_chunk wr chunk n w = (n1, None, w1) \<Longrightarrow> n1 = n + length chunk \<and> w1 = w @ chunk"
  by (auto simp: write_chunk_def split: if_splits prod.splits option.splits dest: takes_prefixD)

lemma copy_loop_all:
  "takes_prefix wr \<Longrightarrow> copy_loop wr reads n w = Some (n', None, w') \<Longrightarrow> w' = w @ source reads \<and> n' = n + length (source reads)"
proof (induction reads arbitrary: n w)
  case (Cons x reads)
  obtain chunk er where x: "x = (chunk, er)" by (cases x)
  obtain n1 w1 where wc: "write_chunk wr chunk n w = (n1, None, w1)"
    using Cons.prems(2) by (auto simp: x split: prod.splits option.splits)
  then have "n1 = n + length chunk" "w1 = w @ chunk" using write_chunk_all [OF Cons.prems(1)] by blast+
  then show ?case using Cons.prems Cons.IH [of n1 w1] wc by (auto simp: x split: if_splits)
qed simp

lemma copy_loop_returns:
  "list_ex (\<lambda>(c, er). er \<noteq> None) reads \<Longrightarrow> \<exists>r. copy_loop wr reads n w = Some r"
proof (induction reads arbitrary: n w)
  case (Cons x reads)
  obtain chunk er where x: "x = (chunk, er)" by (cases x)
  obtain n1 e w1 where "write_chunk wr chunk n w = (n1, e, w1)" by (metis surj_pair)
  then show ?case using Cons by (cases e; cases er) (simp_all add: x)
qed simp

text \<open>
  Copying a source to a response ends when the source ends, and unless something was written before, it
  reports success only when the client has all bytes of the source, with their number.
\<close>

theorem Copy_complete:
  assumes "takes_prefix wr" and "list_ex (\<lambda>(c, er). er \<noteq> None) reads"
  shows "\<exists>n err w'. Response_Copy wr False reads w = Some (n, err, w') \<and>
           (err = None \<longrightarrow> w' = w @ source reads \<and> n = length (source reads))"
proof -
  obtain n err w' where c: "copy_loop wr reads 0 w = Some (n, err, w')" using copy_loop_returns [OF assms(2)] by (metis surj_pair)
  then show ?thesis using copy_loop_all [OF assms(1), of reads 0 w n w'] by (cases err) (auto simp: Response_Copy_def)
qed

theorem Copy_complete_witness:
  "\<exists>n err w'. Response_Copy (\<lambda>w c. (length c, None, w @ c)) False [(''ab'', None), (''c'', Some EOF)] '''' = Some (n, err, w') \<and>
     (err = None \<longrightarrow> w' = ''abc'' \<and> n = Suc (Suc (Suc 0)))"
  using Copy_complete [of "\<lambda>w c. (length c, None, w @ c)" "[(''ab'', None), (''c'', Some EOF)]" "''''"] by (simp add: takes_prefix_def)

lemma canonical_keys [simp]:
  "CanonicalMIMEHeaderKey ''Content-Type'' = ''Content-Type''"
  "CanonicalMIMEHeaderKey ''Content-Encoding'' = ''Content-Encoding''"
  "CanonicalMIMEHeaderKey ''Content-Length'' = ''Content-Length''"
  by code_simp+

text \<open>The content a client makes of the bytes of a response: it undoes the encoding named by the header.\<close>

definition decoded :: "(string \<Rightarrow> string \<Rightarrow> string) \<Rightarrow> Resp \<Rightarrow> string \<Rightarrow> string" where
  "decoded decode r body = (case rHeader r ''Content-Encoding'' of e # _ \<Rightarrow> decode e body | [] \<Rightarrow> body)"

lemma encode_body_decoded:
  assumes "\<And>e w c. decode e (compress o1 e w c) = c" and "rHeader r ''Content-Encoding'' = []"
    and "encode_body o1 req content (r, p) = (body, r1, p1)"
  shows "decoded decode r1 body = content \<and> rHeader r1 ''Content-Type'' = rHeader r ''Content-Type'' \<and> rStatus r1 = rStatus r"
  using assms(2,3)
  by (auto simp: encode_body_def decoded_def Header_Set_def assms(1) Let_def split: if_splits prod.splits option.splits bool.splits)

text \<open>
  \<^bold>\<open>C32\<close>. What \<^verbatim>\<open>ResponseBytes\<close> hands to the writer is the content, compressed or not as the headers sent with it say,
  with the right length and the status and type asked for; after something was written it does nothing.
\<close>

theorem response_roundtrip:
  assumes "\<And>e w c. decode e (compress o1 e w c) = c" and "rHeader r ''Content-Encoding'' = []" and "\<not> rWrote r"
  shows "\<exists>body r1 p1. ResponseBytes o1 req status contentType content (r, p) =
           (case Response_Write (ctxWrite o1) body r1 of (err, r2) \<Rightarrow> (err, r2, p1)) \<and>
           decoded decode r1 body = content \<and> rHeader r1 ''Content-Length'' = [dec_nat (length body)] \<and>
           rHeader r1 ''Content-Type'' = [contentType] \<and> rStatus r1 = status"
proof -
  let ?r = "Header_Set ''Content-Type'' contentType r"
  obtain body r1 p1 where e: "encode_body o1 req content (?r, p) = (body, r1, p1)" by (metis surj_pair)
  have "rHeader ?r ''Content-Encoding'' = []" "rHeader ?r ''Content-Type'' = [contentType]" using assms(2) by (simp_all add: Header_Set_def)
  with encode_body_decoded [OF assms(1) _ e] have d: "decoded decode r1 body = content" "rHeader r1 ''Content-Type'' = [contentType]" by auto
  let ?r2 = "Response_WriteHeader status (Header_Set ''Content-Length'' (dec_nat (length body)) r1)"
  have "decoded decode ?r2 body = content" using d(1) by (simp add: decoded_def Header_Set_def Response_WriteHeader_def)
  moreover have "ResponseBytes o1 req status contentType content (r, p) =
      (case Response_Write (ctxWrite o1) body ?r2 of (err, r2) \<Rightarrow> (err, r2, p1))"
    using assms(3) by (simp add: ResponseBytes_def e Let_def)
  ultimately show ?thesis using d(2) by (intro exI [of _ body] exI [of _ ?r2] exI [of _ p1]) (simp add: Header_Set_def Response_WriteHeader_def)
qed

definition demo_out :: "nat out" where
  "demo_out = \<lparr>ctxWrite = \<lambda>d r. (None, r\<lparr>rData := rData r @ [d], rWrote := True\<rparr>), compress = \<lambda>e w c. e @ c, parseQuality = \<lambda>s. 1,
     gzipConfig = InitGzip 1 5 [] default_gzip, poolChoice = None, enableGzip = True\<rparr>"

definition demo_resp :: Resp where
  "demo_resp = \<lparr>rStatus = 0, rHeader = \<lambda>k. [], rWrote = False, rData = []\<rparr>"

theorem response_roundtrip_witness:
  "\<exists>body r1 p1. ResponseBytes demo_out demo_req 200 ''text/plain'' ''hello'' (demo_resp, \<lparr>customPool = [], bestPool = []\<rparr>) =
       (case Response_Write (ctxWrite demo_out) body r1 of (err, r2) \<Rightarrow> (err, r2, p1)) \<and>
     decoded (\<lambda>e c. drop (length e) c) r1 body = ''hello'' \<and> rHeader r1 ''Content-Length'' = [dec_nat (length body)]"
  using response_roundtrip [of "\<lambda>e c. drop (length e) c" demo_out demo_resp] by (simp add: demo_out_def demo_resp_def) blast

end
