(* ===== verification/Providers.thy ===== *)
theory Providers
  imports Config_Component Redis_Store
begin

text \<open>
  The registries of providers that \<^verbatim>\<open>config\<close>, \<^verbatim>\<open>kvstore\<close>, \<^verbatim>\<open>queue\<close>, \<^verbatim>\<open>database\<close>, \<^verbatim>\<open>logger\<close>, \<^verbatim>\<open>filesystem\<close> and \<^verbatim>\<open>filesystem/block\<close> keep
  (\<^verbatim>\<open>Register\<close> and \<^verbatim>\<open>Use\<close> of each package): one contract, of which each package is an instance, and what follows
  from it for any sequence of registrations.
\<close>

subsection \<open>The contract\<close>

locale provider_registry =
  fixes register :: "string \<Rightarrow> 'h option \<Rightarrow> 'r \<Rightarrow> string option \<times> 'r"
    and lookup :: "string \<Rightarrow> 'r \<Rightarrow> string + 'h"
  assumes register_nil: "fst (register n None r) \<noteq> None \<and> snd (register n None r) = r"
    and register_ok: "fst (register n (Some h) r) = None"
    and lookup_register:
      "lookup m (snd (register n (Some h) r)) = (if m = n \<and> \<not> (\<exists>h'. lookup n r = Inr h') then Inr h else lookup m r)"
begin

lemma register_twice:
  "lookup m (snd (register n (Some h') (snd (register n (Some h) r)))) = lookup m (snd (register n (Some h) r))"
  by (simp add: lookup_register) (meson Inr_inject)

lemma register_all:
  "lookup m (foldl (\<lambda>r (n, h). snd (register n (Some h) r)) r ps) =
     (case lookup m r of
        Inr h \<Rightarrow> Inr h
      | Inl e \<Rightarrow> (case map_of ps m of Some h \<Rightarrow> Inr h | None \<Rightarrow> Inl e))"
proof (induction ps arbitrary: r)
  case Nil
  then show ?case by (simp split: sum.split)
next
  case (Cons p ps)
  obtain n h where p: "p = (n, h)" by (cases p)
  show ?case
    unfolding p foldl_Cons prod.case Cons.IH lookup_register
    by (cases "lookup m r"; cases "lookup n r") (auto split: option.split sum.split)
qed

end

subsection \<open>The packages\<close>

interpretation kvreg: provider_registry Kvstore_Register Kvstore_lookup
  by unfold_locales (auto simp: Kvstore_Register_def Kvstore_lookup_def split: option.splits if_splits)

interpretation cfgreg: provider_registry config_Register config_lookup
  by unfold_locales (auto simp: config_Register_def config_lookup_def split: option.splits if_splits)

definition queue_Register :: "string \<Rightarrow> 'h option \<Rightarrow> (string \<rightharpoonup> 'h) \<Rightarrow> string option \<times> (string \<rightharpoonup> 'h)" where
  "queue_Register name newHandler handlers =
     (case newHandler of
        None \<Rightarrow> (annotate ''queue: register error'' (Some ''queue: Register queue is nil''), handlers)
      | Some h \<Rightarrow> (None, if handlers name = None then handlers(name \<mapsto> h) else handlers))"

definition queue_lookup :: "string \<Rightarrow> (string \<rightharpoonup> 'h) \<Rightarrow> string + 'h" where
  "queue_lookup name handlers =
     (case handlers name of
        None \<Rightarrow> Inl (''queue: use error: queue: unknown queue '' @ name @ '' (forgotten register?)'')
      | Some h \<Rightarrow> Inr h)"

interpretation qreg: provider_registry queue_Register queue_lookup
  by unfold_locales (auto simp: queue_Register_def queue_lookup_def annotate_def split: option.splits if_splits)

definition filesystem_Register :: "string \<Rightarrow> 'h option \<Rightarrow> (string \<rightharpoonup> 'h) \<Rightarrow> string option \<times> (string \<rightharpoonup> 'h)" where
  "filesystem_Register name newHandler handlers =
     (case newHandler of
        None \<Rightarrow> (Some ''filesystem: Register template is nil'', handlers)
      | Some h \<Rightarrow> if handlers name \<noteq> None then (None, handlers) else (None, handlers(name \<mapsto> h)))"

definition filesystem_lookup :: "string \<Rightarrow> (string \<rightharpoonup> 'h) \<Rightarrow> string + 'h" where
  "filesystem_lookup name handlers =
     (case handlers name of
        None \<Rightarrow> Inl (''filesystem: unknown template '' @ quoted name @ '' (forgotten register?)'')
      | Some h \<Rightarrow> Inr h)"

interpretation fsreg: provider_registry filesystem_Register filesystem_lookup
  by unfold_locales (auto simp: filesystem_Register_def filesystem_lookup_def split: option.splits if_splits)

definition FileBlockRegister :: "string \<Rightarrow> 'h option \<Rightarrow> (string \<rightharpoonup> 'h) \<Rightarrow> string option \<times> (string \<rightharpoonup> 'h)" where
  "FileBlockRegister name newHandler handlers =
     (case newHandler of
        None \<Rightarrow> (Some ''filesystem block: Register block is nil'', handlers)
      | Some h \<Rightarrow> if handlers name \<noteq> None then (None, handlers) else (None, handlers(name \<mapsto> h)))"

definition FileBlockUse :: "string \<Rightarrow> (string \<rightharpoonup> 'h) \<Rightarrow> string + 'h" where
  "FileBlockUse name handlers =
     (case handlers name of
        None \<Rightarrow> Inl (''filesystem block: unknown block '' @ quoted name @ '' (forgotten register?)'')
      | Some h \<Rightarrow> Inr h)"

interpretation blkreg: provider_registry FileBlockRegister FileBlockUse
  by unfold_locales (auto simp: FileBlockRegister_def FileBlockUse_def split: option.splits if_splits)

definition database_Register :: "string \<Rightarrow> 'h option \<Rightarrow> (string \<rightharpoonup> 'h) \<Rightarrow> string option \<times> (string \<rightharpoonup> 'h)" where
  "database_Register name newHandler handlers =
     (case newHandler of
        None \<Rightarrow> (annotate ''database: register error'' (Some ''database: Register database is nil''), handlers)
      | Some h \<Rightarrow> (None, if handlers name = None then handlers(name \<mapsto> h) else handlers))"

definition database_lookup :: "string \<Rightarrow> (string \<rightharpoonup> 'h) \<Rightarrow> string + 'h" where
  "database_lookup name handlers =
     (case handlers name of
        None \<Rightarrow> Inl (''database: register error: database: unknown database '' @ quoted name @ '' (forgotten register?)'')
      | Some h \<Rightarrow> Inr h)"

interpretation dbreg: provider_registry database_Register database_lookup
  by unfold_locales (auto simp: database_Register_def database_lookup_def annotate_def split: option.splits if_splits)

definition NosqlRegister :: "string \<Rightarrow> 'h option \<Rightarrow> (string \<rightharpoonup> 'h) \<Rightarrow> string option \<times> (string \<rightharpoonup> 'h)" where
  "NosqlRegister name newHandler handlers =
     (case newHandler of
        None \<Rightarrow> (annotate ''database: register error'' (Some ''database: Register nosql database is nil''), handlers)
      | Some h \<Rightarrow> (None, if handlers name = None then handlers(name \<mapsto> h) else handlers))"

definition NosqlUse :: "string \<Rightarrow> (string \<rightharpoonup> 'h) \<Rightarrow> string + 'h" where
  "NosqlUse name handlers =
     (case handlers name of
        None \<Rightarrow> Inl (''database: register error: database: unknown nosql database '' @ quoted name @ '' (forgotten register?)'')
      | Some h \<Rightarrow> Inr h)"

interpretation nosqlreg: provider_registry NosqlRegister NosqlUse
  by unfold_locales (auto simp: NosqlRegister_def NosqlUse_def annotate_def split: option.splits if_splits)

definition logger_Register :: "string \<Rightarrow> 'h option \<Rightarrow> (string \<rightharpoonup> 'h) \<Rightarrow> string option \<times> (string \<rightharpoonup> 'h)" where
  "logger_Register name newHandler handlers =
     (case newHandler of
        None \<Rightarrow> (Some ''logger: Register log is nil'', handlers)
      | Some h \<Rightarrow> (None, if handlers name = None then handlers(name \<mapsto> h) else handlers))"

definition logger_lookup :: "string \<Rightarrow> (string \<rightharpoonup> 'h) \<Rightarrow> string + 'h" where
  "logger_lookup name handlers =
     (case handlers name of
        None \<Rightarrow> Inl (''logger: unknown log '' @ quoted name @ '' (forgotten register?)'')
      | Some h \<Rightarrow> Inr h)"

interpretation logreg: provider_registry logger_Register logger_lookup
  by unfold_locales (auto simp: logger_Register_def logger_lookup_def split: option.splits if_splits)

end
