(* ===== verification/Queue_Component.thy ===== *)
theory Queue_Component
  imports Providers
begin

text \<open>
  \<^verbatim>\<open>src/queue/protocol.go\<close> and \<^verbatim>\<open>src/queue/kafka.go\<close>: the queue component, the queues of the kafka handler and the
  offsets a consumer keeps. Producing and consuming are calls of the kafka packages.
\<close>

subsection \<open>The kafka handler\<close>

record KafkaQueue =
  kq_config :: configs
  brokers :: "string list"

record KafkaHandler =
  queues :: "(string \<rightharpoonup> KafkaQueue) option"

definition NewKafkaHandler :: KafkaHandler where
  "NewKafkaHandler = \<lparr>queues = None\<rparr>"

definition Kafka_Initiate :: "KafkaHandler \<Rightarrow> KafkaHandler" where
  "Kafka_Initiate h = h\<lparr>queues := Some Map.empty\<rparr>"

definition Kafka_NewQueue :: "string \<Rightarrow> configs \<Rightarrow> KafkaHandler \<Rightarrow> (string + KafkaQueue) \<times> KafkaHandler" where
  "Kafka_NewQueue name cfg h =
     (case cfg ''QUEUE_KAFKA_BROKERS'' of
        Some (GString b) \<Rightarrow> (Inr \<lparr>kq_config = cfg, brokers = split_on (CHR '','') b\<rparr>, h)
      | None \<Rightarrow> (Inl ''queue(kafka): miss kafka brokers'', h)
      | Some GNil \<Rightarrow> (Inl ''queue(kafka): miss kafka brokers'', h)
      | Some _ \<Rightarrow> (Inl ''queue(kafka): invalid kafka brokers'', h))"

text \<open>The message has no verb for the name, which \<^verbatim>\<open>Sprintf\<close> appends as an extra argument.\<close>

definition kafka_not_exists :: "string \<Rightarrow> string" where
  "kafka_not_exists name = ''queue(kafka): queue not exists%!(EXTRA string='' @ name @ '')''"

definition Kafka_GetQueue :: "string \<Rightarrow> KafkaHandler \<Rightarrow> string + KafkaQueue" where
  "Kafka_GetQueue name h =
     (case queues h of
        None \<Rightarrow> Inl (kafka_not_exists name)
      | Some m \<Rightarrow> (case m name of None \<Rightarrow> Inl (kafka_not_exists name) | Some q \<Rightarrow> Inr q))"

subsection \<open>The component\<close>

record Queue =
  q_configs :: "configs option"
  q_provider :: string
  q_handler :: "KafkaHandler option"

definition NewQueueComponent :: Queue where
  "NewQueueComponent = \<lparr>q_configs = None, q_provider = '''', q_handler = None\<rparr>"

definition queue_options :: "(string \<times> goval Option) list" where
  "queue_options =
     [(''QUEUE_PROVIDER'', \<lparr>OptType = TString, Default = Some (GString ''kafka''), EnvironmentKey = ''QUEUE_PROVIDER''\<rparr>),
      (''QUEUE_KAFKA_BROKERS'', \<lparr>OptType = TString, Default = None, EnvironmentKey = ''QUEUE_KAFKA_BROKERS''\<rparr>),
      (''QUEUE_KAFKA_EVENT_GROUP'', \<lparr>OptType = TString, Default = None, EnvironmentKey = ''QUEUE_KAFKA_EVENT_GROUP''\<rparr>),
      (''QUEUE_KAFKA_EVENT_TOPIC'', \<lparr>OptType = TString, Default = None, EnvironmentKey = ''QUEUE_KAFKA_EVENT_TOPIC''\<rparr>)]"

definition Queue_Prepare :: "('s, goval) Provider \<Rightarrow> ('s, goval) Config \<Rightarrow> Queue \<Rightarrow> (('s, goval) Config \<times> Queue) outcome" where
  "Queue_Prepare P c q =
     map_sum id (\<lambda>c1. (c1, q\<lparr>q_configs := Some Map.empty\<rparr>)) (SetOptions P (Some queue_options) c)"

definition Queue_Initiate ::
    "(string \<Rightarrow> string) \<Rightarrow> (string \<rightharpoonup> KafkaHandler) \<Rightarrow> Queue \<Rightarrow> (string option \<times> (string \<rightharpoonup> KafkaHandler) \<times> Queue) outcome" where
  "Queue_Initiate getString handlers q =
     (case queue_Register ''kafka'' (Some NewKafkaHandler) handlers of
        (Some e, hs) \<Rightarrow> Inr (annotate (''queue: initiate '' @ quoted (q_provider q) @ '' error'') (Some e), hs, q)
      | (None, hs) \<Rightarrow>
          (let own = (case q_configs q of Some m \<Rightarrow> m | None \<Rightarrow> Map.empty) in
           if own ''QUEUE_KAFKA_BROKERS'' \<noteq> None then Inr (None, hs, q)
           else (case q_configs q of
                   None \<Rightarrow> Inl (ExplicitPanic ''assignment to entry in nil map'')
                 | Some m \<Rightarrow> Inr (None, hs, q\<lparr>q_configs := Some (m(''QUEUE_KAFKA_BROKERS'' \<mapsto> GString (getString ''QUEUE_KAFKA_BROKERS'')))\<rparr>))))"

definition Queue_Use :: "(string \<rightharpoonup> KafkaHandler) \<Rightarrow> string \<Rightarrow> Queue \<Rightarrow> string option \<times> Queue" where
  "Queue_Use handlers name q =
     (case queue_lookup name handlers of
        Inl e \<Rightarrow> (Some e, q)
      | Inr h \<Rightarrow> (None, q\<lparr>q_provider := name, q_handler := Some h\<rparr>))"

definition Queue_OnStartup :: "(string \<Rightarrow> string) \<Rightarrow> (string \<rightharpoonup> KafkaHandler) \<Rightarrow> Queue \<Rightarrow> string option \<times> Queue" where
  "Queue_OnStartup getString handlers q =
     (let p = getString ''QUEUE_PROVIDER'' in
      case Queue_Use handlers (if p \<noteq> '''' then p else ''kafka'') q of
        (Some e, q1) \<Rightarrow> (annotate (''queue: startup '' @ quoted (q_provider q1) @ '' error'') (Some e), q1)
      | (None, q1) \<Rightarrow> (None, q1\<lparr>q_handler := map_option Kafka_Initiate (q_handler q1)\<rparr>))"

definition Queue_GetQueue :: "string \<Rightarrow> Queue \<Rightarrow> string + KafkaQueue" where
  "Queue_GetQueue name q =
     (let what = ''queue: get '' @ quoted name @ '' queue error'' in
      case q_handler q of
        None \<Rightarrow> Inl (what @ '': queue: handler does not initiated'')
      | Some h \<Rightarrow> (case Kafka_GetQueue name h of Inl e \<Rightarrow> Inl (what @ '': '' @ e) | Inr k \<Rightarrow> Inr k))"

text \<open>The options of the call win over those of the component; with no handler the call of its method panics.\<close>

definition Queue_NewQueue :: "string \<Rightarrow> configs option \<Rightarrow> Queue \<Rightarrow> ((string + KafkaQueue) \<times> Queue) outcome" where
  "Queue_NewQueue name cfg q =
     (case Queue_GetQueue name q of
        Inr k \<Rightarrow> Inr (Inr k, q)
      | Inl _ \<Rightarrow>
          (case q_handler q of
             None \<Rightarrow> Inl NilDereference
           | Some h \<Rightarrow>
               (let own = (case q_configs q of Some m \<Rightarrow> m | None \<Rightarrow> Map.empty);
                    merged = (case cfg of Some m \<Rightarrow> own ++ m | None \<Rightarrow> own)
                in case Kafka_NewQueue name merged h of
                     (Inl e, h1) \<Rightarrow> Inr (Inl (''queue: new '' @ quoted name @ '' queue error: '' @ e), q\<lparr>q_handler := Some h1\<rparr>)
                   | (Inr k, h1) \<Rightarrow> Inr (Inr k, q\<lparr>q_handler := Some h1\<rparr>))))"

subsection \<open>Consumers\<close>

text \<open>A message is its partition and offset; \<open>marked\<close> are the messages passed on to the group.\<close>

record Consumer =
  c_topic :: string
  c_groupName :: string
  c_offset :: "32 word \<rightharpoonup> 64 word"
  marked :: "(32 word \<times> 64 word) list"

definition NewConsumer :: "string \<Rightarrow> string \<Rightarrow> Consumer" where
  "NewConsumer groupName topic = \<lparr>c_topic = topic, c_groupName = groupName, c_offset = Map.empty, marked = []\<rparr>"

definition MarkOffset :: "32 word \<times> 64 word \<Rightarrow> Consumer \<Rightarrow> Consumer" where
  "MarkOffset m c = c\<lparr>c_offset := (c_offset c)(fst m \<mapsto> snd m), marked := marked c @ [m]\<rparr>"

subsection \<open>What holds\<close>

text \<open>A consumer knows the offset marked last in each partition.\<close>

lemma MarkOffset_last: "c_offset (fold MarkOffset ms (NewConsumer g t)) = map_of (rev ms) \<and> marked (fold MarkOffset ms (NewConsumer g t)) = ms"
proof (induction ms rule: rev_induct)
  case Nil
  then show ?case by (simp add: NewConsumer_def)
next
  case (snoc m ms)
  then show ?case by (cases m) (auto simp: MarkOffset_def)
qed

lemma Queue_start:
  assumes "Queue_Initiate getString handlers q = Inr (None, hs, q1)" and "getString ''QUEUE_PROVIDER'' = ''''" and "handlers = Map.empty"
  shows "Queue_OnStartup getString hs q1 = (None, q1\<lparr>q_provider := ''kafka'', q_handler := Some \<lparr>queues = Some Map.empty\<rparr>\<rparr>)"
proof -
  have "hs = snd (queue_Register ''kafka'' (Some NewKafkaHandler) handlers)"
    using assms(1) by (auto simp: Queue_Initiate_def Let_def split: prod.splits option.splits if_splits)
  then have "queue_lookup ''kafka'' hs = Inr NewKafkaHandler"
    using qreg.lookup_register [of "''kafka''" "''kafka''" NewKafkaHandler handlers] assms(3) by (simp add: queue_lookup_def)
  then show ?thesis
    using assms(2) by (simp add: Queue_OnStartup_def Queue_Use_def Kafka_Initiate_def NewKafkaHandler_def)
qed

text \<open>
  The handler never keeps a queue: \<^verbatim>\<open>NewQueue\<close> leaves the component as it was, so \<^verbatim>\<open>GetQueue\<close> always fails and every
  call of \<^verbatim>\<open>NewQueue\<close> makes another queue.
\<close>

theorem NewQueue_not_kept:
  assumes "q_handler q = Some \<lparr>queues = Some Map.empty\<rparr>" and "Queue_NewQueue name cfg q = Inr (r, q1)"
  shows "q1 = q \<and> (\<exists>e. Queue_GetQueue other q1 = Inl e)"
proof -
  have g: "\<exists>e. Queue_GetQueue n q = Inl e" for n by (simp add: Queue_GetQueue_def assms(1) Kafka_GetQueue_def Let_def)
  have "snd (Kafka_NewQueue n c h) = h" for n c h by (simp add: Kafka_NewQueue_def split: option.split goval.split)
  then have h: "Kafka_NewQueue n c h = (x, h1) \<Longrightarrow> h1 = h" for n c h x h1 by (metis snd_conv)
  obtain e where "Queue_GetQueue name q = Inl e" using g by blast
  then have "q1 = q"
    using assms by (auto simp: Queue_NewQueue_def Let_def split: prod.splits sum.splits dest!: h)
  then show ?thesis using g by simp
qed

text \<open>A queue has the brokers of the options of the call, or else of the component.\<close>

lemma NewQueue_brokers:
  assumes "q_handler q = Some \<lparr>queues = Some Map.empty\<rparr>" and "q_configs q = Some own" and "(own ++ cfg) ''QUEUE_KAFKA_BROKERS'' = Some (GString b)"
  shows "\<exists>q1. Queue_NewQueue name (Some cfg) q = Inr (Inr \<lparr>kq_config = own ++ cfg, brokers = split_on (CHR '','') b\<rparr>, q1)"
  using assms by (simp add: Queue_NewQueue_def Queue_GetQueue_def Kafka_GetQueue_def Kafka_NewQueue_def Let_def)

subsection \<open>Producers\<close>

text \<open>
  A producer puts messages on the channel of the kafka package, here a list; its goroutine takes what the package reports as
  failed from another channel. \<open>None\<close> is what a closed channel gives: a nil pointer.
\<close>

record Producer =
  p_topic :: string
  p_input :: "(string \<times> string) list"

definition NewProducer :: "(string list \<Rightarrow> string option) \<Rightarrow> string \<Rightarrow> KafkaQueue \<Rightarrow> string + Producer" where
  "NewProducer connectErr topic q =
     (case connectErr (brokers q) of Some e \<Rightarrow> Inl e | None \<Rightarrow> Inr \<lparr>p_topic = topic, p_input = []\<rparr>)"

definition Produce :: "string \<Rightarrow> Producer \<Rightarrow> Producer" where
  "Produce message p = p\<lparr>p_input := p_input p @ [(p_topic p, message)]\<rparr>"

record ProducerError =
  pe_topic :: string
  pe_message :: string
  pe_err :: string

text \<open>The loop over what is received until now, with the calls of the handler it made.\<close>

fun startProducerErrorsHandle :: "ProducerError option list \<Rightarrow> (string \<times> string \<times> string) list \<Rightarrow> (string \<times> string \<times> string) list outcome" where
  "startProducerErrorsHandle [] handled = Inr handled"
| "startProducerErrorsHandle (None # received) handled = Inl NilDereference"
| "startProducerErrorsHandle (Some pe # received) handled =
     startProducerErrorsHandle received (handled @ [(pe_topic pe, pe_message pe, pe_err pe)])"

text \<open>
  Every failed message is handled once and in order as long as the channel is open; once the producer is closed the goroutine
  panics, and with it the program.
\<close>

theorem producer_errors_handled:
  "startProducerErrorsHandle (map Some pes) handled = Inr (handled @ map (\<lambda>pe. (pe_topic pe, pe_message pe, pe_err pe)) pes)"
  "startProducerErrorsHandle (map Some pes @ None # later) handled = Inl NilDereference"
  by (induction pes arbitrary: handled) simp_all

lemma Produce_in_order: "p_input (fold Produce ms p) = p_input p @ map (\<lambda>m. (p_topic p, m)) ms"
proof -
  have "p_topic (fold Produce ms p) = p_topic p \<and> p_input (fold Produce ms p) = p_input p @ map (\<lambda>m. (p_topic p, m)) ms"
    by (induction ms arbitrary: p) (simp_all add: Produce_def)
  then show ?thesis ..
qed

end
