(* ===== verification/Filesystem_Component.thy ===== *)
theory Filesystem_Component
  imports Providers Lru_File
begin

text \<open>
  \<^verbatim>\<open>src/filesystem/protocol.go\<close>, \<^verbatim>\<open>src/filesystem/block/protocol.go\<close> and the \<^verbatim>\<open>Initiate\<close> methods of the handlers:
  how the file system component chooses its handler and with which settings the block store below it is started.
  The provider of the configuration is an argument, with its typed getters.
\<close>

subsection \<open>Settings\<close>

definition opt :: "option_type \<Rightarrow> goval \<Rightarrow> string \<Rightarrow> string \<times> goval Option" where
  "opt t v key = (key, \<lparr>OptType = t, Default = Some v, EnvironmentKey = key\<rparr>)"

text \<open>Durations are in nanoseconds.\<close>

definition minutes :: "int \<Rightarrow> goval" where
  "minutes n = GInt64 (n * 60 * 1000000000)"

definition filesystem_options :: "(string \<times> goval Option) list" where
  "filesystem_options =
     [opt TString (GString ''file'') ''FILESYSTEM_PROVIDER'',
      opt TDuration (minutes 30) ''FILESYSTEM_DEFRAG_CONTENT_INTERVAL'',
      opt TDuration (minutes (24 * 60)) ''FILESYSTEM_DEFRAG_CONTENT_LIFETIME'',
      opt TInt64 (GInt (32 * 1024 * 1024)) ''FILESYSTEM_LRU_CAPACITY'']"

definition block_options :: "(string \<times> goval Option) list" where
  "block_options =
     [opt TString (GString ''fileBlock'') ''FILESYSTEM_BLOCK_PROVIDER'',
      opt TString (GString ''/tmp/block'') ''FILESYSTEM_BLOCK_DIR'',
      opt TInt64 (GInt (64 * 1024 * 1024)) ''FILESYSTEM_BLOCK_CONTENT_SIZE'',
      opt TDuration (minutes 5) ''FILESYSTEM_BLOCK_INDEX_SAVE_INTERVAL'']"

text \<open>The configuration of the process: the provider, its getters, its first state.\<close>

record ('s, 'f, 't) conf_env =
  ceProvider :: "('s, goval) Provider"
  ceGetters :: "('s, 'f, 't, goval) Getters"
  ceNew :: 's

definition NewConfig :: "'s \<Rightarrow> ('s, goval) Config" where
  "NewConfig nil = \<lparr>cfgProvider = '''', handler = nil, options = None, bindedEnvironmentKeys = []\<rparr>"

subsection \<open>The block store below\<close>

record ('s, 'b) BlockInstance =
  biConfig :: "('s, goval) Config"
  handlerName :: string
  biHandler :: "'b option"

definition NewInstance :: "'s \<Rightarrow> ('s, 'b) BlockInstance" where
  "NewInstance nil = \<lparr>biConfig = NewConfig nil, handlerName = '''', biHandler = None\<rparr>"

text \<open>What a registered block handler does when it is initiated is a function of the configuration.\<close>

type_synonym ('s, 'b) block_maker = "('s, goval) Config \<Rightarrow> (string + 'b) outcome"

definition Instance_Initiate ::
    "('s, 'f, 't) conf_env \<Rightarrow> ('s, 'b) block_maker \<Rightarrow> (string \<rightharpoonup> 's) \<Rightarrow> (string \<rightharpoonup> ('s, 'b) block_maker) \<Rightarrow> ('s, 'b) BlockInstance \<Rightarrow>
     (string option \<times> ('s, 'b) BlockInstance \<times> (string \<rightharpoonup> ('s, 'b) block_maker)) outcome" where
  "Instance_Initiate ce fileBlock vipers blocks bi =
     (case Config_Initiate (ceProvider ce) (ceNew ce) vipers (biConfig bi) of
        (Some e, c, _) \<Rightarrow> Inr (Some (''filesystem block: initiate '' @ quoted e @ '' error''), bi\<lparr>biConfig := c\<rparr>, blocks)
      | (None, c, _) \<Rightarrow>
          (case SetOptions (ceProvider ce) (Some block_options) c of
             Inl p \<Rightarrow> Inl p
           | Inr c1 \<Rightarrow>
               (case FileBlockRegister ''fileBlock'' (Some fileBlock) blocks of
                  (err, bs) \<Rightarrow> Inr (map_option (\<lambda>e. ''filesystem block: initiate '' @ quoted e @ '' error'') err, bi\<lparr>biConfig := c1\<rparr>, bs))))"

definition Instance_Use ::
    "(string \<rightharpoonup> ('s, 'b) block_maker) \<Rightarrow> string \<Rightarrow> ('s, 'b) BlockInstance \<Rightarrow> (string option \<times> ('s, 'b) BlockInstance) outcome" where
  "Instance_Use blocks name bi =
     (case FileBlockUse name blocks of
        Inl e \<Rightarrow> Inr (Some e, bi)
      | Inr mk \<Rightarrow>
          (case mk (biConfig bi) of
             Inl p \<Rightarrow> Inl p
           | Inr (Inl e) \<Rightarrow> Inr (Some e, bi\<lparr>handlerName := name\<rparr>)
           | Inr (Inr b) \<Rightarrow> Inr (None, bi\<lparr>handlerName := name, biHandler := Some b\<rparr>)))"

definition Instance_OnStartup ::
    "('s, 'f, 't) conf_env \<Rightarrow> (string \<rightharpoonup> ('s, 'b) block_maker) \<Rightarrow> ('s, 'b) BlockInstance \<Rightarrow> (string option \<times> ('s, 'b) BlockInstance) outcome" where
  "Instance_OnStartup ce blocks bi =
     (let p = Config_GetString (ceGetters ce) (biConfig bi) ''FILESYSTEM_BLOCK_PROVIDER'' in
      map_sum id (\<lambda>(err, bi1). (map_option (\<lambda>e. ''filesystem block: onStartup '' @ quoted e @ '' error'') err, bi1))
        (Instance_Use blocks (if p = '''' then ''fileBlock'' else p) bi))"

text \<open>
  \<^verbatim>\<open>Block.Initiate\<close> reads its directory and size from the configuration; \<open>mkdir\<close> is the error of \<^verbatim>\<open>os.MkdirAll\<close>,
  \<open>show\<close> the text of an error.
\<close>

definition block_maker_of ::
    "('s, 'f, 't) conf_env \<Rightarrow> (string \<Rightarrow> string option) \<Rightarrow> (block_error \<Rightarrow> string) \<Rightarrow> string list \<Rightarrow> fsys \<Rightarrow> ('s, Block \<times> fsys) block_maker" where
  "block_maker_of ce mkdir show_err names fs c =
     (let dir = Config_GetString (ceGetters ce) c ''FILESYSTEM_BLOCK_DIR'';
          mx = Config_GetInt64 (ceGetters ce) c ''FILESYSTEM_BLOCK_CONTENT_SIZE'' in
      case mkdir dir of
        Some e \<Rightarrow> Inr (Inl e)
      | None \<Rightarrow>
          (case Block_Initiate dir (word_of_int mx) names fs of
             Inl p \<Rightarrow> Inl p
           | Inr (Inl e) \<Rightarrow> Inr (Inl (show_err e))
           | Inr (Inr b) \<Rightarrow> Inr (Inr b)))"

subsection \<open>The handlers\<close>

text \<open>
  The two handlers with the interval of their defragmentation: without a positive one \<^verbatim>\<open>time.Tick\<close> gives a nil channel
  and nothing is ever defragmented.
\<close>

datatype ('s, 'b) fs_handler =
  FileHandler int "('s, 'b) BlockInstance"
| LRUFileHandler int lruInstance "('s, 'b) BlockInstance"

datatype storage = NewFileHandler | NewLRUFileHandler

text \<open>The keys of the store are put into the LRU list in the order of \<^verbatim>\<open>Range\<close>, deleted ones removed.\<close>

fun lru_fill :: "(string \<Rightarrow> 'b \<Rightarrow> 'b) \<Rightarrow> (string \<times> bool) list \<Rightarrow> lruInstance \<times> 'b \<Rightarrow> lruInstance \<times> 'b" where
  "lru_fill del [] s = s"
| "lru_fill del ((key, exist) # es) (lru, b) =
     (if exist then lru_fill del es (lru_Add del key lru b) else lru_fill del es (lru_Del key lru, b))"

definition handler_Initiate ::
    "('s, 'f, 't) conf_env \<Rightarrow> ('s, 'b) block_maker \<Rightarrow> (string \<rightharpoonup> 's) \<Rightarrow> (string \<rightharpoonup> ('s, 'b) block_maker) \<Rightarrow>
     (string \<Rightarrow> 'b \<Rightarrow> 'b) \<Rightarrow> ('b \<Rightarrow> (string \<times> bool) list) \<Rightarrow> storage \<Rightarrow> ('s, goval) Config \<Rightarrow>
     (string + ('s, 'b) fs_handler) outcome" where
  "handler_Initiate ce fileBlock vipers blocks del rangeFn kind conf =
     (let interval = Config_GetDuration (ceGetters ce) conf ''FILESYSTEM_DEFRAG_CONTENT_INTERVAL'' in
      case Instance_Initiate ce fileBlock vipers blocks (NewInstance (ceNew ce)) of
        Inl p \<Rightarrow> Inl p
      | Inr (Some e, _, _) \<Rightarrow> Inr (Inl e)
      | Inr (None, bi, bs) \<Rightarrow>
          (case Instance_OnStartup ce bs bi of
             Inl p \<Rightarrow> Inl p
           | Inr (Some e, _) \<Rightarrow> Inr (Inl e)
           | Inr (None, bi1) \<Rightarrow>
               (case kind of
                  NewFileHandler \<Rightarrow> Inr (Inr (FileHandler interval bi1))
                | NewLRUFileHandler \<Rightarrow>
                    (case biHandler bi1 of
                       None \<Rightarrow> Inl NilDereference
                     | Some b \<Rightarrow>
                         (let cap = Config_GetInt64 (ceGetters ce) conf ''FILESYSTEM_LRU_CAPACITY'';
                              (lru, b1) = lru_fill del (rangeFn b) (newLRUInstance (word_of_int cap), b)
                          in Inr (Inr (LRUFileHandler interval lru (bi1\<lparr>biHandler := Some b1\<rparr>))))))))"

subsection \<open>The component\<close>

record ('s, 'b) Filesystem =
  fsConfig :: "('s, goval) Config"
  fsProvider :: string
  fsHandler :: "('s, 'b) fs_handler option"

definition NewFilesystem :: "'s \<Rightarrow> ('s, 'b) Filesystem" where
  "NewFilesystem nil = \<lparr>fsConfig = NewConfig nil, fsProvider = '''', fsHandler = None\<rparr>"

definition Filesystem_Prepare :: "('s, 'f, 't) conf_env \<Rightarrow> ('s, 'b) Filesystem \<Rightarrow> ('s, 'b) Filesystem outcome" where
  "Filesystem_Prepare ce f = map_sum id (\<lambda>c. f\<lparr>fsConfig := c\<rparr>) (SetOptions (ceProvider ce) (Some filesystem_options) (fsConfig f))"

definition Filesystem_Initiate ::
    "('s, 'f, 't) conf_env \<Rightarrow> (string \<rightharpoonup> 's) \<Rightarrow> (string \<rightharpoonup> storage) \<Rightarrow> ('s, 'b) Filesystem \<Rightarrow>
     string option \<times> ('s, 'b) Filesystem \<times> (string \<rightharpoonup> 's) \<times> (string \<rightharpoonup> storage)" where
  "Filesystem_Initiate ce vipers storages f =
     (case Config_Initiate (ceProvider ce) (ceNew ce) vipers (fsConfig f) of
        (Some e, c, vs) \<Rightarrow> (Some (''filesystem: initiate '' @ quoted e @ '' error''), f\<lparr>fsConfig := c\<rparr>, vs, storages)
      | (None, c, vs) \<Rightarrow>
          (let s1 = snd (filesystem_Register ''file'' (Some NewFileHandler) storages);
               s2 = snd (filesystem_Register ''lruFile'' (Some NewLRUFileHandler) s1)
           in (None, f\<lparr>fsConfig := c\<rparr>, vs, s2)))"

text \<open>\<open>start\<close> is the initiation of a handler of the given kind on a configuration.\<close>

definition Filesystem_Use ::
    "(storage \<Rightarrow> ('s, goval) Config \<Rightarrow> (string + ('s, 'b) fs_handler) outcome) \<Rightarrow> (string \<rightharpoonup> storage) \<Rightarrow> string \<Rightarrow> ('s, 'b) Filesystem \<Rightarrow>
     (string option \<times> ('s, 'b) Filesystem) outcome" where
  "Filesystem_Use start storages name f =
     (case filesystem_lookup name storages of
        Inl e \<Rightarrow> Inr (Some e, f)
      | Inr kind \<Rightarrow>
          (case start kind (fsConfig f) of
             Inl p \<Rightarrow> Inl p
           | Inr (Inl e) \<Rightarrow> Inr (Some e, f\<lparr>fsProvider := name\<rparr>)
           | Inr (Inr h) \<Rightarrow> Inr (None, f\<lparr>fsProvider := name, fsHandler := Some h\<rparr>)))"

definition Filesystem_OnStartup ::
    "('s, 'f, 't) conf_env \<Rightarrow> (storage \<Rightarrow> ('s, goval) Config \<Rightarrow> (string + ('s, 'b) fs_handler) outcome) \<Rightarrow> (string \<rightharpoonup> storage) \<Rightarrow>
     ('s, 'b) Filesystem \<Rightarrow> (string option \<times> ('s, 'b) Filesystem) outcome" where
  "Filesystem_OnStartup ce start storages f =
     (let p = Config_GetString (ceGetters ce) (fsConfig f) ''FILESYSTEM_PROVIDER'' in
      map_sum id (\<lambda>(err, f1). (map_option (\<lambda>e. ''filesystem: onStartup '' @ quoted e @ '' error'') err, f1))
        (Filesystem_Use start storages (if p = '''' then ''file'' else p) f))"

text \<open>The operations go to the handler, and from it to the block store.\<close>

definition with_block :: "('s, 'b) BlockInstance \<Rightarrow> ('b \<Rightarrow> 'a \<times> 'b) \<Rightarrow> ('a \<times> ('s, 'b) BlockInstance) outcome" where
  "with_block bi f =
     (case biHandler bi of
        None \<Rightarrow> Inl NilDereference
      | Some b \<Rightarrow> (case f b of (r, b1) \<Rightarrow> Inr (r, bi\<lparr>biHandler := Some b1\<rparr>)))"

definition handler_SetContent ::
    "('x, 'b) BlockHandler \<Rightarrow> 'x \<Rightarrow> string \<Rightarrow> string \<Rightarrow> ('s, 'b) fs_handler \<Rightarrow> (block_error option \<times> ('s, 'b) fs_handler) outcome" where
  "handler_SetContent bh x key content h =
     (case h of
        FileHandler i bi \<Rightarrow> map_sum id (\<lambda>(r, bi1). (r, FileHandler i bi1)) (with_block bi (File_SetContent bh x key content))
      | LRUFileHandler i lru bi \<Rightarrow>
          map_sum id (\<lambda>((r, lru1), bi1). (r, LRUFileHandler i lru1 bi1))
            (with_block bi (\<lambda>b. case LRU_SetContent bh x key content lru b of (r, lru1, b1) \<Rightarrow> ((r, lru1), b1))))"

definition handler_DelContent ::
    "('x, 'b) BlockHandler \<Rightarrow> string \<Rightarrow> ('s, 'b) fs_handler \<Rightarrow> (block_error option \<times> ('s, 'b) fs_handler) outcome" where
  "handler_DelContent bh key h =
     (case h of
        FileHandler i bi \<Rightarrow> map_sum id (\<lambda>(r, bi1). (r, FileHandler i bi1)) (with_block bi (File_DelContent bh key))
      | LRUFileHandler i lru bi \<Rightarrow>
          map_sum id (\<lambda>((r, lru1), bi1). (r, LRUFileHandler i lru1 bi1))
            (with_block bi (\<lambda>b. case LRU_DelContent bh key lru b of (r, lru1, b1) \<Rightarrow> ((r, lru1), b1))))"

definition handler_GetContent ::
    "('x, 'b) BlockHandler \<Rightarrow> string \<Rightarrow> ('s, 'b) fs_handler \<Rightarrow> ((block_error + string) \<times> ('s, 'b) fs_handler) outcome" where
  "handler_GetContent bh key h =
     (case h of
        FileHandler i bi \<Rightarrow>
          (case biHandler bi of
             None \<Rightarrow> Inl NilDereference
           | Some b \<Rightarrow> map_sum id (\<lambda>r. (r, h)) (File_GetContent bh key b))
      | LRUFileHandler i lru bi \<Rightarrow>
          (case biHandler bi of
             None \<Rightarrow> Inl NilDereference
           | Some b \<Rightarrow>
               map_sum id (\<lambda>(r, lru1, b1). (r, LRUFileHandler i lru1 (bi\<lparr>biHandler := Some b1\<rparr>))) (LRU_GetContent bh key lru b)))"

definition Filesystem_SetContent ::
    "('x, 'b) BlockHandler \<Rightarrow> 'x \<Rightarrow> string \<Rightarrow> string \<Rightarrow> ('s, 'b) Filesystem \<Rightarrow> (block_error option \<times> ('s, 'b) Filesystem) outcome" where
  "Filesystem_SetContent bh x key content f =
     (case fsHandler f of
        None \<Rightarrow> Inl NilDereference
      | Some h \<Rightarrow> map_sum id (\<lambda>(r, h1). (r, f\<lparr>fsHandler := Some h1\<rparr>)) (handler_SetContent bh x key content h))"

definition Filesystem_GetContent ::
    "('x, 'b) BlockHandler \<Rightarrow> string \<Rightarrow> ('s, 'b) Filesystem \<Rightarrow> ((block_error + string) \<times> ('s, 'b) Filesystem) outcome" where
  "Filesystem_GetContent bh key f =
     (case fsHandler f of
        None \<Rightarrow> Inl NilDereference
      | Some h \<Rightarrow> map_sum id (\<lambda>(r, h1). (r, f\<lparr>fsHandler := Some h1\<rparr>)) (handler_GetContent bh key h))"

definition Filesystem_DelContent ::
    "('x, 'b) BlockHandler \<Rightarrow> string \<Rightarrow> ('s, 'b) Filesystem \<Rightarrow> (block_error option \<times> ('s, 'b) Filesystem) outcome" where
  "Filesystem_DelContent bh key f =
     (case fsHandler f of
        None \<Rightarrow> Inl NilDereference
      | Some h \<Rightarrow> map_sum id (\<lambda>(r, h1). (r, f\<lparr>fsHandler := Some h1\<rparr>)) (handler_DelContent bh key h))"

subsection \<open>The settings that arrive\<close>

text \<open>
  What is used of the configuration package: a fresh provider holds nothing, and the getters give zero values for
  keys without a value and the value for a value of their type.
\<close>

definition conf_laws :: "('s, 'f, 't) conf_env \<Rightarrow> bool" where
  "conf_laws ce =
     (viper_laws (ceProvider ce) \<and> pInitiate (ceProvider ce) (ceNew ce) = (None, ceNew ce) \<and>
      (\<forall>k. pGet (ceProvider ce) (ceNew ce) k = None) \<and>
      (\<forall>s k. pGet (ceProvider ce) s k = None \<longrightarrow>
         gString (ceGetters ce) s k = '''' \<and> gInt64 (ceGetters ce) s k = 0 \<and> gDuration (ceGetters ce) s k = 0) \<and>
      (\<forall>s k x. pGet (ceProvider ce) s k = Some (GString x) \<longrightarrow> gString (ceGetters ce) s k = x) \<and>
      (\<forall>s k i. pGet (ceProvider ce) s k = Some (GInt i) \<longrightarrow> gInt64 (ceGetters ce) s k = i))"

lemma viper_Default_new:
  "viper_laws P \<Longrightarrow> plain_key k \<Longrightarrow> pGet P s k = None \<Longrightarrow> pGet P (pSetDefault P k v s) k = Some v"
  by (simp add: viper_laws_def)

lemma Config_Initiate_fresh:
  assumes "conf_laws ce" and "vipers ''viper'' \<in> {None, Some (ceNew ce)}"
  shows "Config_Initiate (ceProvider ce) (ceNew ce) vipers c =
    (None, c\<lparr>cfgProvider := ''viper'', handler := ceNew ce, options := Some (option_list c)\<rparr>, vipers(''viper'' \<mapsto> ceNew ce))"
proof -
  have i: "pInitiate (ceProvider ce) (ceNew ce) = (None, ceNew ce)" using assms(1) by (simp add: conf_laws_def)
  have v: "vipers(''viper'' \<mapsto> ceNew ce) = (if vipers ''viper'' = None then vipers(''viper'' \<mapsto> ceNew ce) else vipers)"
    using assms(2) by (auto simp: fun_upd_idem)
  show ?thesis
    by (cases "options c") (simp_all add: Config_Initiate_def config_Register_def Config_Use_def config_lookup_def v [symmetric] i annotate_def option_list_def)
qed

lemma GetAs_own_key: "env_key key (option_list c) = None \<Longrightarrow> Config_GetAs g c key = g (handler c) key"
  by (simp add: Config_GetAs_def)

lemma set_options_step:
  assumes "set_options P ((k, o1) # opts) c = Inr c'" and "k \<noteq> ''''"
  obtains c1 where "set_options P opts c1 = Inr c'" "handler c1 = (case Default o1 of None \<Rightarrow> handler c | Some v \<Rightarrow> pSetDefault P k v (handler c))"
proof -
  obtain os where os: "options c = Some os" using assms by (auto split: option.splits)
  define c0 where "c0 = (if map_of os k = None then c\<lparr>options := Some (os @ [(k, o1)])\<rparr> else c)"
  have "set_options P opts (case Default o1 of None \<Rightarrow> c0 | Some v \<Rightarrow> c0\<lparr>handler := pSetDefault P k v (handler c0)\<rparr>) = Inr c'"
    unfolding c0_def using assms os by simp
  moreover have "handler c0 = handler c" by (simp add: c0_def)
  ultimately show thesis using that by (cases "Default o1") auto
qed

text \<open>Options on a fresh provider: every default is what the getter sees under its key.\<close>

lemma set_options_untouched:
  assumes "viper_laws P" and "plain_key q"
  shows "set_options P opts c = Inr c' \<Longrightarrow> list_all (\<lambda>(k, o1). plain_key k \<and> ToLower q \<noteq> ToLower k) opts \<Longrightarrow>
     pGet P (handler c') q = pGet P (handler c) q"
proof (induction opts arbitrary: c)
  case (Cons x opts)
  obtain k o1 where x: "x = (k, o1)" by (cases x)
  have k: "plain_key k" "ToLower q \<noteq> ToLower k" using Cons.prems(2) by (simp_all add: x)
  then have "k \<noteq> ''''" by (simp add: plain_key_def)
  then obtain c1 where c1: "set_options P opts c1 = Inr c'"
      "handler c1 = (case Default o1 of None \<Rightarrow> handler c | Some v \<Rightarrow> pSetDefault P k v (handler c))"
    using set_options_step Cons.prems(1) unfolding x by blast
  then show ?case using Cons.IH [OF c1(1)] Cons.prems(2) viper_Default_other [OF assms(1) k(1) assms(2) k(2)]
    by (auto simp: x split: option.split)
qed simp

lemma set_options_defaults:
  assumes "viper_laws P" and "plain_key q"
  shows "set_options P opts c = Inr c' \<Longrightarrow> list_all (\<lambda>(k, o1). plain_key k) opts \<Longrightarrow> distinct (map (ToLower \<circ> fst) opts) \<Longrightarrow>
     (q, o1) \<in> set opts \<Longrightarrow> Default o1 = Some v \<Longrightarrow> pGet P (handler c) q = None \<Longrightarrow> pGet P (handler c') q = Some v"
proof (induction opts arbitrary: c)
  case (Cons x opts)
  obtain k o2 where x: "x = (k, o2)" by (cases x)
  have k: "plain_key k" using Cons.prems(2) by (simp add: x)
  then have "k \<noteq> ''''" by (simp add: plain_key_def)
  then obtain c1 where c1: "set_options P opts c1 = Inr c'"
      "handler c1 = (case Default o2 of None \<Rightarrow> handler c | Some v \<Rightarrow> pSetDefault P k v (handler c))"
    using set_options_step Cons.prems(1) unfolding x by blast
  show ?case
  proof (cases "(q, o1) = (k, o2)")
    case True
    then have "list_all (\<lambda>(k, o1). plain_key k \<and> ToLower q \<noteq> ToLower k) opts"
      using Cons.prems(2,3) by (force simp: x list_all_iff)
    from set_options_untouched [OF assms c1(1) this] show ?thesis
      using True c1(2) Cons.prems(5,6) viper_Default_new [OF assms] by simp
  next
    case False
    then have "(q, o1) \<in> set opts" using Cons.prems(4) by (auto simp: x)
    moreover then have "ToLower q \<noteq> ToLower k" using Cons.prems(3) by (force simp: x)
    then have "pGet P (handler c1) q = pGet P (handler c) q"
      using viper_Default_other [OF assms(1) k assms(2)] c1(2) by (auto split: option.split)
    ultimately show ?thesis using Cons.IH [OF c1(1)] Cons.prems by (simp add: x)
  qed
qed simp

lemma block_options_keys:
  "list_all (\<lambda>(k, o1). plain_key k) block_options" "distinct (map (ToLower \<circ> fst) block_options)"
  by (simp_all add: block_options_def opt_def plain_key_def)

lemma block_options_env: "\<forall>(k, o1) \<in> set block_options. EnvironmentKey o1 = k"
  by (simp add: block_options_def opt_def)

lemma env_key_same: "\<forall>(k, o1) \<in> set os. EnvironmentKey o1 = k \<Longrightarrow> env_key key os = None"
  by (induction os) auto

lemma set_options_own_keys:
  "set_options P opts c = Inr c' \<Longrightarrow> \<forall>(k, o1) \<in> set opts. EnvironmentKey o1 = k \<Longrightarrow> \<forall>(k, o1) \<in> set (option_list c). EnvironmentKey o1 = k \<Longrightarrow>
     \<forall>(k, o1) \<in> set (option_list c'). EnvironmentKey o1 = k"
proof (induction opts arbitrary: c)
  case (Cons x opts)
  obtain k o1 where x: "x = (k, o1)" by (cases x)
  let ?d = "\<lambda>c1. case Default o1 of None \<Rightarrow> c1 | Some v \<Rightarrow> c1\<lparr>handler := pSetDefault P k v (handler c1)\<rparr>"
  obtain c0 where c0: "set_options P opts (?d c0) = Inr c'" "set (option_list c0) \<subseteq> insert (k, o1) (set (option_list c))"
  proof (cases "k = ''''")
    case True
    then show ?thesis using that [of c] Cons.prems(1) by (auto simp: x cong: option.case_cong)
  next
    case False
    then obtain os where os: "options c = Some os" using Cons.prems(1) by (auto simp: x split: option.splits)
    define c1 where "c1 = (if map_of os k = None then c\<lparr>options := Some (os @ [(k, o1)])\<rparr> else c)"
    have "set_options P opts (?d c1) = Inr c'" unfolding c1_def using Cons.prems(1) False by (simp add: x os)
    moreover have "option_list c1 = (if map_of os k = None then os @ [(k, o1)] else os)" "option_list c = os"
      by (simp_all add: c1_def option_list_def os)
    ultimately show ?thesis using that [of c1] by (auto split: if_splits)
  qed
  have d: "option_list (?d c0) = option_list c0" by (simp split: option.split)
  show ?case by (rule Cons.IH [OF c0(1)]) (use Cons.prems(2,3) c0(2) d in \<open>auto simp: x\<close>)
qed simp

lemma Instance_ready:
  assumes laws: "conf_laws ce" and "vipers ''viper'' \<in> {None, Some (ceNew ce)}" and "blocks ''fileBlock'' = None"
  shows "\<exists>bi. Instance_Initiate ce fb vipers blocks (NewInstance nil) = Inr (None, bi, blocks(''fileBlock'' \<mapsto> fb)) \<and>
     Config_GetString (ceGetters ce) (biConfig bi) ''FILESYSTEM_BLOCK_PROVIDER'' = ''fileBlock'' \<and>
     Config_GetString (ceGetters ce) (biConfig bi) ''FILESYSTEM_BLOCK_DIR'' = ''/tmp/block'' \<and>
     Config_GetInt64 (ceGetters ce) (biConfig bi) ''FILESYSTEM_BLOCK_CONTENT_SIZE'' = 67108864"
proof -
  let ?c = "(NewConfig nil)\<lparr>cfgProvider := ''viper'', handler := ceNew ce, options := Some (option_list (NewConfig nil))\<rparr>"
  have v: "viper_laws (ceProvider ce)" using laws by (simp add: conf_laws_def)
  obtain c1 where c1: "set_options (ceProvider ce) block_options ?c = Inr c1"
    using set_options_returns [of ?c "ceProvider ce" block_options] by auto
  have own: "env_key key (option_list c1) = None" for key
    by (rule env_key_same, rule set_options_own_keys [OF c1 block_options_env]) (simp add: option_list_def NewConfig_def)
  have held: "pGet (ceProvider ce) (handler c1) q = Some x" if "(q, \<lparr>OptType = t, Default = Some x, EnvironmentKey = q\<rparr>) \<in> set block_options" for q t x
  proof (rule set_options_defaults [OF v _ c1 block_options_keys that])
    show "plain_key q" using block_options_keys(1) that by (auto simp: list_all_iff)
    show "pGet (ceProvider ce) (handler ?c) q = None" using laws by (simp add: conf_laws_def)
  qed simp
  have "pGet (ceProvider ce) (handler c1) ''FILESYSTEM_BLOCK_PROVIDER'' = Some (GString ''fileBlock'')"
    "pGet (ceProvider ce) (handler c1) ''FILESYSTEM_BLOCK_DIR'' = Some (GString ''/tmp/block'')"
    "pGet (ceProvider ce) (handler c1) ''FILESYSTEM_BLOCK_CONTENT_SIZE'' = Some (GInt 67108864)"
    by (rule held [of _ TString] held [of _ TInt64], simp add: block_options_def opt_def)+
  then have "Config_GetString (ceGetters ce) c1 ''FILESYSTEM_BLOCK_PROVIDER'' = ''fileBlock''"
    "Config_GetString (ceGetters ce) c1 ''FILESYSTEM_BLOCK_DIR'' = ''/tmp/block''"
    "Config_GetInt64 (ceGetters ce) c1 ''FILESYSTEM_BLOCK_CONTENT_SIZE'' = 67108864"
    using laws by (simp_all add: conf_laws_def Config_GetString_def Config_GetInt64_def GetAs_own_key [OF own])
  moreover have "Instance_Initiate ce fb vipers blocks (NewInstance nil) =
      Inr (None, (NewInstance nil)\<lparr>biConfig := c1\<rparr>, blocks(''fileBlock'' \<mapsto> fb))"
    using c1 assms(3) by (simp add: Instance_Initiate_def NewInstance_def Config_Initiate_fresh [of ce vipers, OF assms(1,2)] SetOptions_def FileBlockRegister_def)
  ultimately show ?thesis by (intro exI [of _ "(NewInstance nil)\<lparr>biConfig := c1\<rparr>"]) simp
qed

lemma file_handler_fixed:
  assumes "conf_laws ce" and "vipers ''viper'' \<in> {None, Some (ceNew ce)}" and "blocks ''fileBlock'' = None"
    and "handler_Initiate ce (block_maker_of ce mkdir sh names fs) vipers blocks del rg NewFileHandler conf = Inr (Inr h)"
  shows "\<exists>bi b. h = FileHandler (Config_GetDuration (ceGetters ce) conf ''FILESYSTEM_DEFRAG_CONTENT_INTERVAL'') bi \<and>
           biHandler bi = Some b \<and> Block_Initiate ''/tmp/block'' 67108864 names fs = Inr (Inr b)"
proof -
  let ?fb = "block_maker_of ce mkdir sh names fs"
  obtain bi where bi: "Instance_Initiate ce ?fb vipers blocks (NewInstance (ceNew ce)) = Inr (None, bi, blocks(''fileBlock'' \<mapsto> ?fb))"
      "Config_GetString (ceGetters ce) (biConfig bi) ''FILESYSTEM_BLOCK_PROVIDER'' = ''fileBlock''"
      "Config_GetString (ceGetters ce) (biConfig bi) ''FILESYSTEM_BLOCK_DIR'' = ''/tmp/block''"
      "Config_GetInt64 (ceGetters ce) (biConfig bi) ''FILESYSTEM_BLOCK_CONTENT_SIZE'' = 67108864"
    using Instance_ready [of ce vipers blocks, OF assms(1-3)] by blast
  define x where "x = Block_Initiate ''/tmp/block'' 67108864 names fs"
  have fb: "?fb (biConfig bi) = (case mkdir ''/tmp/block'' of Some e \<Rightarrow> Inr (Inl e) | None \<Rightarrow>
      (case x of Inl p \<Rightarrow> Inl p | Inr (Inl e) \<Rightarrow> Inr (Inl (sh e)) | Inr (Inr b) \<Rightarrow> Inr (Inr b)))"
    unfolding x_def block_maker_of_def bi(3,4) Let_def by (cases "mkdir ''/tmp/block''") simp_all
  show ?thesis
    unfolding x_def [symmetric]
    using assms(4) by (auto simp: handler_Initiate_def bi Instance_OnStartup_def Instance_Use_def FileBlockUse_def fb Let_def
        split: option.splits sum.splits)
qed

text \<open>
  \<^bold>\<open>C7\<close>. The file system component forgets its settings: \<^verbatim>\<open>Initiate\<close> replaces the provider of the configuration, and the
  block store has a configuration of its own. Whatever was configured, a start that succeeds runs the plain file
  handler, on the directory and with the file size of the defaults, and never defragments.
\<close>

theorem filesystem_ignores_settings:
  assumes "conf_laws ce" and "vipers ''viper'' \<in> {None, Some (ceNew ce)}"
    and "Filesystem_Initiate ce vipers Map.empty f = (None, f1, vs, ss)"
    and "Filesystem_OnStartup ce (handler_Initiate ce (block_maker_of ce mkdir sh names fs) vs Map.empty del rg) ss f1 = Inr (None, f2)"
  shows "\<exists>bi b. fsProvider f2 = ''file'' \<and> fsHandler f2 = Some (FileHandler 0 bi) \<and> biHandler bi = Some b \<and>
           Block_Initiate ''/tmp/block'' 67108864 names fs = Inr (Inr b)"
proof -
  have init: "f1 = f\<lparr>fsConfig := (fsConfig f)\<lparr>cfgProvider := ''viper'', handler := ceNew ce, options := Some (option_list (fsConfig f))\<rparr>\<rparr>"
      "vs = vipers(''viper'' \<mapsto> ceNew ce)" "ss ''file'' = Some NewFileHandler"
    using assms(3) by (auto simp: Filesystem_Initiate_def Config_Initiate_fresh [of ce vipers, OF assms(1,2)] filesystem_Register_def Let_def)
  have "pGet (ceProvider ce) (handler (fsConfig f1)) k = None" for k using assms(1) by (simp add: init(1) conf_laws_def)
  then have zero: "gString (ceGetters ce) (handler (fsConfig f1)) k = ''''" "gDuration (ceGetters ce) (handler (fsConfig f1)) k = 0" for k
    using assms(1) by (simp_all add: conf_laws_def)
  have get: "Config_GetString (ceGetters ce) (fsConfig f1) k = ''''" "Config_GetDuration (ceGetters ce) (fsConfig f1) k = 0" for k
    by (simp_all add: Config_GetString_def Config_GetDuration_def Config_GetAs_def zero split: option.split)
  let ?start = "handler_Initiate ce (block_maker_of ce mkdir sh names fs) vs Map.empty del rg"
  obtain h where h: "?start NewFileHandler (fsConfig f1) = Inr (Inr h)" "f2 = f1\<lparr>fsProvider := ''file'', fsHandler := Some h\<rparr>"
    using assms(4) by (auto simp: Filesystem_OnStartup_def get Filesystem_Use_def filesystem_lookup_def init(3) split: sum.splits)
  have "vs ''viper'' \<in> {None, Some (ceNew ce)}" by (simp add: init(2))
  from file_handler_fixed [of ce vs Map.empty, OF assms(1) this _ h(1)] show ?thesis using h(2) get(2) by auto
qed

text \<open>A configuration for examples: the values that were set and the defaults, with the getters of the types used.\<close>

record goviper =
  gv_set :: "string \<rightharpoonup> goval"
  gv_default :: "string \<rightharpoonup> goval"

definition gv_Get :: "goviper \<Rightarrow> string \<Rightarrow> goval option" where
  "gv_Get s k = (case gv_set s (ToLower k) of Some v \<Rightarrow> Some v | None \<Rightarrow> gv_default s (ToLower k))"

definition demo_conf :: "(goviper, unit, unit) conf_env" where
  "demo_conf = \<lparr>ceProvider = \<lparr>pInitiate = \<lambda>s. (None, s), pAddConfigPath = \<lambda>p s. s, pSetConfigName = \<lambda>n s. s, pSetConfigFile = \<lambda>f s. s,
       pSetEnvPrefix = \<lambda>p s. s, pSetDefault = \<lambda>k v s. s\<lparr>gv_default := (gv_default s)(ToLower k \<mapsto> v)\<rparr>, pBindEnv = \<lambda>k s. (None, s),
       pReadInConfig = \<lambda>s. (None, s), pSet = \<lambda>k v s. s\<lparr>gv_set := (gv_set s)(ToLower k \<mapsto> v)\<rparr>, pGet = gv_Get\<rparr>,
     ceGetters = \<lparr>gString = \<lambda>s k. (case gv_Get s k of Some (GString x) \<Rightarrow> x | _ \<Rightarrow> ''''), gBool = \<lambda>s k. False, gInt = \<lambda>s k. 0,
       gInt64 = \<lambda>s k. (case gv_Get s k of Some (GInt i) \<Rightarrow> i | _ \<Rightarrow> 0), gFloat64 = \<lambda>s k. (), gTime = \<lambda>s k. (),
       gDuration = \<lambda>s k. (case gv_Get s k of Some (GInt64 i) \<Rightarrow> i | _ \<Rightarrow> 0), gStringSlice = \<lambda>s k. [], gStringMap = \<lambda>s k. [],
       gStringMapString = \<lambda>s k. [], gStringMapStringSlice = \<lambda>s k. [], gSizeInBytes = \<lambda>s k. 0\<rparr>,
     ceNew = \<lparr>gv_set = Map.empty, gv_default = Map.empty\<rparr>\<rparr>"

lemma demo_conf_laws: "conf_laws demo_conf"
  by (auto simp: conf_laws_def viper_laws_def demo_conf_def gv_Get_def split: option.splits)

text \<open>A component configured to use the LRU handler and a directory of its own.\<close>

definition demo_filesystem :: "(goviper, Block \<times> fsys) Filesystem" where
  "demo_filesystem = (NewFilesystem (ceNew demo_conf))\<lparr>fsConfig := (NewConfig (ceNew demo_conf))\<lparr>options := Some filesystem_options,
     handler := \<lparr>gv_set = [ToLower ''FILESYSTEM_PROVIDER'' \<mapsto> GString ''lruFile'', ToLower ''FILESYSTEM_BLOCK_DIR'' \<mapsto> GString ''/data''], gv_default = Map.empty\<rparr>\<rparr>\<rparr>"

lemma tmp_block_Initiate: "\<exists>b. Block_Initiate ''/tmp/block'' mx [] blank_disk = Inr (Inr b)"
proof -
  have "scan_index [] 0 = Inr ([], None)" using scan_enc_log [of "[]" "[]"] by simp
  then show ?thesis
    by (simp add: blank_disk_def Block_Initiate_def NewIndexWriter_def OpenAppend_def loadIndex_def LoadIndexFromFile_def OpenRead_def fun_upd_def)
qed

lemma demo_fs_start:
  "\<exists>f1 vs ss f2. Filesystem_Initiate demo_conf Map.empty Map.empty demo_filesystem = (None, f1, vs, ss) \<and>
     Filesystem_OnStartup demo_conf (handler_Initiate demo_conf (block_maker_of demo_conf (\<lambda>d. None) (\<lambda>e. '''') [] blank_disk) vs Map.empty
       (lru_delFunc block_handler) (\<lambda>b. [])) ss f1 = Inr (None, f2)"
proof -
  let ?fb = "block_maker_of demo_conf (\<lambda>d. None) (\<lambda>e. '''') [] blank_disk"
  obtain f1 vs ss where i: "Filesystem_Initiate demo_conf Map.empty Map.empty demo_filesystem = (None, f1, vs, ss)"
      "vs = [''viper'' \<mapsto> ceNew demo_conf]" "ss ''file'' = Some NewFileHandler"
      "f1 = demo_filesystem\<lparr>fsConfig := (fsConfig demo_filesystem)\<lparr>cfgProvider := ''viper'', handler := ceNew demo_conf,
               options := Some (option_list (fsConfig demo_filesystem))\<rparr>\<rparr>"
    using Config_Initiate_fresh [of demo_conf Map.empty "fsConfig demo_filesystem", OF demo_conf_laws]
    by (simp add: Filesystem_Initiate_def filesystem_Register_def Let_def)
  have "gString (ceGetters demo_conf) (ceNew demo_conf) k = ''''" for k by (simp add: demo_conf_def gv_Get_def)
  then have p: "Config_GetString (ceGetters demo_conf) (fsConfig f1) ''FILESYSTEM_PROVIDER'' = ''''"
    by (simp add: Config_GetString_def Config_GetAs_def i(4) split: option.split)
  obtain b where b: "Block_Initiate ''/tmp/block'' 67108864 [] blank_disk = Inr (Inr b)" using tmp_block_Initiate by blast
  obtain bi where bi: "Instance_Initiate demo_conf ?fb vs Map.empty (NewInstance (ceNew demo_conf)) = Inr (None, bi, [''fileBlock'' \<mapsto> ?fb])"
      "Config_GetString (ceGetters demo_conf) (biConfig bi) ''FILESYSTEM_BLOCK_PROVIDER'' = ''fileBlock''"
      "Config_GetString (ceGetters demo_conf) (biConfig bi) ''FILESYSTEM_BLOCK_DIR'' = ''/tmp/block''"
      "Config_GetInt64 (ceGetters demo_conf) (biConfig bi) ''FILESYSTEM_BLOCK_CONTENT_SIZE'' = 67108864"
    using Instance_ready [of demo_conf vs Map.empty ?fb, OF demo_conf_laws] by (auto simp: i(2))
  have fb: "?fb (biConfig bi) = Inr (Inr b)" unfolding block_maker_of_def bi(3,4) Let_def using b by simp
  have "\<exists>f2. Filesystem_OnStartup demo_conf (handler_Initiate demo_conf ?fb vs Map.empty (lru_delFunc block_handler) (\<lambda>b. [])) ss f1 = Inr (None, f2)"
    by (simp add: Filesystem_OnStartup_def p Filesystem_Use_def filesystem_lookup_def i(3) handler_Initiate_def bi Instance_OnStartup_def
        Instance_Use_def FileBlockUse_def fb)
  with i(1) show ?thesis by blast
qed

theorem filesystem_ignores_settings_witness:
  "\<exists>f1 vs ss f2 bi b. Filesystem_Initiate demo_conf Map.empty Map.empty demo_filesystem = (None, f1, vs, ss) \<and>
     Filesystem_OnStartup demo_conf (handler_Initiate demo_conf (block_maker_of demo_conf (\<lambda>d. None) (\<lambda>e. '''') [] blank_disk) vs Map.empty
       (lru_delFunc block_handler) (\<lambda>b. [])) ss f1 = Inr (None, f2) \<and>
     fsHandler f2 = Some (FileHandler 0 bi) \<and> biHandler bi = Some b \<and> Block_Initiate ''/tmp/block'' 67108864 [] blank_disk = Inr (Inr b)"
proof -
  obtain f1 vs ss f2 where r: "Filesystem_Initiate demo_conf Map.empty Map.empty demo_filesystem = (None, f1, vs, ss)"
      "Filesystem_OnStartup demo_conf (handler_Initiate demo_conf (block_maker_of demo_conf (\<lambda>d. None) (\<lambda>e. '''') [] blank_disk) vs Map.empty
       (lru_delFunc block_handler) (\<lambda>b. [])) ss f1 = Inr (None, f2)"
    using demo_fs_start by blast
  from filesystem_ignores_settings [of demo_conf Map.empty, OF demo_conf_laws _ r] r show ?thesis by blast
qed

text \<open>Used alone, the component panics when it is prepared: its configuration has no map of options yet.\<close>

theorem NewFilesystem_Prepare_panics:
  "Filesystem_Prepare ce (NewFilesystem nil) = Inl (ExplicitPanic ''assignment to entry in nil map'')"
  by (simp add: Filesystem_Prepare_def NewFilesystem_def NewConfig_def SetOptions_def filesystem_options_def opt_def)

subsection \<open>Contents\<close>

text \<open>The contents of a component that runs the file handler are those of the block store below it.\<close>

definition fs_contents :: "('s, Block \<times> fsys) Filesystem \<Rightarrow> (string \<rightharpoonup> string) option" where
  "fs_contents f =
     (case fsHandler f of
        Some (FileHandler i bi) \<Rightarrow> map_option block_abs (biHandler bi)
      | _ \<Rightarrow> None)"

definition fs_room :: "nat \<Rightarrow> ('s, Block \<times> fsys) Filesystem \<Rightarrow> bool" where
  "fs_room c f =
     (case fsHandler f of
        Some (FileHandler i bi) \<Rightarrow> (case biHandler bi of Some b \<Rightarrow> block_inv c b | None \<Rightarrow> False)
      | _ \<Rightarrow> False)"

lemma fs_roomE:
  assumes "fs_room c f"
  obtains i bi b where "fsHandler f = Some (FileHandler i bi)" "biHandler bi = Some b" "block_inv c b" "fs_contents f = Some (block_abs b)"
  using assms by (auto simp: fs_room_def fs_contents_def split: option.splits fs_handler.splits)

lemma fs_Set:
  assumes "fs_room (Suc c) f" and "fs_contents f = Some m" and "block_arg_ok x k v"
  shows "\<exists>f1. Filesystem_SetContent block_handler x k v f = Inr (None, f1) \<and> fs_room c f1 \<and> fs_contents f1 = Some (m(k \<mapsto> v))"
  using assms(1)
proof (rule fs_roomE)
  fix i bi b assume f: "fsHandler f = Some (FileHandler i bi)" "biHandler bi = Some b" "block_inv (Suc c) b" "fs_contents f = Some (block_abs b)"
  obtain b1 where "h_Set block_handler x k v b = (None, b1)" "block_inv c b1" "block_abs b1 = (block_abs b)(k \<mapsto> v)"
    using block_store.set_ok [OF f(3) assms(3)] by blast
  then show ?thesis
    using f assms(2) by (simp add: Filesystem_SetContent_def handler_SetContent_def with_block_def File_SetContent_def fs_room_def fs_contents_def)
qed

lemma fs_Del:
  assumes "fs_room (Suc c) f" and "fs_contents f = Some m" and "block_key_ok k"
  shows "\<exists>f1. Filesystem_DelContent block_handler k f = Inr (None, f1) \<and> fs_room c f1 \<and> fs_contents f1 = Some (m(k := None))"
  using assms(1)
proof (rule fs_roomE)
  fix i bi b assume f: "fsHandler f = Some (FileHandler i bi)" "biHandler bi = Some b" "block_inv (Suc c) b" "fs_contents f = Some (block_abs b)"
  obtain b1 where "h_Del block_handler k b = (None, b1)" "block_inv c b1" "block_abs b1 = (block_abs b)(k := None)"
    using block_store.del_ok [OF f(3) assms(3)] by blast
  then show ?thesis
    using f assms(2) by (simp add: Filesystem_DelContent_def handler_DelContent_def with_block_def File_DelContent_def fs_room_def fs_contents_def)
qed

lemma fs_Get:
  assumes "fs_room c f" and "fs_contents f = Some m"
  shows "Filesystem_GetContent block_handler k f = Inr (case m k of None \<Rightarrow> Inl errNotExist | Some v \<Rightarrow> Inr v, f)"
  using assms(1)
proof (rule fs_roomE)
  fix i bi b assume f: "fsHandler f = Some (FileHandler i bi)" "biHandler bi = Some b" "block_inv c b" "fs_contents f = Some (block_abs b)"
  then have "m = block_abs b" using assms(2) by simp
  moreover have "f\<lparr>fsHandler := Some (FileHandler i bi)\<rparr> = f" using f(1) by simp
  ultimately show ?thesis
    using f block_store.get_ok [OF f(3), of k]
    by (simp add: Filesystem_GetContent_def handler_GetContent_def File_GetContent_def split: option.split)
qed

text \<open>Sequences of operations, and what they answer on a map.\<close>

datatype fs_op = FSet string string string | FGet string | FDel string
datatype fs_answer = FDone | FFound string | FMissing | FFailed block_error

fun fs_exec :: "fs_op \<Rightarrow> ('s, Block \<times> fsys) Filesystem \<Rightarrow> (fs_answer \<times> ('s, Block \<times> fsys) Filesystem) outcome" where
  "fs_exec (FSet x k v) f =
     map_sum id (\<lambda>(r, f1). (case r of None \<Rightarrow> FDone | Some e \<Rightarrow> FFailed e, f1)) (Filesystem_SetContent block_handler x k v f)"
| "fs_exec (FGet k) f =
     map_sum id (\<lambda>(r, f1). (case r of Inr v \<Rightarrow> FFound v | Inl e \<Rightarrow> if e = errNotExist then FMissing else FFailed e, f1))
       (Filesystem_GetContent block_handler k f)"
| "fs_exec (FDel k) f =
     map_sum id (\<lambda>(r, f1). (case r of None \<Rightarrow> FDone | Some e \<Rightarrow> FFailed e, f1)) (Filesystem_DelContent block_handler k f)"

fun fs_run :: "fs_op list \<Rightarrow> ('s, Block \<times> fsys) Filesystem \<Rightarrow> (fs_answer list \<times> ('s, Block \<times> fsys) Filesystem) outcome" where
  "fs_run [] f = Inr ([], f)"
| "fs_run (op # ops) f =
     (case fs_exec op f of
        Inl p \<Rightarrow> Inl p
      | Inr (a, f1) \<Rightarrow> map_sum id (\<lambda>(as, f2). (a # as, f2)) (fs_run ops f1))"

fun map_exec :: "fs_op \<Rightarrow> (string \<rightharpoonup> string) \<Rightarrow> fs_answer \<times> (string \<rightharpoonup> string)" where
  "map_exec (FSet x k v) m = (FDone, m(k \<mapsto> v))"
| "map_exec (FGet k) m = (case m k of Some v \<Rightarrow> FFound v | None \<Rightarrow> FMissing, m)"
| "map_exec (FDel k) m = (FDone, m(k := None))"

fun map_run :: "fs_op list \<Rightarrow> (string \<rightharpoonup> string) \<Rightarrow> fs_answer list" where
  "map_run [] m = []"
| "map_run (op # ops) m = (case map_exec op m of (a, m1) \<Rightarrow> a # map_run ops m1)"

fun fs_op_ok :: "fs_op \<Rightarrow> bool" where
  "fs_op_ok (FSet x k v) = block_arg_ok x k v"
| "fs_op_ok (FGet k) = True"
| "fs_op_ok (FDel k) = block_key_ok k"

lemma fs_room_mono: "fs_room c f \<Longrightarrow> c' \<le> c \<Longrightarrow> fs_room c' f"
  by (auto simp: fs_room_def dest: block_store.inv_mono split: option.splits fs_handler.splits)

lemma fs_exec_refines:
  assumes "fs_room (Suc c) f" and "fs_contents f = Some m" and "fs_op_ok op"
  shows "\<exists>f1. fs_exec op f = Inr (fst (map_exec op m), f1) \<and> fs_room c f1 \<and> fs_contents f1 = Some (snd (map_exec op m))"
proof (cases op)
  case (FSet x k v)
  then show ?thesis using fs_Set [OF assms(1,2), of x k v] assms(3) by auto
next
  case (FGet k)
  then show ?thesis using fs_Get [OF assms(1,2), of k] assms fs_room_mono [OF assms(1), of c] by (auto split: option.split)
next
  case (FDel k)
  then show ?thesis using fs_Del [OF assms(1,2), of k] assms(3) by auto
qed

lemma fs_run_refines:
  "fs_room (length ops) f \<Longrightarrow> fs_contents f = Some m \<Longrightarrow> list_all fs_op_ok ops \<Longrightarrow> \<exists>f1. fs_run ops f = Inr (map_run ops m, f1)"
proof (induction ops arbitrary: f m)
  case (Cons op ops)
  obtain f1 where f1: "fs_exec op f = Inr (fst (map_exec op m), f1)" "fs_room (length ops) f1" "fs_contents f1 = Some (snd (map_exec op m))"
    using fs_exec_refines [of "length ops" f m op] Cons.prems by auto
  obtain f2 where "fs_run ops f1 = Inr (map_run ops (snd (map_exec op m)), f2)"
    using Cons.IH [OF f1(2,3)] Cons.prems(3) by auto
  then show ?case using f1(1) by (cases "map_exec op m") simp
qed simp

lemma started_room:
  assumes "dirent fs0 = Map.empty" and "\<forall>i. inode fs0 i = []" and "\<forall>p. \<not> denied fs0 p"
    and "Block_Initiate ''/tmp/block'' mx [] fs0 = Inr (Inr s)" and "c < 2 ^ 30"
  shows "block_inv c s \<and> block_abs s = Map.empty"
proof -
  obtain b fs where s: "s = (b, fs)" by (cases s)
  have "abs_dir ''/tmp/block''" unfolding abs_dir_def by (intro exI [of _ "[''tmp'', ''block'']"]) (simp add: proper_name_def)
  moreover have "files_small fs0" using assms(2) by (simp add: files_small_def)
  ultimately have rel: "store_rel (start_system b fs) Map.empty" using empty_disk_rel [OF _ assms(1,3)] assms(4) s by simp
  have fs: "\<forall>j. inode fs j = []" "denied fs = denied fs0"
    using assms(1-4) s by (auto simp: Block_Initiate_def NewIndexWriter_def OpenAppend_def split: sum.splits if_splits prod.splits)
  have "block_inv c (b, fs)" using rel assms(3,5) fs by (auto simp: block_inv_def room_def)
  moreover have "block_abs (b, fs) = Map.empty" using block_abs_eq [OF rel] assms(3) fs(2) by simp
  ultimately show ?thesis using s by simp
qed

text \<open>
  \<^bold>\<open>C9\<close>. The file system component is a map through all its layers: started on an empty disk with the file handler, any
  sequence of fewer than \<open>2 ^ 30\<close> stores, reads and deletions of ordinary keys and contents answers like a map that was
  empty at first.
\<close>

theorem filesystem_refines_map:
  assumes "dirent fs0 = Map.empty" and "\<forall>i. inode fs0 i = []" and "\<forall>p. \<not> denied fs0 p"
    and "Block_Initiate ''/tmp/block'' mx [] fs0 = Inr (Inr b)"
    and "fsHandler f = Some (FileHandler i bi)" and "biHandler bi = Some b"
    and "list_all fs_op_ok ops" and "length ops < 2 ^ 30"
  shows "\<exists>f1. fs_run ops f = Inr (map_run ops Map.empty, f1)"
  using started_room [OF assms(1-4,8)] fs_run_refines [of ops f Map.empty] assms(5-7) by (simp add: fs_room_def fs_contents_def)

theorem filesystem_refines_map_witness:
  "\<exists>b f1. Block_Initiate ''/tmp/block'' 67108864 [] blank_disk = Inr (Inr b) \<and>
     fs_run [FSet ''f'' ''a'' ''1'', FGet ''a'', FDel ''a'', FGet ''a'']
       \<lparr>fsConfig = NewConfig (), fsProvider = ''file'', fsHandler = Some (FileHandler 0 \<lparr>biConfig = NewConfig (), handlerName = ''fileBlock'', biHandler = Some b\<rparr>)\<rparr>
     = Inr ([FDone, FFound ''1'', FDone, FMissing], f1)"
proof -
  obtain b where b: "Block_Initiate ''/tmp/block'' 67108864 [] blank_disk = Inr (Inr b)" using tmp_block_Initiate by blast
  let ?bi = "\<lparr>biConfig = NewConfig (), handlerName = ''fileBlock'', biHandler = Some b\<rparr>"
  let ?f = "\<lparr>fsConfig = NewConfig (), fsProvider = ''file'', fsHandler = Some (FileHandler 0 ?bi)\<rparr>"
  let ?ops = "[FSet ''f'' ''a'' ''1'', FGet ''a'', FDel ''a'', FGet ''a'']"
  have d: "dirent blank_disk = Map.empty" "\<forall>i. inode blank_disk i = []" "\<forall>p. \<not> denied blank_disk p" by (simp_all add: blank_disk_def)
  have ok: "list_all fs_op_ok ?ops" by (simp add: block_arg_ok_def fits_def block_key_ok_def)
  have "\<exists>f1. fs_run ?ops ?f = Inr (map_run ?ops Map.empty, f1)"
    by (rule filesystem_refines_map [OF d b _ _ ok]) simp+
  moreover have "map_run ?ops Map.empty = [FDone, FFound ''1'', FDone, FMissing]" by simp
  ultimately show ?thesis using b by auto
qed

end
