(* ===== verification/Metrics.thy ===== *)
theory Metrics
  imports Text_Util Path_Util Convert
begin

text \<open>
  \<^verbatim>\<open>src/metrics/delegator.go\<close>, \<^verbatim>\<open>delegator_1_8.go\<close>, \<^verbatim>\<open>instrument.go\<close> and \<^verbatim>\<open>collector.go\<close>: the writer that counts what a
  handler sends, the labels of a request, the wrappers that report requests of servers and clients, and the named
  collectors. The prometheus package is an argument: what it tells about a collector, and whether it accepts a set of
  labels. The time that passed is an argument. What was reported is a list of observations.
\<close>

subsection \<open>Delegators\<close>

text \<open>The optional interfaces of a response writer, with the bits that number them.\<close>

datatype iface = CloseNotifier | Flusher | Hijacker | ReaderFrom | Pusher

fun iface_bit :: "iface \<Rightarrow> nat" where
  "iface_bit CloseNotifier = 1"
| "iface_bit Flusher = 2"
| "iface_bit Hijacker = 4"
| "iface_bit ReaderFrom = 8"
| "iface_bit Pusher = 16"

text \<open>
  The tables filled by the two \<^verbatim>\<open>init\<close> functions: at a number the interfaces, besides the basic ones, of the delegator
  made there.
\<close>

definition pickDelegator_base :: "(nat \<times> iface list) list" where
  "pickDelegator_base =
     [(0, []), (1, [CloseNotifier]), (2, [Flusher]), (2 + 1, [Flusher, CloseNotifier]), (4, [Hijacker]),
      (4 + 1, [Hijacker, CloseNotifier]), (4 + 2, [Hijacker, Flusher]), (4 + 2 + 1, [Hijacker, Flusher, CloseNotifier]),
      (8, [ReaderFrom]), (8 + 1, [ReaderFrom, CloseNotifier]), (8 + 2, [ReaderFrom, Flusher]),
      (8 + 2 + 1, [ReaderFrom, Flusher, CloseNotifier]), (8 + 4, [ReaderFrom, Hijacker]),
      (8 + 4 + 1, [ReaderFrom, Hijacker, CloseNotifier]), (8 + 4 + 2, [ReaderFrom, Hijacker, Flusher]),
      (8 + 4 + 2 + 1, [ReaderFrom, Hijacker, Flusher, CloseNotifier])]"

definition pickDelegator_pusher :: "(nat \<times> iface list) list" where
  "pickDelegator_pusher =
     [(16, [Pusher]), (16 + 1, [Pusher, CloseNotifier]), (16 + 2, [Pusher, Flusher]),
      (16 + 2 + 1, [Pusher, Flusher, CloseNotifier]), (16 + 4, [Pusher, Hijacker]),
      (16 + 4 + 1, [Pusher, Hijacker, CloseNotifier]), (16 + 4 + 2, [Pusher, Hijacker, Flusher]),
      (16 + 4 + 2 + 1, [Pusher, Hijacker, Flusher, CloseNotifier]), (16 + 8, [Pusher, ReaderFrom]),
      (16 + 8 + 1, [Pusher, ReaderFrom, CloseNotifier]), (16 + 8 + 2, [Pusher, ReaderFrom, Flusher]),
      (16 + 8 + 2 + 1, [Pusher, ReaderFrom, Flusher, CloseNotifier]), (16 + 8 + 4, [Pusher, ReaderFrom, Hijacker]),
      (16 + 8 + 4 + 1, [Pusher, ReaderFrom, Hijacker, CloseNotifier]), (16 + 8 + 4 + 2, [Pusher, ReaderFrom, Hijacker, Flusher]),
      (16 + 8 + 4 + 2 + 1, [Pusher, ReaderFrom, Hijacker, Flusher, CloseNotifier])]"

text \<open>An entry of the table that was not filled is a nil function, a number past it is out of range.\<close>

definition pickDelegator :: "(nat \<times> iface list) list \<Rightarrow> nat \<Rightarrow> iface list outcome" where
  "pickDelegator table n =
     (if n < 32 then case map_of table n of None \<Rightarrow> Inl NilDereference | Some is \<Rightarrow> Inr is else Inl IndexOutOfRange)"

text \<open>How a call may end without a result: with a panic, or never.\<close>

datatype stop = Panics gopanic | Hangs

type_synonym 'a run = "stop + 'a"

text \<open>
  A response writer below: its methods, and the state of the world (what was sent and reported) that all of them work on. A
  method may panic after it changed the world.
\<close>

record 'w writer =
  rwInterfaces :: "iface set"
  rwWriteHeader :: "int \<Rightarrow> 'w \<Rightarrow> stop option \<times> 'w"
  rwWrite :: "string \<Rightarrow> 'w \<Rightarrow> (int \<times> string option) run \<times> 'w"
  rwReadFrom :: "string \<Rightarrow> 'w \<Rightarrow> (int \<times> string option) run \<times> 'w"

text \<open>What a callback sees of the delegator, and the delegator. \<open>world\<close> is the state that the callbacks and the writer change.\<close>

record seen =
  seenStatus :: int
  seenWritten :: "64 word"
  seenEvent :: string

record 'w delegator =
  dWriter :: "'w writer"
  dInterfaces :: "iface list"
  dStatus :: int
  dWritten :: "64 word"
  dWroteHeader :: bool
  dEvent :: string
  observeWriteHeader :: "(seen \<Rightarrow> 'w \<Rightarrow> stop option \<times> 'w) option"
  observeWriteRequest :: "(seen \<Rightarrow> 'w \<Rightarrow> stop option \<times> 'w) option"
  world :: 'w

definition delegator_id :: "bool \<Rightarrow> 'w writer \<Rightarrow> nat" where
  "delegator_id go18 w =
     (if CloseNotifier \<in> rwInterfaces w then 1 else 0) + (if Flusher \<in> rwInterfaces w then 2 else 0) +
     (if Hijacker \<in> rwInterfaces w then 4 else 0) + (if ReaderFrom \<in> rwInterfaces w then 8 else 0) +
     (if go18 \<and> Pusher \<in> rwInterfaces w then 16 else 0)"

text \<open>\<open>go18\<close> says which of the two files the build includes: the one with the pusher or the one without.\<close>

definition newDelegator ::
    "bool \<Rightarrow> 'w writer \<Rightarrow> (seen \<Rightarrow> 'w \<Rightarrow> stop option \<times> 'w) option \<Rightarrow> (seen \<Rightarrow> 'w \<Rightarrow> stop option \<times> 'w) option \<Rightarrow> 'w \<Rightarrow> 'w delegator outcome" where
  "newDelegator go18 w onHeader onRequest s =
     map_sum id (\<lambda>is. \<lparr>dWriter = w, dInterfaces = is, dStatus = 0, dWritten = 0, dWroteHeader = False, dEvent = '''',
         observeWriteHeader = onHeader, observeWriteRequest = onRequest, world = s\<rparr>)
       (pickDelegator (if go18 then pickDelegator_base @ pickDelegator_pusher else pickDelegator_base) (delegator_id go18 w))"

definition seen_of :: "'w delegator \<Rightarrow> seen" where
  "seen_of d = \<lparr>seenStatus = dStatus d, seenWritten = dWritten d, seenEvent = dEvent d\<rparr>"

definition report :: "(seen \<Rightarrow> 'w \<Rightarrow> stop option \<times> 'w) option \<Rightarrow> string \<Rightarrow> 'w delegator \<Rightarrow> stop option \<times> 'w delegator" where
  "report cb ev d =
     (case cb of
        None \<Rightarrow> (None, d)
      | Some f \<Rightarrow> (let d1 = d\<lparr>dEvent := ev\<rparr> in case f (seen_of d1) (world d1) of (p, s) \<Rightarrow> (p, d1\<lparr>world := s\<rparr>)))"

definition Delegator_WriteHeader :: "int \<Rightarrow> 'w delegator \<Rightarrow> stop option \<times> 'w delegator" where
  "Delegator_WriteHeader code d =
     (let d1 = d\<lparr>dStatus := code, dWroteHeader := True\<rparr> in
      case rwWriteHeader (dWriter d) code (world d1) of
        (Some p, s) \<Rightarrow> (Some p, d1\<lparr>world := s\<rparr>)
      | (None, s) \<Rightarrow> report (observeWriteHeader d) ''wrote_header'' (d1\<lparr>world := s\<rparr>))"

text \<open>Sequencing of calls of which each may panic.\<close>

definition unless_panic :: "stop option \<times> 'd \<Rightarrow> ('d \<Rightarrow> 'a run \<times> 'd) \<Rightarrow> 'a run \<times> 'd" where
  "unless_panic r k = (case r of (Some p, d) \<Rightarrow> (Inl p, d) | (None, d) \<Rightarrow> k d)"

definition ensure_header :: "'w delegator \<Rightarrow> stop option \<times> 'w delegator" where
  "ensure_header d = (if dWroteHeader d then (None, d) else Delegator_WriteHeader 200 d)"

definition Delegator_Write :: "string \<Rightarrow> 'w delegator \<Rightarrow> (int \<times> string option) run \<times> 'w delegator" where
  "Delegator_Write b d =
     unless_panic (report (observeWriteRequest d) ''sent_first_response_byte'' d) (\<lambda>d1.
     unless_panic (ensure_header d1) (\<lambda>d2.
     (case rwWrite (dWriter d2) b (world d2) of
        (Inl p, s) \<Rightarrow> (Inl p, d2\<lparr>world := s\<rparr>)
      | (Inr (n, err), s) \<Rightarrow>
          unless_panic (report (observeWriteRequest d2) ''wrote_request'' (d2\<lparr>world := s, dWritten := dWritten d2 + word_of_int n\<rparr>))
            (\<lambda>d3. (Inr (n, err), d3)))))"

definition Delegator_ReadFrom :: "string \<Rightarrow> 'w delegator \<Rightarrow> (int \<times> string option) run \<times> 'w delegator" where
  "Delegator_ReadFrom re d =
     unless_panic (ensure_header d) (\<lambda>d1.
     (case rwReadFrom (dWriter d1) re (world d1) of
        (Inl p, s) \<Rightarrow> (Inl p, d1\<lparr>world := s\<rparr>)
      | (Inr (n, err), s) \<Rightarrow> (Inr (n, err), d1\<lparr>world := s, dWritten := dWritten d1 + word_of_int n\<rparr>)))"

subsection \<open>Labels\<close>

type_synonym labels = "string \<rightharpoonup> string"

definition sanitizeMethod :: "string \<Rightarrow> string" where
  "sanitizeMethod m =
     (if m \<in> {''GET'', ''get''} then ''GET''
      else if m \<in> {''PUT'', ''put''} then ''PUT''
      else if m \<in> {''HEAD'', ''head''} then ''HEAD''
      else if m \<in> {''POST'', ''post''} then ''POST''
      else if m \<in> {''DELETE'', ''delete''} then ''DELETE''
      else if m \<in> {''CONNECT'', ''connect''} then ''CONNECT''
      else if m \<in> {''OPTIONS'', ''options''} then ''OPTIONS''
      else if m \<in> {''NOTIFY'', ''notify''} then ''NOTIFY''
      else ToUpper m)"

text \<open>The cases of \<^verbatim>\<open>sanitizeStatus\<close> in the order of the code.\<close>

definition status_texts :: "(int \<times> string) list" where
  "status_texts =
     [(100, ''100''), (101, ''101''),
      (200, ''200''), (0, ''200''), (201, ''201''), (202, ''202''), (203, ''203''), (204, ''204''), (205, ''205''), (206, ''206''),
      (300, ''300''), (301, ''301''), (302, ''302''), (304, ''304''), (305, ''305''), (307, ''307''),
      (400, ''400''), (401, ''401''), (402, ''402''), (403, ''403''), (404, ''404''), (405, ''405''), (406, ''406''),
      (407, ''407''), (408, ''408''), (409, ''409''), (410, ''410''), (411, ''411''), (412, ''412''), (413, ''413''),
      (414, ''414''), (415, ''415''), (416, ''416''), (417, ''417''), (418, ''418''),
      (500, ''500''), (501, ''501''), (502, ''502''), (503, ''503''), (504, ''504''), (505, ''505''),
      (428, ''428''), (429, ''429''), (431, ''431''), (511, ''511'')]"

definition sanitizeStatus :: "int \<Rightarrow> string" where
  "sanitizeStatus s = (case map_of status_texts s of Some t \<Rightarrow> t | None \<Rightarrow> dec_int s)"

text \<open>Which labels a collector wants.\<close>

record wanted =
  wServerAddr :: bool
  wHost :: bool
  wMethod :: bool
  wUri :: bool
  wStatus :: bool

definition labels_of :: "wanted \<Rightarrow> string \<Rightarrow> string \<Rightarrow> string \<Rightarrow> string \<Rightarrow> int \<Rightarrow> labels option \<Rightarrow> labels" where
  "labels_of want reqServerAddr reqHost reqMethod reqUri repStatus custom =
     (let l0 = (case custom of Some l \<Rightarrow> l | None \<Rightarrow> Map.empty);
          l1 = (if wServerAddr want then l0(''server_addr'' \<mapsto> reqServerAddr) else l0);
          l2 = (if wHost want then l1(''host'' \<mapsto> reqHost) else l1);
          l3 = (if wStatus want then l2(''status'' \<mapsto> sanitizeStatus repStatus) else l2);
          l4 = (if wMethod want then l3(''method'' \<mapsto> sanitizeMethod reqMethod) else l3)
      in if wUri want then l4(''uri'' \<mapsto> reqUri) else l4)"

text \<open>
  The prometheus package, for collectors of type \<open>'c\<close>: the number of descriptions, whether \<^verbatim>\<open>NewConstMetric\<close> accepts
  label values and what \<^verbatim>\<open>Write\<close> then shows, the type of the collector, whether a label can be curried, and
  whether \<^verbatim>\<open>With\<close> accepts a set of labels (it panics otherwise).
\<close>

record 'c prom =
  pDescs :: "'c \<Rightarrow> nat"
  pNew :: "'c \<Rightarrow> string list \<Rightarrow> bool"
  pWrite :: "'c \<Rightarrow> string list \<Rightarrow> (string \<times> string) list option"
  pVec :: "'c \<Rightarrow> bool"
  pCurryWith :: "'c \<Rightarrow> string \<Rightarrow> bool"
  pWith :: "'c \<Rightarrow> labels \<Rightarrow> bool"

definition magicString :: string where
  "magicString = ''zZgWfBxLqvG8kc8IMv3POi2Bb0tZI3vAnBx+gBaFi9FyPzB/CzKUer1yufDa''"

definition isLabelCurried :: "'c prom \<Rightarrow> 'c \<Rightarrow> string \<Rightarrow> bool outcome" where
  "isLabelCurried P c label =
     (if pVec P c then Inr (\<not> pCurryWith P c label) else Inl (ExplicitPanic ''unsupported metric vec type''))"

text \<open>One more label value per round, until the package accepts them; \<open>None\<close> is the loop that does not end.\<close>

partial_function (option) try_labels :: "'c prom \<Rightarrow> 'c \<Rightarrow> string list \<Rightarrow> string list option" where
  "try_labels P c lvs = (if pNew P c lvs then Some lvs else try_labels P c (lvs @ [magicString]))"

definition want_label :: "string \<Rightarrow> wanted \<Rightarrow> wanted outcome" where
  "want_label name w =
     (if name = ''server_addr'' then Inr (w\<lparr>wServerAddr := True\<rparr>)
      else if name = ''host'' then Inr (w\<lparr>wHost := True\<rparr>)
      else if name = ''method'' then Inr (w\<lparr>wMethod := True\<rparr>)
      else if name = ''uri'' then Inr (w\<lparr>wUri := True\<rparr>)
      else if name = ''status'' then Inr (w\<lparr>wStatus := True\<rparr>)
      else if name = ''event'' then Inr w
      else Inl (ExplicitPanic ''metric partitioned with non-supported labels''))"

text \<open>\<^verbatim>\<open>value != magicString || isLabelCurried(c, name)\<close> asks the package only for variable labels.\<close>

fun scan_labels :: "'c prom \<Rightarrow> 'c \<Rightarrow> (string \<times> string) list \<Rightarrow> wanted \<Rightarrow> wanted outcome" where
  "scan_labels P c [] w = Inr w"
| "scan_labels P c ((name, v) # ls) w =
     (if v \<noteq> magicString then scan_labels P c ls w
      else case isLabelCurried P c name of
             Inl p \<Rightarrow> Inl p
           | Inr True \<Rightarrow> scan_labels P c ls w
           | Inr False \<Rightarrow> (case want_label name w of Inl p \<Rightarrow> Inl p | Inr w1 \<Rightarrow> scan_labels P c ls w1))"

definition want_none :: wanted where
  "want_none = \<lparr>wServerAddr = False, wHost = False, wMethod = False, wUri = False, wStatus = False\<rparr>"

text \<open>The channel of descriptions has room for one: a collector with more blocks in \<^verbatim>\<open>Describe\<close>, so the second panic is dead code.\<close>

definition checkLabels :: "'c prom \<Rightarrow> 'c \<Rightarrow> wanted run" where
  "checkLabels P c =
     (if pDescs P c = 0 then Inl (Panics (ExplicitPanic ''no description provided by collector''))
      else if pDescs P c > 1 then Inl Hangs
      else case try_labels P c [] of
             None \<Rightarrow> Inl Hangs
           | Some lvs \<Rightarrow>
               (case pWrite P c lvs of
                  None \<Rightarrow> Inl (Panics (ExplicitPanic ''error checking metric for labels''))
                | Some ls \<Rightarrow> map_sum Panics id (scan_labels P c ls want_none)))"

text \<open>The parts of a request that labels and sizes use.\<close>

record hreq =
  hHost :: string
  hURLHost :: string
  hPath :: string
  hRawPath :: string
  hMethod :: string
  hURL :: "string option"
  hProto :: string
  hHeader :: "(string \<times> string list) list"
  hContentLength :: int

definition request_labels :: "'c prom \<Rightarrow> string \<Rightarrow> 'c \<Rightarrow> hreq \<Rightarrow> int \<Rightarrow> labels option \<Rightarrow> labels run" where
  "request_labels P addr obs r status custom =
     map_sum id (\<lambda>want.
       labels_of want addr (if hHost r = '''' then hURLHost r else hHost r) (hMethod r)
         (if hPath r = '''' then hRawPath r else hPath r) status custom)
       (checkLabels P obs)"

definition defaultMetricsHttpClientRequestLabelFunc ::
    "'c prom \<Rightarrow> string \<Rightarrow> 'c \<Rightarrow> hreq \<Rightarrow> int option \<Rightarrow> labels option \<Rightarrow> labels run" where
  "defaultMetricsHttpClientRequestLabelFunc P addr obs r rsp custom =
     request_labels P addr obs r (case rsp of Some st \<Rightarrow> st | None \<Rightarrow> 0) custom"

definition defaultMetricsHttpServerRequestLabelFunc ::
    "'c prom \<Rightarrow> string \<Rightarrow> 'c \<Rightarrow> seen \<Rightarrow> hreq \<Rightarrow> labels option \<Rightarrow> labels run" where
  "defaultMetricsHttpServerRequestLabelFunc P addr obs d r custom = request_labels P addr obs r (seenStatus d) custom"

definition computeApproximateRequestSize :: "hreq \<Rightarrow> int" where
  "computeApproximateRequestSize r =
     (case hURL r of Some u \<Rightarrow> int (length u) | None \<Rightarrow> 0) + int (length (hMethod r)) + int (length (hProto r)) +
     sum_list (map (\<lambda>(name, vs). int (length name) + sum_list (map (int \<circ> length) vs)) (hHeader r)) +
     int (length (hHost r)) + (if hContentLength r \<noteq> - 1 then hContentLength r else 0)"

subsection \<open>What holds of delegators and labels\<close>

lemma pick_all:
  "pickDelegator (if go18 then pickDelegator_base @ pickDelegator_pusher else pickDelegator_base)
     ((if c then 1 else 0) + (if f then 2 else 0) + (if h then 4 else 0) + (if r then 8 else 0) + (if go18 \<and> p then 16 else 0)) =
   Inr ((if go18 \<and> p then [Pusher] else []) @ (if r then [ReaderFrom] else []) @ (if h then [Hijacker] else []) @
        (if f then [Flusher] else []) @ (if c then [CloseNotifier] else []))"
  unfolding pickDelegator_def pickDelegator_base_def pickDelegator_pusher_def
  by (cases go18; cases p; cases r; cases h; cases f; cases c; simp only: if_True if_False simp_thms) simp_all

text \<open>
  A delegator offers exactly the optional interfaces of the writer it wraps (before Go 1.8 all but the pusher), and
  the table of constructors has no hole.
\<close>

lemma newDelegator_total:
  "\<exists>d. newDelegator go18 w f g s = Inr d \<and> set (dInterfaces d) = (if go18 then rwInterfaces w else rwInterfaces w - {Pusher})"
proof -
  have "i \<in> (if go18 then rwInterfaces w else rwInterfaces w - {Pusher}) \<longleftrightarrow>
      i \<in> set ((if go18 \<and> Pusher \<in> rwInterfaces w then [Pusher] else []) @ (if ReaderFrom \<in> rwInterfaces w then [ReaderFrom] else []) @
        (if Hijacker \<in> rwInterfaces w then [Hijacker] else []) @ (if Flusher \<in> rwInterfaces w then [Flusher] else []) @
        (if CloseNotifier \<in> rwInterfaces w then [CloseNotifier] else []))" for i
    by (cases i) auto
  then show ?thesis unfolding newDelegator_def delegator_id_def pick_all map_sum.simps by (simp only: sum.inject simp_thms delegator.simps set_eq_iff)
qed

text \<open>The tables of names and codes are the general rule written out.\<close>

lemma sanitizeMethod_upper: "sanitizeMethod m = ToUpper m"
proof -
  have "ToUpper ''get'' = ''GET''" "ToUpper ''put'' = ''PUT''" "ToUpper ''head'' = ''HEAD''" "ToUpper ''post'' = ''POST''"
    "ToUpper ''delete'' = ''DELETE''" "ToUpper ''connect'' = ''CONNECT''" "ToUpper ''options'' = ''OPTIONS''" "ToUpper ''notify'' = ''NOTIFY''"
    "ToUpper ''GET'' = ''GET''" "ToUpper ''PUT'' = ''PUT''" "ToUpper ''HEAD'' = ''HEAD''" "ToUpper ''POST'' = ''POST''"
    "ToUpper ''DELETE'' = ''DELETE''" "ToUpper ''CONNECT'' = ''CONNECT''" "ToUpper ''OPTIONS'' = ''OPTIONS''" "ToUpper ''NOTIFY'' = ''NOTIFY''"
    by code_simp+
  then show ?thesis unfolding sanitizeMethod_def insert_iff empty_iff simp_thms by (simp split: if_splits)
qed

lemma dec_int_three:
  assumes "100 \<le> k" and "k < 1000"
  shows "dec_int k = [char_of (48 + nat k div 100), char_of (48 + nat k div 10 mod 10), char_of (48 + nat k mod 10)]"
proof -
  have "\<not> nat k < 10" "\<not> nat k div 10 < 10" "nat k div 10 div 10 < 10" using assms by linarith+
  then show ?thesis
    using assms(1) by (simp add: dec_int_def dec_nat.simps [of "nat k"] dec_nat.simps [of "nat k div 10"] dec_nat.simps [of "nat k div 100"]
        div_mult2_eq [symmetric])
qed

lemma digit_texts:
  "char_of (48 :: nat) = CHR ''0''" "char_of (49 :: nat) = CHR ''1''" "char_of (50 :: nat) = CHR ''2''" "char_of (51 :: nat) = CHR ''3''"
  "char_of (52 :: nat) = CHR ''4''" "char_of (53 :: nat) = CHR ''5''" "char_of (54 :: nat) = CHR ''6''" "char_of (55 :: nat) = CHR ''7''"
  "char_of (56 :: nat) = CHR ''8''" "char_of (57 :: nat) = CHR ''9''"
  by code_simp+

lemma status_texts_dec: "list_all (\<lambda>(k, t). t = dec_int (if k = 0 then 200 else k)) status_texts"
  unfolding status_texts_def by (simp add: dec_int_three digit_texts)

lemma sanitizeStatus_dec: "sanitizeStatus st = dec_int (if st = 0 then 200 else st)"
proof -
  have "st = 0 \<Longrightarrow> map_of status_texts st \<noteq> None" by (simp add: status_texts_def)
  with status_texts_dec show ?thesis
    unfolding sanitizeStatus_def list_all_iff
    by (cases "map_of status_texts st") (auto dest!: map_of_SomeD)
qed

lemma sanitize_tables:
  "sanitizeMethod m = ToUpper m \<and> sanitizeStatus st = dec_int (if st = 0 then 200 else st)"
  by (simp add: sanitizeMethod_upper sanitizeStatus_dec)

subsection \<open>What a delegator counts\<close>

datatype dop = DHeader int | DWrite string | DReadFrom string

fun dexec :: "dop \<Rightarrow> 'w delegator \<Rightarrow> int run \<times> 'w delegator" where
  "dexec (DHeader code) d = unless_panic (Delegator_WriteHeader code d) (\<lambda>d1. (Inr 0, d1))"
| "dexec (DWrite b) d = map_prod (map_sum id fst) id (Delegator_Write b d)"
| "dexec (DReadFrom re) d = map_prod (map_sum id fst) id (Delegator_ReadFrom re d)"

fun drun :: "dop list \<Rightarrow> 'w delegator \<Rightarrow> int list run \<times> 'w delegator" where
  "drun [] d = (Inr [], d)"
| "drun (x # xs) d =
     (case dexec x d of
        (Inl p, d1) \<Rightarrow> (Inl p, d1)
      | (Inr n, d1) \<Rightarrow> map_prod (map_sum id (\<lambda>ns. n # ns)) id (drun xs d1))"

text \<open>The status codes the calls send to the writer below, given whether a header was written before.\<close>

fun sent_codes :: "bool \<Rightarrow> dop list \<Rightarrow> int list" where
  "sent_codes wrote [] = []"
| "sent_codes wrote (DHeader code # xs) = code # sent_codes True xs"
| "sent_codes wrote (x # xs) = (if wrote then sent_codes wrote xs else 200 # sent_codes True xs)"

lemma report_same:
  "report cb ev d = (p, d1) \<Longrightarrow> dStatus d1 = dStatus d \<and> dWritten d1 = dWritten d \<and> dWroteHeader d1 = dWroteHeader d \<and>
     dWriter d1 = dWriter d \<and> observeWriteHeader d1 = observeWriteHeader d \<and> observeWriteRequest d1 = observeWriteRequest d"
  by (auto simp: report_def Let_def split: option.splits prod.splits)

lemma WriteHeader_same:
  "Delegator_WriteHeader code d = (p, d1) \<Longrightarrow> dStatus d1 = code \<and> dWritten d1 = dWritten d \<and> dWroteHeader d1 \<and> dWriter d1 = dWriter d"
  by (auto simp: Delegator_WriteHeader_def Let_def split: option.splits prod.splits dest!: report_same)

lemma ensure_header_same:
  "ensure_header d = (p, d1) \<Longrightarrow>
     dStatus d1 = (if dWroteHeader d then dStatus d else 200) \<and> dWritten d1 = dWritten d \<and> dWroteHeader d1 \<and> dWriter d1 = dWriter d"
  by (auto simp: ensure_header_def split: if_splits dest!: WriteHeader_same)

lemma unless_panic_Inr: "unless_panic r k = (Inr x, d) \<longleftrightarrow> (\<exists>d1. r = (None, d1) \<and> k d1 = (Inr x, d))"
  by (auto simp: unless_panic_def split: prod.splits option.splits)

lemma case_call_Inr:
  "(case r of (Inl p, s) \<Rightarrow> (Inl p, f s) | (Inr (n, err), s) \<Rightarrow> g n err s) = (Inr x, d) \<longleftrightarrow>
     (\<exists>n err s. r = (Inr (n, err), s) \<and> g n err s = (Inr x, d))"
  by (auto split: prod.split sum.split)

lemma Write_counts:
  "Delegator_Write b d = (Inr (n, err), d1) \<Longrightarrow>
     dStatus d1 = (if dWroteHeader d then dStatus d else 200) \<and> dWritten d1 = dWritten d + word_of_int n \<and> dWroteHeader d1"
  by (auto simp: Delegator_Write_def unless_panic_Inr case_call_Inr dest!: report_same ensure_header_same)

lemma ReadFrom_counts:
  "Delegator_ReadFrom re d = (Inr (n, err), d1) \<Longrightarrow>
     dStatus d1 = (if dWroteHeader d then dStatus d else 200) \<and> dWritten d1 = dWritten d + word_of_int n \<and> dWroteHeader d1"
  by (auto simp: Delegator_ReadFrom_def unless_panic_Inr case_call_Inr dest!: ensure_header_same)

lemma map_fst_Inr: "map_prod (map_sum id fst) id r = (Inr n, d) \<longleftrightarrow> (\<exists>err. r = (Inr (n, err), d))"
  by (cases r; cases "fst r") auto

lemma dexec_counts:
  "dexec x d = (Inr n, d1) \<Longrightarrow>
     dWritten d1 = dWritten d + word_of_int n \<and> dWroteHeader d1 \<and> dStatus d1 = last (dStatus d # sent_codes (dWroteHeader d) [x])"
  by (cases x) (auto simp: unless_panic_Inr map_fst_Inr dest!: WriteHeader_same Write_counts ReadFrom_counts)

lemma sent_codes_Cons: "sent_codes wrote (x # xs) = sent_codes wrote [x] @ sent_codes True xs"
  by (cases x) auto

lemma delegator_counted:
  assumes "newDelegator go18 w f g s = Inr d" and "drun ops d = (Inr ns, d1)"
  shows "dWritten d1 = word_of_int (sum_list ns) \<and> dStatus d1 = last (0 # sent_codes False ops)"
proof -
  have "dWritten d1 = dWritten d + word_of_int (sum_list ns) \<and> dStatus d1 = last (dStatus d # sent_codes (dWroteHeader d) ops)"
    if "drun ops d = (Inr ns, d1)" for ops ns and d :: "'a delegator"
    using that
  proof (induction ops arbitrary: d ns)
    case (Cons x xs)
    then obtain n d2 ms where step: "dexec x d = (Inr n, d2)" "drun xs d2 = (Inr ms, d1)" "ns = n # ms"
      by (auto simp: map_prod_def split: prod.splits sum.splits)
         (metis (no_types, lifting) id_apply map_sum.simps old.sum.exhaust sum.distinct(1) sum.inject(2))
    from Cons.IH [OF step(2)] dexec_counts [OF step(1)] step(3) show ?case
      unfolding sent_codes_Cons [of _ x xs] by (auto simp: algebra_simps)
  qed simp
  from this [OF assms(2)] assms(1) show ?thesis by (auto simp: newDelegator_def map_sum_def split: sum.splits)
qed

subsection \<open>The labels fit the collector\<close>

text \<open>
  A collector as the package documents it: one description with variable labels \<open>vars\<close>, of which some are curried, and
  constant labels; \<^verbatim>\<open>With\<close> accepts exactly the labels that are neither constant nor curried.
\<close>

definition prom_vec :: "'c prom \<Rightarrow> 'c \<Rightarrow> string list \<Rightarrow> string set \<Rightarrow> bool" where
  "prom_vec P c vars curried =
     (pDescs P c = 1 \<and> pVec P c \<and> (\<forall>lvs. pNew P c lvs \<longleftrightarrow> length lvs = length vars) \<and>
      (\<exists>ls. pWrite P c (replicate (length vars) magicString) = Some ls \<and>
            {n. (n, magicString) \<in> set ls} = set vars) \<and>
      (\<forall>l. pCurryWith P c l \<longleftrightarrow> l \<in> set vars - curried) \<and>
      (\<forall>ls. pWith P c ls \<longleftrightarrow> dom ls = set vars - curried))"

lemma try_labels_ends:
  assumes "\<And>lvs. pNew P c lvs \<longleftrightarrow> length lvs = n" and "k \<le> n"
  shows "try_labels P c (replicate k magicString) = Some (replicate n magicString)"
  using assms(2)
proof (induction "n - k" arbitrary: k)
  case 0
  then show ?case by (simp add: try_labels.simps [of P c "replicate k magicString"] assms(1))
next
  case (Suc m)
  then have "try_labels P c (replicate (Suc k) magicString) = Some (replicate n magicString)" by (intro Suc.hyps) simp_all
  moreover have "replicate k magicString @ [magicString] = replicate (Suc k) magicString"
    by (simp add: replicate_append_same)
  ultimately show ?case using Suc.hyps(2) by (simp add: try_labels.simps [of P c "replicate k magicString"] assms(1))
qed

definition supported :: "string set" where
  "supported = {''server_addr'', ''host'', ''method'', ''uri'', ''status''}"

definition wants :: "wanted \<Rightarrow> string set \<Rightarrow> wanted" where
  "wants w N = w\<lparr>wServerAddr := wServerAddr w \<or> ''server_addr'' \<in> N, wHost := wHost w \<or> ''host'' \<in> N,
     wMethod := wMethod w \<or> ''method'' \<in> N, wUri := wUri w \<or> ''uri'' \<in> N, wStatus := wStatus w \<or> ''status'' \<in> N\<rparr>"

lemma want_label_supported: "n \<in> supported \<union> {''event''} \<Longrightarrow> want_label n w = Inr (wants w {n})"
  by (auto simp: want_label_def wants_def supported_def)

lemma wants_simps: "wants (wants w M) N = wants w (M \<union> N)" "wants w {} = w"
  by (auto simp: wants_def)

lemma scan_labels_wants:
  assumes "pVec P c" and "{n \<in> {n. (n, magicString) \<in> set ls}. pCurryWith P c n} \<subseteq> supported \<union> {''event''}"
  shows "scan_labels P c ls w = Inr (wants w {n \<in> {n. (n, magicString) \<in> set ls}. pCurryWith P c n})"
  using assms(2)
proof (induction ls arbitrary: w)
  case Nil
  then show ?case by (simp add: wants_simps)
next
  case (Cons l ls)
  obtain n v where l: "l = (n, v)" by (cases l)
  let ?N = "\<lambda>ls. {n \<in> {n. (n, magicString) \<in> set ls}. pCurryWith P c n}"
  have IH: "scan_labels P c ls w = Inr (wants w (?N ls))" for w using Cons.prems by (intro Cons.IH) auto
  show ?case
  proof (cases "v = magicString \<and> pCurryWith P c n")
    case True
    then have "?N (l # ls) = {n} \<union> ?N ls" by (auto simp: l)
    moreover have "n \<in> supported \<union> {''event''}" using True Cons.prems by (auto simp: l)
    ultimately show ?thesis using True assms(1) by (simp add: l isLabelCurried_def want_label_supported IH wants_simps)
  next
    case False
    then have "?N (l # ls) = ?N ls" by (auto simp: l)
    then show ?thesis using False assms(1) by (auto simp: l isLabelCurried_def IH)
  qed
qed

lemma checkLabels_wants:
  assumes "prom_vec P c vars curried" and "set vars - curried \<subseteq> supported \<union> {''event''}"
  shows "checkLabels P c = Inr (wants want_none (set vars - curried))"
proof -
  obtain ls where ls: "pWrite P c (replicate (length vars) magicString) = Some ls" "{n. (n, magicString) \<in> set ls} = set vars"
    using assms(1) by (auto simp: prom_vec_def)
  have "try_labels P c [] = Some (replicate (length vars) magicString)"
    using try_labels_ends [of P c "length vars" 0] assms(1) by (simp add: prom_vec_def)
  moreover have "{n \<in> {n. (n, magicString) \<in> set ls}. pCurryWith P c n} = set vars - curried"
    unfolding ls(2) using assms(1) ls(2) by (auto simp: prom_vec_def)
  then have "scan_labels P c ls want_none = Inr (wants want_none (set vars - curried))"
    using scan_labels_wants [of P c ls want_none] assms by (simp only: prom_vec_def)
  ultimately show ?thesis using assms(1) ls(1) by (simp add: checkLabels_def prom_vec_def)
qed

text \<open>The value of a label of a request.\<close>

definition label_value :: "string \<Rightarrow> hreq \<Rightarrow> int \<Rightarrow> string \<Rightarrow> string \<Rightarrow> string" where
  "label_value addr r status ev l =
     (if l = ''server_addr'' then addr
      else if l = ''host'' then (if hHost r = '''' then hURLHost r else hHost r)
      else if l = ''method'' then ToUpper (hMethod r)
      else if l = ''uri'' then (if hPath r = '''' then hRawPath r else hPath r)
      else if l = ''status'' then dec_int (if status = 0 then 200 else status)
      else ev)"

lemma labels_of_at:
  "labels_of want addr host meth uri st custom l =
     (if l = ''server_addr'' \<and> wServerAddr want then Some addr
      else if l = ''host'' \<and> wHost want then Some host
      else if l = ''method'' \<and> wMethod want then Some (ToUpper meth)
      else if l = ''uri'' \<and> wUri want then Some uri
      else if l = ''status'' \<and> wStatus want then Some (dec_int (if st = 0 then 200 else st))
      else case custom of Some c \<Rightarrow> c l | None \<Rightarrow> None)"
  by (simp add: labels_of_def Let_def sanitizeMethod_upper sanitizeStatus_dec split: option.split)

lemma labels_of_wants:
  assumes "N \<subseteq> supported \<union> {''event''}"
  shows "labels_of (wants want_none N) addr (if hHost r = '''' then hURLHost r else hHost r) (hMethod r)
      (if hPath r = '''' then hRawPath r else hPath r) st (if ''event'' \<in> N then Some [''event'' \<mapsto> ev] else None) =
    (\<lambda>l. if l \<in> N then Some (label_value addr r st ev l) else None)"
proof
  fix l
  have w: "wServerAddr (wants want_none N) = (''server_addr'' \<in> N)" "wHost (wants want_none N) = (''host'' \<in> N)"
    "wMethod (wants want_none N) = (''method'' \<in> N)" "wUri (wants want_none N) = (''uri'' \<in> N)" "wStatus (wants want_none N) = (''status'' \<in> N)"
    by (simp_all add: wants_def want_none_def)
  consider "l = ''server_addr''" | "l = ''host''" | "l = ''method''" | "l = ''uri''" | "l = ''status''" | "l = ''event''" | "l \<notin> supported \<union> {''event''}"
    by (auto simp: supported_def)
  then show "labels_of (wants want_none N) addr (if hHost r = '''' then hURLHost r else hHost r) (hMethod r)
      (if hPath r = '''' then hRawPath r else hPath r) st (if ''event'' \<in> N then Some [''event'' \<mapsto> ev] else None) l =
    (if l \<in> N then Some (label_value addr r st ev l) else None)"
  proof cases
    case 7
    then have "l \<notin> N" using assms by blast
    then show ?thesis using 7 by (simp add: supported_def labels_of_at w)
  qed (simp_all add: labels_of_at w label_value_def)
qed

text \<open>
  The default labels fit: for a collector partitioned by any of the supported labels, also curried and with constant
  labels, the loop that finds out its labels ends, and the labels of a request are those \<^verbatim>\<open>With\<close> accepts, each with its
  value. A traced collector also has the label \<^verbatim>\<open>event\<close>.
\<close>

lemma default_labels_at:
  assumes "prom_vec P c vars curried" and "set vars - curried \<subseteq> supported \<union> {''event''}"
    and "custom = (if ''event'' \<in> set vars - curried then Some [''event'' \<mapsto> ev] else None)"
  shows "\<exists>ls. defaultMetricsHttpServerRequestLabelFunc P addr c d r custom = Inr ls \<and> pWith P c ls \<and>
           ls = (\<lambda>l. if l \<in> set vars - curried then Some (label_value addr r (seenStatus d) ev l) else None)"
proof -
  let ?N = "set vars - curried"
  let ?ls = "\<lambda>l. if l \<in> ?N then Some (label_value addr r (seenStatus d) ev l) else None"
  have eq: "labels_of (wants want_none ?N) addr (if hHost r = '''' then hURLHost r else hHost r) (hMethod r)
      (if hPath r = '''' then hRawPath r else hPath r) (seenStatus d) custom = ?ls"
    using labels_of_wants [OF assms(2)] unfolding assms(3) by blast
  have "dom ?ls = ?N" by (auto split: if_splits)
  then have "pWith P c ?ls" using assms(1) by (simp add: prom_vec_def)
  then show ?thesis
    using checkLabels_wants [OF assms(1,2)] by (simp add: defaultMetricsHttpServerRequestLabelFunc_def request_labels_def eq)
qed

end
