(* ===== verification/Instrument.thy ===== *)
theory Instrument
  imports Metrics
begin

text \<open>
  The wrappers of \<^verbatim>\<open>src/metrics/instrument.go\<close>, which report the requests a server answers and a client sends, the named
  collectors of \<^verbatim>\<open>src/metrics/collector.go\<close>, and the client of \<^verbatim>\<open>src/client.go\<close>, which is a stack of these wrappers.
  The world is a pair: the world of the writer or transport below, which also has the clock, and the list of what was
  reported to the collectors.
\<close>

subsection \<open>Reporting\<close>

datatype measure = Elapsed int | Bytes int

datatype 'c observation = Observe 'c labels measure | Inc 'c labels

fun observe_each ::
    "'c prom \<Rightarrow> ('c \<Rightarrow> labels run) \<Rightarrow> measure \<Rightarrow> 'c list \<Rightarrow> 'u \<times> 'c observation list \<Rightarrow> stop option \<times> 'u \<times> 'c observation list" where
  "observe_each P lf v [] s = (None, s)"
| "observe_each P lf v (c # cs) (u, ms) =
     (case lf c of
        Inl st \<Rightarrow> (Some st, u, ms)
      | Inr ls \<Rightarrow>
          if pWith P c ls then observe_each P lf v cs (u, ms @ [Observe c ls v])
          else (Some (Panics (ExplicitPanic ''inconsistent label cardinality'')), u, ms))"

type_synonym 'c server_labels = "'c \<Rightarrow> seen \<Rightarrow> hreq \<Rightarrow> labels option \<Rightarrow> labels run"
type_synonym 'c client_labels = "'c \<Rightarrow> hreq \<Rightarrow> int option \<Rightarrow> labels option \<Rightarrow> labels run"

text \<open>The first label function given, or the default.\<close>

definition pick_labels :: "'f \<Rightarrow> 'f list \<Rightarrow> 'f" where
  "pick_labels dflt fs = (case fs of [] \<Rightarrow> dflt | f # _ \<Rightarrow> f)"

subsection \<open>Servers\<close>

type_synonym ('u, 'c) http_handler =
  "('u \<times> 'c observation list) writer \<Rightarrow> hreq \<Rightarrow> 'u \<times> 'c observation list \<Rightarrow> stop option \<times> 'u \<times> 'c observation list"

type_synonym ('u, 'c) wrapped_handler =
  "hreq \<Rightarrow> ('u \<times> 'c observation list) delegator \<Rightarrow> stop option \<times> ('u \<times> 'c observation list) delegator"

text \<open>What is common to the three wrappers: run the handler on a delegator, and report when it returned.\<close>

definition with_delegator ::
    "bool \<Rightarrow> (seen \<Rightarrow> 'u \<times> 'c observation list \<Rightarrow> stop option \<times> 'u \<times> 'c observation list) option \<Rightarrow> ('u, 'c) wrapped_handler \<Rightarrow>
     (seen \<Rightarrow> 'u \<times> 'c observation list \<Rightarrow> stop option \<times> 'u \<times> 'c observation list) \<Rightarrow> ('u, 'c) http_handler" where
  "with_delegator go18 cb nxt after w r s =
     (case newDelegator go18 w cb cb s of
        Inl p \<Rightarrow> (Some (Panics p), s)
      | Inr d \<Rightarrow>
          (case nxt r d of
             (Some st, d1) \<Rightarrow> (Some st, world d1)
           | (None, d1) \<Rightarrow> after (seen_of d1) (world d1)))"

definition InstrumentHttpServerRequests ::
    "bool \<Rightarrow> 'c prom \<Rightarrow> ('u \<Rightarrow> int) \<Rightarrow> 'c server_labels \<Rightarrow> 'c list \<Rightarrow> 'c list option \<Rightarrow> ('u, 'c) wrapped_handler \<Rightarrow> 'c server_labels list \<Rightarrow> ('u, 'c) http_handler" where
  "InstrumentHttpServerRequests go18 P clock dflt observers traceObservers nxt lfs w r s =
     (let lf = pick_labels dflt lfs;
          now = clock (fst s);
          trace = (\<lambda>obs d t. observe_each P (\<lambda>c. lf c d r (Some [''event'' \<mapsto> seenEvent d])) (Elapsed (clock (fst t) - now)) obs t)
      in with_delegator go18 (map_option trace traceObservers) nxt
           (\<lambda>d t. observe_each P (\<lambda>c. lf c d r None) (Elapsed (clock (fst t) - now)) observers t) w r s)"

definition InstrumentHttpServerRequestsRequestSize ::
    "bool \<Rightarrow> 'c prom \<Rightarrow> 'c server_labels \<Rightarrow> 'c list \<Rightarrow> ('u, 'c) wrapped_handler \<Rightarrow> 'c server_labels list \<Rightarrow> ('u, 'c) http_handler" where
  "InstrumentHttpServerRequestsRequestSize go18 P dflt observers nxt lfs w r s =
     with_delegator go18 None nxt
       (\<lambda>d t. observe_each P (\<lambda>c. pick_labels dflt lfs c d r None) (Bytes (computeApproximateRequestSize r)) observers t) w r s"

definition InstrumentHttpServerRequestsResponseSize ::
    "bool \<Rightarrow> 'c prom \<Rightarrow> 'c server_labels \<Rightarrow> 'c list \<Rightarrow> ('u, 'c) wrapped_handler \<Rightarrow> 'c server_labels list \<Rightarrow> ('u, 'c) http_handler" where
  "InstrumentHttpServerRequestsResponseSize go18 P dflt observers nxt lfs w r s =
     with_delegator go18 None nxt
       (\<lambda>d t. observe_each P (\<lambda>c. pick_labels dflt lfs c d r None) (Bytes (sint (seenWritten d))) observers t) w r s"

subsection \<open>Clients\<close>

text \<open>The hooks of \<^verbatim>\<open>httptrace.ClientTrace\<close>, with the errors that reach the code.\<close>

datatype hook =
  GotConn | PutIdleConn "string option" | GotFirstResponseByte | Got100Continue | DNSStart | DNSDone
| ConnectStart | ConnectDone "string option" | TLSHandshakeStart | TLSHandshakeDone "string option"
| WroteHeaders | Wait100Continue | WroteRequest

text \<open>The group of observers a hook reports to, and the event it reports.\<close>

fun hook_event :: "hook \<Rightarrow> string \<times> string" where
  "hook_event GotConn = (''connection'', ''got_conn'')"
| "hook_event (PutIdleConn _) = (''connection'', ''put_idle_conn'')"
| "hook_event DNSStart = (''dns'', ''dns_start'')"
| "hook_event DNSDone = (''dns'', ''dns_done'')"
| "hook_event ConnectStart = (''connect'', ''connect_start'')"
| "hook_event (ConnectDone _) = (''connect'', ''connect_done'')"
| "hook_event TLSHandshakeStart = (''tls'', ''tls_handshake_start'')"
| "hook_event (TLSHandshakeDone _) = (''tls'', ''tls_handshake_done'')"
| "hook_event WroteHeaders = (''request'', ''wrote_headers'')"
| "hook_event WroteRequest = (''request'', ''wrote_request'')"
| "hook_event GotFirstResponseByte = (''request'', ''got_first_response_byte'')"
| "hook_event Got100Continue = (''request'', ''got_100_continue'')"
| "hook_event Wait100Continue = (''request'', ''wait_100_continue'')"

fun hook_error :: "hook \<Rightarrow> string option" where
  "hook_error (PutIdleConn e) = e"
| "hook_error (ConnectDone e) = e"
| "hook_error (TLSHandshakeDone e) = e"
| "hook_error _ = None"

text \<open>A request with its context: the number of a context (0 is \<^verbatim>\<open>context.Background()\<close>) and the trace kept in it.\<close>

record 'w creq =
  cRequest :: hreq
  cContext :: nat
  cTrace :: "(hook \<Rightarrow> 'w \<Rightarrow> stop option \<times> 'w) option"

text \<open>A round trip gives an error or the status of the response.\<close>

type_synonym 'w round_tripper = "'w creq \<Rightarrow> 'w \<Rightarrow> (string + int) run \<times> 'w"

definition InstrumentHttpClientRequestCounter ::
    "'c prom \<Rightarrow> 'c client_labels \<Rightarrow> 'c \<Rightarrow> ('u \<times> 'c observation list) round_tripper \<Rightarrow> 'c client_labels list \<Rightarrow> ('u \<times> 'c observation list) round_tripper" where
  "InstrumentHttpClientRequestCounter P dflt counter nxt lfs r s =
     (case nxt r s of
        (Inr (Inr status), (u, ms)) \<Rightarrow>
          (case pick_labels dflt lfs counter (cRequest r) (Some status) None of
             Inl st \<Rightarrow> (Inl st, (u, ms))
           | Inr ls \<Rightarrow>
               if pWith P counter ls then (Inr (Inr status), (u, ms @ [Inc counter ls]))
               else (Inl (Panics (ExplicitPanic ''inconsistent label cardinality'')), (u, ms)))
      | res \<Rightarrow> res)"

definition InstrumentHttpClientRequest ::
    "'c prom \<Rightarrow> ('u \<Rightarrow> int) \<Rightarrow> 'c client_labels \<Rightarrow> 'c list \<Rightarrow> ('u \<times> 'c observation list) round_tripper \<Rightarrow> 'c client_labels list \<Rightarrow> ('u \<times> 'c observation list) round_tripper" where
  "InstrumentHttpClientRequest P clock dflt observers nxt lfs r s =
     (let start = clock (fst s) in
      case nxt r s of
        (Inr (Inr status), t) \<Rightarrow>
          (case observe_each P (\<lambda>c. pick_labels dflt lfs c (cRequest r) (Some status) None) (Elapsed (clock (fst t) - start)) observers t of
             (Some st, t1) \<Rightarrow> (Inl st, t1)
           | (None, t1) \<Rightarrow> (Inr (Inr status), t1))
      | res \<Rightarrow> res)"

definition client_hook ::
    "'c prom \<Rightarrow> ('u \<Rightarrow> int) \<Rightarrow> 'c client_labels \<Rightarrow> (string \<rightharpoonup> 'c list) \<Rightarrow> int \<Rightarrow> hreq \<Rightarrow> hook \<Rightarrow> 'u \<times> 'c observation list \<Rightarrow> stop option \<times> 'u \<times> 'c observation list" where
  "client_hook P clock lf observers start r h t =
     (if hook_error h \<noteq> None then (None, t)
      else case observers (fst (hook_event h)) of
             None \<Rightarrow> (None, t)
           | Some obs \<Rightarrow> observe_each P (\<lambda>c. lf c r None (Some [''event'' \<mapsto> snd (hook_event h)])) (Elapsed (clock (fst t) - start)) obs t)"

text \<open>The request goes on with a new context that has nothing but the trace.\<close>

definition InstrumentHttpClientRequestTrace ::
    "'c prom \<Rightarrow> ('u \<Rightarrow> int) \<Rightarrow> 'c client_labels \<Rightarrow> (string \<rightharpoonup> 'c list) \<Rightarrow> ('u \<times> 'c observation list) round_tripper \<Rightarrow> 'c client_labels list \<Rightarrow> ('u \<times> 'c observation list) round_tripper" where
  "InstrumentHttpClientRequestTrace P clock dflt observers nxt lfs r s =
     nxt (r\<lparr>cContext := 0, cTrace := Some (client_hook P clock (pick_labels dflt lfs) observers (clock (fst s)) (cRequest r))\<rparr>) s"

subsection \<open>What servers report\<close>

text \<open>A handler that makes the given calls on its writer and returns, or stops where one of them stops.\<close>

definition calls_handler :: "dop list \<Rightarrow> ('u, 'c) wrapped_handler" where
  "calls_handler ops r d = (case drun ops d of (Inl st, d1) \<Rightarrow> (Some st, d1) | (Inr _, d1) \<Rightarrow> (None, d1))"

lemma observe_each_all:
  "\<forall>c \<in> set cs. lf c = Inr (lab c) \<and> pWith P c (lab c) \<Longrightarrow>
     observe_each P lf v cs (u, ms) = (None, u, ms @ map (\<lambda>c. Observe c (lab c) v) cs)"
  by (induction cs arbitrary: ms) auto

text \<open>The labels of a collector with the variable labels \<open>N\<close> for a request.\<close>

definition fit_labels :: "string \<Rightarrow> hreq \<Rightarrow> int \<Rightarrow> string set \<Rightarrow> labels" where
  "fit_labels addr r status N = (\<lambda>l. if l \<in> N then Some (label_value addr r status '''' l) else None)"

lemma fit_default:
  assumes "prom_vec P c vars curried" and "set vars - curried \<subseteq> supported"
  shows "defaultMetricsHttpServerRequestLabelFunc P addr c d r None = Inr (fit_labels addr r (seenStatus d) (set vars - curried)) \<and>
         pWith P c (fit_labels addr r (seenStatus d) (set vars - curried))"
proof -
  have N: "set vars - curried \<subseteq> supported \<union> {''event''}" using assms(2) by blast
  have "''event'' \<notin> set vars - curried" using assms(2) by (auto simp: supported_def)
  then have none: "None = (if ''event'' \<in> set vars - curried then Some [''event'' \<mapsto> ''''] else None)" by presburger
  from default_labels_at [OF assms(1) N none] show ?thesis unfolding fit_labels_def by blast
qed

text \<open>
  \<^bold>\<open>C34\<close>. The size of a response is reported once to every collector, with labels that fit it: the number of bytes the handler
  wrote, and the status it sent last (200 when it only wrote). Nothing is reported for a handler that panics.
\<close>

theorem response_size_reported:
  assumes "\<forall>c \<in> set observers. prom_vec P c (vars c) (curried c) \<and> set (vars c) - curried c \<subseteq> supported"
    and "newDelegator go18 w None None s = Inr d" and "drun ops d = (res, d1)"
  shows "InstrumentHttpServerRequestsResponseSize go18 P (defaultMetricsHttpServerRequestLabelFunc P addr) observers (calls_handler ops) [] w r s =
    (case res of
       Inl st \<Rightarrow> (Some st, world d1)
     | Inr ns \<Rightarrow> (None, fst (world d1), snd (world d1) @
         map (\<lambda>c. Observe c (fit_labels addr r (last (0 # sent_codes False ops)) (set (vars c) - curried c))
                    (Bytes (sint (word_of_int (sum_list ns) :: 64 word)))) observers))"
proof (cases res)
  case (Inl st)
  then show ?thesis
    using assms(2,3) by (simp add: InstrumentHttpServerRequestsResponseSize_def with_delegator_def calls_handler_def)
next
  case (Inr ns)
  have d1: "dWritten d1 = word_of_int (sum_list ns)" "dStatus d1 = last (0 # sent_codes False ops)"
    using delegator_counted [OF assms(2)] assms(3) Inr by blast+
  obtain u ms where w: "world d1 = (u, ms)" by (cases "world d1")
  have "observe_each P (\<lambda>c. defaultMetricsHttpServerRequestLabelFunc P addr c (seen_of d1) r None) (Bytes (sint (seenWritten (seen_of d1)))) observers (u, ms) =
      (None, u, ms @ map (\<lambda>c. Observe c (fit_labels addr r (dStatus d1) (set (vars c) - curried c)) (Bytes (sint (dWritten d1)))) observers)"
    using assms(1) fit_default [of P _ _ _ addr "seen_of d1" r]
    by (subst observe_each_all [where lab = "\<lambda>c. fit_labels addr r (dStatus d1) (set (vars c) - curried c)"]) (auto simp: seen_of_def)
  then show ?thesis
    using assms(2,3) Inr d1
    by (simp add: InstrumentHttpServerRequestsResponseSize_def with_delegator_def calls_handler_def pick_labels_def w)
qed

text \<open>A package whose collectors are their lists of variable labels, and a writer that takes everything, for examples.\<close>

definition demo_prom :: "string list prom" where
  "demo_prom = \<lparr>pDescs = \<lambda>_. 1, pNew = \<lambda>c lvs. length lvs = length c, pWrite = \<lambda>c lvs. Some (zip c lvs), pVec = \<lambda>_. True,
     pCurryWith = \<lambda>c l. l \<in> set c, pWith = \<lambda>c ls. dom ls = set c\<rparr>"

definition demo_writer :: "'w writer" where
  "demo_writer = \<lparr>rwInterfaces = {Flusher}, rwWriteHeader = \<lambda>_ s. (None, s), rwWrite = \<lambda>b s. (Inr (int (length b), None), s),
     rwReadFrom = \<lambda>b s. (Inr (int (length b), None), s)\<rparr>"

lemma demo_prom_vec: "prom_vec demo_prom c c {}"
proof -
  have "{n. (n, magicString) \<in> set (zip c (replicate (length c) magicString))} = set c"
    by (simp add: zip_replicate2 image_iff Bex_def)
  then show ?thesis by (simp add: prom_vec_def demo_prom_def)
qed

theorem response_size_reported_witness:
  "\<forall>r. InstrumentHttpServerRequestsResponseSize True demo_prom (defaultMetricsHttpServerRequestLabelFunc demo_prom ''a'') [[''method'', ''status'']]
     (calls_handler [DWrite ''hello'', DWrite ''you'']) [] demo_writer r ((), []) =
   (None, (), [Observe [''method'', ''status''] (fit_labels ''a'' r 200 {''method'', ''status''}) (Bytes 8)])"
proof
  fix r
  obtain d :: "(unit \<times> string list observation list) delegator" where d: "newDelegator True demo_writer None None ((), []) = Inr d"
    using newDelegator_total [of True "demo_writer :: (unit \<times> string list observation list) writer" None None "((), [])"] by blast
  then have "dWriter d = demo_writer \<and> \<not> dWroteHeader d \<and> dWritten d = 0 \<and> world d = ((), []) \<and> observeWriteHeader d = None \<and> observeWriteRequest d = None"
    by (auto simp: newDelegator_def map_sum_def split: sum.splits)
  then have "drun [DWrite ''hello'', DWrite ''you''] d = (Inr [5, 3], d\<lparr>dStatus := 200, dWroteHeader := True, dWritten := 8\<rparr>)"
    by (simp add: Delegator_Write_def unless_panic_def report_def ensure_header_def Delegator_WriteHeader_def demo_writer_def Let_def)
  from response_size_reported [of "[[''method'', ''status'']]" demo_prom "\<lambda>c. c" "\<lambda>_. {}", OF _ d this, of "''a''" r]
  show "InstrumentHttpServerRequestsResponseSize True demo_prom (defaultMetricsHttpServerRequestLabelFunc demo_prom ''a'') [[''method'', ''status'']]
      (calls_handler [DWrite ''hello'', DWrite ''you'']) [] demo_writer r ((), []) =
    (None, (), [Observe [''method'', ''status''] (fit_labels ''a'' r 200 {''method'', ''status''}) (Bytes 8)])"
    using \<open>dWriter d = demo_writer \<and> _\<close> by (simp add: demo_prom_vec supported_def)
qed

subsection \<open>Named collectors\<close>

text \<open>
  Summaries, counters, gauges and histograms by name, with one map for each; \<open>err\<close> is the error of
  \<^verbatim>\<open>prometheus.Register\<close>. The collector is kept also when the package refuses it.
\<close>

record 'c collectors =
  summarys :: "string \<rightharpoonup> 'c"
  counters :: "string \<rightharpoonup> 'c"
  gauges :: "string \<rightharpoonup> 'c"
  histograms :: "string \<rightharpoonup> 'c"

definition New_Metrics :: "'c collectors" where
  "New_Metrics = \<lparr>summarys = Map.empty, counters = Map.empty, gauges = Map.empty, histograms = Map.empty\<rparr>"

definition has_registered :: "string \<Rightarrow> string \<Rightarrow> string option" where
  "has_registered kind name =
     Some (''metrics: register '' @ kind @ '' '' @ [CHR 0x27] @ ''%s'' @ [CHR 0x27] @ '': metrics: '' @ kind @ '' '' @ [CHR 0x27] @ name @ [CHR 0x27] @ '' has registered'')"

definition refused :: "string \<Rightarrow> string option \<Rightarrow> string option" where
  "refused kind err = map_option (\<lambda>e. ''metrics: register '' @ kind @ '' '' @ [CHR 0x27] @ ''%s'' @ [CHR 0x27] @ '': '' @ e) err"

definition RegisterSummary :: "string option \<Rightarrow> string \<Rightarrow> 'c \<Rightarrow> 'c collectors \<Rightarrow> string option \<times> 'c collectors" where
  "RegisterSummary err name cs m =
     (if summarys m name = None then (refused ''summary'' err, m\<lparr>summarys := (summarys m)(name \<mapsto> cs)\<rparr>)
      else (has_registered ''summary'' name, m))"

definition RegisterCounter :: "string option \<Rightarrow> string \<Rightarrow> 'c \<Rightarrow> 'c collectors \<Rightarrow> string option \<times> 'c collectors" where
  "RegisterCounter err name cs m =
     (if counters m name = None then (refused ''counter'' err, m\<lparr>counters := (counters m)(name \<mapsto> cs)\<rparr>)
      else (has_registered ''counter'' name, m))"

definition RegisterGauge :: "string option \<Rightarrow> string \<Rightarrow> 'c \<Rightarrow> 'c collectors \<Rightarrow> string option \<times> 'c collectors" where
  "RegisterGauge err name cs m =
     (if gauges m name = None then (refused ''gauge'' err, m\<lparr>gauges := (gauges m)(name \<mapsto> cs)\<rparr>)
      else (has_registered ''gauge'' name, m))"

definition RegisterHistogram :: "string option \<Rightarrow> string \<Rightarrow> 'c \<Rightarrow> 'c collectors \<Rightarrow> string option \<times> 'c collectors" where
  "RegisterHistogram err name cs m =
     (if histograms m name = None then (refused ''histogram'' err, m\<lparr>histograms := (histograms m)(name \<mapsto> cs)\<rparr>)
      else (has_registered ''histogram'' name, m))"

definition GetSummary :: "string \<Rightarrow> 'c collectors \<Rightarrow> 'c option" where "GetSummary name m = summarys m name"

definition GetCounter :: "string \<Rightarrow> 'c collectors \<Rightarrow> 'c option" where "GetCounter name m = counters m name"

definition GetGauge :: "string \<Rightarrow> 'c collectors \<Rightarrow> 'c option" where "GetGauge name m = gauges m name"

definition GetHistogram :: "string \<Rightarrow> 'c collectors \<Rightarrow> 'c option" where "GetHistogram name m = histograms m name"

text \<open>What the four kinds promise: a name keeps the first collector registered under it, also a refused one, for good.\<close>

locale collector_kind =
  fixes register :: "string option \<Rightarrow> string \<Rightarrow> 'c \<Rightarrow> 'm \<Rightarrow> string option \<times> 'm"
    and look :: "string \<Rightarrow> 'm \<Rightarrow> 'c option"
  assumes register_look: "look n' (snd (register e n c m)) = (if n' = n \<and> look n m = None then Some c else look n' m)"
    and register_result: "fst (register e n c m) = None \<longleftrightarrow> look n m = None \<and> e = None"
begin

lemma first_stays:
  "look n (fold (\<lambda>(e, n, c) m. snd (register e n c m)) rs m) =
     (case look n m of Some c \<Rightarrow> Some c | None \<Rightarrow> map_of (map snd rs) n)"
proof (induction rs arbitrary: m)
  case (Cons r rs)
  obtain e n' c where r: "r = (e, n', c)" by (cases r)
  show ?case by (simp add: r Cons.IH register_look split: option.split)
qed (simp split: option.split)

lemma refused_blocks_name: "fst (register e' n c' (snd (register (Some e) n c m))) \<noteq> None"
  by (simp add: register_result register_look)

end

interpretation summary_kind: collector_kind RegisterSummary GetSummary
  by unfold_locales (simp_all add: RegisterSummary_def GetSummary_def refused_def has_registered_def)

interpretation counter_kind: collector_kind RegisterCounter GetCounter
  by unfold_locales (simp_all add: RegisterCounter_def GetCounter_def refused_def has_registered_def)

interpretation gauge_kind: collector_kind RegisterGauge GetGauge
  by unfold_locales (simp_all add: RegisterGauge_def GetGauge_def refused_def has_registered_def)

interpretation histogram_kind: collector_kind RegisterHistogram GetHistogram
  by unfold_locales (simp_all add: RegisterHistogram_def GetHistogram_def refused_def has_registered_def)

end
