(* ===== verification/Http_Client.thy ===== *)
theory Http_Client
  imports Instrument
begin

text \<open>
  \<^verbatim>\<open>src/client.go\<close>: the options of an HTTP client and the client made from them, whose transport is wrapped with the
  reporting of the metrics package. The transport of the standard library and the gauge wrapper of the prometheus
  package are arguments. Durations are nanoseconds; zero is an option that was not set.
\<close>

subsection \<open>Options\<close>

record 'c ClientOptions =
  coTimeout :: int
  coDialTimeout :: int
  coDialKeepAlive :: int
  coIdleConnTimeout :: int
  coTLSHandshakeTimeout :: int
  coExpectContinueTimeout :: int
  coMaxIdleConns :: int
  coMaxIdleConnsPerHost :: int
  coInFlight :: "'c option"
  coCounter :: "'c option"
  coDurations :: "'c list option"
  coTraceConnection :: "'c list option"
  coTraceDns :: "'c list option"
  coTraceConnect :: "'c list option"
  coTraceTls :: "'c list option"
  coTraceRequest :: "'c list option"
  coLabelFuncs :: "'c client_labels list option"

definition empty_ClientOptions :: "'c ClientOptions" where
  "empty_ClientOptions = \<lparr>coTimeout = 0, coDialTimeout = 0, coDialKeepAlive = 0, coIdleConnTimeout = 0, coTLSHandshakeTimeout = 0,
     coExpectContinueTimeout = 0, coMaxIdleConns = 0, coMaxIdleConnsPerHost = 0, coInFlight = None, coCounter = None, coDurations = None,
     coTraceConnection = None, coTraceDns = None, coTraceConnect = None, coTraceTls = None, coTraceRequest = None, coLabelFuncs = None\<rparr>"

text \<open>The default collectors of the package.\<close>

record 'c client_defaults =
  cdInFlight :: 'c
  cdCounter :: 'c
  cdRequests :: 'c
  cdTraceConnection :: 'c
  cdTraceDns :: 'c
  cdTraceConnect :: 'c
  cdTraceTls :: 'c
  cdTraceRequest :: 'c

text \<open>A setter works on the collectors handed to \<^verbatim>\<open>prometheus.Register\<close> so far, whose error is dropped, and the options.\<close>

type_synonym 'c ClientOption = "'c list \<times> 'c ClientOptions \<Rightarrow> 'c list \<times> 'c ClientOptions"

definition ClientTimeout :: "int \<Rightarrow> 'c ClientOption" where
  "ClientTimeout t = (\<lambda>(reg, o1). (reg, o1\<lparr>coTimeout := t\<rparr>))"

definition ClientDialTimeout :: "int \<Rightarrow> 'c ClientOption" where
  "ClientDialTimeout t = (\<lambda>(reg, o1). (reg, o1\<lparr>coDialTimeout := t\<rparr>))"

definition ClientDialKeepAlive :: "int \<Rightarrow> 'c ClientOption" where
  "ClientDialKeepAlive t = (\<lambda>(reg, o1). (reg, o1\<lparr>coDialKeepAlive := t\<rparr>))"

definition ClientIdleConnTimeout :: "int \<Rightarrow> 'c ClientOption" where
  "ClientIdleConnTimeout t = (\<lambda>(reg, o1). (reg, o1\<lparr>coIdleConnTimeout := t\<rparr>))"

definition ClientTLSHandshakeTimeout :: "int \<Rightarrow> 'c ClientOption" where
  "ClientTLSHandshakeTimeout t = (\<lambda>(reg, o1). (reg, o1\<lparr>coTLSHandshakeTimeout := t\<rparr>))"

definition ClientExpectContinueTimeout :: "int \<Rightarrow> 'c ClientOption" where
  "ClientExpectContinueTimeout t = (\<lambda>(reg, o1). (reg, o1\<lparr>coExpectContinueTimeout := t\<rparr>))"

definition ClientMaxIdleConns :: "int \<Rightarrow> 'c ClientOption" where
  "ClientMaxIdleConns n = (\<lambda>(reg, o1). (reg, o1\<lparr>coMaxIdleConns := n\<rparr>))"

definition ClientMaxIdleConnsPerHost :: "int \<Rightarrow> 'c ClientOption" where
  "ClientMaxIdleConnsPerHost n = (\<lambda>(reg, o1). (reg, o1\<lparr>coMaxIdleConnsPerHost := n\<rparr>))"

definition or_default :: "'a \<Rightarrow> 'a option \<Rightarrow> 'a" where
  "or_default d x = (case x of Some y \<Rightarrow> y | None \<Rightarrow> d)"

definition ClientMetricsHttpClientRequestsInFlight :: "'c client_defaults \<Rightarrow> 'c option \<Rightarrow> 'c ClientOption" where
  "ClientMetricsHttpClientRequestsInFlight D gauge =
     (let g = or_default (cdInFlight D) gauge in (\<lambda>(reg, o1). (reg @ [g], o1\<lparr>coInFlight := Some g\<rparr>)))"

definition ClientMetricsHttpClientRequestsCounter :: "'c client_defaults \<Rightarrow> 'c option \<Rightarrow> 'c ClientOption" where
  "ClientMetricsHttpClientRequestsCounter D counter =
     (let c = or_default (cdCounter D) counter in (\<lambda>(reg, o1). (reg @ [c], o1\<lparr>coCounter := Some c\<rparr>)))"

definition ClientMetricsHttpClientRequestsDuration :: "'c client_defaults \<Rightarrow> 'c list option \<Rightarrow> 'c ClientOption" where
  "ClientMetricsHttpClientRequestsDuration D observers =
     (let obs = or_default [cdRequests D] observers in (\<lambda>(reg, o1). (reg @ obs, o1\<lparr>coDurations := Some obs\<rparr>)))"

definition ClientMetricsHttpClientRequestsTraceConnection :: "'c client_defaults \<Rightarrow> 'c list option \<Rightarrow> 'c ClientOption" where
  "ClientMetricsHttpClientRequestsTraceConnection D observers =
     (let obs = or_default [cdTraceConnection D] observers in (\<lambda>(reg, o1). (reg @ obs, o1\<lparr>coTraceConnection := Some obs\<rparr>)))"

definition ClientMetricsHttpClientRequestsTraceDns :: "'c client_defaults \<Rightarrow> 'c list option \<Rightarrow> 'c ClientOption" where
  "ClientMetricsHttpClientRequestsTraceDns D observers =
     (let obs = or_default [cdTraceDns D] observers in (\<lambda>(reg, o1). (reg @ obs, o1\<lparr>coTraceDns := Some obs\<rparr>)))"

definition ClientMetricsHttpClientRequestsTraceConnect :: "'c client_defaults \<Rightarrow> 'c list option \<Rightarrow> 'c ClientOption" where
  "ClientMetricsHttpClientRequestsTraceConnect D observers =
     (let obs = or_default [cdTraceConnect D] observers in (\<lambda>(reg, o1). (reg @ obs, o1\<lparr>coTraceConnect := Some obs\<rparr>)))"

definition ClientMetricsHttpClientRequestsTraceTls :: "'c client_defaults \<Rightarrow> 'c list option \<Rightarrow> 'c ClientOption" where
  "ClientMetricsHttpClientRequestsTraceTls D observers =
     (let obs = or_default [cdTraceTls D] observers in (\<lambda>(reg, o1). (reg @ obs, o1\<lparr>coTraceTls := Some obs\<rparr>)))"

definition ClientMetricsHttpClientRequestsTraceRequest :: "'c client_defaults \<Rightarrow> 'c list option \<Rightarrow> 'c ClientOption" where
  "ClientMetricsHttpClientRequestsTraceRequest D observers =
     (let obs = or_default [cdTraceRequest D] observers in (\<lambda>(reg, o1). (reg @ obs, o1\<lparr>coTraceRequest := Some obs\<rparr>)))"

text \<open>A call without functions passes a nil slice.\<close>

definition ClientMetricsHttpClientRequestLabelFunc :: "'c client_labels list \<Rightarrow> 'c ClientOption" where
  "ClientMetricsHttpClientRequestLabelFunc fs = (\<lambda>(reg, o1). (reg, o1\<lparr>coLabelFuncs := (if fs = [] then None else Some fs)\<rparr>))"

subsection \<open>The client\<close>

text \<open>What the code sets of the transport of the standard library, and of the client.\<close>

record transport =
  tDialTimeout :: int
  tDialKeepAlive :: int
  tMaxIdleConns :: int
  tIdleConnTimeout :: int
  tMaxIdleConnsPerHost :: int
  tTLSHandshakeTimeout :: int
  tExpectContinueTimeout :: int

record 'w http_client =
  hcTimeout :: int
  hcTransport :: "'w round_tripper"

definition seconds :: "int \<Rightarrow> int" where "seconds n = n * 1000000000"

definition nonzero :: "int \<Rightarrow> int \<Rightarrow> int" where "nonzero d x = (if x = 0 then d else x)"

definition client_transport :: "'c ClientOptions \<Rightarrow> transport" where
  "client_transport c = \<lparr>tDialTimeout = nonzero (seconds 3) (coDialTimeout c), tDialKeepAlive = nonzero (seconds 30) (coDialKeepAlive c),
     tMaxIdleConns = nonzero 1000 (coMaxIdleConns c), tIdleConnTimeout = nonzero (seconds 90) (coIdleConnTimeout c),
     tMaxIdleConnsPerHost = nonzero 1000 (coMaxIdleConnsPerHost c), tTLSHandshakeTimeout = nonzero (seconds 2) (coTLSHandshakeTimeout c),
     tExpectContinueTimeout = nonzero (seconds 1) (coExpectContinueTimeout c)\<rparr>"

text \<open>One wrapper per label function, the first innermost, or one wrapper without.\<close>

definition wrap_each :: "('f list \<Rightarrow> 'rt \<Rightarrow> 'rt) \<Rightarrow> 'f list option \<Rightarrow> 'rt \<Rightarrow> 'rt" where
  "wrap_each wrap fs rt = (case fs of None \<Rightarrow> wrap [] rt | Some fs \<Rightarrow> foldl (\<lambda>t f. wrap [f] t) rt fs)"

definition trace_observers :: "'c ClientOptions \<Rightarrow> string \<rightharpoonup> 'c list" where
  "trace_observers c =
     (let put = (\<lambda>k v m. case v of Some obs \<Rightarrow> m(k \<mapsto> obs) | None \<Rightarrow> m) in
      put ''request'' (coTraceRequest c) (put ''tls'' (coTraceTls c) (put ''connect'' (coTraceConnect c)
        (put ''dns'' (coTraceDns c) (put ''connection'' (coTraceConnection c) Map.empty)))))"

definition client_stack ::
    "'c prom \<Rightarrow> ('u \<Rightarrow> int) \<Rightarrow> 'c client_labels \<Rightarrow>
     ('c \<Rightarrow> ('u \<times> 'c observation list) round_tripper \<Rightarrow> ('u \<times> 'c observation list) round_tripper) \<Rightarrow>
     'c ClientOptions \<Rightarrow> ('u \<times> 'c observation list) round_tripper \<Rightarrow> ('u \<times> 'c observation list) round_tripper" where
  "client_stack P clock dflt inFlight c base =
     (let t1 = (case coDurations c of
                  None \<Rightarrow> base
                | Some obs \<Rightarrow> wrap_each (\<lambda>fs rt. InstrumentHttpClientRequest P clock dflt obs rt fs) (coLabelFuncs c) base);
          t2 = wrap_each (\<lambda>fs rt. InstrumentHttpClientRequestTrace P clock dflt (trace_observers c) rt fs) (coLabelFuncs c) t1;
          t3 = (case coCounter c of
                  None \<Rightarrow> t2
                | Some cnt \<Rightarrow> wrap_each (\<lambda>fs rt. InstrumentHttpClientRequestCounter P dflt cnt rt fs) (coLabelFuncs c) t2)
      in case coInFlight c of None \<Rightarrow> t3 | Some g \<Rightarrow> inFlight g t3)"

definition NewHttpClient ::
    "'c prom \<Rightarrow> ('u \<Rightarrow> int) \<Rightarrow> 'c client_labels \<Rightarrow>
     ('c \<Rightarrow> ('u \<times> 'c observation list) round_tripper \<Rightarrow> ('u \<times> 'c observation list) round_tripper) \<Rightarrow>
     (transport \<Rightarrow> ('u \<times> 'c observation list) round_tripper) \<Rightarrow> 'c ClientOption list \<Rightarrow>
     'c list \<Rightarrow> ('u \<times> 'c observation list) http_client \<times> 'c list" where
  "NewHttpClient P clock dflt inFlight base setters reg =
     (case foldl (\<lambda>s f. f s) (reg, empty_ClientOptions) setters of
        (reg1, c) \<Rightarrow>
          (\<lparr>hcTimeout = (if coTimeout c > 0 then coTimeout c else 0),
            hcTransport = client_stack P clock dflt inFlight c (base (client_transport c))\<rparr>, reg1))"

subsection \<open>What holds\<close>

text \<open>A round tripper that looks at a request only through what is below its context.\<close>

definition blind :: "'w round_tripper \<Rightarrow> bool" where
  "blind rt = (\<forall>r r' s. cRequest r = cRequest r' \<longrightarrow> rt r s = rt r' s)"

lemma blindD: "blind rt \<Longrightarrow> cRequest r = cRequest r' \<Longrightarrow> rt r = rt r'"
  unfolding blind_def by (intro ext) blast

lemma creq_same:
  fixes r r' :: "'w creq"
  shows "cRequest r = cRequest r' \<Longrightarrow> r\<lparr>cContext := n, cTrace := h\<rparr> = r'\<lparr>cContext := n, cTrace := h\<rparr>"
  by (cases r; cases r') simp

lemma blind_Trace: "blind (InstrumentHttpClientRequestTrace P clock dflt obs rt fs)"
  unfolding blind_def
proof (intro allI impI)
  fix r r' :: "('a \<times> 'b observation list) creq" and s :: "'a \<times> 'b observation list"
  assume eq: "cRequest r = cRequest r'"
  show "InstrumentHttpClientRequestTrace P clock dflt obs rt fs r s = InstrumentHttpClientRequestTrace P clock dflt obs rt fs r' s"
    unfolding InstrumentHttpClientRequestTrace_def creq_same [OF eq] eq by (rule refl)
qed

lemma blind_Counter:
  assumes "blind rt"
  shows "blind (InstrumentHttpClientRequestCounter P dflt cnt rt fs)"
  unfolding blind_def
proof (intro allI impI)
  fix r r' :: "('a \<times> 'b observation list) creq" and s :: "'a \<times> 'b observation list"
  assume eq: "cRequest r = cRequest r'"
  show "InstrumentHttpClientRequestCounter P dflt cnt rt fs r s = InstrumentHttpClientRequestCounter P dflt cnt rt fs r' s"
    unfolding InstrumentHttpClientRequestCounter_def blindD [OF assms eq] eq by (rule refl)
qed

lemma blind_wrap_each:
  assumes "\<And>fs rt. blind rt \<Longrightarrow> blind (wrap fs rt)" and "blind rt"
  shows "blind (wrap_each wrap fs rt)"
proof -
  have "blind (foldl (\<lambda>t f. wrap [f] t) rt fs)" for fs using assms(2) by (induction fs arbitrary: rt) (auto intro: assms(1))
  then show ?thesis using assms by (simp add: wrap_each_def split: option.split)
qed
text \<open>The setters of the package.\<close>

definition client_setters :: "'c client_defaults \<Rightarrow> 'c ClientOption set" where
  "client_setters D =
     range ClientTimeout \<union> range ClientDialTimeout \<union> range ClientDialKeepAlive \<union> range ClientIdleConnTimeout \<union>
     range ClientTLSHandshakeTimeout \<union> range ClientExpectContinueTimeout \<union> range ClientMaxIdleConns \<union> range ClientMaxIdleConnsPerHost \<union>
     range (ClientMetricsHttpClientRequestsInFlight D) \<union> range (ClientMetricsHttpClientRequestsCounter D) \<union>
     range (ClientMetricsHttpClientRequestsDuration D) \<union> range (ClientMetricsHttpClientRequestsTraceConnection D) \<union>
     range (ClientMetricsHttpClientRequestsTraceDns D) \<union> range (ClientMetricsHttpClientRequestsTraceConnect D) \<union>
     range (ClientMetricsHttpClientRequestsTraceTls D) \<union> range (ClientMetricsHttpClientRequestsTraceRequest D) \<union>
     range ClientMetricsHttpClientRequestLabelFunc"

lemmas client_setter_defs =
  ClientTimeout_def ClientDialTimeout_def ClientDialKeepAlive_def ClientIdleConnTimeout_def ClientTLSHandshakeTimeout_def
  ClientExpectContinueTimeout_def ClientMaxIdleConns_def ClientMaxIdleConnsPerHost_def ClientMetricsHttpClientRequestsInFlight_def
  ClientMetricsHttpClientRequestsCounter_def ClientMetricsHttpClientRequestsDuration_def ClientMetricsHttpClientRequestsTraceConnection_def
  ClientMetricsHttpClientRequestsTraceDns_def ClientMetricsHttpClientRequestsTraceConnect_def ClientMetricsHttpClientRequestsTraceTls_def
  ClientMetricsHttpClientRequestsTraceRequest_def ClientMetricsHttpClientRequestLabelFunc_def

lemma setter_label_funcs:
  "f \<in> client_setters D \<Longrightarrow> coLabelFuncs (snd s) \<noteq> Some [] \<Longrightarrow> coLabelFuncs (snd (f s)) \<noteq> Some []"
  by (cases s) (auto simp: client_setters_def client_setter_defs Let_def split: if_splits)

lemma setters_label_funcs:
  "set fs \<subseteq> client_setters D \<Longrightarrow> coLabelFuncs (snd s) \<noteq> Some [] \<Longrightarrow> coLabelFuncs (snd (foldl (\<lambda>s f. f s) s fs)) \<noteq> Some []"
proof (induction fs arbitrary: s)
  case (Cons f fs)
  then show ?case using setter_label_funcs [of f D s] by simp
qed simp

lemma blind_wrapped_Trace:
  assumes "fs \<noteq> Some []"
  shows "blind (wrap_each (\<lambda>fs rt. InstrumentHttpClientRequestTrace P clock dflt obs rt fs) fs rt)"
proof (cases fs)
  case (Some gs)
  then obtain hs f where "gs = hs @ [f]" using assms by (cases gs rule: rev_cases) auto
  then show ?thesis by (simp add: wrap_each_def Some blind_Trace)
qed (simp add: wrap_each_def blind_Trace)

lemma blind_stack:
  assumes "coLabelFuncs c \<noteq> Some []" and "\<And>g rt. blind rt \<Longrightarrow> blind (inFlight g rt)"
  shows "blind (client_stack P clock dflt inFlight c base)"
proof -
  let ?t2 = "\<lambda>t1. wrap_each (\<lambda>fs rt. InstrumentHttpClientRequestTrace P clock dflt (trace_observers c) rt fs) (coLabelFuncs c) t1"
  let ?t3 = "\<lambda>t2. case coCounter c of None \<Rightarrow> t2 | Some cnt \<Rightarrow> wrap_each (\<lambda>fs rt. InstrumentHttpClientRequestCounter P dflt cnt rt fs) (coLabelFuncs c) t2"
  have t3: "blind (?t3 rt)" if "blind rt" for rt
    using that by (cases "coCounter c") (auto intro!: blind_wrap_each blind_Counter)
  have "blind (?t3 (?t2 t1))" for t1 by (rule t3) (rule blind_wrapped_Trace [OF assms(1)])
  then show ?thesis unfolding client_stack_def Let_def by (cases "coInFlight c") (auto intro: assms(2))
qed

text \<open>
  A client made with \<^verbatim>\<open>NewHttpClient\<close>, whatever its options, answers a request the same way for every context of the
  request: the trace wrapper, which is always there, replaces the context by an empty one. Cancelling a request or giving it
  a deadline has no effect, and a trace the caller put into the context is never called.
\<close>

theorem client_ignores_context:
  assumes "set setters \<subseteq> client_setters D" and "\<forall>g rt. blind rt \<longrightarrow> blind (inFlight g rt)"
    and "NewHttpClient P clock dflt inFlight base setters reg = (h, reg1)" and "cRequest r = cRequest r'"
  shows "hcTransport h r s = hcTransport h r' s"
proof -
  obtain reg2 c where c: "foldl (\<lambda>s f. f s) (reg, empty_ClientOptions) setters = (reg2, c)" by fastforce
  have "coLabelFuncs c \<noteq> Some []"
    using setters_label_funcs [OF assms(1), of "(reg, empty_ClientOptions)"] unfolding c by (simp add: empty_ClientOptions_def)
  then have "blind (client_stack P clock dflt inFlight c (base (client_transport c)))" using assms(2) by (intro blind_stack) auto
  moreover have "hcTransport h = client_stack P clock dflt inFlight c (base (client_transport c))"
    using assms(3) by (auto simp: NewHttpClient_def c)
  ultimately show ?thesis using blindD [OF _ assms(4)] by simp
qed

theorem client_ignores_context_witness:
  "\<exists>h reg1. NewHttpClient demo_prom (\<lambda>_ :: unit. 0) (defaultMetricsHttpClientRequestLabelFunc demo_prom '''') (\<lambda>_ rt. rt)
       (\<lambda>_ r s. (if cContext r = 7 then Inr (Inl ''context canceled'') else Inr (Inr 200), s)) [ClientTimeout 5] [] = (h, reg1) \<and>
     (\<forall>req. hcTransport h \<lparr>cRequest = req, cContext = 7, cTrace = None\<rparr> ((), []) =
            hcTransport h \<lparr>cRequest = req, cContext = 0, cTrace = None\<rparr> ((), []))"
proof -
  let ?base = "\<lambda>_ r s. (if cContext r = 7 then Inr (Inl ''context canceled'') else Inr (Inr 200), s)"
  obtain h reg1 where h: "NewHttpClient demo_prom (\<lambda>_ :: unit. 0) (defaultMetricsHttpClientRequestLabelFunc demo_prom '''') (\<lambda>_ rt. rt)
      ?base [ClientTimeout 5] [] = (h, reg1)" by fastforce
  have "set [ClientTimeout 5] \<subseteq> client_setters D" for D :: "string list client_defaults" by (simp add: client_setters_def)
  from client_ignores_context [OF this _ h] have "hcTransport h \<lparr>cRequest = req, cContext = 7, cTrace = None\<rparr> ((), []) =
      hcTransport h \<lparr>cRequest = req, cContext = 0, cTrace = None\<rparr> ((), [])" for req by simp
  with h show ?thesis by blast
qed

text \<open>Without label functions a request is counted once and its time reported once to every collector, but only when it has a response.\<close>

lemma fit_client:
  assumes "prom_vec P c vars curried" and "set vars - curried \<subseteq> supported"
  shows "defaultMetricsHttpClientRequestLabelFunc P addr c r (Some status) None = Inr (fit_labels addr r status (set vars - curried)) \<and>
         pWith P c (fit_labels addr r status (set vars - curried))"
  using fit_default [OF assms, of addr "\<lparr>seenStatus = status, seenWritten = 0, seenEvent = ''''\<rparr>" r]
  by (simp add: defaultMetricsHttpServerRequestLabelFunc_def defaultMetricsHttpClientRequestLabelFunc_def)

text \<open>
  A client without label functions reports a request that has a response exactly once to each of its duration
  collectors and once to its counter, with the labels of the request and the status; a request that fails is reported to none
  of them.
\<close>

theorem client_reports_once:
  assumes "\<forall>x \<in> set (cnt # obs). prom_vec P x (vars x) (curried x) \<and> set (vars x) - curried x \<subseteq> supported"
    and "coLabelFuncs c = None" and "coInFlight c = None" and "coCounter c = Some cnt" and "coDurations c = Some obs"
    and "base (r\<lparr>cContext := 0, cTrace := Some (client_hook P clock (defaultMetricsHttpClientRequestLabelFunc P addr) (trace_observers c) (clock u0) (cRequest r))\<rparr>) (u0, ms0) =
           (Inr res, u, ms)"
  shows "client_stack P clock (defaultMetricsHttpClientRequestLabelFunc P addr) inFlight c base r (u0, ms0) =
    (Inr res, u, case res of
       Inl e \<Rightarrow> ms
     | Inr status \<Rightarrow> ms @ map (\<lambda>x. Observe x (fit_labels addr (cRequest r) status (set (vars x) - curried x)) (Elapsed (clock u - clock u0))) obs @
         [Inc cnt (fit_labels addr (cRequest r) status (set (vars cnt) - curried cnt))])"
proof (cases res)
  case (Inl e)
  then show ?thesis
    using assms(2-) by (simp add: client_stack_def wrap_each_def InstrumentHttpClientRequest_def InstrumentHttpClientRequestTrace_def
        InstrumentHttpClientRequestCounter_def pick_labels_def)
next
  case (Inr status)
  have "observe_each P (\<lambda>x. defaultMetricsHttpClientRequestLabelFunc P addr x (cRequest r) (Some status) None) (Elapsed (clock u - clock u0)) obs (u, ms) =
      (None, u, ms @ map (\<lambda>x. Observe x (fit_labels addr (cRequest r) status (set (vars x) - curried x)) (Elapsed (clock u - clock u0))) obs)"
    using assms(1) fit_client [of P _ _ _ addr "cRequest r" status] by (intro observe_each_all) simp
  moreover note fit_client [of P cnt "vars cnt" "curried cnt" addr "cRequest r" status]
  ultimately show ?thesis
    using assms Inr by (simp add: client_stack_def wrap_each_def InstrumentHttpClientRequest_def InstrumentHttpClientRequestTrace_def
        InstrumentHttpClientRequestCounter_def pick_labels_def)
qed

theorem client_reports_once_witness:
  "\<forall>r. client_stack demo_prom (\<lambda>_ :: unit. 0) (defaultMetricsHttpClientRequestLabelFunc demo_prom ''a'') (\<lambda>_ rt. rt)
       (empty_ClientOptions\<lparr>coCounter := Some [''status''], coDurations := Some [[''method'']]\<rparr>) (\<lambda>_ s. (Inr (Inr 404), s)) r ((), []) =
     (Inr (Inr 404), (), [Observe [''method''] (fit_labels ''a'' (cRequest r) 404 {''method''}) (Elapsed 0), Inc [''status''] (fit_labels ''a'' (cRequest r) 404 {''status''})])"
proof
  fix r :: "(unit \<times> string list observation list) creq"
  let ?c = "empty_ClientOptions\<lparr>coCounter := Some [''status''], coDurations := Some [[''method'']]\<rparr>"
  have vec: "\<forall>x \<in> set [[''status''], [''method'']]. prom_vec demo_prom x x {} \<and> set x - {} \<subseteq> supported"
    by (simp add: demo_prom_vec supported_def)
  have opts: "coLabelFuncs ?c = None" "coInFlight ?c = None" "coCounter ?c = Some [''status'']" "coDurations ?c = Some [[''method'']]"
    by (simp_all add: empty_ClientOptions_def)
  show "client_stack demo_prom (\<lambda>_ :: unit. 0) (defaultMetricsHttpClientRequestLabelFunc demo_prom ''a'') (\<lambda>_ rt. rt) ?c (\<lambda>_ s. (Inr (Inr 404), s)) r ((), []) =
     (Inr (Inr 404), (), [Observe [''method''] (fit_labels ''a'' (cRequest r) 404 {''method''}) (Elapsed 0), Inc [''status''] (fit_labels ''a'' (cRequest r) 404 {''status''})])"
    using client_reports_once [where cnt = "[''status'']" and obs = "[[''method'']]" and P = demo_prom and vars = "\<lambda>x. x" and curried = "\<lambda>_. {}" and base = "\<lambda>_ s. (Inr (Inr 404), s)" and
        r = r and clock = "\<lambda>_. 0" and addr = "''a''" and inFlight = "\<lambda>_ rt. rt", OF vec opts]
    by (simp add: fun_eq_iff)
qed

end
