(* ===== verification/Mysql_Handler.thy ===== *)
theory Mysql_Handler
  imports Session_Manager Providers
begin

text \<open>
  \<^verbatim>\<open>src/database/mysql.go\<close>: named database handles over the gorm package. A handle is a pointer: the methods that build a
  query replace the gorm value of the handle they are called on, so everybody who holds the handle sees it. Handles are
  therefore numbers that lead into a store. The gorm package is an argument.
\<close>

subsection \<open>The gorm package\<close>

text \<open>The calls that give a new gorm value; \<open>'db\<close> is the type of these values.\<close>

datatype 'db gorm_call =
  CModel goval | CTable string | CDebug | CCreateTable "goval list" | CSet string goval | CAutoMigrate "goval list"
| CDropTable "goval list" | CDropTableIfExists "goval list" | CModifyColumn string string | CDropColumn string
| CAddIndex string "string list" | CAddUniqueIndex string "string list" | CRemoveIndex string
| CAddForeignKey string string string string
| CWhere goval "goval list" | COr goval "goval list" | CNot goval "goval list" | CLimit goval | COffset goval
| COrder goval "bool list" | CSelect goval "goval list" | COmit "string list" | CHaving string "goval list"
| CJoins string "goval list" | CFind goval "goval list" | CFirst goval "goval list" | CLast goval "goval list"
| CPluck string goval | CCount goval | CRelated goval "string list" | CScan goval
| CUpdate "goval list" | CUpdates goval | CUpdateColumn "goval list" | CUpdateColumns goval | CSave goval
| CCreate goval | CDelete goval "goval list" | CUnscoped | CScopes "('db \<Rightarrow> 'db) list"
| CRaw string "goval list" | CExec string "goval list" | CBegin | CCommit | CRollback | CNew

text \<open>
  Opening a connection, the calls, the questions that leave the value alone, and the two settings of the connection below.
  An error is its text.
\<close>

record 'db gorm =
  gOpen :: "string \<Rightarrow> string + 'db"
  gCall :: "'db gorm_call \<Rightarrow> 'db \<Rightarrow> 'db"
  gError :: "'db \<Rightarrow> string option"
  gNewRecord :: "goval \<Rightarrow> 'db \<Rightarrow> bool"
  gRecordNotFound :: "'db \<Rightarrow> bool"
  gHasTable :: "goval \<Rightarrow> 'db \<Rightarrow> bool"
  gSetMaxOpenConns :: "int \<Rightarrow> 'db \<Rightarrow> 'db"
  gSetMaxIdleConns :: "int \<Rightarrow> 'db \<Rightarrow> 'db"

subsection \<open>Handles\<close>

record 'db MysqlDatabaseHandler =
  myDb :: 'db
  myUser :: string
  myPassword :: string
  myHost :: string
  myPort :: string
  myDatabase :: string
  myTimezone :: string
  myTimeout :: string
  myWriteTimeout :: string
  myReadTimeout :: string
  myMaxOpenConns :: int
  myMaxIdleConns :: int

text \<open>The handles by name (\<open>None\<close> is the nil map before \<^verbatim>\<open>Initiate\<close>) and the handles that were made.\<close>

record 'db MysqlHandler =
  databases :: "(string \<rightharpoonup> nat) option"
  handles :: "'db MysqlDatabaseHandler list"

definition NewMysqlHandler :: "'db MysqlHandler" where
  "NewMysqlHandler = \<lparr>databases = None, handles = []\<rparr>"

definition Mysql_Initiate :: "'db MysqlHandler \<Rightarrow> 'db MysqlHandler" where
  "Mysql_Initiate h = h\<lparr>databases := Some Map.empty\<rparr>"

subsection \<open>Settings\<close>

definition mysql_error :: "string \<Rightarrow> string" where
  "mysql_error m = ''database(mysql): new handler error: '' @ m"

definition invalid_config :: "string \<Rightarrow> string" where
  "invalid_config key = mysql_error (''invalid config '' @ key)"

text \<open>The settings before a connection is open: the handle with nothing as its gorm value.\<close>

type_synonym my_conf = "unit MysqlDatabaseHandler"

definition my_defaults :: my_conf where
  "my_defaults = \<lparr>myDb = (), myUser = '''', myPassword = '''', myHost = '''', myPort = ''3306'', myDatabase = '''', myTimezone = ''Asia/Shanghai'',
     myTimeout = ''30s'', myWriteTimeout = ''120s'', myReadTimeout = ''60s'', myMaxOpenConns = 300, myMaxIdleConns = 100\<rparr>"

text \<open>An entry that is absent or nil is skipped; one of another type is an error.\<close>

definition my_string :: "configs \<Rightarrow> string \<Rightarrow> (string \<Rightarrow> my_conf \<Rightarrow> string + my_conf) \<Rightarrow> my_conf \<Rightarrow> string + my_conf" where
  "my_string config key f d =
     (case config key of
        None \<Rightarrow> Inr d
      | Some GNil \<Rightarrow> Inr d
      | Some (GString s) \<Rightarrow> f s d
      | Some _ \<Rightarrow> Inl (invalid_config key))"

definition my_int :: "configs \<Rightarrow> string \<Rightarrow> (int \<Rightarrow> my_conf \<Rightarrow> my_conf) \<Rightarrow> my_conf \<Rightarrow> string + my_conf" where
  "my_int config key f d =
     (case config key of
        None \<Rightarrow> Inr d
      | Some GNil \<Rightarrow> Inr d
      | Some (GInt i) \<Rightarrow> Inr (if i \<noteq> 0 then f i d else d)
      | Some _ \<Rightarrow> Inl (invalid_config key))"

definition my_host :: "configs \<Rightarrow> my_conf \<Rightarrow> string + my_conf" where
  "my_host config d =
     (let none = Inl (mysql_error ''empty DATABASE_MYSQL_HOST'') in
      case config ''DATABASE_MYSQL_HOST'' of
        None \<Rightarrow> none
      | Some GNil \<Rightarrow> none
      | Some (GString s) \<Rightarrow> (if s = '''' then none else Inr (d\<lparr>myHost := s\<rparr>))
      | Some _ \<Rightarrow> Inl (invalid_config ''DATABASE_MYSQL_HOST''))"

definition required :: "string \<Rightarrow> (string \<Rightarrow> my_conf \<Rightarrow> my_conf) \<Rightarrow> string \<Rightarrow> my_conf \<Rightarrow> string + my_conf" where
  "required err f s d = (if s = '''' then Inl err else Inr (f s d))"

definition when_set :: "(string \<Rightarrow> my_conf \<Rightarrow> my_conf) \<Rightarrow> string \<Rightarrow> my_conf \<Rightarrow> string + my_conf" where
  "when_set f s d = Inr (if s = '''' then d else f s d)"

definition configure_mysql :: "configs \<Rightarrow> string + my_conf" where
  "configure_mysql config =
     bind_sum (my_host config my_defaults) (\<lambda>d.
     bind_sum (my_string config ''DATABASE_MYSQL_PORT'' (\<lambda>s d. Inr (d\<lparr>myPort := s\<rparr>)) d) (\<lambda>d.
     bind_sum (my_string config ''DATABASE_MYSQL_USER''
       (required (mysql_error ''empty config DATABASE_MYSQL_USER'') (\<lambda>s d. d\<lparr>myUser := s\<rparr>)) d) (\<lambda>d.
     bind_sum (my_string config ''DATABASE_MYSQL_PASSWORD'' (\<lambda>s d. Inr (d\<lparr>myPassword := s\<rparr>)) d) (\<lambda>d.
     bind_sum (my_string config ''DATABASE_MYSQL_DATABASE''
       (required (mysql_error ''empty config DATABASE_MYSQL_DATABASE'') (\<lambda>s d. d\<lparr>myDatabase := s\<rparr>)) d) (\<lambda>d.
     bind_sum (my_string config ''DATABASE_MYSQL_TIMEZONE'' (when_set (\<lambda>s d. d\<lparr>myTimezone := s\<rparr>)) d) (\<lambda>d.
     bind_sum (my_string config ''DATABASE_MYSQL_TIMEOUT''
       (required (invalid_config ''DATABASE_MYSQL_TIMEOUT'') (\<lambda>s d. d\<lparr>myTimeout := s\<rparr>)) d) (\<lambda>d.
     bind_sum (my_string config ''DATABASE_MYSQL_WRITE_TIMEOUT'' (when_set (\<lambda>s d. d\<lparr>myWriteTimeout := s\<rparr>)) d) (\<lambda>d.
     bind_sum (my_string config ''DATABASE_MYSQL_READ_TIMEOUT'' (when_set (\<lambda>s d. d\<lparr>myReadTimeout := s\<rparr>)) d) (\<lambda>d.
     bind_sum (my_int config ''DATABASE_MYSQL_MAX_OPEN_CONNS'' (\<lambda>i d. d\<lparr>myMaxOpenConns := i\<rparr>) d) (\<lambda>d.
     my_int config ''DATABASE_MYSQL_MAX_IDLE_CONNS'' (\<lambda>i d. d\<lparr>myMaxIdleConns := i\<rparr>) d))))))))))"

text \<open>The data source name, with the three timeouts in the order of the code.\<close>

definition data_source :: "my_conf \<Rightarrow> string" where
  "data_source d =
     myUser d @ '':'' @ myPassword d @ ''@tcp('' @ myHost d @ '':'' @ myPort d @ '')/'' @ myDatabase d @ ''?timeout='' @ myWriteTimeout d @
     ''&writeTimeout='' @ myReadTimeout d @ ''&readTimeout='' @ myTimeout d @ ''&charset=utf8mb4,utf8&loc='' @ QueryEscape (myTimezone d) @ ''&parseTime=true''"

definition with_db :: "'db \<Rightarrow> my_conf \<Rightarrow> 'db MysqlDatabaseHandler" where
  "with_db db d = \<lparr>myDb = db, myUser = myUser d, myPassword = myPassword d, myHost = myHost d, myPort = myPort d, myDatabase = myDatabase d,
     myTimezone = myTimezone d, myTimeout = myTimeout d, myWriteTimeout = myWriteTimeout d, myReadTimeout = myReadTimeout d,
     myMaxOpenConns = myMaxOpenConns d, myMaxIdleConns = myMaxIdleConns d\<rparr>"

text \<open>The debugging handle that \<^verbatim>\<open>gormDb.Debug()\<close> returns is dropped.\<close>

definition Mysql_NewHandler :: "'db gorm \<Rightarrow> string \<Rightarrow> configs \<Rightarrow> 'db MysqlHandler \<Rightarrow> (string + nat) \<times> 'db MysqlHandler" where
  "Mysql_NewHandler G name config h =
     (case configure_mysql config of
        Inl e \<Rightarrow> (Inl e, h)
      | Inr d \<Rightarrow>
          (case gOpen G (data_source d) of
             Inl e \<Rightarrow> (Inl (mysql_error e), h)
           | Inr db \<Rightarrow>
               (let db1 = gSetMaxIdleConns G (myMaxIdleConns d) (gSetMaxOpenConns G (myMaxOpenConns d) db);
                    made = (let dbs = (case databases h of None \<Rightarrow> Map.empty | Some m \<Rightarrow> m); i = length (handles h)
                            in (Inr i, h\<lparr>databases := Some (dbs(name \<mapsto> i)), handles := handles h @ [with_db db1 d]\<rparr>))
                in case config ''DATABASE_MYSQL_DEBUG'' of
                     None \<Rightarrow> made
                   | Some GNil \<Rightarrow> made
                   | Some (GBool _) \<Rightarrow> made
                   | Some _ \<Rightarrow> (Inl (mysql_error ''invalid DATABASE_MYSQL_DEBUG''), h))))"

definition mysql_not_exists :: "string \<Rightarrow> string" where
  "mysql_not_exists name = ''database(mysql): '' @ quoted name @ '' handler not exists''"

definition Mysql_GetHandler :: "string \<Rightarrow> 'db MysqlHandler \<Rightarrow> string + nat" where
  "Mysql_GetHandler name h =
     (case databases h of
        None \<Rightarrow> Inl (mysql_not_exists name)
      | Some m \<Rightarrow> (case m name of None \<Rightarrow> Inl (mysql_not_exists name) | Some i \<Rightarrow> Inr i))"

definition Mysql_GetConfig :: "'db MysqlDatabaseHandler \<Rightarrow> configs" where
  "Mysql_GetConfig d = [''host'' \<mapsto> GString (myHost d), ''port'' \<mapsto> GString (myPort d), ''user'' \<mapsto> GString (myUser d),
     ''password'' \<mapsto> GString (myPassword d), ''database'' \<mapsto> GString (myDatabase d), ''timezone'' \<mapsto> GString (myTimezone d),
     ''timeout'' \<mapsto> GString (myTimeout d), ''read_timeout'' \<mapsto> GString (myReadTimeout d), ''write_timeout'' \<mapsto> GString (myWriteTimeout d),
     ''max_open_conns'' \<mapsto> GInt (myMaxOpenConns d), ''max_idle_conns'' \<mapsto> GInt (myMaxIdleConns d)]"

subsection \<open>The methods of a handle\<close>

text \<open>\<^verbatim>\<open>this.Db = this.Db.X(...); return this\<close>\<close>

definition chain :: "'db gorm \<Rightarrow> 'db gorm_call \<Rightarrow> nat \<Rightarrow> 'db MysqlHandler \<Rightarrow> nat \<times> 'db MysqlHandler" where
  "chain G c this h = (let d = handles h ! this in (this, h\<lparr>handles := (handles h)[this := d\<lparr>myDb := gCall G c (myDb d)\<rparr>]\<rparr>))"

text \<open>A new handle with the given gorm value and no settings.\<close>

definition bare_handle :: "'db \<Rightarrow> 'db MysqlDatabaseHandler" where
  "bare_handle db = \<lparr>myDb = db, myUser = '''', myPassword = '''', myHost = '''', myPort = '''', myDatabase = '''', myTimezone = '''', myTimeout = '''',
     myWriteTimeout = '''', myReadTimeout = '''', myMaxOpenConns = 0, myMaxIdleConns = 0\<rparr>"

definition Mysql_New :: "'db gorm \<Rightarrow> nat \<Rightarrow> 'db MysqlHandler \<Rightarrow> nat \<times> 'db MysqlHandler" where
  "Mysql_New G this h = (length (handles h), h\<lparr>handles := handles h @ [bare_handle (gCall G CNew (myDb (handles h ! this)))]\<rparr>)"

definition Mysql_Begin :: "'db gorm \<Rightarrow> nat \<Rightarrow> 'db MysqlHandler \<Rightarrow> nat \<times> 'db MysqlHandler" where
  "Mysql_Begin G this h = (length (handles h), h\<lparr>handles := handles h @ [bare_handle (gCall G CBegin (myDb (handles h ! this)))]\<rparr>)"

definition Mysql_Error :: "'db gorm \<Rightarrow> nat \<Rightarrow> 'db MysqlHandler \<Rightarrow> string option" where
  "Mysql_Error G this h = gError G (myDb (handles h ! this))"

definition Mysql_NewRecord :: "'db gorm \<Rightarrow> goval \<Rightarrow> nat \<Rightarrow> 'db MysqlHandler \<Rightarrow> bool" where
  "Mysql_NewRecord G v this h = gNewRecord G v (myDb (handles h ! this))"

definition Mysql_RecordNotFound :: "'db gorm \<Rightarrow> nat \<Rightarrow> 'db MysqlHandler \<Rightarrow> bool" where
  "Mysql_RecordNotFound G this h = gRecordNotFound G (myDb (handles h ! this))"

definition Mysql_HasTable :: "'db gorm \<Rightarrow> goval \<Rightarrow> nat \<Rightarrow> 'db MysqlHandler \<Rightarrow> bool" where
  "Mysql_HasTable G v this h = gHasTable G v (myDb (handles h ! this))"

definition Mysql_Model :: "'db gorm \<Rightarrow> goval \<Rightarrow> nat \<Rightarrow> 'db MysqlHandler \<Rightarrow> nat \<times> 'db MysqlHandler" where
  "Mysql_Model G v this = chain G (CModel v) this"

definition Mysql_Table :: "'db gorm \<Rightarrow> string \<Rightarrow> nat \<Rightarrow> 'db MysqlHandler \<Rightarrow> nat \<times> 'db MysqlHandler" where
  "Mysql_Table G name this = chain G (CTable name) this"

definition Mysql_Debug :: "'db gorm \<Rightarrow> nat \<Rightarrow> 'db MysqlHandler \<Rightarrow> nat \<times> 'db MysqlHandler" where
  "Mysql_Debug G this = chain G CDebug this"

definition Mysql_CreateTable :: "'db gorm \<Rightarrow> (goval list) \<Rightarrow> nat \<Rightarrow> 'db MysqlHandler \<Rightarrow> nat \<times> 'db MysqlHandler" where
  "Mysql_CreateTable G models this = chain G (CCreateTable models) this"

definition Mysql_Set :: "'db gorm \<Rightarrow> string \<Rightarrow> goval \<Rightarrow> nat \<Rightarrow> 'db MysqlHandler \<Rightarrow> nat \<times> 'db MysqlHandler" where
  "Mysql_Set G name v this = chain G (CSet name v) this"

definition Mysql_AutoMigrate :: "'db gorm \<Rightarrow> (goval list) \<Rightarrow> nat \<Rightarrow> 'db MysqlHandler \<Rightarrow> nat \<times> 'db MysqlHandler" where
  "Mysql_AutoMigrate G vs this = chain G (CAutoMigrate vs) this"

definition Mysql_DropTable :: "'db gorm \<Rightarrow> (goval list) \<Rightarrow> nat \<Rightarrow> 'db MysqlHandler \<Rightarrow> nat \<times> 'db MysqlHandler" where
  "Mysql_DropTable G vs this = chain G (CDropTable vs) this"

definition Mysql_DropTableIfExists :: "'db gorm \<Rightarrow> (goval list) \<Rightarrow> nat \<Rightarrow> 'db MysqlHandler \<Rightarrow> nat \<times> 'db MysqlHandler" where
  "Mysql_DropTableIfExists G vs this = chain G (CDropTableIfExists vs) this"

definition Mysql_ModifyColumn :: "'db gorm \<Rightarrow> string \<Rightarrow> string \<Rightarrow> nat \<Rightarrow> 'db MysqlHandler \<Rightarrow> nat \<times> 'db MysqlHandler" where
  "Mysql_ModifyColumn G col typ this = chain G (CModifyColumn col typ) this"

definition Mysql_DropColumn :: "'db gorm \<Rightarrow> string \<Rightarrow> nat \<Rightarrow> 'db MysqlHandler \<Rightarrow> nat \<times> 'db MysqlHandler" where
  "Mysql_DropColumn G col this = chain G (CDropColumn col) this"

definition Mysql_AddIndex :: "'db gorm \<Rightarrow> string \<Rightarrow> (string list) \<Rightarrow> nat \<Rightarrow> 'db MysqlHandler \<Rightarrow> nat \<times> 'db MysqlHandler" where
  "Mysql_AddIndex G indexName cols this = chain G (CAddIndex indexName cols) this"

definition Mysql_AddUniqueIndex :: "'db gorm \<Rightarrow> string \<Rightarrow> (string list) \<Rightarrow> nat \<Rightarrow> 'db MysqlHandler \<Rightarrow> nat \<times> 'db MysqlHandler" where
  "Mysql_AddUniqueIndex G indexName cols this = chain G (CAddUniqueIndex indexName cols) this"

definition Mysql_RemoveIndex :: "'db gorm \<Rightarrow> string \<Rightarrow> nat \<Rightarrow> 'db MysqlHandler \<Rightarrow> nat \<times> 'db MysqlHandler" where
  "Mysql_RemoveIndex G indexName this = chain G (CRemoveIndex indexName) this"

definition Mysql_AddForeignKey :: "'db gorm \<Rightarrow> string \<Rightarrow> string \<Rightarrow> string \<Rightarrow> string \<Rightarrow> nat \<Rightarrow> 'db MysqlHandler \<Rightarrow> nat \<times> 'db MysqlHandler" where
  "Mysql_AddForeignKey G fld dst onDelete onUpdate this = chain G (CAddForeignKey fld dst onDelete onUpdate) this"

definition Mysql_Where :: "'db gorm \<Rightarrow> goval \<Rightarrow> (goval list) \<Rightarrow> nat \<Rightarrow> 'db MysqlHandler \<Rightarrow> nat \<times> 'db MysqlHandler" where
  "Mysql_Where G query args1 this = chain G (CWhere query args1) this"

definition Mysql_Or :: "'db gorm \<Rightarrow> goval \<Rightarrow> (goval list) \<Rightarrow> nat \<Rightarrow> 'db MysqlHandler \<Rightarrow> nat \<times> 'db MysqlHandler" where
  "Mysql_Or G query args1 this = chain G (COr query args1) this"

definition Mysql_Not :: "'db gorm \<Rightarrow> goval \<Rightarrow> (goval list) \<Rightarrow> nat \<Rightarrow> 'db MysqlHandler \<Rightarrow> nat \<times> 'db MysqlHandler" where
  "Mysql_Not G query args1 this = chain G (CNot query args1) this"

definition Mysql_Limit :: "'db gorm \<Rightarrow> goval \<Rightarrow> nat \<Rightarrow> 'db MysqlHandler \<Rightarrow> nat \<times> 'db MysqlHandler" where
  "Mysql_Limit G lim this = chain G (CLimit lim) this"

definition Mysql_Offset :: "'db gorm \<Rightarrow> goval \<Rightarrow> nat \<Rightarrow> 'db MysqlHandler \<Rightarrow> nat \<times> 'db MysqlHandler" where
  "Mysql_Offset G off this = chain G (COffset off) this"

definition Mysql_Order :: "'db gorm \<Rightarrow> goval \<Rightarrow> (bool list) \<Rightarrow> nat \<Rightarrow> 'db MysqlHandler \<Rightarrow> nat \<times> 'db MysqlHandler" where
  "Mysql_Order G v reorder this = chain G (COrder v reorder) this"

definition Mysql_Select :: "'db gorm \<Rightarrow> goval \<Rightarrow> (goval list) \<Rightarrow> nat \<Rightarrow> 'db MysqlHandler \<Rightarrow> nat \<times> 'db MysqlHandler" where
  "Mysql_Select G query args1 this = chain G (CSelect query args1) this"

definition Mysql_Omit :: "'db gorm \<Rightarrow> (string list) \<Rightarrow> nat \<Rightarrow> 'db MysqlHandler \<Rightarrow> nat \<times> 'db MysqlHandler" where
  "Mysql_Omit G cols this = chain G (COmit cols) this"

definition Mysql_Having :: "'db gorm \<Rightarrow> string \<Rightarrow> (goval list) \<Rightarrow> nat \<Rightarrow> 'db MysqlHandler \<Rightarrow> nat \<times> 'db MysqlHandler" where
  "Mysql_Having G query vs this = chain G (CHaving query vs) this"

definition Mysql_Joins :: "'db gorm \<Rightarrow> string \<Rightarrow> (goval list) \<Rightarrow> nat \<Rightarrow> 'db MysqlHandler \<Rightarrow> nat \<times> 'db MysqlHandler" where
  "Mysql_Joins G query args1 this = chain G (CJoins query args1) this"

definition Mysql_Find :: "'db gorm \<Rightarrow> goval \<Rightarrow> (goval list) \<Rightarrow> nat \<Rightarrow> 'db MysqlHandler \<Rightarrow> nat \<times> 'db MysqlHandler" where
  "Mysql_Find G out1 conds this = chain G (CFind out1 conds) this"

definition Mysql_First :: "'db gorm \<Rightarrow> goval \<Rightarrow> (goval list) \<Rightarrow> nat \<Rightarrow> 'db MysqlHandler \<Rightarrow> nat \<times> 'db MysqlHandler" where
  "Mysql_First G out1 conds this = chain G (CFirst out1 conds) this"

definition Mysql_Last :: "'db gorm \<Rightarrow> goval \<Rightarrow> (goval list) \<Rightarrow> nat \<Rightarrow> 'db MysqlHandler \<Rightarrow> nat \<times> 'db MysqlHandler" where
  "Mysql_Last G out1 conds this = chain G (CLast out1 conds) this"

definition Mysql_Pluck :: "'db gorm \<Rightarrow> string \<Rightarrow> goval \<Rightarrow> nat \<Rightarrow> 'db MysqlHandler \<Rightarrow> nat \<times> 'db MysqlHandler" where
  "Mysql_Pluck G col v this = chain G (CPluck col v) this"

definition Mysql_Count :: "'db gorm \<Rightarrow> goval \<Rightarrow> nat \<Rightarrow> 'db MysqlHandler \<Rightarrow> nat \<times> 'db MysqlHandler" where
  "Mysql_Count G v this = chain G (CCount v) this"

definition Mysql_Related :: "'db gorm \<Rightarrow> goval \<Rightarrow> (string list) \<Rightarrow> nat \<Rightarrow> 'db MysqlHandler \<Rightarrow> nat \<times> 'db MysqlHandler" where
  "Mysql_Related G v foreignKeys this = chain G (CRelated v foreignKeys) this"

definition Mysql_Scan :: "'db gorm \<Rightarrow> goval \<Rightarrow> nat \<Rightarrow> 'db MysqlHandler \<Rightarrow> nat \<times> 'db MysqlHandler" where
  "Mysql_Scan G dst this = chain G (CScan dst) this"

definition Mysql_Update :: "'db gorm \<Rightarrow> (goval list) \<Rightarrow> nat \<Rightarrow> 'db MysqlHandler \<Rightarrow> nat \<times> 'db MysqlHandler" where
  "Mysql_Update G attrs this = chain G (CUpdate attrs) this"

definition Mysql_Updates :: "'db gorm \<Rightarrow> goval \<Rightarrow> (bool list) \<Rightarrow> nat \<Rightarrow> 'db MysqlHandler \<Rightarrow> nat \<times> 'db MysqlHandler" where
  "Mysql_Updates G vs ignoreProtectedAttrs this = chain G (CUpdates vs) this"

definition Mysql_UpdateColumn :: "'db gorm \<Rightarrow> (goval list) \<Rightarrow> nat \<Rightarrow> 'db MysqlHandler \<Rightarrow> nat \<times> 'db MysqlHandler" where
  "Mysql_UpdateColumn G attrs this = chain G (CUpdateColumn attrs) this"

definition Mysql_UpdateColumns :: "'db gorm \<Rightarrow> goval \<Rightarrow> nat \<Rightarrow> 'db MysqlHandler \<Rightarrow> nat \<times> 'db MysqlHandler" where
  "Mysql_UpdateColumns G vs this = chain G (CUpdateColumns vs) this"

definition Mysql_Save :: "'db gorm \<Rightarrow> goval \<Rightarrow> nat \<Rightarrow> 'db MysqlHandler \<Rightarrow> nat \<times> 'db MysqlHandler" where
  "Mysql_Save G v this = chain G (CSave v) this"

definition Mysql_Create :: "'db gorm \<Rightarrow> goval \<Rightarrow> nat \<Rightarrow> 'db MysqlHandler \<Rightarrow> nat \<times> 'db MysqlHandler" where
  "Mysql_Create G v this = chain G (CCreate v) this"

definition Mysql_Delete :: "'db gorm \<Rightarrow> goval \<Rightarrow> (goval list) \<Rightarrow> nat \<Rightarrow> 'db MysqlHandler \<Rightarrow> nat \<times> 'db MysqlHandler" where
  "Mysql_Delete G v conds this = chain G (CDelete v conds) this"

definition Mysql_Unscoped :: "'db gorm \<Rightarrow> nat \<Rightarrow> 'db MysqlHandler \<Rightarrow> nat \<times> 'db MysqlHandler" where
  "Mysql_Unscoped G this = chain G CUnscoped this"

definition Mysql_Scopes :: "'db gorm \<Rightarrow> (('db \<Rightarrow> 'db) list) \<Rightarrow> nat \<Rightarrow> 'db MysqlHandler \<Rightarrow> nat \<times> 'db MysqlHandler" where
  "Mysql_Scopes G funcs this = chain G (CScopes funcs) this"

definition Mysql_Raw :: "'db gorm \<Rightarrow> string \<Rightarrow> (goval list) \<Rightarrow> nat \<Rightarrow> 'db MysqlHandler \<Rightarrow> nat \<times> 'db MysqlHandler" where
  "Mysql_Raw G sql vs this = chain G (CRaw sql vs) this"

definition Mysql_Exec :: "'db gorm \<Rightarrow> string \<Rightarrow> (goval list) \<Rightarrow> nat \<Rightarrow> 'db MysqlHandler \<Rightarrow> nat \<times> 'db MysqlHandler" where
  "Mysql_Exec G sql vs this = chain G (CExec sql vs) this"

definition Mysql_Commit :: "'db gorm \<Rightarrow> nat \<Rightarrow> 'db MysqlHandler \<Rightarrow> nat \<times> 'db MysqlHandler" where
  "Mysql_Commit G this = chain G CCommit this"

definition Mysql_Rollback :: "'db gorm \<Rightarrow> nat \<Rightarrow> 'db MysqlHandler \<Rightarrow> nat \<times> 'db MysqlHandler" where
  "Mysql_Rollback G this = chain G CRollback this"

subsection \<open>What holds\<close>

text \<open>A use of the handler: a call of a building method on a handle, a new handle, a transaction.\<close>

datatype 'db hop = HCall nat "'db gorm_call" | HNew nat | HBegin nat

fun hexec :: "'db gorm \<Rightarrow> 'db hop \<Rightarrow> 'db MysqlHandler \<Rightarrow> 'db MysqlHandler" where
  "hexec G (HCall i c) h = snd (chain G c i h)"
| "hexec G (HNew i) h = snd (Mysql_New G i h)"
| "hexec G (HBegin i) h = snd (Mysql_Begin G i h)"

text \<open>The calls made on one handle, in order.\<close>

definition calls_on :: "nat \<Rightarrow> 'db hop list \<Rightarrow> 'db gorm_call list" where
  "calls_on i ops = concat (map (\<lambda>x. case x of HCall j c \<Rightarrow> if j = i then [c] else [] | _ \<Rightarrow> []) ops)"

lemma hexec_handle:
  assumes "i < length (handles h)"
  shows "databases (hexec G x h) = databases h \<and> i < length (handles (hexec G x h)) \<and>
         myDb (handles (hexec G x h) ! i) = fold (gCall G) (calls_on i [x]) (myDb (handles h ! i))"
  using assms by (cases x) (auto simp: chain_def Mysql_New_def Mysql_Begin_def calls_on_def Let_def nth_append nth_list_update)

text \<open>
  A named database handle is shared and never reset: everybody who asks for the name gets the same handle, and its gorm
  value is the result of all the building calls anyone made on it since it was opened, so a query carries the conditions of
  every earlier query. Calls on handles made by \<^verbatim>\<open>New\<close> or \<^verbatim>\<open>Begin\<close> leave it alone.
\<close>

theorem mysql_queries_accumulate:
  assumes "Mysql_GetHandler name h = Inr i" and "i < length (handles h)"
  shows "Mysql_GetHandler name (fold (hexec G) ops h) = Inr i \<and>
         myDb (handles (fold (hexec G) ops h) ! i) = fold (gCall G) (calls_on i ops) (myDb (handles h ! i))"
  using assms
proof (induction ops arbitrary: h)
  case (Cons x xs)
  note step = hexec_handle [OF Cons.prems(2), of G x]
  then have "Mysql_GetHandler name (hexec G x h) = Inr i" using Cons.prems(1) by (simp add: Mysql_GetHandler_def)
  moreover have "calls_on i (x # xs) = calls_on i [x] @ calls_on i xs" by (simp add: calls_on_def)
  ultimately show ?case using Cons.IH [of "hexec G x h"] step by simp
qed (simp add: calls_on_def)

text \<open>A package whose values are the conditions collected so far, to evaluate the model on.\<close>

definition demo_gorm :: "string list gorm" where
  "demo_gorm = \<lparr>gOpen = \<lambda>_. Inr [], gCall = \<lambda>c db. (case c of CHaving s _ \<Rightarrow> db @ [s] | CNew \<Rightarrow> [] | _ \<Rightarrow> db), gError = \<lambda>_. None,
     gNewRecord = \<lambda>_ _. False, gRecordNotFound = \<lambda>_. False, gHasTable = \<lambda>_ _. True, gSetMaxOpenConns = \<lambda>_ db. db, gSetMaxIdleConns = \<lambda>_ db. db\<rparr>"

theorem mysql_queries_accumulate_witness:
  "\<exists>h. Mysql_NewHandler demo_gorm ''main'' [''DATABASE_MYSQL_HOST'' \<mapsto> GString ''db''] (Mysql_Initiate NewMysqlHandler) = (Inr 0, h) \<and>
     Mysql_GetHandler ''main'' (fold (hexec demo_gorm) [HCall 0 (CHaving ''a'' []), HNew 0, HCall 1 (CHaving ''b'' []), HCall 0 (CHaving ''c'' [])] h) = Inr 0 \<and>
     myDb (handles (fold (hexec demo_gorm) [HCall 0 (CHaving ''a'' []), HNew 0, HCall 1 (CHaving ''b'' []), HCall 0 (CHaving ''c'' [])] h) ! 0) = [''a'', ''c'']"
proof -
  obtain h where h: "Mysql_NewHandler demo_gorm ''main'' [''DATABASE_MYSQL_HOST'' \<mapsto> GString ''db''] (Mysql_Initiate NewMysqlHandler) = (Inr 0, h)"
      "databases h = Some [''main'' \<mapsto> 0]" "length (handles h) = 1" "myDb (handles h ! 0) = []"
    by (simp add: Mysql_NewHandler_def configure_mysql_def my_host_def my_string_def my_int_def bind_sum_def demo_gorm_def with_db_def
        Mysql_Initiate_def NewMysqlHandler_def Let_def)
  have "Mysql_GetHandler ''main'' h = Inr 0" using h(2) by (simp add: Mysql_GetHandler_def)
  from mysql_queries_accumulate [OF this, of demo_gorm "[HCall 0 (CHaving ''a'' []), HNew 0, HCall 1 (CHaving ''b'' []), HCall 0 (CHaving ''c'' [])]"] h
  show ?thesis by (intro exI [of _ h]) (simp add: calls_on_def demo_gorm_def)
qed

end
