(* ===== verification/Hbase_Handler.thy ===== *)
theory Hbase_Handler
  imports Providers
begin

text \<open>
  \<^verbatim>\<open>src/database/habase.go\<close>: named hbase databases, each with a channel of clients. A client is a number, given in the
  order of creation. The hbase package is an argument: whether a client can be made, the requests and their answers. The
  operations are first modelled for one goroutine; \<open>hb_step\<close> has the parts that goroutines interleave.
\<close>

subsection \<open>Databases and their clients\<close>

text \<open>\<open>hbMade\<close> counts the clients made, \<open>hbShut\<close> are those that were closed. The channel holds at most \<open>hbMaxActive\<close> clients.\<close>

record HbaseDatabase =
  hbClient :: "nat list"
  hbMaxActive :: int
  hbTimeout :: int
  hbHost :: string
  hbMade :: nat
  hbShut :: "nat list"

record HbaseHandler =
  hbDatabases :: "(string \<rightharpoonup> HbaseDatabase) option"

definition NewHbaseHandler :: HbaseHandler where
  "NewHbaseHandler = \<lparr>hbDatabases = None\<rparr>"

definition Hbase_Initiate :: "HbaseHandler \<Rightarrow> HbaseHandler" where
  "Hbase_Initiate h = h\<lparr>hbDatabases := Some Map.empty\<rparr>"

definition hbase_error :: "string \<Rightarrow> string" where
  "hbase_error m = ''database(hbase): new database error: '' @ m"

definition hb_defaults :: HbaseDatabase where
  "hb_defaults = \<lparr>hbClient = [], hbMaxActive = 30, hbTimeout = 120, hbHost = '''', hbMade = 0, hbShut = []\<rparr>"

definition hb_host :: "configs \<Rightarrow> HbaseDatabase \<Rightarrow> string + HbaseDatabase" where
  "hb_host config d =
     (let none = Inl (hbase_error ''empty DATABASE_HBASE_HOST'') in
      case config ''DATABASE_HBASE_HOST'' of
        None \<Rightarrow> none
      | Some GNil \<Rightarrow> none
      | Some (GString s) \<Rightarrow> (if s = '''' then none else Inr (d\<lparr>hbHost := s\<rparr>))
      | Some _ \<Rightarrow> Inl (hbase_error ''invalid config DATABASE_HBASE_HOST''))"

definition hb_timeout :: "(string \<Rightarrow> string + int) \<Rightarrow> configs \<Rightarrow> HbaseDatabase \<Rightarrow> string + HbaseDatabase" where
  "hb_timeout parseDuration config d =
     (let bad = Inl (hbase_error ''invalid config DATABASE_HBASE_TIMEOUT'') in
      case config ''DATABASE_HBASE_TIMEOUT'' of
        None \<Rightarrow> Inr d
      | Some GNil \<Rightarrow> Inr d
      | Some (GString s) \<Rightarrow>
          (if s = '''' then bad
           else case parseDuration s of
                  Inl e \<Rightarrow> Inl (hbase_error (''invalid config DATABASE_HBASE_TIMEOUT :'' @ e))
                | Inr t \<Rightarrow> Inr (d\<lparr>hbTimeout := t\<rparr>))
      | Some _ \<Rightarrow> bad)"

definition hb_max_active :: "configs \<Rightarrow> HbaseDatabase \<Rightarrow> string + HbaseDatabase" where
  "hb_max_active config d =
     (case config ''DATABASE_HBASE_MAX_ACTIVE'' of
        None \<Rightarrow> Inr d
      | Some GNil \<Rightarrow> Inr d
      | Some (GInt i) \<Rightarrow> Inr (if i \<noteq> 0 then d\<lparr>hbMaxActive := i\<rparr> else d)
      | Some _ \<Rightarrow> Inl (hbase_error ''invalid config DATABASE_HBASE_MAX_ACTIVE''))"

text \<open>\<open>fails\<close> says for which clients \<^verbatim>\<open>gohbase.NewClient\<close> gives nil.\<close>

fun fill_clients :: "(nat \<Rightarrow> bool) \<Rightarrow> nat \<Rightarrow> HbaseDatabase \<Rightarrow> string + HbaseDatabase" where
  "fill_clients fails 0 d = Inr d"
| "fill_clients fails (Suc n) d =
     (if fails (hbMade d) then Inl (hbase_error ''new client error'')
      else fill_clients fails n (d\<lparr>hbClient := hbClient d @ [hbMade d], hbMade := Suc (hbMade d)\<rparr>))"

text \<open>A channel of negative size panics.\<close>

definition Hbase_NewHandler ::
    "(string \<Rightarrow> string + int) \<Rightarrow> (nat \<Rightarrow> bool) \<Rightarrow> string \<Rightarrow> configs \<Rightarrow> HbaseHandler \<Rightarrow> ((string + HbaseDatabase) \<times> HbaseHandler) outcome" where
  "Hbase_NewHandler parseDuration fails name config h =
     (case bind_sum (bind_sum (hb_host config hb_defaults) (hb_timeout parseDuration config)) (hb_max_active config) of
        Inl e \<Rightarrow> Inr (Inl e, h)
      | Inr d \<Rightarrow>
          if hbMaxActive d < 0 then Inl (ExplicitPanic ''makechan: size out of range'')
          else (case fill_clients fails (nat (hbMaxActive d)) d of
                  Inl e \<Rightarrow> Inr (Inl e, h)
                | Inr d1 \<Rightarrow>
                    (let m = (case hbDatabases h of None \<Rightarrow> Map.empty | Some m \<Rightarrow> m)
                     in Inr (Inr d1, h\<lparr>hbDatabases := Some (m(name \<mapsto> d1))\<rparr>))))"

text \<open>The text has no verb for the name, which \<^verbatim>\<open>Sprintf\<close> appends.\<close>

definition hbase_not_exists :: "string \<Rightarrow> string" where
  "hbase_not_exists name = ''database(hbase): database not exists%!(EXTRA string='' @ name @ '')''"

definition Hbase_GetHandler :: "string \<Rightarrow> HbaseHandler \<Rightarrow> string + HbaseDatabase" where
  "Hbase_GetHandler name h =
     (case hbDatabases h of
        None \<Rightarrow> Inl (hbase_not_exists name)
      | Some m \<Rightarrow> (case m name of None \<Rightarrow> Inl (hbase_not_exists name) | Some d \<Rightarrow> Inr d))"

subsection \<open>Taking and giving back a client\<close>

definition GetClient :: "(nat \<Rightarrow> bool) \<Rightarrow> HbaseDatabase \<Rightarrow> (string + nat) \<times> HbaseDatabase" where
  "GetClient fails d =
     (case hbClient d of
        c # cs \<Rightarrow> (Inr c, d\<lparr>hbClient := cs\<rparr>)
      | [] \<Rightarrow>
          if fails (hbMade d) then (Inl ''database(hbase): get handler error: new client error'', d)
          else (Inr (hbMade d), d\<lparr>hbMade := Suc (hbMade d)\<rparr>))"

definition ReleaseClient :: "nat \<Rightarrow> HbaseDatabase \<Rightarrow> HbaseDatabase" where
  "ReleaseClient c d =
     (if int (length (hbClient d)) = hbMaxActive d then d\<lparr>hbShut := hbShut d @ [c]\<rparr> else d\<lparr>hbClient := hbClient d @ [c]\<rparr>)"

definition GetHandlerPoolSize :: "HbaseDatabase \<Rightarrow> nat" where
  "GetHandlerPoolSize d = length (hbClient d)"

text \<open>\<^verbatim>\<open>Close\<close>: the loop takes a client, closes it and gives it back.\<close>

partial_function (option) close_loop :: "(nat \<Rightarrow> bool) \<Rightarrow> (string + nat) \<times> HbaseDatabase \<Rightarrow> HbaseDatabase option" where
  "close_loop fails r =
     (case r of
        (Inl _, d) \<Rightarrow> Some d
      | (Inr c, d) \<Rightarrow> close_loop fails (GetClient fails (ReleaseClient c (d\<lparr>hbShut := hbShut d @ [c]\<rparr>))))"

definition Hbase_Close :: "(nat \<Rightarrow> bool) \<Rightarrow> HbaseDatabase \<Rightarrow> HbaseDatabase option" where
  "Hbase_Close fails d = close_loop fails (GetClient fails d)"

subsection \<open>Requests\<close>

text \<open>A cell of a result, and a result with its pointer \<^verbatim>\<open>Exists\<close>.\<close>

record hcell =
  hcRow :: string
  hcFamily :: string
  hcQualifier :: string
  hcValue :: string

record hresult =
  hrExists :: "bool option"
  hrCells :: "hcell list"

type_synonym hvalues = "(string \<times> (string \<times> string) list) list"

text \<open>The package: a request or the error of making it, and the calls of a client on the server, whose state is \<open>'s\<close>.\<close>

record ('s, 'q) hbase_ops =
  hNewScan :: "string \<Rightarrow> string + 'q"
  hNewGet :: "string \<Rightarrow> string \<Rightarrow> string + 'q"
  hNewPut :: "string \<Rightarrow> string \<Rightarrow> hvalues \<Rightarrow> string + 'q"
  hNewDel :: "string \<Rightarrow> string \<Rightarrow> hvalues \<Rightarrow> string + 'q"
  hNewApp :: "string \<Rightarrow> string \<Rightarrow> hvalues \<Rightarrow> string + 'q"
  hNewInc :: "string \<Rightarrow> string \<Rightarrow> hvalues \<Rightarrow> string + 'q"
  hScan :: "nat \<Rightarrow> 'q \<Rightarrow> 's \<Rightarrow> nat \<times> 's"
  hGet :: "nat \<Rightarrow> 'q \<Rightarrow> 's \<Rightarrow> (string + hresult) \<times> 's"
  hPut :: "nat \<Rightarrow> 'q \<Rightarrow> 's \<Rightarrow> string option \<times> 's"
  hDelete :: "nat \<Rightarrow> 'q \<Rightarrow> 's \<Rightarrow> string option \<times> 's"
  hAppend :: "nat \<Rightarrow> 'q \<Rightarrow> 's \<Rightarrow> string option \<times> 's"
  hIncrement :: "nat \<Rightarrow> 'q \<Rightarrow> 's \<Rightarrow> (string + int) \<times> 's"
  hCheckAndPut :: "nat \<Rightarrow> 'q \<Rightarrow> string \<Rightarrow> string \<Rightarrow> string \<Rightarrow> 's \<Rightarrow> (string + bool) \<times> 's"

text \<open>
  The frame of every request: a client is taken, and given back when the request is done, also when it panics. The answer
  is a panic, an error or a value.
\<close>

definition with_client ::
    "(nat \<Rightarrow> bool) \<Rightarrow> (nat \<Rightarrow> 's \<Rightarrow> (string + 'a) outcome \<times> 's) \<Rightarrow> HbaseDatabase \<times> 's \<Rightarrow> (string + 'a) outcome \<times> HbaseDatabase \<times> 's" where
  "with_client fails body = (\<lambda>(d, s).
     case GetClient fails d of
       (Inl e, d1) \<Rightarrow> (Inr (Inl (''database(hbase): scan error: '' @ e)), d1, s)
     | (Inr c, d1) \<Rightarrow> (case body c s of (r, s1) \<Rightarrow> (r, ReleaseClient c d1, s1)))"

definition failing :: "string \<Rightarrow> string \<Rightarrow> (string + 'a) outcome" where
  "failing what e = Inr (Inl (''database(hbase): '' @ what @ '': '' @ e))"

definition Hbase_Scan :: "(nat \<Rightarrow> bool) \<Rightarrow> ('s, 'q) hbase_ops \<Rightarrow> string \<Rightarrow> HbaseDatabase \<times> 's \<Rightarrow> (string + nat) outcome \<times> HbaseDatabase \<times> 's" where
  "Hbase_Scan fails R table = with_client fails (\<lambda>c s.
     case hNewScan R table of
       Inl e \<Rightarrow> (failing ''scan error'' e, s)
     | Inr q \<Rightarrow> (case hScan R c q s of (sc, s1) \<Rightarrow> (Inr (Inr sc), s1)))"

definition cell_map :: "hcell \<Rightarrow> string \<rightharpoonup> string" where
  "cell_map c = [''row'' \<mapsto> hcRow c, ''family'' \<mapsto> hcFamily c, ''qualifier'' \<mapsto> hcQualifier c, ''value'' \<mapsto> hcValue c]"

text \<open>
  \<^verbatim>\<open>if err != nil || *result.Exists { return nil, errors.New(... + err.Error()) }\<close>: without an error the pointer is
  dereferenced, and when it leads to true the method of the nil error is called.
\<close>

definition Hbase_Get :: "(nat \<Rightarrow> bool) \<Rightarrow> ('s, 'q) hbase_ops \<Rightarrow> string \<Rightarrow> string \<Rightarrow> HbaseDatabase \<times> 's \<Rightarrow> (string + (string \<rightharpoonup> string) list) outcome \<times> HbaseDatabase \<times> 's" where
  "Hbase_Get fails R table key = with_client fails (\<lambda>c s.
     case hNewGet R table key of
       Inl e \<Rightarrow> (failing ''get error'' e, s)
     | Inr q \<Rightarrow>
         (case hGet R c q s of
            (Inl e, s1) \<Rightarrow> (failing ''record not found'' e, s1)
          | (Inr res, s1) \<Rightarrow>
              (case hrExists res of
                 None \<Rightarrow> (Inl NilDereference, s1)
               | Some True \<Rightarrow> (Inl NilDereference, s1)
               | Some False \<Rightarrow> (Inr (Inr (map cell_map (hrCells res))), s1))))"

text \<open>A request of which only the error counts.\<close>

definition send_values ::
    "string \<Rightarrow> string + 'q \<Rightarrow> (nat \<Rightarrow> 'q \<Rightarrow> 's \<Rightarrow> string option \<times> 's) \<Rightarrow> nat \<Rightarrow> 's \<Rightarrow> (string + unit) outcome \<times> 's" where
  "send_values what req call c s =
     (case req of
        Inl e \<Rightarrow> (failing what e, s)
      | Inr q \<Rightarrow> (case call c q s of (Some e, s1) \<Rightarrow> (failing what e, s1) | (None, s1) \<Rightarrow> (Inr (Inr ()), s1)))"

definition Hbase_Put :: "(nat \<Rightarrow> bool) \<Rightarrow> ('s, 'q) hbase_ops \<Rightarrow> string \<Rightarrow> string \<Rightarrow> hvalues \<Rightarrow> HbaseDatabase \<times> 's \<Rightarrow> (string + unit) outcome \<times> HbaseDatabase \<times> 's" where
  "Hbase_Put fails R table key vs = with_client fails (send_values ''put error'' (hNewPut R table key vs) (hPut R))"

definition Hbase_Delete :: "(nat \<Rightarrow> bool) \<Rightarrow> ('s, 'q) hbase_ops \<Rightarrow> string \<Rightarrow> string \<Rightarrow> hvalues \<Rightarrow> HbaseDatabase \<times> 's \<Rightarrow> (string + unit) outcome \<times> HbaseDatabase \<times> 's" where
  "Hbase_Delete fails R table key vs = with_client fails (send_values ''delete error'' (hNewDel R table key vs) (hDelete R))"

definition Hbase_Append :: "(nat \<Rightarrow> bool) \<Rightarrow> ('s, 'q) hbase_ops \<Rightarrow> string \<Rightarrow> string \<Rightarrow> hvalues \<Rightarrow> HbaseDatabase \<times> 's \<Rightarrow> (string + unit) outcome \<times> HbaseDatabase \<times> 's" where
  "Hbase_Append fails R table key vs = with_client fails (send_values ''append error'' (hNewApp R table key vs) (hAppend R))"

definition Hbase_Increment :: "(nat \<Rightarrow> bool) \<Rightarrow> ('s, 'q) hbase_ops \<Rightarrow> string \<Rightarrow> string \<Rightarrow> hvalues \<Rightarrow> HbaseDatabase \<times> 's \<Rightarrow> (string + int) outcome \<times> HbaseDatabase \<times> 's" where
  "Hbase_Increment fails R table key vs = with_client fails (\<lambda>c s.
     case hNewInc R table key vs of
       Inl e \<Rightarrow> (failing ''increment error'' e, s)
     | Inr q \<Rightarrow> (case hIncrement R c q s of (Inl e, s1) \<Rightarrow> (failing ''increment error'' e, s1) | (Inr i, s1) \<Rightarrow> (Inr (Inr i), s1)))"

definition Hbase_CheckAndPut ::
    "(nat \<Rightarrow> bool) \<Rightarrow> ('s, 'q) hbase_ops \<Rightarrow> string \<Rightarrow> string \<Rightarrow> hvalues \<Rightarrow> string \<Rightarrow> string \<Rightarrow> string \<Rightarrow> HbaseDatabase \<times> 's \<Rightarrow> (string + bool) outcome \<times> HbaseDatabase \<times> 's" where
  "Hbase_CheckAndPut fails R table key vs family qualifier expected = with_client fails (\<lambda>c s.
     case hNewPut R table key vs of
       Inl e \<Rightarrow> (failing ''check and put error'' e, s)
     | Inr q \<Rightarrow>
         (case hCheckAndPut R c q family qualifier expected s of
            (Inl e, s1) \<Rightarrow> (failing ''check and put error'' e, s1)
          | (Inr b, s1) \<Rightarrow> (Inr (Inr b), s1)))"

subsection \<open>One goroutine\<close>

text \<open>The invariant of the clients: different, not closed, and no more than the channel holds.\<close>

definition hb_ok :: "HbaseDatabase \<Rightarrow> bool" where
  "hb_ok d = (0 < hbMaxActive d \<and> int (length (hbClient d)) \<le> hbMaxActive d \<and> distinct (hbClient d @ hbShut d) \<and>
     (\<forall>c \<in> set (hbClient d @ hbShut d). c < hbMade d))"

lemma fill_clients_ok:
  "fill_clients fails n d = Inr d1 \<Longrightarrow> distinct (hbClient d @ hbShut d) \<Longrightarrow> \<forall>c \<in> set (hbClient d @ hbShut d). c < hbMade d \<Longrightarrow>
     hbMaxActive d1 = hbMaxActive d \<and> length (hbClient d1) = length (hbClient d) + n \<and> distinct (hbClient d1 @ hbShut d1) \<and>
     (\<forall>c \<in> set (hbClient d1 @ hbShut d1). c < hbMade d1)"
proof (induction n arbitrary: d)
  case (Suc n)
  let ?d = "d\<lparr>hbClient := hbClient d @ [hbMade d], hbMade := Suc (hbMade d)\<rparr>"
  have "distinct (hbClient ?d @ hbShut ?d)" "\<forall>c \<in> set (hbClient ?d @ hbShut ?d). c < hbMade ?d" using Suc.prems(2,3) by (auto intro: less_SucI)
  then show ?case using Suc.IH [of ?d] Suc.prems(1) by (simp split: if_splits)
qed simp

lemma configured_max:
  assumes "bind_sum (bind_sum (hb_host config hb_defaults) (hb_timeout pd config)) (hb_max_active config) = Inr d"
  shows "hbMaxActive d \<noteq> 0 \<and> hbClient d = [] \<and> hbShut d = []"
  using assms unfolding bind_sum_def hb_host_def hb_timeout_def hb_max_active_def hb_defaults_def Let_def
  by (auto split: sum.splits option.splits goval.splits if_splits)

lemma NewHandler_ok: "Hbase_NewHandler pd fails name config h = Inr (Inr d, h1) \<Longrightarrow> hb_ok d"
  unfolding Hbase_NewHandler_def Let_def
  by (auto simp: hb_ok_def split: sum.splits if_splits dest!: configured_max fill_clients_ok)

lemma GetClient_ok:
  assumes "hb_ok d" and "GetClient fails d = (Inr c, d1)"
  shows "hbMaxActive d1 = hbMaxActive d \<and> int (length (hbClient d1)) < hbMaxActive d \<and> distinct (c # hbClient d1 @ hbShut d1) \<and>
         (\<forall>x \<in> set (c # hbClient d1 @ hbShut d1). x < hbMade d1) \<and> hbShut d1 = hbShut d"
  using assms by (auto simp: hb_ok_def GetClient_def less_Suc_eq split: list.splits if_splits)

text \<open>
  A request leaves the clients in order: the one it uses is open, and it comes back.
\<close>

lemma with_client_ok:
  assumes "hb_ok d" and "with_client fails body (d, s) = (r, d2, s2)"
  shows "hb_ok d2 \<and> length (hbClient d2) \<ge> length (hbClient d) \<and> hbShut d2 = hbShut d"
proof (cases "GetClient fails d")
  case (Pair x d1)
  show ?thesis
  proof (cases x)
    case (Inl e)
    then show ?thesis using assms Pair by (auto simp: with_client_def GetClient_def split: list.splits if_splits)
  next
    case (Inr c)
    with assms Pair have d2: "d2 = ReleaseClient c d1" by (auto simp: with_client_def split: prod.splits)
    have got: "GetClient fails d = (Inr c, d1)" using Pair Inr by simp
    from GetClient_ok [OF assms(1) got] have "hb_ok d2" "hbShut d2 = hbShut d" by (auto simp: d2 ReleaseClient_def hb_ok_def)
    moreover have "length (hbClient d2) \<ge> length (hbClient d)"
      using got GetClient_ok [OF assms(1) got] by (auto simp: d2 ReleaseClient_def GetClient_def split: list.splits if_splits)
    ultimately show ?thesis by blast
  qed
qed

text \<open>
  \<^verbatim>\<open>Get\<close> never delivers a record that exists: when the server finds it, the call panics (the condition is the wrong
  way round and the message asks a nil error for its text), and so it does when the server does not say. The clients are
  in order again after the panic.
\<close>

theorem hbase_Get_found_panics:
  assumes "hb_ok d" and "\<forall>n. \<not> fails n" and "hNewGet R table key = Inr q"
    and "\<forall>c. hGet R c q s = (Inr res, s1)" and "hrExists res \<noteq> Some False"
  shows "\<exists>d1. Hbase_Get fails R table key (d, s) = (Inl NilDereference, d1, s1) \<and> hb_ok d1 \<and> length (hbClient d1) \<ge> length (hbClient d)"
proof -
  obtain r d1 s2 where run: "Hbase_Get fails R table key (d, s) = (r, d1, s2)" by (cases "Hbase_Get fails R table key (d, s)")
  from with_client_ok [OF assms(1) run [unfolded Hbase_Get_def]] have "hb_ok d1" "length (hbClient d1) \<ge> length (hbClient d)" by auto
  moreover have "r = Inl NilDereference \<and> s2 = s1"
    using run assms(2-) by (auto simp: Hbase_Get_def with_client_def GetClient_def split: list.splits option.splits bool.splits)
  ultimately show ?thesis using run by blast
qed

text \<open>
  \<^bold>\<open>C37\<close>. \<^verbatim>\<open>Close\<close> of an hbase database never returns as long as clients can be made: it gives every client it closed back to
  the channel, and takes a new one when the channel is empty.
\<close>

theorem hbase_Close_never_returns:
  assumes "\<forall>n. \<not> fails n"
  shows "Hbase_Close fails d = None"
proof -
  have some: "\<exists>c d2. GetClient fails d1 = (Inr c, d2)" for d1 using assms by (auto simp: GetClient_def split: list.split)
  have "\<exists>e d1. r = (Inl e, d1)" if "close_loop fails r = Some y" for r y
  proof -
    have "fails = fails \<longrightarrow> (\<exists>e d1. r = (Inl e, d1))"
    proof (rule close_loop.raw_induct [where P = "\<lambda>f r y. f = fails \<longrightarrow> (\<exists>e d1. r = (Inl e, d1))", OF _ that])
      fix f fails' r y
      assume IH: "\<And>fails' r y. f fails' r = Some y \<Longrightarrow> fails' = fails \<longrightarrow> (\<exists>e d1. r = (Inl e, d1))"
        and step: "(case r of (Inl _, d) \<Rightarrow> Some d
            | (Inr c, d) \<Rightarrow> f fails' (GetClient fails' (ReleaseClient c (d\<lparr>hbShut := hbShut d @ [c]\<rparr>)))) = Some y"
      show "fails' = fails \<longrightarrow> (\<exists>e d1. r = (Inl e, d1))"
      proof (intro impI, rule ccontr)
        assume eq: "fails' = fails" and "\<nexists>e d1. r = (Inl e, d1)"
        then obtain c d1 where r: "r = (Inr c, d1)" by (metis obj_sumE surj_pair)
        obtain c2 d2 where "GetClient fails (ReleaseClient c (d1\<lparr>hbShut := hbShut d1 @ [c]\<rparr>)) = (Inr c2, d2)" using some by blast
        then show False using step IH [of fails "(Inr c2, d2)" y] by (simp add: r eq)
      qed
    qed
    then show ?thesis by simp
  qed
  then show ?thesis using some [of d] by (cases "Hbase_Close fails d") (fastforce simp: Hbase_Close_def)+
qed

theorem hbase_Close_never_returns_witness: "Hbase_Close (\<lambda>_. False) hb_defaults = None"
  by (rule hbase_Close_never_returns) simp

text \<open>A server that finds every record, for an example.\<close>

definition found_hbase :: "(unit, unit) hbase_ops" where
  "found_hbase = \<lparr>hNewScan = \<lambda>_. Inr (), hNewGet = \<lambda>_ _. Inr (), hNewPut = \<lambda>_ _ _. Inr (), hNewDel = \<lambda>_ _ _. Inr (), hNewApp = \<lambda>_ _ _. Inr (),
     hNewInc = \<lambda>_ _ _. Inr (), hScan = \<lambda>_ _ s. (0, s), hGet = \<lambda>_ _ s. (Inr \<lparr>hrExists = Some True, hrCells = []\<rparr>, s), hPut = \<lambda>_ _ s. (None, s),
     hDelete = \<lambda>_ _ s. (None, s), hAppend = \<lambda>_ _ s. (None, s), hIncrement = \<lambda>_ _ s. (Inr 1, s), hCheckAndPut = \<lambda>_ _ _ _ _ s. (Inr True, s)\<rparr>"

theorem hbase_Get_found_panics_witness:
  "\<exists>d d1. Hbase_NewHandler (\<lambda>_. Inr 0) (\<lambda>_. False) ''n'' [''DATABASE_HBASE_HOST'' \<mapsto> GString ''h'', ''DATABASE_HBASE_MAX_ACTIVE'' \<mapsto> GInt 2] NewHbaseHandler =
      Inr (Inr d, \<lparr>hbDatabases = Some [''n'' \<mapsto> d]\<rparr>) \<and> Hbase_Get (\<lambda>_. False) found_hbase ''t'' ''k'' (d, ()) = (Inl NilDereference, d1, ()) \<and> hb_ok d1"
proof -
  obtain d where d: "Hbase_NewHandler (\<lambda>_. Inr 0) (\<lambda>_. False) ''n'' [''DATABASE_HBASE_HOST'' \<mapsto> GString ''h'', ''DATABASE_HBASE_MAX_ACTIVE'' \<mapsto> GInt 2] NewHbaseHandler =
      Inr (Inr d, \<lparr>hbDatabases = Some [''n'' \<mapsto> d]\<rparr>)"
    by (simp add: Hbase_NewHandler_def bind_sum_def hb_host_def hb_timeout_def hb_max_active_def hb_defaults_def NewHbaseHandler_def numeral_2_eq_2 Let_def)
  have "\<exists>d1. Hbase_Get (\<lambda>_. False) found_hbase ''t'' ''k'' (d, ()) = (Inl NilDereference, d1, ()) \<and> hb_ok d1 \<and> length (hbClient d1) \<ge> length (hbClient d)"
    by (rule hbase_Get_found_panics [OF NewHandler_ok [OF d], where res = "\<lparr>hrExists = Some True, hrCells = []\<rparr>" and q = "()"])
       (simp_all add: found_hbase_def)
  with d show ?thesis by blast
qed

subsection \<open>Many goroutines\<close>

text \<open>
  Where a goroutine is: outside; with a new client to send into the channel; about to receive; using a client; about to send a
  client back, having seen that the channel was not full.
\<close>

datatype hb_pc = Outside | Sending nat | Receiving | Holding nat | Returning nat

record hb_system =
  chan :: "nat list"
  room_for :: nat
  made :: nat
  shut :: "nat set"
  pc :: "nat \<Rightarrow> hb_pc"

inductive hb_step :: "nat \<Rightarrow> hb_system \<Rightarrow> hb_system \<Rightarrow> bool" where
  sees_empty: "pc s g = Outside \<Longrightarrow> chan s = [] \<Longrightarrow> hb_step g s (s\<lparr>made := Suc (made s), pc := (pc s)(g := Sending (made s))\<rparr>)"
| sees_some: "pc s g = Outside \<Longrightarrow> chan s \<noteq> [] \<Longrightarrow> hb_step g s (s\<lparr>pc := (pc s)(g := Receiving)\<rparr>)"
| sends: "pc s g = Sending c \<Longrightarrow> length (chan s) < room_for s \<Longrightarrow> hb_step g s (s\<lparr>chan := chan s @ [c], pc := (pc s)(g := Receiving)\<rparr>)"
| receives: "pc s g = Receiving \<Longrightarrow> chan s = c # cs \<Longrightarrow> hb_step g s (s\<lparr>chan := cs, pc := (pc s)(g := Holding c)\<rparr>)"
| sees_full: "pc s g = Holding c \<Longrightarrow> length (chan s) = room_for s \<Longrightarrow> hb_step g s (s\<lparr>shut := insert c (shut s), pc := (pc s)(g := Outside)\<rparr>)"
| sees_room: "pc s g = Holding c \<Longrightarrow> length (chan s) \<noteq> room_for s \<Longrightarrow> hb_step g s (s\<lparr>pc := (pc s)(g := Returning c)\<rparr>)"
| returns: "pc s g = Returning c \<Longrightarrow> length (chan s) < room_for s \<Longrightarrow> hb_step g s (s\<lparr>chan := chan s @ [c], pc := (pc s)(g := Outside)\<rparr>)"

inductive_cases hb_stepE: "hb_step g s t"

inductive hb_reach :: "hb_system \<Rightarrow> hb_system \<Rightarrow> bool" where
  hb_here: "hb_reach s s"
| hb_more: "hb_reach s t \<Longrightarrow> hb_step g t u \<Longrightarrow> hb_reach s u"

text \<open>The system after \<^verbatim>\<open>NewHandler\<close> with \<open>n\<close> clients.\<close>

definition hb_start :: "nat \<Rightarrow> hb_system" where
  "hb_start n = \<lparr>chan = [0..<n], room_for = n, made = n, shut = {}, pc = (\<lambda>_. Outside)\<rparr>"

fun pc_client :: "hb_pc \<Rightarrow> nat option" where
  "pc_client (Sending c) = Some c"
| "pc_client (Holding c) = Some c"
| "pc_client (Returning c) = Some c"
| "pc_client _ = None"

definition hb_inv :: "hb_system \<Rightarrow> bool" where
  "hb_inv s \<longleftrightarrow>
     length (chan s) \<le> room_for s \<and> distinct (chan s) \<and>
     (\<forall>c \<in> set (chan s) \<union> shut s. c < made s) \<and> (\<forall>g c. pc_client (pc s g) = Some c \<longrightarrow> c < made s \<and> c \<notin> set (chan s) \<union> shut s) \<and>
     set (chan s) \<inter> shut s = {} \<and>
     (\<forall>g g' c. pc_client (pc s g) = Some c \<longrightarrow> pc_client (pc s g') = Some c \<longrightarrow> g = g')"

lemma hb_inv_move:
  assumes "hb_inv s" and "pc_client p = pc_client (pc s g)"
  shows "hb_inv (s\<lparr>pc := (pc s)(g := p)\<rparr>)"
  using assms unfolding hb_inv_def by simp metis

lemma hb_inv_take:
  assumes "hb_inv s" and "pc_client (pc s g) = None" and "chan s = c # cs"
  shows "hb_inv (s\<lparr>chan := cs, pc := (pc s)(g := Holding c)\<rparr>)"
  using assms unfolding hb_inv_def by auto

lemma hb_inv_put:
  assumes "hb_inv s" and "pc_client (pc s g) = Some c" and "length (chan s) < room_for s" and "pc_client p = None"
  shows "hb_inv (s\<lparr>chan := chan s @ [c], pc := (pc s)(g := p)\<rparr>)"
  using assms unfolding hb_inv_def by auto

lemma hb_inv_new:
  assumes "hb_inv s"
  shows "hb_inv (s\<lparr>made := Suc (made s), pc := (pc s)(g := Sending (made s))\<rparr>)"
  using assms unfolding hb_inv_def by (auto simp: less_Suc_eq)

lemma hb_inv_shut:
  assumes "hb_inv s" and "pc_client (pc s g) = Some c"
  shows "hb_inv (s\<lparr>shut := insert c (shut s), pc := (pc s)(g := Outside)\<rparr>)"
  using assms unfolding hb_inv_def by auto

lemma hb_inv_step: "hb_step g s t \<Longrightarrow> hb_inv s \<Longrightarrow> hb_inv t"
  by (erule hb_stepE) (auto intro: hb_inv_move hb_inv_take hb_inv_put hb_inv_new hb_inv_shut)

lemma hb_inv_reach: "hb_reach s t \<Longrightarrow> hb_inv s \<Longrightarrow> hb_inv t"
  by (induction rule: hb_reach.induct) (auto intro: hb_inv_step)

lemma room_for_step: "hb_step g s t \<Longrightarrow> room_for t = room_for s"
  by (erule hb_stepE) simp_all

lemma room_for_reach: "hb_reach s t \<Longrightarrow> room_for t = room_for s"
  by (induction rule: hb_reach.induct) (simp_all add: room_for_step)


lemma hb_reach_step: "hb_step g s t \<Longrightarrow> hb_reach t u \<Longrightarrow> hb_reach s u"
  by (rotate_tac, induction rule: hb_reach.induct) (auto intro: hb_reach.intros)


text \<open>
  Giving a client back may block: \<^verbatim>\<open>GetHandler\<close> makes a client whenever the channel is empty, so there can be more
  clients than places, and two goroutines that both see a free place send into it. Here one goroutine is left that cannot go
  on while all others are done.
\<close>

theorem hbase_return_blocks:
  "\<exists>s. hb_reach (hb_start 1) s \<and> pc s = (\<lambda>_. Outside)(1 := Returning 1) \<and> (\<nexists>t. hb_step 1 s t)"
proof -
  define mk where "mk q m p = \<lparr>chan = q, room_for = 1, made = m, shut = {}, pc = p\<rparr>" for q m p
  let ?o = "(\<lambda>_. Outside) :: nat \<Rightarrow> hb_pc"
  have mid: "?o(0 := Holding 0, 1 := Holding 1, 0 := Returning 0) = ?o(0 := Returning 0, 1 := Holding 1)"
    and last: "?o(0 := Returning 0, 1 := Returning 1, 0 := Outside) = ?o(1 := Returning 1)"
    by (auto simp: fun_eq_iff)
  have "hb_step 0 (mk [0] 1 ?o) (mk [0] 1 (?o(0 := Receiving)))"
    using sees_some [of "mk [0] 1 ?o" 0] by (simp add: mk_def)
  moreover have "hb_step 0 (mk [0] 1 (?o(0 := Receiving))) (mk [] 1 (?o(0 := Holding 0)))"
    using receives [of "mk [0] 1 (?o(0 := Receiving))" 0 0 "[]"] by (simp add: mk_def)
  moreover have "hb_step 1 (mk [] 1 (?o(0 := Holding 0))) (mk [] 2 (?o(0 := Holding 0, 1 := Sending 1)))"
    using sees_empty [of "mk [] 1 (?o(0 := Holding 0))" 1] by (simp add: mk_def numeral_2_eq_2)
  moreover have "hb_step 1 (mk [] 2 (?o(0 := Holding 0, 1 := Sending 1))) (mk [1] 2 (?o(0 := Holding 0, 1 := Receiving)))"
    using sends [of "mk [] 2 (?o(0 := Holding 0, 1 := Sending 1))" 1 1] by (simp add: mk_def)
  moreover have "hb_step 1 (mk [1] 2 (?o(0 := Holding 0, 1 := Receiving))) (mk [] 2 (?o(0 := Holding 0, 1 := Holding 1)))"
    using receives [of "mk [1] 2 (?o(0 := Holding 0, 1 := Receiving))" 1 1 "[]"] by (simp add: mk_def)
  moreover have "hb_step 0 (mk [] 2 (?o(0 := Holding 0, 1 := Holding 1))) (mk [] 2 (?o(0 := Returning 0, 1 := Holding 1)))"
    using sees_room [of "mk [] 2 (?o(0 := Holding 0, 1 := Holding 1))" 0 0] mid by (simp add: mk_def)
  moreover have "hb_step 1 (mk [] 2 (?o(0 := Returning 0, 1 := Holding 1))) (mk [] 2 (?o(0 := Returning 0, 1 := Returning 1)))"
    using sees_room [of "mk [] 2 (?o(0 := Returning 0, 1 := Holding 1))" 1 1] by (simp add: mk_def)
  moreover have "hb_step 0 (mk [] 2 (?o(0 := Returning 0, 1 := Returning 1))) (mk [0] 2 (?o(1 := Returning 1)))"
    using returns [of "mk [] 2 (?o(0 := Returning 0, 1 := Returning 1))" 0 0] last by (simp add: mk_def)
  ultimately have "hb_reach (mk [0] 1 ?o) (mk [0] 2 (?o(1 := Returning 1)))"
    by (meson hb_reach_step hb_here)
  moreover have "hb_start 1 = mk [0] 1 ?o" by (simp add: hb_start_def mk_def)
  moreover have "\<not> hb_step 1 (mk [0] 2 (?o(1 := Returning 1))) t" for t by (auto simp: mk_def elim: hb_stepE)
  ultimately show ?thesis by (intro exI [of _ "mk [0] 2 (?o(1 := Returning 1))"]) (simp add: mk_def)
qed

end
