(* ===== verification/Database_Component.thy ===== *)
theory Database_Component
  imports Mysql_Handler Hbase_Handler
begin

text \<open>
  \<^verbatim>\<open>src/database/protocol.go\<close>: the database component, which owns a mysql and an hbase handler and hands their databases
  out by name. The getters of the configuration and the packages below are arguments. An hbase database is handed out as its
  state at that moment.
\<close>

subsection \<open>The component\<close>

record 'db Database =
  dbConfigs :: "configs option"
  dbProvider :: string
  dbHandler :: "'db MysqlHandler option"
  nosqlProvider :: string
  nosqlHandler :: "HbaseHandler option"

definition NewDatabase :: "'db Database" where
  "NewDatabase = \<lparr>dbConfigs = None, dbProvider = '''', dbHandler = None, nosqlProvider = '''', nosqlHandler = None\<rparr>"

definition plain_option :: "option_type \<Rightarrow> string \<Rightarrow> string \<times> goval Option" where
  "plain_option t key = (key, \<lparr>OptType = t, Default = None, EnvironmentKey = key\<rparr>)"

definition database_options :: "(string \<times> goval Option) list" where
  "database_options =
     [plain_option TString ''DATABASE_PROVIDER'', plain_option TString ''DATABASE_MYSQL_HOST'', plain_option TString ''DATABASE_MYSQL_PORT'',
      plain_option TString ''DATABASE_MYSQL_USER'', plain_option TString ''DATABASE_MYSQL_PASSWORD'', plain_option TString ''DATABASE_MYSQL_DATABASE'',
      plain_option TString ''DATABASE_MYSQL_TIMEOUT'', plain_option TInt ''DATABASE_MYSQL_MAX_OPEN_CONNS'',
      plain_option TInt ''DATABASE_MYSQL_MAX_IDLE_CONNS'', plain_option TString ''DATABASE_NOSQL_PROVIDER'',
      plain_option TString ''DATABASE_HBASE_HOST'', plain_option TString ''DATABASE_HBASE_TIMEOUT'', plain_option TInt ''DATABASE_HBASE_MAX_ACTIVE'']"

definition Database_Prepare :: "('s, goval) Provider \<Rightarrow> ('s, goval) Config \<Rightarrow> ('s, goval) Config outcome" where
  "Database_Prepare P c = SetOptions P (Some database_options) c"

definition Database_Use :: "(string \<rightharpoonup> 'db MysqlHandler) \<Rightarrow> string \<Rightarrow> 'db Database \<Rightarrow> string option \<times> 'db Database" where
  "Database_Use handlers name d =
     (case database_lookup name handlers of
        Inl e \<Rightarrow> (Some e, d)
      | Inr h \<Rightarrow> (None, d\<lparr>dbProvider := name, dbHandler := Some (Mysql_Initiate h)\<rparr>))"

definition Database_NosqlUse :: "(string \<rightharpoonup> HbaseHandler) \<Rightarrow> string \<Rightarrow> 'db Database \<Rightarrow> string option \<times> 'db Database" where
  "Database_NosqlUse handlers name d =
     (case NosqlUse name handlers of
        Inl e \<Rightarrow> (Some e, d)
      | Inr h \<Rightarrow> (None, d\<lparr>nosqlProvider := name, nosqlHandler := Some (Hbase_Initiate h)\<rparr>))"

text \<open>The settings of the component, read into a fresh map.\<close>

definition database_settings :: "(string \<Rightarrow> string) \<Rightarrow> (string \<Rightarrow> int) \<Rightarrow> configs" where
  "database_settings getString getInt =
     (\<lambda>key. if key \<in> {''DATABASE_MYSQL_HOST'', ''DATABASE_MYSQL_PORT'', ''DATABASE_MYSQL_USER'', ''DATABASE_MYSQL_PASSWORD'', ''DATABASE_MYSQL_DATABASE'',
                       ''DATABASE_MYSQL_TIMEZONE'', ''DATABASE_MYSQL_TIMEOUT'', ''DATABASE_MYSQL_WRITE_TIMEOUT'', ''DATABASE_MYSQL_READ_TIMEOUT''}
            then Some (GString (getString key))
            else if key \<in> {''DATABASE_MYSQL_MAX_OPEN_CONNS'', ''DATABASE_MYSQL_MAX_IDLE_CONNS''} then Some (GInt (getInt key))
            else None)"

definition Database_Initiate ::
    "(string \<Rightarrow> string) \<Rightarrow> (string \<Rightarrow> int) \<Rightarrow> (string \<rightharpoonup> 'db MysqlHandler) \<Rightarrow> (string \<rightharpoonup> HbaseHandler) \<Rightarrow> 'db Database \<Rightarrow>
     string option \<times> 'db Database \<times> (string \<rightharpoonup> 'db MysqlHandler) \<times> (string \<rightharpoonup> HbaseHandler)" where
  "Database_Initiate getString getInt handlers nosqls d =
     (let failed = (\<lambda>p e. annotate (''database: initiate '' @ quoted p @ '' error'') (Some e)) in
      case database_Register ''mysql'' (Some NewMysqlHandler) handlers of
        (Some e, hs) \<Rightarrow> (failed (dbProvider d) e, d, hs, nosqls)
      | (None, hs) \<Rightarrow>
          (case Database_Use hs ''mysql'' d of
             (Some e, d1) \<Rightarrow> (failed (dbProvider d1) e, d1, hs, nosqls)
           | (None, d1) \<Rightarrow>
               (case NosqlRegister ''hbase'' (Some NewHbaseHandler) nosqls of
                  (Some e, ns) \<Rightarrow> (failed (nosqlProvider d1) e, d1, hs, ns)
                | (None, ns) \<Rightarrow>
                    (case Database_NosqlUse ns ''hbase'' d1 of
                       (Some e, d2) \<Rightarrow> (failed (nosqlProvider d2) e, d2, hs, ns)
                     | (None, d2) \<Rightarrow> (None, d2\<lparr>dbConfigs := Some (database_settings getString getInt)\<rparr>, hs, ns)))))"

text \<open>The texts are those of names without percent signs, since the code formats them twice.\<close>

definition Database_OnStartup ::
    "(string \<Rightarrow> string) \<Rightarrow> (string \<rightharpoonup> 'db MysqlHandler) \<Rightarrow> (string \<rightharpoonup> HbaseHandler) \<Rightarrow> 'db Database \<Rightarrow> string option \<times> 'db Database" where
  "Database_OnStartup getString handlers nosqls d =
     (let failed = (\<lambda>p e. annotate (''database: startup '' @ quoted p @ '' error: '' @ e) (Some e));
          p = getString ''DATABASE_PROVIDER'';
          n = getString ''DATABASE_NOSQL_PROVIDER'';
          nosql = (\<lambda>d1. if n = '''' then (None, d1)
                        else case Database_NosqlUse nosqls n d1 of
                               (Some e, d2) \<Rightarrow> (failed (nosqlProvider d2) e, d2)
                             | (None, d2) \<Rightarrow> (None, d2))
      in if p = '''' then nosql d
         else case Database_Use handlers p d of
                (Some e, d1) \<Rightarrow> (failed (dbProvider d1) e, d1)
              | (None, d1) \<Rightarrow> nosql d1)"

definition Database_GetHandler :: "string \<Rightarrow> 'db Database \<Rightarrow> (string + nat) outcome" where
  "Database_GetHandler name d =
     (case dbHandler d of
        None \<Rightarrow> Inl NilDereference
      | Some h \<Rightarrow> Inr (map_sum (\<lambda>e. ''database: get '' @ quoted name @ '' handler error: '' @ e) id (Mysql_GetHandler name h)))"

text \<open>
  The settings of a call, \<open>None\<close> for a call without; a nil map, \<open>Some None\<close>, cannot take the settings of the component. The
  settings of the call win, and the map of the caller gets those that it lacks; it is part of the result.
\<close>

definition Database_NewHandler ::
    "'db gorm \<Rightarrow> string \<Rightarrow> configs option option \<Rightarrow> 'db Database \<Rightarrow> ((string + nat) \<times> configs option option \<times> 'db Database) outcome" where
  "Database_NewHandler G name cfg d =
     (case dbHandler d of
        None \<Rightarrow> Inl NilDereference
      | Some h \<Rightarrow>
          (case Mysql_GetHandler name h of
             Inr i \<Rightarrow> Inr (Inr i, cfg, d)
           | Inl _ \<Rightarrow>
               (let own = (case dbConfigs d of Some m \<Rightarrow> m | None \<Rightarrow> Map.empty);
                    make = (\<lambda>m cfg1. case Mysql_NewHandler G name m h of
                              (Inl e, h1) \<Rightarrow> Inr (Inl (''database: new '' @ quoted name @ '' handler error: '' @ e), cfg1, d\<lparr>dbHandler := Some h1\<rparr>)
                            | (Inr i, h1) \<Rightarrow> Inr (Inr i, cfg1, d\<lparr>dbHandler := Some h1\<rparr>))
                in case cfg of
                     None \<Rightarrow> make own None
                   | Some (Some m) \<Rightarrow> make (own ++ m) (Some (Some (own ++ m)))
                   | Some None \<Rightarrow>
                       if own = Map.empty then make Map.empty (Some None)
                       else Inl (ExplicitPanic ''assignment to entry in nil map''))))"

subsection \<open>Nosql databases\<close>

definition HandlerNotExists :: "string \<Rightarrow> bool" where
  "HandlerNotExists e = contains_str e ''handler not exists''"

text \<open>
  The answer of \<^verbatim>\<open>GetNosqlHandler\<close>: an error, or a handler that may be nil. After an error of the lookup the handler is nil
  in any case, and the error is that of the second attempt, if there is one.
\<close>

definition GetNosqlHandler ::
    "(string \<Rightarrow> string + int) \<Rightarrow> (nat \<Rightarrow> bool) \<Rightarrow> string \<Rightarrow> 'db Database \<Rightarrow> ((string + HbaseDatabase option) \<times> 'db Database) outcome" where
  "GetNosqlHandler parseDuration fails name d =
     (case nosqlHandler d of
        None \<Rightarrow> Inl NilDereference
      | Some h \<Rightarrow>
          (let failed = (\<lambda>e. ''database: get '' @ quoted name @ '' handler error: '' @ e) in
           case Hbase_GetHandler name h of
             Inr b \<Rightarrow> Inr (Inr (Some b), d)
           | Inl e \<Rightarrow>
               if HandlerNotExists e
               then (case Hbase_NewHandler parseDuration fails name (case dbConfigs d of Some m \<Rightarrow> m | None \<Rightarrow> Map.empty) h of
                       Inl p \<Rightarrow> Inl p
                     | Inr (Inl e2, h1) \<Rightarrow> Inr (Inl (failed e2), d\<lparr>nosqlHandler := Some h1\<rparr>)
                     | Inr (Inr _, h1) \<Rightarrow> Inr (Inr None, d\<lparr>nosqlHandler := Some h1\<rparr>))
               else Inr (Inl (failed e), d)))"

definition hbase_settings :: "(string \<Rightarrow> string) \<Rightarrow> (string \<Rightarrow> int) \<Rightarrow> configs" where
  "hbase_settings getString getInt =
     (\<lambda>key. if key \<in> {''DATABASE_HBASE_HOST'', ''DATABASE_HBASE_PORT'', ''DATABASE_HBASE_USER'', ''DATABASE_HBASE_PASSWORD'', ''DATABASE_HBASE_DATABASE'',
                       ''DATABASE_HBASE_TIMEOUT''} then Some (GString (getString key))
            else if key = ''DATABASE_HBASE_MAX_ACTIVE'' then Some (GInt (getInt key)) else None)"

text \<open>A nil map cannot take the settings: the first that it lacks panics.\<close>

definition NewNosqlHandler ::
    "(string \<Rightarrow> string) \<Rightarrow> (string \<Rightarrow> int) \<Rightarrow> (string \<Rightarrow> string + int) \<Rightarrow> (nat \<Rightarrow> bool) \<Rightarrow> string \<Rightarrow> configs option \<Rightarrow> 'db Database \<Rightarrow>
     ((string + HbaseDatabase option) \<times> configs option \<times> 'db Database) outcome" where
  "NewNosqlHandler getString getInt parseDuration fails name cfg d =
     (case GetNosqlHandler parseDuration fails name d of
        Inl p \<Rightarrow> Inl p
      | Inr (Inr b, d1) \<Rightarrow> Inr (Inr b, cfg, d1)
      | Inr (Inl _, d1) \<Rightarrow>
          (case cfg of
             None \<Rightarrow> Inl (ExplicitPanic ''assignment to entry in nil map'')
           | Some m \<Rightarrow>
               (let m1 = hbase_settings getString getInt ++ m in
                case nosqlHandler d1 of
                  None \<Rightarrow> Inl NilDereference
                | Some h \<Rightarrow>
                    (case Hbase_NewHandler parseDuration fails name m1 h of
                       Inl p \<Rightarrow> Inl p
                     | Inr (Inl e, h1) \<Rightarrow> Inr (Inl (''database: new '' @ quoted name @ '' handler error: '' @ e), Some m1, d1\<lparr>nosqlHandler := Some h1\<rparr>)
                     | Inr (Inr b, h1) \<Rightarrow> Inr (Inr (Some b), Some m1, d1\<lparr>nosqlHandler := Some h1\<rparr>)))))"

subsection \<open>What holds\<close>

lemma configure_no_timeout:
  assumes "config ''DATABASE_MYSQL_TIMEOUT'' = Some (GString '''')"
  shows "\<exists>e. configure_mysql config = Inl e"
  unfolding configure_mysql_def
  by (auto simp: bind_sum_def my_string_def [of config "''DATABASE_MYSQL_TIMEOUT''"] assms required_def split: sum.split)

text \<open>
  The default timeout of a database is out of reach: after \<^verbatim>\<open>Initiate\<close> with no timeout configured, every database fails to open,
  since the component passes the empty text on as a setting, and that is an error. Only a timeout in the settings of the call
  helps.
\<close>

theorem database_needs_timeout:
  assumes "Database_Initiate getString getInt handlers nosqls d = (None, d1, hs, ns)" and "getString ''DATABASE_MYSQL_TIMEOUT'' = ''''"
    and "handlers ''mysql'' = None" and "cfg = None \<or> (\<exists>m. cfg = Some (Some m) \<and> m ''DATABASE_MYSQL_TIMEOUT'' = None)"
  shows "\<exists>e cfg1 d2. Database_NewHandler G name cfg d1 = Inr (Inl e, cfg1, d2)"
proof -
  have d1: "dbHandler d1 = Some \<lparr>databases = Some Map.empty, handles = []\<rparr>" "dbConfigs d1 = Some (database_settings getString getInt)"
    using assms(1,3) by (auto simp: Database_Initiate_def Database_Use_def Database_NosqlUse_def database_Register_def database_lookup_def NosqlRegister_def
        Mysql_Initiate_def NewMysqlHandler_def annotate_def Let_def split: sum.splits)
  have own: "database_settings getString getInt ''DATABASE_MYSQL_TIMEOUT'' = Some (GString '''')" using assms(2) by (simp add: database_settings_def)
  have "\<exists>e h1. Mysql_NewHandler G name m h = (Inl e, h1)" if "m ''DATABASE_MYSQL_TIMEOUT'' = Some (GString '''')" for m h
    using configure_no_timeout [of m, OF that] by (auto simp: Mysql_NewHandler_def)
  note fails = this
  have new: "Mysql_GetHandler name (\<lparr>databases = Some Map.empty, handles = []\<rparr> :: 'a MysqlHandler) = Inl (mysql_not_exists name)"
    by (simp add: Mysql_GetHandler_def)
  from assms(4) show ?thesis
  proof (elim disjE exE conjE)
    assume "cfg = None"
    then show ?thesis using fails [of "database_settings getString getInt", OF own, of "\<lparr>databases = Some Map.empty, handles = []\<rparr>"] by (auto simp: Database_NewHandler_def d1 new)
  next
    fix m assume m: "cfg = Some (Some m)" "m ''DATABASE_MYSQL_TIMEOUT'' = None"
    then have "(database_settings getString getInt ++ m) ''DATABASE_MYSQL_TIMEOUT'' = Some (GString '''')" by (simp add: map_add_def own)
    from fails [of "database_settings getString getInt ++ m", OF this, of "\<lparr>databases = Some Map.empty, handles = []\<rparr>"] show ?thesis by (auto simp: Database_NewHandler_def d1 new m(1))
  qed
qed
text \<open>A configuration with a host and no timeout, for examples.\<close>

definition host_only :: "string \<Rightarrow> string" where
  "host_only key = (if key = ''DATABASE_MYSQL_HOST'' then ''db'' else '''')"

theorem database_needs_timeout_witness:
  "\<exists>d1 hs ns e cfg1 d2. Database_Initiate host_only (\<lambda>_. 0) Map.empty Map.empty NewDatabase = (None, d1, hs, ns) \<and>
     Database_NewHandler demo_gorm ''main'' None d1 = Inr (Inl e, cfg1, d2)"
proof -
  obtain d1 hs ns where init: "Database_Initiate host_only (\<lambda>_. 0) Map.empty Map.empty (NewDatabase :: string list Database) = (None, d1, hs, ns)"
    by (simp add: Database_Initiate_def Database_Use_def Database_NosqlUse_def database_Register_def database_lookup_def NosqlRegister_def NosqlUse_def Let_def)
  have none: "host_only ''DATABASE_MYSQL_TIMEOUT'' = ''''" by (simp add: host_only_def)
  from database_needs_timeout [OF init none, of None demo_gorm "''main''"] init show ?thesis by auto
qed

text \<open>
  \<^bold>\<open>C36\<close>. A database is opened once: after \<^verbatim>\<open>NewHandler\<close> succeeded for a name, \<^verbatim>\<open>GetHandler\<close> gives that handle, and so does every
  later \<^verbatim>\<open>NewHandler\<close>, whatever its settings are; handles of other names stay what they were.
\<close>

theorem database_opened_once:
  assumes "Database_NewHandler G name cfg d = Inr (Inr i, cfg1, d1)"
  shows "Database_GetHandler name d1 = Inr (Inr i) \<and> Database_NewHandler G name cfg2 d1 = Inr (Inr i, cfg2, d1) \<and>
         (other = name \<or> Database_GetHandler other d1 = Database_GetHandler other d)"
proof -
  obtain h where h: "dbHandler d = Some h" using assms by (auto simp: Database_NewHandler_def split: option.splits)
  have get: "Mysql_GetHandler name h1 = Inr j \<and> (other = name \<or> Mysql_GetHandler other h1 = Mysql_GetHandler other h)"
    if "Mysql_NewHandler G name m h = (Inr j, h1)" for m j h1
    using that by (auto simp: Mysql_NewHandler_def Mysql_GetHandler_def Let_def split: sum.splits option.splits goval.splits if_splits)
  have "\<exists>h1. dbHandler d1 = Some h1 \<and> Mysql_GetHandler name h1 = Inr i \<and> (other = name \<or> Mysql_GetHandler other h1 = Mysql_GetHandler other h)"
  proof (cases "Mysql_GetHandler name h")
    case (Inr j)
    then show ?thesis using assms h by (auto simp: Database_NewHandler_def)
  next
    case (Inl e)
    then show ?thesis
      using assms h get by (auto simp: Database_NewHandler_def Let_def split: option.splits prod.splits sum.splits if_splits)
  qed
  then show ?thesis using h by (auto simp: Database_GetHandler_def Database_NewHandler_def)
qed

theorem database_opened_once_witness:
  "\<exists>d i cfg1 d1. Database_NewHandler demo_gorm ''main'' (Some (Some [''DATABASE_MYSQL_HOST'' \<mapsto> GString ''db''])) d = Inr (Inr i, cfg1, d1) \<and>
     Database_GetHandler ''main'' d1 = Inr (Inr i) \<and> Database_NewHandler demo_gorm ''main'' None d1 = Inr (Inr i, None, d1)"
proof -
  let ?d = "(NewDatabase :: string list Database)\<lparr>dbHandler := Some (Mysql_Initiate NewMysqlHandler)\<rparr>"
  obtain cfg1 d1 where run: "Database_NewHandler demo_gorm ''main'' (Some (Some [''DATABASE_MYSQL_HOST'' \<mapsto> GString ''db''])) ?d = Inr (Inr 0, cfg1, d1)"
    by (simp add: Database_NewHandler_def NewDatabase_def Mysql_GetHandler_def Mysql_NewHandler_def configure_mysql_def my_host_def my_string_def my_int_def
        bind_sum_def demo_gorm_def Mysql_Initiate_def NewMysqlHandler_def Let_def)
  from database_opened_once [OF run, of None] run show ?thesis by blast
qed

end
