(* ===== verification/Session_Component.thy ===== *)
theory Session_Component
  imports Database_Component
begin

text \<open>
  The session component as a whole (\<^verbatim>\<open>src/session/protocol.go\<close> and the \<^verbatim>\<open>Initiate\<close> of both providers): its options, the
  registry of providers, and the start of a provider on the key-value store and the database component that were
  injected. The two are shared with the rest of the program, so what a provider does to them is part of the result.
  Composed with the model of the databases, this shows that sessions in mysql cannot be started with any
  configuration, and that the attempt closes the way to every database that was open.
\<close>

subsection \<open>The registry of session providers\<close>

text \<open>What is registered: one of the two providers of the package, or another one.\<close>

datatype session_kind = KMysql | KRedis | KOther nat

definition session_Register :: "string \<Rightarrow> 'h option \<Rightarrow> (string \<rightharpoonup> 'h) \<Rightarrow> string option \<times> (string \<rightharpoonup> 'h)" where
  "session_Register name newHandler handlers =
     (case newHandler of
        None \<Rightarrow> (Some ''session: Register session is nil'', handlers)
      | Some h \<Rightarrow> (None, if handlers name = None then handlers(name \<mapsto> h) else handlers))"

definition session_lookup :: "string \<Rightarrow> (string \<rightharpoonup> 'h) \<Rightarrow> string + 'h" where
  "session_lookup name handlers =
     (case handlers name of
        None \<Rightarrow> Inl (''session: unknown session '' @ name @ '' (forgotten register?)'')
      | Some h \<Rightarrow> Inr h)"

interpretation sessreg: provider_registry session_Register session_lookup
  by unfold_locales (auto simp: session_Register_def session_lookup_def split: option.splits if_splits)

subsection \<open>The component\<close>

record MysqlProvider =
  mp_handle :: "nat option"
  mp_maxAge :: int

datatype session_provider = PMysql MysqlProvider | PRedis "RedisSession option" | POther nat

definition new_provider :: "session_kind \<Rightarrow> session_provider" where
  "new_provider k =
     (case k of
        KMysql \<Rightarrow> PMysql \<lparr>mp_handle = None, mp_maxAge = 0\<rparr>
      | KRedis \<Rightarrow> PRedis None
      | KOther n \<Rightarrow> POther n)"

text \<open>\<open>None\<close> stands for a component that was not injected.\<close>

record 'db SessionComponent =
  scDatabase :: "'db Database option"
  scKvstore :: "Kvstore option"
  scProvider :: string
  scHandler :: "session_provider option"
  scSession :: Session

definition NewSession :: "'db SessionComponent" where
  "NewSession = \<lparr>scDatabase = None, scKvstore = None, scProvider = '''', scHandler = None,
     scSession = \<lparr>CookieName = '''', MaxAge = 0, EnableSetCookie = False, Secure = False, CookieLifeTime = 0, Domain = '''',
       SessionIDLength = 0, EnableSidInHttpHeader = False, SessionNameInHttpHeader = '''', EnableSidInUrlQuery = False\<rparr>\<rparr>"

definition session_options :: "(string \<times> goval Option) list" where
  "session_options =
     [plain_option TString ''SESSION_PROVIDER'', plain_option TString ''SESSION_REDIS_KEY_PREFIX'', plain_option TInt ''SESSION_REDIS_DATABASE'',
      plain_option TString ''SESSION_COOKIE_NAME'', plain_option TInt64 ''SESSION_MAX_AGE'', plain_option TInt64 ''SESSION_MYSQL_DATABASE'',
      (''SESSION_ID_LENGTH'', \<lparr>OptType = TInt64, Default = Some (GInt 16), EnvironmentKey = ''SESSION_ID_LENGTH''\<rparr>)]"

definition Session_Prepare :: "('s, goval) Provider \<Rightarrow> ('s, goval) Config \<Rightarrow> ('s, goval) Config outcome" where
  "Session_Prepare P c = SetOptions P (Some session_options) c"

definition Session_Initiate :: "string \<Rightarrow> (string \<rightharpoonup> session_kind) \<Rightarrow> string option \<times> (string \<rightharpoonup> session_kind)" where
  "Session_Initiate provider handlers =
     (let failed = annotate (''session: initiate '' @ quoted provider @ '' error'') in
      case session_Register ''mysql'' (Some KMysql) handlers of
        (Some e, hs) \<Rightarrow> (failed (Some e), hs)
      | (None, hs) \<Rightarrow>
          (case session_Register ''redis'' (Some KRedis) hs of
             (Some e, hs1) \<Rightarrow> (failed (Some e), hs1)
           | (None, hs1) \<Rightarrow> (None, hs1)))"

subsection \<open>Starting the mysql provider\<close>

text \<open>
  The entry of the settings that should hold a component: there may be none, it may be of another type, and it may be a
  pointer, also a nil one. A method on a nil pointer panics only once it uses the pointer.
\<close>

datatype 'c instance_entry = NoEntry | OtherType | Pointer "'c option"

definition entry_or_nil :: "configs \<Rightarrow> string \<Rightarrow> goval" where
  "entry_or_nil config key = (case config key of Some v \<Rightarrow> v | None \<Rightarrow> GNil)"

definition mysql_session_keys :: "string list" where
  "mysql_session_keys = [''DATABASE_MYSQL_HOST'', ''DATABASE_MYSQL_PORT'', ''DATABASE_MYSQL_USER'', ''DATABASE_MYSQL_PASSWORD'',
     ''DATABASE_MYSQL_DATABASE'', ''DATABASE_MYSQL_TIMEOUT'', ''DATABASE_MYSQL_MAX_OPEN_CONNS'', ''DATABASE_MYSQL_MAX_IDLE_CONNS'']"

definition mysql_handler_settings :: "configs \<Rightarrow> configs" where
  "mysql_handler_settings config = map_of (map (\<lambda>key. (key, entry_or_nil config key)) mysql_session_keys)"

definition mysql_failed :: "string \<Rightarrow> string option" where
  "mysql_failed e = Some (''session mysql: initiate error: '' @ e)"

definition mysql_max_age :: "configs \<Rightarrow> MysqlProvider \<Rightarrow> string option \<times> MysqlProvider" where
  "mysql_max_age config m =
     (case config ''max_age'' of
        None \<Rightarrow> (None, m)
      | Some (GInt64 a) \<Rightarrow> (None, m\<lparr>mp_maxAge := a\<rparr>)
      | Some _ \<Rightarrow> (mysql_failed ''invaild max age data type'', m\<lparr>mp_maxAge := 0\<rparr>))"

definition MysqlSession_Initiate ::
    "'db gorm \<Rightarrow> (string \<rightharpoonup> 'db MysqlHandler) \<Rightarrow> int \<Rightarrow> configs \<Rightarrow> 'db Database instance_entry \<Rightarrow> MysqlProvider \<Rightarrow>
     (string option \<times> MysqlProvider \<times> 'db Database instance_entry) outcome" where
  "MysqlSession_Initiate G databaseHandlers maxAge config inst m =
     (case inst of
        NoEntry \<Rightarrow> Inr (mysql_failed ''empty database instance'', m, inst)
      | OtherType \<Rightarrow> Inr (mysql_failed ''invaild database instance'', m, inst)
      | Pointer None \<Rightarrow>
          (case database_lookup ''mysql'' databaseHandlers of
             Inl e \<Rightarrow> Inr (mysql_failed e, m, inst)
           | Inr _ \<Rightarrow> Inl NilDereference)
      | Pointer (Some d) \<Rightarrow>
          (case Database_Use databaseHandlers ''mysql'' d of
             (Some e, d1) \<Rightarrow> Inr (mysql_failed e, m, Pointer (Some d1))
           | (None, d1) \<Rightarrow>
               (case Database_NewHandler G ''session'' (Some (Some (mysql_handler_settings config))) d1 of
                  Inl p \<Rightarrow> Inl p
                | Inr (Inl e, _, d2) \<Rightarrow> Inr (mysql_failed e, m\<lparr>mp_handle := None\<rparr>, Pointer (Some d2))
                | Inr (Inr i, _, d2) \<Rightarrow>
                    (case mysql_max_age config (m\<lparr>mp_handle := Some i\<rparr>) of
                       (e, m1) \<Rightarrow> Inr (e, m1, Pointer (Some d2))))))"

text \<open>The tables of the sessions; \<open>GOther 1\<close> stands for \<^verbatim>\<open>&MysqlStore{}\<close>.\<close>

definition session_table_options :: string where
  "session_table_options = ''ENGINE=InnoDB DEFAULT CHARSET=utf8mb4 COLLATE=utf8mb4_unicode_ci comment '' @ [CHR 0x27] @
     [CHR 0xE4, CHR 0xBC, CHR 0x9A, CHR 0xE8, CHR 0xAF, CHR 0x9D] @ [CHR 0x27]"

definition set_and_migrate :: "'db gorm \<Rightarrow> nat \<Rightarrow> 'db MysqlHandler \<Rightarrow> 'db MysqlHandler" where
  "set_and_migrate G i h =
     (case Mysql_Set G ''gorm:table_options'' (GString session_table_options) i h of
        (j, h1) \<Rightarrow> snd (Mysql_AutoMigrate G [GOther 1] j h1))"

definition MysqlSession_AutoMigrate :: "'db gorm \<Rightarrow> MysqlProvider \<Rightarrow> 'db MysqlHandler \<Rightarrow> 'db MysqlHandler" where
  "MysqlSession_AutoMigrate G m h =
     (case mp_handle m of
        None \<Rightarrow> h
      | Some i \<Rightarrow> set_and_migrate G i (snd (Mysql_Debug G i h)))"

definition MysqlSession_Recreate :: "'db gorm \<Rightarrow> MysqlProvider \<Rightarrow> 'db MysqlHandler \<Rightarrow> 'db MysqlHandler" where
  "MysqlSession_Recreate G m h =
     (case mp_handle m of
        None \<Rightarrow> h
      | Some i \<Rightarrow>
          (let h1 = snd (Mysql_Debug G i h) in
           set_and_migrate G i (if Mysql_HasTable G (GOther 1) i h1 then snd (Mysql_DropTable G [GOther 1] i h1) else h1)))"

subsection \<open>Starting the redis provider\<close>

definition redis_failed :: "string \<Rightarrow> string option" where
  "redis_failed e = Some (''session redis: initiate error: '' @ e)"

definition redis_handler_settings :: "configs \<Rightarrow> configs" where
  "redis_handler_settings config = [''KVSTORE_REDIS_DATABASE'' \<mapsto> entry_or_nil config ''KVSTORE_REDIS_DATABASE'',
     ''KVSTORE_REDIS_KEY_PREFIX'' \<mapsto> entry_or_nil config ''KVSTORE_REDIS_KEY_PREFIX'']"

definition RedisProvider_Initiate ::
    "providers \<Rightarrow> int \<Rightarrow> configs \<Rightarrow> Kvstore instance_entry \<Rightarrow> RedisSession option \<Rightarrow>
     (string option \<times> RedisSession option \<times> Kvstore instance_entry) outcome" where
  "RedisProvider_Initiate kvHandlers maxAge config inst m =
     (case inst of
        NoEntry \<Rightarrow> Inr (redis_failed ''empty kvstore instance'', m, inst)
      | OtherType \<Rightarrow> Inr (redis_failed ''invaild kvstore instance'', m, inst)
      | Pointer None \<Rightarrow>
          (case Kvstore_lookup ''redis'' kvHandlers of
             Inl e \<Rightarrow> Inr (redis_failed e, m, inst)
           | Inr _ \<Rightarrow> Inl NilDereference)
      | Pointer (Some k) \<Rightarrow>
          (case RedisSession_Initiate maxAge (redis_handler_settings config) kvHandlers k of
             Inl p \<Rightarrow> Inl p
           | Inr (Inl e, k1) \<Rightarrow> Inr (Some e, m, Pointer (Some k1))
           | Inr (Inr r, k1) \<Rightarrow> Inr (None, Some r, Pointer (Some k1))))"

subsection \<open>Using a provider\<close>

text \<open>
  The packages below and the registries, as the code finds them: gorm, the handlers of databases and key-value stores,
  the registered session providers, and the \<^verbatim>\<open>Initiate\<close> of a provider from elsewhere.
\<close>

record 'db session_env =
  seGorm :: "'db gorm"
  seDatabases :: "string \<rightharpoonup> 'db MysqlHandler"
  seKvstores :: providers
  seProviders :: "string \<rightharpoonup> session_kind"
  seOther :: "nat \<Rightarrow> int \<Rightarrow> configs \<Rightarrow> string option"

text \<open>\<^verbatim>\<open>s.handler.Initiate\<close>: what runs depends on the handler, whatever the name it is registered under.\<close>

definition provider_Initiate ::
    "'db session_env \<Rightarrow> int \<Rightarrow> configs \<Rightarrow> 'db Database instance_entry \<Rightarrow> Kvstore instance_entry \<Rightarrow> session_provider \<Rightarrow>
     (string option \<times> session_provider \<times> 'db Database instance_entry \<times> Kvstore instance_entry) outcome" where
  "provider_Initiate E maxAge config db kv p =
     (case p of
        PMysql m \<Rightarrow>
          (case MysqlSession_Initiate (seGorm E) (seDatabases E) maxAge config db m of
             Inl x \<Rightarrow> Inl x
           | Inr (e, m1, db1) \<Rightarrow> Inr (e, PMysql m1, db1, kv))
      | PRedis m \<Rightarrow>
          (case RedisProvider_Initiate (seKvstores E) maxAge config kv m of
             Inl x \<Rightarrow> Inl x
           | Inr (e, m1, kv1) \<Rightarrow> Inr (e, PRedis m1, db, kv1))
      | POther n \<Rightarrow> Inr (seOther E n maxAge config, p, db, kv))"

definition pointee :: "'c option \<Rightarrow> 'c instance_entry \<Rightarrow> 'c option" where
  "pointee old inst = (case inst of Pointer c \<Rightarrow> c | _ \<Rightarrow> old)"

definition initiate_provider ::
    "'db session_env \<Rightarrow> configs \<Rightarrow> 'db Database instance_entry \<Rightarrow> Kvstore instance_entry \<Rightarrow> 'db SessionComponent \<Rightarrow> session_provider \<Rightarrow>
     (string option \<times> 'db SessionComponent) outcome" where
  "initiate_provider E config db kv c p =
     (case provider_Initiate E (MaxAge (scSession c)) config db kv p of
        Inl x \<Rightarrow> Inl x
      | Inr (e, p1, db1, kv1) \<Rightarrow>
          Inr (annotate (''session: use '' @ quoted (scProvider c) @ '' provider error'') e,
               c\<lparr>scHandler := Some p1, scDatabase := pointee (scDatabase c) db1, scKvstore := pointee (scKvstore c) kv1\<rparr>))"

text \<open>The getters of the configuration.\<close>

record session_conf =
  cfString :: "string \<Rightarrow> string"
  cfInt :: "string \<Rightarrow> int"
  cfInt64 :: "string \<Rightarrow> int"

definition session_redis_settings :: "session_conf \<Rightarrow> configs" where
  "session_redis_settings C = [''KVSTORE_REDIS_DATABASE'' \<mapsto> GInt (cfInt C ''SESSION_REDIS_DATABASE''),
     ''KVSTORE_REDIS_KEY_PREFIX'' \<mapsto> GString (cfString C ''SESSION_REDIS_KEY_PREFIX'')]"

definition session_mysql_settings :: "session_conf \<Rightarrow> configs" where
  "session_mysql_settings C =
     [''DATABASE_MYSQL_HOST'' \<mapsto> GString (cfString C ''DATABASE_MYSQL_HOST''),
      ''DATABASE_MYSQL_PORT'' \<mapsto> GString (cfString C ''DATABASE_MYSQL_PORT''),
      ''DATABASE_MYSQL_USER'' \<mapsto> GString (cfString C ''DATABASE_MYSQL_USER''),
      ''DATABASE_MYSQL_PASSWORD'' \<mapsto> GString (cfString C ''DATABASE_MYSQL_PASSWORD''),
      ''DATABASE_MYSQL_DATABASE'' \<mapsto> GString (cfString C ''SESSION_MYSQL_DATABASE''),
      ''DATABASE_MYSQL_TIMEOUT'' \<mapsto> GInt64 (cfInt64 C ''DATABASE_MYSQL_TIMEOUT''),
      ''DATABASE_MYSQL_MAX_OPEN_CONNS'' \<mapsto> GString (cfString C ''DATABASE_MYSQL_MAX_OPEN_CONNS''),
      ''DATABASE_MYSQL_MAX_IDLE_CONNS'' \<mapsto> GString (cfString C ''DATABASE_MYSQL_MAX_IDLE_CONNS'')]"

definition miss :: "string \<Rightarrow> string \<Rightarrow> string option" where
  "miss provider what = annotate (''session: use '' @ quoted provider @ '' provider error'') (Some (''session: miss '' @ what))"

definition Session_Use :: "'db session_env \<Rightarrow> session_conf \<Rightarrow> string \<Rightarrow> 'db SessionComponent \<Rightarrow> (string option \<times> 'db SessionComponent) outcome" where
  "Session_Use E C provider c =
     (case session_lookup provider (seProviders E) of
        Inl e \<Rightarrow> Inr (Some e, c)
      | Inr k \<Rightarrow>
          (let p = new_provider k; c1 = c\<lparr>scProvider := provider, scHandler := Some p\<rparr> in
           if provider = ''redis'' then
             (if cfString C ''SESSION_REDIS_KEY_PREFIX'' = '''' then Inr (miss provider ''redis key prefix'', c1)
              else initiate_provider E (session_redis_settings C) NoEntry (Pointer (scKvstore c)) c1 p)
           else if provider = ''mysql'' then
             (if cfString C ''SESSION_MYSQL_DATABASE'' = '''' then Inr (miss provider ''mysql database'', c1)
              else initiate_provider E (session_mysql_settings C) (Pointer (scDatabase c)) NoEntry c1 p)
           else Inr (None, c1)))"

definition startup_failed :: "'db SessionComponent \<Rightarrow> string \<Rightarrow> string option" where
  "startup_failed c e = annotate (''session: startup '' @ quoted (scProvider c) @ '' error'') (Some e)"

definition Session_OnStartup :: "'db session_env \<Rightarrow> session_conf \<Rightarrow> 'db SessionComponent \<Rightarrow> (string option \<times> 'db SessionComponent) outcome" where
  "Session_OnStartup E C c =
     (if scKvstore c = None then Inr (startup_failed c ''session: miss cache'', c)
      else if scDatabase c = None then Inr (startup_failed c ''session: miss database'', c)
      else (let c1 = c\<lparr>scProvider := cfString C ''SESSION_PROVIDER''\<rparr> in
        if scProvider c1 = '''' then Inr (startup_failed c1 ''session: miss provider'', c1)
        else (let c2 = c1\<lparr>scSession := (scSession c1)\<lparr>CookieName := cfString C ''SESSION_COOKIE_NAME''\<rparr>\<rparr> in
          if CookieName (scSession c2) = '''' then Inr (startup_failed c2 ''session: miss Cookie Name'', c2)
          else (let c3 = c2\<lparr>scSession := (scSession c2)\<lparr>MaxAge := cfInt64 C ''SESSION_MAX_AGE''\<rparr>\<rparr> in
            if MaxAge (scSession c3) = 0 then Inr (startup_failed c3 ''session: miss session max age'', c3)
            else (let c4 = c3\<lparr>scSession := (scSession c3)\<lparr>SessionIDLength := cfInt64 C ''SESSION_ID_LENGTH''\<rparr>\<rparr> in
              if SessionIDLength (scSession c4) = 0 then Inr (startup_failed c4 ''session: miss session id length'', c4)
              else (case Session_Use E C (scProvider c4) c4 of
                      Inl p \<Rightarrow> Inl p
                    | Inr (None, c5) \<Rightarrow> Inr (None, c5)
                    | Inr (Some e, c5) \<Rightarrow> Inr (startup_failed c5 e, c5)))))))"

definition NotExists :: "string \<Rightarrow> bool" where
  "NotExists e = (contains_str e ''session mysql: session not exists'' \<or> contains_str e ''session redis: session not exists'' \<or>
     contains_str e ''session: session does not exist'')"

subsection \<open>What starts and what does not\<close>

lemma timeout_number_refused:
  assumes "config ''DATABASE_MYSQL_TIMEOUT'' = Some (GInt64 t)"
  shows "\<exists>e. configure_mysql config = Inl e"
  unfolding configure_mysql_def
  by (auto simp: bind_sum_def my_string_def [of config "''DATABASE_MYSQL_TIMEOUT''"] assms split: sum.split)

lemma handler_settings_timeout:
  "(own ++ mysql_handler_settings (session_mysql_settings C)) ''DATABASE_MYSQL_TIMEOUT'' = Some (GInt64 (cfInt64 C ''DATABASE_MYSQL_TIMEOUT''))"
  by (simp add: mysql_handler_settings_def mysql_session_keys_def entry_or_nil_def session_mysql_settings_def)

lemma Database_Use_fresh:
  assumes "Database_Use handlers name d = (None, d1)"
  shows "\<exists>h. dbHandler d1 = Some h \<and> databases h = Some Map.empty"
  using assms by (auto simp: Database_Use_def Mysql_Initiate_def split: sum.splits)

lemma NewHandler_refused:
  assumes "dbHandler d = Some h" "databases h = Some Map.empty"
  shows "\<exists>e cfg. Database_NewHandler G name (Some (Some (mysql_handler_settings (session_mysql_settings C)))) d = Inr (Inl e, cfg, d)"
proof -
  obtain e where "configure_mysql ((case dbConfigs d of Some m \<Rightarrow> m | None \<Rightarrow> Map.empty) ++ mysql_handler_settings (session_mysql_settings C)) = Inl e"
    using timeout_number_refused handler_settings_timeout by blast
  then show ?thesis
    using assms by (auto simp: Database_NewHandler_def Mysql_GetHandler_def Mysql_NewHandler_def Let_def intro: exI [of _ d])
qed

lemma mysql_Initiate_fails:
  "\<exists>e m1 d1. MysqlSession_Initiate G handlers maxAge (session_mysql_settings C) (Pointer (Some d)) m = Inr (Some e, m1, Pointer (Some d1)) \<and>
     (handlers ''mysql'' \<noteq> None \<longrightarrow> (\<forall>name. \<exists>e. Database_GetHandler name d1 = Inr (Inl e)))"
proof (cases "Database_Use handlers ''mysql'' d")
  case (Pair r d1)
  show ?thesis
  proof (cases r)
    case None
    obtain h where h: "dbHandler d1 = Some h" "databases h = Some Map.empty"
      using Database_Use_fresh Pair None by blast
    then show ?thesis
      using NewHandler_refused [OF h, of G "''session''" C] Pair None
      by (auto simp: MysqlSession_Initiate_def mysql_failed_def Database_GetHandler_def Mysql_GetHandler_def)
  next
    case (Some e)
    then show ?thesis
      using Pair by (auto simp: MysqlSession_Initiate_def mysql_failed_def Database_Use_def database_lookup_def split: option.splits sum.splits)
  qed
qed

text \<open>The options every provider needs.\<close>

definition session_configured :: "session_conf \<Rightarrow> bool" where
  "session_configured C = (cfString C ''SESSION_COOKIE_NAME'' \<noteq> '''' \<and> cfInt64 C ''SESSION_MAX_AGE'' \<noteq> 0 \<and> cfInt64 C ''SESSION_ID_LENGTH'' \<noteq> 0)"

text \<open>The component as it is when the provider is started.\<close>

definition configured_with :: "session_conf \<Rightarrow> 'db SessionComponent \<Rightarrow> 'db SessionComponent" where
  "configured_with C c = c\<lparr>scProvider := cfString C ''SESSION_PROVIDER'', scSession := (scSession c)\<lparr>CookieName := cfString C ''SESSION_COOKIE_NAME'',
     MaxAge := cfInt64 C ''SESSION_MAX_AGE'', SessionIDLength := cfInt64 C ''SESSION_ID_LENGTH''\<rparr>\<rparr>"

lemma OnStartup_uses:
  assumes "scKvstore c \<noteq> None" "scDatabase c \<noteq> None" "cfString C ''SESSION_PROVIDER'' \<noteq> ''''" "session_configured C"
  shows "Session_OnStartup E C c =
    (case Session_Use E C (cfString C ''SESSION_PROVIDER'') (configured_with C c) of
       Inl p \<Rightarrow> Inl p
     | Inr (None, c5) \<Rightarrow> Inr (None, c5)
     | Inr (Some e, c5) \<Rightarrow> Inr (startup_failed c5 e, c5))"
  using assms by (auto simp: Session_OnStartup_def session_configured_def configured_with_def Let_def)

lemma OnStartup_refuses:
  assumes "\<not> (scKvstore c \<noteq> None \<and> scDatabase c \<noteq> None \<and> cfString C ''SESSION_PROVIDER'' \<noteq> '''' \<and> session_configured C)"
  shows "\<exists>e c1. Session_OnStartup E C c = Inr (Some e, c1)"
  using assms by (auto simp: Session_OnStartup_def session_configured_def Let_def startup_failed_def annotate_def)

text \<open>
  \<^bold>\<open>C40\<close>. Sessions in mysql never start: with the provider \<^verbatim>\<open>mysql\<close>, \<^verbatim>\<open>OnStartup\<close> returns an error for every configuration, since the
  component hands the timeout over as a number where the database takes only texts. When the attempt gets as far as the
  database, the database component has a new handler afterwards: no database that was open before is found any more.
\<close>

theorem mysql_sessions_never_start:
  assumes "cfString C ''SESSION_PROVIDER'' = ''mysql''" and "seProviders E ''mysql'' \<in> {None, Some KMysql}"
  shows "\<exists>e c1. Session_OnStartup E C c = Inr (Some e, c1) \<and>
    (session_configured C \<and> cfString C ''SESSION_MYSQL_DATABASE'' \<noteq> '''' \<and> scKvstore c \<noteq> None \<and> scDatabase c \<noteq> None \<and>
       seProviders E ''mysql'' \<noteq> None \<and> seDatabases E ''mysql'' \<noteq> None \<longrightarrow>
     (\<exists>d1. scDatabase c1 = Some d1 \<and> (\<forall>name. \<exists>e. Database_GetHandler name d1 = Inr (Inl e))))"
proof (cases "scKvstore c \<noteq> None \<and> scDatabase c \<noteq> None \<and> session_configured C")
  case False
  then show ?thesis using OnStartup_refuses [of c C E] assms(1) by auto
next
  case True
  then obtain d where d: "scDatabase c = Some d" by auto
  obtain e m1 d1 where run: "MysqlSession_Initiate (seGorm E) (seDatabases E) (cfInt64 C ''SESSION_MAX_AGE'') (session_mysql_settings C) (Pointer (Some d))
      \<lparr>mp_handle = None, mp_maxAge = 0\<rparr> = Inr (Some e, m1, Pointer (Some d1))"
    and gone: "seDatabases E ''mysql'' \<noteq> None \<longrightarrow> (\<forall>name. \<exists>e. Database_GetHandler name d1 = Inr (Inl e))"
    using mysql_Initiate_fails by blast
  have "\<exists>e c1. Session_Use E C ''mysql'' (configured_with C c) = Inr (Some e, c1) \<and>
      (seProviders E ''mysql'' \<noteq> None \<and> cfString C ''SESSION_MYSQL_DATABASE'' \<noteq> '''' \<longrightarrow> scDatabase c1 = Some d1)"
    using assms(2) run d
    by (auto simp: Session_Use_def session_lookup_def new_provider_def initiate_provider_def provider_Initiate_def
        miss_def annotate_def pointee_def configured_with_def Let_def)
  then show ?thesis
    using OnStartup_uses [of c C E] True assms(1) gone by (auto simp: startup_failed_def annotate_def)
qed

text \<open>An instance of the surroundings, to evaluate the model on: both databases and stores are there, and gorm opens anything.\<close>

definition demo_session_env :: "nat session_env" where
  "demo_session_env = \<lparr>seGorm = \<lparr>gOpen = (\<lambda>_. Inr 0), gCall = (\<lambda>_ db. db), gError = (\<lambda>_. None), gNewRecord = (\<lambda>_ _. False),
       gRecordNotFound = (\<lambda>_. False), gHasTable = (\<lambda>_ _. False), gSetMaxOpenConns = (\<lambda>_ db. db), gSetMaxIdleConns = (\<lambda>_ db. db)\<rparr>,
     seDatabases = [''mysql'' \<mapsto> NewMysqlHandler], seKvstores = [''redis'' \<mapsto> Redis_NewHandler],
     seProviders = snd (Session_Initiate '''' Map.empty), seOther = (\<lambda>_ _ _. None)\<rparr>"

definition demo_session_conf :: "string \<Rightarrow> session_conf" where
  "demo_session_conf provider = \<lparr>cfString = (\<lambda>key. if key = ''SESSION_PROVIDER'' then provider else ''x''), cfInt = (\<lambda>_. 1), cfInt64 = (\<lambda>_. 16)\<rparr>"

lemma demo_providers: "seProviders demo_session_env = [''mysql'' \<mapsto> KMysql, ''redis'' \<mapsto> KRedis]"
  by (simp add: demo_session_env_def Session_Initiate_def session_Register_def Let_def)

theorem mysql_sessions_never_start_witness:
  "\<exists>e c1. Session_OnStartup demo_session_env (demo_session_conf ''mysql'')
      (NewSession\<lparr>scDatabase := Some NewDatabase, scKvstore := Some (NewKvstore None)\<rparr>) = Inr (Some e, c1) \<and>
    (\<exists>d1. scDatabase c1 = Some d1 \<and> (\<forall>name. \<exists>e. Database_GetHandler name d1 = Inr (Inl e)))"
proof -
  let ?c = "NewSession\<lparr>scDatabase := Some NewDatabase, scKvstore := Some (NewKvstore None)\<rparr> :: nat SessionComponent"
  have "session_configured (demo_session_conf ''mysql'')" "cfString (demo_session_conf ''mysql'') ''SESSION_MYSQL_DATABASE'' \<noteq> ''''"
    "cfString (demo_session_conf ''mysql'') ''SESSION_PROVIDER'' = ''mysql''"
    by (simp_all add: session_configured_def demo_session_conf_def)
  moreover have "seDatabases demo_session_env ''mysql'' \<noteq> None" by (simp add: demo_session_env_def)
  ultimately show ?thesis
    using mysql_sessions_never_start [of "demo_session_conf ''mysql''" demo_session_env ?c] demo_providers by auto
qed

lemma session_pool:
  assumes "kv = kv_options getString getInt getBool ++ m" and "m ''KVSTORE_REDIS_HOST'' = None" "m ''KVSTORE_REDIS_PORT'' = None"
    "m ''KVSTORE_REDIS_PASSWORD'' = None" "m ''KVSTORE_REDIS_MAX_ACTIVE'' = None" "m ''KVSTORE_REDIS_MAX_IDLE'' = None" "m ''KVSTORE_REDIS_DEBUG'' = None"
  shows "configure_pool (kv ++ redis_handler_settings (session_redis_settings C)) =
    Inr \<lparr>Host = getString ''KVSTORE_REDIS_HOST'', Port = getString ''KVSTORE_REDIS_PORT'', Password = getString ''KVSTORE_REDIS_PASSWORD'',
         Database = cfInt C ''SESSION_REDIS_DATABASE'', KeyPrefix = cfString C ''SESSION_REDIS_KEY_PREFIX'', Debug = getBool ''KVSTORE_REDIS_DEBUG'',
         MaxIdle = getInt ''KVSTORE_REDIS_MAX_IDLE'', MaxActive = getInt ''KVSTORE_REDIS_MAX_ACTIVE''\<rparr>"
  using assms(2-)
  by (simp add: assms(1) configure_pool_def bind_sum_def set_string_def set_int_def set_bool_def redis_handler_settings_def entry_or_nil_def
      session_redis_settings_def kv_options_def empty_RedisPool_def map_add_def)

text \<open>
  \<^bold>\<open>C39\<close>. Sessions in redis do start: once the key-value store is initiated with a host, and the options of sessions are set,
  \<^verbatim>\<open>OnStartup\<close> succeeds, the sessions live as long as configured, in a pool on that host with the key prefix and the database
  number of the sessions, whatever the store itself is configured with, and the database is left alone. The store
  forgets the pools that were made before.
\<close>

theorem redis_sessions_start:
  assumes "kv_configs k = Some Map.empty" and "Kvstore_Initiate getString getInt getBool (seKvstores E) k = Inr (None, seKvstores E, k1)"
    and "getString ''KVSTORE_REDIS_HOST'' \<noteq> ''''"
    and "scKvstore c = Some k1" and "scDatabase c \<noteq> None" and "seProviders E ''redis'' = Some KRedis"
    and "cfString C ''SESSION_PROVIDER'' = ''redis''" and "session_configured C" and "cfString C ''SESSION_REDIS_KEY_PREFIX'' \<noteq> ''''"
  shows "\<exists>c1 pool k2. Session_OnStartup E C c = Inr (None, c1) \<and>
    scHandler c1 = Some (PRedis (Some \<lparr>rs_pool = pool, rs_maxAge = cfInt64 C ''SESSION_MAX_AGE''\<rparr>)) \<and>
    Host pool = getString ''KVSTORE_REDIS_HOST'' \<and> KeyPrefix pool = cfString C ''SESSION_REDIS_KEY_PREFIX'' \<and>
    Redis_Store.Database pool = cfInt C ''SESSION_REDIS_DATABASE'' \<and> scDatabase c1 = scDatabase c \<and>
    scKvstore c1 = Some k2 \<and> kv_handler k2 = Some (Some [''session'' \<mapsto> pool])"
proof -
  have k1: "kv_configs k1 = Some (kv_options getString getInt getBool)" and redis: "\<exists>h. seKvstores E ''redis'' = Some h"
    using assms(1,2)
    by (auto simp: Kvstore_Initiate_def Kvstore_Register_def Kvstore_Use_def Kvstore_lookup_def Let_def split: option.splits sum.splits if_splits)
  note pool = session_pool [of "kv_options getString getInt getBool" getString getInt getBool Map.empty C]
  have "\<exists>pool k2. RedisSession_Initiate (cfInt64 C ''SESSION_MAX_AGE'') (redis_handler_settings (session_redis_settings C)) (seKvstores E) k1 =
      Inr (Inr \<lparr>rs_pool = pool, rs_maxAge = cfInt64 C ''SESSION_MAX_AGE''\<rparr>, k2) \<and>
      Host pool = getString ''KVSTORE_REDIS_HOST'' \<and> KeyPrefix pool = cfString C ''SESSION_REDIS_KEY_PREFIX'' \<and>
      Redis_Store.Database pool = cfInt C ''SESSION_REDIS_DATABASE'' \<and> kv_handler k2 = Some (Some [''session'' \<mapsto> pool])"
    using redis k1 pool assms(3)
    by (auto simp: RedisSession_Initiate_def Kvstore_Use_def Kvstore_lookup_def Kvstore_NewHandler_def Kvstore_GetHandler_def
        RedisHandler_GetHandler_def RedisHandler_NewHandler_def Redis_Initiate_def Let_def)
  then have "\<exists>c1 pool k2. Session_Use E C ''redis'' (configured_with C c) = Inr (None, c1) \<and>
      scHandler c1 = Some (PRedis (Some \<lparr>rs_pool = pool, rs_maxAge = cfInt64 C ''SESSION_MAX_AGE''\<rparr>)) \<and>
      Host pool = getString ''KVSTORE_REDIS_HOST'' \<and> KeyPrefix pool = cfString C ''SESSION_REDIS_KEY_PREFIX'' \<and>
      Redis_Store.Database pool = cfInt C ''SESSION_REDIS_DATABASE'' \<and> scDatabase c1 = scDatabase c \<and>
      scKvstore c1 = Some k2 \<and> kv_handler k2 = Some (Some [''session'' \<mapsto> pool])"
    using assms(4,6,9)
    by (auto simp: Session_Use_def session_lookup_def new_provider_def initiate_provider_def provider_Initiate_def RedisProvider_Initiate_def
        annotate_def pointee_def configured_with_def Let_def)
  then show ?thesis using OnStartup_uses [of c C E] assms(4,5,7,8) by auto
qed

theorem redis_sessions_start_witness:
  "\<exists>k1 c1. Kvstore_Initiate (\<lambda>_. ''h'') (\<lambda>_. 0) (\<lambda>_. False) (seKvstores demo_session_env) (NewKvstore (Some Map.empty)) = Inr (None, seKvstores demo_session_env, k1) \<and>
     Session_OnStartup demo_session_env (demo_session_conf ''redis'') (NewSession\<lparr>scDatabase := Some NewDatabase, scKvstore := Some k1\<rparr>) = Inr (None, c1)"
proof -
  obtain k1 where k1: "Kvstore_Initiate (\<lambda>_. ''h'') (\<lambda>_. 0) (\<lambda>_. False) (seKvstores demo_session_env) (NewKvstore (Some Map.empty)) =
      Inr (None, seKvstores demo_session_env, k1)"
    by (simp add: demo_session_env_def Kvstore_Initiate_def Kvstore_Register_def Kvstore_Use_def Kvstore_lookup_def NewKvstore_def Let_def)
  have "session_configured (demo_session_conf ''redis'')" "cfString (demo_session_conf ''redis'') ''SESSION_REDIS_KEY_PREFIX'' \<noteq> ''''"
    "cfString (demo_session_conf ''redis'') ''SESSION_PROVIDER'' = ''redis''"
    by (simp_all add: session_configured_def demo_session_conf_def)
  then show ?thesis
    using redis_sessions_start [OF _ k1, of "NewSession\<lparr>scDatabase := Some NewDatabase, scKvstore := Some k1\<rparr>" "demo_session_conf ''redis''"] demo_providers k1
    by (auto simp: NewKvstore_def)
qed

end
