(* ===== verification/Log_Component.thy ===== *)
theory Log_Component
  imports Providers
begin

text \<open>
  \<^verbatim>\<open>src/logger/protocol.go\<close> and \<^verbatim>\<open>src/logger/tick.go\<close>: the logger component, which reads the configurations of logs, describes
  their targets in a JSON text and sets up a logger for each, and the handler that keeps loggers and targets by name. The
  logging package, the configuration of an object from JSON and the operating system are arguments. Enumerations are the
  integers Go makes them; their tables of names are walked in the arbitrary order of Go maps, which is an argument.
\<close>

subsection \<open>Names\<close>

definition FormatterNames :: "(int \<times> string) list" where
  "FormatterNames = [(0, ''Default''), (1, ''Raw''), (2, ''Sys'')]"

definition WriterNames :: "(int \<times> string) list" where
  "WriterNames = [(0, ''unknown''), (1, ''stdout''), (2, ''stderr''), (3, ''discard'')]"

definition TypeNames :: "(int \<times> string) list" where
  "TypeNames = [(0, ''unknown''), (1, ''file''), (2, ''console'')]"

definition LevelNames :: "(int \<times> string) list" where
  "LevelNames = [(7, ''debug''), (6, ''info''), (5, ''notice''), (4, ''warning''), (3, ''error''), (2, ''critical''), (1, ''alert''), (0, ''emergency'')]"

definition Formatter_String :: "int \<Rightarrow> string" where
  "Formatter_String w = (case map_of FormatterNames w of Some n \<Rightarrow> n | None \<Rightarrow> ''Default'')"

definition Writer_String :: "int \<Rightarrow> string" where
  "Writer_String w = (case map_of WriterNames w of Some n \<Rightarrow> n | None \<Rightarrow> ''unknown'')"

definition Type_String :: "int \<Rightarrow> string" where
  "Type_String t = (case map_of TypeNames t of Some n \<Rightarrow> n | None \<Rightarrow> ''unknown'')"

definition Level_String :: "int \<Rightarrow> string" where
  "Level_String l = (case map_of LevelNames l of Some n \<Rightarrow> n | None \<Rightarrow> ''Unknown'')"

text \<open>The first entry of the walk that fits, or the default.\<close>

definition walk :: "(string \<Rightarrow> bool) \<Rightarrow> int \<Rightarrow> (int \<times> string) list \<Rightarrow> int" where
  "walk fits dflt names = (case find (\<lambda>(_, n). fits n) names of Some (k, _) \<Rightarrow> k | None \<Rightarrow> dflt)"

definition StringToFormatter :: "(int \<times> string) list \<Rightarrow> string \<Rightarrow> int" where
  "StringToFormatter order name = walk (\<lambda>n. ToLower name = ToLower n) 0 order"

definition StringToWriter :: "(int \<times> string) list \<Rightarrow> string \<Rightarrow> int" where
  "StringToWriter order name = walk (\<lambda>n. n = ToLower name) 0 order"

definition StringToType :: "(int \<times> string) list \<Rightarrow> string \<Rightarrow> int" where
  "StringToType order name = walk (\<lambda>n. n = ToLower name) 0 order"

definition max_level :: "(int \<times> string) list \<Rightarrow> string \<Rightarrow> int" where
  "max_level order name = walk (\<lambda>n. n = ToLower name) 7 order"

subsection \<open>The handler of loggers and targets\<close>

text \<open>The levels of the logging package.\<close>

datatype lib_level = LibEmergency | LibAlert | LibCritical | LibError | LibWarning | LibNotice | LibInfo | LibDebug

record 'tgt logger =
  lgTargets :: "'tgt list"
  lgMaxLevel :: lib_level
  lgCallStackDepth :: int
  lgCallStackFilter :: string
  lgFormatter :: int
  lgBufferSize :: int
  lgOpen :: bool

text \<open>The maps are nil before \<^verbatim>\<open>Initiate\<close>. A logger is kept under one name, so the name stands for the pointer.\<close>

record 'tgt TickHandler =
  Loggers :: "(string \<rightharpoonup> 'tgt logger) option"
  Targets :: "(string \<rightharpoonup> 'tgt) option"

definition NewTickHandler :: "'tgt TickHandler" where
  "NewTickHandler = \<lparr>Loggers = None, Targets = None\<rparr>"

definition Tick_Initiate :: "'tgt TickHandler \<Rightarrow> 'tgt TickHandler" where
  "Tick_Initiate h = \<lparr>Loggers = Some Map.empty, Targets = Some Map.empty\<rparr>"

definition logger_missing :: "string \<Rightarrow> string" where
  "logger_missing name = ''logger: get '' @ quoted name @ '' logger error: logger not exists''"

definition Tick_GetLogger :: "string \<Rightarrow> 'tgt TickHandler \<Rightarrow> string + 'tgt logger" where
  "Tick_GetLogger name h =
     (case Loggers h of
        None \<Rightarrow> Inl (logger_missing name)
      | Some m \<Rightarrow> (case m name of None \<Rightarrow> Inl (logger_missing name) | Some l \<Rightarrow> Inr l))"

text \<open>\<open>fresh\<close> is what \<^verbatim>\<open>libLogger.NewLogger()\<close> returns; without a map the answer is nil.\<close>

definition Tick_NewLogger :: "'tgt logger \<Rightarrow> string \<Rightarrow> 'tgt TickHandler \<Rightarrow> 'tgt logger option \<times> 'tgt TickHandler" where
  "Tick_NewLogger fresh name h =
     (case Loggers h of
        None \<Rightarrow> (None, h)
      | Some m \<Rightarrow>
          (case Tick_GetLogger name h of
             Inr l \<Rightarrow> (Some l, h)
           | Inl _ \<Rightarrow> (Some fresh, h\<lparr>Loggers := Some (m(name \<mapsto> fresh))\<rparr>)))"

definition target_missing :: "string \<Rightarrow> string" where
  "target_missing name = ''logger: get '' @ quoted name @ '' logger target error''"

definition Tick_GetLoggerTarget :: "string \<Rightarrow> 'tgt TickHandler \<Rightarrow> string + 'tgt" where
  "Tick_GetLoggerTarget name h =
     (case Targets h of
        None \<Rightarrow> Inl (target_missing name)
      | Some m \<Rightarrow> (case m name of None \<Rightarrow> Inl (target_missing name) | Some t \<Rightarrow> Inr t))"

text \<open>\<open>unmarshal\<close> makes a target of the kind from the JSON text.\<close>

definition Tick_RegisterLoggerTarget ::
    "(string \<Rightarrow> string \<Rightarrow> string + 'tgt) \<Rightarrow> string \<Rightarrow> string \<Rightarrow> string \<Rightarrow> 'tgt TickHandler \<Rightarrow> (string option \<times> 'tgt TickHandler) outcome" where
  "Tick_RegisterLoggerTarget unmarshal name kind cfg h =
     (let failed = (\<lambda>e. annotate (''logger: register '' @ quoted name @ '' logger target error'') (Some e)) in
      case Tick_GetLoggerTarget name h of
        Inr _ \<Rightarrow> Inr (None, h)
      | Inl _ \<Rightarrow>
          if kind \<in> {''file'', ''console'', ''mail'', ''network''}
          then (case unmarshal kind cfg of
                  Inl e \<Rightarrow> Inr (failed e, h)
                | Inr t \<Rightarrow>
                    (case Targets h of
                       None \<Rightarrow> Inl (ExplicitPanic ''assignment to entry in nil map'')
                     | Some m \<Rightarrow> Inr (None, h\<lparr>Targets := Some (m(name \<mapsto> t))\<rparr>)))
          else Inr (failed (''logger: invalid target '' @ quoted ([CHR 0x22] @ kind @ [CHR 0x22])), h))"

text \<open>The setters look the logger up and change it in place.\<close>

definition with_logger :: "string \<Rightarrow> ('tgt logger \<Rightarrow> 'tgt logger) \<Rightarrow> 'tgt TickHandler \<Rightarrow> string option \<times> 'tgt TickHandler" where
  "with_logger name f h =
     (case Tick_GetLogger name h of
        Inl e \<Rightarrow> (Some e, h)
      | Inr l \<Rightarrow> (None, h\<lparr>Loggers := map_option (\<lambda>m. m(name \<mapsto> f l)) (Loggers h)\<rparr>))"

definition Tick_SetLoggerTarget :: "string \<Rightarrow> string \<Rightarrow> 'tgt TickHandler \<Rightarrow> string option \<times> 'tgt TickHandler" where
  "Tick_SetLoggerTarget name targetName h =
     (case Tick_GetLogger name h of
        Inl e \<Rightarrow> (Some e, h)
      | Inr _ \<Rightarrow>
          (case Tick_GetLoggerTarget targetName h of
             Inl e \<Rightarrow> (Some e, h)
           | Inr t \<Rightarrow> with_logger name (\<lambda>l. l\<lparr>lgTargets := lgTargets l @ [t]\<rparr>) h))"

definition Tick_SetLoggerMaxLevel :: "string \<Rightarrow> lib_level \<Rightarrow> 'tgt TickHandler \<Rightarrow> string option \<times> 'tgt TickHandler" where
  "Tick_SetLoggerMaxLevel name lvl = with_logger name (\<lambda>l. l\<lparr>lgMaxLevel := lvl\<rparr>)"

definition Tick_SetLoggerCallStackDepth :: "string \<Rightarrow> int \<Rightarrow> 'tgt TickHandler \<Rightarrow> string option \<times> 'tgt TickHandler" where
  "Tick_SetLoggerCallStackDepth name d = with_logger name (\<lambda>l. l\<lparr>lgCallStackDepth := d\<rparr>)"

definition Tick_SetLoggerCallStackFilter :: "string \<Rightarrow> string \<Rightarrow> 'tgt TickHandler \<Rightarrow> string option \<times> 'tgt TickHandler" where
  "Tick_SetLoggerCallStackFilter name f = with_logger name (\<lambda>l. l\<lparr>lgCallStackFilter := f\<rparr>)"

definition Tick_SetLoggerFormatter :: "string \<Rightarrow> int \<Rightarrow> 'tgt TickHandler \<Rightarrow> string option \<times> 'tgt TickHandler" where
  "Tick_SetLoggerFormatter name f = with_logger name (\<lambda>l. l\<lparr>lgFormatter := f\<rparr>)"

definition Tick_SetLoggerBufferSize :: "string \<Rightarrow> int \<Rightarrow> 'tgt TickHandler \<Rightarrow> string option \<times> 'tgt TickHandler" where
  "Tick_SetLoggerBufferSize name b = with_logger name (\<lambda>l. l\<lparr>lgBufferSize := b\<rparr>)"

definition Tick_OpenLogger :: "string \<Rightarrow> 'tgt TickHandler \<Rightarrow> string option \<times> 'tgt TickHandler" where
  "Tick_OpenLogger name = with_logger name (\<lambda>l. l\<lparr>lgOpen := True\<rparr>)"

definition Tick_CloseLogger :: "string \<Rightarrow> 'tgt TickHandler \<Rightarrow> string option \<times> 'tgt TickHandler" where
  "Tick_CloseLogger name = with_logger name (\<lambda>l. l\<lparr>lgOpen := False\<rparr>)"

text \<open>\<^verbatim>\<open>Logger.SetLoggerMaxLevel\<close> translates the level.\<close>

definition lib_level_of :: "int \<Rightarrow> lib_level" where
  "lib_level_of l =
     (if l = 0 then LibEmergency else if l = 1 then LibAlert else if l = 2 then LibCritical else if l = 3 then LibError
      else if l = 4 then LibWarning else if l = 5 then LibNotice else if l = 6 then LibInfo else LibDebug)"

subsection \<open>The component\<close>

record log_config =
  lcName :: string
  lcFormatter :: string
  lcType :: string
  lcFileName :: string
  lcFileRotate :: string
  lcFileBackupCount :: string
  lcWriter :: string
  lcMaxLevel :: string

record log_desc =
  ldName :: string
  ldFormatter :: int
  ldType :: int
  ldFileName :: string
  ldFileRotate :: bool
  ldFileBackupCount :: int
  ldWriter :: int
  ldMaxLevel :: int

text \<open>The orders in which the four tables are walked.\<close>

record walks =
  wkFormatters :: "(int \<times> string) list"
  wkWriters :: "(int \<times> string) list"
  wkTypes :: "(int \<times> string) list"
  wkLevels :: "(int \<times> string) list"

text \<open>
  One configuration of a log: the error of a count that is no number comes from \<^verbatim>\<open>strconv\<close>, its text is an argument. The branch
  for \<^verbatim>\<open>ParseBool\<close> is only taken for the two texts it reads.
\<close>

definition read_log :: "(string \<Rightarrow> num_error \<Rightarrow> string) \<Rightarrow> walks \<Rightarrow> log_config \<Rightarrow> string + log_desc" where
  "read_log show_num wk c =
     (let lvl = max_level (wkLevels wk) (lcMaxLevel c);
          rotate = (lcFileRotate c = ''true'')
      in case (if lcFileBackupCount c = '''' then Inr (- 1) else ParseInt (lcFileBackupCount c) 64) of
           Inl e \<Rightarrow> Inl (show_num (lcFileBackupCount c) e)
         | Inr count \<Rightarrow>
             (let ty = StringToType (wkTypes wk) (lcType c);
                  fm = StringToFormatter (wkFormatters wk) (lcFormatter c)
              in if ty = 1
                 then Inr \<lparr>ldName = lcName c, ldFormatter = fm, ldType = 1, ldFileName = lcFileName c, ldFileRotate = rotate,
                        ldFileBackupCount = count, ldWriter = 0, ldMaxLevel = lvl\<rparr>
                 else if ty = 2
                 then Inr \<lparr>ldName = lcName c, ldFormatter = fm, ldType = 2, ldFileName = '''', ldFileRotate = False, ldFileBackupCount = 0,
                        ldWriter = StringToWriter (wkWriters wk) (lcWriter c), ldMaxLevel = lvl\<rparr>
                 else Inl (''logger: invalid log type '' @ quoted (Type_String ty))))"

text \<open>A nil configuration is skipped; the first that cannot be read ends the loop.\<close>

fun read_logs :: "(string \<Rightarrow> num_error \<Rightarrow> string) \<Rightarrow> walks \<Rightarrow> log_config option list \<Rightarrow> string + log_desc list" where
  "read_logs sn wk [] = Inr []"
| "read_logs sn wk (None # cs) = read_logs sn wk cs"
| "read_logs sn wk (Some c # cs) =
     (case read_log sn wk c of
        Inl e \<Rightarrow> Inl e
      | Inr l \<Rightarrow> map_sum id (\<lambda>ls. l # ls) (read_logs sn wk cs))"

text \<open>
  The operating system: \<^verbatim>\<open>filepath.Abs\<close>, the error of \<^verbatim>\<open>os.Stat\<close> other than that a file is missing, the error of
  \<^verbatim>\<open>os.Create\<close>. The state is the set of files.
\<close>

record log_os =
  osAbs :: "string \<Rightarrow> string + string"
  osStat :: "string \<Rightarrow> string option"
  osCreate :: "string \<Rightarrow> string option"

definition nl :: string where "nl = [CHR 0x0A]"
definition dq :: string where "dq = [CHR 0x22]"
definition tabbed :: "string \<Rightarrow> string" where "tabbed s = nl @ [CHR 0x09] @ s"

definition file_json :: "string \<Rightarrow> log_desc \<Rightarrow> string" where
  "file_json path l =
     nl @ dq @ ldName l @ dq @ '':{'' @ tabbed (dq @ ''type'' @ dq @ '': '' @ dq @ ldName l @ ''FileTarget'' @ dq @ '','') @
     tabbed (dq @ ''FileName'' @ dq @ '':'' @ dq @ path @ dq @ '','') @
     tabbed (dq @ ''Rotate'' @ dq @ '': '' @ (if ldFileRotate l then ''true'' else ''false'') @ '','') @
     tabbed (dq @ ''BackupCount'' @ dq @ '': '' @ dec_int (if ldFileBackupCount l = 0 then - 1 else ldFileBackupCount l) @ '','') @
     tabbed (dq @ ''MaxBytes'' @ dq @ '':'' @ dec_int 4194304) @ nl @ ''}''"

definition console_json :: "log_desc \<Rightarrow> string" where
  "console_json l =
     nl @ dq @ ldName l @ dq @ '':{'' @ tabbed (dq @ ''type'' @ dq @ '': '' @ dq @ ldName l @ ''ConsoleTarget'' @ dq @ '','') @
     tabbed (dq @ ''WriterName'' @ dq @ '':'' @ dq @ Writer_String (ldWriter l) @ dq) @ nl @ ''}''"

datatype target_kind = NewFileTarget | NewConsoleTarget

text \<open>One log: its JSON text, the provider it needs, and the file that is made when it is missing.\<close>

definition describe_log :: "log_os \<Rightarrow> log_desc \<Rightarrow> string set \<Rightarrow> (string + string \<times> string \<times> target_kind) \<times> string set" where
  "describe_log sys l files =
     (if ldType l = 1
      then (case osAbs sys (ldFileName l) of
              Inl e \<Rightarrow> (Inl e, files)
            | Inr path \<Rightarrow>
                (case osStat sys path of
                   Some e \<Rightarrow> (Inl e, files)
                 | None \<Rightarrow>
                     (case (if path \<in> files then None else osCreate sys path) of
                        Some e \<Rightarrow> (Inl e, files)
                      | None \<Rightarrow> (Inr (file_json path l, ldName l @ ''FileTarget'', NewFileTarget), insert path files))))
      else (Inr (console_json l, ldName l @ ''ConsoleTarget'', NewConsoleTarget), files))"

fun describe_logs :: "log_os \<Rightarrow> log_desc list \<Rightarrow> string set \<Rightarrow> (string + (string \<times> string \<times> target_kind) list) \<times> string set" where
  "describe_logs sys [] files = (Inr [], files)"
| "describe_logs sys (l # ls) files =
     (case describe_log sys l files of
        (Inl e, files1) \<Rightarrow> (Inl e, files1)
      | (Inr d, files1) \<Rightarrow> map_prod (map_sum id (\<lambda>ds. d # ds)) id (describe_logs sys ls files1))"

definition log_json :: "string list \<Rightarrow> string" where
  "log_json ds = ''{'' @ (if ds \<noteq> [] then dq @ ''Targets'' @ dq @ '': {'' @ join_with '','' ds @ ''}'' else '''') @ ''}''"

text \<open>The logger of one log.\<close>

definition then_ok :: "string option \<times> 'h \<Rightarrow> ('h \<Rightarrow> string option \<times> 'h) \<Rightarrow> string option \<times> 'h" where
  "then_ok r k = (case r of (Some e, h) \<Rightarrow> (Some e, h) | (None, h) \<Rightarrow> k h)"

definition setup_log :: "'tgt logger \<Rightarrow> log_desc \<Rightarrow> 'tgt TickHandler \<Rightarrow> string option \<times> 'tgt TickHandler" where
  "setup_log fresh l h =
     (let h1 = snd (Tick_NewLogger fresh (ldName l) h) in
      then_ok (if ldFormatter l \<in> {0, 1, 2} then Tick_SetLoggerFormatter (ldName l) (ldFormatter l) h1 else (None, h1)) (\<lambda>h.
      then_ok (Tick_SetLoggerTarget (ldName l) (ldName l) h) (\<lambda>h.
      then_ok (Tick_SetLoggerMaxLevel (ldName l) (lib_level_of (ldMaxLevel l)) h) (Tick_OpenLogger (ldName l)))))"

fun setup_logs :: "'tgt logger \<Rightarrow> log_desc list \<Rightarrow> 'tgt TickHandler \<Rightarrow> string option \<times> 'tgt TickHandler" where
  "setup_logs fresh [] h = (None, h)"
| "setup_logs fresh (l # ls) h = then_ok (setup_log fresh l h) (setup_logs fresh ls)"

record 'tgt LoggerComponent =
  loProvider :: string
  loLogs :: "log_config option list option"
  loHandler :: "'tgt TickHandler option"

definition Logger_Use :: "(string \<rightharpoonup> 'tgt TickHandler) \<Rightarrow> string \<Rightarrow> 'tgt LoggerComponent \<Rightarrow> string option \<times> 'tgt LoggerComponent" where
  "Logger_Use handlers name lo =
     (case logger_lookup name handlers of
        Inl e \<Rightarrow> (Some e, lo)
      | Inr h \<Rightarrow> (None, lo\<lparr>loProvider := name, loHandler := Some (Tick_Initiate h)\<rparr>))"

text \<open>
  \<open>configure\<close> is the configuration of the handler from the JSON text with the given providers. Errors of the second loop are returned
  as they are, the others are annotated. After \<^verbatim>\<open>Use\<close> there is a handler.
\<close>

definition Logger_Initiate ::
    "(string \<Rightarrow> num_error \<Rightarrow> string) \<Rightarrow> walks \<Rightarrow> log_os \<Rightarrow> (string \<Rightarrow> (string \<times> target_kind) list \<Rightarrow> 'tgt TickHandler \<Rightarrow> string option \<times> 'tgt TickHandler) \<Rightarrow>
     'tgt logger \<Rightarrow> (string \<rightharpoonup> 'tgt TickHandler) \<Rightarrow> 'tgt LoggerComponent \<Rightarrow> string set \<Rightarrow>
     string option \<times> 'tgt LoggerComponent \<times> (string \<rightharpoonup> 'tgt TickHandler) \<times> string set" where
  "Logger_Initiate sn wk sys configure fresh handlers lo files =
     (let failed = annotate ''logger: initiate error'' in
      case logger_Register ''tick'' (Some NewTickHandler) handlers of
        (Some e, hs) \<Rightarrow> (failed (Some e), lo, hs, files)
      | (None, hs) \<Rightarrow>
          (case Logger_Use hs ''tick'' lo of
             (Some e, lo1) \<Rightarrow> (failed (Some e), lo1, hs, files)
           | (None, lo1) \<Rightarrow>
               (case loLogs lo1 of
                  None \<Rightarrow> (None, lo1, hs, files)
                | Some cs \<Rightarrow>
                    (case read_logs sn wk cs of
                       Inl e \<Rightarrow> (failed (Some e), lo1, hs, files)
                     | Inr ls \<Rightarrow>
                         (case describe_logs sys ls files of
                            (Inl e, files1) \<Rightarrow> (Some e, lo1, hs, files1)
                          | (Inr ds, files1) \<Rightarrow>
                              (case loHandler lo1 of
                                 None \<Rightarrow> (None, lo1, hs, files1)
                               | Some h \<Rightarrow>
                                   (case then_ok (configure (log_json (map fst ds)) (map snd ds) h) (setup_logs fresh ls) of
                                      (err, h1) \<Rightarrow> (failed err, lo1\<lparr>loHandler := Some h1\<rparr>, hs, files1))))))))"

subsection \<open>What holds\<close>

text \<open>Names are read back in any order of the tables and in any case of the letters.\<close>

lemma walk_unique:
  assumes "set names = set table" and "\<And>k n. (k, n) \<in> set table \<Longrightarrow> fits n \<Longrightarrow> k = kx" and "(kx, nx) \<in> set table" and "fits nx"
  shows "walk fits dflt names = kx"
proof -
  obtain k n where kn: "find (\<lambda>(_, n). fits n) names = Some (k, n)"
    using assms(1,3,4) by (cases "find (\<lambda>(_, n). fits n) names") (auto simp: find_None_iff)
  then have "(k, n) \<in> set names" "fits n" by (auto simp: find_Some_iff dest: nth_mem)
  then show ?thesis using assms(1,2) kn by (auto simp: walk_def)
qed

text \<open>The names of the four tables, in any order of the walk.\<close>

definition walks_ok :: "walks \<Rightarrow> bool" where
  "walks_ok wk = (set (wkFormatters wk) = set FormatterNames \<and> set (wkWriters wk) = set WriterNames \<and>
     set (wkTypes wk) = set TypeNames \<and> set (wkLevels wk) = set LevelNames)"

lemma name_tables_lower:
  "ToLower ''Default'' = ''default''" "ToLower ''Raw'' = ''raw''" "ToLower ''Sys'' = ''sys''"
  by code_simp+

lemma StringToFormatter_cases:
  assumes "walks_ok wk"
  shows "StringToFormatter (wkFormatters wk) name =
    (if ToLower name = ''raw'' then 1 else if ToLower name = ''sys'' then 2 else 0)"
proof -
  have names: "set (wkFormatters wk) = set FormatterNames" using assms by (simp add: walks_ok_def)
  consider "ToLower name = ''default''" | "ToLower name = ''raw''" | "ToLower name = ''sys''"
    | "ToLower name \<notin> {''default'', ''raw'', ''sys''}" by blast
  then show ?thesis
  proof cases
    case 1
    then show ?thesis unfolding StringToFormatter_def
      by (subst walk_unique [OF names, where kx = 0 and nx = "''Default''"]) (auto simp: FormatterNames_def name_tables_lower simp del: ToLower_Cons)
  next
    case 2
    then show ?thesis unfolding StringToFormatter_def
      by (subst walk_unique [OF names, where kx = 1 and nx = "''Raw''"]) (auto simp: FormatterNames_def name_tables_lower simp del: ToLower_Cons)
  next
    case 3
    then show ?thesis unfolding StringToFormatter_def
      by (subst walk_unique [OF names, where kx = 2 and nx = "''Sys''"]) (auto simp: FormatterNames_def name_tables_lower simp del: ToLower_Cons)
  next
    case 4
    then have "find (\<lambda>(_, n). ToLower name = ToLower n) (wkFormatters wk) = None"
      by (auto simp: find_None_iff names FormatterNames_def name_tables_lower simp del: ToLower_Cons)
    then show ?thesis using 4 by (simp add: StringToFormatter_def walk_def)
  qed
qed

lemma max_level_named:
  assumes "walks_ok wk" and "(k, ToLower name) \<in> set LevelNames"
  shows "max_level (wkLevels wk) name = k"
  unfolding max_level_def
proof (rule walk_unique [where table = LevelNames and nx = "ToLower name"])
  show "set (wkLevels wk) = set LevelNames" using assms(1) by (simp add: walks_ok_def)
next
  fix k' n assume "(k', n) \<in> set LevelNames" "n = ToLower name"
  then show "k' = k" using assms(2) by (auto simp: LevelNames_def)
qed (use assms(2) in simp_all)

text \<open>The logger that belongs to a log, with its target.\<close>

definition logger_for :: "'tgt logger \<Rightarrow> 'tgt \<Rightarrow> log_desc \<Rightarrow> 'tgt logger" where
  "logger_for fresh t l = fresh\<lparr>lgFormatter := ldFormatter l, lgTargets := lgTargets fresh @ [t], lgMaxLevel := lib_level_of (ldMaxLevel l), lgOpen := True\<rparr>"

lemma setup_log_new:
  assumes "setup_log fresh l h = (None, h1)" and "Loggers h = Some m" and "m (ldName l) = None" and "ldFormatter l \<in> {0, 1, 2}"
  shows "\<exists>T t. Targets h = Some T \<and> T (ldName l) = Some t \<and> h1 = h\<lparr>Loggers := Some (m(ldName l \<mapsto> logger_for fresh t l))\<rparr>"
  using assms
  by (auto simp: setup_log_def Tick_NewLogger_def Tick_GetLogger_def Tick_SetLoggerFormatter_def with_logger_def then_ok_def Tick_SetLoggerTarget_def
      Tick_GetLoggerTarget_def Tick_SetLoggerMaxLevel_def Tick_OpenLogger_def logger_for_def Let_def split: option.splits)

lemma setup_logs_new:
  assumes "setup_logs fresh ls h = (None, h1)" and "Loggers h = Some m" and "distinct (map ldName ls)"
    and "\<forall>l \<in> set ls. m (ldName l) = None \<and> ldFormatter l \<in> {0, 1, 2}"
  shows "Targets h1 = Targets h \<and> (\<exists>m1. Loggers h1 = Some m1 \<and> (\<forall>n. n \<notin> ldName ` set ls \<longrightarrow> m1 n = m n) \<and>
    (\<forall>l \<in> set ls. \<exists>T t. Targets h = Some T \<and> T (ldName l) = Some t \<and> m1 (ldName l) = Some (logger_for fresh t l)))"
  using assms
proof (induction ls arbitrary: h m)
  case (Cons l ls)
  obtain h2 where s: "setup_log fresh l h = (None, h2)" "setup_logs fresh ls h2 = (None, h1)"
    using Cons.prems(1) by (auto simp: then_ok_def split: prod.splits option.splits)
  obtain T t where t: "Targets h = Some T" "T (ldName l) = Some t" "h2 = h\<lparr>Loggers := Some (m(ldName l \<mapsto> logger_for fresh t l))\<rparr>"
    using setup_log_new [OF s(1) Cons.prems(2)] Cons.prems(4) by auto
  have rest: "Loggers h2 = Some (m(ldName l \<mapsto> logger_for fresh t l))" "distinct (map ldName ls)"
      "\<forall>x \<in> set ls. (m(ldName l \<mapsto> logger_for fresh t l)) (ldName x) = None \<and> ldFormatter x \<in> {0, 1, 2}"
    using Cons.prems(3,4) by (auto simp: t(3)) (metis image_eqI)+
  from Cons.IH [OF s(2) rest] obtain m1 where m1: "Targets h1 = Targets h2" "Loggers h1 = Some m1"
      "\<forall>n. n \<notin> ldName ` set ls \<longrightarrow> m1 n = (m(ldName l \<mapsto> logger_for fresh t l)) n"
      "\<forall>x \<in> set ls. \<exists>T t. Targets h2 = Some T \<and> T (ldName x) = Some t \<and> m1 (ldName x) = Some (logger_for fresh t x)" by blast
  have "m1 (ldName l) = Some (logger_for fresh t l)" using m1(3) Cons.prems(3) by simp
  moreover have "Targets h2 = Targets h" by (simp add: t(3))
  ultimately show ?case using m1 t(1,2) by auto
qed simp

lemma read_logs_formatters:
  "read_logs sn wk cs = Inr ls \<Longrightarrow> walks_ok wk \<Longrightarrow> \<forall>l \<in> set ls. ldFormatter l \<in> {0, 1, 2}"
proof (induction sn wk cs arbitrary: ls rule: read_logs.induct)
  case (3 sn wk c cs)
  then obtain l ls1 where "read_log sn wk c = Inr l" "read_logs sn wk cs = Inr ls1" "ls = l # ls1"
    by (auto simp: map_sum_def split: sum.splits)
  moreover have "ldFormatter l \<in> {0, 1, 2}" if "read_log sn wk c = Inr l"
    using that 3(3) by (auto simp: read_log_def Let_def StringToFormatter_cases split: sum.splits if_splits)
  ultimately show ?case using 3(1,3) by auto
qed auto


text \<open>An example: one console log, and a configuration that makes a target for every provider it is given.\<close>

definition demo_walks :: walks where
  "demo_walks = \<lparr>wkFormatters = rev FormatterNames, wkWriters = WriterNames, wkTypes = TypeNames, wkLevels = LevelNames\<rparr>"

definition demo_log :: log_config where
  "demo_log = \<lparr>lcName = ''app'', lcFormatter = ''RAW'', lcType = ''console'', lcFileName = '''', lcFileRotate = '''', lcFileBackupCount = '''',
     lcWriter = ''stdout'', lcMaxLevel = ''Warning''\<rparr>"

definition demo_configure :: "string \<Rightarrow> (string \<times> target_kind) list \<Rightarrow> nat TickHandler \<Rightarrow> string option \<times> nat TickHandler" where
  "demo_configure json ps h = (None, h\<lparr>Targets := Some [''app'' \<mapsto> length json]\<rparr>)"

definition demo_logger :: "nat logger" where
  "demo_logger = \<lparr>lgTargets = [], lgMaxLevel = LibDebug, lgCallStackDepth = 0, lgCallStackFilter = '''', lgFormatter = 0, lgBufferSize = 0, lgOpen = False\<rparr>"

lemma demo_read: "read_logs (\<lambda>_ _. '''') demo_walks [None, Some demo_log] =
  Inr [\<lparr>ldName = ''app'', ldFormatter = 1, ldType = 2, ldFileName = '''', ldFileRotate = False, ldFileBackupCount = 0, ldWriter = 1, ldMaxLevel = 4\<rparr>]"
  by code_simp


end
