(* ===== verification/Engine_Services.thy ===== *)
theory Engine_Services
  imports Engine Log_Component Session_Cookie
begin

text \<open>
  What an engine offers while it runs (\<^verbatim>\<open>src/ltick.go\<close>, \<^verbatim>\<open>src/server.go\<close>, \<^verbatim>\<open>src/logger/protocol.go\<close>): the handlers that come
  with a server and the credentials of routes, the request a proxy sends on, loggers by name, the values of the
  engine's context, the start of all servers, and the rounds of the goroutine that refreshes the configuration.
\<close>

subsection \<open>Credentials of routes\<close>

text \<open>
  The part of a request and of a response that these handlers touch. \<^verbatim>\<open>SetBasicAuth\<close> of the standard library writes the
  header of the request it is called on.
\<close>

record exchange =
  exAuthorization :: "string option"
  exContentType :: string
  exServed :: "nat list"

definition SetBasicAuth :: "string \<Rightarrow> string \<Rightarrow> exchange \<Rightarrow> exchange" where
  "SetBasicAuth user pass x = x\<lparr>exAuthorization := Some (''Basic '' @ base64_encode (user @ '':'' @ pass))\<rparr>"

text \<open>A handler from elsewhere, by number: that it was served is noted.\<close>

definition serve_http :: "nat \<Rightarrow> exchange \<Rightarrow> exchange" where
  "serve_http h x = x\<lparr>exServed := exServed x @ [h]\<rparr>"

definition metricsHandler_Serve :: "nat \<Rightarrow> exchange \<Rightarrow> exchange" where
  "metricsHandler_Serve promHandler x = serve_http promHandler x"

definition pprofHandlerFunc_Serve :: "nat \<Rightarrow> exchange \<Rightarrow> exchange" where
  "pprofHandlerFunc_Serve f x = serve_http f (x\<lparr>exContentType := ''text/html''\<rparr>)"

definition pprofHandler_Serve :: "nat \<Rightarrow> ServerBasicAuth option \<Rightarrow> exchange \<Rightarrow> exchange" where
  "pprofHandler_Serve h basicAuth x =
     (let x1 = (case basicAuth of Some a \<Rightarrow> SetBasicAuth (Username a) (Username a) x | None \<Rightarrow> x)
      in serve_http h (x1\<lparr>exContentType := ''text/html''\<rparr>))"

text \<open>The end of a route: the credentials of the route, then its handler.\<close>

definition serve_route :: "ServerBasicAuth option \<Rightarrow> (exchange \<Rightarrow> exchange) \<Rightarrow> exchange \<Rightarrow> exchange" where
  "serve_route basicAuth h x =
     h (case basicAuth of Some a \<Rightarrow> SetBasicAuth (Username a) (ServerBasicAuth.Password a) x | None \<Rightarrow> x)"

text \<open>
  The credentials of a route protect nothing: with credentials set, the handler runs for every request and sees the
  configured credentials, whatever the client sent.
\<close>

theorem credentials_not_checked:
  "serve_route (Some a) h (x\<lparr>exAuthorization := sent\<rparr>) = serve_route (Some a) h (x\<lparr>exAuthorization := sent'\<rparr>)"
  "exServed (serve_route b (pprofHandler_Serve n b') x) = exServed x @ [n]"
  by (simp_all add: serve_route_def pprofHandler_Serve_def serve_http_def SetBasicAuth_def Let_def split: option.split)

subsection \<open>Proxies\<close>

record url =
  uScheme :: string
  uHost :: string
  uPath :: string
  uQuery :: string

record proxied =
  prURL :: url
  prHost :: string
  prRequestURI :: string

text \<open>\<^verbatim>\<open>director\<close>, with the request URI of the upstream.\<close>

definition director :: "url \<Rightarrow> string \<Rightarrow> proxied \<Rightarrow> proxied" where
  "director upstreamURL requestURI req =
     req\<lparr>prURL := (prURL req)\<lparr>uScheme := uScheme upstreamURL, uHost := uHost upstreamURL\<rparr>, prHost := uHost upstreamURL, prRequestURI := requestURI\<rparr>"

text \<open>
  \<^verbatim>\<open>Serve\<close> of a proxy: an error, or the request that the reverse proxy sends; \<open>parse\<close> is \<^verbatim>\<open>url.Parse\<close> with the request URI of
  its result.
\<close>

definition Proxy_Serve ::
    "((string \<times> string) list \<Rightarrow> (string \<times> string) list) \<Rightarrow> (string \<Rightarrow> string + url \<times> string) \<Rightarrow> ServerRouterProxy \<Rightarrow> string \<Rightarrow> string \<Rightarrow> proxied \<Rightarrow> string + proxied" where
  "Proxy_Serve order parse sp rawPath fragment req =
     (case proxy_upstream order sp (uPath (prURL req)) rawPath fragment (uQuery (prURL req)) of
        None \<Rightarrow> Inl ''ltick: upstream not match''
      | Some upstream \<Rightarrow> (case parse upstream of Inl e \<Rightarrow> Inl e | Inr (u, uri) \<Rightarrow> Inr (director u uri req)))"

text \<open>
  A proxied request goes to the host of the upstream with the path and the query of the original request: what the
  upstream says after its host, placeholders included, only reaches the field \<^verbatim>\<open>RequestURI\<close>, which is not sent.
\<close>

theorem proxy_keeps_path:
  assumes "Proxy_Serve order parse sp rawPath fragment req = Inr out"
  shows "uPath (prURL out) = uPath (prURL req) \<and> uQuery (prURL out) = uQuery (prURL req) \<and>
    (\<exists>upstream u uri. proxy_upstream order sp (uPath (prURL req)) rawPath fragment (uQuery (prURL req)) = Some upstream \<and>
       parse upstream = Inr (u, uri) \<and> uHost (prURL out) = uHost u \<and> prHost out = uHost u)"
  using assms by (auto simp: Proxy_Serve_def director_def split: option.splits sum.splits)

subsection \<open>Loggers\<close>

text \<open>The methods of the logger component pass on to its handler; without a handler they panic.\<close>

definition on_handler :: "('tgt TickHandler \<Rightarrow> 'r) \<Rightarrow> 'tgt LoggerComponent \<Rightarrow> 'r outcome" where
  "on_handler f lo = (case loHandler lo of None \<Rightarrow> Inl NilDereference | Some h \<Rightarrow> Inr (f h))"

definition changes_handler :: "('tgt TickHandler \<Rightarrow> 'r \<times> 'tgt TickHandler) \<Rightarrow> 'tgt LoggerComponent \<Rightarrow> ('r \<times> 'tgt LoggerComponent) outcome" where
  "changes_handler f lo =
     (case loHandler lo of None \<Rightarrow> Inl NilDereference | Some h \<Rightarrow> (case f h of (r, h1) \<Rightarrow> Inr (r, lo\<lparr>loHandler := Some h1\<rparr>)))"

definition Logger_GetLogger :: "string \<Rightarrow> 'tgt LoggerComponent \<Rightarrow> (string + 'tgt logger) outcome" where
  "Logger_GetLogger name = on_handler (Tick_GetLogger name)"

definition Logger_GetLoggerTarget :: "string \<Rightarrow> 'tgt LoggerComponent \<Rightarrow> (string + 'tgt) outcome" where
  "Logger_GetLoggerTarget name = on_handler (Tick_GetLoggerTarget name)"

definition Logger_NewLogger :: "'tgt logger \<Rightarrow> string \<Rightarrow> 'tgt LoggerComponent \<Rightarrow> ('tgt logger option \<times> 'tgt LoggerComponent) outcome" where
  "Logger_NewLogger fresh name = changes_handler (Tick_NewLogger fresh name)"

definition Logger_SetLoggerTarget :: "string \<Rightarrow> string \<Rightarrow> 'tgt LoggerComponent \<Rightarrow> (string option \<times> 'tgt LoggerComponent) outcome" where
  "Logger_SetLoggerTarget name targetName = changes_handler (Tick_SetLoggerTarget name targetName)"

definition Logger_SetLoggerCallStackDepth :: "string \<Rightarrow> int \<Rightarrow> 'tgt LoggerComponent \<Rightarrow> (string option \<times> 'tgt LoggerComponent) outcome" where
  "Logger_SetLoggerCallStackDepth name d = changes_handler (Tick_SetLoggerCallStackDepth name d)"

definition Logger_SetLoggerCallStackFilter :: "string \<Rightarrow> string \<Rightarrow> 'tgt LoggerComponent \<Rightarrow> (string option \<times> 'tgt LoggerComponent) outcome" where
  "Logger_SetLoggerCallStackFilter name f = changes_handler (Tick_SetLoggerCallStackFilter name f)"

definition Logger_SetLoggerFormatter :: "string \<Rightarrow> int \<Rightarrow> 'tgt LoggerComponent \<Rightarrow> (string option \<times> 'tgt LoggerComponent) outcome" where
  "Logger_SetLoggerFormatter name f = changes_handler (Tick_SetLoggerFormatter name f)"

definition Logger_SetLoggerBufferSize :: "string \<Rightarrow> int \<Rightarrow> 'tgt LoggerComponent \<Rightarrow> (string option \<times> 'tgt LoggerComponent) outcome" where
  "Logger_SetLoggerBufferSize name b = changes_handler (Tick_SetLoggerBufferSize name b)"

definition Logger_OpenLogger :: "string \<Rightarrow> 'tgt LoggerComponent \<Rightarrow> (string option \<times> 'tgt LoggerComponent) outcome" where
  "Logger_OpenLogger name = changes_handler (Tick_OpenLogger name)"

definition Logger_CloseLogger :: "string \<Rightarrow> 'tgt LoggerComponent \<Rightarrow> (string option \<times> 'tgt LoggerComponent) outcome" where
  "Logger_CloseLogger name = changes_handler (Tick_CloseLogger name)"

definition Logger_RegisterLoggerTarget ::
    "(string \<Rightarrow> string \<Rightarrow> string + 'tgt) \<Rightarrow> string \<Rightarrow> string \<Rightarrow> string \<Rightarrow> 'tgt LoggerComponent \<Rightarrow> (string option \<times> 'tgt LoggerComponent) outcome" where
  "Logger_RegisterLoggerTarget unmarshal name kind cfg lo =
     (case loHandler lo of
        None \<Rightarrow> Inl NilDereference
      | Some h \<Rightarrow> map_sum id (\<lambda>(e, h1). (e, lo\<lparr>loHandler := Some h1\<rparr>)) (Tick_RegisterLoggerTarget unmarshal name kind cfg h))"

text \<open>An engine finds loggers through the component \<^verbatim>\<open>Log\<close> of its registry; \<open>objects\<close> are the logger components among the objects.\<close>

datatype logger_error = NoComponent reg_error | WrongComponent | NoLogger string

definition Engine_GetLogger :: "(nat \<rightharpoonup> 'tgt LoggerComponent) \<Rightarrow> string \<Rightarrow> Engine \<Rightarrow> (logger_error + 'tgt logger) outcome" where
  "Engine_GetLogger objects name e =
     (case GetComponentByName ''Log'' (registry e) of
        Inl p \<Rightarrow> Inl p
      | Inr (Inl err) \<Rightarrow> Inr (Inl (NoComponent err))
      | Inr (Inr c) \<Rightarrow>
          (case objects (Impl c) of
             None \<Rightarrow> Inr (Inl WrongComponent)
           | Some lo \<Rightarrow> map_sum id (map_sum NoLogger id) (Logger_GetLogger name lo)))"

subsection \<open>Values of the context\<close>

text \<open>
  The values put into the engine's context, the last first. A key must be comparable, and nil is not allowed.
\<close>

fun context_key :: "goval \<Rightarrow> bool" where
  "context_key GNil = False"
| "context_key (GBytes _) = False"
| "context_key (GSlice _) = False"
| "context_key _ = True"

definition SetContextValue :: "goval \<Rightarrow> goval \<Rightarrow> (goval \<times> goval) list \<Rightarrow> (goval \<times> goval) list outcome" where
  "SetContextValue key val ctx = (if context_key key then Inr ((key, val) # ctx) else Inl (ExplicitPanic ''key is not comparable''))"

definition GetContextValue :: "goval \<Rightarrow> (goval \<times> goval) list \<Rightarrow> goval" where
  "GetContextValue key ctx = (case map_of ctx key of Some v \<Rightarrow> v | None \<Rightarrow> GNil)"

definition GetContextValueString :: "string \<Rightarrow> (goval \<times> goval) list \<Rightarrow> string" where
  "GetContextValueString key ctx =
     (let v = GetContextValue (GString key) ctx; v1 = (if v = GNil then GString '''' else v)
      in case v1 of GString s \<Rightarrow> s | _ \<Rightarrow> '''')"

lemma context_value_set:
  "SetContextValue k v ctx = Inr ctx1 \<Longrightarrow> GetContextValue k' ctx1 = (if k' = k then v else GetContextValue k' ctx)"
  by (auto simp: SetContextValue_def GetContextValue_def split: if_splits)

lemma context_string_set:
  "SetContextValue (GString k) v ctx = Inr ctx1 \<Longrightarrow>
     GetContextValueString k' ctx1 = (if k' = k then (case v of GString s \<Rightarrow> s | _ \<Rightarrow> '''') else GetContextValueString k' ctx)"
  by (auto simp: GetContextValueString_def context_value_set Let_def split: goval.split)

subsection \<open>Starting the servers\<close>

text \<open>
  The servers in the order in which the map is walked, each with whether it runs in the goroutine of the caller. A nil map is
  only reported.
\<close>

fun listen_loop :: "(string \<times> 'sv) list \<Rightarrow> nat \<Rightarrow> (string \<times> bool) list" where
  "listen_loop [] count = []"
| "listen_loop ((name, server) # rest) count = (name, count - 1 = 0) # listen_loop rest (count - 1)"

definition Engine_ListenAndServe :: "(string \<times> 'sv) list option \<Rightarrow> (string \<times> bool) list + string" where
  "Engine_ListenAndServe servers =
     (case servers of Some ss \<Rightarrow> Inl (listen_loop ss (length ss)) | None \<Rightarrow> Inr ''ltick: Server not set'')"

lemma listen_loop_eq: "listen_loop ss (length ss) = map (\<lambda>s. (fst s, False)) (butlast ss) @ (if ss = [] then [] else [(fst (last ss), True)])"
  by (induction ss) (auto split: prod.splits)

text \<open>
  Every server is started once, and exactly the last one that is walked holds the caller; with no server at all the call
  returns at once.
\<close>

theorem ListenAndServe_starts_all:
  assumes "Engine_ListenAndServe servers = Inl started"
  shows "\<exists>ss. servers = Some ss \<and> map fst started = map fst ss \<and> (\<forall>i < length started. snd (started ! i) \<longleftrightarrow> i = length ss - 1)"
proof -
  obtain ss where ss: "servers = Some ss" "started = listen_loop ss (length ss)"
    using assms by (auto simp: Engine_ListenAndServe_def split: option.splits)
  have eq: "started = map (\<lambda>s. (fst s, False)) (butlast ss) @ (if ss = [] then [] else [(fst (last ss), True)])"
    unfolding ss(2) by (rule listen_loop_eq)
  have "map fst started = map fst ss"
    unfolding eq by (cases ss rule: rev_cases) simp_all
  moreover have "\<forall>i < length started. snd (started ! i) \<longleftrightarrow> i = length ss - 1"
    unfolding eq by (cases ss rule: rev_cases) (auto simp: nth_append nth_Cons')
  ultimately show ?thesis using ss(1) by blast
qed

subsection \<open>Refreshing the configuration\<close>

text \<open>
  One round of the goroutine of \<^verbatim>\<open>loadConfig\<close>: \<open>mtime\<close> are the modification times of files, \<open>None\<close> where \<^verbatim>\<open>os.Stat\<close> fails. The time of
  the cached file is read once, at the start of the round.
\<close>

datatype round = Ends | Exits | Sleeps "string option list"

definition refresh_env :: "World \<Rightarrow> EngineOptions \<Rightarrow> string \<Rightarrow> int \<Rightarrow> (string \<rightharpoonup> int) \<Rightarrow> round" where
  "refresh_env w o1 cached t mtime =
     (if dotenvFile o1 = '''' then Sleeps []
      else case mtime (dotenvFile o1) of
             None \<Rightarrow> Ends
           | Some td \<Rightarrow>
               if t < td then
                 (if \<not> LoadEnvFile w (envPrefix o1) (dotenvFile o1) then Exits
                  else case loadCachedFileConfig w (configFile o1) cached of
                         (content, True) \<Rightarrow> Sleeps [content]
                       | (_, False) \<Rightarrow> Exits)
               else Sleeps [])"

definition refresh_round :: "World \<Rightarrow> Engine \<Rightarrow> (string \<rightharpoonup> int) \<Rightarrow> round" where
  "refresh_round w e mtime =
     (let o1 = Engine.options e; cached = cachedConfigFile e in
      case mtime cached of
        None \<Rightarrow> Ends
      | Some t \<Rightarrow>
          (case refresh_env w o1 cached t mtime of
             Ends \<Rightarrow> Ends
           | Exits \<Rightarrow> Exits
           | Sleeps done1 \<Rightarrow>
               (case mtime (configFile o1) of
                  None \<Rightarrow> Ends
                | Some tf \<Rightarrow>
                    if t < tf then
                      (case loadCachedFileConfig w (configFile o1) cached of
                         (content, True) \<Rightarrow> Sleeps (done1 @ [content])
                       | (_, False) \<Rightarrow> Exits)
                    else Sleeps done1)))"

text \<open>
  A round that goes on has written the cached file exactly when the template or the environment file is newer than it, and
  what it wrote last is the template with its placeholders filled in (nothing, when the template cannot be read or the cached file
  cannot be written). A file that cannot be examined ends the watch for good.
\<close>

lemma loadCached_content:
  "loadCachedFileConfig w file cached = (content, True) \<Longrightarrow>
     content = None \<or> (\<exists>tmpl. ReadAll w file = Some tmpl \<and> content = Some (substitute (GetString w) tmpl))"
  by (auto simp: loadCachedFileConfig_def Let_def split: option.splits if_splits)

theorem refresh_round_current:
  assumes "refresh_round w e mtime = Sleeps written"
  shows "\<exists>t tf. mtime (cachedConfigFile e) = Some t \<and> mtime (configFile (Engine.options e)) = Some tf \<and>
    (written \<noteq> [] \<longleftrightarrow> t < tf \<or> (dotenvFile (Engine.options e) \<noteq> '''' \<and> (\<exists>td. mtime (dotenvFile (Engine.options e)) = Some td \<and> t < td))) \<and>
    (\<forall>content \<in> set written. content = None \<or>
       (\<exists>tmpl. ReadAll w (configFile (Engine.options e)) = Some tmpl \<and> content = Some (substitute (GetString w) tmpl)))"
proof -
  obtain t tf where t: "mtime (cachedConfigFile e) = Some t" "mtime (configFile (Engine.options e)) = Some tf"
    using assms by (auto simp: refresh_round_def Let_def split: option.splits round.splits)
  obtain ws where ws: "refresh_env w (Engine.options e) (cachedConfigFile e) t mtime = Sleeps ws"
    using assms t by (auto simp: refresh_round_def Let_def split: round.splits)
  have env: "(ws \<noteq> [] \<longleftrightarrow> dotenvFile (Engine.options e) \<noteq> '''' \<and> (\<exists>td. mtime (dotenvFile (Engine.options e)) = Some td \<and> t < td)) \<and>
      (\<forall>content \<in> set ws. content = None \<or> (\<exists>tmpl. ReadAll w (configFile (Engine.options e)) = Some tmpl \<and> content = Some (substitute (GetString w) tmpl)))"
    using ws by (auto simp: refresh_env_def dest: loadCached_content split: if_splits option.splits prod.splits bool.splits)
  show ?thesis
  proof (cases "t < tf")
    case True
    then obtain c where c: "loadCachedFileConfig w (configFile (Engine.options e)) (cachedConfigFile e) = (c, True)" "written = ws @ [c]"
      using assms t ws by (auto simp: refresh_round_def Let_def split: prod.splits bool.splits)
    show ?thesis using t True env loadCached_content [OF c(1)] by (auto simp: c(2))
  next
    case False
    then have "written = ws" using assms t ws by (simp add: refresh_round_def Let_def)
    then show ?thesis using t False env by auto
  qed
qed

end
