(* ===== verification/Pointer_Types.thy ===== *)
theory Pointer_Types
  imports Prelude
begin

text \<open>
  The conversions between values and pointers of \<^verbatim>\<open>convert_types.go\<close>. The cells of a type are a list, an address is
  a position in it, a pointer an address or nil, an allocation appends. A slice of values is a window of the cells
  (its first address and its length), so that a pointer into a slice and the slice itself share their cells; a map is
  read in the order of its iteration. The six functions have one copy per type in the code; here each copy is an
  instance of a polymorphic function, and the locale \<open>pointer_type\<close> holds what the copies promise: the slice of
  pointers shares the cells of its source, the map of pointers has cells of its own, and converting back gives the
  values, with the zero value of the type for nil in a slice and no entry for nil in a map.
\<close>

type_synonym ptr = "nat option"

subsection \<open>The functions, for any type\<close>

text \<open>\<^verbatim>\<open>return &v\<close> of a parameter: a new cell.\<close>

definition type_New :: "'a list \<Rightarrow> 'a \<Rightarrow> 'a list \<times> ptr" where
  "type_New h v = (h @ [v], Some (length h))"

definition type_Value :: "'a \<Rightarrow> 'a list \<Rightarrow> ptr \<Rightarrow> 'a" where
  "type_Value zero h v = (case v of Some a \<Rightarrow> h ! a | None \<Rightarrow> zero)"

text \<open>\<^verbatim>\<open>dst[i] = &(src[i])\<close>: the address of the element itself.\<close>

definition type_Slice :: "nat \<times> nat \<Rightarrow> ptr list" where
  "type_Slice src = map (\<lambda>i. Some (fst src + i)) [0..<snd src]"

text \<open>The loop of \<^verbatim>\<open>ValueSlice\<close>: \<open>b\<close> is the address of \<^verbatim>\<open>dst[i]\<close>.\<close>

fun value_slice_loop :: "'a list \<Rightarrow> nat \<Rightarrow> ptr list \<Rightarrow> 'a list" where
  "value_slice_loop h b [] = h"
| "value_slice_loop h b (p # src) =
    value_slice_loop (case p of Some a \<Rightarrow> h[b := h ! a] | None \<Rightarrow> h) (Suc b) src"

definition type_ValueSlice :: "'a \<Rightarrow> 'a list \<Rightarrow> ptr list \<Rightarrow> 'a list \<times> (nat \<times> nat)" where
  "type_ValueSlice zero h src =
    (value_slice_loop (h @ replicate (length src) zero) (length h) src, (length h, length src))"

text \<open>\<^verbatim>\<open>v := val; dst[k] = &v\<close>: a new cell per entry.\<close>

fun type_Map :: "'a list \<Rightarrow> (string \<rightharpoonup> ptr) \<Rightarrow> (string \<times> 'a) list \<Rightarrow> 'a list \<times> (string \<rightharpoonup> ptr)" where
  "type_Map h dst [] = (h, dst)"
| "type_Map h dst ((k, val) # src) = (let (h', p) = type_New h val in type_Map h' (dst(k \<mapsto> p)) src)"

fun type_ValueMap :: "'a list \<Rightarrow> (string \<rightharpoonup> 'a) \<Rightarrow> (string \<times> ptr) list \<Rightarrow> string \<rightharpoonup> 'a" where
  "type_ValueMap h dst [] = dst"
| "type_ValueMap h dst ((k, val) # src) =
    type_ValueMap h (case val of Some a \<Rightarrow> dst(k \<mapsto> h ! a) | None \<Rightarrow> dst) src"

subsection \<open>The copies per type\<close>

text \<open>\<^verbatim>\<open>int\<close> has 64 bits; a time is seconds and nanoseconds, or \<open>None\<close> for \<^verbatim>\<open>time.Time{}\<close>.\<close>

definition String_ptr :: "string list \<Rightarrow> string \<Rightarrow> string list \<times> ptr" where
  "String_ptr h v = type_New h v"

definition StringValue :: "string list \<Rightarrow> ptr \<Rightarrow> string" where
  "StringValue h v = type_Value [] h v"

definition StringSlice :: "nat \<times> nat \<Rightarrow> ptr list" where
  "StringSlice src = type_Slice src"

definition StringValueSlice :: "string list \<Rightarrow> ptr list \<Rightarrow> string list \<times> (nat \<times> nat)" where
  "StringValueSlice h src = type_ValueSlice [] h src"

definition StringMap :: "string list \<Rightarrow> (string \<times> string) list \<Rightarrow> string list \<times> (string \<rightharpoonup> ptr)" where
  "StringMap h src = type_Map h Map.empty src"

definition StringValueMap :: "string list \<Rightarrow> (string \<times> ptr) list \<Rightarrow> string \<rightharpoonup> string" where
  "StringValueMap h src = type_ValueMap h Map.empty src"

definition Bool_ptr :: "bool list \<Rightarrow> bool \<Rightarrow> bool list \<times> ptr" where
  "Bool_ptr h v = type_New h v"

definition BoolValue :: "bool list \<Rightarrow> ptr \<Rightarrow> bool" where
  "BoolValue h v = type_Value False h v"

definition BoolSlice :: "nat \<times> nat \<Rightarrow> ptr list" where
  "BoolSlice src = type_Slice src"

definition BoolValueSlice :: "bool list \<Rightarrow> ptr list \<Rightarrow> bool list \<times> (nat \<times> nat)" where
  "BoolValueSlice h src = type_ValueSlice False h src"

definition BoolMap :: "bool list \<Rightarrow> (string \<times> bool) list \<Rightarrow> bool list \<times> (string \<rightharpoonup> ptr)" where
  "BoolMap h src = type_Map h Map.empty src"

definition BoolValueMap :: "bool list \<Rightarrow> (string \<times> ptr) list \<Rightarrow> string \<rightharpoonup> bool" where
  "BoolValueMap h src = type_ValueMap h Map.empty src"

definition Int_ptr :: "64 word list \<Rightarrow> 64 word \<Rightarrow> 64 word list \<times> ptr" where
  "Int_ptr h v = type_New h v"

definition IntValue :: "64 word list \<Rightarrow> ptr \<Rightarrow> 64 word" where
  "IntValue h v = type_Value 0 h v"

definition IntSlice :: "nat \<times> nat \<Rightarrow> ptr list" where
  "IntSlice src = type_Slice src"

definition IntValueSlice :: "64 word list \<Rightarrow> ptr list \<Rightarrow> 64 word list \<times> (nat \<times> nat)" where
  "IntValueSlice h src = type_ValueSlice 0 h src"

definition IntMap :: "64 word list \<Rightarrow> (string \<times> 64 word) list \<Rightarrow> 64 word list \<times> (string \<rightharpoonup> ptr)" where
  "IntMap h src = type_Map h Map.empty src"

definition IntValueMap :: "64 word list \<Rightarrow> (string \<times> ptr) list \<Rightarrow> string \<rightharpoonup> 64 word" where
  "IntValueMap h src = type_ValueMap h Map.empty src"

definition Int64_ptr :: "64 word list \<Rightarrow> 64 word \<Rightarrow> 64 word list \<times> ptr" where
  "Int64_ptr h v = type_New h v"

definition Int64Value :: "64 word list \<Rightarrow> ptr \<Rightarrow> 64 word" where
  "Int64Value h v = type_Value 0 h v"

definition Int64Slice :: "nat \<times> nat \<Rightarrow> ptr list" where
  "Int64Slice src = type_Slice src"

definition Int64ValueSlice :: "64 word list \<Rightarrow> ptr list \<Rightarrow> 64 word list \<times> (nat \<times> nat)" where
  "Int64ValueSlice h src = type_ValueSlice 0 h src"

definition Int64Map :: "64 word list \<Rightarrow> (string \<times> 64 word) list \<Rightarrow> 64 word list \<times> (string \<rightharpoonup> ptr)" where
  "Int64Map h src = type_Map h Map.empty src"

definition Int64ValueMap :: "64 word list \<Rightarrow> (string \<times> ptr) list \<Rightarrow> string \<rightharpoonup> 64 word" where
  "Int64ValueMap h src = type_ValueMap h Map.empty src"

definition Time_ptr :: "(int \<times> int) option list \<Rightarrow> (int \<times> int) option \<Rightarrow> (int \<times> int) option list \<times> ptr" where
  "Time_ptr h v = type_New h v"

definition TimeValue :: "(int \<times> int) option list \<Rightarrow> ptr \<Rightarrow> (int \<times> int) option" where
  "TimeValue h v = type_Value None h v"

definition TimeSlice :: "nat \<times> nat \<Rightarrow> ptr list" where
  "TimeSlice src = type_Slice src"

definition TimeValueSlice :: "(int \<times> int) option list \<Rightarrow> ptr list \<Rightarrow> (int \<times> int) option list \<times> (nat \<times> nat)" where
  "TimeValueSlice h src = type_ValueSlice None h src"

definition TimeMap :: "(int \<times> int) option list \<Rightarrow> (string \<times> (int \<times> int) option) list \<Rightarrow> (int \<times> int) option list \<times> (string \<rightharpoonup> ptr)" where
  "TimeMap h src = type_Map h Map.empty src"

definition TimeValueMap :: "(int \<times> int) option list \<Rightarrow> (string \<times> ptr) list \<Rightarrow> string \<rightharpoonup> (int \<times> int) option" where
  "TimeValueMap h src = type_ValueMap h Map.empty src"

text \<open>A floating-point number is a value of an abstract type, its zero an argument.\<close>

definition Float64_ptr :: "'f list \<Rightarrow> 'f \<Rightarrow> 'f list \<times> ptr" where
  "Float64_ptr h v = type_New h v"

definition Float64Value :: "'f \<Rightarrow> 'f list \<Rightarrow> ptr \<Rightarrow> 'f" where
  "Float64Value zero h v = type_Value zero h v"

definition Float64Slice :: "nat \<times> nat \<Rightarrow> ptr list" where
  "Float64Slice src = type_Slice src"

definition Float64ValueSlice :: "'f \<Rightarrow> 'f list \<Rightarrow> ptr list \<Rightarrow> 'f list \<times> (nat \<times> nat)" where
  "Float64ValueSlice zero h src = type_ValueSlice zero h src"

definition Float64Map :: "'f list \<Rightarrow> (string \<times> 'f) list \<Rightarrow> 'f list \<times> (string \<rightharpoonup> ptr)" where
  "Float64Map h src = type_Map h Map.empty src"

definition Float64ValueMap :: "'f list \<Rightarrow> (string \<times> ptr) list \<Rightarrow> string \<rightharpoonup> 'f" where
  "Float64ValueMap h src = type_ValueMap h Map.empty src"

subsection \<open>What the functions do\<close>

definition slice_read :: "'a list \<Rightarrow> nat \<times> nat \<Rightarrow> 'a list" where
  "slice_read h s = take (snd s) (drop (fst s) h)"

definition in_cells :: "'a list \<Rightarrow> ptr \<Rightarrow> bool" where
  "in_cells h p = (case p of Some a \<Rightarrow> a < length h | None \<Rightarrow> True)"

lemma in_cells_simps [simp]: "in_cells h None" "in_cells h (Some a) = (a < length h)"
  by (simp_all add: in_cells_def)

lemma type_Value_simps [simp]: "type_Value zero h None = zero" "type_Value zero h (Some a) = h ! a"
  by (simp_all add: type_Value_def)

lemma value_slice_loop_eq:
  "\<forall>p \<in> set src. in_cells h p \<Longrightarrow>
    value_slice_loop (h @ ys @ replicate (length src) zero) (length h + length ys) src
      = h @ ys @ map (type_Value zero h) src"
proof (induction src arbitrary: ys)
  case (Cons p src)
  have step: "(case p of Some a \<Rightarrow> (h @ ys @ replicate (length (p # src)) zero)
          [length h + length ys := (h @ ys @ replicate (length (p # src)) zero) ! a]
        | None \<Rightarrow> h @ ys @ replicate (length (p # src)) zero)
      = h @ (ys @ [type_Value zero h p]) @ replicate (length src) zero"
    using Cons.prems by (cases p) (simp_all add: list_update_append nth_append)
  have "value_slice_loop (h @ (ys @ [type_Value zero h p]) @ replicate (length src) zero)
      (length h + length (ys @ [type_Value zero h p])) src
      = h @ (ys @ [type_Value zero h p]) @ map (type_Value zero h) src"
    using Cons.prems by (intro Cons.IH) simp
  then show ?case by (simp only: value_slice_loop.simps step) simp
qed simp

lemma type_ValueSlice_eq:
  assumes "\<forall>p \<in> set src. in_cells h p"
  shows "type_ValueSlice zero h src = (h @ map (type_Value zero h) src, (length h, length src))"
  using value_slice_loop_eq [of src h "[]" zero] assms by (simp add: type_ValueSlice_def)

lemma type_Map_cells: "type_Map h dst src = (h', m) \<Longrightarrow> h' = h @ map snd src"
  by (induction src arbitrary: h dst) (force simp: type_New_def)+

lemma type_Map_other: "type_Map h dst src = (h', m) \<Longrightarrow> k \<notin> fst ` set src \<Longrightarrow> m k = dst k"
  by (induction src arbitrary: h dst) (auto simp: type_New_def)

lemma type_Map_entry:
  "type_Map h dst src = (h', m) \<Longrightarrow> distinct (map fst src) \<Longrightarrow> i < length src \<Longrightarrow>
    m (fst (src ! i)) = Some (Some (length h + i))"
proof (induction src arbitrary: h dst i)
  case (Cons e src)
  obtain k v where e: "e = (k, v)" by (cases e)
  have run: "type_Map (h @ [v]) (dst(k \<mapsto> Some (length h))) src = (h', m)"
    using Cons.prems(1) by (simp add: e type_New_def)
  show ?case
  proof (cases i)
    case 0
    then show ?thesis using type_Map_other [OF run, of k] Cons.prems(2) by (simp add: e)
  next
    case (Suc j)
    then show ?thesis using Cons.IH [OF run, of j] Cons.prems(2,3) by simp
  qed
qed simp

lemma type_ValueMap_other: "k \<notin> fst ` set src \<Longrightarrow> type_ValueMap h dst src k = dst k"
  by (induction src arbitrary: dst) (auto split: option.splits)

lemma type_ValueMap_eq:
  "distinct (map fst src) \<Longrightarrow> type_ValueMap h dst src k = (case map_of src k of
      Some (Some a) \<Rightarrow> Some (h ! a) | _ \<Rightarrow> dst k)"
proof (induction src arbitrary: dst)
  case (Cons e src)
  obtain k' p where e: "e = (k', p)" by (cases e)
  show ?case
  proof (cases "k = k'")
    case True
    then show ?thesis using Cons.prems by (cases p) (simp_all add: e type_ValueMap_other)
  next
    case False
    then show ?thesis using Cons by (cases p) (auto simp: e split: option.splits)
  qed
qed simp

subsection \<open>The contract of a type\<close>

locale pointer_type =
  fixes zero :: 'a
    and New :: "'a list \<Rightarrow> 'a \<Rightarrow> 'a list \<times> ptr"
    and Value :: "'a list \<Rightarrow> ptr \<Rightarrow> 'a"
    and Slice :: "nat \<times> nat \<Rightarrow> ptr list"
    and ValueSlice :: "'a list \<Rightarrow> ptr list \<Rightarrow> 'a list \<times> (nat \<times> nat)"
    and VMap :: "'a list \<Rightarrow> (string \<times> 'a) list \<Rightarrow> 'a list \<times> (string \<rightharpoonup> ptr)"
    and ValueMap :: "'a list \<Rightarrow> (string \<times> ptr) list \<Rightarrow> string \<rightharpoonup> 'a"
  assumes New_fresh: "New h v = (h @ [v], Some (length h))"
    and Value_nil: "Value h None = zero"
    and Value_cell: "Value h (Some a) = h ! a"
    and Slice_length: "length (Slice s) = snd s"
    and Slice_nth: "i < snd s \<Longrightarrow> Slice s ! i = Some (fst s + i)"
    and ValueSlice_copies: "\<forall>p \<in> set src. in_cells h p \<Longrightarrow>
      ValueSlice h src = (h @ map (Value h) src, (length h, length src))"
    and Map_cells: "VMap h kvs = (h', m) \<Longrightarrow> h' = h @ map snd kvs"
    and Map_entry: "VMap h kvs = (h', m) \<Longrightarrow> distinct (map fst kvs) \<Longrightarrow> i < length kvs \<Longrightarrow>
      m (fst (kvs ! i)) = Some (Some (length h + i))"
    and Map_other: "VMap h kvs = (h', m) \<Longrightarrow> k \<notin> fst ` set kvs \<Longrightarrow> m k = None"
    and ValueMap_reads: "distinct (map fst kps) \<Longrightarrow>
      ValueMap h kps k = (case map_of kps k of Some (Some a) \<Rightarrow> Some (h ! a) | _ \<Rightarrow> None)"
begin

lemma Value_New: "New h v = (h', p) \<Longrightarrow> Value h' p = v \<and> take (length h) h' = h"
  by (auto simp: New_fresh Value_cell)

lemma Slice_eq: "Slice s = map (\<lambda>i. Some (fst s + i)) [0..<snd s]"
  by (rule nth_equalityI) (simp_all add: Slice_length Slice_nth)

lemma Slice_reads:
  "fst s + snd s \<le> length h \<Longrightarrow> map (Value h) (Slice s) = slice_read h s"
  by (rule nth_equalityI) (simp_all add: Slice_eq slice_read_def Value_cell)

lemma ValueSlice_Slice:
  assumes "fst s + snd s \<le> length h" and "ValueSlice h (Slice s) = (h', s')"
  shows "slice_read h' s' = slice_read h s" and "length h \<le> fst s'"
proof -
  have "ValueSlice h (Slice s) = (h @ slice_read h s, (length h, snd s))"
  proof -
    have "\<forall>p \<in> set (Slice s). in_cells h p"
      using assms(1) by (auto simp: Slice_eq)
    then show ?thesis
      using assms(1) ValueSlice_copies [of "Slice s" h] by (simp add: Slice_reads Slice_length)
  qed
  then show "slice_read h' s' = slice_read h s" and "length h \<le> fst s'"
    using assms(2) by (auto simp: slice_read_def)
qed

text \<open>Writing an element of the source is seen through its pointer; the map of pointers has cells of its own.\<close>

lemma Slice_shares:
  "i < snd s \<Longrightarrow> fst s + snd s \<le> length h \<Longrightarrow> Value (h[fst s + i := v]) (Slice s ! i) = v"
  by (simp add: Slice_nth Value_cell)

lemma Map_own_cells:
  assumes "VMap h kvs = (h', m)" and "distinct (map fst kvs)" and "i < length kvs" and "a < length h"
  shows "\<exists>p. m (fst (kvs ! i)) = Some p \<and> Value (h'[a := v]) p = snd (kvs ! i)"
  using assms Map_entry [OF assms(1,2,3)] Map_cells [OF assms(1)]
  by (auto simp: Value_cell nth_append)

lemma ValueMap_Map:
  assumes run: "VMap h kvs = (h', m)" and d: "distinct (map fst kvs)"
    and order: "distinct (map fst kps)" "map_of kps = m"
  shows "ValueMap h' kps = map_of kvs"
proof
  fix k
  show "ValueMap h' kps k = map_of kvs k"
  proof (cases "k \<in> fst ` set kvs")
    case True
    then obtain i where i: "i < length kvs" "k = fst (kvs ! i)" by (metis imageE in_set_conv_nth)
    then have "map_of kvs k = Some (snd (kvs ! i))"
      using d by (metis map_of_eq_Some_iff nth_mem prod.collapse)
    then show ?thesis
      using i order Map_entry [OF run d i(1)] Map_cells [OF run] by (simp add: ValueMap_reads nth_append)
  next
    case False
    then show ?thesis
      using order Map_other [OF run] by (simp add: ValueMap_reads map_of_eq_None_iff [symmetric])
  qed
qed

end

lemma pointer_typeI:
  assumes "New = type_New" and "Value = type_Value zero" and "Slice = type_Slice"
    and "ValueSlice = type_ValueSlice zero" and "\<And>h. VMap h = type_Map h Map.empty"
    and "\<And>h. ValueMap h = type_ValueMap h Map.empty"
  shows "pointer_type zero New Value Slice ValueSlice VMap ValueMap"
  by unfold_locales
    (auto simp: assms type_New_def type_Slice_def type_ValueSlice_eq type_ValueMap_eq
      dest: type_Map_cells type_Map_entry type_Map_other split: option.splits)

interpretation strings: pointer_type "[] :: string" String_ptr StringValue StringSlice StringValueSlice StringMap StringValueMap
  by (rule pointer_typeI) (simp_all add: fun_eq_iff String_ptr_def StringValue_def StringSlice_def StringValueSlice_def StringMap_def StringValueMap_def)

interpretation bools: pointer_type "False :: bool" Bool_ptr BoolValue BoolSlice BoolValueSlice BoolMap BoolValueMap
  by (rule pointer_typeI) (simp_all add: fun_eq_iff Bool_ptr_def BoolValue_def BoolSlice_def BoolValueSlice_def BoolMap_def BoolValueMap_def)

interpretation ints: pointer_type "0 :: 64 word" Int_ptr IntValue IntSlice IntValueSlice IntMap IntValueMap
  by (rule pointer_typeI) (simp_all add: fun_eq_iff Int_ptr_def IntValue_def IntSlice_def IntValueSlice_def IntMap_def IntValueMap_def)

interpretation int64s: pointer_type "0 :: 64 word" Int64_ptr Int64Value Int64Slice Int64ValueSlice Int64Map Int64ValueMap
  by (rule pointer_typeI) (simp_all add: fun_eq_iff Int64_ptr_def Int64Value_def Int64Slice_def Int64ValueSlice_def Int64Map_def Int64ValueMap_def)

interpretation times: pointer_type "None :: (int \<times> int) option" Time_ptr TimeValue TimeSlice TimeValueSlice TimeMap TimeValueMap
  by (rule pointer_typeI) (simp_all add: fun_eq_iff Time_ptr_def TimeValue_def TimeSlice_def TimeValueSlice_def TimeMap_def TimeValueMap_def)

interpretation floats: pointer_type zero Float64_ptr "Float64Value zero" Float64Slice "Float64ValueSlice zero" Float64Map Float64ValueMap for zero
  by (rule pointer_typeI) (simp_all add: fun_eq_iff Float64_ptr_def Float64Value_def Float64Slice_def Float64ValueSlice_def Float64Map_def Float64ValueMap_def)

text \<open>
  A slice of pointers made from a slice of texts shares its elements: after an assignment to the source the
  pointer reads the new text, and converting back copies what is there at that moment.
\<close>

theorem StringSlice_shares:
  assumes "i < snd s" and "fst s + snd s \<le> length h"
    and "StringValueSlice (h[fst s + i := v]) (StringSlice s) = (h', s')"
  shows "StringValue (h[fst s + i := v]) (StringSlice s ! i) = v"
    and "slice_read h' s' = (slice_read h s)[i := v]"
proof -
  show "StringValue (h[fst s + i := v]) (StringSlice s ! i) = v"
    using assms by (simp add: strings.Slice_shares)
  have "slice_read h' s' = slice_read (h[fst s + i := v]) s"
    using assms strings.ValueSlice_Slice(1) [of s "h[fst s + i := v]" h' s'] by simp
  also have "\<dots> = (slice_read h s)[i := v]"
    using assms(1) by (simp add: slice_read_def drop_update_swap take_update_swap)
  finally show "slice_read h' s' = (slice_read h s)[i := v]" .
qed

text \<open>A map of times that is converted to pointers and back is the map it was, in every order of iteration.\<close>

theorem TimeMap_roundtrip:
  assumes "TimeMap h kvs = (h', m)" and "distinct (map fst kvs)"
    and "distinct (map fst kps)" and "map_of kps = m"
  shows "TimeValueMap h' kps = map_of kvs"
  using assms by (rule times.ValueMap_Map)

end
