(* ===== verification/Utility_Misc.thy ===== *)
theory Utility_Misc
  imports File_Upload
begin

text \<open>
  The remaining helpers of \<^verbatim>\<open>src/utility\<close>: copying and creating files (\<^verbatim>\<open>file.go\<close>), addresses (\<^verbatim>\<open>net.go\<close>), random texts
  (\<^verbatim>\<open>random.go\<close>) and hashes (\<^verbatim>\<open>hash.go\<close>). The disk is that of uploads; what the operating system refuses, how many bytes a
  read gives, random numbers and hash functions are arguments.
\<close>

subsection \<open>Copying a file\<close>

text \<open>
  What happens to the reads and writes of one copy: how many bytes a read at an offset gives at most, and where it or a
  write fails. A read gives at least one byte before the end of the file.
\<close>

record transfer =
  trChunk :: "nat \<Rightarrow> nat"
  trReadErr :: "nat \<Rightarrow> string option"
  trWriteErr :: "nat \<Rightarrow> string option"

definition BUFFERSIZE :: nat where "BUFFERSIZE = 1024"

definition file_read :: "transfer \<Rightarrow> string \<Rightarrow> nat \<Rightarrow> string" where
  "file_read tr content off = take (min BUFFERSIZE (max 1 (trChunk tr off))) (drop off content)"

definition content_of :: "Disk \<Rightarrow> string \<Rightarrow> string" where
  "content_of d p = (case Files d p of Some c \<Rightarrow> c | None \<Rightarrow> '''')"

definition file_append :: "string \<Rightarrow> string \<Rightarrow> Disk \<Rightarrow> Disk" where
  "file_append p b d = d\<lparr>Files := (Files d)(p \<mapsto> content_of d p @ b)\<rparr>"

text \<open>
  The loop, with the offset of the source and the count; it reads the source as it is at that moment. A loop on one and the
  same file would read what it writes and not end.
\<close>

partial_function (option) copy_file_loop ::
    "transfer \<Rightarrow> string \<Rightarrow> string \<Rightarrow> nat \<Rightarrow> 64 word \<Rightarrow> Disk \<Rightarrow> ((64 word \<times> string option) \<times> Disk) option" where
  "copy_file_loop tr src dst off cn d =
     (case trReadErr tr off of
        Some e \<Rightarrow> Some ((0, Some e), d)
      | None \<Rightarrow>
          (let b = file_read tr (content_of d src) off; cn1 = cn + of_nat (length b) in
           if b = '''' then Some ((cn1, None), d)
           else (case trWriteErr tr off of
                   Some e \<Rightarrow> Some ((0, Some e), d)
                 | None \<Rightarrow> copy_file_loop tr src dst (off + length b) cn1 (file_append dst b d))))"

definition CopyFile :: "OS \<Rightarrow> transfer \<Rightarrow> string \<Rightarrow> string \<Rightarrow> Disk \<Rightarrow> ((64 word \<times> string option) \<times> Disk) option" where
  "CopyFile os tr src dst d =
     (if statErr os src then Some ((0, Some (''stat '' @ src)), d)
      else if Files d src = None \<and> \<not> Dirs d src \<and> src \<noteq> ''/'' then Some ((0, Some (''stat '' @ src @ '': no such file or directory'')), d)
      else if Dirs d src \<or> src = ''/'' then Some ((0, Some (src @ '' is not a regular file'')), d)
      else (case openErr os src of
              Some e \<Rightarrow> Some ((0, Some e), d)
            | None \<Rightarrow>
                (case os_OpenFile os dst d of
                   Inl e \<Rightarrow> Some ((0, Some e), d)
                 | Inr d1 \<Rightarrow> copy_file_loop tr src dst 0 0 d1)))"

lemma file_read_Nil: "file_read tr c off = '''' \<longleftrightarrow> length c \<le> off"
  by (auto simp: file_read_def BUFFERSIZE_def min_def max_def)

lemma file_read_step:
  "take off c @ file_read tr c off = take (off + length (file_read tr c off)) c"
  unfolding file_read_def by (simp add: take_add [symmetric] min_def)

lemma copy_file_loop_copies:
  assumes "src \<noteq> dst" and "Files d src = Some c" and "Files d dst = Some (take off c)" and "off \<le> length c" and "cn = of_nat off"
  shows "\<exists>r d1. copy_file_loop tr src dst off cn d = Some (r, d1) \<and> Files d1 src = Some c \<and>
    (\<forall>p. p \<noteq> dst \<longrightarrow> Files d1 p = Files d p) \<and>
    (snd r = None \<longrightarrow> fst r = of_nat (length c) \<and> Files d1 dst = Some c) \<and> (snd r \<noteq> None \<longrightarrow> fst r = 0)"
  using assms
proof (induction "length c - off" arbitrary: off cn d rule: less_induct)
  case less
  let ?b = "file_read tr (content_of d src) off"
  have c: "content_of d src = c" using less.prems(2) by (simp add: content_of_def)
  consider (stop) "trReadErr tr off \<noteq> None \<or> ?b \<noteq> '''' \<and> trWriteErr tr off \<noteq> None" | (finished) "trReadErr tr off = None" "?b = ''''"
    | (more) "trReadErr tr off = None" "?b \<noteq> ''''" "trWriteErr tr off = None" by blast
  then show ?case
  proof cases
    case stop
    then show ?thesis using less.prems(2) by (cases "trReadErr tr off") (auto simp: copy_file_loop.simps [of tr src] Let_def)
  next
    case finished
    then have "off = length c" using less.prems(4) by (simp add: c file_read_Nil)
    then show ?thesis using finished less.prems by (auto simp: copy_file_loop.simps [of tr src] Let_def)
  next
    case more
    let ?d1 = "file_append dst ?b d"
    have off: "off + length ?b \<le> length c" using less.prems(4) by (auto simp: c file_read_def)
    have "\<exists>r d1. copy_file_loop tr src dst (off + length ?b) (cn + of_nat (length ?b)) ?d1 = Some (r, d1) \<and> Files d1 src = Some c \<and>
        (\<forall>p. p \<noteq> dst \<longrightarrow> Files d1 p = Files ?d1 p) \<and>
        (snd r = None \<longrightarrow> fst r = of_nat (length c) \<and> Files d1 dst = Some c) \<and> (snd r \<noteq> None \<longrightarrow> fst r = 0)"
    proof (rule less.hyps)
      show "length c - (off + length ?b) < length c - off" using more(2) off by (cases ?b) auto
    qed (use less.prems off in \<open>auto simp: file_append_def content_of_def file_read_step\<close>)
    then show ?thesis
      using more by (auto simp: copy_file_loop.simps [of tr src] Let_def file_append_def)
  qed
qed

text \<open>
  \<^verbatim>\<open>CopyFile\<close> always returns. When it reports no error, the copy has the bytes of the source and their number is returned, and
  nothing else on the disk changes; after an error the count is 0. Copied onto itself, a file is emptied without an error.
\<close>

theorem CopyFile_copies:
  assumes "Files d src = Some c"
  shows "\<exists>r d1. CopyFile os tr src dst d = Some (r, d1) \<and> (\<forall>p. p \<noteq> dst \<longrightarrow> Files d1 p = Files d p) \<and>
    (snd r = None \<longrightarrow> (if src = dst then fst r = 0 \<and> Files d1 src = Some '''' else fst r = of_nat (length c) \<and> Files d1 dst = Some c)) \<and>
    (snd r \<noteq> None \<longrightarrow> fst r = 0)"
proof (cases "statErr os src \<or> Dirs d src \<or> src = ''/'' \<or> openErr os src \<noteq> None \<or> (\<exists>e. os_OpenFile os dst d = Inl e)")
  case True
  then have "\<exists>e. CopyFile os tr src dst d = Some ((0, Some e), d)"
    using assms by (cases "openErr os src") (auto simp: CopyFile_def)
  then show ?thesis by force
next
  case False
  then obtain d1 where d1: "os_OpenFile os dst d = Inr d1" by (cases "os_OpenFile os dst d") auto
  then have files: "Files d1 = (Files d)(dst \<mapsto> '''')" by (rule os_OpenFile_files)
  have run: "CopyFile os tr src dst d = copy_file_loop tr src dst 0 0 d1" using False assms d1 by (auto simp: CopyFile_def)
  show ?thesis
  proof (cases "src = dst")
    case True
    then have "content_of d1 src = ''''" by (simp add: content_of_def files)
    then have "copy_file_loop tr src dst 0 0 d1 = Some ((0, trReadErr tr 0), d1)"
      by (subst copy_file_loop.simps) (simp add: file_read_def Let_def split: option.split)
    then show ?thesis using run files True by auto
  next
    case other: False
    then show ?thesis using copy_file_loop_copies [of src dst d1 c 0 0 tr] assms files unfolding run by auto
  qed
qed

theorem CopyFile_copies_witness:
  "\<exists>r d1. CopyFile \<lparr>statErr = (\<lambda>_. False), mkdirErr = (\<lambda>_. None), openErr = (\<lambda>_. None), closeErr = (\<lambda>_. None)\<rparr>
      \<lparr>trChunk = (\<lambda>_. 2), trReadErr = (\<lambda>_. None), trWriteErr = (\<lambda>_. None)\<rparr> ''a'' ''b''
      \<lparr>Files = [''a'' \<mapsto> ''xyz''], Dirs = (\<lambda>_. False)\<rparr> = Some (r, d1) \<and> Files d1 ''a'' = Some ''xyz''"
  using CopyFile_copies [of "\<lparr>Files = [''a'' \<mapsto> ''xyz''], Dirs = (\<lambda>_. False)\<rparr>" "''a''" "''xyz''"
      "\<lparr>statErr = (\<lambda>_. False), mkdirErr = (\<lambda>_. None), openErr = (\<lambda>_. None), closeErr = (\<lambda>_. None)\<rparr>"
      "\<lparr>trChunk = (\<lambda>_. 2), trReadErr = (\<lambda>_. None), trWriteErr = (\<lambda>_. None)\<rparr>" "''b''"] by fastforce

subsection \<open>Creating files\<close>

text \<open>
  A payload is the bytes it delivers and the error that ends it, if any. \<^verbatim>\<open>io.Copy\<close> takes all of it, \<^verbatim>\<open>io.CopyN\<close> a number of
  bytes; a payload that is too short is the error \<^verbatim>\<open>EOF\<close>.
\<close>

record payload =
  plBytes :: string
  plErr :: "string option"

definition io_CopyN :: "payload \<Rightarrow> int \<Rightarrow> string \<times> string option" where
  "io_CopyN pl n =
     (let w = take (nat n) (plBytes pl);
          err = (if nat n \<le> length (plBytes pl) then None else plErr pl)
      in if int (length w) = n then (w, None)
         else if int (length w) < n \<and> err = None then (w, Some ''EOF'')
         else (w, err))"

definition copy_payload :: "payload \<Rightarrow> int list \<Rightarrow> string \<times> string option" where
  "copy_payload pl sizes = (case sizes of sz # _ \<Rightarrow> io_CopyN pl sz | [] \<Rightarrow> (plBytes pl, plErr pl))"

definition create_error :: "string \<Rightarrow> string" where
  "create_error e = ''ltick utility: create temporary file error: '' @ e"

text \<open>The directory is made when it is not there; that it cannot be made is not looked at.\<close>

definition ensure_dir :: "OS \<Rightarrow> string \<Rightarrow> Disk \<Rightarrow> Disk" where
  "ensure_dir os dir d =
     (if Dirs d dir \<or> Files d dir \<noteq> None \<or> dir = ''/'' \<or> dir = ''.'' \<or> statErr os dir then d
      else case os_MkdirAll os dir d of Inl _ \<Rightarrow> d | Inr d1 \<Rightarrow> d1)"

text \<open>What follows the opening of the file \<open>p\<close>, an empty one, in both functions; \<open>seekErr\<close> is the failure of \<^verbatim>\<open>Seek\<close>.\<close>

definition fill_file :: "string option \<Rightarrow> payload \<Rightarrow> int list \<Rightarrow> string \<Rightarrow> Disk \<Rightarrow> (string + string) \<times> nat \<times> Disk" where
  "fill_file seekErr pl sizes p d =
     (case seekErr of
        Some e \<Rightarrow> (Inl (create_error e), 0, d)
      | None \<Rightarrow>
          (case copy_payload pl sizes of
             (w, Some e) \<Rightarrow> (Inl (create_error e), 0, file_append p w d)
           | (w, None) \<Rightarrow> (Inr p, length w, file_append p w d)))"

definition NewFile :: "OS \<Rightarrow> string option \<Rightarrow> string \<Rightarrow> payload \<Rightarrow> int list \<Rightarrow> Disk \<Rightarrow> (string + string) \<times> Disk" where
  "NewFile os seekErr filePath pl sizes d =
     (case os_OpenFile os filePath (ensure_dir os (path_Dir filePath) d) of
        Inl e \<Rightarrow> (Inl (create_error e), ensure_dir os (path_Dir filePath) d)
      | Inr d1 \<Rightarrow> (case fill_file seekErr pl sizes filePath d1 of (r, _, d2) \<Rightarrow> (r, d2)))"

text \<open>\<^verbatim>\<open>ioutil.TempFile\<close> creates a file under a name that is not taken; \<open>tempName\<close> is the name it finds, or its error.\<close>

definition NewTemporaryFile ::
    "OS \<Rightarrow> (string \<Rightarrow> string \<Rightarrow> Disk \<Rightarrow> string + string) \<Rightarrow> string option \<Rightarrow> string \<Rightarrow> string \<Rightarrow> payload \<Rightarrow> int list \<Rightarrow> Disk \<Rightarrow>
     (string + string) \<times> nat \<times> Disk" where
  "NewTemporaryFile os tempName seekErr temporaryPath prefix1 pl sizes d =
     (let d1 = ensure_dir os temporaryPath d in
      case tempName temporaryPath prefix1 d1 of
        Inl e \<Rightarrow> (Inl (create_error e), 0, d1)
      | Inr p \<Rightarrow> fill_file seekErr pl sizes p (d1\<lparr>Files := (Files d1)(p \<mapsto> '''')\<rparr>))"

lemma io_CopyN_ok:
  "snd (io_CopyN pl n) = None \<Longrightarrow>
     fst (io_CopyN pl n) = take (nat n) (plBytes pl) \<and> (0 \<le> n \<longrightarrow> int (length (fst (io_CopyN pl n))) = n)"
  by (auto simp: io_CopyN_def Let_def split: if_splits)

lemma ensure_dir_files [simp]: "Files (ensure_dir os dir d) = Files d"
  by (auto simp: ensure_dir_def os_MkdirAll_files split: sum.split)

lemma fill_file_ok:
  assumes "fill_file seekErr pl sizes p d = (Inr q, n, d1)" and "Files d p = Some ''''"
  shows "q = p \<and> n = length (content_of d1 p) \<and> Files d1 = (Files d)(p \<mapsto> fst (copy_payload pl sizes)) \<and> snd (copy_payload pl sizes) = None"
  using assms by (auto simp: fill_file_def file_append_def content_of_def split: option.splits prod.splits)

text \<open>
  A temporary file that is returned holds the payload, or exactly as many bytes of it as were asked for, under a name that was
  free; the size is that of the file, and every other file is as it was.
\<close>

theorem temporary_file_holds:
  assumes "\<forall>dir pre d' p. tempName dir pre d' = Inr p \<longrightarrow> Files d' p = None"
    and "NewTemporaryFile os tempName seekErr dir pre pl sizes d = (Inr p, n, d1)"
  shows "Files d p = None \<and> Files d1 = (Files d)(p \<mapsto> (case sizes of [] \<Rightarrow> plBytes pl | sz # _ \<Rightarrow> take (nat sz) (plBytes pl))) \<and>
    n = length (content_of d1 p) \<and> (\<forall>sz rest. sizes = sz # rest \<and> 0 \<le> sz \<longrightarrow> int n = sz)"
proof -
  obtain q where q: "tempName dir pre (ensure_dir os dir d) = Inr q"
    and fill: "fill_file seekErr pl sizes q ((ensure_dir os dir d)\<lparr>Files := (Files d)(q \<mapsto> '''')\<rparr>) = (Inr p, n, d1)"
    using assms(2) by (auto simp: NewTemporaryFile_def Let_def split: sum.splits)
  note ok = fill_file_ok [OF fill]
  have free: "Files d q = None" using assms(1) q by fastforce
  have copy: "fst (copy_payload pl sizes) = (case sizes of [] \<Rightarrow> plBytes pl | sz # _ \<Rightarrow> take (nat sz) (plBytes pl))"
    "\<forall>sz rest. sizes = sz # rest \<and> 0 \<le> sz \<longrightarrow> int (length (fst (copy_payload pl sizes))) = sz"
    using ok io_CopyN_ok [of pl "hd sizes"] by (auto simp: copy_payload_def split: list.splits)
  show ?thesis using ok free copy by (auto simp: content_of_def)
qed

theorem temporary_file_holds_witness:
  "\<exists>n d1. NewTemporaryFile \<lparr>statErr = (\<lambda>_. False), mkdirErr = (\<lambda>_. None), openErr = (\<lambda>_. None), closeErr = (\<lambda>_. None)\<rparr>
      (\<lambda>dir pre d. if Files d ''t/1'' = None then Inr ''t/1'' else Inl ''exists'') None ''t'' '''' \<lparr>plBytes = ''abc'', plErr = None\<rparr> [2]
      \<lparr>Files = Map.empty, Dirs = (\<lambda>_. False)\<rparr> = (Inr ''t/1'', n, d1) \<and> Files d1 ''t/1'' = Some ''ab'' \<and> n = 2"
proof -
  let ?os = "\<lparr>statErr = (\<lambda>_. False), mkdirErr = (\<lambda>_. None), openErr = (\<lambda>_. None), closeErr = (\<lambda>_. None)\<rparr> :: OS"
  let ?t = "\<lambda>(dir :: string) (pre :: string) d. if Files d ''t/1'' = None then Inr ''t/1'' else Inl ''exists'' :: string + string"
  let ?d = "\<lparr>Files = Map.empty, Dirs = (\<lambda>_. False)\<rparr> :: Disk"
  obtain n d1 where run: "NewTemporaryFile ?os ?t None ''t'' '''' \<lparr>plBytes = ''abc'', plErr = None\<rparr> [2] ?d = (Inr ''t/1'', n, d1)"
    by (simp add: NewTemporaryFile_def fill_file_def copy_payload_def io_CopyN_def Let_def)
  have "\<forall>dir pre d' p. ?t dir pre d' = Inr p \<longrightarrow> Files d' p = None" by auto
  from temporary_file_holds [OF this run] show ?thesis using run by auto
qed

subsection \<open>Addresses\<close>

text \<open>\<open>header\<close> is the first value of a header, the empty text when there is none.\<close>

definition GetClientIP :: "(string \<Rightarrow> string) \<Rightarrow> string \<Rightarrow> string" where
  "GetClientIP header remoteAddr =
     (let ip0 = header ''X-Real-IP'';
          ip1 = (if ip0 = '''' then header ''X-Forwarded-For'' else ip0);
          ip = (if ip1 = '''' then remoteAddr else ip1)
      in case last_index_byte (CHR '':'') ip of Some colon \<Rightarrow> take colon ip | None \<Rightarrow> ip)"

datatype net_addr = IPNet string | IPAddr string | OtherAddr

fun addr_loop :: "net_addr list \<Rightarrow> string \<Rightarrow> string" where
  "addr_loop [] ip = ip"
| "addr_loop (a # as) ip = addr_loop as (case a of IPNet s \<Rightarrow> s | IPAddr s \<Rightarrow> s | OtherAddr \<Rightarrow> ip)"

fun iface_loop :: "(string + net_addr list) list \<Rightarrow> string \<Rightarrow> string + string" where
  "iface_loop [] ip = Inr ip"
| "iface_loop (i # is) ip =
     (case i of
        Inl e \<Rightarrow> Inl (''ltick utility: get server address: '' @ e)
      | Inr as \<Rightarrow> iface_loop is (addr_loop as ip))"

text \<open>The address that was found is kept for good.\<close>

definition GetServerAddress :: "string + (string + net_addr list) list \<Rightarrow> string option \<Rightarrow> (string + string) \<times> string option" where
  "GetServerAddress interfaces serverAddress =
     (case serverAddress of
        Some a \<Rightarrow> (Inr a, serverAddress)
      | None \<Rightarrow>
          (case interfaces of
             Inl e \<Rightarrow> (Inl (''ltick utility: get server address: '' @ e), None)
           | Inr ifs \<Rightarrow> (case iface_loop ifs '''' of Inl e \<Rightarrow> (Inl e, None) | Inr ip \<Rightarrow> (Inr ip, Some ip))))"

lemma last_index_colon: "CHR '':'' \<notin> set port \<Longrightarrow> last_index_byte (CHR '':'') (host @ '':'' @ port) = Some (length host)"
proof -
  assume "CHR '':'' \<notin> set port"
  then have "index_byte (CHR '':'') (rev port @ CHR '':'' # rev host) = Some (length port)"
    using index_byte_first [of "CHR '':''" "rev port" "rev host"] by simp
  then show ?thesis by (simp add: last_index_byte_def)
qed

text \<open>
  The client of a connection is found without its port. An IPv6 address in one of the headers has no port, and loses what
  follows its last colon.
\<close>

theorem GetClientIP_cuts:
  assumes "CHR '':'' \<notin> set port" and "header ''X-Real-IP'' = ''''" and "header ''X-Forwarded-For'' = ''''"
  shows "GetClientIP header (host @ '':'' @ port) = host"
    and "GetClientIP (header(''X-Real-IP'' := host @ '':'' @ port)) remote = host"
  using assms last_index_colon [of port host] by (simp_all add: GetClientIP_def Let_def)

definition texts_of :: "net_addr list \<Rightarrow> string list" where
  "texts_of as = concat (map (\<lambda>a. case a of IPNet s \<Rightarrow> [s] | IPAddr s \<Rightarrow> [s] | OtherAddr \<Rightarrow> []) as)"

lemma addr_loop_last: "addr_loop as ip = last (ip # texts_of as)"
  by (induction as arbitrary: ip) (auto simp: texts_of_def split: net_addr.split)

lemma iface_loop_last: "iface_loop (map Inr ass) ip = Inr (last (ip # texts_of (concat ass)))"
proof (induction ass arbitrary: ip)
  case (Cons as ass)
  then show ?case by (simp add: addr_loop_last texts_of_def last_append)
qed (simp add: texts_of_def)

text \<open>
  The server's address is the last address of the last interface that has one, whether it is local or not; once found it
  stays, whatever happens to the interfaces.
\<close>

theorem GetServerAddress_last:
  "GetServerAddress (Inr (map Inr ass)) None = (Inr (last ('''' # texts_of (concat ass))), Some (last ('''' # texts_of (concat ass))))"
  "GetServerAddress interfaces (Some a) = (Inr a, Some a)"
  by (simp_all add: GetServerAddress_def iface_loop_last)

subsection \<open>Random texts and hashes\<close>

definition random_alphabet :: string where
  "random_alphabet = ''0123456789abcdefghijklmnopqrstuvwxyzABCDEFGHIJKLMNOPQRSTUVWXYZ''"

text \<open>\<open>draw i\<close> is the \<open>i\<close>-th number of the generator, below the length of the alphabet.\<close>

definition RandomString :: "(nat \<Rightarrow> nat) \<Rightarrow> int \<Rightarrow> string" where
  "RandomString draw len = map (\<lambda>i. random_alphabet ! draw i) [0..<nat len]"

theorem RandomString_letters:
  assumes "\<forall>i. draw i < 62"
  shows "length (RandomString draw len) = nat len" and "set (RandomString draw len) \<subseteq> set random_alphabet"
proof -
  have "length random_alphabet = 62" by (simp add: random_alphabet_def)
  then show "set (RandomString draw len) \<subseteq> set random_alphabet" using assms by (auto simp: RandomString_def)
qed (simp add: RandomString_def)

definition RandomBytes :: "(nat \<Rightarrow> string option \<times> string) \<Rightarrow> nat \<Rightarrow> string outcome" where
  "RandomBytes read n = (case read n of (Some e, _) \<Rightarrow> Inl (ExplicitPanic e) | (None, b) \<Rightarrow> Inr b)"

definition HexSha256 :: "(string \<Rightarrow> string) \<Rightarrow> string \<Rightarrow> string" where
  "HexSha256 sha256 data = hex_EncodeToString (sha256 data)"

definition Md5Byte :: "(string \<Rightarrow> string) \<Rightarrow> string \<Rightarrow> string" where
  "Md5Byte md5 txt = hex_EncodeToString (md5 txt)"

text \<open>A reader with its position; seeking and copying may fail. The text of the hash and the position afterwards.\<close>

definition Base64Md5ReadSeeker ::
    "(string \<Rightarrow> string) \<Rightarrow> (string \<Rightarrow> string) \<Rightarrow> (nat \<Rightarrow> string option) \<Rightarrow> payload \<Rightarrow> nat \<Rightarrow> (string + string) \<times> nat" where
  "Base64Md5ReadSeeker md5 base64 seekErr pl pos =
     (case seekErr 0 of
        Some e \<Rightarrow> (Inl e, pos)
      | None \<Rightarrow>
          (case plErr pl of
             Some e \<Rightarrow> (Inl e, length (plBytes pl))
           | None \<Rightarrow>
               (case seekErr 1 of
                  Some e \<Rightarrow> (Inl e, length (plBytes pl))
                | None \<Rightarrow> (Inr (base64 (md5 (plBytes pl))), 0))))"

definition Md5File :: "(string \<Rightarrow> string) \<Rightarrow> payload \<Rightarrow> string + string" where
  "Md5File md5 pl = (case plErr pl of Some e \<Rightarrow> Inl e | None \<Rightarrow> Inr (md5 (plBytes pl)))"

subsection \<open>Durations in JSON\<close>

text \<open>\<^verbatim>\<open>Duration.String\<close> and \<^verbatim>\<open>time.ParseDuration\<close> of the standard library are arguments.\<close>

definition Duration_MarshalJSON :: "(int \<Rightarrow> string) \<Rightarrow> int \<Rightarrow> string" where
  "Duration_MarshalJSON text d = text d"

definition Duration_UnmarshalJSON :: "(string \<Rightarrow> string + int) \<Rightarrow> string \<Rightarrow> int \<Rightarrow> string option \<times> int" where
  "Duration_UnmarshalJSON parse data d = (case parse data of Inl e \<Rightarrow> (Some e, 0) | Inr v \<Rightarrow> (None, v))"

definition Duration_UnmarshalText :: "(string \<Rightarrow> string + int) \<Rightarrow> string \<Rightarrow> int \<Rightarrow> string option \<times> int" where
  "Duration_UnmarshalText parse data d = (case parse data of Inl e \<Rightarrow> (Some e, 0) | Inr v \<Rightarrow> (None, v))"

text \<open>
  A duration is read back from what \<^verbatim>\<open>MarshalJSON\<close> gives. That text has no quotes, so it is not a JSON value; a JSON string, which
  arrives with its quotes, is not read.
\<close>

theorem duration_not_json:
  assumes "\<And>d. parse (text d) = Inr d" and "\<And>s. s \<noteq> '''' \<Longrightarrow> hd s = CHR 0x22 \<Longrightarrow> \<exists>e. parse s = Inl e"
  shows "Duration_UnmarshalJSON parse (Duration_MarshalJSON text d) d' = (None, d)"
    and "\<exists>e. Duration_UnmarshalJSON parse ([CHR 0x22] @ text d @ [CHR 0x22]) d' = (Some e, 0)"
    and "text d \<noteq> '''' \<Longrightarrow> hd (Duration_MarshalJSON text d) \<noteq> CHR 0x22"
proof -
  show "Duration_UnmarshalJSON parse (Duration_MarshalJSON text d) d' = (None, d)"
    by (simp add: Duration_UnmarshalJSON_def Duration_MarshalJSON_def assms(1))
  show "\<exists>e. Duration_UnmarshalJSON parse ([CHR 0x22] @ text d @ [CHR 0x22]) d' = (Some e, 0)"
    using assms(2) [of "[CHR 0x22] @ text d @ [CHR 0x22]"] by (auto simp: Duration_UnmarshalJSON_def)
  show "text d \<noteq> '''' \<Longrightarrow> hd (Duration_MarshalJSON text d) \<noteq> CHR 0x22"
    using assms(1) [of d] assms(2) [of "text d"] by (auto simp: Duration_MarshalJSON_def)
qed

end
