(* ===== verification/Body_Binding.thy ===== *)
theory Body_Binding
  imports Utility_Misc
begin

text \<open>
  The body of a request in \<^verbatim>\<open>src/api/context_request.go\<close>: form values, \<^verbatim>\<open>BindForm\<close>, \<^verbatim>\<open>BindJSON\<close> and \<^verbatim>\<open>BindXML\<close>, and the bytes of the
  body within a limit. Parsing of forms and the decoders of the standard library are arguments.
\<close>

subsection \<open>Form values\<close>

text \<open>The form of a request: \<open>None\<close> before it was parsed; \<open>parse\<close> is \<^verbatim>\<open>ParseMultipartForm\<close>, whose error is ignored.\<close>

record form_state =
  fsPostForm :: "(string \<Rightarrow> string list) option"
  fsMultipart :: bool

definition makeSureParseMultipartForm :: "(form_state \<Rightarrow> form_state) \<Rightarrow> form_state \<Rightarrow> form_state" where
  "makeSureParseMultipartForm parse st = (if fsPostForm st = None \<or> \<not> fsMultipart st then parse st else st)"

definition values_of :: "form_state \<Rightarrow> string \<Rightarrow> string list" where
  "values_of st key = (case fsPostForm st of Some f \<Rightarrow> f key | None \<Rightarrow> [])"

definition FormParams :: "(form_state \<Rightarrow> form_state) \<Rightarrow> string \<Rightarrow> form_state \<Rightarrow> string list \<times> form_state" where
  "FormParams parse key st = (let st1 = makeSureParseMultipartForm parse st in (values_of st1 key, st1))"

text \<open>\<^verbatim>\<open>PostFormValue\<close> parses again only when the form is still missing; its default limit does not matter here.\<close>

definition FormParam :: "(form_state \<Rightarrow> form_state) \<Rightarrow> string \<Rightarrow> form_state \<Rightarrow> string \<times> form_state" where
  "FormParam parse key st =
     (let st1 = makeSureParseMultipartForm parse st;
          st2 = (if fsPostForm st1 = None then parse st1 else st1)
      in (case values_of st2 key of v # _ \<Rightarrow> v | [] \<Rightarrow> '''', st2))"

subsection \<open>Binding a form\<close>

text \<open>A field of a struct: its name, whether it is embedded and exported, its tag and its value.\<close>

record 'f form_field =
  ffName :: string
  ffAnonymous :: bool
  ffExported :: bool
  ffTag :: string
  ffValue :: "'f dest"

datatype 'f bind_object = NoPointer | PointerToOther | PointerToStruct "'f form_field list"

definition field_key :: "(string \<Rightarrow> string) option \<Rightarrow> 'f form_field \<Rightarrow> string outcome" where
  "field_key mapper f =
     (if ffTag f \<noteq> '''' then Inr (ffTag f)
      else case mapper of None \<Rightarrow> Inl NilDereference | Some m \<Rightarrow> Inr (m (ffName f)))"

text \<open>The fields one after the other; the first error stops, and what was assigned before stays.\<close>

fun bind_fields ::
    "(string \<Rightarrow> nat \<Rightarrow> num_error + 'f) \<Rightarrow> (string \<Rightarrow> string) option \<Rightarrow> (form_state \<Rightarrow> form_state) \<Rightarrow> form_state \<Rightarrow> 'f form_field list \<Rightarrow>
     (convert_error option \<times> 'f form_field list) outcome" where
  "bind_fields parseFloat mapper parse st [] = Inr (None, [])"
| "bind_fields parseFloat mapper parse st (f # fs) =
     (if ffAnonymous f then map_sum id (\<lambda>(e, gs). (e, f # gs)) (bind_fields parseFloat mapper parse st fs)
      else case field_key mapper f of
             Inl p \<Rightarrow> Inl p
           | Inr key \<Rightarrow>
               (case FormParams parse key st of
                  (vals, st1) \<Rightarrow>
                    (case ConvertAssign parseFloat (ffExported f) (ffValue f) vals of
                       (Some e, v) \<Rightarrow> Inr (Some e, f\<lparr>ffValue := v\<rparr> # fs)
                     | (None, v) \<Rightarrow> map_sum id (\<lambda>(e, gs). (e, f\<lparr>ffValue := v\<rparr> # gs)) (bind_fields parseFloat mapper parse st1 fs))))"

datatype form_error = NotStructPointer | FieldError convert_error

definition BindForm ::
    "(string \<Rightarrow> nat \<Rightarrow> num_error + 'f) \<Rightarrow> (string \<Rightarrow> string) option \<Rightarrow> (form_state \<Rightarrow> form_state) \<Rightarrow> form_state \<Rightarrow> 'f bind_object \<Rightarrow>
     (form_error option \<times> 'f bind_object) outcome" where
  "BindForm parseFloat mapper parse st obj =
     (case obj of
        NoPointer \<Rightarrow> Inr (Some NotStructPointer, obj)
      | PointerToOther \<Rightarrow> Inr (Some NotStructPointer, obj)
      | PointerToStruct fs \<Rightarrow>
          map_sum id (\<lambda>(e, gs). (map_option FieldError e, PointerToStruct gs))
            (bind_fields parseFloat mapper parse st fs))"

lemma parse_once:
  assumes "\<And>s. parse (parse s) = parse s"
  shows "fst (FormParams parse k (snd (FormParams parse k' st))) = fst (FormParams parse k st)"
  using assms by (simp add: FormParams_def makeSureParseMultipartForm_def Let_def)

lemma bind_fields_ok:
  assumes "\<And>s. parse (parse s) = parse s"
  shows "bind_fields pf mapper parse st fs = Inr (None, gs) \<Longrightarrow>
     length gs = length fs \<and> (\<forall>i < length fs. if ffAnonymous (fs ! i) then gs ! i = fs ! i
       else \<exists>key v. field_key mapper (fs ! i) = Inr key \<and>
              ConvertAssign pf (ffExported (fs ! i)) (ffValue (fs ! i)) (fst (FormParams parse key st)) = (None, v) \<and>
              gs ! i = (fs ! i)\<lparr>ffValue := v\<rparr>)"
proof (induction fs arbitrary: gs st)
  case (Cons f fs)
  have tail: "\<exists>hs. map_sum id (\<lambda>(e, hs). (e, h # hs)) r = Inr (None, gs) \<longrightarrow> gs = h # hs \<and> r = Inr (None, hs)" for h r
    by (cases r) auto
  obtain g gs' st1 where gs: "gs = g # gs'" "bind_fields pf mapper parse st1 fs = Inr (None, gs')"
    and st1: "st1 = st \<or> (\<exists>k. st1 = snd (FormParams parse k st))"
    and g: "if ffAnonymous f then g = f
       else \<exists>key v. field_key mapper f = Inr key \<and> ConvertAssign pf (ffExported f) (ffValue f) (fst (FormParams parse key st)) = (None, v) \<and>
              g = f\<lparr>ffValue := v\<rparr>"
  proof (cases "ffAnonymous f")
    case True
    then show thesis using that [of f _ st] Cons.prems tail [of f "bind_fields pf mapper parse st fs"] by auto
  next
    case False
    then obtain key where key: "field_key mapper f = Inr key" using Cons.prems by (auto split: sum.splits)
    obtain vals st1 where fp: "FormParams parse key st = (vals, st1)" by (cases "FormParams parse key st")
    obtain v where v: "ConvertAssign pf (ffExported f) (ffValue f) vals = (None, v)"
      using Cons.prems False key fp by (cases "ConvertAssign pf (ffExported f) (ffValue f) vals") (auto split: option.splits)
    have "map_sum id (\<lambda>(e, hs). (e, f\<lparr>ffValue := v\<rparr> # hs)) (bind_fields pf mapper parse st1 fs) = Inr (None, gs)"
      using Cons.prems False key fp v by simp
    then obtain hs where "gs = f\<lparr>ffValue := v\<rparr> # hs" "bind_fields pf mapper parse st1 fs = Inr (None, hs)" using tail by blast
    moreover have "st1 = snd (FormParams parse key st)" "vals = fst (FormParams parse key st)" using fp by simp_all
    ultimately show thesis using that [of "f\<lparr>ffValue := v\<rparr>" hs st1] False key v by auto
  qed
  have "fst (FormParams parse k st1) = fst (FormParams parse k st)" for k
    using st1 parse_once [of parse k, OF assms] by auto
  then show ?case using Cons.IH [OF gs(2)] g by (auto simp: gs(1) nth_Cons split: nat.split)
qed simp

text \<open>
  When \<^verbatim>\<open>BindForm\<close> succeeds, every field that is not embedded has the value converted from the form values under its key (its tag,
  or its mapped name), a field without values keeps the value it had, and embedded fields stay as they were. Parsing a form
  again changes nothing, as the standard library promises.
\<close>

theorem BindForm_assigns:
  assumes "\<And>s. parse (parse s) = parse s" and "BindForm pf mapper parse st (PointerToStruct fs) = Inr (None, obj)"
  shows "\<exists>gs. obj = PointerToStruct gs \<and> length gs = length fs \<and> (\<forall>i < length fs.
    if ffAnonymous (fs ! i) then gs ! i = fs ! i
    else \<exists>key v. field_key mapper (fs ! i) = Inr key \<and> gs ! i = (fs ! i)\<lparr>ffValue := v\<rparr> \<and>
      ConvertAssign pf (ffExported (fs ! i)) (ffValue (fs ! i)) (fst (FormParams parse key st)) = (None, v) \<and>
      (fst (FormParams parse key st) = [] \<longrightarrow> v = ffValue (fs ! i)))"
proof -
  obtain gs where gs: "bind_fields pf mapper parse st fs = Inr (None, gs)" "obj = PointerToStruct gs"
    using assms(2) by (auto simp: BindForm_def map_sum_def split: sum.splits)
  have "ConvertAssign pf b d [] = (None, v) \<Longrightarrow> v = d" for b d v by (simp add: ConvertAssign_def)
  then show ?thesis using bind_fields_ok [OF assms(1) gs(1)] gs(2) by (fastforce split: if_splits)
qed

subsection \<open>Decoding a body\<close>

text \<open>
  \<open>unmarshal\<close> decodes a text into a value and says whether it failed. A pointer is decoded into, and then decoded into a
  second time through the address of the parameter; a value that is not a pointer is only decoded into the parameter, which
  the caller does not see. The type of nil has no kind.
\<close>

datatype 'v decode_target = NilTarget | ByValue 'v | ByPointer 'v

definition decode_into :: "(string \<Rightarrow> 'v \<Rightarrow> string option \<times> 'v) \<Rightarrow> string \<Rightarrow> 'v decode_target \<Rightarrow> (string option \<times> 'v decode_target) outcome" where
  "decode_into unmarshal raw obj =
     (case obj of
        NilTarget \<Rightarrow> Inl NilDereference
      | ByPointer v \<Rightarrow>
          (case unmarshal raw v of
             (Some e, v1) \<Rightarrow> Inr (Some e, ByPointer v1)
           | (None, v1) \<Rightarrow> (case unmarshal raw v1 of (e, v2) \<Rightarrow> Inr (e, ByPointer v2)))
      | ByValue v \<Rightarrow> Inr (fst (unmarshal raw v), ByValue v))"

definition BindJSON :: "(string \<Rightarrow> 'v \<Rightarrow> string option \<times> 'v) \<Rightarrow> payload \<Rightarrow> 'v decode_target \<Rightarrow> (string option \<times> 'v decode_target) outcome" where
  "BindJSON unmarshal body obj = (case plErr body of Some e \<Rightarrow> Inr (Some e, obj) | None \<Rightarrow> decode_into unmarshal (plBytes body) obj)"

text \<open>\<^verbatim>\<open>BindXML\<close> ignores the error of reading.\<close>

definition BindXML :: "(string \<Rightarrow> 'v \<Rightarrow> string option \<times> 'v) \<Rightarrow> payload \<Rightarrow> 'v decode_target \<Rightarrow> (string option \<times> 'v decode_target) outcome" where
  "BindXML unmarshal body obj = decode_into unmarshal (plBytes body) obj"

text \<open>
  A value that is not a pointer is never bound, also when no error is reported. A pointer is bound to what the decoder gives,
  for decoders that change nothing when they decode the same text again.
\<close>

theorem BindJSON_binds_pointers:
  assumes "plErr body = None"
  shows "\<exists>e. BindJSON unmarshal body (ByValue v) = Inr (e, ByValue v) \<and> e = fst (unmarshal (plBytes body) v)"
    and "(\<And>v v1. unmarshal (plBytes body) v = (None, v1) \<Longrightarrow> unmarshal (plBytes body) v1 = (None, v1)) \<Longrightarrow>
      BindJSON unmarshal body (ByPointer v) = Inr (map_prod id ByPointer (unmarshal (plBytes body) v))"
  using assms by (auto simp: BindJSON_def decode_into_def split: prod.splits option.splits)

subsection \<open>The bytes of a body\<close>

text \<open>The part of a context for this: the bytes that were kept, the body, and the limit.\<close>

record body_state =
  memoryStoreByte :: "string option"
  bsBody :: "payload option"
  multipartMaxMemory :: int

text \<open>\<^verbatim>\<open>io.LimitedReader\<close> read to its end, and \<^verbatim>\<open>io.MultiReader\<close> of a buffer and a reader.\<close>

definition read_limited :: "int \<Rightarrow> payload \<Rightarrow> string \<times> payload" where
  "read_limited n pl = (take (nat n) (plBytes pl), pl\<lparr>plBytes := drop (nat n) (plBytes pl)\<rparr>)"

definition multi_reader :: "string \<Rightarrow> payload \<Rightarrow> payload" where
  "multi_reader buf pl = pl\<lparr>plBytes := buf @ plBytes pl\<rparr>"

definition LimitedBodyBytes :: "body_state \<Rightarrow> string \<times> body_state" where
  "LimitedBodyBytes st =
     (case memoryStoreByte st of
        Some b \<Rightarrow> (b, st)
      | None \<Rightarrow>
          (case bsBody st of
             None \<Rightarrow> ('''', st\<lparr>memoryStoreByte := Some ''''\<rparr>)
           | Some pl \<Rightarrow>
               (case read_limited (multipartMaxMemory st) pl of
                  (b, rest) \<Rightarrow> (b, st\<lparr>memoryStoreByte := Some b, bsBody := Some (multi_reader b rest)\<rparr>))))"

text \<open>
  The bytes are the first of the body, at most as many as the limit; the body can still be read from its start, with the error
  that ends it, and every later call gives the same bytes.
\<close>

theorem LimitedBodyBytes_keeps_body:
  assumes "memoryStoreByte st = None" and "LimitedBodyBytes st = (b, st1)"
  shows "bsBody st1 = bsBody st" and "b = (case bsBody st of None \<Rightarrow> '''' | Some pl \<Rightarrow> take (nat (multipartMaxMemory st)) (plBytes pl))"
    and "LimitedBodyBytes st1 = (b, st1)"
  using assms by (auto simp: LimitedBodyBytes_def read_limited_def multi_reader_def split: option.splits)

end
