(* ===== verification/Defaults.thy ===== *)
theory Defaults
  imports Http_Client Redis_Store
begin

text \<open>
  \<^verbatim>\<open>src/defaults.go\<close>: the default collectors, the default log functions and the access log. That the default collectors
  go together with the default label functions is what makes reporting work without any setting.
\<close>

subsection \<open>Collectors\<close>

text \<open>How a collector is made: its name, help text, buckets (in thousandths) and labels.\<close>

record collector_opts =
  coName :: string
  coHelp :: string
  coBuckets :: "int list"
  coLabels :: "string list"

definition request_label_names :: "string list" where
  "request_label_names = [''server_addr'', ''host'', ''method'', ''uri'', ''status'']"

definition latency_buckets :: "int list" where "latency_buckets = [250, 500, 1000, 2500, 5000, 10000]"
definition size_buckets :: "int list" where "size_buckets = [200000, 500000, 900000, 1500000]"
definition trace_buckets :: "int list" where "trace_buckets = [5, 10, 20, 50]"

definition defaultMetricsHttpServerRequests :: collector_opts where
  "defaultMetricsHttpServerRequests = \<lparr>coName = ''http_server_requests_seconds'', coHelp = ''A histogram of request latencies for requests.'',
     coBuckets = latency_buckets, coLabels = request_label_names\<rparr>"

definition defaultMetricsHttpServerRequestsResponseSize :: collector_opts where
  "defaultMetricsHttpServerRequestsResponseSize = \<lparr>coName = ''http_server_requests_response_size_bytes'',
     coHelp = ''A histogram of response size for requests.'', coBuckets = size_buckets, coLabels = request_label_names\<rparr>"

definition defaultMetricsHttpServerRequestsRequestSize :: collector_opts where
  "defaultMetricsHttpServerRequestsRequestSize = \<lparr>coName = ''http_server_requests_request_size_bytes'',
     coHelp = ''A histogram of request size for requests.'', coBuckets = size_buckets, coLabels = request_label_names\<rparr>"

definition defaultMetricsHttpServerRequestsTrace :: collector_opts where
  "defaultMetricsHttpServerRequestsTrace = \<lparr>coName = ''http_server_requests_trace_seconds'',
     coHelp = ''A histogram of request trace latencies for requests.'', coBuckets = latency_buckets, coLabels = ''event'' # request_label_names\<rparr>"

text \<open>A gauge without labels.\<close>

definition defaultMetricsHttpClientRequestsInFlight :: collector_opts where
  "defaultMetricsHttpClientRequestsInFlight = \<lparr>coName = ''http_client_requests_in_flight'',
     coHelp = ''A gauge of in-flight requests for the wrapped client.'', coBuckets = [], coLabels = []\<rparr>"

definition defaultMetricsHttpClientRequestsCounter :: collector_opts where
  "defaultMetricsHttpClientRequestsCounter = \<lparr>coName = ''http_client_requests_total'',
     coHelp = ''A counter of requests from the wrapped client.'', coBuckets = [], coLabels = request_label_names\<rparr>"

definition defaultMetricsHttpClientRequests :: collector_opts where
  "defaultMetricsHttpClientRequests = \<lparr>coName = ''http_client_requests_seconds'', coHelp = ''A histogram of request latencies for requests.'',
     coBuckets = latency_buckets, coLabels = request_label_names\<rparr>"

text \<open>The five trace histograms of a client: \<^verbatim>\<open>connection\<close>, \<^verbatim>\<open>connect\<close>, \<^verbatim>\<open>dns\<close>, \<^verbatim>\<open>tls\<close> and \<^verbatim>\<open>request\<close>.\<close>

definition client_trace :: "string \<Rightarrow> collector_opts" where
  "client_trace what = \<lparr>coName = ''http_client_requests_trace_'' @ what @ ''_seconds'',
     coHelp = ''A histogram of request trace latencies for '' @ what @ ''.'', coBuckets = trace_buckets,
     coLabels = [''event'', ''server_addr'', ''host'', ''method'', ''uri'']\<rparr>"

definition init_collectors :: "collector_opts list" where
  "init_collectors =
     [defaultMetricsHttpServerRequests, defaultMetricsHttpServerRequestsResponseSize, defaultMetricsHttpServerRequestsRequestSize,
      defaultMetricsHttpServerRequestsTrace, defaultMetricsHttpClientRequestsInFlight, defaultMetricsHttpClientRequestsCounter,
      defaultMetricsHttpClientRequests, client_trace ''connection'', client_trace ''connect'', client_trace ''dns'', client_trace ''tls'',
      client_trace ''request'']"

lemmas collector_defs = init_collectors_def defaultMetricsHttpServerRequests_def defaultMetricsHttpServerRequestsResponseSize_def
  defaultMetricsHttpServerRequestsRequestSize_def defaultMetricsHttpServerRequestsTrace_def defaultMetricsHttpClientRequestsInFlight_def
  defaultMetricsHttpClientRequestsCounter_def defaultMetricsHttpClientRequests_def client_trace_def request_label_names_def

lemma init_collectors_labels:
  "c \<in> set init_collectors \<Longrightarrow> set (coLabels c) \<subseteq> supported \<union> {''event''}"
  by (auto simp: collector_defs supported_def)

text \<open>
  The default collectors and the default labels belong together: for each of the collectors, made by a package that keeps
  what \<open>prom_vec\<close> says, the default label function of a server returns labels the collector accepts, for every request and
  status, provided the event is given exactly to the collectors that trace. And the names differ, so all can be registered.
\<close>

theorem default_collectors_fit:
  assumes "prom_vec P c (coLabels o1) {}" and "o1 \<in> set init_collectors"
  shows "\<exists>ls. defaultMetricsHttpServerRequestLabelFunc P addr c d r
      (if ''event'' \<in> set (coLabels o1) then Some [''event'' \<mapsto> ev] else None) = Inr ls \<and> pWith P c ls"
    and "distinct (map coName init_collectors)"
proof -
  have "set (coLabels o1) - {} \<subseteq> supported \<union> {''event''}" using init_collectors_labels [OF assms(2)] by simp
  from default_labels_at [OF assms(1) this, of _ ev addr d r]
  show "\<exists>ls. defaultMetricsHttpServerRequestLabelFunc P addr c d r
      (if ''event'' \<in> set (coLabels o1) then Some [''event'' \<mapsto> ev] else None) = Inr ls \<and> pWith P c ls" by auto
  show "distinct (map coName init_collectors)" by (simp add: collector_defs)
qed

theorem default_collectors_fit_witness:
  "\<forall>r d. \<exists>ls. defaultMetricsHttpServerRequestLabelFunc demo_prom ''a'' (coLabels defaultMetricsHttpServerRequestsTrace) d r
      (Some [''event'' \<mapsto> ''e'']) = Inr ls \<and> pWith demo_prom (coLabels defaultMetricsHttpServerRequestsTrace) ls"
proof (intro allI)
  fix r d
  have "''event'' \<in> set (coLabels defaultMetricsHttpServerRequestsTrace)" by (simp add: collector_defs)
  moreover have "defaultMetricsHttpServerRequestsTrace \<in> set init_collectors" by (simp add: init_collectors_def)
  ultimately show "\<exists>ls. defaultMetricsHttpServerRequestLabelFunc demo_prom ''a'' (coLabels defaultMetricsHttpServerRequestsTrace) d r
      (Some [''event'' \<mapsto> ''e'']) = Inr ls \<and> pWith demo_prom (coLabels defaultMetricsHttpServerRequestsTrace) ls"
    using default_collectors_fit(1) [OF demo_prom_vec, of defaultMetricsHttpServerRequestsTrace "''a''" d r "''e''"] by simp
qed

subsection \<open>Log functions\<close>

text \<open>
  The two functions that a program may set, as numbers, and what is logged: by which function (\<open>None\<close> is \<^verbatim>\<open>log.Printf\<close>), the
  format and the arguments.
\<close>

record log_settings =
  customLog :: "nat option"
  customErrorLog :: "nat option"

datatype log_arg = AValue goval | AText string | ANum int | ATime | ASeconds int | AHeader "(string \<times> string list) list"

type_synonym log_call = "nat option \<times> string \<times> log_arg list"

definition SetDefaultLogFunc :: "nat option \<Rightarrow> log_settings \<Rightarrow> log_settings" where
  "SetDefaultLogFunc f s = s\<lparr>customLog := f\<rparr>"

definition SetDefaultErrorLogFunc :: "nat option \<Rightarrow> log_settings \<Rightarrow> log_settings" where
  "SetDefaultErrorLogFunc f s = s\<lparr>customErrorLog := f\<rparr>"

definition DefaultLogFunc :: "log_settings \<Rightarrow> string \<Rightarrow> log_arg list \<Rightarrow> log_call" where
  "DefaultLogFunc s format args = (case customLog s of Some f \<Rightarrow> (Some f, format, args) | None \<Rightarrow> (None, format, args))"

definition DefaultErrorLogFunc :: "log_settings \<Rightarrow> nat option" where
  "DefaultErrorLogFunc s = (case customErrorLog s of Some f \<Rightarrow> Some f | None \<Rightarrow> None)"

text \<open>
  A request as the access log sees it: the values of its context (\<open>GNil\<close> where there is none) under texts and under
  \<^verbatim>\<open>http.LocalAddrContextKey\<close>, its parts, and the response. The elapsed time is in milliseconds.
\<close>

record access_request =
  arContext :: "string \<Rightarrow> goval"
  arLocalAddr :: goval
  arRemoteAddr :: string
  arHost :: string
  arMethod :: string
  arRequestURI :: string
  arProto :: string
  arContentLength :: int
  arHeader :: "(string \<times> string list) list"
  arReferer :: string
  arUserAgent :: string

record access_response =
  awStatus :: int
  awBytesWritten :: int
  awHeader :: "(string \<times> string list) list"

definition dquote :: string where "dquote = [CHR 0x22]"

definition access_format :: "string \<Rightarrow> string" where
  "access_format tail =
     ''%s - %s [%s] '' @ dquote @ ''%s'' @ dquote @ '' %d %d %d %.3f '' @ dquote @ ''%s'' @ dquote @ '' '' @ dquote @ ''%s'' @ dquote @ '' %s %s '' @ tail"

definition debug_tail :: "bool \<Rightarrow> string" where
  "debug_tail debug = (if debug then dquote @ ''%v'' @ dquote @ '' '' @ dquote @ ''%v'' @ dquote else dquote @ ''-'' @ dquote @ '' '' @ dquote @ ''-'' @ dquote)"

definition access_args :: "access_request \<Rightarrow> access_response \<Rightarrow> int \<Rightarrow> bool \<Rightarrow> log_arg list" where
  "access_args req rw elapsed debug =
     [AValue (arContext req (arRemoteAddr req)), AText (arHost req), ATime, AText (arMethod req @ '' '' @ arRequestURI req @ '' '' @ arProto req),
      ANum (arContentLength req), ANum (awStatus rw), ANum (awBytesWritten rw), ASeconds elapsed, AText (arReferer req), AText (arUserAgent req),
      AText (arRemoteAddr req), AValue (arLocalAddr req)] @
     (if debug then [AHeader (arHeader req), AHeader (awHeader rw)] else [])"

definition DefaultAccessLogFunc :: "log_settings \<Rightarrow> access_request \<Rightarrow> access_response \<Rightarrow> int \<Rightarrow> log_call list outcome" where
  "DefaultAccessLogFunc s req rw elapsed =
     (let lines = (\<lambda>debug. Inr
        [DefaultLogFunc s (''LTICK_ACCESS|%s|%s|%s|'' @ access_format (debug_tail debug))
           ([AValue (arContext req ''uniqid''), AValue (arContext req ''requestId''), AValue (arLocalAddr req)] @ access_args req rw elapsed debug),
         DefaultLogFunc s (access_format (debug_tail debug)) (access_args req rw elapsed debug)])
      in case arContext req ''DEBUG'' of
           GNil \<Rightarrow> lines False
         | GBool b \<Rightarrow> lines b
         | _ \<Rightarrow> Inl TypeAssertion)"

text \<open>
  The client address of the access log is the value of the context under the remote address, not the address itself: where
  nobody put a value under that key, both lines show nothing for the client.
\<close>

theorem access_log_misses_client:
  assumes "arContext req (arRemoteAddr req) = GNil" and "DefaultAccessLogFunc s req rw elapsed = Inr calls"
  shows "length calls = 2 \<and> (snd (snd (calls ! 0))) ! 3 = AValue GNil \<and> (snd (snd (calls ! 1))) ! 0 = AValue GNil"
  using assms by (auto simp: DefaultAccessLogFunc_def DefaultLogFunc_def access_args_def Let_def split: goval.splits option.splits)

lemma formats_match:
  assumes "DefaultAccessLogFunc s req rw elapsed = Inr calls" and "(f, format, args) \<in> set calls"
  shows "length (filter (\<lambda>c. c = CHR 0x25) format) = length args"
  using assms by (auto simp: DefaultAccessLogFunc_def DefaultLogFunc_def access_args_def access_format_def debug_tail_def dquote_def Let_def
      split: goval.splits option.splits)

end
