(* ===== verification/Spec2Isabelle.thy ===== *)
theory Spec2Isabelle
  imports Block_Props Lru_File Conn_Pool Engine_Life Config_Template Config_Component Api_Binding Ip_Filter Merged_Context Session_Manager Session_Cookie Http_Response Queue_Component Filesystem_Component Http_Client Session_Component Engine_Services Pointer_Types Body_Binding Defaults
begin

text \<open>
  Verification of the tick framework, a Go framework for HTTP services (\<^verbatim>\<open>src/\<close>). An engine keeps a registry of
  components and middlewares, loads the configuration, injects components into each other, runs their life cycle in
  the order of their dependencies, and serves HTTP routes through a chain of callbacks and middlewares. Components
  that come with the framework are a file store, a redis key-value store, sessions, queues and the configuration
  itself; request handlers use an API layer that binds parameters to struct fields and writes responses.

  \<^bold>\<open>Reading the model.\<close> Go functions are HOL functions with the state they change as argument and result. A run-time panic
  is a value of type \<^verbatim>\<open>gopanic\<close> in a sum (\<^verbatim>\<open>outcome\<close>), an error a value of an error type or its text, a loop that need
  not end is a partial function into \<^verbatim>\<open>option\<close>, where \<^verbatim>\<open>None\<close> is the run that does not return. Bytes and strings are
  lists of 8-bit characters; sizes, offsets and lengths are words of their width where they can wrap around. Critical
  sections that goroutines interleave are single operations, and runs are sequences or inductive step relations over
  them. Code outside the repository (viper, redigo, the router package, gob, JSON, compression, MACs and ciphers, the
  clock, random numbers, Go's map order, the operating system's refusals) is an argument of the definitions; what a
  theorem uses of it is a predicate such as \<^verbatim>\<open>viper_laws\<close>, \<^verbatim>\<open>redis_laws\<close> or \<^verbatim>\<open>conf_laws\<close>, and the witness of the theorem
  gives an instance.

  \<^bold>\<open>Shared theories.\<close> \<^verbatim>\<open>Prelude\<close>: panics, slices, Go's string functions, big-endian integers, lemmas on lists and maps.
  \<^verbatim>\<open>Path_Util\<close>: \<^verbatim>\<open>filepath.Clean\<close> and \<^verbatim>\<open>filepath.Join\<close>. \<^verbatim>\<open>Text_Util\<close> (\<^verbatim>\<open>utility/string.go\<close>, \<^verbatim>\<open>byte.go\<close>, \<^verbatim>\<open>array.go\<close>): wildcard
  matching equals a declarative relation; snake case and camel case are inverse to each other. \<^verbatim>\<open>Utility_Misc\<close> (\<^verbatim>\<open>utility/file.go\<close>,
  \<^verbatim>\<open>net.go\<close>, \<^verbatim>\<open>random.go\<close>, \<^verbatim>\<open>hash.go\<close>, \<^verbatim>\<open>datatypes/duration.go\<close>): copying and creating files, addresses, random texts, durations.

  \<^bold>\<open>The file store.\<close> \<^verbatim>\<open>Kv_Record\<close> (\<^verbatim>\<open>utility/kvstore.go\<close>) is the record format with its 32-bit length arithmetic,
  \<^verbatim>\<open>Block_Index\<close> (\<^verbatim>\<open>filesystem/block/index.go\<close>) the binary index entry, \<^verbatim>\<open>Block_Store\<close> (\<^verbatim>\<open>block/file.go\<close>, \<^verbatim>\<open>block/block.go\<close>)
  the store with its files, index writer, dump and defragmentation. \<^verbatim>\<open>Block_Correct\<close> has the invariant (the index file
  is a log whose replay is the table, every entry points at its record) and shows that each operation keeps it;
  \<^verbatim>\<open>Block_Defrag\<close> does the same for defragmentation; \<^verbatim>\<open>Block_Props\<close> states the properties: the store refines a map under
  any interleaving, survives a restart at any moment, and defragmentation keeps the map. \<^verbatim>\<open>Lru_File\<close>
  (\<^verbatim>\<open>filesystem/file.go\<close>, \<^verbatim>\<open>lru_file.go\<close>) has both handlers; they know the store only through the locale
  \<^verbatim>\<open>block_contract\<close>, which \<^verbatim>\<open>block_store\<close> interprets on the block store. \<^verbatim>\<open>Filesystem_Component\<close> (\<^verbatim>\<open>filesystem/protocol.go\<close>,
  \<^verbatim>\<open>block/protocol.go\<close> and the \<^verbatim>\<open>Initiate\<close> methods) composes configuration, registries, handler and store into the
  component: its operations refine a map, and its settings never arrive.

  \<^bold>\<open>Engine.\<close> \<^verbatim>\<open>Registry\<close> (\<^verbatim>\<open>component.go\<close>, \<^verbatim>\<open>registry.go\<close>, \<^verbatim>\<open>middleware.go\<close>): registration and lookup; the locale
  \<^verbatim>\<open>named_registry\<close> holds what components and middlewares share, interpreted for both. \<^verbatim>\<open>Component_Sort\<close>: the dependency
  sort ends and is topological on acyclic components; injection. \<^verbatim>\<open>Engine\<close> (\<^verbatim>\<open>ltick.go\<close>): options, configuration, \<^verbatim>\<open>New\<close>,
  \<^verbatim>\<open>Startup\<close>, \<^verbatim>\<open>Shutdown\<close>; \<^verbatim>\<open>Engine_Life\<close> proves, through the locale \<^verbatim>\<open>lifecycle\<close>, that each component sees its calls in the
  order of its states whatever fails, and computes the log of a run. \<^verbatim>\<open>Config_Template\<close>: the substitution of
  placeholders in the configuration file. \<^verbatim>\<open>Engine_Services\<close>: what a running engine offers (built-in handlers, the proxied request,
  loggers, context values, the start of the servers, the rounds that refresh the configuration). \<^verbatim>\<open>Router\<close> (\<^verbatim>\<open>server.go\<close>, the server part of \<^verbatim>\<open>ltick.go\<close>): options, routes, the mesh of
  handlers, dispatch by host, nesting of callbacks and middlewares, the proxied URL. \<^verbatim>\<open>Conn_Pool\<close>
  (\<^verbatim>\<open>utility/pooling.go\<close>): the pool under any interleaving. \<^verbatim>\<open>Merged_Context\<close> (\<^verbatim>\<open>utility/context.go\<close>): the merged context.

  \<^bold>\<open>API layer.\<close> \<^verbatim>\<open>Convert\<close> (\<^verbatim>\<open>utility/convert.go\<close>, the times of \<^verbatim>\<open>convert_types.go\<close>): text to values of a type. \<^verbatim>\<open>Pointer_Types\<close> (the rest of
  \<^verbatim>\<open>convert_types.go\<close>): values and pointers over a store of cells; the locale \<^verbatim>\<open>pointer_type\<close> is the contract of the six
  copies per type and is interpreted for each. \<^verbatim>\<open>Body_Binding\<close> (the rest of \<^verbatim>\<open>api/context_request.go\<close>): form values, binding of forms
  and JSON, and the limited bytes of a body, which stays readable. \<^verbatim>\<open>Api_Params\<close> (\<^verbatim>\<open>api/param.go\<close>):
  tags and validation rules. \<^verbatim>\<open>Api_Binding\<close> (\<^verbatim>\<open>api/api_handler.go\<close>, \<^verbatim>\<open>api/handler.go\<close>): the parameters of an API, binding
  of a request, documentation. \<^verbatim>\<open>Accept_Encoding\<close> (\<^verbatim>\<open>api/acceptencoder\<close>): choice of encoding, pools of writers.
  \<^verbatim>\<open>Http_Request\<close>, \<^verbatim>\<open>File_Upload\<close> (\<^verbatim>\<open>api/context_request.go\<close>): what is asked of a request, secure cookies, stored uploads.
  \<^verbatim>\<open>Http_Response\<close> (\<^verbatim>\<open>api/response.go\<close>, \<^verbatim>\<open>api/context_response.go\<close>): responses with their headers, errors and copying.
  \<^verbatim>\<open>Ip_Filter\<close> (\<^verbatim>\<open>middleware/ipfilter.go\<close>): the white list.

  \<^bold>\<open>Components.\<close> \<^verbatim>\<open>Config_Component\<close> (\<^verbatim>\<open>config/\<close>): options, getters with environment keys, loading. \<^verbatim>\<open>Redis_Store\<close> (\<^verbatim>\<open>kvstore/\<close>):
  named connections and every command. \<^verbatim>\<open>Session_Store\<close> (\<^verbatim>\<open>session/redis.go\<close>, \<^verbatim>\<open>session/mysql.go\<close>): stores and
  providers, with the locale \<^verbatim>\<open>session_store\<close> for the two stores. \<^verbatim>\<open>Session_Manager\<close> (\<^verbatim>\<open>session/protocol.go\<close>,
  \<^verbatim>\<open>api/context.go\<close>): sessions of requests over any provider (locale \<^verbatim>\<open>session_provider\<close>, interpreted for redis and
  mysql). \<^verbatim>\<open>Session_Cookie\<close>: base64, counter mode, signed cookies. \<^verbatim>\<open>Session_Component\<close>: options, registry and start of
  the session component on the shared key-value store and database; sessions start in redis and never in mysql. \<^verbatim>\<open>Queue_Component\<close> (\<^verbatim>\<open>queue/\<close>): the kafka handler,
  offsets and producers. \<^verbatim>\<open>Mysql_Handler\<close> and \<^verbatim>\<open>Hbase_Handler\<close> (\<^verbatim>\<open>database/\<close>): the named gorm handles as pointers into a store, the
  channel of hbase clients for one goroutine and, as a step relation, for many; \<^verbatim>\<open>Database_Component\<close> puts both under the
  configuration. \<^verbatim>\<open>Log_Component\<close> (\<^verbatim>\<open>logger/\<close>): names, the configuration of logs, the loggers that are set up. \<^verbatim>\<open>Providers\<close>:
  the registries of all these packages as instances of the locale \<^verbatim>\<open>provider_registry\<close>.

  \<^bold>\<open>Metrics and the client.\<close> \<^verbatim>\<open>Metrics\<close> (\<^verbatim>\<open>metrics/delegator.go\<close>, \<^verbatim>\<open>delegator_1_8.go\<close>, \<^verbatim>\<open>collector.go\<close>): the writers that count what a handler
  sends, and the labels of a request. \<^verbatim>\<open>Instrument\<close> (\<^verbatim>\<open>metrics/instrument.go\<close>): the wrappers of handlers and transports, over
  the locale \<^verbatim>\<open>collector_kind\<close>, interpreted for the four kinds of collectors. \<^verbatim>\<open>Http_Client\<close> (\<^verbatim>\<open>client.go\<close>): the options and the
  stack of wrappers of a client; each request is reported once, and its context is dropped. \<^verbatim>\<open>Defaults\<close> (\<^verbatim>\<open>defaults.go\<close>): the default collectors, which fit the
  default labels, and the access log.

  \<^bold>\<open>Bounds and termination.\<close> Eight loops are partial functions: the search for a free upload name (\<^verbatim>\<open>free_from\<close>, ends when
  finitely many names exist), the copying loop of defragmentation (\<^verbatim>\<open>defrag_loop\<close>, ends on every file of whole
  records), the two loops of the dependency sort (\<^verbatim>\<open>find_roots\<close>, \<^verbatim>\<open>sort_component\<close>, end on acyclic components), the
  listing of redis sessions (\<^verbatim>\<open>all_loop\<close>, which does not end on a server that keeps its keys), the search for the labels of
  a collector (\<^verbatim>\<open>try_labels\<close>, ends for a collector with finitely many labels) and the closing of hbase clients
  (\<^verbatim>\<open>close_loop\<close>, which does not end while clients can be made), and the copying of a file (\<^verbatim>\<open>copy_file_loop\<close>, always ends from \<^verbatim>\<open>CopyFile\<close>). All other definitions
  are total. The block store is a map as long as offsets fit into 64 bits and records into 32: runs are bounded by
  2^30 operations, keys by 2^30 bytes and records by 2^32 bytes (larger ones panic, as \<^verbatim>\<open>oversized_record_panics\<close> shows).

  \<^bold>\<open>Not modelled.\<close> \<^verbatim>\<open>config/viper.go\<close> (passes calls on to viper, which is an argument of the configuration component),
  \<^verbatim>\<open>logger/customlogger.go\<close> (a writer in a field), \<^verbatim>\<open>utility/log.go\<close> (a type and an empty function), functions that only return a field or
  a constant or pass a call on (getters of contexts, responses and the engine, paths of the program itself); of the modelled files the
  parts that are only input and output: listening on sockets, signal handling, the timers that call garbage collection, dump and
  defragmentation (the called steps themselves are modelled).
\<close>

end
